(* ===== verification/Prelude.thy ===== *)
theory Prelude
  imports Main "HOL-Library.Word" "HOL-Library.Char_ord" "HOL-Library.List_Lexorder"
begin

section \<open>Shared vocabulary of the development\<close>

text \<open>
  What every component uses: 64-bit and 32-bit unsigned integers with Rust's saturating
  operations, byte strings with the string methods the sources call, the \<^verbatim>\<open>BTreeMap\<close> of the
  Rust standard library as a key-sorted association list together with its contract as a
  locale, results as sums, the sequence of clock readings and of random identifiers an
  operation consumes, and decimal printing.
\<close>

named_theorems wf_intros \<open>preservation of the components' well-formedness invariants\<close>

subsection \<open>Machine integers\<close>

type_synonym u64 = "64 word"
type_synonym u32 = "32 word"

definition sat_add :: "u64 \<Rightarrow> u64 \<Rightarrow> u64" where
  "sat_add a b = (if unat a + unat b < 2 ^ 64 then a + b else - 1)"

definition sat_sub :: "u64 \<Rightarrow> u64 \<Rightarrow> u64" where
  "sat_sub a b = (if b \<le> a then a - b else 0)"

definition sat_mul :: "u64 \<Rightarrow> u64 \<Rightarrow> u64" where
  "sat_mul a b = (if unat a * unat b < 2 ^ 64 then a * b else - 1)"

lemma u64_max_unat [simp]: "unat (- 1 :: u64) = 2 ^ 64 - 1"
  by (simp add: unsigned_minus_1_eq_mask mask_eq_exp_minus_1)

lemma u64_unat_less: "unat (a :: u64) < 2 ^ 64"
proof -
  have "unat a < 2 ^ LENGTH(64)" by (rule unsigned_less)
  then show ?thesis by simp
qed

lemma unat_sat_add: "unat (sat_add a b) = min (unat a + unat b) (2 ^ 64 - 1)"
proof (cases "unat a + unat b < 2 ^ 64")
  case True
  then show ?thesis by (simp add: sat_add_def unat_word_ariths)
next
  case False
  then show ?thesis by (simp add: sat_add_def u64_max_unat)
qed

lemma sat_add_ge: "a \<le> sat_add a b"
proof -
  have "unat a < 2 ^ 64" by (rule u64_unat_less)
  then show ?thesis by (simp add: word_le_nat_alt unat_sat_add)
qed

lemma unat_sat_sub: "unat (sat_sub a b) = unat a - unat b"
  by (auto simp: sat_sub_def word_le_nat_alt unat_sub)

lemma unat_sat_mul: "unat (sat_mul a b) = min (unat a * unat b) (2 ^ 64 - 1)"
proof (cases "unat a * unat b < 2 ^ 64")
  case True
  then show ?thesis by (simp add: sat_mul_def unat_word_ariths)
next
  case False
  then show ?thesis by (simp add: sat_mul_def u64_max_unat)
qed

lemma u64_less_succ: "a \<noteq> - 1 \<Longrightarrow> a < (a :: u64) + 1"
  by (metis inc_less_eq_self_iff_eq not_le)

lemma u64_le_less_succ: "a \<le> b \<Longrightarrow> b \<noteq> - 1 \<Longrightarrow> a < (b :: u64) + 1"
  by (meson le_less_trans u64_less_succ)

subsection \<open>Results, clock readings and random identifiers\<close>

text \<open>
  A Rust \<^verbatim>\<open>Result\<close> is a sum with the error on the left. The system clock and the random
  identifiers (\<^verbatim>\<open>uuid\<close>) are not deterministic: an operation that reads the clock once takes
  the reading as an argument, one that reads it several times takes the sequence of its
  readings, and nothing is assumed about their order.
\<close>

type_synonym clock = "nat \<Rightarrow> u64"
type_synonym uuids = "nat \<Rightarrow> string"

definition map_err :: "('e \<Rightarrow> 'f) \<Rightarrow> 'e + 'a \<Rightarrow> 'f + 'a" where
  "map_err f r = (case r of Inl e \<Rightarrow> Inl (f e) | Inr a \<Rightarrow> Inr a)"

definition ok_or :: "'e \<Rightarrow> 'a option \<Rightarrow> 'e + 'a" where
  "ok_or e x = (case x of None \<Rightarrow> Inl e | Some a \<Rightarrow> Inr a)"

definition and_then :: "'e + 'a \<Rightarrow> ('a \<Rightarrow> 'e + 'b) \<Rightarrow> 'e + 'b" where
  "and_then r f = (case r of Inl e \<Rightarrow> Inl e | Inr a \<Rightarrow> f a)"

fun is_ok :: "'e + 'a \<Rightarrow> bool" where
  "is_ok (Inl _) = False"
| "is_ok (Inr _) = True"

text \<open>Sequencing of operations that return a result and the state they leave.\<close>

definition sbind :: "('e + 'a) \<times> 's \<Rightarrow> ('a \<Rightarrow> 's \<Rightarrow> ('e + 'b) \<times> 's) \<Rightarrow> ('e + 'b) \<times> 's" where
  "sbind r f = (case r of (Inl e, s) \<Rightarrow> (Inl e, s) | (Inr a, s) \<Rightarrow> f a s)"

lemma sbind_simps [simp]: "sbind (Inl e, s) f = (Inl e, s)" "sbind (Inr a, s) f = f a s"
  by (simp_all add: sbind_def)

lemma sbind_Inr: "sbind r f = (Inr b, s') \<longleftrightarrow> (\<exists>a s. r = (Inr a, s) \<and> f a s = (Inr b, s'))"
  by (auto simp: sbind_def split: prod.splits sum.splits)

lemma sbind_inv: "Q (snd r) \<Longrightarrow> (\<And>a s. r = (Inr a, s) \<Longrightarrow> Q s \<Longrightarrow> Q (snd (f a s))) \<Longrightarrow> Q (snd (sbind r f))"
  by (auto simp: sbind_def split: prod.splits sum.splits)

lemma map_err_simps [simp]:
  "map_err f (Inl e) = Inl (f e)" "map_err f (Inr a) = Inr a"
  "(map_err f r = Inr a) = (r = Inr a)"
  "(Inr a = map_err f r) = (Inr a = r)"
  by (auto simp: map_err_def split: sum.splits)

lemma ok_or_simps [simp]:
  "ok_or e None = Inl e" "ok_or e (Some a) = Inr a"
  "(ok_or e x = Inr a) = (x = Some a)"
  by (auto simp: ok_or_def split: option.splits)

lemma and_then_simps [simp]:
  "and_then (Inl e) f = Inl e" "and_then (Inr a) f = f a"
  by (simp_all add: and_then_def)

lemma and_then_Inr [simp]: "(and_then r f = Inr b) = (\<exists>a. r = Inr a \<and> f a = Inr b)"
  by (auto simp: and_then_def split: sum.splits)

lemma is_ok_iff: "is_ok r = (\<exists>a. r = Inr a)"
  by (cases r) auto

text \<open>Loops that stop at the first error, with the congruence rules that recursion through them needs.\<close>

fun traverse :: "('a \<Rightarrow> 'e + 'b) \<Rightarrow> 'a list \<Rightarrow> 'e + 'b list" where
  "traverse f [] = Inr []"
| "traverse f (x # xs) = and_then (f x) (\<lambda>y. and_then (traverse f xs) (\<lambda>ys. Inr (y # ys)))"

lemma traverse_cong [fundef_cong]:
  "xs = ys \<Longrightarrow> (\<And>x. x \<in> set ys \<Longrightarrow> f x = g x) \<Longrightarrow> traverse f xs = traverse g ys"
  by (induction xs arbitrary: ys) auto

lemma and_then_cong [fundef_cong]:
  "r = r' \<Longrightarrow> (\<And>a. r' = Inr a \<Longrightarrow> f a = g a) \<Longrightarrow> and_then r f = and_then r' g"
  by (cases r') simp_all

fun fold_until :: "('a \<Rightarrow> 'b \<Rightarrow> 'e + 'b) \<Rightarrow> ('b \<Rightarrow> bool) \<Rightarrow> 'a list \<Rightarrow> 'b \<Rightarrow> 'e + 'b" where
  "fold_until f stop [] acc = Inr acc"
| "fold_until f stop (x # xs) acc =
     and_then (f x acc) (\<lambda>acc. if stop acc then Inr acc else fold_until f stop xs acc)"

lemma fold_until_cong [fundef_cong]:
  assumes "xs = ys" "acc = acc'" "stop = stop'" "\<And>x b. x \<in> set ys \<Longrightarrow> f x b = g x b"
  shows "fold_until f stop xs acc = fold_until g stop' ys acc'"
  using assms(4) unfolding assms(1-3)
proof (induction ys arbitrary: acc')
  case (Cons y ys)
  then show ?case by (cases "g y acc'") auto
qed simp

lemma traverse_ok: "traverse f xs = Inr ys \<longleftrightarrow> list_all2 (\<lambda>x y. f x = Inr y) xs ys"
  by (induction xs arbitrary: ys) (auto simp: list_all2_Cons1)

subsection \<open>Strings\<close>

text \<open>
  A Rust \<^verbatim>\<open>String\<close> is its UTF-8 bytes, so \<^verbatim>\<open>len\<close> is \<^const>\<open>length\<close> and the order of
  \<^verbatim>\<open>BTreeMap\<close> keys is the lexicographic order of bytes.
\<close>

fun starts_with :: "string \<Rightarrow> string \<Rightarrow> bool" where
  "starts_with [] s = True"
| "starts_with (p # ps) [] = False"
| "starts_with (p # ps) (c # s) = (p = c \<and> starts_with ps s)"

definition ends_with :: "string \<Rightarrow> string \<Rightarrow> bool" where
  "ends_with p s = starts_with (rev p) (rev s)"

fun contains :: "string \<Rightarrow> string \<Rightarrow> bool" where
  "contains p [] = starts_with p []"
| "contains p (c # s) = (starts_with p (c # s) \<or> contains p s)"

definition ascii_lower :: "char \<Rightarrow> char" where
  "ascii_lower c = (if CHR ''A'' \<le> c \<and> c \<le> CHR ''Z'' then char_of (of_char c + (32 :: nat)) else c)"

definition to_ascii_lowercase :: "string \<Rightarrow> string" where
  "to_ascii_lowercase s = map ascii_lower s"

fun strip_prefix :: "string \<Rightarrow> string \<Rightarrow> string option" where
  "strip_prefix [] s = Some s"
| "strip_prefix (p # ps) [] = None"
| "strip_prefix (p # ps) (c # s) = (if p = c then strip_prefix ps s else None)"

fun split_once :: "char \<Rightarrow> string \<Rightarrow> (string \<times> string) option" where
  "split_once d [] = None"
| "split_once d (c # s) =
     (if c = d then Some ([], s)
      else map_option (\<lambda>(a, b). (c # a, b)) (split_once d s))"

definition digit_char :: "nat \<Rightarrow> char" where
  "digit_char d = char_of (48 + d)"

fun dec :: "nat \<Rightarrow> string" where
  "dec n = (if n < 10 then [digit_char n] else dec (n div 10) @ [digit_char (n mod 10)])"

declare dec.simps [simp del]

lemma starts_with_iff: "starts_with p s = (\<exists>t. s = p @ t)"
  by (induction p s rule: starts_with.induct) auto

lemma starts_with_append [simp]: "starts_with p (p @ s)"
  by (auto simp: starts_with_iff)

lemma starts_with_Nil_right [simp]: "starts_with p [] = (p = [])"
  by (cases p) auto

lemma strip_prefix_Some: "(strip_prefix p s = Some t) = (s = p @ t)"
  by (induction p s rule: strip_prefix.induct) auto

lemma contains_iff: "contains p s = (\<exists>a b. s = a @ p @ b)"
proof (induction p s rule: contains.induct)
  case (1 p)
  then show ?case by auto
next
  case (2 p c s)
  have "(\<exists>a b. c # s = a @ p @ b) = (starts_with p (c # s) \<or> (\<exists>a b. s = a @ p @ b))"
    by (auto simp: starts_with_iff Cons_eq_append_conv)
  with 2 show ?case by simp
qed

subsection \<open>The standard library's ordered map\<close>

text \<open>
  \<^verbatim>\<open>BTreeMap<K, V>\<close> as the list of its entries in key order: what \<^verbatim>\<open>values()\<close> and
  \<^verbatim>\<open>iter()\<close> yield is then the list itself. \<^verbatim>\<open>BTreeSet<K>\<close> is the list of its elements in order.
\<close>

type_synonym ('k, 'v) btree_map = "('k \<times> 'v) list"

definition bt_get :: "('k, 'v) btree_map \<Rightarrow> 'k \<Rightarrow> 'v option" where
  "bt_get m k = map_of m k"

fun bt_insert :: "'k::linorder \<Rightarrow> 'v \<Rightarrow> ('k, 'v) btree_map \<Rightarrow> ('k, 'v) btree_map" where
  "bt_insert k v [] = [(k, v)]"
| "bt_insert k v ((k', v') # m) =
     (if k < k' then (k, v) # (k', v') # m
      else if k = k' then (k, v) # m
      else (k', v') # bt_insert k v m)"

definition bt_remove :: "'k \<Rightarrow> ('k, 'v) btree_map \<Rightarrow> ('k, 'v) btree_map" where
  "bt_remove k m = filter (\<lambda>e. fst e \<noteq> k) m"

definition bt_values :: "('k, 'v) btree_map \<Rightarrow> 'v list" where
  "bt_values m = map snd m"

definition bt_wf :: "('k::linorder, 'v) btree_map \<Rightarrow> bool" where
  "bt_wf m = sorted_wrt (<) (map fst m)"

fun bs_insert :: "'k::linorder \<Rightarrow> 'k list \<Rightarrow> 'k list" where
  "bs_insert k [] = [k]"
| "bs_insert k (x # xs) =
     (if k < x then k # x # xs else if k = x then x # xs else x # bs_insert k xs)"

lemma set_bs_insert [simp]: "set (bs_insert k xs) = insert k (set xs)"
  by (induction xs) auto

lemma set_bs_fold: "set (fold bs_insert xs ys) = set xs \<union> set ys"
  by (induction xs arbitrary: ys) auto

lemma distinct_dedup_sorted: "sorted (xs :: 'a::linorder list) \<Longrightarrow> distinct (remdups_adj xs)"
  by (induction xs rule: remdups_adj.induct) auto

lemma bs_insert_sorted: "sorted_wrt (<) xs \<Longrightarrow> sorted_wrt (<) (bs_insert k xs)"
  by (induction xs) (auto simp: not_less_iff_gr_or_eq)

lemma set_bt_insert: "fst ` set (bt_insert k v m) = insert k (fst ` set m)"
  by (induction k v m rule: bt_insert.induct) auto

lemma bt_wf_Nil [simp]: "bt_wf []"
  by (simp add: bt_wf_def)

lemma bt_wf_Cons: "bt_wf ((k, v) # m) = ((\<forall>k' \<in> fst ` set m. k < k') \<and> bt_wf m)"
  by (simp add: bt_wf_def)

lemma bt_wf_distinct: "bt_wf m \<Longrightarrow> distinct (map fst m)"
  unfolding bt_wf_def by (induction m) auto

lemma bt_get_notin: "k \<notin> fst ` set m \<Longrightarrow> bt_get m k = None"
  by (simp add: bt_get_def map_of_eq_None_iff)

lemma bt_get_insert: "bt_wf m \<Longrightarrow> bt_get (bt_insert k v m) = (bt_get m)(k \<mapsto> v)"
proof (induction m)
  case Nil
  then show ?case by (simp add: bt_get_def fun_eq_iff)
next
  case (Cons e m)
  obtain k' v' where e: "e = (k', v')" by (cases e)
  from Cons.prems e have wf: "bt_wf m" by (simp add: bt_wf_Cons)
  have "bt_get ((k', v') # bt_insert k v m) = (bt_get (bt_insert k v m))(k' \<mapsto> v')"
    by (simp add: bt_get_def fun_eq_iff)
  with Cons.IH [OF wf] e show ?case by (auto simp: bt_get_def fun_eq_iff)
qed

lemma bt_wf_insert: "bt_wf m \<Longrightarrow> bt_wf (bt_insert k v m)"
proof (induction m)
  case Nil
  then show ?case by (simp add: bt_wf_Cons)
next
  case (Cons e m)
  obtain k' v' where e: "e = (k', v')" by (cases e)
  from Cons.prems e have "bt_wf m" and lt: "\<forall>x \<in> fst ` set m. k' < x"
    by (simp_all add: bt_wf_Cons)
  with Cons.IH have IH: "bt_wf (bt_insert k v m)" by simp
  show ?case
    using Cons.prems IH lt e
    by (auto simp: bt_wf_Cons set_bt_insert not_less_iff_gr_or_eq dest: less_trans)
qed

lemma bt_get_remove: "bt_get (bt_remove k m) = (bt_get m)(k := None)"
  by (induction m) (auto simp: bt_get_def bt_remove_def fun_eq_iff)

lemma bt_wf_filter: "bt_wf m \<Longrightarrow> bt_wf (filter P m)"
  by (induction m) (auto simp: bt_wf_def)

lemma bt_wf_remove: "bt_wf m \<Longrightarrow> bt_wf (bt_remove k m)"
  by (simp add: bt_remove_def bt_wf_filter)

lemma bt_values_iff: "bt_wf m \<Longrightarrow> v \<in> set (bt_values m) \<longleftrightarrow> (\<exists>k. bt_get m k = Some v)"
  by (auto simp: bt_values_def bt_get_def map_of_eq_Some_iff [OF bt_wf_distinct] image_iff)
     (use map_of_eq_Some_iff [OF bt_wf_distinct] in force)

lemma bt_entry_iff: "bt_wf m \<Longrightarrow> (k, v) \<in> set m \<longleftrightarrow> bt_get m k = Some v"
  by (simp add: bt_get_def bt_wf_distinct)

text \<open>
  Removing a list of keys one after the other, collecting what each removal found: the loop
  around \<^verbatim>\<open>map.remove(&key)\<close> of the reap and prune operations.
\<close>

fun bt_take_all :: "'k list \<Rightarrow> ('k, 'v) btree_map \<Rightarrow> ('k, 'v) btree_map \<times> 'v list" where
  "bt_take_all [] m = (m, [])"
| "bt_take_all (k # ks) m =
     (let (m', vs) = bt_take_all ks (bt_remove k m)
      in (m', case bt_get m k of None \<Rightarrow> vs | Some v \<Rightarrow> v # vs))"

lemma fst_bt_take_all [simp]: "fst (bt_take_all ks m) = fold bt_remove ks m"
  by (induction ks arbitrary: m) (simp_all add: case_prod_beta Let_def)

lemma map_filter_upd_None:
  "k \<notin> set ks \<Longrightarrow> List.map_filter (f(k := None)) ks = List.map_filter f ks"
  by (induction ks) (auto simp: List.map_filter_simps split: option.splits)

lemma set_map_filter: "set (List.map_filter f xs) = {y. \<exists>x \<in> set xs. f x = Some y}"
  by (induction xs) (auto simp: List.map_filter_simps split: option.splits)

lemma snd_bt_take_all:
  "distinct ks \<Longrightarrow> snd (bt_take_all ks m) = List.map_filter (bt_get m) ks"
  by (induction ks arbitrary: m)
    (auto simp: case_prod_beta Let_def bt_get_remove map_filter_upd_None
      List.map_filter_simps split: option.splits)

subsection \<open>The contract of an ordered map\<close>

text \<open>
  Components use their maps through this contract only: what a lookup returns after an
  insertion or a removal, and that the invariant is kept. The lemmas on loading a map from a
  list and on removing a list of keys, which the table restore and prune operations need, are
  proved once from it.
\<close>

locale ordered_map =
  fixes empty :: "'m"
    and get :: "'m \<Rightarrow> 'k \<Rightarrow> 'v option"
    and ins :: "'k \<Rightarrow> 'v \<Rightarrow> 'm \<Rightarrow> 'm"
    and rem :: "'k \<Rightarrow> 'm \<Rightarrow> 'm"
    and invar :: "'m \<Rightarrow> bool"
  assumes get_empty: "get empty = (\<lambda>_. None)"
    and get_ins: "invar m \<Longrightarrow> get (ins k v m) = (get m)(k \<mapsto> v)"
    and get_rem: "invar m \<Longrightarrow> get (rem k m) = (get m)(k := None)"
    and invar_empty: "invar empty"
    and invar_ins: "invar m \<Longrightarrow> invar (ins k v m)"
    and invar_rem: "invar m \<Longrightarrow> invar (rem k m)"
begin

lemma invar_load: "invar m \<Longrightarrow> invar (fold (\<lambda>x. ins (f x) (g x)) xs m)"
  by (induction xs arbitrary: m) (auto simp: invar_ins)

lemma get_load:
  "invar m \<Longrightarrow> get (fold (\<lambda>x. ins (f x) (g x)) xs m) k =
     (case find (\<lambda>x. f x = k) (rev xs) of Some x \<Rightarrow> Some (g x) | None \<Rightarrow> get m k)"
proof (induction xs arbitrary: m rule: rev_induct)
  case Nil
  then show ?case by simp
next
  case (snoc x xs)
  then show ?case by (simp add: get_ins invar_load)
qed

lemma get_load_in:
  assumes "invar m" and "get (fold (\<lambda>x. ins (f x) (g x)) xs m) k = Some v"
  shows "get m k = Some v \<or> (\<exists>x \<in> set xs. f x = k \<and> g x = v)"
  using assms
  by (auto simp: get_load find_Some_iff split: option.splits) (metis nth_mem set_rev length_rev)

lemma invar_unload: "invar m \<Longrightarrow> invar (fold rem ks m)"
  by (induction ks arbitrary: m) (auto simp: invar_rem)

lemma get_unload:
  "invar m \<Longrightarrow> get (fold rem ks m) k = (if k \<in> set ks then None else get m k)"
  by (induction ks arbitrary: m) (auto simp: invar_rem get_rem)

end

interpretation bt: ordered_map "[]" bt_get bt_insert bt_remove bt_wf
  by unfold_locales
    (simp_all add: bt_get_insert bt_get_remove bt_wf_insert bt_wf_remove bt_get_def fun_eq_iff)

lemmas bt_simps = bt.get_ins bt.get_rem bt_wf_insert bt_wf_remove

lemma bt_get_insert_any: "bt_get (bt_insert k v m) k' = (if k' = k then Some v else bt_get m k')"
  by (induction m) (auto simp: bt_get_def)

lemma bt_get_remove_any: "bt_get (bt_remove k m) k' = (if k' = k then None else bt_get m k')"
  by (induction m) (auto simp: bt_remove_def bt_get_def)

lemma bt_remove_absent: "bt_get m k = None \<Longrightarrow> bt_remove k m = m"
  by (auto simp: bt_remove_def bt_get_def map_of_eq_None_iff intro!: filter_True)

lemma find_distinct_key:
  "distinct (map f xs) \<Longrightarrow> x \<in> set xs \<Longrightarrow> f x = k \<Longrightarrow> find (\<lambda>y. f y = k) xs = Some x"
  by (induction xs) auto

lemma find_SomeD: "find P xs = Some x \<Longrightarrow> P x \<and> x \<in> set xs"
  by (induction xs) (auto split: if_splits)

lemma find_append: "find P (xs @ ys) = (case find P xs of None \<Rightarrow> find P ys | Some x \<Rightarrow> Some x)"
  by (induction xs) auto

lemma load_distinct:
  assumes "distinct (map f xs)"
  shows "bt_get (fold (\<lambda>x. bt_insert (f x) (g x)) xs []) k = Some v \<longleftrightarrow> (\<exists>x \<in> set xs. f x = k \<and> g x = v)"
proof
  assume "bt_get (fold (\<lambda>x. bt_insert (f x) (g x)) xs []) k = Some v"
  from bt.get_load_in [OF bt_wf_Nil this] show "\<exists>x \<in> set xs. f x = k \<and> g x = v"
    by (simp add: bt_get_def)
next
  assume "\<exists>x \<in> set xs. f x = k \<and> g x = v"
  then obtain x where x: "x \<in> set xs" "f x = k" "g x = v" by blast
  have "find (\<lambda>x. f x = k) (rev xs) = Some x"
    using assms x by (intro find_distinct_key) (simp_all flip: rev_map)
  with x show "bt_get (fold (\<lambda>x. bt_insert (f x) (g x)) xs []) k = Some v"
    by (simp add: bt.get_load)
qed

subsection \<open>Stores whose entities evolve\<close>

text \<open>
  Several components keep identified entities (tasks, desktop jobs, transactions) that change
  only in a certain way from one operation to the next. The contract is that each step
  relates what an identifier held before and after; what follows holds along every run that
  keeps the entity.
\<close>

locale entity_store =
  fixes inv :: "'s \<Rightarrow> bool"
    and get :: "'s \<Rightarrow> 'i \<Rightarrow> 'e option"
    and step :: "'s \<Rightarrow> 's \<Rightarrow> bool"
    and evolves :: "'e \<Rightarrow> 'e \<Rightarrow> bool"
  assumes inv_step: "step s s' \<Longrightarrow> inv s \<Longrightarrow> inv s'"
    and evolve_step: "step s s' \<Longrightarrow> inv s \<Longrightarrow> get s i = Some a \<Longrightarrow> get s' i = Some b \<Longrightarrow> evolves a b"
begin

lemma inv_run: "step\<^sup>*\<^sup>* s s' \<Longrightarrow> inv s \<Longrightarrow> inv s'"
  by (induction rule: rtranclp_induct) (auto intro: inv_step)

lemma kept_run:
  assumes "(\<lambda>s s'. step s s' \<and> get s' i \<noteq> None)\<^sup>*\<^sup>* s s'" "inv s" "get s i = Some a"
  shows "inv s' \<and> (\<exists>b. get s' i = Some b \<and> evolves\<^sup>*\<^sup>* a b)"
  using assms
proof (induction rule: rtranclp_induct)
  case base
  then show ?case by blast
next
  case (step y z)
  then obtain b where b: "inv y" "get y i = Some b" "evolves\<^sup>*\<^sup>* a b" by blast
  from step.hyps(2) obtain c where c: "step y z" "get z i = Some c" by blast
  with b have "evolves b c" by (blast intro: evolve_step)
  with b c show ?case by (blast intro: inv_step rtranclp.rtrancl_into_rtrancl)
qed

end

end
