(* ===== verification/Schema.thy ===== *)
theory Schema
  imports Json
begin

section \<open>The resource schema\<close>

text \<open>
  The records and enumerations of \<^verbatim>\<open>crates/workbench-schema/src/lib.rs\<close>, one for one and in
  the order of the source: a struct is a record whose fields carry the struct's name as a
  prefix, an enum is a datatype whose constructors carry it as a prefix. \<^verbatim>\<open>String\<close> is
  \<^typ>\<open>string\<close>, \<^verbatim>\<open>Vec\<close> is a list, \<^verbatim>\<open>Option\<close> is \<^typ>\<open>'a option\<close>, \<^verbatim>\<open>BTreeMap\<close> is
  a key-sorted list, \<^verbatim>\<open>u64\<close> is \<^typ>\<open>u64\<close> and \<^verbatim>\<open>Value\<close> is \<^typ>\<open>json\<close>.
\<close>

definition API_VERSION :: string where
  "API_VERSION = ''workbench.dev/v1''"

record metadata =
  metadata_id :: string
  metadata_labels :: "(string, string) btree_map"
  metadata_created_at :: u64
  metadata_updated_at :: u64

subsection \<open>Sessions\<close>

record session_authority =
  authority_controller_id :: string
  authority_epoch :: u64
  authority_pending_controller_id :: "string option"

datatype session_state = SessionActive | SessionCompleted | SessionArchived

record observability_stage =
  stage_id :: string
  stage_label :: string

record session_observability =
  obs_kind_label :: string
  obs_stages :: "observability_stage list"
  obs_capability_groups :: "(string, string list) btree_map"
  obs_safe_fields :: "string list"
  obs_process_restart_templates :: "json list"
  obs_default_stall_after_ms :: u64

definition default_workspace_kind_label :: string where
  "default_workspace_kind_label = ''Workspace''"

definition default_stall_after_ms :: u64 where
  "default_stall_after_ms = 300000"

definition session_observability_default :: session_observability where
  "session_observability_default =
     \<lparr>obs_kind_label = default_workspace_kind_label, obs_stages = [],
      obs_capability_groups = [], obs_safe_fields = [],
      obs_process_restart_templates = [],
      obs_default_stall_after_ms = default_stall_after_ms\<rparr>"

record workspace_session =
  session_api_version :: string
  session_metadata :: metadata
  session_objective :: string
  session_state :: session_state
  session_authority :: "session_authority option"
  session_observability :: "session_observability option"

subsection \<open>Executors, peers and capability contracts\<close>

datatype executor_endpoint =
    EndpointLocal string
  | EndpointSsh string string "string option"
  | EndpointCommand string "string list" "string option"

datatype health_status = HealthReady | HealthDegraded | HealthOffline | HealthUnknown

datatype execution_kind = ExecInline | ExecBackground

definition default_capability_priority :: nat where
  "default_capability_priority = 3"

datatype cancel_policy = CancelOnDisconnect | CancelContinue

record retry_policy =
  retry_max_attempts :: u32
  retry_retryable_errors :: "string list"
  retry_backoff_ms :: u64

definition default_attempts :: u32 where
  "default_attempts = 1"

definition retry_policy_default :: retry_policy where
  "retry_policy_default =
     \<lparr>retry_max_attempts = 1, retry_retryable_errors = [], retry_backoff_ms = 0\<rparr>"

datatype lock_mode = LockShared | LockExclusive

record lock_template =
  lock_key :: string
  lock_mode :: lock_mode

record idempotency_contract =
  idem_key_fields :: "string list"
  idem_retention_ms :: u64

definition default_idempotency_ttl :: u64 where
  "default_idempotency_ttl = 86400000"

datatype rollback_strategy =
    RollbackNone | RollbackCompensate string | RollbackRetainPreviousGeneration

datatype health_check = CheckNone | CheckCapability string | CheckProcess

datatype effect = EffectReadOnly | EffectMutating | EffectDestructive

datatype capability_authority =
    AuthorityNone
  | AuthorityWorkspaceDriver
  | AuthorityDesktopSession
  | AuthorityResourceLease string

record capability_descriptor =
  cap_name :: string
  cap_version :: string
  cap_input_schema :: json
  cap_output_schema :: json
  cap_required_executor_features :: "string list"
  cap_locks :: "lock_template list"
  cap_idempotency :: idempotency_contract
  cap_timeout_ms :: u64
  cap_execution_kind :: execution_kind
  cap_retry :: retry_policy
  cap_rollback :: rollback_strategy
  cap_health_check :: health_check
  cap_emitted_evidence :: "string list"
  cap_effect :: effect
  cap_authority :: capability_authority
  cap_priority :: nat
  cap_max_concurrency :: "u32 option"
  cap_cancel_policy :: cancel_policy

record executor =
  executor_api_version :: string
  executor_metadata :: metadata
  executor_endpoint :: executor_endpoint
  executor_capabilities :: "capability_descriptor list"
  executor_allowed_roots :: "string list"
  executor_health :: health_status

record controller_peer =
  peer_api_version :: string
  peer_metadata :: metadata
  peer_endpoint :: executor_endpoint
  peer_health :: health_status

subsection \<open>Driver handoffs, agent mutations, read grants and leases\<close>

datatype driver_handoff_state =
    DhRequested | DhDraining | DhReady | DhCompleted | DhCancelled | DhExpired

record driver_handoff_request =
  dh_id :: string
  dh_workspace_session_id :: string
  dh_resource :: string
  dh_requested_by :: string
  dh_previous_owner :: "string option"
  dh_state :: driver_handoff_state
  dh_created_at :: u64
  dh_expires_at :: u64
  dh_completed_at :: "u64 option"

record agent_mutation_operation =
  mutation_id :: string
  mutation_workspace_session_id :: string
  mutation_agent_id :: string
  mutation_tool :: string
  mutation_started_at :: u64

datatype read_grant_state = GrantRequested | GrantApproved | GrantRevoked | GrantExpired

record read_grant =
  grant_id :: string
  grant_workspace_session_id :: string
  grant_executor_id :: string
  grant_requested_root :: string
  grant_real_root :: string
  grant_capabilities :: "string list"
  grant_state :: read_grant_state
  grant_requested_by :: string
  grant_created_at :: u64
  grant_approved_at :: "u64 option"
  grant_revoked_at :: "u64 option"
  grant_approved_by :: "string option"
  grant_audit :: json

datatype lease_kind = LeaseDriver | LeaseResource

record lease =
  lease_id :: string
  lease_kind :: lease_kind
  lease_resource :: string
  lease_owner :: string
  lease_token :: string
  lease_fence :: u64
  lease_acquired_at :: u64
  lease_updated_at :: u64
  lease_expires_at :: u64
  lease_handoff_to :: "string option"

subsection \<open>Tasks\<close>

datatype task_state =
    Queued | Running | CancelRequested | Cancelling | Succeeded | Failed
  | Cancelled | FailedToCancel | TimedOut | OutcomeUnknown

fun terminal :: "task_state \<Rightarrow> bool" where
  "terminal Succeeded = True"
| "terminal Failed = True"
| "terminal Cancelled = True"
| "terminal FailedToCancel = True"
| "terminal TimedOut = True"
| "terminal OutcomeUnknown = True"
| "terminal _ = False"

text \<open>The names the states serialize to: the variants in kebab case.\<close>

fun task_state_name :: "task_state \<Rightarrow> string" where
  "task_state_name Queued = ''queued''"
| "task_state_name Running = ''running''"
| "task_state_name CancelRequested = ''cancel-requested''"
| "task_state_name Cancelling = ''cancelling''"
| "task_state_name Succeeded = ''succeeded''"
| "task_state_name Failed = ''failed''"
| "task_state_name Cancelled = ''cancelled''"
| "task_state_name FailedToCancel = ''failed-to-cancel''"
| "task_state_name TimedOut = ''timed-out''"
| "task_state_name OutcomeUnknown = ''outcome-unknown''"

record task_event =
  event_sequence :: u64
  event_timestamp :: u64
  event_type :: string
  event_details :: json

record task_error =
  terr_code :: string
  terr_message :: string
  terr_retryable :: bool
  terr_details :: json

record task =
  task_id :: string
  task_correlation_id :: "string option"
  task_request_id :: "string option"
  task_workspace_session_id :: string
  task_executor_id :: string
  task_capability :: string
  task_input :: json
  task_output :: "json option"
  task_error :: "task_error option"
  task_idempotency_key :: string
  task_state :: task_state
  task_attempt :: u32
  task_created_at :: u64
  task_updated_at :: u64
  task_events :: "task_event list"

subsection \<open>Runs and observations\<close>

datatype run_status = RunRunning | RunCompleted | RunCancelled | RunInterrupted

datatype run_health = RunHealthy | RunDegraded | RunFailed | RunUnknown

record run =
  run_id :: string
  run_workspace_session_id :: "string option"
  run_agent_session_id :: "string option"
  run_target_summary :: string
  run_created_by :: string
  run_status :: run_status
  run_health :: run_health
  run_started_at :: u64
  run_finished_at :: "u64 option"
  run_business_outcome :: "string option"

record observation =
  ob_event_id :: u64
  ob_run_id :: "string option"
  ob_timestamp :: u64
  ob_node_id :: string
  ob_role :: string
  ob_kind :: string
  ob_name :: string
  ob_status :: string
  ob_duration_ms :: "u64 option"
  ob_span_id :: "string option"
  ob_parent_span_id :: "string option"
  ob_request_id :: "string option"
  ob_task_id :: "string option"
  ob_process_id :: "string option"
  ob_connection_id :: "string option"
  ob_attributes :: json

subsection \<open>Artifacts, generations and activation transactions\<close>

datatype artifact_location = LocationFile string string | LocationUrl string

record provenance =
  prov_workspace_session_id :: string
  prov_task_id :: "string option"
  prov_source_digests :: "string list"
  prov_attributes :: "(string, string) btree_map"

record artifact =
  artifact_digest :: string
  artifact_type :: string
  artifact_schema :: string
  artifact_size :: u64
  artifact_locations :: "artifact_location list"
  artifact_provenance :: provenance
  artifact_created_at :: u64

datatype generation_state =
    GenReserved | GenMaterializing | GenMaterialized | GenValidated | GenFinalized
  | GenSmokePassed | GenActive | GenSuperseded | GenFailed

record baseline_identity =
  baseline_digest :: string
  baseline_source :: string
  baseline_identifier :: "string option"
  baseline_version :: "string option"
  baseline_attributes :: "(string, string) btree_map"

record evidence_result =
  evidence_passed :: bool
  evidence_checked_at :: u64
  evidence_summary :: string
  evidence_artifacts :: "string list"
  evidence_details :: json

record generation =
  gen_id :: string
  gen_workspace_session_id :: string
  gen_application_type :: string
  gen_root :: string
  gen_state :: generation_state
  gen_baseline :: baseline_identity
  gen_applied_artifacts :: "string list"
  gen_digest :: string
  gen_created_at :: u64
  gen_activated_at :: "u64 option"
  gen_validation :: "evidence_result option"
  gen_finalization :: "evidence_result option"
  gen_smoke :: "evidence_result option"
  gen_failure :: "task_error option"

datatype transaction_state =
    TxPlanned | TxRunning | TxOutcomeUnknown | TxActivated | TxRolledBack | TxFailed

datatype transaction_step_state =
    StepPlanned | StepStarted | StepSucceeded | StepFailed | StepCompensated
  | StepOutcomeUnknown

record transaction_journal_entry =
  je_sequence :: u64
  je_step :: string
  je_state :: transaction_step_state
  je_attempt :: u32
  je_started_at :: u64
  je_finished_at :: "u64 option"
  je_input_digest :: "string option"
  je_output_digest :: "string option"
  je_executor_id :: "string option"
  je_fence :: "u64 option"
  je_details :: json

record activation_transaction =
  tx_id :: string
  tx_workspace_session_id :: string
  tx_idempotency_key :: string
  tx_target :: string
  tx_generation_id :: string
  tx_previous_generation_id :: "string option"
  tx_state :: transaction_state
  tx_created_at :: u64
  tx_updated_at :: u64
  tx_completed_steps :: "string list"
  tx_journal :: "transaction_journal_entry list"
  tx_lease_fence :: "u64 option"
  tx_evidence :: "string list"
  tx_error :: "task_error option"

subsection \<open>Agents, handoffs and approvals\<close>

datatype agent_state = AgentStarting | AgentRunning | AgentStopped | AgentFailed

record agent_instance =
  agent_id :: string
  agent_workspace_session_id :: string
  agent_executor_id :: string
  agent_role :: string
  agent_provider :: string
  agent_state :: agent_state
  agent_metadata :: json

datatype handoff_kind = HandoffWork | HandoffAcceptance

record agent_role_ref =
  role_agent_id :: "string option"
  role_role :: string

record pending_action =
  pending_capability :: string
  pending_input :: json

record handoff_artifact =
  ha_artifact_type :: string
  ha_digest :: string
  ha_generation :: "string option"
  ha_provenance :: json
  ha_location :: "artifact_location option"

record handoff =
  handoff_id :: string
  handoff_kind :: handoff_kind
  handoff_workspace_session_id :: string
  handoff_objective :: string
  handoff_from :: agent_role_ref
  handoff_to :: agent_role_ref
  handoff_artifacts :: "handoff_artifact list"
  handoff_evidence :: "json list"
  handoff_completed_actions :: "pending_action list"
  handoff_pending_actions :: "pending_action list"
  handoff_acceptance_criteria :: "string list"
  handoff_constraints :: "string list"
  handoff_blockers :: "string list"
  handoff_created_at :: u64
  handoff_acknowledged_at :: "u64 option"
  handoff_completed_at :: "u64 option"
  handoff_report :: "json option"

datatype approval_state =
    ApprovalPending | ApprovalApproved | ApprovalConsumed | ApprovalRevoked | ApprovalExpired

record approval =
  approval_id :: string
  approval_digest :: string
  approval_owner :: string
  approval_reason :: string
  approval_state :: approval_state
  approval_created_at :: u64
  approval_approved_at :: "u64 option"
  approval_consumed_at :: "u64 option"
  approval_expires_at :: "u64 option"

subsection \<open>Serialized leases\<close>

text \<open>The JSON object of a lease, members in key order.\<close>

fun lease_kind_name :: "lease_kind \<Rightarrow> string" where
  "lease_kind_name LeaseDriver = ''driver''"
| "lease_kind_name LeaseResource = ''resource''"

definition lease_json :: "lease \<Rightarrow> json" where
  "lease_json l =
     JObj [(''acquiredAt'', junum (lease_acquired_at l)), (''expiresAt'', junum (lease_expires_at l)),
           (''fence'', junum (lease_fence l)), (''handoffTo'', jopt JStr (lease_handoff_to l)),
           (''id'', JStr (lease_id l)), (''kind'', JStr (lease_kind_name (lease_kind l))),
           (''owner'', JStr (lease_owner l)), (''resource'', JStr (lease_resource l)),
           (''token'', JStr (lease_token l)), (''updatedAt'', junum (lease_updated_at l))]"

end
