(* ===== verification/Protocol.thy ===== *)
theory Protocol
  imports Schema
begin

section \<open>The request and response envelope\<close>

text \<open>
  \<^verbatim>\<open>crates/workbench-protocol/src/lib.rs\<close>: the request with its tracing identifiers, the
  response with exactly one of result and error, and the error object. The random request
  identifier is an argument of \<open>request_new\<close>. A result is handed over as the JSON value it
  serializes to.
\<close>

definition RPC_VERSION :: string where
  "RPC_VERSION = ''workbench.dev/v1''"

record request =
  req_api_version :: string
  req_request_id :: string
  req_correlation_id :: "string option"
  req_parent_request_id :: "string option"
  req_run_id :: "string option"
  req_span_id :: "string option"
  req_parent_span_id :: "string option"
  req_agent_session_id :: "string option"
  req_action :: string
  req_params :: json

definition request_new :: "string \<Rightarrow> string \<Rightarrow> json \<Rightarrow> request" where
  "request_new uuid action params =
     (let request_id = ''req_'' @ uuid in
      \<lparr>req_api_version = RPC_VERSION, req_request_id = request_id,
       req_correlation_id = Some request_id, req_parent_request_id = None,
       req_run_id = None, req_span_id = None, req_parent_span_id = None,
       req_agent_session_id = None, req_action = action, req_params = params\<rparr>)"

definition request_child :: "string \<Rightarrow> request \<Rightarrow> string \<Rightarrow> json \<Rightarrow> request" where
  "request_child uuid parent action params =
     (request_new uuid action params)
       \<lparr>req_correlation_id := Some (unwrap_or (req_request_id parent) (req_correlation_id parent)),
        req_parent_request_id := Some (req_request_id parent),
        req_run_id := req_run_id parent,
        req_parent_span_id := req_span_id parent,
        req_agent_session_id := req_agent_session_id parent\<rparr>"

record rpc_error =
  err_code :: string
  err_message :: string
  err_retryable :: bool
  err_details :: json

definition rpc_err :: "string \<Rightarrow> string \<Rightarrow> rpc_error" where
  "rpc_err code message =
     \<lparr>err_code = code, err_message = message, err_retryable = False, err_details = JNull\<rparr>"

record response =
  resp_ok :: bool
  resp_api_version :: string
  resp_request_id :: string
  resp_result :: "json option"
  resp_error :: "rpc_error option"

definition response_success :: "string \<Rightarrow> json \<Rightarrow> response" where
  "response_success request_id result =
     \<lparr>resp_ok = True, resp_api_version = RPC_VERSION, resp_request_id = request_id,
      resp_result = Some result, resp_error = None\<rparr>"

definition response_failure :: "string \<Rightarrow> rpc_error \<Rightarrow> response" where
  "response_failure request_id error =
     \<lparr>resp_ok = False, resp_api_version = RPC_VERSION, resp_request_id = request_id,
      resp_result = None, resp_error = Some error\<rparr>"

lemma rpc_err_simps [simp]:
  "err_code (rpc_err c m) = c" "err_message (rpc_err c m) = m"
  "err_retryable (rpc_err c m) = False" "err_details (rpc_err c m) = JNull"
  by (simp_all add: rpc_err_def)

text \<open>
  The correlation identifier of a chain of nested requests is that of its root: each child
  carries its parent's, and a root request without one contributes its own identifier.
\<close>

fun request_chain :: "request \<Rightarrow> (string \<times> string \<times> json) list \<Rightarrow> request" where
  "request_chain r [] = r"
| "request_chain r ((uuid, action, params) # cs) = request_chain (request_child uuid r action params) cs"

lemma request_child_correlation:
  "req_correlation_id (request_child u r a p) = Some (unwrap_or (req_request_id r) (req_correlation_id r))"
  by (simp add: request_child_def)

lemma request_chain_correlation:
  "cs \<noteq> [] \<Longrightarrow> req_correlation_id (request_chain r cs) = Some (unwrap_or (req_request_id r) (req_correlation_id r))"
proof (induction cs arbitrary: r)
  case Nil
  then show ?case by simp
next
  case (Cons c cs)
  obtain u a p where c: "c = (u, a, p)" by (cases c) auto
  show ?case
  proof (cases "cs = []")
    case True
    with c show ?thesis by (simp add: request_child_correlation)
  next
    case False
    with Cons.IH [of "request_child u r a p"] c show ?thesis
      by (simp add: request_child_correlation)
  qed
qed

end
