(* ===== verification/Task_Table.thy ===== *)
theory Task_Table
  imports Protocol "HOL-Library.Product_Lexorder"
begin

section \<open>The task table\<close>

text \<open>
  \<^verbatim>\<open>crates/workbench-core/src/task.rs\<close>: the tasks by identifier, the idempotency index from
  scoped key to identifier, the state machine of a task, retention pruning, recovery after a
  restart and the redaction of what is persisted. The length of a task's JSON encoding
  (\<^verbatim>\<open>serde_json::to_vec\<close>) is the parameter \<open>enc_len\<close>; counts and lengths (\<^verbatim>\<open>usize\<close>) are
  natural numbers. Indexing the task map at a missing identifier panics: \<open>submit_traced\<close>
  returns \<^const>\<open>None\<close> there, and that it never does is shown below.
\<close>

datatype task_table_error = TaskNotFound | TaskInvalidTransition task_state task_state

record task_table =
  tt_tasks :: "(string, task) btree_map"
  tt_idempotency :: "(string, string) btree_map"

definition task_table_default :: task_table where
  "task_table_default = \<lparr>tt_tasks = [], tt_idempotency = []\<rparr>"

definition scoped_idempotency_key :: "string \<Rightarrow> string \<Rightarrow> string \<Rightarrow> string \<Rightarrow> string" where
  "scoped_idempotency_key workspace_session_id executor_id capability key =
     workspace_session_id @ CHR 0x00 # executor_id @ CHR 0x00 # capability @ CHR 0x00 # key"

definition task_key :: "task \<Rightarrow> string" where
  "task_key t = scoped_idempotency_key (task_workspace_session_id t) (task_executor_id t)
                  (task_capability t) (task_idempotency_key t)"

definition load_task :: "task \<Rightarrow> task_table \<Rightarrow> task_table" where
  "load_task t tbl =
     \<lparr>tt_tasks = bt_insert (task_id t) t (tt_tasks tbl),
      tt_idempotency = bt_insert (task_key t) (task_id t) (tt_idempotency tbl)\<rparr>"

definition from_tasks :: "task list \<Rightarrow> task_table" where
  "from_tasks tasks = fold load_task tasks task_table_default"

definition push_event :: "u64 \<Rightarrow> string \<Rightarrow> json \<Rightarrow> task \<Rightarrow> task" where
  "push_event now etype details t =
     t\<lparr>task_events := task_events t @
        [\<lparr>event_sequence = of_nat (length (task_events t)) + 1, event_timestamp = now,
          event_type = etype, event_details = details\<rparr>]\<rparr>"

definition queued_task ::
  "clock \<Rightarrow> string \<Rightarrow> string \<Rightarrow> string \<Rightarrow> string \<Rightarrow> json \<Rightarrow> string \<Rightarrow> string option \<Rightarrow> string option \<Rightarrow> task" where
  "queued_task clk uuid workspace_session_id executor_id capability input idempotency_key
       correlation_id request_id =
     (let now = clk 0 in
      push_event (clk 1) ''task.queued'' JNull
        \<lparr>task_id = ''task_'' @ uuid, task_correlation_id = correlation_id,
         task_request_id = request_id, task_workspace_session_id = workspace_session_id,
         task_executor_id = executor_id, task_capability = capability, task_input = input,
         task_output = None, task_error = None, task_idempotency_key = idempotency_key,
         task_state = Queued, task_attempt = 0, task_created_at = now, task_updated_at = now,
         task_events = []\<rparr>)"

definition submit_traced ::
  "clock \<Rightarrow> string \<Rightarrow> string \<Rightarrow> string \<Rightarrow> string \<Rightarrow> json \<Rightarrow> string \<Rightarrow> string option \<Rightarrow> string option
    \<Rightarrow> task_table \<Rightarrow> ((task \<times> bool) \<times> task_table) option" where
  "submit_traced clk uuid workspace_session_id executor_id capability input idempotency_key
       correlation_id request_id tbl =
     (let scoped_key = scoped_idempotency_key workspace_session_id executor_id capability idempotency_key
      in case bt_get (tt_idempotency tbl) scoped_key of
           Some i \<Rightarrow> map_option (\<lambda>t. ((t, True), tbl)) (bt_get (tt_tasks tbl) i)
         | None \<Rightarrow>
             let t = queued_task clk uuid workspace_session_id executor_id capability input
                       idempotency_key correlation_id request_id
             in Some ((t, False),
                  \<lparr>tt_tasks = bt_insert (task_id t) t (tt_tasks tbl),
                   tt_idempotency = bt_insert scoped_key (task_id t) (tt_idempotency tbl)\<rparr>))"

definition submit ::
  "clock \<Rightarrow> string \<Rightarrow> string \<Rightarrow> string \<Rightarrow> string \<Rightarrow> json \<Rightarrow> string \<Rightarrow> task_table
    \<Rightarrow> ((task \<times> bool) \<times> task_table) option" where
  "submit clk uuid workspace_session_id executor_id capability input idempotency_key tbl =
     submit_traced clk uuid workspace_session_id executor_id capability input idempotency_key
       None None tbl"

definition transition_allowed :: "task_state \<Rightarrow> task_state \<Rightarrow> bool" where
  "transition_allowed from to \<longleftrightarrow>
     (from, to) \<in> set
       [(Queued, Running),
        (Queued, Cancelled),
        (Running, CancelRequested),
        (CancelRequested, Cancelling),
        (Cancelling, Cancelled),
        (Cancelling, FailedToCancel),
        (Running, Succeeded),
        (Running, Failed),
        (Running, Cancelled),
        (Running, TimedOut),
        (Running, OutcomeUnknown)]"

definition put_task :: "string \<Rightarrow> task \<Rightarrow> task_table \<Rightarrow> task_table" where
  "put_task i t tbl = tbl\<lparr>tt_tasks := bt_insert i t (tt_tasks tbl)\<rparr>"

definition transition ::
  "clock \<Rightarrow> string \<Rightarrow> task_state \<Rightarrow> json option \<Rightarrow> task_error option \<Rightarrow> task_table
    \<Rightarrow> (task_table_error + task) \<times> task_table" where
  "transition clk i state output error tbl =
     (case bt_get (tt_tasks tbl) i of
        None \<Rightarrow> (Inl TaskNotFound, tbl)
      | Some t \<Rightarrow>
          if \<not> transition_allowed (task_state t) state
          then (Inl (TaskInvalidTransition (task_state t) state), tbl)
          else let attempt = (if state = Running then task_attempt t + 1 else task_attempt t);
                   t' = push_event (clk 1) (''task.'' @ task_state_name state) JNull
                          (t\<lparr>task_attempt := attempt, task_state := state, task_output := output,
                             task_error := error, task_updated_at := clk 0\<rparr>)
               in (Inr t', put_task i t' tbl))"

definition task_get :: "task_table \<Rightarrow> string \<Rightarrow> task option" where
  "task_get tbl i = bt_get (tt_tasks tbl) i"

fun retryable_state :: "task_state \<Rightarrow> bool" where
  "retryable_state Failed = True"
| "retryable_state TimedOut = True"
| "retryable_state OutcomeUnknown = True"
| "retryable_state FailedToCancel = True"
| "retryable_state _ = False"

definition retry :: "clock \<Rightarrow> string \<Rightarrow> task_table \<Rightarrow> (task_table_error + task) \<times> task_table" where
  "retry clk i tbl =
     (case bt_get (tt_tasks tbl) i of
        None \<Rightarrow> (Inl TaskNotFound, tbl)
      | Some t \<Rightarrow>
          if \<not> retryable_state (task_state t)
          then (Inl (TaskInvalidTransition (task_state t) Queued), tbl)
          else let t' = push_event (clk 1) ''task.retried'' JNull
                          (t\<lparr>task_state := Queued, task_output := None, task_error := None,
                             task_updated_at := clk 0\<rparr>)
               in (Inr t', put_task i t' tbl))"

definition task_snapshot :: "task_table \<Rightarrow> task list" where
  "task_snapshot tbl = bt_values (tt_tasks tbl)"

subsection \<open>Redaction\<close>

definition sensitive_name :: "string \<Rightarrow> bool" where
  "sensitive_name key =
     (let normalized = filter (\<lambda>c. c \<noteq> CHR ''_'' \<and> c \<noteq> CHR ''-'') (to_ascii_lowercase key)
      in list_ex (\<lambda>suffix. ends_with suffix normalized)
           [''token'', ''secret'', ''password'', ''credential''])"

definition redacted :: json where
  "redacted = JStr ''<redacted>''"

text \<open>The array case carries the loop's flag that the next element is to be replaced.\<close>

function (sequential)
  redact_sensitive_value :: "json \<Rightarrow> json" and redact_array :: "bool \<Rightarrow> json list \<Rightarrow> json list" where
  "redact_sensitive_value (JObj m) =
     JObj (map (\<lambda>e. (fst e, if sensitive_name (fst e) then redacted
                            else redact_sensitive_value (snd e))) m)"
| "redact_sensitive_value (JArr xs) = JArr (redact_array False xs)"
| "redact_sensitive_value (JStr text) =
     (if contains ''token_'' text then redacted else JStr text)"
| "redact_sensitive_value v = v"
| "redact_array redact_next [] = []"
| "redact_array True (v # vs) = redacted # redact_array False vs"
| "redact_array False (v # vs) =
     redact_sensitive_value v #
       redact_array (case v of JStr text \<Rightarrow> sensitive_name text | _ \<Rightarrow> False) vs"
  by pat_completeness auto
termination
  by (relation "measure (\<lambda>x. case x of Inl v \<Rightarrow> 2 * size v | Inr (b, vs) \<Rightarrow> Suc (2 * size_list size vs))")
    (auto simp: less_Suc_eq_le dest: json_obj_size)

definition redact_task :: "task \<Rightarrow> task" where
  "redact_task t =
     t\<lparr>task_input := redact_sensitive_value (task_input t),
       task_output := map_option redact_sensitive_value (task_output t),
       task_error := map_option (\<lambda>e.
         e\<lparr>terr_message := (if contains ''token_'' (terr_message e) then ''<redacted>'' else terr_message e),
           terr_details := redact_sensitive_value (terr_details e)\<rparr>) (task_error t)\<rparr>"

definition task_persistence_snapshot :: "task_table \<Rightarrow> task list" where
  "task_persistence_snapshot tbl = map redact_task (bt_values (tt_tasks tbl))"

subsection \<open>Pruning\<close>

fun remove_tasks :: "string list \<Rightarrow> task_table \<Rightarrow> task list \<times> task_table" where
  "remove_tasks [] tbl = ([], tbl)"
| "remove_tasks (i # is) tbl =
     (case bt_get (tt_tasks tbl) i of
        None \<Rightarrow> remove_tasks is tbl
      | Some t \<Rightarrow>
          let (removed, tbl') = remove_tasks is
                \<lparr>tt_tasks = bt_remove i (tt_tasks tbl),
                 tt_idempotency = bt_remove (task_key t) (tt_idempotency tbl)\<rparr>
          in (t # removed, tbl'))"

definition prune_terminal_before :: "u64 \<Rightarrow> task_table \<Rightarrow> task list \<times> task_table" where
  "prune_terminal_before cutoff tbl =
     remove_tasks (map task_id (filter (\<lambda>t. terminal (task_state t) \<and> task_updated_at t < cutoff)
                                  (bt_values (tt_tasks tbl)))) tbl"

fun evict_loop ::
  "nat \<Rightarrow> nat \<Rightarrow> (u64 \<times> string \<times> nat) list \<Rightarrow> string list \<Rightarrow> nat \<Rightarrow> nat \<Rightarrow> string list" where
  "evict_loop max_count max_bytes [] ids count bytes = ids"
| "evict_loop max_count max_bytes ((u, i, b) # rest) ids count bytes =
     (if count \<le> max_count \<and> bytes \<le> max_bytes then ids
      else evict_loop max_count max_bytes rest (bs_insert i ids) (count - 1) (bytes - b))"

definition prune_retention ::
  "(task \<Rightarrow> nat) \<Rightarrow> u64 \<Rightarrow> u64 \<Rightarrow> nat \<Rightarrow> nat \<Rightarrow> task_table \<Rightarrow> task list \<times> task_table" where
  "prune_retention enc_len now retention_ms max_count max_bytes tbl =
     (let cutoff = sat_sub now retention_ms;
          tasks = bt_values (tt_tasks tbl);
          remove_ids = fold bs_insert
            (map task_id (filter (\<lambda>t. terminal (task_state t) \<and> task_updated_at t < cutoff) tasks)) [];
          retained_count = length (tt_tasks tbl) - length remove_ids;
          retained_bytes = sum_list (map enc_len (filter (\<lambda>t. task_id t \<notin> set remove_ids) tasks));
          terminal_tasks = map (\<lambda>t. (task_updated_at t, task_id t, enc_len t))
            (filter (\<lambda>t. terminal (task_state t) \<and> task_id t \<notin> set remove_ids) tasks);
          sorted_tasks = sort_key (\<lambda>(u, i, b). (u, i)) terminal_tasks
      in remove_tasks (evict_loop max_count max_bytes sorted_tasks remove_ids retained_count retained_bytes) tbl)"

subsection \<open>Recovery after a restart\<close>

definition orphaned :: "task_state \<Rightarrow> bool" where
  "orphaned s = (s = Queued \<or> s = Running)"

definition restart_failure :: task_error where
  "restart_failure =
     \<lparr>terr_code = ''CONTROLLER_RESTARTED'',
      terr_message = ''controller restarted before the task outcome was recorded'',
      terr_retryable = True, terr_details = JNull\<rparr>"

definition recover_task :: "u64 \<Rightarrow> u64 \<Rightarrow> task \<Rightarrow> task" where
  "recover_task now1 now2 t =
     push_event now2 ''task.outcome-unknown'' JNull
       (t\<lparr>task_state := OutcomeUnknown, task_error := Some restart_failure,
          task_updated_at := now1\<rparr>)"

fun recover_entries :: "clock \<Rightarrow> (string \<times> task) list \<Rightarrow> task list \<times> (string \<times> task) list" where
  "recover_entries clk [] = ([], [])"
| "recover_entries clk ((i, t) # es) =
     (if orphaned (task_state t)
      then let t' = recover_task (clk 0) (clk 1) t;
               (rs, es') = recover_entries (\<lambda>n. clk (n + 2)) es
           in (t' # rs, (i, t') # es')
      else let (rs, es') = recover_entries clk es in (rs, (i, t) # es'))"

definition recover_orphans :: "clock \<Rightarrow> task_table \<Rightarrow> task list \<times> task_table" where
  "recover_orphans clk tbl =
     (let (recovered, tasks) = recover_entries clk (tt_tasks tbl)
      in (recovered, tbl\<lparr>tt_tasks := tasks\<rparr>))"

subsection \<open>Well-formedness\<close>

text \<open>
  A task is filed under its identifier and its scoped key leads back to it; every index entry
  leads to a task with that key; the events of a task are numbered from one.
\<close>

definition events_ok :: "task \<Rightarrow> bool" where
  "events_ok t = (map event_sequence (task_events t) = map of_nat [1..<Suc (length (task_events t))])"

definition task_ok :: "(string, string) btree_map \<Rightarrow> string \<times> task \<Rightarrow> bool" where
  "task_ok idem e = (task_id (snd e) = fst e \<and> bt_get idem (task_key (snd e)) = Some (fst e) \<and> events_ok (snd e))"

definition index_ok :: "(string, task) btree_map \<Rightarrow> string \<times> string \<Rightarrow> bool" where
  "index_ok tasks e = (case bt_get tasks (snd e) of None \<Rightarrow> False | Some t \<Rightarrow> task_key t = fst e)"

definition tt_wf :: "task_table \<Rightarrow> bool" where
  "tt_wf tbl = (bt_wf (tt_tasks tbl) \<and> bt_wf (tt_idempotency tbl) \<and>
     list_all (task_ok (tt_idempotency tbl)) (tt_tasks tbl) \<and>
     list_all (index_ok (tt_tasks tbl)) (tt_idempotency tbl))"

lemma index_ok_iff: "index_ok ts (k, i) \<longleftrightarrow> (\<exists>t. bt_get ts i = Some t \<and> task_key t = k)"
  by (auto simp: index_ok_def split: option.splits)

lemma list_all_bt: "bt_wf m \<Longrightarrow> list_all P m \<longleftrightarrow> (\<forall>k v. bt_get m k = Some v \<longrightarrow> P (k, v))"
  by (auto simp: list_all_iff simp flip: bt_entry_iff)

lemma tt_wf_iff:
  "tt_wf tbl \<longleftrightarrow> bt_wf (tt_tasks tbl) \<and> bt_wf (tt_idempotency tbl) \<and>
     (\<forall>i t. bt_get (tt_tasks tbl) i = Some t \<longrightarrow>
        task_id t = i \<and> bt_get (tt_idempotency tbl) (task_key t) = Some i \<and> events_ok t) \<and>
     (\<forall>k i. bt_get (tt_idempotency tbl) k = Some i \<longrightarrow>
        (\<exists>t. bt_get (tt_tasks tbl) i = Some t \<and> task_key t = k))"
  by (auto simp: tt_wf_def list_all_bt task_ok_def index_ok_iff)

lemma tt_wfD:
  assumes "tt_wf tbl"
  shows "bt_wf (tt_tasks tbl)" "bt_wf (tt_idempotency tbl)"
    and "bt_get (tt_tasks tbl) i = Some t \<Longrightarrow> task_id t = i"
    and "bt_get (tt_tasks tbl) i = Some t \<Longrightarrow> bt_get (tt_idempotency tbl) (task_key t) = Some i"
    and "bt_get (tt_tasks tbl) i = Some t \<Longrightarrow> events_ok t"
    and "bt_get (tt_idempotency tbl) k = Some i \<Longrightarrow> \<exists>t. bt_get (tt_tasks tbl) i = Some t \<and> task_key t = k"
  using assms by (auto simp: tt_wf_iff)

lemma tt_wf_default [wf_intros]: "tt_wf task_table_default"
  by (simp add: tt_wf_def task_table_default_def)

definition task_identity :: "task \<Rightarrow> string \<times> string \<times> string \<times> string \<times> string \<times> u64" where
  "task_identity t = (task_id t, task_workspace_session_id t, task_executor_id t,
                      task_capability t, task_idempotency_key t, task_created_at t)"

lemma task_identity_key: "task_identity a = task_identity b \<Longrightarrow> task_key a = task_key b \<and> task_id a = task_id b"
  by (simp add: task_identity_def task_key_def)

lemma push_event_fields [simp]:
  "task_identity (push_event n e d t) = task_identity t"
  "task_state (push_event n e d t) = task_state t"
  "task_key (push_event n e d t) = task_key t"
  "task_id (push_event n e d t) = task_id t"
  "task_error (push_event n e d t) = task_error t"
  "task_output (push_event n e d t) = task_output t"
  "task_input (push_event n e d t) = task_input t"
  by (simp_all add: push_event_def task_identity_def task_key_def)

lemma task_events_push: "\<exists>ev. task_events (push_event n e d t) = task_events t @ [ev]"
  by (simp add: push_event_def)

lemma events_ok_push: "events_ok t \<Longrightarrow> events_ok (push_event n e d t)"
  by (simp add: events_ok_def push_event_def)

lemma events_ok_update [simp]:
  "events_ok (t\<lparr>task_state := a\<rparr>) = events_ok t" "events_ok (t\<lparr>task_output := b\<rparr>) = events_ok t"
  "events_ok (t\<lparr>task_error := c\<rparr>) = events_ok t" "events_ok (t\<lparr>task_updated_at := d\<rparr>) = events_ok t"
  "events_ok (t\<lparr>task_attempt := e\<rparr>) = events_ok t"
  by (simp_all add: events_ok_def)

lemma task_identity_update [simp]:
  "task_identity (t\<lparr>task_state := a\<rparr>) = task_identity t" "task_identity (t\<lparr>task_output := b\<rparr>) = task_identity t"
  "task_identity (t\<lparr>task_error := c\<rparr>) = task_identity t" "task_identity (t\<lparr>task_updated_at := d\<rparr>) = task_identity t"
  "task_identity (t\<lparr>task_attempt := e\<rparr>) = task_identity t"
  by (simp_all add: task_identity_def)

lemma queued_task_fields:
  "task_id (queued_task clk u ws ex cap inp key corr req) = ''task_'' @ u"
  "task_key (queued_task clk u ws ex cap inp key corr req) = scoped_idempotency_key ws ex cap key"
  "events_ok (queued_task clk u ws ex cap inp key corr req)"
  "task_state (queued_task clk u ws ex cap inp key corr req) = Queued"
  by (simp_all add: queued_task_def Let_def push_event_def task_key_def events_ok_def)

lemma tt_wf_put:
  assumes "tt_wf tbl" "bt_get (tt_tasks tbl) i = Some a" "task_identity b = task_identity a" "events_ok b"
  shows "tt_wf (put_task i b tbl)"
  using assms task_identity_key [OF assms(3)]
  by (auto simp: tt_wf_iff put_task_def bt_simps) force

lemma tt_wf_submit_traced [wf_intros]:
  assumes wf: "tt_wf tbl" and fresh: "task_get tbl (''task_'' @ uuid) = None"
    and sub: "submit_traced clk uuid ws ex cap inp key corr req tbl = Some (res, tbl')"
  shows "tt_wf tbl'"
proof (cases "bt_get (tt_idempotency tbl) (scoped_idempotency_key ws ex cap key)")
  case (Some i)
  with sub wf show ?thesis by (auto simp: submit_traced_def)
next
  case None
  let ?t = "queued_task clk uuid ws ex cap inp key corr req"
  have "bt_get (tt_tasks tbl) (task_id ?t) = None"
    using fresh by (simp add: task_get_def queued_task_fields)
  moreover have "tbl' = \<lparr>tt_tasks = bt_insert (task_id ?t) ?t (tt_tasks tbl),
      tt_idempotency = bt_insert (task_key ?t) (task_id ?t) (tt_idempotency tbl)\<rparr>"
    using None sub by (auto simp: submit_traced_def Let_def queued_task_fields(2))
  ultimately show ?thesis
    using wf None queued_task_fields(2,3) [of clk uuid ws ex cap inp key corr req]
    by (auto simp: tt_wf_iff bt_simps) fastforce+
qed

lemma tt_wf_transition [wf_intros]: "tt_wf tbl \<Longrightarrow> tt_wf (snd (transition clk i st out err tbl))"
  by (auto simp: transition_def Let_def tt_wfD(5) intro!: tt_wf_put events_ok_push split: option.splits)

lemma tt_wf_retry [wf_intros]: "tt_wf tbl \<Longrightarrow> tt_wf (snd (retry clk i tbl))"
  by (auto simp: retry_def Let_def tt_wfD(5) intro!: tt_wf_put events_ok_push split: option.splits)

lemma tt_wf_remove_one:
  assumes "tt_wf tbl" "bt_get (tt_tasks tbl) i = Some t"
  shows "tt_wf \<lparr>tt_tasks = bt_remove i (tt_tasks tbl),
                tt_idempotency = bt_remove (task_key t) (tt_idempotency tbl)\<rparr>"
proof -
  let ?t = "\<lparr>tt_tasks = bt_remove i (tt_tasks tbl), tt_idempotency = bt_remove (task_key t) (tt_idempotency tbl)\<rparr>"
  have key: "task_key u \<noteq> task_key t" if "bt_get (tt_tasks tbl) j = Some u" "j \<noteq> i" for j u
    using that assms tt_wfD(4) [OF assms(1)] by (metis option.inject)
  have "\<exists>u. bt_get (tt_tasks ?t) j = Some u \<and> task_key u = k"
    if "bt_get (tt_idempotency ?t) k = Some j" for k j
    using that assms tt_wfD(6) [OF assms(1), of k j]
    by (auto simp: bt_get_remove tt_wfD(1,2) split: if_splits)
  with assms key show ?thesis
    unfolding tt_wf_iff [of ?t] by (auto simp: bt_simps tt_wfD split: if_splits)
qed

lemma tt_wf_remove_tasks [wf_intros]: "tt_wf tbl \<Longrightarrow> tt_wf (snd (remove_tasks is tbl))"
  by (induction "is" tbl rule: remove_tasks.induct)
    (auto simp: Let_def case_prod_beta tt_wf_remove_one split: option.splits)

lemma tt_wf_prune [wf_intros]:
  "tt_wf tbl \<Longrightarrow> tt_wf (snd (prune_terminal_before cutoff tbl))"
  "tt_wf tbl \<Longrightarrow> tt_wf (snd (prune_retention enc_len now ret mc mb tbl))"
  by (simp_all add: prune_terminal_before_def prune_retention_def Let_def tt_wf_remove_tasks)

lemma remove_tasks_get:
  "task_get (snd (remove_tasks is tbl)) i = (if i \<in> set is then None else task_get tbl i)"
  by (induction "is" tbl rule: remove_tasks.induct)
    (auto simp: Let_def case_prod_beta task_get_def bt_get_remove split: option.splits)

subsection \<open>Restart\<close>

lemma redact_task_fields [simp]:
  "task_id (redact_task t) = task_id t" "task_key (redact_task t) = task_key t"
  "task_state (redact_task t) = task_state t" "task_events (redact_task t) = task_events t"
  "task_identity (redact_task t) = task_identity t"
  by (simp_all add: redact_task_def task_key_def task_identity_def)

lemma from_tasks_maps:
  "tt_tasks (from_tasks ts) = fold (\<lambda>t. bt_insert (task_id t) t) ts []"
  "tt_idempotency (from_tasks ts) = fold (\<lambda>t. bt_insert (task_key t) (task_id t)) ts []"
proof -
  have "tt_tasks (fold load_task ts tbl) = fold (\<lambda>t. bt_insert (task_id t) t) ts (tt_tasks tbl) \<and>
        tt_idempotency (fold load_task ts tbl) =
          fold (\<lambda>t. bt_insert (task_key t) (task_id t)) ts (tt_idempotency tbl)" for tbl
    by (induction ts arbitrary: tbl) (simp_all add: load_task_def)
  then show "tt_tasks (from_tasks ts) = fold (\<lambda>t. bt_insert (task_id t) t) ts []"
    and "tt_idempotency (from_tasks ts) = fold (\<lambda>t. bt_insert (task_key t) (task_id t)) ts []"
    by (simp_all add: from_tasks_def task_table_default_def)
qed

definition restored_tasks :: "task_table \<Rightarrow> task_table" where
  "restored_tasks tbl = from_tasks (task_persistence_snapshot tbl)"

lemma tt_wf_distinct:
  assumes "tt_wf tbl"
  shows "distinct (map task_id (task_persistence_snapshot tbl))"
    and "distinct (map task_key (task_persistence_snapshot tbl))"
proof -
  have ids: "map task_id (task_persistence_snapshot tbl) = map fst (tt_tasks tbl)"
    using assms
    by (auto simp: task_persistence_snapshot_def bt_values_def tt_wf_def task_ok_def list_all_iff)
  with assms show "distinct (map task_id (task_persistence_snapshot tbl))"
    by (simp add: bt_wf_distinct tt_wfD(1))
  have "inj_on task_key (set (task_persistence_snapshot tbl))"
  proof (rule inj_onI)
    fix a b assume ab: "a \<in> set (task_persistence_snapshot tbl)" "b \<in> set (task_persistence_snapshot tbl)"
      and key: "task_key a = task_key b"
    then obtain x y where x: "(task_id x, x) \<in> set (tt_tasks tbl)" "a = redact_task x"
      and y: "(task_id y, y) \<in> set (tt_tasks tbl)" "b = redact_task y"
      using assms
      by (fastforce simp: task_persistence_snapshot_def bt_values_def tt_wf_def task_ok_def list_all_iff)
    with assms key have "task_id x = task_id y"
      using tt_wfD(4) [OF assms] by (simp add: bt_entry_iff tt_wfD(1)) (metis option.inject)
    with x y assms show "a = b"
      by (auto simp: bt_entry_iff tt_wfD(1))
  qed
  moreover have "distinct (task_persistence_snapshot tbl)"
    using \<open>distinct (map task_id (task_persistence_snapshot tbl))\<close> by (simp add: distinct_map)
  ultimately show "distinct (map task_key (task_persistence_snapshot tbl))"
    by (simp add: distinct_map)
qed

lemma persisted_task_iff:
  assumes "tt_wf tbl"
  shows "t \<in> set (task_persistence_snapshot tbl) \<longleftrightarrow>
    (\<exists>u. bt_get (tt_tasks tbl) (task_id t) = Some u \<and> t = redact_task u)"
  using tt_wfD(3) [OF assms]
  unfolding task_persistence_snapshot_def set_map image_iff bt_values_iff [OF tt_wfD(1) [OF assms]] Bex_def
  by (metis redact_task_fields(1))

lemma restored_get:
  assumes "tt_wf tbl"
  shows "bt_get (tt_tasks (restored_tasks tbl)) i = map_option redact_task (bt_get (tt_tasks tbl) i)"
proof -
  have "bt_get (tt_tasks (restored_tasks tbl)) i = Some t \<longleftrightarrow>
      (\<exists>u. bt_get (tt_tasks tbl) i = Some u \<and> t = redact_task u)" for t
    using load_distinct [OF tt_wf_distinct(1) [OF assms], of "\<lambda>t. t"] tt_wfD(3) [OF assms]
    by (auto simp: restored_tasks_def from_tasks_maps persisted_task_iff [OF assms])
  then show ?thesis
    by (cases "bt_get (tt_tasks tbl) i"; cases "bt_get (tt_tasks (restored_tasks tbl)) i") auto
qed

lemma restored_index:
  assumes "tt_wf tbl"
  shows "bt_get (tt_idempotency (restored_tasks tbl)) k = bt_get (tt_idempotency tbl) k"
proof -
  have "(\<exists>t \<in> set (task_persistence_snapshot tbl). task_key t = k \<and> task_id t = i) \<longleftrightarrow>
      bt_get (tt_idempotency tbl) k = Some i" for i
  proof
    assume "\<exists>t \<in> set (task_persistence_snapshot tbl). task_key t = k \<and> task_id t = i"
    then obtain u where "bt_get (tt_tasks tbl) i = Some u" "task_key u = k"
      by (auto simp: persisted_task_iff [OF assms])
    with assms show "bt_get (tt_idempotency tbl) k = Some i" by (auto dest: tt_wfD(4))
  next
    assume "bt_get (tt_idempotency tbl) k = Some i"
    with assms obtain u where u: "bt_get (tt_tasks tbl) i = Some u" "task_key u = k"
      by (blast dest: tt_wfD(6))
    with assms have "redact_task u \<in> set (task_persistence_snapshot tbl)"
      by (auto simp: persisted_task_iff dest: tt_wfD(3))
    with u assms show "\<exists>t \<in> set (task_persistence_snapshot tbl). task_key t = k \<and> task_id t = i"
      by (intro bexI [of _ "redact_task u"]) (auto dest: tt_wfD(3))
  qed
  then have "bt_get (tt_idempotency (restored_tasks tbl)) k = Some i \<longleftrightarrow>
      bt_get (tt_idempotency tbl) k = Some i" for i
    using load_distinct [OF tt_wf_distinct(2) [OF assms], of task_id k i]
    by (simp add: restored_tasks_def from_tasks_maps)
  then show ?thesis by (metis not_Some_eq)
qed

lemma tt_wf_restored [wf_intros]:
  assumes "tt_wf tbl"
  shows "tt_wf (restored_tasks tbl)"
proof -
  have "bt_wf (tt_tasks (restored_tasks tbl))" "bt_wf (tt_idempotency (restored_tasks tbl))"
    by (simp_all add: restored_tasks_def from_tasks_maps bt.invar_load)
  moreover have "events_ok (redact_task t) = events_ok t" for t by (simp add: events_ok_def)
  ultimately show ?thesis
    using assms unfolding tt_wf_iff [of "restored_tasks tbl"]
    by (auto simp: restored_get restored_index tt_wfD(3-5) dest: tt_wfD(6))
qed

lemma recover_entries_keys: "map fst (snd (recover_entries clk es)) = map fst es"
  by (induction clk es rule: recover_entries.induct) (auto simp: Let_def case_prod_beta)

definition recovered_from :: "task \<Rightarrow> task \<Rightarrow> bool" where
  "recovered_from t t' = (if orphaned (task_state t) then \<exists>n1 n2. t' = recover_task n1 n2 t else t' = t)"

lemma recover_entries_get:
  "rel_option recovered_from (map_of es i) (map_of (snd (recover_entries clk es)) i)"
  by (induction clk es rule: recover_entries.induct)
    (auto simp: Let_def case_prod_beta recovered_from_def)

lemma recover_orphans_get:
  "rel_option recovered_from (task_get tbl i) (task_get (snd (recover_orphans clk tbl)) i)"
  using recover_entries_get [of "tt_tasks tbl" i clk]
  by (simp add: recover_orphans_def task_get_def bt_get_def Let_def case_prod_beta)

lemma recover_task_fields [simp]:
  "task_identity (recover_task n1 n2 t) = task_identity t"
  "task_state (recover_task n1 n2 t) = OutcomeUnknown"
  "task_error (recover_task n1 n2 t) = Some restart_failure"
  "events_ok t \<Longrightarrow> events_ok (recover_task n1 n2 t)"
  by (simp_all add: recover_task_def events_ok_push)

lemma tt_wf_recover [wf_intros]:
  assumes "tt_wf tbl"
  shows "tt_wf (snd (recover_orphans clk tbl))"
proof -
  let ?t = "snd (recover_orphans clk tbl)"
  have wf: "bt_wf (tt_tasks ?t)"
    using assms recover_entries_keys [of clk "tt_tasks tbl"]
    by (simp add: recover_orphans_def Let_def case_prod_beta bt_wf_def tt_wf_def)
  have idem: "tt_idempotency ?t = tt_idempotency tbl"
    by (simp add: recover_orphans_def Let_def case_prod_beta)
  have rel: "rel_option (\<lambda>u t. task_identity t = task_identity u \<and> (events_ok u \<longrightarrow> events_ok t))
      (bt_get (tt_tasks tbl) i) (bt_get (tt_tasks ?t) i)" for i
    using recover_orphans_get [of tbl i clk] unfolding task_get_def
    by (rule option.rel_mono_strong) (auto simp: recovered_from_def split: if_splits)
  have bwd: "\<exists>u. bt_get (tt_tasks tbl) i = Some u \<and> task_identity t = task_identity u \<and> (events_ok u \<longrightarrow> events_ok t)"
    if "bt_get (tt_tasks ?t) i = Some t" for i t
    using rel [of i] that by (auto simp: option_rel_Some2)
  have fwd: "\<exists>t. bt_get (tt_tasks ?t) i = Some t \<and> task_identity t = task_identity u"
    if "bt_get (tt_tasks tbl) i = Some u" for i u
    using rel [of i] that by (auto simp: option_rel_Some1)
  have "task_id t = i \<and> events_ok t \<and> bt_get (tt_idempotency tbl) (task_key t) = Some i"
    if "bt_get (tt_tasks ?t) i = Some t" for i t
    using bwd [OF that] tt_wfD(3-5) [OF assms] by (metis task_identity_key)
  moreover have "\<exists>t. bt_get (tt_tasks ?t) i = Some t \<and> task_key t = k"
    if "bt_get (tt_idempotency tbl) k = Some i" for k i
    using tt_wfD(6) [OF assms that] fwd by (metis task_identity_key)
  ultimately show ?thesis
    unfolding tt_wf_iff [of ?t] idem using wf tt_wfD(2) [OF assms] by blast
qed

subsection \<open>Runs of the table\<close>

text \<open>
  What Controller startup does with the persisted tasks, and one step of a run: any operation
  with any arguments, or a restart. A submission's random identifier is new to the table.
\<close>

definition restart_tasks :: "clock \<Rightarrow> task_table \<Rightarrow> task_table" where
  "restart_tasks clk tbl = snd (recover_orphans clk (restored_tasks tbl))"

inductive task_step :: "task_table \<Rightarrow> task_table \<Rightarrow> bool" where
  step_submit: "task_get tbl (''task_'' @ uuid) = None \<Longrightarrow>
     submit_traced clk uuid ws ex cap inp key corr req tbl = Some (res, tbl') \<Longrightarrow> task_step tbl tbl'"
| step_transition: "task_step tbl (snd (transition clk i st out err tbl))"
| step_retry: "task_step tbl (snd (retry clk i tbl))"
| step_prune: "task_step tbl (snd (prune_terminal_before cutoff tbl))"
| step_retention: "task_step tbl (snd (prune_retention enc_len now ret mc mb tbl))"
| step_restart: "task_step tbl (restart_tasks clk tbl)"

lemma task_step_wf: "task_step tbl tbl' \<Longrightarrow> tt_wf tbl \<Longrightarrow> tt_wf tbl'"
  by (induction rule: task_step.induct) (auto simp: restart_tasks_def intro: wf_intros)

definition state_step :: "task_state \<Rightarrow> task_state \<Rightarrow> bool" where
  "state_step s s' = (s' = s \<or> transition_allowed s s' \<or> (retryable_state s \<and> s' = Queued)
                      \<or> (orphaned s \<and> s' = OutcomeUnknown))"

definition task_evolves :: "task \<Rightarrow> task \<Rightarrow> bool" where
  "task_evolves a b = (task_identity b = task_identity a \<and> state_step (task_state a) (task_state b)
                       \<and> (\<exists>ev. task_events b = task_events a @ ev))"

lemma task_evolves_refl [simp]: "task_evolves a a"
  by (simp add: task_evolves_def state_step_def)

lemma task_evolves_recover: "orphaned (task_state t) \<Longrightarrow> task_evolves t (recover_task n1 n2 t)"
  by (simp add: task_evolves_def state_step_def) (simp add: recover_task_def push_event_def)

lemma task_evolves_redact: "task_evolves (redact_task t) b \<Longrightarrow> task_evolves t b"
  by (simp add: task_evolves_def)

lemma submit_get:
  assumes "submit_traced clk uuid ws ex cap inp key corr req tbl = Some ((t, reused), tbl')" "tt_wf tbl"
  shows "task_get tbl' i = (if i = task_id t then Some t else task_get tbl i)"
  using assms tt_wfD(3) [OF assms(2)]
  by (auto simp: submit_traced_def Let_def task_get_def bt_simps tt_wfD(1) split: option.splits)

lemma task_step_evolves:
  "task_step tbl tbl' \<Longrightarrow> tt_wf tbl \<Longrightarrow> task_get tbl i = Some a \<Longrightarrow> task_get tbl' i = Some b \<Longrightarrow> task_evolves a b"
proof (induction rule: task_step.induct)
  case (step_submit tbl uuid clk ws ex cap inp key corr req res tbl')
  obtain t reused where res: "res = (t, reused)" by (cases res)
  show ?case
  proof (cases reused)
    case True
    with step_submit res show ?thesis
      by (auto simp: submit_traced_def Let_def split: option.splits)
  next
    case False
    with step_submit.hyps res have "task_id t = ''task_'' @ uuid"
      by (auto simp: submit_traced_def Let_def queued_task_fields(1) split: option.splits)
    with step_submit submit_get [of clk uuid ws ex cap inp key corr req tbl t reused tbl' i] res
    show ?thesis by (auto split: if_splits)
  qed
next
  case (step_transition tbl clk j st out err)
  then show ?case
    by (auto simp: transition_def Let_def task_get_def put_task_def bt_simps tt_wfD(1)
        task_evolves_def state_step_def split: option.splits if_splits)
      (simp_all add: push_event_def)
next
  case (step_retry tbl clk j)
  then show ?case
    by (auto simp: retry_def Let_def task_get_def put_task_def bt_simps tt_wfD(1)
        task_evolves_def state_step_def split: option.splits if_splits)
      (simp_all add: push_event_def)
next
  case (step_prune tbl cutoff)
  then show ?case by (auto simp: prune_terminal_before_def remove_tasks_get split: if_splits)
next
  case (step_retention tbl enc_len now ret mc mb)
  then show ?case by (auto simp: prune_retention_def Let_def remove_tasks_get split: if_splits)
next
  case (step_restart tbl clk)
  then have "task_get (restored_tasks tbl) i = Some (redact_task a)"
    by (simp add: task_get_def restored_get)
  with recover_orphans_get [of "restored_tasks tbl" i clk] step_restart.prems(3)
  have "recovered_from (redact_task a) b" by (simp add: restart_tasks_def)
  then have "task_evolves (redact_task a) b"
    by (auto simp: recovered_from_def intro: task_evolves_recover split: if_splits)
  then show ?case by (rule task_evolves_redact)
qed

interpretation tasks: entity_store tt_wf task_get task_step task_evolves
  by unfold_locales (auto intro: task_step_wf task_step_evolves)

end
