(* ===== verification/Task_Properties.thy ===== *)
theory Task_Properties
  imports Task_Table "HOL-Library.Multiset"
begin

section \<open>Properties of the task table\<close>

text \<open>
  What the task table promises its clients: exactly-once submission per scope, the separation
  of scopes, the append-only history of a task, redaction of what is persisted, retention and
  recovery. The invariant and the run relation these rest on are in the theory of the table.
\<close>

subsection \<open>Submissions are exactly-once within their scope\<close>

lemma submit_existing:
  assumes "tt_wf tbl" "task_get tbl i = Some t" "task_key t = scoped_idempotency_key ws ex cap key"
  shows "submit_traced clk u ws ex cap inp key corr req tbl = Some ((t, True), tbl)"
proof -
  have "bt_get (tt_idempotency tbl) (task_key t) = Some i"
    using assms by (auto simp: task_get_def dest: tt_wfD(4))
  with assms(2,3) show ?thesis by (simp add: submit_traced_def task_get_def)
qed

lemma submit_result:
  assumes "tt_wf tbl" "submit_traced clk u ws ex cap inp key corr req tbl = Some ((t, reused), tbl')"
  shows "task_get tbl' (task_id t) = Some t" "task_key t = scoped_idempotency_key ws ex cap key"
    "\<not> reused \<Longrightarrow> t = queued_task clk u ws ex cap inp key corr req" "reused \<Longrightarrow> tbl' = tbl"
  using assms submit_get [OF assms(2,1), of "task_id t"]
  by (auto simp: submit_traced_def Let_def queued_task_fields split: option.splits dest: tt_wfD(6))

lemma submit_total:
  assumes "tt_wf tbl"
  shows "\<exists>r. submit_traced clk u ws ex cap inp key corr req tbl = Some r"
  using tt_wfD(6) [OF assms] by (auto simp: submit_traced_def Let_def split: option.splits)

lemma task_evolves_identity: "task_evolves\<^sup>*\<^sup>* a b \<Longrightarrow> task_identity b = task_identity a"
  by (induction rule: rtranclp_induct) (simp_all add: task_evolves_def)

text \<open>
  C7. Submitting is exactly-once within its scope, and never panics: in every table a run
  from the empty one reaches (restarts included), a submission returns a task; and as long as
  that task is not pruned, every later submission with the same workspace session, Executor,
  capability and idempotency key, whatever its input, returns the task with the same
  identity, marked as reused, and leaves the table unchanged.
\<close>

theorem submit_exactly_once:
  assumes reach: "task_step\<^sup>*\<^sup>* task_table_default tbl"
    and fresh: "task_get tbl (''task_'' @ u) = None"
  shows "\<exists>t reused tbl1. submit_traced clk u ws ex cap inp key corr req tbl = Some ((t, reused), tbl1) \<and>
    task_get tbl1 (task_id t) = Some t \<and>
    (if reused then tbl1 = tbl else t = queued_task clk u ws ex cap inp key corr req) \<and>
    (\<forall>tbl2. (\<lambda>s s'. task_step s s' \<and> task_get s' (task_id t) \<noteq> None)\<^sup>*\<^sup>* tbl1 tbl2 \<longrightarrow>
        (\<exists>t'. submit_traced clk' u' ws ex cap inp' key corr' req' tbl2 = Some ((t', True), tbl2) \<and>
              task_identity t' = task_identity t))"
proof -
  have wf: "tt_wf tbl" using tasks.inv_run [OF reach tt_wf_default] .
  then obtain t reused tbl1 where sub: "submit_traced clk u ws ex cap inp key corr req tbl = Some ((t, reused), tbl1)"
    using submit_total by (metis prod.collapse)
  have wf1: "tt_wf tbl1" by (rule tt_wf_submit_traced [OF wf fresh sub])
  note res = submit_result [OF wf sub]
  have "\<exists>t'. submit_traced clk' u' ws ex cap inp' key corr' req' tbl2 = Some ((t', True), tbl2) \<and>
              task_identity t' = task_identity t"
    if run: "(\<lambda>s s'. task_step s s' \<and> task_get s' (task_id t) \<noteq> None)\<^sup>*\<^sup>* tbl1 tbl2" for tbl2
  proof -
    from tasks.kept_run [OF run wf1 res(1)] obtain t' where t': "tt_wf tbl2"
        "task_get tbl2 (task_id t) = Some t'" "task_evolves\<^sup>*\<^sup>* t t'" by blast
    then have "task_identity t' = task_identity t" by (simp add: task_evolves_identity)
    with submit_existing [OF t'(1,2)] res(2) show ?thesis by (metis task_identity_key)
  qed
  with sub res show ?thesis by auto
qed

definition demo_tasks :: task_table where
  "demo_tasks = snd (the (submit_traced (\<lambda>_. 5) ''a'' ''ws'' ''ex'' ''build'' JNull ''k'' None None task_table_default))"

lemma demo_tasks_step: "task_step task_table_default demo_tasks"
  by (rule step_submit [of _ "''a''" "\<lambda>_. 5" "''ws''" "''ex''" "''build''" JNull "''k''" None None])
    (simp_all add: demo_tasks_def submit_traced_def task_get_def task_table_default_def bt_get_def Let_def)

lemma demo_tasks_eval:
  "demo_tasks = \<lparr>tt_tasks = [(''task_a'', queued_task (\<lambda>_. 5) ''a'' ''ws'' ''ex'' ''build'' JNull ''k'' None None)],
    tt_idempotency = [(scoped_idempotency_key ''ws'' ''ex'' ''build'' ''k'', ''task_a'')]\<rparr>"
  by (simp add: demo_tasks_def submit_traced_def task_table_default_def bt_get_def Let_def queued_task_fields)

lemma demo_tasks_reach: "task_step\<^sup>*\<^sup>* task_table_default demo_tasks"
  using demo_tasks_step by blast

lemma demo_tasks_wf: "tt_wf demo_tasks"
  by (rule tasks.inv_run [OF demo_tasks_reach tt_wf_default])

theorem submit_exactly_once_witness:
  "\<exists>t t1 tbl1. submit_traced (\<lambda>_. 6) ''b'' ''ws'' ''ex'' ''deploy'' JNull ''k'' None None demo_tasks = Some ((t, False), tbl1) \<and>
     submit_traced (\<lambda>_. 7) ''c'' ''ws'' ''ex'' ''deploy'' (JBool True) ''k'' None None tbl1 = Some ((t1, True), tbl1) \<and>
     task_id t1 = ''task_b''"
proof -
  have fresh: "task_get demo_tasks (''task_'' @ ''b'') = None"
    by (simp add: demo_tasks_eval task_get_def bt_get_def)
  obtain t reused tbl1 where t:
      "submit_traced (\<lambda>_. 6) ''b'' ''ws'' ''ex'' ''deploy'' JNull ''k'' None None demo_tasks = Some ((t, reused), tbl1)"
      "if reused then tbl1 = demo_tasks else t = queued_task (\<lambda>_. 6) ''b'' ''ws'' ''ex'' ''deploy'' JNull ''k'' None None"
      "\<exists>t'. submit_traced (\<lambda>_. 7) ''c'' ''ws'' ''ex'' ''deploy'' (JBool True) ''k'' None None tbl1 = Some ((t', True), tbl1) \<and>
         task_identity t' = task_identity t"
    using submit_exactly_once [OF demo_tasks_reach fresh, of "\<lambda>_. 6" "''ws''" "''ex''" "''deploy''" JNull "''k''" None None
        "\<lambda>_. 7" "''c''" "JBool True" None None] by blast
  moreover have "\<not> reused"
    using t(1) by (auto simp: submit_traced_def demo_tasks_eval bt_get_def Let_def scoped_idempotency_key_def)
  moreover have "task_id (queued_task (\<lambda>_. 6) ''b'' ''ws'' ''ex'' ''deploy'' JNull ''k'' None None) = ''task_b''"
    by (simp add: queued_task_fields)
  ultimately show ?thesis by (auto dest: task_identity_key)
qed

subsection \<open>The idempotency scope\<close>

lemma nul_split:
  "CHR 0x00 \<notin> set a \<Longrightarrow> CHR 0x00 \<notin> set b \<Longrightarrow> (a @ CHR 0x00 # x = b @ CHR 0x00 # y) = (a = b \<and> x = y)"
proof (induction a arbitrary: b)
  case Nil
  then show ?case by (cases b) auto
next
  case (Cons c a)
  then show ?case by (cases b) auto
qed

text \<open>
  Idempotency scopes do not interfere: as long as session, Executor and capability names
  hold no NUL byte, two scoped keys are equal only if all four components are, so that a
  submission is only ever answered with a task of its own scope; without that proviso two
  different scopes can share a key, and the second is answered with the first one's task.
\<close>

theorem scoped_key_injective:
  assumes "CHR 0x00 \<notin> set (ws @ ex @ cap)" "CHR 0x00 \<notin> set (ws' @ ex' @ cap')"
  shows "scoped_idempotency_key ws ex cap key = scoped_idempotency_key ws' ex' cap' key' \<longleftrightarrow>
    (ws, ex, cap, key) = (ws', ex', cap', key')"
  using assms by (simp add: scoped_idempotency_key_def nul_split)

theorem scoped_key_injective_witness:
  "scoped_idempotency_key ''a'' ''b'' ''c'' [CHR 0x00] \<noteq> scoped_idempotency_key ''a'' ''b'' ''d'' [CHR 0x00]"
  using scoped_key_injective [of "''a''" "''b''" "''c''" "''a''" "''b''" "''d''" "[CHR 0x00]" "[CHR 0x00]"] by simp

text \<open>
  The proviso is needed: with a NUL byte in the Executor name, a submission for one
  Executor and capability is answered with the queued task of another.
\<close>

theorem scoped_key_collision:
  "\<exists>t tbl t'. submit clk u ws [CHR 0x61, CHR 0x00, CHR 0x62] ''c'' inp key task_table_default = Some ((t, False), tbl) \<and>
     submit clk' u' ws ''a'' [CHR 0x62, CHR 0x00, CHR 0x63] inp' key tbl = Some ((t', True), tbl) \<and>
     t' = t \<and> task_executor_id t' \<noteq> ''a''"
  by (simp add: submit_def submit_traced_def Let_def task_table_default_def bt_get_def
      scoped_idempotency_key_def queued_task_def push_event_def)

subsection \<open>The history of a task\<close>

definition final_state :: "task_state \<Rightarrow> bool" where
  "final_state s = (s = Succeeded \<or> s = Cancelled)"

lemma task_evolves_run:
  assumes "task_evolves\<^sup>*\<^sup>* a b"
  shows "task_identity b = task_identity a \<and> state_step\<^sup>*\<^sup>* (task_state a) (task_state b) \<and>
    (\<exists>ev. task_events b = task_events a @ ev) \<and> (final_state (task_state a) \<longrightarrow> task_state b = task_state a)"
  using assms
proof (induction rule: rtranclp_induct)
  case base
  then show ?case by simp
next
  case (step b c)
  have "final_state (task_state b) \<Longrightarrow> task_state c = task_state b"
    using step.hyps(2)
    by (auto simp: task_evolves_def state_step_def final_state_def transition_allowed_def orphaned_def)
  with step show ?case
    by (auto simp: task_evolves_def intro: rtranclp.rtrancl_into_rtrancl)
qed

text \<open>
  C30. The history of a task is append-only along every run that keeps it, restarts included:
  what identifies it never changes, its state moves only by the transition table, a retry of a
  failed attempt or the recovery of an orphan, the events it had stay a prefix of its events,
  which are numbered from one without gaps, and a task that succeeded or was cancelled never
  leaves that state.
\<close>

theorem task_history:
  assumes "tt_wf tbl" and "task_get tbl i = Some a"
    and "(\<lambda>s s'. task_step s s' \<and> task_get s' i \<noteq> None)\<^sup>*\<^sup>* tbl tbl'"
  shows "\<exists>b ev. task_get tbl' i = Some b \<and> task_identity b = task_identity a \<and>
    state_step\<^sup>*\<^sup>* (task_state a) (task_state b) \<and>
    task_events b = task_events a @ ev \<and> events_ok b \<and>
    (final_state (task_state a) \<longrightarrow> task_state b = task_state a)"
proof -
  from tasks.kept_run [OF assms(3,1,2)] obtain b where b: "tt_wf tbl'" "task_get tbl' i = Some b"
      "task_evolves\<^sup>*\<^sup>* a b" by blast
  then have "events_ok b" by (auto simp: task_get_def dest: tt_wfD(5))
  with b task_evolves_run [OF b(3)] show ?thesis by blast
qed

definition demo_done :: task_table where
  "demo_done = snd (transition (\<lambda>_. 9) ''task_a'' Cancelled None None demo_tasks)"

lemma demo_done_get: "\<exists>t. task_get demo_done ''task_a'' = Some t \<and> task_state t = Cancelled"
  by (simp add: demo_done_def transition_def demo_tasks_eval bt_get_def queued_task_fields
      transition_allowed_def Let_def put_task_def task_get_def)

theorem task_history_witness:
  "\<exists>b. task_get (snd (retry (\<lambda>_. 11) ''task_a'' (restart_tasks (\<lambda>_. 10) demo_done))) ''task_a'' = Some b \<and>
       task_state b = Cancelled"
proof -
  obtain a where a: "task_get demo_done ''task_a'' = Some a" "task_state a = Cancelled"
    using demo_done_get by blast
  have wf: "tt_wf demo_done" by (simp add: demo_done_def demo_tasks_wf wf_intros)
  let ?r = "restart_tasks (\<lambda>_. 10) demo_done"
  have "rel_option recovered_from (Some (redact_task a)) (task_get ?r ''task_a'')"
    using recover_orphans_get [of "restored_tasks demo_done" "''task_a''" "\<lambda>_. 10"] a restored_get [OF wf]
    by (simp add: restart_tasks_def task_get_def)
  then have r: "task_get ?r ''task_a'' = Some (redact_task a)"
    using a(2) by (auto simp: option_rel_Some1 recovered_from_def orphaned_def)
  then have r2: "task_get (snd (retry (\<lambda>_. 11) ''task_a'' ?r)) ''task_a'' \<noteq> None"
    using a(2) by (simp add: retry_def task_get_def)
  have "(\<lambda>s s'. task_step s s' \<and> task_get s' ''task_a'' \<noteq> None)\<^sup>*\<^sup>* demo_done ?r"
    using r step_restart by (intro r_into_rtranclp) simp
  then have "(\<lambda>s s'. task_step s s' \<and> task_get s' ''task_a'' \<noteq> None)\<^sup>*\<^sup>* demo_done (snd (retry (\<lambda>_. 11) ''task_a'' ?r))"
    by (rule rtranclp.rtrancl_into_rtrancl) (intro conjI step_retry r2)
  from task_history [OF wf a(1) this] a(2) show ?thesis by (auto simp: final_state_def)
qed

subsection \<open>Redaction\<close>

text \<open>The string leaves of a value, and its object members at every depth.\<close>

fun json_strings :: "json \<Rightarrow> string list" where
  "json_strings (JStr s) = [s]"
| "json_strings (JArr xs) = concat (map json_strings xs)"
| "json_strings (JObj m) = concat (map (\<lambda>e. json_strings (snd e)) m)"
| "json_strings _ = []"

fun json_members :: "json \<Rightarrow> (string \<times> json) list" where
  "json_members (JArr xs) = concat (map json_members xs)"
| "json_members (JObj m) = m @ concat (map (\<lambda>e. json_members (snd e)) m)"
| "json_members _ = []"

lemma redacted_leaf: "\<not> contains ''token_'' ''<redacted>''" "\<not> sensitive_name ''<redacted>''"
  by (simp_all add: sensitive_name_def to_ascii_lowercase_def ascii_lower_def ends_with_def less_eq_char_def)

lemma redact_no_token:
  "(\<forall>s \<in> set (json_strings (redact_sensitive_value v)). \<not> contains ''token_'' s)"
  "(\<forall>x \<in> set (redact_array b vs). \<forall>s \<in> set (json_strings x). \<not> contains ''token_'' s)"
  by (induction v and b vs rule: redact_sensitive_value_redact_array.induct)
    (auto simp: redacted_def redacted_leaf split: if_splits)

lemma redact_members:
  "(\<forall>(k, x) \<in> set (json_members (redact_sensitive_value v)). sensitive_name k \<longrightarrow> x = redacted)"
  "(\<forall>y \<in> set (redact_array b vs). \<forall>(k, x) \<in> set (json_members y). sensitive_name k \<longrightarrow> x = redacted)"
  by (induction v and b vs rule: redact_sensitive_value_redact_array.induct)
    (fastforce simp: redacted_def redacted_leaf split: if_splits)+

lemma redact_redacted [simp]: "redact_sensitive_value redacted = redacted"
  by (simp add: redacted_def)

lemma redact_array_redacted: "redact_array False (redacted # vs) = redacted # redact_array False vs"
  using redacted_leaf by (simp add: redacted_def)

lemma redact_flag:
  "(case redact_sensitive_value v of JStr text \<Rightarrow> sensitive_name text | _ \<Rightarrow> False) \<Longrightarrow>
     (case v of JStr text \<Rightarrow> sensitive_name text | _ \<Rightarrow> False)"
  by (cases v) (auto simp: redacted_def redacted_leaf split: if_splits)

lemma redact_idem:
  "redact_sensitive_value (redact_sensitive_value v) = redact_sensitive_value v"
  "redact_array False (redact_array b vs) = redact_array b vs \<and>
   (b \<longrightarrow> redact_array True (redact_array True vs) = redact_array True vs)"
proof (induction v and b vs rule: redact_sensitive_value_redact_array.induct)
  case (7 v vs)
  then show ?case using redact_flag [of v]
    by (cases "case redact_sensitive_value v of JStr text \<Rightarrow> sensitive_name text | _ \<Rightarrow> False") simp_all
qed (auto simp: redacted_def redacted_leaf)

text \<open>In every array, what follows the name of a secret is the mark.\<close>

fun json_arrays :: "json \<Rightarrow> json list list" where
  "json_arrays (JArr xs) = xs # concat (map json_arrays xs)"
| "json_arrays (JObj m) = concat (map (\<lambda>e. json_arrays (snd e)) m)"
| "json_arrays _ = []"

fun hidden_after :: "bool \<Rightarrow> json list \<Rightarrow> bool" where
  "hidden_after named [] = True"
| "hidden_after named (x # xs) =
     ((named \<longrightarrow> x = redacted) \<and> hidden_after (case x of JStr text \<Rightarrow> sensitive_name text | _ \<Rightarrow> False) xs)"

lemma hidden_after_mono: "hidden_after b xs \<Longrightarrow> hidden_after False xs"
  by (cases xs) auto

lemma hidden_after_head:
  "hidden_after (case v of JStr text \<Rightarrow> sensitive_name text | _ \<Rightarrow> False) xs \<Longrightarrow>
   hidden_after (case redact_sensitive_value v of JStr text \<Rightarrow> sensitive_name text | _ \<Rightarrow> False) xs"
  by (cases v) (auto simp: redacted_def redacted_leaf intro: hidden_after_mono split: if_splits)

lemma redact_hides:
  "\<forall>xs \<in> set (json_arrays (redact_sensitive_value v)). hidden_after False xs"
  "hidden_after b (redact_array b vs) \<and> (\<forall>x \<in> set (redact_array b vs). \<forall>xs \<in> set (json_arrays x). hidden_after False xs)"
  by (induction v and b vs rule: redact_sensitive_value_redact_array.induct)
    (auto simp: redacted_def redacted_leaf intro: hidden_after_head)

text \<open>A value without secrets: no token in a string, the mark under every name of a secret and after it in an array.\<close>

definition without_secrets :: "json \<Rightarrow> bool" where
  "without_secrets v \<longleftrightarrow>
     list_all (\<lambda>s. \<not> contains ''token_'' s) (json_strings v) \<and>
     list_all (\<lambda>(k, x). sensitive_name k \<longrightarrow> x = redacted) (json_members v) \<and>
     list_all (hidden_after False) (json_arrays v)"

lemma redact_without_secrets: "without_secrets (redact_sensitive_value v)"
  using redact_no_token(1) [of v] redact_members(1) [of v] redact_hides(1) [of v]
  by (simp add: without_secrets_def list_all_iff)

lemma redact_task_idem: "redact_task (redact_task t) = redact_task t"
  by (cases "task_error t") (auto simp: redact_task_def redact_idem(1) redacted_leaf option.map_comp comp_def)

lemma redact_error:
  assumes "task_error (redact_task t) = Some e"
  shows "\<not> contains ''token_'' (terr_message e) \<and> without_secrets (terr_details e)"
proof (cases "task_error t")
  case (Some f)
  with assms show ?thesis
    by (cases "contains ''token_'' (terr_message f)") (auto simp: redact_task_def redact_without_secrets redacted_leaf)
qed (use assms in \<open>simp add: redact_task_def\<close>)


lemma demo_names:
  "sensitive_name ''--password''" "\<not> sensitive_name ''a''" "sensitive_name ''api_Token''"
  by code_simp+

definition demo_secretive :: task where
  "demo_secretive = (queued_task (\<lambda>_. 1) ''x'' ''w'' ''e'' ''command.run''
     (JObj [(''a'', JArr [JStr ''--password'', JStr ''x'']), (''api_Token'', JNum (PosInt 1))]) ''k'' None None)"


subsection \<open>Retention\<close>

lemma remove_tasks_filter:
  "tt_tasks (snd (remove_tasks is tbl)) = filter (\<lambda>e. fst e \<notin> set is) (tt_tasks tbl)"
proof (induction "is" tbl rule: remove_tasks.induct)
  case (2 i "is" tbl)
  show ?case
  proof (cases "bt_get (tt_tasks tbl) i")
    case None
    then have "\<forall>e \<in> set (tt_tasks tbl). fst e \<noteq> i" by (force simp: bt_get_def map_of_eq_None_iff)
    with 2 None show ?thesis by (auto intro: filter_cong)
  next
    case (Some t)
    with 2 show ?thesis
      by (simp add: case_prod_beta Let_def bt_remove_def)
  qed
qed simp

lemma remove_tasks_removed:
  "distinct is \<Longrightarrow> fst (remove_tasks is tbl) = List.map_filter (task_get tbl) is"
proof (induction "is" tbl rule: remove_tasks.induct)
  case (2 i "is" tbl)
  then show ?case
    using map_filter_upd_None [of i "is" "bt_get (tt_tasks tbl)"]
    by (auto simp: List.map_filter_simps task_get_def bt_get_remove fun_upd_def case_prod_beta Let_def
        split: option.splits)
qed (simp add: List.map_filter_simps)

lemma evict_loop_take:
  "\<exists>k \<le> length xs. set (evict_loop mc mb xs ids c b) = set ids \<union> set (map (fst \<circ> snd) (take k xs)) \<and>
     (k = length xs \<or> (c - k \<le> mc \<and> b - sum_list (map (snd \<circ> snd) (take k xs)) \<le> mb))"
proof (induction mc mb xs ids c b rule: evict_loop.induct)
  case (2 mc mb u i n rest ids c b)
  show ?case
  proof (cases "c \<le> mc \<and> b \<le> mb")
    case True
    then show ?thesis by (intro exI [of _ 0]) simp
  next
    case False
    with 2 obtain k where k: "k \<le> length rest"
        "set (evict_loop mc mb rest (bs_insert i ids) (c - 1) (b - n)) = set (bs_insert i ids) \<union> set (map (fst \<circ> snd) (take k rest))"
        "k = length rest \<or> (c - 1 - k \<le> mc \<and> b - n - sum_list (map (snd \<circ> snd) (take k rest)) \<le> mb)"
      by blast
    with False show ?thesis by (intro exI [of _ "Suc k"]) (auto simp: comp_def)
  qed
qed simp

lemma sum_list_split:
  "sum_list (map g xs) = sum_list (map g (filter P xs)) + sum_list (map (g :: 'a \<Rightarrow> nat) (filter (\<lambda>x. \<not> P x) xs))"
  by (induction xs) auto

text \<open>
  Evicting the first entries of a reordering of some of the tasks takes away their number and
  their lengths.
\<close>

lemma evicted_prefix:
  fixes R :: "task list" and S :: "(u64 \<times> string \<times> nat) list"
  assumes dist: "distinct (map task_id R)"
    and S: "mset S = mset (map (\<lambda>t. (task_updated_at t, task_id t, enc t)) (filter P R))"
    and k: "k \<le> length S" and I: "I = set (map (fst \<circ> snd) (take k S))"
  shows "length (filter (\<lambda>t. task_id t \<notin> I) R) = length R - k \<and>
    sum_list (map enc (filter (\<lambda>t. task_id t \<notin> I) R)) = sum_list (map enc R) - sum_list (map (snd \<circ> snd) (take k S))"
proof -
  let ?f = "\<lambda>t. (task_updated_at t, task_id t, enc t)" and ?V = "filter (\<lambda>t. task_id t \<in> I) R"
  have inj: "inj_on task_id (set R)" and dR: "distinct R" using dist by (auto simp: distinct_map)
  have dS: "distinct S"
    using dR inj mset_eq_imp_distinct_iff [OF S] by (auto simp: distinct_map inj_on_def)
  have dV: "distinct (map ?f ?V)" using dR inj by (auto simp: distinct_map inj_on_def)
  have setS: "set S = ?f ` {t \<in> set R. P t}" using mset_eq_setD [OF S] by simp
  have sub: "set (take k S) \<subseteq> set S" by (rule set_take_subset)
  have "?f ` set ?V = set (take k S)"
  proof (intro equalityI subsetI)
    fix x assume "x \<in> ?f ` set ?V"
    then obtain t where t: "t \<in> set R" "task_id t \<in> I" "x = ?f t" by auto
    then obtain y where y: "y \<in> set (take k S)" "fst (snd y) = task_id t" unfolding I by auto
    then obtain t' where "t' \<in> set R" "y = ?f t'" using sub setS by blast
    with t y inj show "x \<in> set (take k S)" by (auto dest: inj_onD)
  next
    fix x assume x: "x \<in> set (take k S)"
    with sub setS obtain t where "t \<in> set R" "x = ?f t" by blast
    with x show "x \<in> ?f ` set ?V" unfolding I by force
  qed
  then have m: "mset (map ?f ?V) = mset (take k S)"
    using set_eq_iff_mset_eq_distinct [OF dV distinct_take [OF dS, of k]] unfolding set_map by blast
  have "length (map ?f ?V) = k" using arg_cong [OF m, of size] k by (simp only: size_mset length_take min.absorb2)
  moreover have "sum_list (map (snd \<circ> snd) (map ?f ?V)) = sum_list (map (snd \<circ> snd) (take k S))"
    using arg_cong [OF m, of "\<lambda>M. sum_mset (image_mset (snd \<circ> snd) M)"] by (simp only: sum_mset_sum_list flip: mset_map)
  ultimately show ?thesis
    using sum_length_filter_compl [of "\<lambda>t. task_id t \<in> I" R] sum_list_split [of enc R "\<lambda>t. task_id t \<in> I"]
    by (simp add: comp_def)
qed

definition expired_task :: "u64 \<Rightarrow> task \<Rightarrow> bool" where
  "expired_task cutoff t = (terminal (task_state t) \<and> task_updated_at t < cutoff)"

lemma tt_wf_entries:
  assumes "tt_wf tbl"
  shows "tt_tasks tbl = map (\<lambda>t. (task_id t, t)) (task_snapshot tbl)" "distinct (map task_id (task_snapshot tbl))"
    "t \<in> set (task_snapshot tbl) \<longleftrightarrow> task_get tbl (task_id t) = Some t"
proof -
  show e: "tt_tasks tbl = map (\<lambda>t. (task_id t, t)) (task_snapshot tbl)"
    using assms by (auto simp: task_snapshot_def bt_values_def tt_wf_def task_ok_def list_all_iff intro!: map_idI [symmetric])
  have "map task_id (task_snapshot tbl) = map fst (tt_tasks tbl)" by (subst e) simp
  then show "distinct (map task_id (task_snapshot tbl))"
    using bt_wf_distinct [OF tt_wfD(1) [OF assms]] by simp
  show "t \<in> set (task_snapshot tbl) \<longleftrightarrow> task_get tbl (task_id t) = Some t"
    using tt_wfD(1,3) [OF assms] by (auto simp: task_snapshot_def bt_values_iff task_get_def)
qed

lemma sorted_bs_fold: "sorted_wrt (<) ys \<Longrightarrow> sorted_wrt (<) (fold bs_insert xs (ys :: string list))"
  by (induction xs arbitrary: ys) (simp_all add: bs_insert_sorted)

lemma sorted_evict_loop: "sorted_wrt (<) ids \<Longrightarrow> sorted_wrt (<) (evict_loop mc mb xs ids c b)"
  by (induction mc mb xs ids c b rule: evict_loop.induct) (simp_all add: bs_insert_sorted)

lemma sorted_strings_distinct: "sorted_wrt (<) (xs :: string list) \<Longrightarrow> distinct xs"
  by (induction xs) auto

text \<open>
  What the pass removes: the expired tasks and then, of the other terminal tasks in order of
  their last update, the shortest prefix after which both bounds are met.
\<close>

lemma prune_retention_shape:
  fixes enc :: "task \<Rightarrow> nat" and now ret :: u64 and mc mb :: nat and tbl :: task_table
  assumes wf: "tt_wf tbl"
  defines "cutoff \<equiv> sat_sub now ret"
  defines "R \<equiv> filter (\<lambda>t. \<not> expired_task cutoff t) (task_snapshot tbl)"
  defines "S \<equiv> sort_key (\<lambda>(u, i, b). (u, i)) (map (\<lambda>t. (task_updated_at t, task_id t, enc t)) (filter (terminal \<circ> task_state) R))"
  obtains ids k where "prune_retention enc now ret mc mb tbl = remove_tasks ids tbl" "distinct ids" "k \<le> length S"
    "set ids = task_id ` {t \<in> set (task_snapshot tbl). expired_task cutoff t} \<union> set (map (fst \<circ> snd) (take k S))"
    "k = length S \<or> (length R - k \<le> mc \<and> sum_list (map enc R) - sum_list (map (snd \<circ> snd) (take k S)) \<le> mb)"
proof -
  let ?vals = "task_snapshot tbl"
  let ?exp = "map task_id (filter (expired_task cutoff) ?vals)"
  let ?rem = "fold bs_insert ?exp []"
  have inj: "inj_on task_id (set ?vals)" using tt_wf_entries(2) [OF wf] by (simp add: distinct_map)
  have R: "filter (\<lambda>t. task_id t \<notin> set ?rem) ?vals = R"
    unfolding R_def by (rule filter_cong) (auto simp: set_bs_fold dest: inj_onD [OF inj])
  have S: "filter (\<lambda>t. terminal (task_state t) \<and> task_id t \<notin> set ?rem) ?vals = filter (terminal \<circ> task_state) R"
    unfolding R [symmetric] by (simp add: filter_filter conj_commute)
  have drem: "distinct ?rem" by (simp add: sorted_strings_distinct sorted_bs_fold)
  have dexp: "distinct ?exp" using tt_wf_entries(2) [OF wf] by (simp add: distinct_map_filter)
  have "length ?rem = length ?exp"
    using distinct_card [OF drem] distinct_card [OF dexp] by (simp add: set_bs_fold)
  then have len: "length (tt_tasks tbl) - length ?rem = length R"
    using sum_length_filter_compl [of "expired_task cutoff" ?vals]
    by (simp add: R_def task_snapshot_def bt_values_def)
  have eq: "prune_retention enc now ret mc mb tbl =
      remove_tasks (evict_loop mc mb S ?rem (length R) (sum_list (map enc R))) tbl"
    using len R S
    by (simp add: prune_retention_def Let_def S_def cutoff_def task_snapshot_def expired_task_def [abs_def])
  obtain k where k: "k \<le> length S"
    "set (evict_loop mc mb S ?rem (length R) (sum_list (map enc R))) = set ?rem \<union> set (map (fst \<circ> snd) (take k S))"
    "k = length S \<or> (length R - k \<le> mc \<and> sum_list (map enc R) - sum_list (map (snd \<circ> snd) (take k S)) \<le> mb)"
    using evict_loop_take [of S mc mb ?rem "length R" "sum_list (map enc R)"] by blast
  show thesis
    by (rule that [OF eq _ k(1) _ k(3)])
      (simp_all only: k(2) set_bs_fold set_map set_filter sorted_strings_distinct sorted_evict_loop sorted_bs_fold sorted_wrt.simps Un_empty_right list.set)
qed

lemma remove_tasks_snapshot:
  assumes "tt_wf tbl"
  shows "task_snapshot (snd (remove_tasks ids tbl)) = filter (\<lambda>t. task_id t \<notin> set ids) (task_snapshot tbl)"
proof -
  have "\<forall>e \<in> set (tt_tasks tbl). task_id (snd e) = fst e"
    using assms by (simp add: tt_wf_def task_ok_def list_all_iff)
  then show ?thesis
    by (auto simp: task_snapshot_def bt_values_def remove_tasks_filter filter_map intro!: arg_cong [where f = "map snd"] filter_cong)
qed

lemma sorted_prefix_le:
  assumes "sorted (map g S)" "x \<in> set (take k S)" "y \<in> set S" "y \<notin> set (take k S)"
  shows "g x \<le> (g y :: 'b :: linorder)"
proof -
  have "y \<in> set (drop k S)" using assms(3,4) by (metis Un_iff append_take_drop_id set_append)
  moreover have "sorted (map g (take k S) @ map g (drop k S))"
    using assms(1) by (metis append_take_drop_id map_append)
  ultimately show ?thesis using assms(2) by (auto simp: sorted_append)
qed

lemma prune_retention_split:
  fixes enc :: "task \<Rightarrow> nat" and now ret :: u64 and tbl :: task_table and mc mb :: nat
  assumes wf: "tt_wf tbl"
  defines "R \<equiv> filter (\<lambda>t. \<not> expired_task (sat_sub now ret) t) (task_snapshot tbl)"
  obtains ids I where "prune_retention enc now ret mc mb tbl = remove_tasks ids tbl" "distinct ids"
    "set ids = task_id ` {t \<in> set (task_snapshot tbl). expired_task (sat_sub now ret) t} \<union> I"
    "I \<subseteq> task_id ` {t \<in> set R. terminal (task_state t)}"
    "(\<forall>t \<in> set R. terminal (task_state t) \<longrightarrow> task_id t \<in> I) \<or>
       (length (filter (\<lambda>t. task_id t \<notin> I) R) \<le> mc \<and> sum_list (map enc (filter (\<lambda>t. task_id t \<notin> I) R)) \<le> mb)"
    "\<And>a b. a \<in> set R \<Longrightarrow> b \<in> set R \<Longrightarrow> terminal (task_state b) \<Longrightarrow> task_id a \<in> I \<Longrightarrow> task_id b \<notin> I \<Longrightarrow>
       (task_updated_at a, task_id a) \<le> (task_updated_at b, task_id b)"
proof -
  let ?f = "\<lambda>t. (task_updated_at t, task_id t, enc t)" and ?g = "\<lambda>(u, i, b). (u, i) :: u64 \<times> string"
  define S where "S = sort_key ?g (map ?f (filter (terminal \<circ> task_state) R))"
  obtain ids k where ids: "prune_retention enc now ret mc mb tbl = remove_tasks ids tbl" "distinct ids" "k \<le> length S"
    "set ids = task_id ` {t \<in> set (task_snapshot tbl). expired_task (sat_sub now ret) t} \<union> set (map (fst \<circ> snd) (take k S))"
    "k = length S \<or> (length R - k \<le> mc \<and> sum_list (map enc R) - sum_list (map (snd \<circ> snd) (take k S)) \<le> mb)"
    using prune_retention_shape [OF wf, of enc now ret mc mb] unfolding R_def S_def by blast
  define I where "I = set (map (fst \<circ> snd) (take k S))"
  have dR: "distinct (map task_id R)" using tt_wf_entries(2) [OF wf] by (simp add: R_def distinct_map_filter)
  have setS: "set S = ?f ` {t \<in> set R. terminal (task_state t)}" by (simp add: S_def)
  have mS: "mset S = mset (map ?f (filter (terminal \<circ> task_state) R))" by (simp add: S_def)
  note ev = evicted_prefix [OF dR mS ids(3) I_def]
  have in_I: "x \<in> set (take k S)" if "x \<in> set S" "fst (snd x) \<in> I" for x
  proof -
    from that(2) obtain y where y: "y \<in> set (take k S)" "fst (snd x) = fst (snd y)" by (auto simp: I_def)
    then have "y \<in> set S" by (meson in_set_takeD)
    with that(1) y(2) dR have "x = y" by (auto simp: setS distinct_map dest: inj_onD)
    with y(1) show ?thesis by simp
  qed
  show thesis
  proof (rule that [of ids I])
    show "I \<subseteq> task_id ` {t \<in> set R. terminal (task_state t)}"
      using set_take_subset [of k S] by (force simp: I_def setS)
    show "(\<forall>t \<in> set R. terminal (task_state t) \<longrightarrow> task_id t \<in> I) \<or>
       (length (filter (\<lambda>t. task_id t \<notin> I) R) \<le> mc \<and> sum_list (map enc (filter (\<lambda>t. task_id t \<notin> I) R)) \<le> mb)"
    proof (cases "k = length S")
      case True
      then have "I = task_id ` {t \<in> set R. terminal (task_state t)}" by (simp add: I_def setS image_image)
      then show ?thesis by blast
    next
      case False
      with ids(5) ev show ?thesis by simp
    qed
    show "(task_updated_at a, task_id a) \<le> (task_updated_at b, task_id b)"
      if "a \<in> set R" "b \<in> set R" "terminal (task_state b)" "task_id a \<in> I" "task_id b \<notin> I" for a b
    proof -
      from that(4) obtain x where x: "x \<in> set (take k S)" "task_id a = fst (snd x)" by (auto simp: I_def)
      then have "x \<in> set S" by (meson in_set_takeD)
      with x(2) that(1) dR have "x = ?f a" by (auto simp: setS distinct_map dest: inj_onD)
      moreover have "?f b \<in> set S" using that by (auto simp: setS)
      moreover have "?f b \<notin> set (take k S)" using that(5) by (force simp: I_def)
      ultimately show ?thesis
        using sorted_prefix_le [of ?g S x k "?f b"] x(1) by (simp add: S_def)
    qed
  qed (use ids in \<open>simp_all add: I_def\<close>)
qed

text \<open>
  Retention is safe and effective: pruning a well-formed table never drops a task that is
  still queued, running or being cancelled, and leaves the tasks it keeps as they are; it
  reports exactly the tasks it drops; it drops every terminal task older than the retention
  window; afterwards the table is within both the count and the byte bound, unless no terminal
  task is left at all; and it drops terminal tasks oldest first.
\<close>

theorem retention_safe:
  assumes wf: "tt_wf tbl" and p: "prune_retention enc now ret mc mb tbl = (removed, tbl')"
  shows "(\<forall>i t. task_get tbl' i = Some t \<longleftrightarrow> task_get tbl i = Some t \<and> t \<notin> set removed) \<and>
    (\<forall>t \<in> set removed. terminal (task_state t) \<and> task_get tbl (task_id t) = Some t) \<and>
    (\<forall>t \<in> set (task_snapshot tbl'). \<not> (terminal (task_state t) \<and> task_updated_at t < sat_sub now ret)) \<and>
    (length (task_snapshot tbl') \<le> mc \<and> sum_list (map enc (task_snapshot tbl')) \<le> mb \<or>
     (\<forall>t \<in> set (task_snapshot tbl'). \<not> terminal (task_state t))) \<and>
    (\<forall>a \<in> set removed. \<forall>b \<in> set (task_snapshot tbl'). terminal (task_state b) \<longrightarrow>
        (task_updated_at a, task_id a) \<le> (task_updated_at b, task_id b))"
proof -
  let ?c = "sat_sub now ret"
  define R where "R = filter (\<lambda>t. \<not> expired_task ?c t) (task_snapshot tbl)"
  obtain ids I where ids: "prune_retention enc now ret mc mb tbl = remove_tasks ids tbl" "distinct ids"
    "set ids = task_id ` {t \<in> set (task_snapshot tbl). expired_task ?c t} \<union> I"
    and sub: "I \<subseteq> task_id ` {t \<in> set R. terminal (task_state t)}"
    and bound: "(\<forall>t \<in> set R. terminal (task_state t) \<longrightarrow> task_id t \<in> I) \<or>
       (length (filter (\<lambda>t. task_id t \<notin> I) R) \<le> mc \<and> sum_list (map enc (filter (\<lambda>t. task_id t \<notin> I) R)) \<le> mb)"
    and old: "\<And>a b. a \<in> set R \<Longrightarrow> b \<in> set R \<Longrightarrow> terminal (task_state b) \<Longrightarrow> task_id a \<in> I \<Longrightarrow> task_id b \<notin> I \<Longrightarrow>
       (task_updated_at a, task_id a) \<le> (task_updated_at b, task_id b)"
    by (rule prune_retention_split [OF wf, of enc now ret mc mb, folded R_def]) (rule that)
  have inj: "inj_on task_id (set (task_snapshot tbl))" using tt_wf_entries(2) [OF wf] by (simp add: distinct_map)
  have get: "task_get tbl i = Some t \<Longrightarrow> task_id t = i" for i t
    using wf by (auto simp: task_get_def dest: tt_wfD(3))
  have in_ids: "task_id t \<in> set ids \<longleftrightarrow> expired_task ?c t \<or> task_id t \<in> I" if "t \<in> set (task_snapshot tbl)" for t
    unfolding ids(3) using inj_on_image_mem_iff [OF inj that, of "{t \<in> set (task_snapshot tbl). expired_task ?c t}"] that by auto
  have kept: "task_snapshot tbl' = filter (\<lambda>t. task_id t \<notin> I) R"
    using remove_tasks_snapshot [OF wf, of ids] p ids(1) in_ids
    by (auto simp: R_def filter_filter intro: filter_cong)
  have removed: "set removed = {t \<in> set (task_snapshot tbl). task_id t \<in> set ids}"
  proof -
    have "set removed = {t. \<exists>i \<in> set ids. task_get tbl i = Some t}"
      using remove_tasks_removed [OF ids(2), of tbl] p ids(1) by (simp add: set_map_filter)
    then show ?thesis using get tt_wf_entries(3) [OF wf] by blast
  qed
  have terminal: "terminal (task_state t)" if "t \<in> set removed" for t
  proof (cases "expired_task ?c t")
    case False
    with that in_ids removed have "t \<in> set (task_snapshot tbl)" "task_id t \<in> I" by auto
    moreover from this sub obtain u where "u \<in> set R" "task_id t = task_id u" "terminal (task_state u)" by blast
    ultimately show ?thesis using inj by (auto simp: R_def dest: inj_onD)
  qed (simp add: expired_task_def)
  have "task_get tbl' i = Some t \<longleftrightarrow> task_get tbl i = Some t \<and> t \<notin> set removed" for i t
    using remove_tasks_get [of ids tbl i] p ids(1) get [of i t] removed tt_wf_entries(3) [OF wf, of t] by auto
  moreover have "(task_updated_at a, task_id a) \<le> (task_updated_at b, task_id b)"
    if "a \<in> set removed" "b \<in> set (task_snapshot tbl')" "terminal (task_state b)" for a b
  proof (cases "expired_task ?c a")
    case True
    with that(2,3) show ?thesis by (auto simp: kept R_def expired_task_def)
  next
    case False
    with that removed in_ids kept show ?thesis by (intro old) (auto simp: R_def)
  qed
  ultimately show ?thesis
    using terminal removed bound tt_wf_entries(3) [OF wf] kept by (auto simp: R_def expired_task_def)
qed

theorem retention_safe_witness:
  "\<exists>removed tbl'. prune_retention (\<lambda>_. 1) 100 10 5 5 demo_done = (removed, tbl') \<and>
     (\<forall>t \<in> set removed. terminal (task_state t)) \<and>
     length (task_snapshot demo_done) = 1 \<and> task_get tbl' ''task_a'' = None"
proof -
  obtain removed tbl' where p: "prune_retention (\<lambda>_. 1) 100 10 5 5 demo_done = (removed, tbl')" by fastforce
  have wf: "tt_wf demo_done" by (simp add: demo_done_def demo_tasks_wf wf_intros)
  obtain t where t: "task_snapshot demo_done = [t]" "task_get demo_done ''task_a'' = Some t" "terminal (task_state t)" "task_updated_at t = 9"
    by (simp add: demo_done_def transition_def demo_tasks_eval bt_get_def queued_task_fields
      transition_allowed_def Let_def put_task_def task_get_def task_snapshot_def bt_values_def push_event_def)
  have "task_get tbl' ''task_a'' \<noteq> Some t"
  proof
    assume a: "task_get tbl' ''task_a'' = Some t"
    have "tt_wf tbl'" using tt_wf_prune(2) [OF wf] p by (metis snd_conv)
    with a have "t \<in> set (task_snapshot tbl')"
      by (auto simp: task_snapshot_def bt_values_iff tt_wfD(1) task_get_def)
    with retention_safe [OF wf p] t(3,4) show False by (auto simp: sat_sub_def)
  qed
  moreover have "task_get tbl' ''task_a'' \<noteq> Some u" if "u \<noteq> t" for u
    using retention_safe [OF wf p] t(2) that by auto
  ultimately have "task_get tbl' ''task_a'' = None" by (cases "task_get tbl' ''task_a''") auto
  with retention_safe [OF wf p] p t(1) show ?thesis by auto
qed

subsection \<open>Recovery\<close>

lemma restart_get_task:
  assumes "tt_wf tbl"
  shows "rel_option recovered_from (map_option redact_task (task_get tbl i)) (task_get (restart_tasks clk tbl) i)"
  using recover_orphans_get [of "restored_tasks tbl" i clk] restored_get [OF assms, of i]
  by (simp add: restart_tasks_def task_get_def)

text \<open>
  After a restart no task claims to be queued or running without a worker: every task that
  was queued or running when the Controller stopped is of unknown outcome, with the restart
  recorded as its error and as one further event, and may be retried; every other task is what
  was persisted of it, and no task appears or disappears.
\<close>

theorem restart_recovers:
  assumes wf: "tt_wf tbl"
  shows "(task_get tbl i = None \<longrightarrow> task_get (restart_tasks clk tbl) i = None) \<and>
    (\<forall>t. task_get tbl i = Some t \<longrightarrow>
      (if task_state t = Queued \<or> task_state t = Running
       then (\<exists>now1 now2. task_get (restart_tasks clk tbl) i = Some (recover_task now1 now2 (redact_task t))) \<and>
            is_ok (fst (retry clk' i (restart_tasks clk tbl)))
       else task_get (restart_tasks clk tbl) i = Some (redact_task t)))"
proof -
  have rel: "rel_option recovered_from (map_option redact_task (task_get tbl i)) (task_get (restart_tasks clk tbl) i)"
    by (rule restart_get_task [OF wf])
  have "is_ok (fst (retry clk' i (restart_tasks clk tbl)))"
    if "task_get (restart_tasks clk tbl) i = Some (recover_task n1 n2 u)" for n1 n2 u
    using that by (simp add: retry_def task_get_def Let_def)
  with rel show ?thesis
    by (cases "task_get tbl i") (auto simp: option_rel_Some1 recovered_from_def orphaned_def split: if_splits)
qed

theorem restart_recovers_witness:
  "\<exists>now1 now2 t. task_get demo_tasks ''task_a'' = Some t \<and> task_state t = Queued \<and>
     task_get (restart_tasks (\<lambda>_. 8) demo_tasks) ''task_a'' = Some (recover_task now1 now2 (redact_task t))"
proof -
  obtain t where t: "task_get demo_tasks ''task_a'' = Some t" "task_state t = Queued"
    by (simp add: demo_tasks_eval task_get_def bt_get_def queued_task_fields)
  with restart_recovers [OF demo_tasks_wf, of "''task_a''" "\<lambda>_. 8" "\<lambda>_. 9"] show ?thesis by auto
qed

text \<open>
  A cancellation in progress is lost by a restart: a task whose cancellation was requested
  or under way is still in that state afterwards, is not terminal (so no pruning ever removes
  it) and cannot be retried.
\<close>

theorem restart_strands_cancellation:
  assumes wf: "tt_wf tbl" and t: "task_get tbl i = Some t" "task_state t = CancelRequested \<or> task_state t = Cancelling"
  shows "\<exists>u. task_get (restart_tasks clk tbl) i = Some u \<and> task_state u = task_state t \<and> \<not> terminal (task_state u) \<and>
    retry clk' i (restart_tasks clk tbl) = (Inl (TaskInvalidTransition (task_state t) Queued), restart_tasks clk tbl)"
proof -
  from restart_get_task [OF wf, of i clk] t have "task_get (restart_tasks clk tbl) i = Some (redact_task t)"
    by (auto simp: option_rel_Some1 recovered_from_def orphaned_def)
  with t show ?thesis by (auto simp: retry_def task_get_def)
qed

definition demo_cancelling :: task_table where
  "demo_cancelling = snd (transition (\<lambda>_. 7) ''task_a'' CancelRequested None None
     (snd (transition (\<lambda>_. 6) ''task_a'' Running None None demo_tasks)))"

theorem restart_strands_cancellation_witness:
  "\<exists>u. task_get (restart_tasks (\<lambda>_. 8) demo_cancelling) ''task_a'' = Some u \<and> task_state u = CancelRequested"
proof -
  have wf: "tt_wf demo_cancelling" by (simp add: demo_cancelling_def demo_tasks_wf wf_intros)
  obtain t where "task_get demo_cancelling ''task_a'' = Some t" "task_state t = CancelRequested"
    by (simp add: demo_cancelling_def transition_def demo_tasks_eval bt_get_def queued_task_fields
      transition_allowed_def Let_def put_task_def task_get_def)
  with restart_strands_cancellation [OF wf, of "''task_a''" t "\<lambda>_. 8"] show ?thesis by auto
qed

end
