(* ===== verification/Desktop_Queue.thy ===== *)
theory Desktop_Queue
  imports Protocol
begin

section \<open>The desktop queue of an Executor\<close>

text \<open>
  \<^verbatim>\<open>crates/workbench-runtime/src/desktop.rs\<close>: one durable first-in first-out queue of sessions for
  the interactive desktop, and the part of \<^verbatim>\<open>executor.rs\<close> that drives it (\<open>reconcile_desktop\<close>
  and \<open>desktop_dispatch\<close>). A job's state is the string the code keeps. The queue's file is part
  of the state; \<open>io n\<close> is the error text of the \<open>n\<close>th write of an operation, or nothing when it
  succeeds, and a failed write leaves the file as it was.
\<close>

record desktop_job =
  job_id :: string
  job_owner :: string
  job_request_key :: string
  job_token :: string
  job_state :: string
  job_epoch :: u64
  job_ttl_ms :: u64
  job_submitted_at :: u64
  job_expires_at :: u64

record desktop_queue =
  dq_path :: "string option"
  dq_epoch :: u64
  dq_jobs :: "desktop_job list"
  dq_in_flight :: bool
  dq_blocked :: bool
  dq_maintenance_owner :: "string option"

record desktop_store =
  ds_queue :: desktop_queue
  ds_disk :: "desktop_queue option"

type_synonym writes = "nat \<Rightarrow> string option"

definition desktop_queue_default :: desktop_queue where
  "desktop_queue_default = \<lparr>dq_path = None, dq_epoch = 0, dq_jobs = [], dq_in_flight = False,
     dq_blocked = False, dq_maintenance_owner = None\<rparr>"

definition desktop_field :: "json \<Rightarrow> string \<Rightarrow> rpc_error + string" where
  "desktop_field v name =
     (case as_str (jindex v name) of
        Some s \<Rightarrow> if s \<noteq> [] \<and> length s \<le> 256 then Inr s
                  else Inl (rpc_err ''INVALID_PARAMS'' (name @ '' must be 1..256 bytes''))
      | None \<Rightarrow> Inl (rpc_err ''INVALID_PARAMS'' (name @ '' must be 1..256 bytes'')))"

definition protected :: "string \<Rightarrow> bool" where
  "protected action =
     (action = ''computer-use.call'' \<or> action = ''computer-use.tools''
      \<or> starts_with ''application.'' action \<or> starts_with ''ui.'' action
      \<or> action = ''clipboard.write'')"

definition live :: "desktop_job \<Rightarrow> bool" where
  "live j = (job_state j = ''active'' \<or> job_state j = ''draining'')"

definition desktop_save :: "string option \<Rightarrow> desktop_store \<Rightarrow> (rpc_error + unit) \<times> desktop_store" where
  "desktop_save io s =
     (case dq_path (ds_queue s) of
        None \<Rightarrow> (Inr (), s)
      | Some path \<Rightarrow>
          (case io of
             Some e \<Rightarrow> (Inl (rpc_err ''DESKTOP_STATE_FAILED'' e), s)
           | None \<Rightarrow> (Inr (), s\<lparr>ds_disk := Some ((ds_queue s)\<lparr>dq_path := None\<rparr>)\<rparr>)))"

definition desktop_open ::
  "string \<Rightarrow> string option \<Rightarrow> string + desktop_queue option \<Rightarrow> (rpc_error + desktop_store)" where
  "desktop_open path io file =
     (case file of
        Inl e \<Rightarrow> Inl (rpc_err ''DESKTOP_STATE_FAILED'' e)
      | Inr contents \<Rightarrow>
          let queue = (unwrap_or desktop_queue_default contents)\<lparr>dq_path := Some path\<rparr>;
              queue' = (if dq_in_flight queue \<or> list_ex live (dq_jobs queue)
                        then queue\<lparr>dq_blocked := True, dq_in_flight := False\<rparr> else queue)
          in (case desktop_save io \<lparr>ds_queue = queue', ds_disk = contents\<rparr> of
                (Inl e, _) \<Rightarrow> Inl e
              | (Inr _, s) \<Rightarrow> Inr s))"

text \<open>The position of the first live job, \<^verbatim>\<open>fn active\<close>.\<close>

fun position :: "('a \<Rightarrow> bool) \<Rightarrow> 'a list \<Rightarrow> nat option" where
  "position P [] = None"
| "position P (x # xs) = (if P x then Some 0 else map_option Suc (position P xs))"

definition active_job :: "desktop_queue \<Rightarrow> nat option" where
  "active_job q = position live (dq_jobs q)"

definition set_state :: "nat \<Rightarrow> string \<Rightarrow> desktop_queue \<Rightarrow> desktop_queue" where
  "set_state i state q = q\<lparr>dq_jobs := (dq_jobs q)[i := (dq_jobs q ! i)\<lparr>job_state := state\<rparr>]\<rparr>"

definition needs_cleanup :: "u64 \<Rightarrow> desktop_queue \<Rightarrow> bool \<times> desktop_queue" where
  "needs_cleanup now q =
     (if dq_blocked q \<or> dq_in_flight q then (False, q)
      else case active_job q of
             None \<Rightarrow> (False, q)
           | Some i \<Rightarrow>
               let q' = (if job_expires_at (dq_jobs q ! i) \<le> now then set_state i ''draining'' q else q)
               in (job_state (dq_jobs q' ! i) = ''draining'', q'))"

definition desktop_promote :: "u64 \<Rightarrow> string option \<Rightarrow> desktop_store \<Rightarrow> (rpc_error + unit) \<times> desktop_store" where
  "desktop_promote now io s =
     (let q = ds_queue s in
      if dq_maintenance_owner q = None \<and> \<not> dq_blocked q \<and> \<not> dq_in_flight q \<and> active_job q = None
      then (case position (\<lambda>j. job_state j = ''queued'') (dq_jobs q) of
              None \<Rightarrow> (Inr (), s)
            | Some i \<Rightarrow>
                let job = dq_jobs q ! i; e = dq_epoch q + 1
                in desktop_save io (s\<lparr>ds_queue := q
                     \<lparr>dq_epoch := e,
                      dq_jobs := (dq_jobs q)[i := job\<lparr>job_epoch := e, job_state := ''active'',
                        job_expires_at := sat_add now (job_ttl_ms job)\<rparr>]\<rparr>\<rparr>))
      else (Inr (), s))"

definition cleanup_done ::
  "clock \<Rightarrow> writes \<Rightarrow> bool \<Rightarrow> desktop_store \<Rightarrow> (rpc_error + unit) \<times> desktop_store" where
  "cleanup_done clk io success s =
     (let q = ds_queue s;
          q' = (if success
                then (case active_job q of
                        None \<Rightarrow> q
                      | Some i \<Rightarrow> set_state i (if job_expires_at (dq_jobs q ! i) \<le> clk 0
                                              then ''expired'' else ''completed'') q)
                else q\<lparr>dq_blocked := True\<rparr>)
      in case desktop_save (io 0) (s\<lparr>ds_queue := q'\<rparr>) of
           (Inl e, s') \<Rightarrow> (Inl e, s')
         | (Inr _, s') \<Rightarrow> desktop_promote (clk 1) (io 1) s')"

definition job_json :: "desktop_job \<Rightarrow> json" where
  "job_json j =
     JObj [(''epoch'', junum (job_epoch j)), (''expiresAt'', junum (job_expires_at j)),
           (''id'', JStr (job_id j)), (''owner'', JStr (job_owner j)),
           (''requestKey'', JStr (job_request_key j)), (''state'', JStr (job_state j)),
           (''submittedAt'', junum (job_submitted_at j)), (''token'', JStr (job_token j)),
           (''ttlMs'', junum (job_ttl_ms j))]"

fun without :: "string \<Rightarrow> json \<Rightarrow> json" where
  "without k (JObj m) = JObj (bt_remove k m)"
| "without k v = v"

definition desktop_list :: "desktop_queue \<Rightarrow> json" where
  "desktop_list q =
     JObj [(''blocked'', JBool (dq_blocked q)), (''inFlight'', JBool (dq_in_flight q)),
           (''jobs'', JArr (map (\<lambda>j. without ''token'' (job_json j)) (dq_jobs q))),
           (''maintenanceOwner'', jopt JStr (dq_maintenance_owner q)),
           (''safePoint'', JBool (dq_maintenance_owner q \<noteq> None \<and> \<not> dq_blocked q \<and> \<not> dq_in_flight q
                                  \<and> active_job q = None))]"

definition save_then ::
  "writes \<Rightarrow> u64 \<Rightarrow> (desktop_queue \<Rightarrow> json) \<Rightarrow> desktop_store \<Rightarrow> (rpc_error + json) \<times> desktop_store" where
  "save_then io now answer s =
     (case desktop_save (io 0) s of
        (Inl e, s') \<Rightarrow> (Inl e, s')
      | (Inr _, s') \<Rightarrow>
          (case desktop_promote now (io 1) s' of
             (Inl e, s'') \<Rightarrow> (Inl e, s'')
           | (Inr _, s'') \<Rightarrow> (Inr (answer (ds_queue s'')), s'')))"

definition desktop_maintenance ::
  "clock \<Rightarrow> writes \<Rightarrow> json \<Rightarrow> desktop_store \<Rightarrow> (rpc_error + json) \<times> desktop_store" where
  "desktop_maintenance clk io params s =
     (case desktop_field params ''owner'' of Inl e \<Rightarrow> (Inl e, s) | Inr owner \<Rightarrow>
      case as_bool (jindex params ''enabled'') of
        None \<Rightarrow> (Inl (rpc_err ''INVALID_PARAMS'' ''enabled is required''), s)
      | Some enabled \<Rightarrow>
          if (case dq_maintenance_owner (ds_queue s) of None \<Rightarrow> False | Some current \<Rightarrow> current \<noteq> owner)
          then (Inl (rpc_err ''MAINTENANCE_OWNED'' ''another operator owns desktop maintenance''), s)
          else save_then io (clk 0) desktop_list
                 (s\<lparr>ds_queue := (ds_queue s)\<lparr>dq_maintenance_owner := (if enabled then Some owner else None)\<rparr>\<rparr>))"

definition desktop_submit ::
  "clock \<Rightarrow> uuids \<Rightarrow> writes \<Rightarrow> json \<Rightarrow> desktop_store \<Rightarrow> (rpc_error + json) \<times> desktop_store" where
  "desktop_submit clk ids io params s =
     (case desktop_field params ''owner'' of Inl e \<Rightarrow> (Inl e, s) | Inr owner \<Rightarrow>
      case desktop_field params ''requestKey'' of Inl e \<Rightarrow> (Inl e, s) | Inr key \<Rightarrow>
      let q = ds_queue s in
      case find (\<lambda>j. job_owner j = owner \<and> job_request_key j = key) (dq_jobs q) of
        Some job \<Rightarrow> (Inr (job_json job), s)
      | None \<Rightarrow>
          if 10000 \<le> length (dq_jobs q)
          then (Inl (rpc_err ''DESKTOP_QUEUE_FULL'' ''archive completed sessions before submitting more''), s)
          else
            let ttl = unwrap_or 900000 (as_u64 (jindex params ''ttlMs'')) in
            if \<not> (1000 \<le> ttl \<and> ttl \<le> 3600000)
            then (Inl (rpc_err ''INVALID_PARAMS'' ''ttlMs must be 1000..3600000''), s)
            else
              let job = \<lparr>job_id = ids 0, job_owner = owner, job_request_key = key, job_token = ids 1,
                         job_state = ''queued'', job_epoch = 0, job_ttl_ms = ttl,
                         job_submitted_at = clk 0, job_expires_at = 0\<rparr>
              in save_then io (clk 1) (\<lambda>q'. job_json (last (dq_jobs q')))
                   (s\<lparr>ds_queue := q\<lparr>dq_jobs := dq_jobs q @ [job]\<rparr>\<rparr>))"

definition desktop_session_command ::
  "clock \<Rightarrow> writes \<Rightarrow> string \<Rightarrow> json \<Rightarrow> desktop_store \<Rightarrow> (rpc_error + json) \<times> desktop_store" where
  "desktop_session_command clk io action params s =
     (case desktop_field params ''token'' of Inl e \<Rightarrow> (Inl e, s) | Inr token \<Rightarrow>
      case desktop_field params ''owner'' of Inl e \<Rightarrow> (Inl e, s) | Inr owner \<Rightarrow>
      let q = ds_queue s in
      case position (\<lambda>j. job_token j = token \<and> job_owner j = owner) (dq_jobs q) of
        None \<Rightarrow> (Inl (rpc_err ''DESKTOP_SESSION_INVALID'' ''unknown session credentials''), s)
      | Some i \<Rightarrow>
          let job = dq_jobs q ! i in
          if action = ''desktop.renew''
             \<and> (job_state job \<noteq> ''active'' \<or> job_expires_at job \<le> clk 0 \<or> dq_blocked q)
          then (Inl (rpc_err ''DESKTOP_SESSION_INACTIVE'' ''only a live active session can renew''), s)
          else
            let q' = (if action = ''desktop.renew'' then
                        q\<lparr>dq_jobs := (dq_jobs q)[i := job\<lparr>job_expires_at := sat_add (clk 1) (job_ttl_ms job)\<rparr>]\<rparr>
                      else if action = ''desktop.finish'' \<or> action = ''desktop.cancel'' then
                        (if job_state job = ''queued'' then set_state i ''cancelled'' q
                         else if job_state job = ''active'' then set_state i ''draining'' q
                         else q)
                      else q)
            in (case desktop_save (io 0) (s\<lparr>ds_queue := q'\<rparr>) of
                  (Inl e, s') \<Rightarrow> (Inl e, s')
                | (Inr _, s') \<Rightarrow> (Inr (job_json (dq_jobs q' ! i)), s')))"

definition desktop_recover ::
  "clock \<Rightarrow> writes \<Rightarrow> json \<Rightarrow> desktop_store \<Rightarrow> (rpc_error + json) \<times> desktop_store" where
  "desktop_recover clk io params s =
     (let q = ds_queue s in
      if \<not> dq_blocked q \<or> dq_in_flight q \<or> jindex params ''confirmDesktopReset'' \<noteq> JBool True
      then (Inl (rpc_err ''DESKTOP_RECOVERY_REQUIRED''
                   ''reset native helpers/desktop first, then confirmDesktopReset''), s)
      else
        let q' = (case active_job q of None \<Rightarrow> q | Some i \<Rightarrow> set_state i ''interrupted'' q)
        in save_then io (clk 0) (\<lambda>_. JObj [(''recovered'', JBool True)])
             (s\<lparr>ds_queue := q'\<lparr>dq_blocked := False\<rparr>\<rparr>))"

definition desktop_command ::
  "clock \<Rightarrow> uuids \<Rightarrow> writes \<Rightarrow> string \<Rightarrow> json \<Rightarrow> desktop_store \<Rightarrow> (rpc_error + json) \<times> desktop_store" where
  "desktop_command clk ids io action params s =
     (if action = ''desktop.maintenance'' then desktop_maintenance clk io params s
      else if action = ''desktop.submit'' then desktop_submit clk ids io params s
      else if action = ''desktop.list'' then (Inr (desktop_list (ds_queue s)), s)
      else if action \<in> set [''desktop.get'', ''desktop.renew'', ''desktop.finish'', ''desktop.cancel'']
      then desktop_session_command clk io action params s
      else if action = ''desktop.recover'' then desktop_recover clk io params s
      else (Inl (rpc_err ''UNKNOWN_ACTION'' action), s))"

text \<open>Admission of a desktop action; it may rewrite the action's parameters.\<close>

definition desktop_begin ::
  "u64 \<Rightarrow> string option \<Rightarrow> string \<Rightarrow> json \<Rightarrow> desktop_store \<Rightarrow> (rpc_error + json) \<times> desktop_store" where
  "desktop_begin now io action params s =
     (let q = ds_queue s;
          start = (\<lambda>p. case desktop_save io (s\<lparr>ds_queue := q\<lparr>dq_in_flight := True\<rparr>\<rparr>) of
                         (Inl e, s') \<Rightarrow> (Inl e, s')
                       | (Inr _, s') \<Rightarrow> (Inr p, s'))
      in
      if dq_blocked q then
        (Inl (rpc_err ''DESKTOP_RECOVERY_REQUIRED'' ''desktop outcome is uncertain; explicit reset required''), s)
      else if dq_in_flight q then
        (Inl (rpc_err ''DESKTOP_BUSY'' ''desktop action is already in flight''), s)
      else case active_job q of
        Some i \<Rightarrow>
          let job = dq_jobs q ! i; d = jindex params ''_desktop'' in
          if job_state job \<noteq> ''active'' \<or> job_expires_at job \<le> now then
            (Inl (rpc_err ''DESKTOP_DRAINING'' ''previous session is draining''), s)
          else if jindex d ''token'' \<noteq> JStr (job_token job) \<or> jindex d ''owner'' \<noteq> JStr (job_owner job) then
            (Inl (rpc_err ''DESKTOP_BUSY'' ''desktop belongs to another acceptance session''), s)
          else if action = ''computer-use.call'' then
            (case jset params ''sessionId'' (JStr (job_id job @ '':'' @ dec (unat (job_epoch job)))) of
               None \<Rightarrow> start params
             | Some p \<Rightarrow> start p)
          else start params
      | None \<Rightarrow>
          if dq_maintenance_owner q \<noteq> None then
            (Inl (rpc_err ''DESKTOP_MAINTENANCE'' ''desktop admission is paused for maintenance''), s)
          else if action = ''computer-use.call'' \<or> jget params ''_desktop'' \<noteq> None then
            (Inl (rpc_err ''DESKTOP_SESSION_REQUIRED'' ''submit and await a desktop session first''), s)
          else start params)"

definition desktop_end ::
  "string option \<Rightarrow> bool \<Rightarrow> desktop_store \<Rightarrow> (rpc_error + unit) \<times> desktop_store" where
  "desktop_end io uncertain s =
     desktop_save io (s\<lparr>ds_queue := (ds_queue s)\<lparr>dq_in_flight := False,
       dq_blocked := (dq_blocked (ds_queue s) \<or> uncertain)\<rparr>\<rparr>)"

subsection \<open>The Executor's side\<close>

text \<open>
  \<open>reconcile_desktop\<close> runs when the execution gate is free; closing the native helpers is an
  external call whose result is the argument \<open>close\<close>.
\<close>

definition reconcile_desktop ::
  "clock \<Rightarrow> writes \<Rightarrow> rpc_error + unit \<Rightarrow> desktop_store \<Rightarrow> (rpc_error + unit) \<times> desktop_store" where
  "reconcile_desktop clk io close s =
     (let (cleanup, q) = needs_cleanup (clk 0) (ds_queue s); s1 = s\<lparr>ds_queue := q\<rparr> in
      if cleanup then
        (case cleanup_done (\<lambda>n. clk (n + 1)) io (is_ok close) s1 of
           (Inl e, s2) \<Rightarrow> (Inl e, s2)
         | (Inr _, s2) \<Rightarrow>
             (case close of
                Inl e \<Rightarrow> (Inl e, s2)
              | Inr _ \<Rightarrow> desktop_promote (clk 3) (io 2) s2))
      else desktop_promote (clk 3) (io 2) s1)"

text \<open>Whether the failure of a desktop action leaves its outcome uncertain.\<close>

definition uncertain_result :: "rpc_error + json \<Rightarrow> bool" where
  "uncertain_result result =
     (case result of
        Inr _ \<Rightarrow> False
      | Inl e \<Rightarrow>
          let message = to_ascii_lowercase (err_message e) in
          err_code e = ''COMPUTER_USE_UNAVAILABLE'' \<or> contains ''TIMEOUT'' (err_code e)
          \<or> (err_code e = ''COMPUTER_USE_TOOL_FAILED''
             \<and> (contains ''timeout'' message \<or> contains ''timed out'' message \<or> contains ''abort'' message)))"

end
