(* ===== verification/Desktop_Properties.thy ===== *)
theory Desktop_Properties
  imports Desktop_Queue
begin

section \<open>Properties of the desktop queue\<close>

text \<open>
  The invariant of the queue, the small changes every operation is made of, runs of the
  queue with its file and the execution gate, and what follows: first-in first-out grants to
  one session at a time, admission, what a crash or a failed write leaves, the history of a
  job and idempotent submission.
\<close>

subsection \<open>The invariant of the queue\<close>

text \<open>
  Epochs number the grants: a queued job has none, the live job has the latest, and along the
  queue they increase, with no job still queued before a granted one. At most one job is live.
\<close>

definition job_ok :: "desktop_queue \<Rightarrow> desktop_job \<Rightarrow> bool" where
  "job_ok q j = (job_epoch j \<le> dq_epoch q \<and> (job_state j = ''queued'' \<longrightarrow> job_epoch j = 0) \<and>
                 (live j \<longrightarrow> job_epoch j = dq_epoch q \<and> job_epoch j \<noteq> 0))"

definition granted_after :: "desktop_job \<Rightarrow> desktop_job \<Rightarrow> bool" where
  "granted_after a b = (job_epoch b \<noteq> 0 \<longrightarrow> job_state a \<noteq> ''queued'' \<and> job_epoch a < job_epoch b)"

definition dq_wf :: "desktop_queue \<Rightarrow> bool" where
  "dq_wf q = (list_all (job_ok q) (dq_jobs q) \<and> sorted_wrt granted_after (dq_jobs q))"

lemma dq_wf_iff:
  "dq_wf q \<longleftrightarrow> (\<forall>i < length (dq_jobs q). job_ok q (dq_jobs q ! i)) \<and>
     (\<forall>i k. i < k \<longrightarrow> k < length (dq_jobs q) \<longrightarrow> granted_after (dq_jobs q ! i) (dq_jobs q ! k))"
  by (simp add: dq_wf_def list_all_length sorted_wrt_iff_nth_less)

lemma position_Some: "position P xs = Some i \<Longrightarrow> i < length xs \<and> P (xs ! i) \<and> (\<forall>k < i. \<not> P (xs ! k))"
proof (induction xs arbitrary: i)
  case (Cons x xs)
  then show ?case by (cases i) (auto split: if_splits simp: less_Suc_eq_0_disj)
qed simp

lemma position_None: "position P xs = None \<longleftrightarrow> (\<forall>x \<in> set xs. \<not> P x)"
  by (induction xs) auto

lemma dq_wf_flags [simp]:
  "dq_wf (q\<lparr>dq_in_flight := a\<rparr>) = dq_wf q" "dq_wf (q\<lparr>dq_blocked := b\<rparr>) = dq_wf q"
  "dq_wf (q\<lparr>dq_maintenance_owner := c\<rparr>) = dq_wf q" "dq_wf (q\<lparr>dq_path := p\<rparr>) = dq_wf q"
  by (simp_all add: dq_wf_def job_ok_def [abs_def])

lemma dq_wf_update:
  assumes "dq_wf q" "i < length (dq_jobs q)" "job_epoch j = job_epoch (dq_jobs q ! i)"
    "live j \<Longrightarrow> live (dq_jobs q ! i)" "job_state j = ''queued'' \<Longrightarrow> job_state (dq_jobs q ! i) = ''queued''"
  shows "dq_wf (q\<lparr>dq_jobs := (dq_jobs q)[i := j]\<rparr>)"
proof -
  let ?q = "q\<lparr>dq_jobs := (dq_jobs q)[i := j]\<rparr>"
  have ok: "job_ok ?q j" "job_ok ?q x = job_ok q x" for x
    using assms by (auto simp: dq_wf_iff job_ok_def)
  have g: "granted_after (dq_jobs q ! i) x \<Longrightarrow> granted_after j x" "granted_after x (dq_jobs q ! i) \<Longrightarrow> granted_after x j" for x
    using assms(3,5) by (auto simp: granted_after_def)
  from assms(1,2) ok g show ?thesis unfolding dq_wf_iff [of ?q] dq_wf_iff [of q]
    by (simp add: nth_list_update)
qed

lemma dq_wf_set_state [wf_intros]:
  assumes "dq_wf q" "i < length (dq_jobs q)" "st \<noteq> ''queued''" "st \<noteq> ''active''" "st = ''draining'' \<Longrightarrow> live (dq_jobs q ! i)"
  shows "dq_wf (set_state i st q)"
  using assms unfolding set_state_def by (intro dq_wf_update) (auto simp: live_def)

lemma active_Some: "active_job q = Some i \<Longrightarrow> i < length (dq_jobs q) \<and> live (dq_jobs q ! i)"
  unfolding active_job_def by (blast dest: position_Some)

lemma dq_wf_needs_cleanup [wf_intros]: "dq_wf q \<Longrightarrow> dq_wf (snd (needs_cleanup now q))"
  by (auto simp: needs_cleanup_def Let_def intro!: dq_wf_set_state split: option.splits dest: active_Some)

lemma dq_wf_append:
  assumes "dq_wf q" "job_epoch j = 0" "\<not> live j"
  shows "dq_wf (q\<lparr>dq_jobs := dq_jobs q @ [j]\<rparr>)"
  using assms by (auto simp: dq_wf_def sorted_wrt_append job_ok_def [abs_def] granted_after_def)

lemma dq_wf_grant:
  assumes wf: "dq_wf q" and idle: "active_job q = None" and left: "dq_epoch q \<noteq> - 1"
    and i: "position (\<lambda>j. job_state j = ''queued'') (dq_jobs q) = Some i"
    and j: "job_epoch j = dq_epoch q + 1" "job_state j = ''active''"
  shows "dq_wf (q\<lparr>dq_epoch := dq_epoch q + 1, dq_jobs := (dq_jobs q)[i := j]\<rparr>)"
proof -
  have lt: "dq_epoch q < dq_epoch q + 1" using left by (rule u64_less_succ)
  then have nz: "dq_epoch q + 1 \<noteq> 0" by auto
  have first: "i < length (dq_jobs q)" "job_state (dq_jobs q ! i) = ''queued''"
      "\<And>k. k < i \<Longrightarrow> job_state (dq_jobs q ! k) \<noteq> ''queued''"
    using position_Some [OF i] by auto
  have ok: "job_ok q (dq_jobs q ! k)" "\<not> live (dq_jobs q ! k)" if "k < length (dq_jobs q)" for k
    using that wf idle by (auto simp: dq_wf_iff active_job_def position_None)
  have "job_epoch (dq_jobs q ! k) < dq_epoch q + 1" if "k < length (dq_jobs q)" for k
    using ok(1) [OF that] lt unfolding job_ok_def by (meson le_less_trans)
  moreover have "job_epoch (dq_jobs q ! k) = 0" if "i < k" "k < length (dq_jobs q)" for k
    using that wf first(2) by (auto simp: dq_wf_iff granted_after_def)
  ultimately show ?thesis
    using wf first ok j nz lt
    by (auto simp: dq_wf_iff nth_list_update job_ok_def granted_after_def live_def intro: less_imp_le)
qed

subsection \<open>What the operations do to the queue\<close>

text \<open>
  Every operation but the start and the end of an action and a recovery is a sequence of
  these changes of the queue, the last of which may not have reached the file.
\<close>

definition job_identity :: "desktop_job \<Rightarrow> string \<times> string \<times> string \<times> string \<times> u64 \<times> u64" where
  "job_identity j = (job_id j, job_owner j, job_request_key j, job_token j, job_ttl_ms j, job_submitted_at j)"

definition job_changes :: "desktop_job \<Rightarrow> desktop_job \<Rightarrow> bool" where
  "job_changes a b = (job_identity b = job_identity a \<and> job_epoch b = job_epoch a \<and>
     (job_state b = job_state a \<or> (job_state a = ''queued'' \<and> job_state b = ''cancelled'') \<or>
      (live a \<and> job_state b \<in> {''draining'', ''expired'', ''completed'', ''interrupted''})))"

inductive queue_step :: "desktop_queue \<Rightarrow> desktop_queue \<Rightarrow> bool" where
  q_path: "queue_step q (q\<lparr>dq_path := p\<rparr>)"
| q_maintain: "queue_step q (q\<lparr>dq_maintenance_owner := m\<rparr>)"
| q_block: "queue_step q (q\<lparr>dq_blocked := True\<rparr>)"
| q_submit: "job_state j = ''queued'' \<Longrightarrow> job_epoch j = 0 \<Longrightarrow> queue_step q (q\<lparr>dq_jobs := dq_jobs q @ [j]\<rparr>)"
| q_change: "i < length (dq_jobs q) \<Longrightarrow> job_changes (dq_jobs q ! i) j \<Longrightarrow> queue_step q (q\<lparr>dq_jobs := (dq_jobs q)[i := j]\<rparr>)"
| q_grant: "position (\<lambda>j. job_state j = ''queued'') (dq_jobs q) = Some i \<Longrightarrow> active_job q = None \<Longrightarrow>
     dq_maintenance_owner q = None \<Longrightarrow> \<not> dq_blocked q \<Longrightarrow> \<not> dq_in_flight q \<Longrightarrow> dq_epoch q \<noteq> - 1 \<Longrightarrow>
     queue_step q (q\<lparr>dq_epoch := dq_epoch q + 1,
       dq_jobs := (dq_jobs q)[i := (dq_jobs q ! i)\<lparr>job_epoch := dq_epoch q + 1, job_state := ''active'', job_expires_at := e\<rparr>]\<rparr>)"

lemma queue_step_wf: "queue_step q q' \<Longrightarrow> dq_wf q \<Longrightarrow> dq_wf q'"
proof (induction rule: queue_step.induct)
  case (q_submit j q)
  then show ?case by (intro dq_wf_append) (simp_all add: live_def)
next
  case (q_change i q j)
  then show ?case by (intro dq_wf_update) (auto simp: job_changes_def live_def)
next
  case (q_grant q i e)
  then show ?case by (intro dq_wf_grant) simp_all
qed simp_all

lemma queue_steps_wf: "queue_step\<^sup>*\<^sup>* q q' \<Longrightarrow> dq_wf q \<Longrightarrow> dq_wf q'"
  by (induction rule: rtranclp_induct) (auto intro: queue_step_wf)

lemma queue_step_flags:
  "queue_step\<^sup>*\<^sup>* q q' \<Longrightarrow> dq_in_flight q' = dq_in_flight q \<and> (dq_blocked q \<longrightarrow> dq_blocked q') \<and> length (dq_jobs q) \<le> length (dq_jobs q')"
  by (induction rule: rtranclp_induct) (auto elim!: queue_step.cases)

definition moves :: "desktop_store \<Rightarrow> desktop_store \<Rightarrow> bool" where
  "moves s s' = (dq_path (ds_queue s') = dq_path (ds_queue s) \<and> queue_step\<^sup>*\<^sup>* (ds_queue s) (ds_queue s') \<and>
     (ds_disk s' = ds_disk s \<or> (\<exists>d. ds_disk s' = Some d \<and> queue_step\<^sup>*\<^sup>* (ds_queue s) d)))"

lemma moves_refl [simp]: "moves s s" by (simp add: moves_def)

lemma moves_trans: "moves s s1 \<Longrightarrow> moves s1 s2 \<Longrightarrow> moves s s2"
  unfolding moves_def by (metis rtranclp_trans)

lemma moves_queue:
  "queue_step\<^sup>*\<^sup>* (ds_queue s) q \<Longrightarrow> dq_path q = dq_path (ds_queue s) \<Longrightarrow> moves s (s\<lparr>ds_queue := q\<rparr>)"
  by (simp add: moves_def)

lemma moves_save: "moves s (snd (desktop_save io s))"
  using q_path [of "ds_queue s" None]
  by (auto simp: desktop_save_def moves_def split: option.splits)

lemma ds_queue_save [simp]: "ds_queue (snd (desktop_save io s)) = ds_queue s"
  by (simp add: desktop_save_def split: option.splits)

lemma save_fst_snd: "desktop_save io s = (r, s') \<Longrightarrow> s' = snd (desktop_save io s)" by simp

lemma moves_promote:
  assumes "dq_epoch (ds_queue s) \<noteq> - 1 \<or> active_job (ds_queue s) \<noteq> None"
  shows "moves s (snd (desktop_promote now io s))"
proof (cases "snd (desktop_promote now io s) = s")
  case False
  let ?q = "ds_queue s"
  from False obtain i where c: "dq_maintenance_owner ?q = None" "\<not> dq_blocked ?q" "\<not> dq_in_flight ?q"
      "active_job ?q = None" "position (\<lambda>j. job_state j = ''queued'') (dq_jobs ?q) = Some i"
    unfolding desktop_promote_def Let_def
    by (cases "position (\<lambda>j. job_state j = ''queued'') (dq_jobs ?q)") (simp_all split: if_split_asm)
  let ?q' = "?q\<lparr>dq_epoch := dq_epoch ?q + 1, dq_jobs := (dq_jobs ?q)[i := (dq_jobs ?q ! i)
      \<lparr>job_epoch := dq_epoch ?q + 1, job_state := ''active'', job_expires_at := sat_add now (job_ttl_ms (dq_jobs ?q ! i))\<rparr>]\<rparr>"
  have "queue_step ?q ?q'" using assms c by (intro q_grant) auto
  then have "moves s (s\<lparr>ds_queue := ?q'\<rparr>)" by (intro moves_queue) auto
  moreover have "snd (desktop_promote now io s) = snd (desktop_save io (s\<lparr>ds_queue := ?q'\<rparr>))"
    using c by (simp add: desktop_promote_def Let_def)
  ultimately show ?thesis using moves_trans [OF _ moves_save] by simp
qed simp

lemma promote_epoch:
  "dq_epoch (ds_queue (snd (desktop_promote now io s))) = dq_epoch (ds_queue s) \<or>
   active_job (ds_queue (snd (desktop_promote now io s))) \<noteq> None"
proof (cases "position (\<lambda>j. job_state j = ''queued'') (dq_jobs (ds_queue s))")
  case (Some i)
  then have i: "i < length (dq_jobs (ds_queue s))" using position_Some by blast
  have "position live ((dq_jobs (ds_queue s))[i := (dq_jobs (ds_queue s) ! i)\<lparr>job_epoch := e, job_state := ''active'', job_expires_at := x\<rparr>]) \<noteq> None" for e x
    unfolding position_None using i by (auto simp: live_def intro!: bexI [OF _ set_update_memI])
  with Some show ?thesis by (simp add: desktop_promote_def Let_def active_job_def)
qed (simp add: desktop_promote_def Let_def)

lemma moves_save_then:
  assumes "dq_epoch (ds_queue s) \<noteq> - 1 \<or> active_job (ds_queue s) \<noteq> None"
  shows "moves s (snd (save_then io now answer s))"
proof -
  obtain r s1 where s1: "desktop_save (io 0) s = (r, s1)" by fastforce
  then have "moves s s1" "ds_queue s1 = ds_queue s" using moves_save [of s "io 0"] ds_queue_save [of "io 0" s] by auto
  then have "moves s (snd (desktop_promote now (io 1) s1))"
    using assms moves_promote moves_trans by metis
  with s1 \<open>moves s s1\<close> show ?thesis by (auto simp: save_then_def split: sum.splits prod.splits)
qed

lemma moves_set_state:
  assumes "i < length (dq_jobs (ds_queue s))"
    "job_state (dq_jobs (ds_queue s) ! i) = ''queued'' \<and> st = ''cancelled'' \<or>
     live (dq_jobs (ds_queue s) ! i) \<and> st \<in> {''draining'', ''expired'', ''completed'', ''interrupted''}"
  shows "moves s (s\<lparr>ds_queue := set_state i st (ds_queue s)\<rparr>)"
proof -
  have "queue_step (ds_queue s) (set_state i st (ds_queue s))"
    unfolding set_state_def using assms by (intro q_change) (auto simp: job_changes_def job_identity_def)
  then show ?thesis by (intro moves_queue) (auto simp: set_state_def)
qed

lemma set_state_fields [simp]:
  "dq_epoch (set_state i st q) = dq_epoch q" "dq_path (set_state i st q) = dq_path q"
  "dq_blocked (set_state i st q) = dq_blocked q" "dq_in_flight (set_state i st q) = dq_in_flight q"
  "length (dq_jobs (set_state i st q)) = length (dq_jobs q)"
  by (simp_all add: set_state_def)

lemma moves_maintenance:
  assumes "dq_epoch (ds_queue s) \<noteq> - 1"
  shows "moves s (snd (desktop_maintenance clk io params s))"
proof -
  have "moves s (snd (save_then io now answer (s\<lparr>ds_queue := (ds_queue s)\<lparr>dq_maintenance_owner := m\<rparr>\<rparr>)))" for now answer m
    using assms q_maintain [of "ds_queue s" m]
    by (intro moves_trans [OF moves_queue moves_save_then]) auto
  then show ?thesis by (auto simp: desktop_maintenance_def split: sum.split option.split)
qed

lemma moves_submit:
  assumes "dq_epoch (ds_queue s) \<noteq> - 1"
  shows "moves s (snd (desktop_submit clk ids io params s))"
proof -
  have "moves s (snd (save_then io now answer (s\<lparr>ds_queue := (ds_queue s)\<lparr>dq_jobs := dq_jobs (ds_queue s) @ [j]\<rparr>\<rparr>)))"
    if "job_state j = ''queued''" "job_epoch j = 0" for now answer j
    using assms q_submit [OF that, of "ds_queue s"]
    by (intro moves_trans [OF moves_queue moves_save_then]) auto
  then show ?thesis by (auto simp: desktop_submit_def Let_def split: sum.split option.split)
qed

lemma moves_session_command: "moves s (snd (desktop_session_command clk io action params s))"
proof -
  let ?q = "ds_queue s"
  have save: "moves s (snd (case desktop_save (io 0) s1 of (Inl e, s') \<Rightarrow> (Inl e, s') | (Inr u, s') \<Rightarrow> (Inr (f u), s')))"
    if "moves s s1" for s1 and f :: "unit \<Rightarrow> json"
    using moves_trans [OF that moves_save [of s1 "io 0"]] by (auto split: prod.split sum.split)
  have renew: "moves s (s\<lparr>ds_queue := ?q\<lparr>dq_jobs := (dq_jobs ?q)[i := (dq_jobs ?q ! i)\<lparr>job_expires_at := e\<rparr>]\<rparr>\<rparr>)"
    if "i < length (dq_jobs ?q)" for i e
    using that by (intro moves_queue r_into_rtranclp q_change) (simp_all add: job_changes_def job_identity_def)
  show ?thesis
  proof (cases "desktop_field params ''token''")
    case (Inr token)
    show ?thesis
    proof (cases "desktop_field params ''owner''")
      case owner: (Inr owner)
      show ?thesis
      proof (cases "position (\<lambda>j. job_token j = token \<and> job_owner j = owner) (dq_jobs ?q)")
        case (Some i)
        then have i: "i < length (dq_jobs ?q)" using position_Some by blast
        have same: "moves s (s\<lparr>ds_queue := ?q\<rparr>)" by (simp add: moves_queue)
        let ?j = "dq_jobs ?q ! i"
        define q' where "q' = (if action = ''desktop.renew'' then
              ?q\<lparr>dq_jobs := (dq_jobs ?q)[i := ?j\<lparr>job_expires_at := sat_add (clk 1) (job_ttl_ms ?j)\<rparr>]\<rparr>
            else if action = ''desktop.finish'' \<or> action = ''desktop.cancel'' then
              (if job_state ?j = ''queued'' then set_state i ''cancelled'' ?q
               else if job_state ?j = ''active'' then set_state i ''draining'' ?q else ?q)
            else ?q)"
        have "moves s (s\<lparr>ds_queue := q'\<rparr>)"
          using i by (auto simp: q'_def live_def intro: renew moves_set_state same)
        note m = save [OF this, where f = "\<lambda>_. job_json (dq_jobs q' ! i)"]
        show ?thesis
          unfolding desktop_session_command_def Let_def Inr owner Some sum.case option.case q'_def [symmetric]
          using m by simp
      qed (simp add: desktop_session_command_def Let_def Inr owner)
    qed (simp add: desktop_session_command_def Inr)
  qed (simp add: desktop_session_command_def)
qed

lemma moves_cleanup_done:
  assumes "dq_epoch (ds_queue s) \<noteq> - 1"
  shows "moves s (snd (cleanup_done clk io success s)) \<and>
    (dq_epoch (ds_queue (snd (cleanup_done clk io success s))) = dq_epoch (ds_queue s) \<or>
     active_job (ds_queue (snd (cleanup_done clk io success s))) \<noteq> None)"
proof -
  define q' where "q' = (if success
        then (case active_job (ds_queue s) of None \<Rightarrow> ds_queue s
              | Some i \<Rightarrow> set_state i (if job_expires_at (dq_jobs (ds_queue s) ! i) \<le> clk 0 then ''expired'' else ''completed'') (ds_queue s))
        else (ds_queue s)\<lparr>dq_blocked := True\<rparr>)"
  have e: "dq_epoch q' = dq_epoch (ds_queue s)" by (simp add: q'_def split: option.split)
  have m: "moves s (s\<lparr>ds_queue := q'\<rparr>)"
  proof (cases "\<not> success \<or> active_job (ds_queue s) = None")
    case True
    have "queue_step\<^sup>*\<^sup>* (ds_queue s) q'"
      using True q_block [of "ds_queue s"] by (cases success) (auto simp: q'_def)
    with True show ?thesis by (intro moves_queue) (auto simp: q'_def)
  next
    case False
    then obtain i where i: "active_job (ds_queue s) = Some i" by blast
    with False active_Some [OF i] show ?thesis by (simp add: q'_def moves_set_state)
  qed
  obtain r s1 where s1: "desktop_save (io 0) (s\<lparr>ds_queue := q'\<rparr>) = (r, s1)" by fastforce
  then have m1: "moves s s1" "ds_queue s1 = q'"
    using moves_trans [OF m moves_save [of _ "io 0"]] ds_queue_save [of "io 0" "s\<lparr>ds_queue := q'\<rparr>"] by auto
  have c: "snd (cleanup_done clk io success s) = (case r of Inl e \<Rightarrow> s1 | Inr u \<Rightarrow> snd (desktop_promote (clk 1) (io 1) s1))"
    using s1 by (simp add: cleanup_done_def Let_def flip: q'_def split: sum.split)
  show ?thesis
    unfolding c using m1 e assms promote_epoch [of "clk 1" "io 1" s1] moves_trans [OF m1(1) moves_promote]
    by (auto split: sum.split)
qed

lemma needs_cleanup_steps:
  "queue_step\<^sup>*\<^sup>* q (snd (needs_cleanup now q)) \<and> dq_epoch (snd (needs_cleanup now q)) = dq_epoch q \<and>
   dq_path (snd (needs_cleanup now q)) = dq_path q"
proof (cases "active_job q")
  case (Some i)
  then have i: "i < length (dq_jobs q)" "live (dq_jobs q ! i)" using active_Some by blast+
  then have "queue_step q (set_state i ''draining'' q)"
    unfolding set_state_def by (intro q_change) (auto simp: job_changes_def job_identity_def)
  then show ?thesis by (auto simp: needs_cleanup_def Let_def Some)
qed (simp add: needs_cleanup_def)

lemma moves_reconcile:
  assumes "dq_epoch (ds_queue s) \<noteq> - 1"
  shows "moves s (snd (reconcile_desktop clk io close s))"
proof -
  obtain c q where q: "needs_cleanup (clk 0) (ds_queue s) = (c, q)" by fastforce
  let ?s1 = "s\<lparr>ds_queue := q\<rparr>" and ?clk = "\<lambda>n. clk (n + 1)"
  have m: "moves s ?s1" "dq_epoch (ds_queue ?s1) \<noteq> - 1"
    using needs_cleanup_steps [of "ds_queue s" "clk 0"] q assms by (auto intro: moves_queue)
  obtain r s2 where s2: "cleanup_done ?clk io (is_ok close) ?s1 = (r, s2)" by fastforce
  with moves_cleanup_done [OF m(2), of ?clk io "is_ok close"] m have m2: "moves s s2"
      "dq_epoch (ds_queue s2) \<noteq> - 1 \<or> active_job (ds_queue s2) \<noteq> None"
    by (auto intro: moves_trans)
  have p: "moves s (snd (desktop_promote (clk 3) (io 2) ?s1))" "moves s (snd (desktop_promote (clk 3) (io 2) s2))"
    using m m2 moves_promote moves_trans by blast+
  show ?thesis
    using q s2 m2(1) p by (auto simp: reconcile_desktop_def Let_def split: sum.split)
qed

lemma moves_command:
  assumes "dq_epoch (ds_queue s) \<noteq> - 1" "action \<noteq> ''desktop.recover''"
  shows "moves s (snd (desktop_command clk ids io action params s))"
  using assms by (simp add: desktop_command_def moves_maintenance moves_submit moves_session_command)

text \<open>A recovery first closes the live job and lifts the block, then moves as the others.\<close>

definition unblocked :: "desktop_queue \<Rightarrow> desktop_queue" where
  "unblocked q = (case active_job q of None \<Rightarrow> q | Some i \<Rightarrow> set_state i ''interrupted'' q)\<lparr>dq_blocked := False\<rparr>"

lemma dq_wf_unblocked: "dq_wf q \<Longrightarrow> dq_wf (unblocked q)"
  unfolding unblocked_def
  by (cases "active_job q") (auto intro!: dq_wf_set_state dest: active_Some)

lemma unblocked_fields [simp]:
  "dq_epoch (unblocked q) = dq_epoch q" "dq_path (unblocked q) = dq_path q" "dq_in_flight (unblocked q) = dq_in_flight q"
  "length (dq_jobs (unblocked q)) = length (dq_jobs q)"
  by (simp_all add: unblocked_def split: option.split)

lemma recover_moves:
  assumes "dq_epoch (ds_queue s) \<noteq> - 1"
  obtains "snd (desktop_recover clk io params s) = s"
  | "dq_blocked (ds_queue s)" "\<not> dq_in_flight (ds_queue s)" "jindex params ''confirmDesktopReset'' = JBool True"
    "moves (s\<lparr>ds_queue := unblocked (ds_queue s)\<rparr>) (snd (desktop_recover clk io params s))"
proof (cases "dq_blocked (ds_queue s) \<and> \<not> dq_in_flight (ds_queue s) \<and> jindex params ''confirmDesktopReset'' = JBool True")
  case True
  let ?s1 = "s\<lparr>ds_queue := unblocked (ds_queue s)\<rparr>"
  have "snd (desktop_recover clk io params s) = snd (save_then io (clk 0) (\<lambda>_. JObj [(''recovered'', JBool True)]) ?s1)"
    using True by (simp add: desktop_recover_def Let_def unblocked_def)
  moreover have "moves ?s1 (snd (save_then io (clk 0) (\<lambda>_. JObj [(''recovered'', JBool True)]) ?s1))"
    using assms by (intro moves_save_then) simp
  ultimately show ?thesis using that(2) True by simp
qed (use that(1) in \<open>auto simp: desktop_recover_def\<close>)

subsection \<open>Runs\<close>

text \<open>
  The queue with its file, and whether a desktop action is executing (the execution gate is
  taken). A crash reopens the queue from the file.
\<close>

datatype desktop_event = DesktopCommand string json | DesktopReconcile | DesktopBegin | DesktopEnd | DesktopCrash

inductive desktop_step :: "desktop_event \<Rightarrow> desktop_store \<times> bool \<Rightarrow> desktop_store \<times> bool \<Rightarrow> bool" where
  desk_command: "dq_epoch (ds_queue s) \<noteq> - 1 \<Longrightarrow>
     desktop_step (DesktopCommand action params) (s, x) (snd (desktop_command clk ids io action params s), x)"
| desk_reconcile: "dq_epoch (ds_queue s) \<noteq> - 1 \<Longrightarrow>
     desktop_step DesktopReconcile (s, False) (snd (reconcile_desktop clk io close s), False)"
| desk_begin: "desktop_begin now io' action params s = (Inr p, s') \<Longrightarrow> desktop_step DesktopBegin (s, False) (s', True)"
| desk_refused: "desktop_begin now io' action params s = (Inl e, s') \<Longrightarrow> desktop_step DesktopBegin (s, False) (s', False)"
| desk_end: "desktop_step DesktopEnd (s, True) (snd (desktop_end io' uncertain s), False)"
| desk_crash: "dq_path (ds_queue s) = Some path \<Longrightarrow> desktop_open path io' (Inr (ds_disk s)) = Inr s' \<Longrightarrow>
     desktop_step DesktopCrash (s, x) (s', False)"

definition disk_ok :: "(desktop_queue \<Rightarrow> bool) \<Rightarrow> desktop_store \<Rightarrow> bool" where
  "disk_ok P s = (case ds_disk s of None \<Rightarrow> True | Some d \<Rightarrow> P d)"

definition desk_inv :: "desktop_store \<times> bool \<Rightarrow> bool" where
  "desk_inv x = (dq_path (ds_queue (fst x)) \<noteq> None \<and> dq_wf (ds_queue (fst x)) \<and> disk_ok dq_wf (fst x) \<and>
     (snd x \<longrightarrow> dq_in_flight (ds_queue (fst x)) \<and> ds_disk (fst x) \<noteq> None \<and> disk_ok dq_in_flight (fst x)))"

lemma moves_inv:
  assumes "moves s s'" "desk_inv (s, x)"
  shows "desk_inv (s', x)"
proof -
  have q: "dq_wf q' \<and> (dq_in_flight (ds_queue s) \<longrightarrow> dq_in_flight q')" if "queue_step\<^sup>*\<^sup>* (ds_queue s) q'" for q'
    using that assms(2) queue_steps_wf queue_step_flags by (auto simp: desk_inv_def)
  consider "ds_disk s' = ds_disk s" | d where "ds_disk s' = Some d" "queue_step\<^sup>*\<^sup>* (ds_queue s) d"
    using assms(1) by (auto simp: moves_def)
  then have "disk_ok dq_wf s' \<and> (x \<longrightarrow> ds_disk s' \<noteq> None \<and> disk_ok dq_in_flight s')"
    by cases (use assms(2) q in \<open>auto simp: desk_inv_def disk_ok_def\<close>)
  with assms q [of "ds_queue s'"] show ?thesis by (auto simp: desk_inv_def moves_def)
qed

lemma desk_inv_unblocked:
  "desk_inv (s, x) \<Longrightarrow> \<not> dq_in_flight (ds_queue s) \<Longrightarrow> desk_inv (s\<lparr>ds_queue := unblocked (ds_queue s)\<rparr>, x)"
  by (auto simp: desk_inv_def disk_ok_def dq_wf_unblocked)

lemma command_inv:
  assumes "dq_epoch (ds_queue s) \<noteq> - 1" "desk_inv (s, x)"
  shows "desk_inv (snd (desktop_command clk ids io action params s), x)"
proof (cases "action = ''desktop.recover''")
  case False
  with assms moves_command moves_inv show ?thesis by blast
next
  case True
  then have c: "snd (desktop_command clk ids io action params s) = snd (desktop_recover clk io params s)"
    by (simp add: desktop_command_def)
  from assms(1) show ?thesis
    by (rule recover_moves [of s clk io params])
      (use assms(2) c desk_inv_unblocked moves_inv in auto)
qed

lemma desktop_begin_shape:
  assumes "desktop_begin now io action params s = (r, s')"
  defines "s1 \<equiv> s\<lparr>ds_queue := (ds_queue s)\<lparr>dq_in_flight := True\<rparr>\<rparr>"
  shows "s' = s \<and> \<not> is_ok r \<or> s' = snd (desktop_save io s1) \<and> is_ok r = is_ok (fst (desktop_save io s1))"
  using assms(1) unfolding s1_def
  by (auto simp: desktop_begin_def Let_def split: if_splits option.splits sum.splits prod.splits)

lemma save_ok:
  "is_ok (fst (desktop_save io s)) \<Longrightarrow> dq_path (ds_queue s) \<noteq> None \<Longrightarrow>
     ds_disk (snd (desktop_save io s)) = Some ((ds_queue s)\<lparr>dq_path := None\<rparr>)"
  by (auto simp: desktop_save_def split: option.splits)

lemma desktop_begin_admits:
  assumes "desktop_begin now io action params s = (Inr p, s')" "dq_path (ds_queue s) \<noteq> None"
  shows "ds_queue s' = (ds_queue s)\<lparr>dq_in_flight := True\<rparr>" "ds_disk s' = Some ((ds_queue s')\<lparr>dq_path := None\<rparr>)"
proof -
  have "s' = snd (desktop_save io (s\<lparr>ds_queue := (ds_queue s)\<lparr>dq_in_flight := True\<rparr>\<rparr>))"
      "is_ok (fst (desktop_save io (s\<lparr>ds_queue := (ds_queue s)\<lparr>dq_in_flight := True\<rparr>\<rparr>)))"
    using desktop_begin_shape [OF assms(1)] by auto
  with assms(2) save_ok [of io "s\<lparr>ds_queue := (ds_queue s)\<lparr>dq_in_flight := True\<rparr>\<rparr>"]
  show "ds_queue s' = (ds_queue s)\<lparr>dq_in_flight := True\<rparr>" "ds_disk s' = Some ((ds_queue s')\<lparr>dq_path := None\<rparr>)"
    by auto
qed

lemma save_inv:
  assumes "desk_inv (s, False)" "ds_queue s' = (ds_queue s)\<lparr>dq_in_flight := a, dq_blocked := b\<rparr>" "ds_disk s' = ds_disk s"
  shows "desk_inv (snd (desktop_save io s'), False)"
  using assms by (auto simp: desk_inv_def disk_ok_def desktop_save_def split: option.splits)

lemma desk_inv_idle: "desk_inv (s, x) \<Longrightarrow> desk_inv (s, False)"
  by (simp add: desk_inv_def)

lemma crash_inv:
  assumes "desk_inv (s, x)" "desktop_open path io (Inr (ds_disk s)) = Inr s'"
  shows "desk_inv (s', False)"
proof -
  have wf: "dq_wf (unwrap_or desktop_queue_default (ds_disk s))"
    using assms(1) by (auto simp: desk_inv_def disk_ok_def unwrap_or_def dq_wf_def desktop_queue_default_def split: option.splits)
  define q where "q = (unwrap_or desktop_queue_default (ds_disk s))\<lparr>dq_path := Some path\<rparr>"
  define q' where "q' = (if dq_in_flight q \<or> list_ex live (dq_jobs q) then q\<lparr>dq_blocked := True, dq_in_flight := False\<rparr> else q)"
  have q': "dq_wf q'" "dq_path q' = Some path" using wf by (simp_all add: q'_def q_def)
  have "s' = snd (desktop_save io \<lparr>ds_queue = q', ds_disk = ds_disk s\<rparr>)"
    using assms(2) by (auto simp: desktop_open_def Let_def simp flip: q_def q'_def split: prod.splits sum.splits)
  with q' assms(1) show ?thesis by (auto simp: desk_inv_def disk_ok_def desktop_save_def split: option.splits)
qed

lemma desktop_step_inv: "desktop_step ev a b \<Longrightarrow> desk_inv a \<Longrightarrow> desk_inv b"
proof (induction rule: desktop_step.induct)
  case (desk_command s action params x clk ids io)
  then show ?case by (simp add: command_inv)
next
  case (desk_reconcile s clk io close)
  then show ?case using moves_inv moves_reconcile by blast
next
  case (desk_begin now io' action params s p s')
  then have "dq_path (ds_queue s) \<noteq> None" by (simp add: desk_inv_def)
  with desktop_begin_admits [OF desk_begin.hyps] desk_begin.prems show ?case
    by (simp add: desk_inv_def disk_ok_def)
next
  case (desk_refused now io' action params s e s')
  from desktop_begin_shape [OF desk_refused.hyps] desk_refused.prems show ?case
    using save_inv [of s "s\<lparr>ds_queue := (ds_queue s)\<lparr>dq_in_flight := True\<rparr>\<rparr>", where a = True and b = "dq_blocked (ds_queue s)" and io = io'] by auto
next
  case (desk_end s io' uncertain)
  from desk_inv_idle [OF desk_end] show ?case unfolding desktop_end_def by (rule save_inv) simp_all
next
  case (desk_crash s path io' s' x)
  then show ?case by (rule_tac crash_inv)
qed

lemma desk_inv_run: "(\<lambda>a b. \<exists>ev. desktop_step ev a b)\<^sup>*\<^sup>* a b \<Longrightarrow> desk_inv a \<Longrightarrow> desk_inv b"
  by (induction rule: rtranclp_induct) (auto dest: desktop_step_inv)

definition fresh_desktop :: "string \<Rightarrow> desktop_store" where
  "fresh_desktop path = \<lparr>ds_queue = desktop_queue_default\<lparr>dq_path := Some path\<rparr>, ds_disk = Some desktop_queue_default\<rparr>"

lemma fresh_desktop_open: "desktop_open path None (Inr None) = Inr (fresh_desktop path)"
  by (simp add: desktop_open_def desktop_save_def fresh_desktop_def desktop_queue_default_def)

lemma desk_inv_fresh: "desk_inv (fresh_desktop path, False)"
  by (simp add: desk_inv_def fresh_desktop_def desktop_queue_default_def dq_wf_def disk_ok_def)

text \<open>
  C10. The desktop is granted to one session at a time, in the order of submission: after any
  run of commands, reconciliations, actions, failed writes and crashes, at most one job is
  active or draining, and a job that was ever granted the desktop has a larger epoch than
  every job submitted before it, none of which is still waiting.
\<close>

theorem desktop_fifo:
  assumes run: "(\<lambda>a b. \<exists>ev. desktop_step ev a b)\<^sup>*\<^sup>* (fresh_desktop path, False) (s, x)"
    and order: "i < k" "k < length (dq_jobs (ds_queue s))"
  shows "\<not> (live (dq_jobs (ds_queue s) ! i) \<and> live (dq_jobs (ds_queue s) ! k)) \<and>
    (job_epoch (dq_jobs (ds_queue s) ! k) \<noteq> 0 \<longrightarrow>
       job_state (dq_jobs (ds_queue s) ! i) \<noteq> ''queued'' \<and>
       job_epoch (dq_jobs (ds_queue s) ! i) < job_epoch (dq_jobs (ds_queue s) ! k))"
proof -
  have "dq_wf (ds_queue s)" using desk_inv_run [OF run desk_inv_fresh] by (simp add: desk_inv_def)
  then have ok: "job_ok (ds_queue s) (dq_jobs (ds_queue s) ! i)" "job_ok (ds_queue s) (dq_jobs (ds_queue s) ! k)"
      "granted_after (dq_jobs (ds_queue s) ! i) (dq_jobs (ds_queue s) ! k)"
    using order by (simp_all add: dq_wf_iff)
  then show ?thesis by (auto simp: granted_after_def job_ok_def)
qed

definition demo_submit :: "string \<Rightarrow> json" where
  "demo_submit k = JObj [(''owner'', JStr ''ann''), (''requestKey'', JStr k)]"

definition demo_desktop1 :: desktop_store where
  "demo_desktop1 = snd (desktop_command (\<lambda>_. 10) (\<lambda>n. if n = 0 then ''id1'' else ''tok1'') (\<lambda>_. None) ''desktop.submit'' (demo_submit ''k1'') (fresh_desktop ''f''))"

definition demo_desktop :: desktop_store where
  "demo_desktop = snd (desktop_command (\<lambda>_. 11) (\<lambda>n. if n = 0 then ''id2'' else ''tok2'') (\<lambda>_. None) ''desktop.submit'' (demo_submit ''k2'') demo_desktop1)"

lemmas desktop_eval = demo_submit_def desktop_command_def desktop_submit_def desktop_field_def jindex_def
  bt_get_def fresh_desktop_def desktop_queue_default_def save_then_def desktop_save_def desktop_promote_def active_job_def live_def sat_add_def Let_def

lemma demo_desktop1_jobs:
  "ds_queue demo_desktop1 = \<lparr>dq_path = Some ''f'', dq_epoch = 1,
     dq_jobs = [\<lparr>job_id = ''id1'', job_owner = ''ann'', job_request_key = ''k1'', job_token = ''tok1'', job_state = ''active'',
       job_epoch = 1, job_ttl_ms = 900000, job_submitted_at = 10, job_expires_at = 900010\<rparr>],
     dq_in_flight = False, dq_blocked = False, dq_maintenance_owner = None\<rparr>"
  by (simp add: demo_desktop1_def desktop_eval)

lemma demo_desktop_jobs:
  "ds_queue demo_desktop = (ds_queue demo_desktop1)\<lparr>dq_jobs := dq_jobs (ds_queue demo_desktop1) @
     [\<lparr>job_id = ''id2'', job_owner = ''ann'', job_request_key = ''k2'', job_token = ''tok2'', job_state = ''queued'',
       job_epoch = 0, job_ttl_ms = 900000, job_submitted_at = 11, job_expires_at = 0\<rparr>]\<rparr>"
  unfolding demo_desktop_def by (simp add: desktop_eval demo_desktop1_jobs)

lemma demo_desktop1_step:
  "desktop_step (DesktopCommand ''desktop.submit'' (demo_submit ''k1'')) (fresh_desktop ''f'', False) (demo_desktop1, False)"
  unfolding demo_desktop1_def by (rule desk_command) (simp add: fresh_desktop_def desktop_queue_default_def)

lemma demo_desktop_run: "(\<lambda>a b. \<exists>ev. desktop_step ev a b)\<^sup>*\<^sup>* (fresh_desktop ''f'', False) (demo_desktop, False)"
proof -
  note demo_desktop1_step
  moreover have "desktop_step (DesktopCommand ''desktop.submit'' (demo_submit ''k2'')) (demo_desktop1, False) (demo_desktop, False)"
    unfolding demo_desktop_def by (rule desk_command) (simp add: demo_desktop1_jobs)
  ultimately show ?thesis by (blast intro: rtranclp.intros)
qed

theorem desktop_fifo_witness:
  "\<not> (live (dq_jobs (ds_queue demo_desktop) ! 0) \<and> live (dq_jobs (ds_queue demo_desktop) ! 1)) \<and>
   live (dq_jobs (ds_queue demo_desktop) ! 0)"
proof -
  have "(0::nat) < 1" "1 < length (dq_jobs (ds_queue demo_desktop))" by (simp_all add: demo_desktop_jobs demo_desktop1_jobs)
  from desktop_fifo [OF demo_desktop_run this] show ?thesis
    by (simp add: demo_desktop_jobs demo_desktop1_jobs live_def)
qed

lemma desktop_begin_conditions:
  assumes "desktop_begin now io action params s = (Inr p, s')"
  shows "\<not> dq_blocked (ds_queue s)" "\<not> dq_in_flight (ds_queue s)"
    "active_job (ds_queue s) = Some i \<Longrightarrow> job_state (dq_jobs (ds_queue s) ! i) = ''active'' \<and>
       now < job_expires_at (dq_jobs (ds_queue s) ! i) \<and>
       jindex (jindex params ''_desktop'') ''token'' = JStr (job_token (dq_jobs (ds_queue s) ! i)) \<and>
       jindex (jindex params ''_desktop'') ''owner'' = JStr (job_owner (dq_jobs (ds_queue s) ! i))"
    "active_job (ds_queue s) = None \<Longrightarrow> dq_maintenance_owner (ds_queue s) = None \<and> action \<noteq> ''computer-use.call'' \<and>
       jget params ''_desktop'' = None \<and> p = params"
  using assms by (auto simp: desktop_begin_def Let_def not_le split: option.splits if_splits prod.splits sum.splits)

text \<open>
  C31. An admitted desktop action belongs to the session that holds the desktop: admission
  succeeds only when the queue is not blocked and nothing is in flight, and then either the
  live job is active, unexpired and presented by its owner with its token, or there is no live
  job, no maintenance, and the action needs no session. Before it returns, the action is
  recorded in flight, in memory and in the file, and no second action is admitted until it ends.
\<close>

theorem desktop_admission:
  assumes admitted: "desktop_begin now io action params s = (Inr p, s')"
    and path: "dq_path (ds_queue s) \<noteq> None"
  shows "\<not> dq_blocked (ds_queue s) \<and> \<not> dq_in_flight (ds_queue s) \<and>
    (case active_job (ds_queue s) of
       Some i \<Rightarrow> let job = dq_jobs (ds_queue s) ! i in
         job_state job = ''active'' \<and> now < job_expires_at job \<and>
         get_str (jindex params ''_desktop'') ''token'' = Some (job_token job) \<and>
         get_str (jindex params ''_desktop'') ''owner'' = Some (job_owner job)
     | None \<Rightarrow> dq_maintenance_owner (ds_queue s) = None \<and> action \<noteq> ''computer-use.call'' \<and> p = params) \<and>
    ds_queue s' = (ds_queue s)\<lparr>dq_in_flight := True\<rparr> \<and> ds_disk s' = Some ((ds_queue s')\<lparr>dq_path := None\<rparr>) \<and>
    desktop_begin now' io' action' params' s' =
      (Inl (rpc_err ''DESKTOP_BUSY'' ''desktop action is already in flight''), s')"
proof -
  note q = desktop_begin_admits [OF admitted path]
  have g: "jindex v k = JStr t \<Longrightarrow> get_str v k = Some t" for v k t
    by (auto simp: jindex_def get_str_def split: option.splits)
  note c = desktop_begin_conditions [OF admitted]
  have "desktop_begin now' io' action' params' s' =
      (Inl (rpc_err ''DESKTOP_BUSY'' ''desktop action is already in flight''), s')"
    using q(1) c(1) by (simp add: desktop_begin_def Let_def)
  then show ?thesis using c q g by (auto simp: Let_def split: option.split)
qed

theorem desktop_admission_witness:
  "\<exists>p s'. desktop_begin 20 None ''ui.click'' (JObj [(''_desktop'', JObj [(''owner'', JStr ''ann''), (''token'', JStr ''tok1'')])]) demo_desktop1 = (Inr p, s') \<and>
     desktop_begin 21 None ''ui.click'' (JObj [(''_desktop'', JObj [(''owner'', JStr ''ann''), (''token'', JStr ''tok1'')])]) s' =
       (Inl (rpc_err ''DESKTOP_BUSY'' ''desktop action is already in flight''), s')"
proof -
  let ?p = "JObj [(''_desktop'', JObj [(''owner'', JStr ''ann''), (''token'', JStr ''tok1'')])]"
  obtain p s' where b: "desktop_begin 20 None ''ui.click'' ?p demo_desktop1 = (Inr p, s')"
    by (simp add: desktop_begin_def demo_desktop1_jobs active_job_def live_def jindex_def bt_get_def desktop_save_def Let_def)
  have "dq_path (ds_queue demo_desktop1) \<noteq> None" by (simp add: demo_desktop1_jobs)
  from desktop_admission [OF b this] b show ?thesis by blast
qed

subsection \<open>Crashes, blocking and recovery\<close>

definition held :: "desktop_store \<times> bool \<Rightarrow> bool" where
  "held a = (dq_blocked (ds_queue (fst a)) \<and> ds_disk (fst a) \<noteq> None \<and> disk_ok dq_blocked (fst a) \<and> \<not> snd a)"

lemma begin_blocked:
  "dq_blocked (ds_queue s) \<Longrightarrow> desktop_begin now io action params s =
     (Inl (rpc_err ''DESKTOP_RECOVERY_REQUIRED'' ''desktop outcome is uncertain; explicit reset required''), s)"
  by (simp add: desktop_begin_def Let_def)

lemma moves_held: "moves s s' \<Longrightarrow> held (s, x) \<Longrightarrow> held (s', x)"
  using queue_step_flags by (auto simp: moves_def held_def disk_ok_def split: option.splits)

lemma crash_held:
  assumes "desktop_open path io (Inr (Some d)) = Inr s'" "dq_in_flight d \<or> list_ex live (dq_jobs d) \<or> dq_blocked d"
  shows "held (s', False)"
  using assms
  by (auto simp: desktop_open_def Let_def held_def desktop_save_def disk_ok_def split: option.splits if_splits)

fun recovery :: "desktop_event \<Rightarrow> bool" where
  "recovery (DesktopCommand action params) =
     (action = ''desktop.recover'' \<and> jindex params ''confirmDesktopReset'' = JBool True)"
| "recovery _ = False"

lemma desktop_step_held: "desktop_step ev a b \<Longrightarrow> \<not> recovery ev \<Longrightarrow> held a \<Longrightarrow> held b"
proof (induction rule: desktop_step.induct)
  case (desk_command s action params x clk ids io)
  show ?case
  proof (cases "action = ''desktop.recover''")
    case True
    with desk_command.prems have "snd (desktop_command clk ids io action params s) = s"
      by (simp add: desktop_command_def desktop_recover_def)
    with desk_command.prems show ?thesis by simp
  next
    case False
    with moves_command [OF desk_command.hyps False] moves_held desk_command.prems show ?thesis by blast
  qed
next
  case (desk_reconcile s clk io close)
  then show ?case using moves_held moves_reconcile by blast
next
  case (desk_begin now io' action params s p s')
  then show ?case using begin_blocked [of s] by (simp add: held_def)
next
  case (desk_refused now io' action params s e s')
  then show ?case using begin_blocked [of s] by (simp add: held_def)
next
  case (desk_end s io' uncertain)
  then show ?case by (simp add: held_def)
next
  case (desk_crash s path io' s' x)
  from desk_crash.prems obtain d where d: "ds_disk s = Some d" "dq_blocked d" by (auto simp: held_def disk_ok_def)
  from desk_crash.hyps(2) d show ?case by (simp add: crash_held)
qed

lemma held_run:
  "(\<lambda>a b. \<exists>ev. desktop_step ev a b \<and> \<not> recovery ev)\<^sup>*\<^sup>* a b \<Longrightarrow> held a \<Longrightarrow> held b"
  by (induction rule: rtranclp_induct) (auto dest: desktop_step_held)

text \<open>
  A desktop action that a crash interrupts is never followed by another one by itself:
  whatever ran before, if the process dies while an action executes, the reopened queue is
  blocked, and through every further run, crashes included, it admits no action and grants no
  session until an operator confirms that the desktop was reset.
\<close>

theorem desktop_crash_blocks:
  assumes run: "(\<lambda>a b. \<exists>ev. desktop_step ev a b)\<^sup>*\<^sup>* (fresh_desktop path, False) (s, True)"
    and crash: "desktop_step DesktopCrash (s, True) (s1, x1)"
    and later: "(\<lambda>a b. \<exists>ev. desktop_step ev a b \<and> \<not> recovery ev)\<^sup>*\<^sup>* (s1, x1) (s2, x2)"
  shows "dq_blocked (ds_queue s2) \<and> \<not> x2 \<and>
    desktop_begin now io action params s2 =
      (Inl (rpc_err ''DESKTOP_RECOVERY_REQUIRED'' ''desktop outcome is uncertain; explicit reset required''), s2) \<and>
    desktop_promote now io s2 = (Inr (), s2)"
proof -
  from desk_inv_run [OF run desk_inv_fresh] obtain d where d: "ds_disk s = Some d" "dq_in_flight d"
    by (auto simp: desk_inv_def disk_ok_def)
  from crash d have "held (s1, x1)" by (cases rule: desktop_step.cases) (simp add: crash_held)
  then have "held (s2, x2)" using held_run [OF later] by simp
  then show ?thesis by (simp add: held_def begin_blocked) (simp add: desktop_promote_def)
qed

lemma save_total: "fst (desktop_save None s) = Inr ()"
  by (simp add: desktop_save_def split: option.split)

lemma desktop_open_total: "is_ok (desktop_open path None (Inr c))"
  using save_total by (auto simp: desktop_open_def Let_def split: prod.split sum.split) (metis fst_conv sum.distinct(1))+

lemma demo_executing:
  "\<exists>s. desktop_step DesktopBegin (demo_desktop1, False) (s, True)"
proof -
  let ?p = "JObj [(''_desktop'', JObj [(''owner'', JStr ''ann''), (''token'', JStr ''tok1'')])]"
  obtain p s where "desktop_begin 20 None ''ui.click'' ?p demo_desktop1 = (Inr p, s)"
    by (simp add: desktop_begin_def demo_desktop1_jobs active_job_def live_def jindex_def bt_get_def desktop_save_def Let_def)
  then show ?thesis by (blast intro: desk_begin)
qed

theorem desktop_crash_blocks_witness:
  "\<exists>s s1. desktop_step DesktopCrash (s, True) (s1, False) \<and> dq_blocked (ds_queue s1)"
proof -
  obtain s where s: "desktop_step DesktopBegin (demo_desktop1, False) (s, True)" using demo_executing by blast
  with demo_desktop1_step have run: "(\<lambda>a b. \<exists>ev. desktop_step ev a b)\<^sup>*\<^sup>* (fresh_desktop ''f'', False) (s, True)"
    by (blast intro: rtranclp.intros)
  have "desk_inv (s, True)" using desk_inv_run [OF run desk_inv_fresh] .
  then obtain path where p: "dq_path (ds_queue s) = Some path" by (auto simp: desk_inv_def)
  obtain s1 where "desktop_open path None (Inr (ds_disk s)) = Inr s1"
    using desktop_open_total [of path "ds_disk s"] by (auto simp: is_ok_iff)
  with p have c: "desktop_step DesktopCrash (s, True) (s1, False)" by (rule desk_crash)
  from desktop_crash_blocks [OF run c rtranclp.rtrancl_refl] c show ?thesis by blast
qed

lemma begin_in_flight:
  "dq_in_flight (ds_queue s) \<Longrightarrow> \<not> is_ok (fst (desktop_begin now io action params s)) \<and> snd (desktop_begin now io action params s) = s"
  by (simp add: desktop_begin_def Let_def)

lemma desktop_step_in_flight:
  "desktop_step ev a b \<Longrightarrow> ev \<noteq> DesktopCrash \<Longrightarrow> dq_in_flight (ds_queue (fst a)) \<and> \<not> snd a \<Longrightarrow>
     dq_in_flight (ds_queue (fst b)) \<and> \<not> snd b"
proof (induction rule: desktop_step.induct)
  case (desk_command s action params x clk ids io)
  show ?case
  proof (cases "action = ''desktop.recover''")
    case True
    with desk_command.prems show ?thesis by (simp add: desktop_command_def desktop_recover_def)
  next
    case False
    from moves_command [OF desk_command.hyps False, of clk ids io params] desk_command.prems queue_step_flags show ?thesis
      by (auto simp: moves_def)
  qed
next
  case (desk_reconcile s clk io close)
  then show ?case using moves_reconcile [of s clk io close] queue_step_flags by (auto simp: moves_def)
next
  case (desk_begin now io' action params s p s')
  then show ?case using begin_in_flight [of s now io' action params] by simp
next
  case (desk_refused now io' action params s e s')
  then show ?case using begin_in_flight [of s now io' action params] by simp
qed simp_all

lemma in_flight_run:
  "(\<lambda>a b. \<exists>ev. desktop_step ev a b \<and> ev \<noteq> DesktopCrash)\<^sup>*\<^sup>* a b \<Longrightarrow> dq_in_flight (ds_queue (fst a)) \<and> \<not> snd a \<Longrightarrow>
     dq_in_flight (ds_queue (fst b)) \<and> \<not> snd b"
  by (induction rule: rtranclp_induct) (blast dest: desktop_step_in_flight)+

lemma desktop_begin_write_failed:
  assumes "desktop_begin now None action params s = (Inr p, s0)" "dq_path (ds_queue s) \<noteq> None"
    "desktop_begin now (Some e) action params s = (r, s1)"
  shows "r = Inl (rpc_err ''DESKTOP_STATE_FAILED'' e)" "dq_in_flight (ds_queue s1)"
proof -
  note c = desktop_begin_conditions [OF assms(1)]
  have save: "desktop_save (Some e) (s\<lparr>ds_queue := (ds_queue s)\<lparr>dq_in_flight := True\<rparr>\<rparr>) =
      (Inl (rpc_err ''DESKTOP_STATE_FAILED'' e), s\<lparr>ds_queue := (ds_queue s)\<lparr>dq_in_flight := True\<rparr>\<rparr>)"
    using assms(2) by (auto simp: desktop_save_def)
  have "desktop_begin now (Some e) action params s =
      (Inl (rpc_err ''DESKTOP_STATE_FAILED'' e), s\<lparr>ds_queue := (ds_queue s)\<lparr>dq_in_flight := True\<rparr>\<rparr>)"
  proof (cases "active_job (ds_queue s)")
    case None
    with c(1,2,4) save show ?thesis by (simp add: desktop_begin_def Let_def)
  next
    case (Some i)
    with c(1,2) c(3) [OF Some] save show ?thesis
      by (simp add: desktop_begin_def Let_def not_le [symmetric] split: option.split)
  qed
  with assms(3) show "r = Inl (rpc_err ''DESKTOP_STATE_FAILED'' e)" "dq_in_flight (ds_queue s1)" by auto
qed

text \<open>
  When the write that records an admissible action fails, the caller gets the error and
  never runs the action, but the queue stays in flight: without a restart no later run clears
  it, no action is admitted, and a recovery is refused.
\<close>

theorem desktop_failed_start_leaks:
  assumes admissible: "desktop_begin now None action params s = (Inr p, s0)" "dq_path (ds_queue s) \<noteq> None"
    and failed: "desktop_begin now (Some e) action params s = (r, s1)"
    and run: "(\<lambda>a b. \<exists>ev. desktop_step ev a b \<and> ev \<noteq> DesktopCrash)\<^sup>*\<^sup>* (s1, False) (s2, x)"
  shows "r = Inl (rpc_err ''DESKTOP_STATE_FAILED'' e) \<and> \<not> x \<and>
    \<not> is_ok (fst (desktop_begin now' io' action' params' s2)) \<and>
    \<not> is_ok (fst (desktop_command clk ids io ''desktop.recover'' params' s2))"
proof -
  note r = desktop_begin_write_failed [OF admissible failed]
  from in_flight_run [OF run] r(2) have "dq_in_flight (ds_queue s2) \<and> \<not> x" by simp
  with r(1) show ?thesis by (simp add: begin_in_flight desktop_command_def desktop_recover_def)
qed

theorem desktop_failed_start_leaks_witness:
  "\<exists>s1. desktop_begin 1 (Some ''disk full'') ''ui.tree'' JNull (fresh_desktop ''f'') =
       (Inl (rpc_err ''DESKTOP_STATE_FAILED'' ''disk full''), s1) \<and>
     \<not> is_ok (fst (desktop_begin 2 None ''ui.tree'' JNull s1))"
proof -
  obtain p s0 where a: "desktop_begin 1 None ''ui.tree'' JNull (fresh_desktop ''f'') = (Inr p, s0)"
    by (simp add: desktop_begin_def fresh_desktop_def desktop_queue_default_def active_job_def desktop_save_def Let_def)
  obtain r s1 where f: "desktop_begin 1 (Some ''disk full'') ''ui.tree'' JNull (fresh_desktop ''f'') = (r, s1)" by fastforce
  have "dq_path (ds_queue (fresh_desktop ''f'')) \<noteq> None" by (simp add: fresh_desktop_def)
  from desktop_failed_start_leaks [OF a this f rtranclp.rtrancl_refl] f show ?thesis by blast
qed

subsection \<open>The jobs of the queue\<close>

definition settled :: "desktop_job \<Rightarrow> bool" where
  "settled j = (job_state j \<notin> {''queued'', ''active'', ''draining''})"

definition job_history :: "desktop_job \<Rightarrow> desktop_job \<Rightarrow> bool" where
  "job_history a b = (job_identity b = job_identity a \<and> (job_epoch a \<noteq> 0 \<longrightarrow> job_epoch b = job_epoch a) \<and>
     (settled a \<longrightarrow> job_state b = job_state a))"

definition job_at :: "desktop_queue \<Rightarrow> nat \<Rightarrow> desktop_job option" where
  "job_at q i = (if i < length (dq_jobs q) then Some (dq_jobs q ! i) else None)"

lemma job_history_trans: "job_history a b \<Longrightarrow> job_history b c \<Longrightarrow> job_history a c"
  by (auto simp: job_history_def settled_def)

lemma job_history_refl [simp]: "job_history a a"
  by (simp add: job_history_def)

lemma queue_step_history:
  "queue_step q q' \<Longrightarrow> dq_wf q \<Longrightarrow> job_at q i = Some a \<Longrightarrow> \<exists>b. job_at q' i = Some b \<and> job_history a b"
proof (induction rule: queue_step.induct)
  case (q_submit j q)
  then show ?case by (auto simp: job_at_def nth_append split: if_splits)
next
  case (q_change k q j)
  then show ?case
    by (auto simp: job_at_def nth_list_update job_history_def job_changes_def settled_def live_def split: if_splits)
next
  case (q_grant q k e)
  then have k: "k < length (dq_jobs q)" "job_state (dq_jobs q ! k) = ''queued''" using position_Some by blast+
  with q_grant.prems(1) have "job_epoch (dq_jobs q ! k) = 0" by (auto simp: dq_wf_iff job_ok_def)
  with k q_grant.prems(2) show ?case
    by (auto simp: job_at_def nth_list_update job_history_def job_identity_def settled_def split: if_splits)
qed (auto simp: job_at_def split: if_splits)

lemma queue_steps_history:
  assumes "queue_step\<^sup>*\<^sup>* q q'" "dq_wf q" "job_at q i = Some a"
  shows "\<exists>b. job_at q' i = Some b \<and> job_history a b"
  using assms(1)
proof (induction rule: rtranclp_induct)
  case base
  with assms show ?case by simp
next
  case (step y z)
  then obtain b where "job_at y i = Some b" "job_history a b" by blast
  with queue_step_history [OF step.hyps(2) queue_steps_wf [OF step.hyps(1) assms(2)]] show ?case
    by (blast intro: job_history_trans)
qed

lemma unblocked_history:
  assumes "job_at q i = Some a"
  shows "\<exists>b. job_at (unblocked q) i = Some b \<and> job_history a b"
  using assms active_Some [of q]
  by (auto simp: unblocked_def job_at_def set_state_def nth_list_update job_history_def job_identity_def settled_def live_def
      split: option.split if_splits)

lemma desktop_step_history:
  "desktop_step ev x y \<Longrightarrow> ev \<noteq> DesktopCrash \<Longrightarrow> desk_inv x \<Longrightarrow> job_at (ds_queue (fst x)) i = Some a \<Longrightarrow>
     \<exists>b. job_at (ds_queue (fst y)) i = Some b \<and> job_history a b"
proof (induction rule: desktop_step.induct)
  case (desk_command s action params x clk ids io)
  have wf: "dq_wf (ds_queue s)" using desk_command.prems(2) by (simp add: desk_inv_def)
  show ?case
  proof (cases "action = ''desktop.recover''")
    case True
    then have c: "snd (desktop_command clk ids io action params s) = snd (desktop_recover clk io params s)"
      by (simp add: desktop_command_def)
    from desk_command.hyps show ?thesis
    proof (rule recover_moves [of s clk io params])
      assume m: "moves (s\<lparr>ds_queue := unblocked (ds_queue s)\<rparr>) (snd (desktop_recover clk io params s))"
      obtain b where b: "job_at (unblocked (ds_queue s)) i = Some b" "job_history a b"
        using unblocked_history [of "ds_queue s" i a] desk_command.prems(3) by auto
      from m queue_steps_history [OF _ dq_wf_unblocked [OF wf] b(1)] b(2) show ?thesis
        unfolding c moves_def by (auto intro: job_history_trans)
    qed (use c desk_command.prems(3) in simp)
  next
    case False
    from moves_command [OF desk_command.hyps False] queue_steps_history [OF _ wf] desk_command.prems(3) show ?thesis
      by (simp add: moves_def)
  qed
next
  case (desk_reconcile s clk io close)
  have wf: "dq_wf (ds_queue s)" using desk_reconcile.prems(2) by (simp add: desk_inv_def)
  from moves_reconcile [OF desk_reconcile.hyps] queue_steps_history [OF _ wf] desk_reconcile.prems(3) show ?case
    by (simp add: moves_def)
next
  case (desk_begin now io' action params s p s')
  from desktop_begin_shape [OF desk_begin.hyps] desk_begin.prems(3) show ?case by (auto simp: job_at_def split: if_splits)
next
  case (desk_refused now io' action params s e s')
  from desktop_begin_shape [OF desk_refused.hyps] desk_refused.prems(3) show ?case by (auto simp: job_at_def split: if_splits)
next
  case (desk_end s io' uncertain)
  then show ?case by (auto simp: desktop_end_def job_at_def split: if_splits)
qed simp

interpretation desk: entity_store desk_inv "\<lambda>x. job_at (ds_queue (fst x))"
  "\<lambda>a b. \<exists>ev. desktop_step ev a b \<and> ev \<noteq> DesktopCrash" job_history
proof
  fix s s' i a b
  assume "\<exists>ev. desktop_step ev s s' \<and> ev \<noteq> DesktopCrash" "desk_inv s"
    "job_at (ds_queue (fst s)) i = Some a" "job_at (ds_queue (fst s')) i = Some b"
  then show "job_history a b" using desktop_step_history by fastforce
qed (auto dest: desktop_step_inv)

lemma desktop_jobs_run:
  assumes "desk_inv (s, x)" "i < length (dq_jobs (ds_queue s))"
    and "(\<lambda>a b. \<exists>ev. desktop_step ev a b \<and> ev \<noteq> DesktopCrash)\<^sup>*\<^sup>* (s, x) (s', x')"
  shows "i < length (dq_jobs (ds_queue s')) \<and> job_history (dq_jobs (ds_queue s) ! i) (dq_jobs (ds_queue s') ! i)"
proof -
  let ?R = "\<lambda>a b. \<exists>ev. desktop_step ev a b \<and> ev \<noteq> DesktopCrash"
  have a: "job_at (ds_queue (fst (s, x))) i = Some (dq_jobs (ds_queue s) ! i)" using assms(2) by (simp add: job_at_def)
  have kept: "(\<lambda>y z. ?R y z \<and> job_at (ds_queue (fst z)) i \<noteq> None)\<^sup>*\<^sup>* (s, x) (s', x')"
    using assms(3)
  proof (induction rule: rtranclp_induct)
    case (step y z)
    from desk.kept_run [OF step.IH assms(1) a] obtain b where b: "desk_inv y" "job_at (ds_queue (fst y)) i = Some b" by blast
    with step.hyps(2) desktop_step_history have "job_at (ds_queue (fst z)) i \<noteq> None" by fastforce
    with step show ?case by (simp add: rtranclp.rtrancl_into_rtrancl)
  qed simp
  from desk.kept_run [OF kept assms(1) a] obtain b where b: "job_at (ds_queue s') i = Some b"
      "job_history\<^sup>*\<^sup>* (dq_jobs (ds_queue s) ! i) b" by auto
  from b(2) have "job_history (dq_jobs (ds_queue s) ! i) b"
    by (induction rule: rtranclp_induct) (auto intro: job_history_trans)
  with b(1) show ?thesis by (auto simp: job_at_def split: if_splits)
qed

text \<open>
  A job's history is append-only while the process lives: no operation removes a job or
  changes who submitted it, its key, its token or its time to live; the epoch it was granted
  stays; and a job that ended (completed, expired, cancelled or interrupted) stays ended as it is.
\<close>

theorem desktop_job_history:
  assumes "desk_inv (s, x)" "i < length (dq_jobs (ds_queue s))"
    and "(\<lambda>a b. \<exists>ev. desktop_step ev a b \<and> ev \<noteq> DesktopCrash)\<^sup>*\<^sup>* (s, x) (s', x')"
  shows "i < length (dq_jobs (ds_queue s')) \<and> job_history (dq_jobs (ds_queue s) ! i) (dq_jobs (ds_queue s') ! i)"
  using assms by (rule desktop_jobs_run)

theorem desktop_job_history_witness:
  "job_history (dq_jobs (ds_queue demo_desktop1) ! 0) (dq_jobs (ds_queue demo_desktop) ! 0)"
proof -
  have "(\<lambda>a b. \<exists>ev. desktop_step ev a b)\<^sup>*\<^sup>* (fresh_desktop ''f'', False) (demo_desktop1, False)"
    using demo_desktop1_step by blast
  then have inv: "desk_inv (demo_desktop1, False)" using desk_inv_run desk_inv_fresh by blast
  have "desktop_step (DesktopCommand ''desktop.submit'' (demo_submit ''k2'')) (demo_desktop1, False) (demo_desktop, False)"
    unfolding demo_desktop_def by (rule desk_command) (simp add: demo_desktop1_jobs)
  then have "(\<lambda>a b. \<exists>ev. desktop_step ev a b \<and> ev \<noteq> DesktopCrash)\<^sup>*\<^sup>* (demo_desktop1, False) (demo_desktop, False)" by blast
  from desktop_job_history [OF inv _ this] show ?thesis by (simp add: demo_desktop1_jobs)
qed

definition job_for :: "desktop_queue \<Rightarrow> string \<Rightarrow> string \<Rightarrow> desktop_job option" where
  "job_for q owner key = find (\<lambda>j. job_owner j = owner \<and> job_request_key j = key) (dq_jobs q)"

lemma job_for_run:
  assumes "desk_inv (s, x)" "job_for (ds_queue s) owner key = Some j"
    and "(\<lambda>a b. \<exists>ev. desktop_step ev a b \<and> ev \<noteq> DesktopCrash)\<^sup>*\<^sup>* (s, x) (s', x')"
  shows "\<exists>j'. job_for (ds_queue s') owner key = Some j' \<and> job_history j j'"
proof -
  obtain i where i: "i < length (dq_jobs (ds_queue s))" "j = dq_jobs (ds_queue s) ! i"
      "job_owner j = owner" "job_request_key j = key"
      "\<forall>k < i. \<not> (job_owner (dq_jobs (ds_queue s) ! k) = owner \<and> job_request_key (dq_jobs (ds_queue s) ! k) = key)"
    using assms(2) by (auto simp: job_for_def find_Some_iff)
  have h: "k < length (dq_jobs (ds_queue s')) \<and> job_history (dq_jobs (ds_queue s) ! k) (dq_jobs (ds_queue s') ! k)"
    if "k \<le> i" for k
    using desktop_jobs_run [OF assms(1) _ assms(3), of k] that i(1) by simp
  then have "job_for (ds_queue s') owner key = Some (dq_jobs (ds_queue s') ! i)"
    unfolding job_for_def find_Some_iff using i
    by (intro exI [of _ i]) (fastforce simp: job_history_def job_identity_def)
  with h [of i] i(2) show ?thesis by simp
qed

lemma promote_length: "length (dq_jobs (ds_queue (snd (desktop_promote now io s)))) = length (dq_jobs (ds_queue s))"
  by (simp add: desktop_promote_def Let_def split: option.split)

lemma save_then_length: "length (dq_jobs (ds_queue (snd (save_then io now answer s)))) = length (dq_jobs (ds_queue s))"
proof -
  obtain r s1 where s1: "desktop_save (io 0) s = (r, s1)" by fastforce
  then have "ds_queue s1 = ds_queue s" using ds_queue_save [of "io 0" s] by simp
  with s1 promote_length [of now "io 1" s1] show ?thesis
    by (auto simp: save_then_def split: sum.splits prod.splits)
qed

lemma save_then_answer: "save_then io now answer s = (Inr v, s') \<Longrightarrow> v = answer (ds_queue s')"
  by (auto simp: save_then_def split: sum.splits prod.splits)

lemma submit_answer:
  assumes "desktop_submit clk ids io params s = (Inr v, s1)" "dq_epoch (ds_queue s) \<noteq> - 1" "desk_inv (s, x)"
  obtains owner key j where "desktop_field params ''owner'' = Inr owner" "desktop_field params ''requestKey'' = Inr key"
    "job_for (ds_queue s1) owner key = Some j" "v = job_json j" "desk_inv (s1, x)"
proof -
  obtain owner where o: "desktop_field params ''owner'' = Inr owner"
    using assms(1) by (auto simp: desktop_submit_def split: sum.splits)
  obtain key where k: "desktop_field params ''requestKey'' = Inr key"
    using assms(1) o by (auto simp: desktop_submit_def split: sum.splits)
  have inv: "desk_inv (s1, x)" using moves_inv [OF moves_submit [OF assms(2)] assms(3), of clk ids io params] assms(1) by simp
  show thesis
  proof (cases "job_for (ds_queue s) owner key")
    case (Some j)
    with assms(1) o k have "v = job_json j" "s1 = s" by (auto simp: desktop_submit_def job_for_def Let_def)
    with Some o k inv that show thesis by blast
  next
    case None
    define j where "j = \<lparr>job_id = ids 0, job_owner = owner, job_request_key = key, job_token = ids 1,
       job_state = ''queued'', job_epoch = 0, job_ttl_ms = unwrap_or 900000 (as_u64 (jindex params ''ttlMs'')),
       job_submitted_at = clk 0, job_expires_at = 0\<rparr>"
    let ?s0 = "s\<lparr>ds_queue := (ds_queue s)\<lparr>dq_jobs := dq_jobs (ds_queue s) @ [j]\<rparr>\<rparr>"
    have st: "save_then io (clk 1) (\<lambda>q'. job_json (last (dq_jobs q'))) ?s0 = (Inr v, s1)"
      using assms(1) o k None
      by (auto simp: desktop_submit_def job_for_def Let_def j_def split: if_splits)
    let ?n = "length (dq_jobs (ds_queue s))"
    have wf: "dq_wf (ds_queue ?s0)"
      using assms(3) by (simp add: desk_inv_def) (intro dq_wf_append, simp_all add: j_def live_def)
    have q: "queue_step\<^sup>*\<^sup>* (ds_queue ?s0) (ds_queue s1)"
      using moves_save_then [of ?s0 io "clk 1" "\<lambda>q'. job_json (last (dq_jobs q'))"] st assms(2) by (simp add: moves_def)
    have at: "\<exists>b. job_at (ds_queue s1) i = Some b \<and> job_identity b = job_identity ((dq_jobs (ds_queue s) @ [j]) ! i)" if "i \<le> ?n" for i
      using queue_steps_history [OF q wf, of i "(dq_jobs (ds_queue s) @ [j]) ! i"] that
      by (simp add: job_at_def [of "ds_queue s\<lparr>dq_jobs := dq_jobs (ds_queue s) @ [j]\<rparr>"] job_history_def) blast
    have len: "length (dq_jobs (ds_queue s1)) = Suc ?n"
      using save_then_length [of io "clk 1" "\<lambda>q'. job_json (last (dq_jobs q'))" ?s0] st by simp
    have v: "v = job_json (dq_jobs (ds_queue s1) ! ?n)"
      using save_then_answer [OF st] len last_conv_nth [of "dq_jobs (ds_queue s1)"] by (cases "dq_jobs (ds_queue s1)") auto
    have key: "job_owner (dq_jobs (ds_queue s1) ! ?n) = owner \<and> job_request_key (dq_jobs (ds_queue s1) ! ?n) = key"
      using at [of ?n] len by (auto simp: job_at_def job_identity_def j_def)
    have "\<not> (job_owner (dq_jobs (ds_queue s1) ! k) = owner \<and> job_request_key (dq_jobs (ds_queue s1) ! k) = key)" if "k < ?n" for k
      using at [of k] that len None by (auto simp: job_at_def job_identity_def job_for_def find_None_iff nth_append)
    with key len have "job_for (ds_queue s1) owner key = Some (dq_jobs (ds_queue s1) ! ?n)"
      by (auto simp: job_for_def find_Some_iff intro!: exI [of _ ?n])
    with o k v inv that show thesis by blast
  qed
qed

text \<open>
  Submitting is idempotent: once a submission was answered with a session, every later
  submission by the same owner under the same request key, while the process lives, is
  answered with the same session (its identifier and its token) and changes nothing.
\<close>

theorem desktop_submit_once:
  assumes "desk_inv (s, x)" "dq_epoch (ds_queue s) \<noteq> - 1"
    and first: "desktop_submit clk ids io params s = (Inr v, s1)"
    and run: "(\<lambda>a b. \<exists>ev. desktop_step ev a b \<and> ev \<noteq> DesktopCrash)\<^sup>*\<^sup>* (s1, x) (s2, x2)"
  shows "\<exists>v'. desktop_submit clk' ids' io' params s2 = (Inr v', s2) \<and>
    get_str v' ''id'' = get_str v ''id'' \<and> get_str v' ''token'' = get_str v ''token''"
proof -
  obtain owner key j where j: "desktop_field params ''owner'' = Inr owner" "desktop_field params ''requestKey'' = Inr key"
      "job_for (ds_queue s1) owner key = Some j" "v = job_json j" "desk_inv (s1, x)"
    using submit_answer [OF first assms(2,1)] by blast
  from job_for_run [OF j(5,3) run] obtain j' where j': "job_for (ds_queue s2) owner key = Some j'" "job_history j j'" by blast
  then have "desktop_submit clk' ids' io' params s2 = (Inr (job_json j'), s2)"
    using j(1,2) by (simp add: desktop_submit_def job_for_def Let_def)
  with j(4) j'(2) show ?thesis
    by (auto simp: job_history_def job_identity_def job_json_def get_str_def bt_get_def)
qed

theorem desktop_submit_once_witness:
  "\<exists>v v' s1. desktop_submit (\<lambda>_. 10) (\<lambda>n. if n = 0 then ''id1'' else ''tok1'') (\<lambda>_. None) (demo_submit ''k1'') (fresh_desktop ''f'') = (Inr v, s1) \<and>
     desktop_submit (\<lambda>_. 12) (\<lambda>_. ''other'') (\<lambda>_. None) (demo_submit ''k1'') s1 = (Inr v', s1) \<and>
     get_str v' ''token'' = get_str v ''token''"
proof -
  obtain v s1 where v: "desktop_submit (\<lambda>_. 10) (\<lambda>n. if n = 0 then ''id1'' else ''tok1'') (\<lambda>_. None) (demo_submit ''k1'') (fresh_desktop ''f'') = (Inr v, s1)"
    by (simp add: desktop_eval)
  have e: "dq_epoch (ds_queue (fresh_desktop ''f'')) \<noteq> - 1" by (simp add: fresh_desktop_def desktop_queue_default_def)
  from desktop_submit_once [OF desk_inv_fresh e v rtranclp.rtrancl_refl] v show ?thesis by blast
qed

text \<open>A lower bound on the number of jobs, in memory and in the file, is never lost.\<close>

definition at_least :: "nat \<Rightarrow> desktop_store \<Rightarrow> bool" where
  "at_least n s = (n \<le> length (dq_jobs (ds_queue s)) \<and> ds_disk s \<noteq> None \<and> disk_ok (\<lambda>d. n \<le> length (dq_jobs d)) s)"

lemma moves_at_least: "moves s s' \<Longrightarrow> at_least n s \<Longrightarrow> at_least n s'"
  using queue_step_flags by (force simp: moves_def at_least_def disk_ok_def)

lemma save_at_least: "at_least n s \<Longrightarrow> at_least n (snd (desktop_save io s))"
  by (rule moves_at_least [OF moves_save])

lemma at_least_queue: "at_least n s \<Longrightarrow> length (dq_jobs q) = length (dq_jobs (ds_queue s)) \<Longrightarrow> at_least n (s\<lparr>ds_queue := q\<rparr>)"
  by (simp add: at_least_def disk_ok_def)

lemma desktop_step_at_least: "desktop_step ev a b \<Longrightarrow> at_least n (fst a) \<Longrightarrow> at_least n (fst b)"
proof (induction rule: desktop_step.induct)
  case (desk_command s action params x clk ids io)
  show ?case
  proof (cases "action = ''desktop.recover''")
    case True
    then have c: "snd (desktop_command clk ids io action params s) = snd (desktop_recover clk io params s)"
      by (simp add: desktop_command_def)
    from desk_command.hyps show ?thesis
      by (rule recover_moves [of s clk io params])
        (use desk_command.prems c moves_at_least at_least_queue [of n s "unblocked (ds_queue s)"] in auto)
  next
    case False
    from moves_at_least [OF moves_command [OF desk_command.hyps False]] desk_command.prems show ?thesis by simp
  qed
next
  case (desk_reconcile s clk io close)
  from moves_at_least [OF moves_reconcile [OF desk_reconcile.hyps]] desk_reconcile.prems show ?case by simp
next
  case (desk_begin now io' action params s p s')
  from desktop_begin_shape [OF desk_begin.hyps] desk_begin.prems show ?case
    by (auto simp: save_at_least at_least_queue)
next
  case (desk_refused now io' action params s e s')
  from desktop_begin_shape [OF desk_refused.hyps] desk_refused.prems show ?case
    by (auto simp: save_at_least at_least_queue)
next
  case (desk_end s io' uncertain)
  then show ?case by (simp add: desktop_end_def save_at_least at_least_queue)
next
  case (desk_crash s path io' s' x)
  then show ?case
    by (auto simp: at_least_def disk_ok_def desktop_open_def desktop_save_def Let_def split: option.splits if_splits)
qed

lemma at_least_run: "(\<lambda>a b. \<exists>ev. desktop_step ev a b)\<^sup>*\<^sup>* a b \<Longrightarrow> at_least n (fst a) \<Longrightarrow> at_least n (fst b)"
  by (induction rule: rtranclp_induct) (auto dest: desktop_step_at_least)

text \<open>
  A full queue stays full: nothing the Executor offers archives or removes sessions, so
  once ten thousand jobs were ever recorded, every submission under a new key is refused
  through every further run, restarts included.
\<close>

theorem desktop_queue_full_forever:
  assumes "at_least 10000 s"
    and "(\<lambda>a b. \<exists>ev. desktop_step ev a b)\<^sup>*\<^sup>* (s, x) (s', x')"
    and "desktop_field params ''owner'' = Inr owner" "desktop_field params ''requestKey'' = Inr key"
    and "job_for (ds_queue s') owner key = None"
  shows "desktop_submit clk ids io params s' =
    (Inl (rpc_err ''DESKTOP_QUEUE_FULL'' ''archive completed sessions before submitting more''), s')"
proof -
  have "10000 \<le> length (dq_jobs (ds_queue s'))" using at_least_run [OF assms(2)] assms(1) by (simp add: at_least_def)
  with assms(3-5) show ?thesis by (simp add: desktop_submit_def job_for_def Let_def)
qed

definition demo_full :: desktop_store where
  "demo_full = (let q = desktop_queue_default\<lparr>dq_jobs := replicate 10000 (dq_jobs (ds_queue demo_desktop1) ! 0)\<rparr>
     in \<lparr>ds_queue = q\<lparr>dq_path := Some ''f''\<rparr>, ds_disk = Some q\<rparr>)"

theorem desktop_queue_full_forever_witness:
  "desktop_submit (\<lambda>_. 1) (\<lambda>_. ''i'') (\<lambda>_. None) (demo_submit ''new'') demo_full =
    (Inl (rpc_err ''DESKTOP_QUEUE_FULL'' ''archive completed sessions before submitting more''), demo_full)"
proof -
  have "at_least 10000 demo_full" by (simp add: demo_full_def at_least_def disk_ok_def Let_def)
  moreover have "desktop_field (demo_submit ''new'') ''owner'' = Inr ''ann''" "desktop_field (demo_submit ''new'') ''requestKey'' = Inr ''new''"
    by (simp_all add: demo_submit_def desktop_field_def jindex_def bt_get_def)
  moreover have "job_for (ds_queue demo_full) ''ann'' ''new'' = None"
    by (simp add: demo_full_def Let_def job_for_def find_None_iff demo_desktop1_jobs)
  ultimately show ?thesis by (intro desktop_queue_full_forever [OF _ rtranclp.rtrancl_refl])
qed

end
