(* ===== verification/Lease_Table.thy ===== *)
theory Lease_Table
  imports Protocol
begin

section \<open>The lease table\<close>

text \<open>
  \<^verbatim>\<open>crates/workbench-core/src/lease.rs\<close>: the leases by resource and the fencing counter of
  every resource that ever had one. Every operation of the table is here, each with the clock
  readings it takes in order and, where it mints a lease or a token, the random identifiers.
  The hexadecimal SHA-256 of a byte string is the parameter \<open>sha\<close>. The counter is a 64-bit
  word and \<open>+ 1\<close> wraps, as the release build does.

  Shown: the well-formedness invariant and that every operation keeps it; the exact result of
  every operation; that fencing numbers grow along every run of the table, also across a
  restart; that a handoff revokes the previous holder; that what is persisted never holds a
  bearer token, and that the restored table accepts exactly the tokens the old one did; and that
  the table refines an abstract specification, a counted lock per resource.
\<close>

datatype lease_error =
    LeaseActive string u64
  | LeaseNotFound
  | LeaseOwnedByOther
  | LeaseInvalidHandoff

fun lease_error_text :: "lease_error \<Rightarrow> string" where
  "lease_error_text (LeaseActive owner expires_at) =
     ''resource is leased by '' @ owner @ '' until '' @ dec (unat expires_at)"
| "lease_error_text LeaseNotFound = ''lease not found''"
| "lease_error_text LeaseOwnedByOther = ''lease is owned by another writer''"
| "lease_error_text LeaseInvalidHandoff = ''handoff target does not match''"

record lease_table =
  lt_leases :: "(string, lease) btree_map"
  lt_fences :: "(string, u64) btree_map"

definition lease_table_default :: lease_table where
  "lease_table_default = \<lparr>lt_leases = [], lt_fences = []\<rparr>"

definition token_digest :: "(string \<Rightarrow> string) \<Rightarrow> string \<Rightarrow> string" where
  "token_digest sha token = ''sha256:'' @ sha token"

definition token_matches :: "(string \<Rightarrow> string) \<Rightarrow> string \<Rightarrow> string \<Rightarrow> bool" where
  "token_matches sha stored presented =
     (if starts_with ''sha256:'' stored then token_digest sha presented = stored
      else stored = presented)"

text \<open>One round of the loop of \<^verbatim>\<open>from_snapshot\<close>, then the loop.\<close>

definition load_lease :: "lease \<Rightarrow> lease_table \<Rightarrow> lease_table" where
  "load_lease l t =
     (let fence = unwrap_or 0 (bt_get (lt_fences t) (lease_resource l)) in
      \<lparr>lt_leases = bt_insert (lease_resource l) l (lt_leases t),
       lt_fences = bt_insert (lease_resource l) (max fence (lease_fence l)) (lt_fences t)\<rparr>)"

definition from_snapshot :: "lease list \<Rightarrow> (string, u64) btree_map \<Rightarrow> lease_table" where
  "from_snapshot leases fences = fold load_lease leases \<lparr>lt_leases = [], lt_fences = fences\<rparr>"

definition from_leases :: "lease list \<Rightarrow> lease_table" where
  "from_leases leases = from_snapshot leases []"

definition acquire ::
  "u64 \<Rightarrow> string \<Rightarrow> string \<Rightarrow> lease_kind \<Rightarrow> string \<Rightarrow> string \<Rightarrow> u64 \<Rightarrow> lease_table
    \<Rightarrow> (lease_error + lease) \<times> lease_table" where
  "acquire now uuid1 uuid2 kind resource owner ttl_ms t =
     (let fence = unwrap_or 0 (bt_get (lt_fences t) resource) + 1;
          l = \<lparr>lease_id = ''lease_'' @ uuid1, lease_kind = kind, lease_resource = resource,
               lease_owner = owner, lease_token = ''token_'' @ uuid2, lease_fence = fence,
               lease_acquired_at = now, lease_updated_at = now,
               lease_expires_at = sat_add now ttl_ms, lease_handoff_to = None\<rparr>;
          grant = (Inr l, \<lparr>lt_leases = bt_insert resource l (lt_leases t),
                           lt_fences = bt_insert resource fence (lt_fences t)\<rparr>)
      in case bt_get (lt_leases t) resource of
           Some existing \<Rightarrow>
             if now < lease_expires_at existing
             then (Inl (LeaseActive (lease_owner existing) (lease_expires_at existing)), t)
             else grant
         | None \<Rightarrow> grant)"

definition lease_get :: "lease_table \<Rightarrow> string \<Rightarrow> lease option" where
  "lease_get t resource = bt_get (lt_leases t) resource"

definition validate ::
  "(string \<Rightarrow> string) \<Rightarrow> u64 \<Rightarrow> lease_table \<Rightarrow> string \<Rightarrow> string \<Rightarrow> string \<Rightarrow> lease_error + lease" where
  "validate sha now t resource owner token =
     (case bt_get (lt_leases t) resource of
        None \<Rightarrow> Inl LeaseNotFound
      | Some l \<Rightarrow>
          if lease_expires_at l \<le> now then Inl LeaseNotFound
          else if lease_owner l \<noteq> owner \<or> \<not> token_matches sha (lease_token l) token
          then Inl LeaseOwnedByOther
          else Inr l)"

definition put_lease :: "string \<Rightarrow> lease \<Rightarrow> lease_table \<Rightarrow> lease_table" where
  "put_lease resource l t = t\<lparr>lt_leases := bt_insert resource l (lt_leases t)\<rparr>"

definition renew ::
  "(string \<Rightarrow> string) \<Rightarrow> clock \<Rightarrow> string \<Rightarrow> string \<Rightarrow> string \<Rightarrow> u64 \<Rightarrow> lease_table
    \<Rightarrow> (lease_error + lease) \<times> lease_table" where
  "renew sha clk resource owner token ttl_ms t =
     (case validate sha (clk 0) t resource owner token of
        Inl e \<Rightarrow> (Inl e, t)
      | Inr l \<Rightarrow>
          let now = clk 1;
              l' = l\<lparr>lease_updated_at := now, lease_expires_at := sat_add now ttl_ms\<rparr>
          in (Inr (l'\<lparr>lease_token := token\<rparr>), put_lease resource l' t))"

definition handoff_lease ::
  "(string \<Rightarrow> string) \<Rightarrow> clock \<Rightarrow> string \<Rightarrow> string \<Rightarrow> string \<Rightarrow> string \<Rightarrow> lease_table
    \<Rightarrow> (lease_error + lease) \<times> lease_table" where
  "handoff_lease sha clk resource owner token target t =
     (case validate sha (clk 0) t resource owner token of
        Inl e \<Rightarrow> (Inl e, t)
      | Inr l \<Rightarrow>
          let l' = l\<lparr>lease_handoff_to := Some target, lease_updated_at := clk 1\<rparr>
          in (Inr (l'\<lparr>lease_token := token\<rparr>), put_lease resource l' t))"

definition request_handoff ::
  "clock \<Rightarrow> string \<Rightarrow> string \<Rightarrow> lease_table \<Rightarrow> (lease_error + lease) \<times> lease_table" where
  "request_handoff clk resource target t =
     (case bt_get (lt_leases t) resource of
        None \<Rightarrow> (Inl LeaseNotFound, t)
      | Some l \<Rightarrow>
          if lease_expires_at l \<le> clk 0 then (Inl LeaseNotFound, t)
          else let l' = l\<lparr>lease_handoff_to := Some target, lease_updated_at := clk 1\<rparr>
               in (Inr (l'\<lparr>lease_token := []\<rparr>), put_lease resource l' t))"

definition cancel_handoff ::
  "u64 \<Rightarrow> string \<Rightarrow> string \<Rightarrow> lease_table \<Rightarrow> (lease_error + lease) \<times> lease_table" where
  "cancel_handoff now resource target t =
     (case bt_get (lt_leases t) resource of
        None \<Rightarrow> (Inl LeaseNotFound, t)
      | Some l \<Rightarrow>
          if lease_handoff_to l \<noteq> Some target then (Inl LeaseInvalidHandoff, t)
          else let l' = l\<lparr>lease_handoff_to := None, lease_updated_at := now\<rparr>
               in (Inr (l'\<lparr>lease_token := []\<rparr>), put_lease resource l' t))"

definition take_handoff ::
  "u64 \<Rightarrow> string \<Rightarrow> string \<Rightarrow> string \<Rightarrow> u64 \<Rightarrow> lease_table \<Rightarrow> (lease_error + lease) \<times> lease_table" where
  "take_handoff now uuid resource target ttl_ms t =
     (case bt_get (lt_leases t) resource of
        None \<Rightarrow> (Inl LeaseNotFound, t)
      | Some l \<Rightarrow>
          if lease_handoff_to l \<noteq> Some target then (Inl LeaseInvalidHandoff, t)
          else let fence = unwrap_or (lease_fence l) (bt_get (lt_fences t) resource) + 1;
                   l' = l\<lparr>lease_owner := target, lease_token := ''token_'' @ uuid,
                          lease_fence := fence, lease_acquired_at := now,
                          lease_updated_at := now, lease_expires_at := sat_add now ttl_ms,
                          lease_handoff_to := None\<rparr>
               in (Inr l', \<lparr>lt_leases = bt_insert resource l' (lt_leases t),
                            lt_fences = bt_insert resource fence (lt_fences t)\<rparr>))"

definition release ::
  "(string \<Rightarrow> string) \<Rightarrow> u64 \<Rightarrow> string \<Rightarrow> string \<Rightarrow> string \<Rightarrow> lease_table
    \<Rightarrow> (lease_error + lease) \<times> lease_table" where
  "release sha now resource owner token t =
     (case validate sha now t resource owner token of
        Inl e \<Rightarrow> (Inl e, t)
      | Inr _ \<Rightarrow> (ok_or LeaseNotFound (bt_get (lt_leases t) resource),
                  t\<lparr>lt_leases := bt_remove resource (lt_leases t)\<rparr>))"

definition lease_snapshot :: "lease_table \<Rightarrow> lease list" where
  "lease_snapshot t = bt_values (lt_leases t)"

definition hide_token :: "(string \<Rightarrow> string) \<Rightarrow> lease \<Rightarrow> lease" where
  "hide_token sha l =
     (if starts_with ''sha256:'' (lease_token l) then l
      else l\<lparr>lease_token := token_digest sha (lease_token l)\<rparr>)"

definition lease_persistence_snapshot :: "(string \<Rightarrow> string) \<Rightarrow> lease_table \<Rightarrow> lease list" where
  "lease_persistence_snapshot sha t = map (hide_token sha) (bt_values (lt_leases t))"

definition fence_snapshot :: "lease_table \<Rightarrow> (string, u64) btree_map" where
  "fence_snapshot t = lt_fences t"

definition reap_expired :: "u64 \<Rightarrow> lease_table \<Rightarrow> lease list \<times> lease_table" where
  "reap_expired now t =
     (let resources = map lease_resource
            (filter (\<lambda>l. lease_expires_at l \<le> now) (bt_values (lt_leases t)));
          (kept, removed) = bt_take_all resources (lt_leases t)
      in (removed, t\<lparr>lt_leases := kept\<rparr>))"


subsection \<open>Well-formedness\<close>

text \<open>
  The maps are in key order, a lease is filed under its own resource, and its fencing number
  is at most the resource's counter.
\<close>

definition lease_ok :: "(string, u64) btree_map \<Rightarrow> string \<times> lease \<Rightarrow> bool" where
  "lease_ok fences e =
     (lease_resource (snd e) = fst e \<and>
      (case bt_get fences (fst e) of None \<Rightarrow> False | Some f \<Rightarrow> lease_fence (snd e) \<le> f))"

definition lt_wf :: "lease_table \<Rightarrow> bool" where
  "lt_wf t = (bt_wf (lt_leases t) \<and> bt_wf (lt_fences t) \<and>
              list_all (lease_ok (lt_fences t)) (lt_leases t))"

definition fence_of :: "lease_table \<Rightarrow> string \<Rightarrow> u64" where
  "fence_of t r = unwrap_or 0 (bt_get (lt_fences t) r)"

lemma lease_ok_iff:
  "lease_ok fs (r, l) \<longleftrightarrow> lease_resource l = r \<and> (\<exists>f. bt_get fs r = Some f \<and> lease_fence l \<le> f)"
  by (auto simp: lease_ok_def split: option.splits)

lemma lt_wf_iff:
  "lt_wf t \<longleftrightarrow> bt_wf (lt_leases t) \<and> bt_wf (lt_fences t) \<and>
     (\<forall>r l. bt_get (lt_leases t) r = Some l \<longrightarrow>
        lease_resource l = r \<and> (\<exists>f. bt_get (lt_fences t) r = Some f \<and> lease_fence l \<le> f))"
  by (force simp: lt_wf_def list_all_iff lease_ok_iff simp flip: bt_entry_iff)

lemma lt_wfD:
  assumes "lt_wf t"
  shows "bt_wf (lt_leases t)" "bt_wf (lt_fences t)"
    and "bt_get (lt_leases t) r = Some l \<Longrightarrow> lease_resource l = r"
    and "bt_get (lt_leases t) r = Some l \<Longrightarrow> \<exists>f. bt_get (lt_fences t) r = Some f \<and> lease_fence l \<le> f"
  using assms by (auto simp: lt_wf_iff)

lemma lt_wf_fence: "lt_wf t \<Longrightarrow> lease_get t r = Some l \<Longrightarrow> lease_fence l \<le> fence_of t r"
  by (force simp: lease_get_def fence_of_def dest: lt_wfD(4))

lemma lt_wf_default [wf_intros]: "lt_wf lease_table_default"
  by (simp add: lt_wf_def lease_table_default_def)

text \<open>Two shapes of update cover every operation: refiling a lease, and granting one.\<close>

lemma lt_wf_put:
  assumes "lt_wf t" "bt_get (lt_leases t) r = Some l"
    and "lease_resource l' = lease_resource l" "lease_fence l' = lease_fence l"
  shows "lt_wf (put_lease r l' t)"
  using assms by (auto simp: lt_wf_iff put_lease_def bt_simps)

lemma lt_wf_grant:
  assumes "lt_wf t" "lease_resource l = r" "lease_fence l = f"
  shows "lt_wf \<lparr>lt_leases = bt_insert r l (lt_leases t), lt_fences = bt_insert r f (lt_fences t)\<rparr>"
  using assms by (auto simp: lt_wf_iff bt_simps)

lemma lt_wf_acquire [wf_intros]: "lt_wf t \<Longrightarrow> lt_wf (snd (acquire now u1 u2 kind r ow ttl t))"
  by (auto simp: acquire_def Let_def intro: lt_wf_grant split: option.splits)

lemma validate_Inr:
  "validate sha now t r ow tok = Inr l \<longleftrightarrow>
     bt_get (lt_leases t) r = Some l \<and> now < lease_expires_at l \<and> lease_owner l = ow \<and>
     token_matches sha (lease_token l) tok"
  by (auto simp: validate_def not_le split: option.splits)

lemma lt_wf_renew [wf_intros]: "lt_wf t \<Longrightarrow> lt_wf (snd (renew sha clk r ow tok ttl t))"
  by (auto simp: renew_def Let_def validate_Inr intro: lt_wf_put split: sum.splits)

lemma lt_wf_handoff_lease [wf_intros]:
  "lt_wf t \<Longrightarrow> lt_wf (snd (handoff_lease sha clk r ow tok target t))"
  by (auto simp: handoff_lease_def Let_def validate_Inr intro: lt_wf_put split: sum.splits)

lemma lt_wf_request_handoff [wf_intros]:
  "lt_wf t \<Longrightarrow> lt_wf (snd (request_handoff clk r target t))"
  by (auto simp: request_handoff_def Let_def intro: lt_wf_put split: option.splits)

lemma lt_wf_cancel_handoff [wf_intros]:
  "lt_wf t \<Longrightarrow> lt_wf (snd (cancel_handoff now r target t))"
  by (auto simp: cancel_handoff_def Let_def intro: lt_wf_put split: option.splits)

lemma lt_wf_take_handoff [wf_intros]:
  "lt_wf t \<Longrightarrow> lt_wf (snd (take_handoff now u r target ttl t))"
  by (auto simp: take_handoff_def Let_def lt_wfD(3) intro!: lt_wf_grant split: option.splits)

lemma lt_wf_release [wf_intros]: "lt_wf t \<Longrightarrow> lt_wf (snd (release sha now r ow tok t))"
  by (auto simp: release_def lt_wf_iff bt_simps split: sum.splits)

lemma lt_wf_reap_expired [wf_intros]: "lt_wf t \<Longrightarrow> lt_wf (snd (reap_expired now t))"
  by (auto simp: reap_expired_def Let_def case_prod_beta lt_wf_iff bt.invar_unload bt.get_unload)

subsection \<open>Restoring a table\<close>

definition maps_wf :: "lease_table \<Rightarrow> bool" where
  "maps_wf t = (bt_wf (lt_leases t) \<and> bt_wf (lt_fences t))"

lemma maps_wf_load: "maps_wf t \<Longrightarrow> maps_wf (load_lease l t)"
  by (simp add: maps_wf_def load_lease_def Let_def bt_wf_insert)

lemma maps_wf_load_all: "maps_wf t \<Longrightarrow> maps_wf (fold load_lease ls t)"
  by (induction ls arbitrary: t) (simp_all add: maps_wf_load)

lemma lt_leases_load_all:
  "lt_leases (fold load_lease ls t) = fold (\<lambda>l. bt_insert (lease_resource l) l) ls (lt_leases t)"
  by (induction ls arbitrary: t) (simp_all add: load_lease_def Let_def)

lemma fence_load:
  "maps_wf t \<Longrightarrow> bt_get (lt_fences (load_lease l t)) r =
     (if r = lease_resource l then Some (max (fence_of t r) (lease_fence l))
      else bt_get (lt_fences t) r)"
  by (simp add: maps_wf_def load_lease_def Let_def bt_simps fence_of_def)

lemma fence_load_all:
  "maps_wf t \<Longrightarrow> bt_get (lt_fences t) r = Some f \<Longrightarrow>
     \<exists>f'. bt_get (lt_fences (fold load_lease ls t)) r = Some f' \<and> f \<le> f'"
proof (induction ls arbitrary: t f)
  case Nil
  then show ?case by simp
next
  case (Cons l ls)
  obtain g where g: "bt_get (lt_fences (load_lease l t)) r = Some g" "f \<le> g"
    using Cons.prems that by (cases "r = lease_resource l") (auto simp: fence_load fence_of_def)
  with Cons.IH [OF maps_wf_load [OF Cons.prems(1)]] show ?case by fastforce
qed

lemma fence_load_in:
  "maps_wf t \<Longrightarrow> l \<in> set ls \<Longrightarrow>
     \<exists>f. bt_get (lt_fences (fold load_lease ls t)) (lease_resource l) = Some f \<and> lease_fence l \<le> f"
proof (induction ls arbitrary: t)
  case Nil
  then show ?case by simp
next
  case (Cons a ls)
  show ?case
  proof (cases "l \<in> set ls")
    case True
    with Cons maps_wf_load show ?thesis by simp
  next
    case False
    with Cons.prems have "l = a" by simp
    with Cons.prems(1) have "bt_get (lt_fences (load_lease a t)) (lease_resource l) =
        Some (max (fence_of t (lease_resource l)) (lease_fence l))"
      by (simp add: fence_load)
    from fence_load_all [OF maps_wf_load [OF Cons.prems(1)] this, of ls] show ?thesis
      by auto
  qed
qed

lemma fence_of_load_all: "maps_wf t \<Longrightarrow> fence_of t r \<le> fence_of (fold load_lease ls t) r"
proof (cases "bt_get (lt_fences t) r")
  case (Some f)
  assume "maps_wf t"
  from fence_load_all [OF this Some, of ls] Some show ?thesis by (auto simp: fence_of_def)
qed (simp add: fence_of_def)

lemma maps_wf_start: "bt_wf fences \<Longrightarrow> maps_wf \<lparr>lt_leases = [], lt_fences = fences\<rparr>"
  by (simp add: maps_wf_def)

lemma from_snapshot_get:
  assumes "bt_wf fences"
  shows "lease_get (from_snapshot ls fences) r = find (\<lambda>l. lease_resource l = r) (rev ls)"
  using bt.get_load [OF bt_wf_Nil, where f = lease_resource and g = "\<lambda>l. l" and xs = ls and k = r]
  by (simp add: from_snapshot_def lease_get_def lt_leases_load_all bt_get_def split: option.splits)

lemma lt_wf_from_snapshot [wf_intros]:
  assumes "bt_wf fences"
  shows "lt_wf (from_snapshot ls fences)"
proof -
  let ?t = "from_snapshot ls fences"
  have wf: "maps_wf ?t"
    using assms by (simp add: from_snapshot_def maps_wf_load_all maps_wf_start)
  have "lease_resource l = r \<and> (\<exists>f. bt_get (lt_fences ?t) r = Some f \<and> lease_fence l \<le> f)"
    if "bt_get (lt_leases ?t) r = Some l" for r l
  proof -
    from that from_snapshot_get [OF assms] have "find (\<lambda>l. lease_resource l = r) (rev ls) = Some l"
      by (simp add: lease_get_def)
    then have "lease_resource l = r" "l \<in> set ls"
      by (auto simp: find_Some_iff) (metis length_rev nth_mem set_rev)
    with fence_load_in [OF maps_wf_start [OF assms]] show ?thesis
      by (auto simp: from_snapshot_def)
  qed
  with wf show ?thesis by (auto simp: lt_wf_iff maps_wf_def)
qed

text \<open>
  The persisted leases carry the same resources in the same order, so the restored table
  finds, for every resource, the lease the old one had with its token hidden.
\<close>

lemma hide_token_fields [simp]:
  "lease_resource (hide_token sha l) = lease_resource l"
  "lease_owner (hide_token sha l) = lease_owner l"
  "lease_fence (hide_token sha l) = lease_fence l"
  "lease_expires_at (hide_token sha l) = lease_expires_at l"
  "lease_handoff_to (hide_token sha l) = lease_handoff_to l"
  by (simp_all add: hide_token_def)

lemma hide_token_digest: "starts_with ''sha256:'' (lease_token (hide_token sha l))"
  by (simp add: hide_token_def token_digest_def)

definition restart_table :: "(string \<Rightarrow> string) \<Rightarrow> lease_table \<Rightarrow> lease_table" where
  "restart_table sha t = from_snapshot (lease_persistence_snapshot sha t) (fence_snapshot t)"

lemma restart_get:
  assumes "lt_wf t"
  shows "lease_get (restart_table sha t) r = map_option (hide_token sha) (lease_get t r)"
proof -
  let ?ls = "lease_persistence_snapshot sha t"
  have keys: "map lease_resource ?ls = map fst (lt_leases t)"
    using assms
    by (auto simp: lease_persistence_snapshot_def bt_values_def lt_wf_def lease_ok_def list_all_iff)
  then have dist: "distinct (map lease_resource (rev ?ls))"
    using assms bt_wf_distinct [of "lt_leases t"] by (simp add: lt_wf_def flip: rev_map)
  have get: "lease_get (restart_table sha t) r = find (\<lambda>l. lease_resource l = r) (rev ?ls)"
    using assms by (simp add: restart_table_def from_snapshot_get fence_snapshot_def lt_wf_def)
  show ?thesis
  proof (cases "bt_get (lt_leases t) r")
    case None
    then have "r \<notin> fst ` set (lt_leases t)" by (simp add: bt_get_def map_of_eq_None_iff)
    then have "\<not> (\<exists>l \<in> set ?ls. lease_resource l = r)"
      using arg_cong [OF keys, of set] by force
    with get None show ?thesis
      by (simp add: lease_get_def find_None_iff)
  next
    case (Some l)
    with assms have "(r, l) \<in> set (lt_leases t)" by (simp add: bt_entry_iff lt_wf_def)
    then have "hide_token sha l \<in> set (rev ?ls)"
      by (force simp: lease_persistence_snapshot_def bt_values_def)
    with Some assms get find_distinct_key [OF dist] show ?thesis
      by (auto simp: lease_get_def lt_wfD(3))
  qed
qed

lemma lt_wf_restart [wf_intros]: "lt_wf t \<Longrightarrow> lt_wf (restart_table sha t)"
  by (simp add: restart_table_def fence_snapshot_def lt_wf_from_snapshot lt_wfD(2))

lemma fence_of_restart: "lt_wf t \<Longrightarrow> fence_of t r \<le> fence_of (restart_table sha t) r"
  using fence_of_load_all [OF maps_wf_start, of "lt_fences t" r]
  by (simp add: restart_table_def from_snapshot_def fence_snapshot_def lt_wf_def fence_of_def)

subsection \<open>Runs of the table\<close>

text \<open>
  One step is any operation with any arguments, clock readings and identifiers, or a restart
  that loads what was persisted. The steps that grant a lease are those whose counter is not
  at its last value, where the increment would wrap (or panic in a checked build).
\<close>

inductive lease_step :: "(string \<Rightarrow> string) \<Rightarrow> lease_table \<Rightarrow> lease_table \<Rightarrow> bool" for sha where
  step_acquire: "fence_of t r \<noteq> - 1 \<Longrightarrow> lease_step sha t (snd (acquire now u1 u2 kind r ow ttl t))"
| step_renew: "lease_step sha t (snd (renew sha clk r ow tok ttl t))"
| step_handoff: "lease_step sha t (snd (handoff_lease sha clk r ow tok target t))"
| step_request: "lease_step sha t (snd (request_handoff clk r target t))"
| step_cancel: "lease_step sha t (snd (cancel_handoff now r target t))"
| step_take: "fence_of t r \<noteq> - 1 \<Longrightarrow> lease_step sha t (snd (take_handoff now u r target ttl t))"
| step_release: "lease_step sha t (snd (release sha now r ow tok t))"
| step_reap: "lease_step sha t (snd (reap_expired now t))"
| step_restart: "lease_step sha t (restart_table sha t)"

lemma lease_step_wf: "lease_step sha t t' \<Longrightarrow> lt_wf t \<Longrightarrow> lt_wf t'"
  by (induction rule: lease_step.induct) (auto intro: wf_intros)

lemma fence_of_grant:
  "bt_wf (lt_fences t) \<Longrightarrow>
     fence_of \<lparr>lt_leases = ls, lt_fences = bt_insert r f (lt_fences t)\<rparr> r' =
     (if r' = r then f else fence_of t r')"
  by (simp add: fence_of_def bt_simps)

lemma fence_of_same:
  "fence_of (put_lease r l t) = fence_of t" "fence_of (t\<lparr>lt_leases := m\<rparr>) = fence_of t"
  by (simp_all add: fence_of_def put_lease_def fun_eq_iff)

lemma fence_of_acquire:
  assumes "lt_wf t" "fence_of t r \<noteq> - 1"
  shows "fence_of t r' \<le> fence_of (snd (acquire now u1 u2 kind r ow ttl t)) r'"
  using assms u64_less_succ [of "fence_of t r"]
  by (auto simp: acquire_def Let_def fence_of_grant lt_wfD(2) less_imp_le simp flip: fence_of_def
      split: option.splits)

lemma take_fence:
  "lt_wf t \<Longrightarrow> bt_get (lt_leases t) r = Some l \<Longrightarrow>
     unwrap_or (lease_fence l) (bt_get (lt_fences t) r) = fence_of t r"
  by (force simp: fence_of_def dest: lt_wfD(4))

lemma fence_of_take:
  assumes "lt_wf t" "fence_of t r \<noteq> - 1"
  shows "fence_of t r' \<le> fence_of (snd (take_handoff now u r target ttl t)) r'"
  using assms u64_less_succ [of "fence_of t r"]
  by (auto simp: take_handoff_def Let_def fence_of_grant lt_wfD(2) take_fence less_imp_le
      split: option.splits)

lemma lease_step_fence: "lease_step sha t t' \<Longrightarrow> lt_wf t \<Longrightarrow> fence_of t r \<le> fence_of t' r"
proof (induction rule: lease_step.induct)
  case (step_restart t)
  then show ?case by (rule fence_of_restart)
qed (simp_all add: fence_of_acquire fence_of_take renew_def handoff_lease_def request_handoff_def
      cancel_handoff_def release_def reap_expired_def Let_def fence_of_same case_prod_beta
      split: sum.split option.split)

text \<open>
  The contract other components have with a store of fenced leases: an invariant that every
  step keeps, a counter per resource that no step decreases, and leases never ahead of their
  counter. What follows from it holds along whole runs.
\<close>

locale fenced_store =
  fixes inv :: "'s \<Rightarrow> bool"
    and get :: "'s \<Rightarrow> string \<Rightarrow> lease option"
    and fence :: "'s \<Rightarrow> string \<Rightarrow> u64"
    and step :: "'s \<Rightarrow> 's \<Rightarrow> bool"
  assumes inv_step: "step s s' \<Longrightarrow> inv s \<Longrightarrow> inv s'"
    and fence_step: "step s s' \<Longrightarrow> inv s \<Longrightarrow> fence s r \<le> fence s' r"
    and get_fence: "inv s \<Longrightarrow> get s r = Some l \<Longrightarrow> lease_fence l \<le> fence s r"
begin

lemma inv_steps: "step\<^sup>*\<^sup>* s s' \<Longrightarrow> inv s \<Longrightarrow> inv s'"
  by (induction rule: rtranclp_induct) (auto intro: inv_step)

lemma fence_steps: "step\<^sup>*\<^sup>* s s' \<Longrightarrow> inv s \<Longrightarrow> fence s r \<le> fence s' r"
  by (induction rule: rtranclp_induct) (auto intro: fence_step inv_steps order_trans)

lemma later_grant_newer:
  assumes "inv s" "get s r = Some old" "step\<^sup>*\<^sup>* s s'" "fence s' r \<noteq> - 1"
  shows "lease_fence old < fence s' r + 1"
  using assms get_fence fence_steps u64_le_less_succ order_trans by metis

end

interpretation lt: fenced_store lt_wf lease_get fence_of "lease_step sha" for sha
  by unfold_locales (auto intro: lease_step_wf lease_step_fence lt_wf_fence)

lemma acquire_Inr:
  "fst (acquire now u1 u2 kind r ow ttl t) = Inr l \<Longrightarrow>
     lease_fence l = fence_of t r + 1 \<and> lease_resource l = r \<and> lease_owner l = ow
     \<and> lease_token l = ''token_'' @ u2 \<and> lease_expires_at l = sat_add now ttl"
  by (auto simp: acquire_def Let_def fence_of_def split: option.splits if_splits)

lemma take_handoff_Inr:
  assumes "lt_wf t" "take_handoff now u r target ttl t = (Inr l, t')"
  shows "lease_fence l = fence_of t r + 1" "lease_owner l = target" "lease_token l = ''token_'' @ u"
    and "lease_get t' r = Some l" "lease_expires_at l = sat_add now ttl"
  using assms take_fence [OF assms(1)] lt_wfD(1,2) [OF assms(1)]
  by (auto simp: take_handoff_def Let_def lease_get_def bt_simps split: option.splits if_splits)

subsection \<open>Properties\<close>

text \<open>
  Fencing is sound: once a lease on a resource has been seen, every lease granted on that
  resource at any later point of any run of the table, including across restarts that load
  the persisted snapshot, and whether by acquisition or by taking over a handoff, carries a
  strictly greater fencing number (as long as the 64-bit counter is not exhausted).
\<close>

theorem lease_fencing:
  assumes "lt_wf t0" and "lease_get t0 r = Some old" and "(lease_step sha)\<^sup>*\<^sup>* t0 t1"
    and "fence_of t1 r \<noteq> - 1"
    and "fst (acquire now u1 u2 kind r ow ttl t1) = Inr new \<or>
         fst (take_handoff now u1 r ow ttl t1) = Inr new"
  shows "lease_fence old < lease_fence new"
proof -
  have "lease_fence new = fence_of t1 r + 1"
    using assms(5)
  proof
    assume "fst (acquire now u1 u2 kind r ow ttl t1) = Inr new"
    then show ?thesis by (simp add: acquire_Inr)
  next
    assume "fst (take_handoff now u1 r ow ttl t1) = Inr new"
    then have "take_handoff now u1 r ow ttl t1 = (Inr new, snd (take_handoff now u1 r ow ttl t1))"
      by (metis prod.collapse)
    then show ?thesis using lt.inv_steps [OF assms(3,1)] by (rule take_handoff_Inr(1) [rotated])
  qed
  with lt.later_grant_newer [OF assms(1-4)] show ?thesis by simp
qed

definition demo_table :: lease_table where
  "demo_table = snd (acquire 5 ''a'' ''b'' LeaseDriver ''workspace:w'' ''ann'' 100 lease_table_default)"

definition demo_released :: lease_table where
  "demo_released = snd (release (\<lambda>s. s) 6 ''workspace:w'' ''ann'' ''token_b'' demo_table)"

lemma demo_table_wf: "lt_wf demo_table"
  by (simp add: demo_table_def wf_intros)

lemma demo_released_run: "(lease_step (\<lambda>s. s))\<^sup>*\<^sup>* demo_table demo_released"
  unfolding demo_released_def by (intro r_into_rtranclp lease_step.intros)

lemmas lease_eval = demo_table_def demo_released_def acquire_def release_def validate_def
  renew_def request_handoff_def handoff_lease_def take_handoff_def cancel_handoff_def put_lease_def
  token_matches_def token_digest_def hide_token_def
  lease_table_default_def lease_get_def fence_of_def bt_get_def bt_remove_def sat_add_def Let_def

theorem lease_fencing_witness:
  "lease_fence (the (lease_get demo_table ''workspace:w'')) = 1 \<and>
   (\<exists>new. fst (acquire 7 ''c'' ''d'' LeaseDriver ''workspace:w'' ''bob'' 100 demo_released) = Inr new
      \<and> (1 :: u64) < lease_fence new)"
proof -
  obtain old where old: "lease_get demo_table ''workspace:w'' = Some old" "lease_fence old = 1"
    by (simp add: lease_eval)
  obtain new where new: "fst (acquire 7 ''c'' ''d'' LeaseDriver ''workspace:w'' ''bob'' 100 demo_released) = Inr new"
    by (simp add: lease_eval)
  have f: "fence_of demo_released ''workspace:w'' \<noteq> - 1"
    by (simp add: lease_eval)
  from lease_fencing [OF demo_table_wf old(1) demo_released_run f disjI1 [OF new]] old new
  show ?thesis by auto
qed

lemma token_matches_both:
  "token_matches sha s a \<Longrightarrow> token_matches sha s b \<Longrightarrow> b = a \<or> sha b = sha a"
  unfolding token_matches_def token_digest_def by (metis same_append_eq)

text \<open>
  A lease is exclusive: while some holder's token is accepted for a resource, no
  acquisition of that resource succeeds (it reports the holder and leaves the table
  unchanged), and any other credentials accepted at the same moment name the same owner and,
  when their tokens do not collide under SHA-256, present the same token.
\<close>

theorem lease_mutual_exclusion:
  assumes ok: "validate sha now t r ow tok = Inr l"
  shows "acquire now u1 u2 kind r ow' ttl t = (Inl (LeaseActive ow (lease_expires_at l)), t) \<and>
    (validate sha now t r ow2 tok2 = Inr l2 \<longrightarrow>
       l2 = l \<and> ow2 = ow \<and> (tok2 = tok \<or> sha tok2 = sha tok))"
proof -
  from ok have l: "bt_get (lt_leases t) r = Some l" "now < lease_expires_at l" "lease_owner l = ow"
      "token_matches sha (lease_token l) tok"
    by (simp_all add: validate_Inr)
  then show ?thesis
    by (auto simp: acquire_def Let_def validate_Inr dest: token_matches_both)
qed

theorem lease_mutual_exclusion_witness:
  "\<exists>l. validate (\<lambda>s. s) 7 demo_table ''workspace:w'' ''ann'' ''token_b'' = Inr l \<and>
       acquire 7 ''x'' ''y'' LeaseDriver ''workspace:w'' ''bob'' 9 demo_table =
         (Inl (LeaseActive ''ann'' (lease_expires_at l)), demo_table)"
proof -
  obtain l where l: "validate (\<lambda>s. s) 7 demo_table ''workspace:w'' ''ann'' ''token_b'' = Inr l"
    by (simp add: lease_eval)
  from l lease_mutual_exclusion [OF l] show ?thesis by blast
qed

text \<open>
  A handoff moves authority atomically: after the holder's lease was offered (by the
  holder or by a request the Controller authorizes) and the target took it over, the previous
  token is refused, the target's fresh token is accepted, and the fencing number is one
  above the counter.
\<close>

theorem handoff_moves_authority:
  assumes wf: "lt_wf t"
    and held: "validate sha n0 t r ow tok = Inr l"
    and offer: "handoff_lease sha clk r ow tok target t = (Inr l1, t1) \<or>
                request_handoff clk r target t = (Inr l1, t1)"
    and taken: "take_handoff now u r target ttl t1 = (Inr new, t2)"
    and fresh: "''token_'' @ u \<noteq> tok"
    and live: "now' < lease_expires_at new"
  shows "validate sha now' t2 r ow tok = Inl LeaseOwnedByOther \<and>
    validate sha now' t2 r target (''token_'' @ u) = Inr new \<and>
    lease_fence new = fence_of t r + 1"
proof -
  from offer wf have wf1: "lt_wf t1"
    by (metis lt_wf_handoff_lease lt_wf_request_handoff snd_conv)
  from offer have "fence_of t1 = fence_of t"
    by (auto simp: handoff_lease_def request_handoff_def Let_def fence_of_same
        split: sum.splits option.splits if_splits)
  with take_handoff_Inr [OF wf1 taken] fresh live show ?thesis
    by (auto simp: validate_def lease_get_def token_matches_def)
qed

definition demo_offered :: lease_table where
  "demo_offered = snd (request_handoff (\<lambda>_. 6) ''workspace:w'' ''bob'' demo_table)"

theorem handoff_moves_authority_witness:
  "\<exists>new t2. take_handoff 7 ''z'' ''workspace:w'' ''bob'' 50 demo_offered = (Inr new, t2) \<and>
     validate (\<lambda>s. s) 8 t2 ''workspace:w'' ''ann'' ''token_b'' = Inl LeaseOwnedByOther \<and>
     validate (\<lambda>s. s) 8 t2 ''workspace:w'' ''bob'' ''token_z'' = Inr new"
proof -
  obtain l where l: "validate (\<lambda>s. s) 6 demo_table ''workspace:w'' ''ann'' ''token_b'' = Inr l"
    by (simp add: lease_eval)
  obtain l1 where l1: "request_handoff (\<lambda>_. 6) ''workspace:w'' ''bob'' demo_table = (Inr l1, demo_offered)"
    by (simp add: demo_offered_def lease_eval)
  obtain new t2 where new: "take_handoff 7 ''z'' ''workspace:w'' ''bob'' 50 demo_offered = (Inr new, t2)"
      "8 < lease_expires_at new"
    by (simp add: demo_offered_def lease_eval)
  from handoff_moves_authority [OF demo_table_wf l disjI2 [OF l1] new(1) _ new(2)] new(1)
  show ?thesis by auto
qed

text \<open>
  Restarting is transparent to lease holders: the table restored from the persisted
  snapshot, whose tokens are only digests, gives every validation the answer the running
  table gave (the same lease with its token hidden, or the same error), provided the
  presented token does not collide with the stored one under SHA-256.
\<close>

lemma restart_validate:
  assumes wf: "lt_wf t"
    and no_collision: "\<And>l. lease_get t r = Some l \<Longrightarrow> sha tok = sha (lease_token l) \<Longrightarrow>
        tok = lease_token l"
  shows "validate sha now (restart_table sha t) r ow tok =
    map_sum id (hide_token sha) (validate sha now t r ow tok)"
proof (cases "lease_get t r")
  case None
  with restart_get [OF wf, of sha r] show ?thesis
    by (simp add: validate_def lease_get_def)
next
  case (Some l)
  have "token_matches sha (lease_token (hide_token sha l)) tok = token_matches sha (lease_token l) tok"
    using no_collision [OF Some] by (auto simp: token_matches_def hide_token_def token_digest_def)
  with Some restart_get [OF wf, of sha r] show ?thesis
    by (simp add: validate_def lease_get_def)
qed

text \<open>
  What is persisted cannot be replayed: every persisted lease carries a digest instead of
  its token, and presenting that digest as a token to the restored table is refused, provided
  SHA-256 does not map the digest string to the digest itself.
\<close>

theorem persisted_token_not_bearer:
  assumes wf: "lt_wf t"
    and l: "l \<in> set (lease_persistence_snapshot sha t)"
    and no_fixed_point: "\<And>h. ''sha256:'' @ h = lease_token l \<Longrightarrow> sha (''sha256:'' @ h) \<noteq> h"
  shows "starts_with ''sha256:'' (lease_token l) \<and>
    \<not> is_ok (validate sha now (restart_table sha t) (lease_resource l) ow (lease_token l))"
proof -
  from l obtain k where k: "k \<in> set (bt_values (lt_leases t))" "l = hide_token sha k"
    by (auto simp: lease_persistence_snapshot_def)
  then have st: "starts_with ''sha256:'' (lease_token l)" by (simp add: hide_token_digest)
  then obtain h where h: "lease_token l = ''sha256:'' @ h"
    by (auto simp: starts_with_iff)
  from k wf obtain r where "bt_get (lt_leases t) r = Some k" by (auto simp: bt_values_iff lt_wfD(1))
  with wf k have "lease_get (restart_table sha t) (lease_resource l) = Some l"
    using lt_wfD(3) [OF wf] by (simp add: restart_get) (simp add: lease_get_def)
  then show ?thesis
    using st h no_fixed_point [of h]
    by (auto simp: validate_def lease_get_def token_matches_def token_digest_def)
qed

theorem persisted_token_not_bearer_witness:
  "\<exists>l. lease_persistence_snapshot (\<lambda>s. s) demo_table = [l] \<and>
     lease_token l = ''sha256:token_b'' \<and>
     \<not> is_ok (validate (\<lambda>s. s) 7 (restart_table (\<lambda>s. s) demo_table) (lease_resource l) ''ann'' (lease_token l))"
proof -
  obtain l where l: "lease_persistence_snapshot (\<lambda>s. s) demo_table = [l]" "lease_token l = ''sha256:token_b''"
    by (simp add: lease_persistence_snapshot_def bt_values_def lease_eval)
  from l have "l \<in> set (lease_persistence_snapshot (\<lambda>s. s) demo_table)" by simp
  from persisted_token_not_bearer [OF demo_table_wf this] l show ?thesis by auto
qed

lemma reap_get:
  assumes "lt_wf t"
  shows "lease_get (snd (reap_expired now t)) r =
    (case lease_get t r of None \<Rightarrow> None | Some l \<Rightarrow> if lease_expires_at l \<le> now then None else Some l)"
proof -
  have "r \<in> lease_resource ` {l \<in> set (bt_values (lt_leases t)). lease_expires_at l \<le> now} \<longleftrightarrow>
      (\<exists>l. bt_get (lt_leases t) r = Some l \<and> lease_expires_at l \<le> now)"
    using lt_wfD [OF assms] by (force simp: bt_values_iff)
  then show ?thesis
    using lt_wfD(1) [OF assms]
    by (auto simp: reap_expired_def Let_def case_prod_beta lease_get_def bt.get_unload split: option.splits)
qed

text \<open>
  Reaping expired leases is invisible: it removes exactly the leases expired at the
  reading and no counter, and from that reading on no validation and no acquisition answers
  differently.
\<close>

theorem reap_expired_invisible:
  assumes "lt_wf t" and "now \<le> now'"
  shows "validate sha now' (snd (reap_expired now t)) r ow tok = validate sha now' t r ow tok \<and>
    fst (acquire now' u1 u2 kind r ow ttl (snd (reap_expired now t))) = fst (acquire now' u1 u2 kind r ow ttl t) \<and>
    (lease_get (snd (reap_expired now t)) r = None \<longleftrightarrow>
       (\<forall>l. lease_get t r = Some l \<longrightarrow> lease_expires_at l \<le> now))"
proof -
  have "lt_fences (snd (reap_expired now t)) = lt_fences t"
    by (simp add: reap_expired_def Let_def case_prod_beta)
  then show ?thesis
    using reap_get [OF assms(1), of now r] assms(2)
    by (auto simp: validate_def acquire_def Let_def lease_get_def split: option.splits if_splits)
qed

theorem reap_expired_invisible_witness:
  "validate (\<lambda>s. s) 300 (snd (reap_expired 200 demo_table)) ''workspace:w'' ''ann'' ''token_b'' =
     validate (\<lambda>s. s) 300 demo_table ''workspace:w'' ''ann'' ''token_b'' \<and>
   lease_get (snd (reap_expired 200 demo_table)) ''workspace:w'' = None"
proof -
  have le: "(200 :: u64) \<le> 300" by simp
  have "\<forall>l. lease_get demo_table ''workspace:w'' = Some l \<longrightarrow> lease_expires_at l \<le> 200"
    by (simp add: lease_eval)
  with reap_expired_invisible [OF demo_table_wf le, of "\<lambda>s. s" "''workspace:w''" "''ann''" "''token_b''"]
  show ?thesis by blast
qed

subsection \<open>What a holder can see\<close>

text \<open>
  The abstract specification: who holds which resource now, and how often each was granted. A grant
  needs a free resource and counts; the resource is held from then on if the lease lasts beyond the
  present, and stays free if it was granted for no time. A release frees; nothing else is visible.
\<close>

type_synonym locks = "(string \<Rightarrow> lease option) \<times> (string \<Rightarrow> u64)"

definition lock_view :: "u64 \<Rightarrow> lease_table \<Rightarrow> locks" where
  "lock_view now t =
     (\<lambda>r. Option.bind (lease_get t r) (\<lambda>l. if now < lease_expires_at l then Some l else None), fence_of t)"

definition spec_grant :: "u64 \<Rightarrow> string \<Rightarrow> (u64 \<Rightarrow> lease) \<Rightarrow> locks \<Rightarrow> lease option \<times> locks" where
  "spec_grant now r lease v =
     (if fst v r \<noteq> None then (None, v)
      else let l = lease (snd v r + 1)
           in (Some l, (fst v)(r := if now < lease_expires_at l then Some l else None), (snd v)(r := snd v r + 1)))"

definition spec_free :: "string \<Rightarrow> locks \<Rightarrow> locks" where
  "spec_free r v = ((fst v)(r := None), snd v)"

lemma lock_view_grant:
  assumes "lt_wf t"
  shows "lock_view now \<lparr>lt_leases = bt_insert r l (lt_leases t), lt_fences = bt_insert r f (lt_fences t)\<rparr> =
    ((fst (lock_view now t))(r := if now < lease_expires_at l then Some l else None), (snd (lock_view now t))(r := f))"
  using assms by (auto simp: lock_view_def fun_eq_iff lease_get_def fence_of_grant lt_wfD bt_simps)

lemma lock_view_remove:
  "lt_wf t \<Longrightarrow> lock_view now (t\<lparr>lt_leases := bt_remove r (lt_leases t)\<rparr>) = spec_free r (lock_view now t)"
  by (auto simp: lock_view_def spec_free_def fun_eq_iff lease_get_def fence_of_same lt_wfD bt_simps)

lemma lock_view_validate:
  "validate sha now t r ow tok = Inr l \<longleftrightarrow>
     fst (lock_view now t) r = Some l \<and> lease_owner l = ow \<and> token_matches sha (lease_token l) tok"
  by (auto simp: validate_Inr lock_view_def lease_get_def bind_eq_Some_conv split: if_splits)

lemma lock_view_acquire:
  assumes "lt_wf t"
  shows "(case acquire now u1 u2 kind r ow ttl t of (x, t') \<Rightarrow> (case x of Inl _ \<Rightarrow> None | Inr l \<Rightarrow> Some l, lock_view now t')) =
    spec_grant now r (\<lambda>f. \<lparr>lease_id = ''lease_'' @ u1, lease_kind = kind, lease_resource = r, lease_owner = ow,
      lease_token = ''token_'' @ u2, lease_fence = f, lease_acquired_at = now, lease_updated_at = now,
      lease_expires_at = sat_add now ttl, lease_handoff_to = None\<rparr>) (lock_view now t)"
proof (cases "fst (lock_view now t) r")
  case None
  then have "\<not> (\<exists>l. bt_get (lt_leases t) r = Some l \<and> now < lease_expires_at l)"
    by (auto simp: lock_view_def lease_get_def)
  moreover have "snd (lock_view now t) r = fence_of t r" by (simp add: lock_view_def)
  ultimately show ?thesis
    using None assms lock_view_grant [OF assms]
    by (auto simp: acquire_def spec_grant_def Let_def fence_of_def split: option.split)
next
  case (Some l)
  then have "bt_get (lt_leases t) r = Some l" "now < lease_expires_at l"
    by (auto simp: lock_view_def lease_get_def bind_eq_Some_conv split: if_splits)
  with Some show ?thesis by (simp add: acquire_def spec_grant_def Let_def)
qed

lemma lock_view_reap:
  assumes "lt_wf t"
  shows "lock_view now (snd (reap_expired now t)) = lock_view now t"
proof -
  have "fence_of (snd (reap_expired now t)) = fence_of t"
    by (simp add: reap_expired_def Let_def case_prod_beta fence_of_same)
  then show ?thesis using reap_get [OF assms] by (auto simp: lock_view_def fun_eq_iff split: option.split)
qed

text \<open>
  C28. The table implements a counted lock per resource: seen at the time of the operation, acquiring is the
  abstract grant with the same answer, for every time to live (a lease granted for no time counts and leaves the
  resource free), releasing with accepted credentials frees the resource and
  otherwise does nothing, reaping is invisible, and a restart keeps every holder with its token
  hidden; an expired lease is a free resource, whether reaped or not.
\<close>

theorem lease_table_refines_locks:
  assumes "lt_wf t"
  shows "(case acquire now u1 u2 kind r ow ttl t of (x, t') \<Rightarrow> (case x of Inl _ \<Rightarrow> None | Inr l \<Rightarrow> Some l, lock_view now t')) =
      spec_grant now r (\<lambda>f. \<lparr>lease_id = ''lease_'' @ u1, lease_kind = kind, lease_resource = r, lease_owner = ow,
        lease_token = ''token_'' @ u2, lease_fence = f, lease_acquired_at = now, lease_updated_at = now,
        lease_expires_at = sat_add now ttl, lease_handoff_to = None\<rparr>) (lock_view now t) \<and>
    lock_view now (snd (release sha now r ow tok t)) =
      (if \<exists>l. fst (lock_view now t) r = Some l \<and> lease_owner l = ow \<and> token_matches sha (lease_token l) tok
       then spec_free r (lock_view now t) else lock_view now t) \<and>
    lock_view now (snd (reap_expired now t)) = lock_view now t \<and>
    fst (lock_view now (restart_table sha t)) = map_option (hide_token sha) \<circ> fst (lock_view now t)"
proof (intro conjI lock_view_acquire lock_view_reap assms)
  show "lock_view now (snd (release sha now r ow tok t)) =
      (if \<exists>l. fst (lock_view now t) r = Some l \<and> lease_owner l = ow \<and> token_matches sha (lease_token l) tok
       then spec_free r (lock_view now t) else lock_view now t)"
    using lock_view_remove [OF assms, of now r]
    by (cases "validate sha now t r ow tok") (auto simp: release_def simp flip: lock_view_validate)
  show "fst (lock_view now (restart_table sha t)) = map_option (hide_token sha) \<circ> fst (lock_view now t)"
    using restart_get [OF assms, of sha] by (auto simp: lock_view_def fun_eq_iff map_option_bind bind_map_option comp_def split: Option.bind_split)
qed

theorem lease_table_refines_locks_witness:
  "fst (lock_view 200 (snd (acquire 200 ''x'' ''y'' LeaseDriver ''workspace:w'' ''bob'' 50 demo_table))) ''workspace:w'' \<noteq> None \<and>
   fst (lock_view 200 (snd (acquire 200 ''x'' ''y'' LeaseDriver ''workspace:w'' ''bob'' 0 demo_table))) ''workspace:w'' = None \<and>
   lock_view 200 (snd (reap_expired 200 demo_table)) = lock_view 200 demo_table"
proof -
  note refines = lease_table_refines_locks [OF demo_table_wf, of 200 "''x''" "''y''" LeaseDriver "''workspace:w''" "''bob''" _ id "''z''"]
  have "fst (lock_view 200 (snd (acquire 200 ''x'' ''y'' LeaseDriver ''workspace:w'' ''bob'' 50 demo_table))) ''workspace:w'' \<noteq> None"
    using refines [of 50] by (auto simp: spec_grant_def lock_view_def lease_eval split: prod.splits if_splits)
  moreover have "fst (lock_view 200 (snd (acquire 200 ''x'' ''y'' LeaseDriver ''workspace:w'' ''bob'' 0 demo_table))) ''workspace:w'' = None"
    using refines [of 0] by (auto simp: spec_grant_def lock_view_def lease_eval split: prod.splits if_splits)
  ultimately show ?thesis using refines by blast
qed

end
