(* ===== verification/Resources.thy ===== *)
theory Resources
  imports Lease_Table
begin

section \<open>Executor-local resource arbitration\<close>

text \<open>
  \<^verbatim>\<open>crates/workbench-runtime/src/resource.rs\<close>: the leases every incoming Controller shares on
  one Executor, the resources on which an operation is executing, those an earlier process
  left uncertain (quarantined), and the file they are persisted to. The file is part of the
  state: a write replaces its contents or, when the argument \<open>io\<close> carries an error text, fails
  and leaves them. A permit is the list of resources it holds; dropping it is an operation.

  Shown: permits are exclusive and recorded durably before they are handed out; what a crash
  interrupts stays closed until an operator confirms; fencing numbers handed out grow across
  crashes and failed writes; and a failed write in \<open>begin\<close> closes its resources for good.
\<close>

record resource_snapshot =
  snap_leases :: "lease list"
  snap_fences :: "(string, u64) btree_map"
  snap_active :: "string list"

record resources =
  res_table :: lease_table
  res_active :: "string list"
  res_quarantined :: "string list"
  res_path :: "string option"

record resource_store =
  rs_res :: resources
  rs_disk :: "resource_snapshot option"

type_synonym permit = "string list"

definition resources_default :: resources where
  "resources_default = \<lparr>res_table = lease_table_default, res_active = [], res_quarantined = [], res_path = None\<rparr>"

fun lease_rpc_code :: "lease_error \<Rightarrow> string" where
  "lease_rpc_code (LeaseActive _ _) = ''RESOURCE_BUSY''"
| "lease_rpc_code LeaseNotFound = ''RESOURCE_LEASE_REQUIRED''"
| "lease_rpc_code _ = ''RESOURCE_LEASE_INVALID''"

definition resource_lease_error :: "lease_error \<Rightarrow> rpc_error" where
  "resource_lease_error error = rpc_err (lease_rpc_code error) (lease_error_text error)"

definition string_param :: "json \<Rightarrow> string \<Rightarrow> rpc_error + string" where
  "string_param params key =
     (case get_str params key of
        Some s \<Rightarrow> if s \<noteq> [] then Inr s else Inl (rpc_err ''INVALID_PARAMS'' (key @ '' is required''))
      | None \<Rightarrow> Inl (rpc_err ''INVALID_PARAMS'' (key @ '' is required'')))"

text \<open>Opening reads the file (an error text, or its contents if there is one).\<close>

definition resources_open ::
  "string \<Rightarrow> string + resource_snapshot option \<Rightarrow> rpc_error + resources" where
  "resources_open path file =
     (case file of
        Inl e \<Rightarrow> Inl (rpc_err ''RESOURCE_STATE_FAILED'' e)
      | Inr contents \<Rightarrow>
          let snapshot = unwrap_or \<lparr>snap_leases = [], snap_fences = [], snap_active = []\<rparr> contents
          in Inr (resources_default
               \<lparr>res_table := from_snapshot (snap_leases snapshot) (snap_fences snapshot),
                res_quarantined := snap_active snapshot, res_path := Some path\<rparr>))"

definition resources_snapshot :: "(string \<Rightarrow> string) \<Rightarrow> resources \<Rightarrow> resource_snapshot" where
  "resources_snapshot sha res =
     \<lparr>snap_leases = lease_persistence_snapshot sha (res_table res),
      snap_fences = fence_snapshot (res_table res),
      snap_active = fold bs_insert (res_quarantined res) (res_active res)\<rparr>"

definition resources_persist ::
  "(string \<Rightarrow> string) \<Rightarrow> string option \<Rightarrow> resource_store \<Rightarrow> (rpc_error + unit) \<times> resource_store" where
  "resources_persist sha io s =
     (case res_path (rs_res s) of
        None \<Rightarrow> (Inr (), s)
      | Some path \<Rightarrow>
          (case io of
             Some e \<Rightarrow> (Inl (rpc_err ''RESOURCE_STATE_FAILED'' e), s)
           | None \<Rightarrow> (Inr (), s\<lparr>rs_disk := Some (resources_snapshot sha (rs_res s))\<rparr>)))"

definition available :: "resources \<Rightarrow> string \<Rightarrow> rpc_error + unit" where
  "available res resource =
     (if resource \<in> set (res_quarantined res)
      then Inl (rpc_err ''RESOURCE_RECOVERY_REQUIRED''
                  (''uncertain operation on '' @ resource @ '' survived Executor restart''))
      else if resource \<in> set (res_active res)
      then Inl (rpc_err ''RESOURCE_BUSY'' (''operation is still executing on '' @ resource))
      else Inr ())"

definition permit_drop ::
  "(string \<Rightarrow> string) \<Rightarrow> string option \<Rightarrow> permit \<Rightarrow> resource_store \<Rightarrow> resource_store" where
  "permit_drop sha io permit s =
     (if permit = [] then s
      else let res = rs_res s;
               res' = res\<lparr>res_active := filter (\<lambda>k. k \<notin> set permit) (res_active res)\<rparr>
           in snd (resources_persist sha io (s\<lparr>rs_res := res'\<rparr>)))"

text \<open>
  The commands on leases. The lease of an \<^verbatim>\<open>acquire\<close>, \<^verbatim>\<open>validate\<close>, \<^verbatim>\<open>renew\<close> or \<^verbatim>\<open>release\<close> is
  computed first, together with the table it leaves; the others answer on the spot.
\<close>

definition lease_command ::
  "(string \<Rightarrow> string) \<Rightarrow> clock \<Rightarrow> uuids \<Rightarrow> string \<Rightarrow> json \<Rightarrow> string \<Rightarrow> string \<Rightarrow> u64 \<Rightarrow> resources
    \<Rightarrow> (rpc_error + lease) \<times> lease_table" where
  "lease_command sha clk ids action params resource owner ttl res =
     (let table = res_table res in
      if action = ''resource.lease.acquire'' then
        (case available res resource of
           Inl e \<Rightarrow> (Inl e, table)
         | Inr _ \<Rightarrow> apfst (map_err resource_lease_error)
                      (acquire (clk 0) (ids 0) (ids 1) LeaseResource resource owner ttl table))
      else if action = ''resource.lease.validate'' then
        (and_then (string_param params ''token'') (\<lambda>token.
           map_err resource_lease_error (validate sha (clk 0) table resource owner token)), table)
      else if action = ''resource.lease.renew'' then
        (case string_param params ''token'' of
           Inl e \<Rightarrow> (Inl e, table)
         | Inr token \<Rightarrow> apfst (map_err resource_lease_error)
                          (renew sha clk resource owner token ttl table))
      else if action = ''resource.lease.release'' then
        (case available res resource of
           Inl e \<Rightarrow> (Inl e, table)
         | Inr _ \<Rightarrow>
             (case string_param params ''token'' of
                Inl e \<Rightarrow> (Inl e, table)
              | Inr token \<Rightarrow> apfst (map_err resource_lease_error)
                               (release sha (clk 0) resource owner token table)))
      else (Inl (rpc_err ''UNKNOWN_ACTION'' action), table))"

definition clear_token :: "lease \<Rightarrow> lease" where
  "clear_token l = l\<lparr>lease_token := []\<rparr>"

definition resources_command ::
  "(string \<Rightarrow> string) \<Rightarrow> clock \<Rightarrow> uuids \<Rightarrow> string option \<Rightarrow> string \<Rightarrow> json \<Rightarrow> resource_store
    \<Rightarrow> (rpc_error + json) \<times> resource_store" where
  "resources_command sha clk ids io action params s =
     (let res = rs_res s in
      if action = ''resource.lease.list'' then
        (let prefix = unwrap_or [] (get_str params ''prefix'')
         in (Inr (JArr (map (\<lambda>l. lease_json (clear_token l))
                          (filter (\<lambda>l. starts_with prefix (lease_resource l)) (lease_snapshot (res_table res))))), s))
      else case string_param params ''resource'' of Inl e \<Rightarrow> (Inl e, s) | Inr resource \<Rightarrow>
      if action = ''resource.lease.status'' then
        (Inr (JObj [(''active'', JBool (resource \<in> set (res_active res))),
                    (''lease'', jopt (\<lambda>l. lease_json (clear_token l)) (lease_get (res_table res) resource)),
                    (''quarantined'', JBool (resource \<in> set (res_quarantined res)))]), s)
      else if action = ''resource.lease.recover'' then
        (if get_bool params ''confirmExecutionStopped'' \<noteq> Some True then
           (Inl (rpc_err ''RESOURCE_RECOVERY_CONFIRMATION_REQUIRED''
                   ''confirm the old operation and any child process have stopped''), s)
         else if resource \<in> set (res_active res) then
           (Inl (rpc_err ''RESOURCE_BUSY'' ''operation is still executing''), s)
         else
           (case resources_persist sha io
                   (s\<lparr>rs_res := res\<lparr>res_quarantined := removeAll resource (res_quarantined res)\<rparr>\<rparr>) of
              (Inl e, s') \<Rightarrow> (Inl e, s')
            | (Inr _, s') \<Rightarrow> (Inr (JObj [(''recovered'', JBool True), (''resource'', JStr resource)]), s')))
      else case string_param params ''owner'' of Inl e \<Rightarrow> (Inl e, s) | Inr owner \<Rightarrow>
      let ttl = unwrap_or 300000 (get_u64 params ''ttlMs'') in
      if ttl = 0 \<or> 86400000 < ttl then
        (Inl (rpc_err ''INVALID_PARAMS'' ''TTL must be between 1 ms and 24 hours''), s)
      else
        (case lease_command sha clk ids action params resource owner ttl res of
           (Inl e, table) \<Rightarrow> (Inl e, s\<lparr>rs_res := res\<lparr>res_table := table\<rparr>\<rparr>)
         | (Inr l, table) \<Rightarrow>
             (case resources_persist sha io (s\<lparr>rs_res := res\<lparr>res_table := table\<rparr>\<rparr>) of
                (Inl e, s') \<Rightarrow> (Inl e, s')
              | (Inr _, s') \<Rightarrow> (Inr (lease_json l), s'))))"

text \<open>
  Admission of an operation: each of its resources is free and either granted by a matching
  credential or not leased (the \<open>n\<close>th resource is checked at the \<open>n\<close>th clock reading), and
  every credential is for one of them.
\<close>

fun begin_check ::
  "(string \<Rightarrow> string) \<Rightarrow> clock \<Rightarrow> json list \<Rightarrow> resources \<Rightarrow> string list \<Rightarrow> rpc_error + unit" where
  "begin_check sha clk grants res [] = Inr ()"
| "begin_check sha clk grants res (resource # rest) =
     and_then (available res resource) (\<lambda>_.
     and_then
       (case find (\<lambda>g. get_str g ''resource'' = Some resource) grants of
          Some g \<Rightarrow>
            and_then (string_param g ''owner'') (\<lambda>owner.
            and_then (string_param g ''token'') (\<lambda>token.
            map_err resource_lease_error (map_sum id (\<lambda>_. ())
              (validate sha (clk 0) (res_table res) resource owner token))))
        | None \<Rightarrow>
            (case lease_get (res_table res) resource of
               Some l \<Rightarrow> if clk 0 < lease_expires_at l
                         then Inl (rpc_err ''RESOURCE_BUSY'' (resource @ '' has an outstanding lease''))
                         else Inr ()
             | None \<Rightarrow> Inr ())) (\<lambda>_.
     begin_check sha (\<lambda>n. clk (n + 1)) grants res rest))"

fun scope_check :: "string list \<Rightarrow> json list \<Rightarrow> rpc_error + unit" where
  "scope_check resources [] = Inr ()"
| "scope_check resources (g # gs) =
     (if list_ex (\<lambda>r. Some r = get_str g ''resource'') resources then scope_check resources gs
      else Inl (rpc_err ''RESOURCE_LEASE_SCOPE_MISMATCH'' ''lease does not authorize this operation''))"

definition resources_begin ::
  "(string \<Rightarrow> string) \<Rightarrow> clock \<Rightarrow> string option \<Rightarrow> string list \<Rightarrow> json list \<Rightarrow> resource_store
    \<Rightarrow> (rpc_error + permit) \<times> resource_store" where
  "resources_begin sha clk io requested grants s =
     (let resources = remdups_adj (sort requested); res = rs_res s in
      case and_then (begin_check sha clk grants res resources) (\<lambda>_. scope_check resources grants) of
        Inl e \<Rightarrow> (Inl e, s)
      | Inr _ \<Rightarrow>
          let s' = s\<lparr>rs_res := res\<lparr>res_active := fold bs_insert resources (res_active res)\<rparr>\<rparr> in
          if resources = [] then (Inr resources, s')
          else (case resources_persist sha io s' of
                  (Inl e, s'') \<Rightarrow> (Inl e, s'')
                | (Inr _, s'') \<Rightarrow> (Inr resources, s'')))"

subsection \<open>Runs of the store\<close>

text \<open>
  The store together with the permits that are outstanding. A crash loses memory and the
  permits and reopens from the file. A command is only stepped while no counter is exhausted.
\<close>

datatype resource_event = EvCommand string json | EvBegin | EvDrop | EvCrash

definition counters_left :: "lease_table \<Rightarrow> bool" where
  "counters_left t = (- 1 \<notin> snd ` set (lt_fences t))"

inductive res_step ::
  "(string \<Rightarrow> string) \<Rightarrow> resource_event \<Rightarrow> resource_store \<times> permit list \<Rightarrow> resource_store \<times> permit list \<Rightarrow> bool"
  for sha where
  res_command: "counters_left (res_table (rs_res s)) \<Longrightarrow>
     res_step sha (EvCommand action params) (s, ps) (snd (resources_command sha clk ids io action params s), ps)"
| res_begin: "resources_begin sha clk io requested grants s = (Inr p, s') \<Longrightarrow>
     res_step sha EvBegin (s, ps) (s', p # ps)"
| res_refused: "resources_begin sha clk io requested grants s = (Inl e, s') \<Longrightarrow>
     res_step sha EvBegin (s, ps) (s', ps)"
| res_drop: "res_step sha EvDrop (s, ps @ p # qs) (permit_drop sha io p s, ps @ qs)"
| res_crash: "res_path (rs_res s) = Some path \<Longrightarrow> resources_open path (Inr (rs_disk s)) = Inr res \<Longrightarrow>
     res_step sha EvCrash (s, ps) (s\<lparr>rs_res := res\<rparr>, [])"

lemma rs_res_persist [simp]: "rs_res (snd (resources_persist sha io s)) = rs_res s"
  by (simp add: resources_persist_def split: option.splits)

lemma persist_ok:
  "resources_persist sha io s = (Inr u, s') \<Longrightarrow> res_path (rs_res s) \<noteq> None \<Longrightarrow>
     s' = s\<lparr>rs_disk := Some (resources_snapshot sha (rs_res s))\<rparr>"
  by (auto simp: resources_persist_def split: option.splits)

lemma snd_persist_case:
  "snd (case resources_persist sha io s of (Inl e, s') \<Rightarrow> (Inl (f e), s') | (Inr u, s') \<Rightarrow> (Inr (g u), s')) =
     snd (resources_persist sha io s)"
  by (simp split: prod.split sum.split)

text \<open>Every command changes the table by lease operations and lifts at most one quarantine.\<close>

definition command_effect ::
  "(string \<Rightarrow> string) \<Rightarrow> string \<Rightarrow> json \<Rightarrow> resource_store \<Rightarrow> resource_store \<Rightarrow> bool" where
  "command_effect sha action params s s' = (\<exists>t q.
     (lease_step sha)\<^sup>*\<^sup>* (res_table (rs_res s)) t \<and>
     rs_res s' = (rs_res s)\<lparr>res_table := t, res_quarantined := q\<rparr> \<and>
     (rs_disk s' = rs_disk s \<or> rs_disk s' = Some (resources_snapshot sha (rs_res s'))) \<and>
     set q \<subseteq> set (res_quarantined (rs_res s)) \<and>
     (\<forall>x \<in> set (res_quarantined (rs_res s)) - set q.
        action = ''resource.lease.recover'' \<and> get_str params ''resource'' = Some x))"

lemma command_effect_refl: "command_effect sha action params s s"
  unfolding command_effect_def
  by (intro exI [of _ "res_table (rs_res s)"] exI [of _ "res_quarantined (rs_res s)"]) simp

lemma command_effect_persist:
  "command_effect sha action params s s1 \<Longrightarrow> command_effect sha action params s (snd (resources_persist sha io s1))"
  by (auto simp: command_effect_def resources_persist_def split: option.splits)

lemma command_effect_table:
  "(lease_step sha)\<^sup>*\<^sup>* (res_table (rs_res s)) t \<Longrightarrow>
     command_effect sha action params s (s\<lparr>rs_res := (rs_res s)\<lparr>res_table := t\<rparr>\<rparr>)"
  unfolding command_effect_def
  by (intro exI [of _ t] exI [of _ "res_quarantined (rs_res s)"]) simp

lemma command_effect_recover:
  "action = ''resource.lease.recover'' \<Longrightarrow> get_str params ''resource'' = Some r \<Longrightarrow>
     command_effect sha action params s
       (s\<lparr>rs_res := (rs_res s)\<lparr>res_quarantined := removeAll r (res_quarantined (rs_res s))\<rparr>\<rparr>)"
  unfolding command_effect_def
  by (intro exI [of _ "res_table (rs_res s)"] exI [of _ "removeAll r (res_quarantined (rs_res s))"]) auto

lemma counters_leftD: "counters_left t \<Longrightarrow> fence_of t r \<noteq> - 1"
  by (auto simp: counters_left_def fence_of_def unwrap_or_def bt_get_def dest!: map_of_SomeD split: option.splits)
    force

lemma lease_command_table:
  assumes "counters_left (res_table res)"
  shows "(lease_step sha)\<^sup>*\<^sup>* (res_table res) (snd (lease_command sha clk ids action params r ow ttl res))"
proof -
  let ?t = "res_table res" and ?tok = "projr (string_param params ''token'')"
  have "snd (lease_command sha clk ids action params r ow ttl res) \<in>
      {?t, snd (acquire (clk 0) (ids 0) (ids 1) LeaseResource r ow ttl ?t),
       snd (renew sha clk r ow ?tok ttl ?t), snd (release sha (clk 0) r ow ?tok ?t)}"
    by (simp add: lease_command_def Let_def split: sum.split)
  then show ?thesis
    using step_acquire [OF counters_leftD [OF assms]] step_renew step_release by auto
qed

lemma string_param_Inr: "string_param params key = Inr r \<Longrightarrow> get_str params key = Some r"
  by (auto simp: string_param_def split: option.splits if_splits)

lemma command_shape:
  assumes "counters_left (res_table (rs_res s))"
  shows "command_effect sha action params s (snd (resources_command sha clk ids io action params s))"
proof (cases "action = ''resource.lease.list'' \<or> action = ''resource.lease.status''")
  case True
  then show ?thesis
    by (auto simp: resources_command_def Let_def command_effect_refl split: sum.split)
next
  case False
  show ?thesis
  proof (cases "string_param params ''resource''")
    case (Inl e)
    with False show ?thesis by (simp add: resources_command_def Let_def command_effect_refl)
  next
    case r: (Inr r)
    show ?thesis
    proof (cases "action = ''resource.lease.recover''")
      case True
      with r show ?thesis
        by (simp add: resources_command_def Let_def snd_persist_case command_effect_refl
            command_effect_persist command_effect_recover string_param_Inr)
    next
      case other: False
      show ?thesis
      proof (cases "string_param params ''owner''")
        case (Inl e)
        with False r other show ?thesis by (simp add: resources_command_def Let_def command_effect_refl)
      next
        case (Inr ow)
        let ?ttl = "unwrap_or 300000 (get_u64 params ''ttlMs'')"
        obtain res t where l: "lease_command sha clk ids action params r ow ?ttl (rs_res s) = (res, t)" by fastforce
        with lease_command_table [OF assms, of sha clk ids action params r ow ?ttl]
        have "command_effect sha action params s (s\<lparr>rs_res := (rs_res s)\<lparr>res_table := t\<rparr>\<rparr>)"
          by (simp add: command_effect_table)
        with False r other Inr l show ?thesis
          by (simp add: resources_command_def Let_def snd_persist_case command_effect_refl
              command_effect_persist split: sum.split)
      qed
    qed
  qed
qed

subsection \<open>The invariant of the store\<close>

definition disk_fence :: "resource_store \<Rightarrow> string \<Rightarrow> u64" where
  "disk_fence s r = (case rs_disk s of None \<Rightarrow> 0 | Some d \<Rightarrow> unwrap_or 0 (bt_get (snap_fences d) r))"

definition disk_leases :: "resource_store \<Rightarrow> lease list" where
  "disk_leases s = (case rs_disk s of None \<Rightarrow> [] | Some d \<Rightarrow> snap_leases d)"

definition disk_active :: "resource_store \<Rightarrow> string list" where
  "disk_active s = (case rs_disk s of None \<Rightarrow> [] | Some d \<Rightarrow> snap_active d)"

text \<open>
  The file is never ahead of memory in its counters, and its own leases are not ahead of them;
  outstanding permits are disjoint, marked active in memory and marked active in the file.
\<close>

definition rs_wf :: "resource_store \<Rightarrow> bool" where
  "rs_wf s = (res_path (rs_res s) \<noteq> None \<and> lt_wf (res_table (rs_res s)) \<and>
     (case rs_disk s of None \<Rightarrow> True | Some d \<Rightarrow> bt_wf (snap_fences d)) \<and>
     (\<forall>r. disk_fence s r \<le> fence_of (res_table (rs_res s)) r) \<and>
     (\<forall>l \<in> set (disk_leases s). lease_fence l \<le> disk_fence s (lease_resource l)))"

definition permits_ok :: "resource_store \<Rightarrow> permit list \<Rightarrow> bool" where
  "permits_ok s ps = (distinct (concat ps) \<and> set (concat ps) \<subseteq> set (res_active (rs_res s)) \<and>
     set (concat ps) \<subseteq> set (disk_active s))"

lemma disk_snapshot:
  "disk_fence (s\<lparr>rs_disk := Some (resources_snapshot sha res)\<rparr>) r = fence_of (res_table res) r"
  "disk_leases (s\<lparr>rs_disk := Some (resources_snapshot sha res)\<rparr>) = lease_persistence_snapshot sha (res_table res)"
  "set (disk_active (s\<lparr>rs_disk := Some (resources_snapshot sha res)\<rparr>)) = set (res_quarantined res) \<union> set (res_active res)"
  by (simp_all add: disk_fence_def disk_leases_def disk_active_def resources_snapshot_def fence_of_def fence_snapshot_def set_bs_fold)

lemma persisted_fences:
  assumes "lt_wf t" "l \<in> set (lease_persistence_snapshot sha t)"
  shows "lease_fence l \<le> fence_of t (lease_resource l)"
proof -
  from assms obtain k r where "l = hide_token sha k" "bt_get (lt_leases t) r = Some k"
    by (auto simp: lease_persistence_snapshot_def bt_values_iff lt_wfD(1))
  with assms(1) lt_wfD(3) [OF assms(1)] lt_wf_fence [OF assms(1), of r k] show ?thesis
    by (auto simp: lease_get_def)
qed

lemma rs_wf_written:
  assumes "res_path (rs_res s) \<noteq> None" "lt_wf (res_table (rs_res s))"
    "rs_disk s = Some (resources_snapshot sha (rs_res s))"
  shows "rs_wf s"
proof -
  have s: "s = s\<lparr>rs_disk := Some (resources_snapshot sha (rs_res s))\<rparr>" using assms(3) by simp
  have "disk_fence s r = fence_of (res_table (rs_res s)) r" for r by (subst s) (rule disk_snapshot)
  moreover have "disk_leases s = lease_persistence_snapshot sha (res_table (rs_res s))" by (subst s) (rule disk_snapshot)
  ultimately show ?thesis
    using assms persisted_fences by (simp add: rs_wf_def resources_snapshot_def fence_snapshot_def lt_wfD(2))
qed

lemma disk_same: "rs_disk s' = rs_disk s \<Longrightarrow> disk_fence s' = disk_fence s \<and> disk_leases s' = disk_leases s \<and> disk_active s' = disk_active s"
  by (simp add: disk_fence_def disk_leases_def disk_active_def fun_eq_iff)

text \<open>What every step but a crash does to the table and to the file.\<close>

definition store_moves :: "(string \<Rightarrow> string) \<Rightarrow> resource_store \<Rightarrow> resource_store \<Rightarrow> bool" where
  "store_moves sha s s' = ((lease_step sha)\<^sup>*\<^sup>* (res_table (rs_res s)) (res_table (rs_res s')) \<and>
     res_path (rs_res s') = res_path (rs_res s) \<and>
     (rs_disk s' = rs_disk s \<or> rs_disk s' = Some (resources_snapshot sha (rs_res s'))))"

lemma written_fence: "rs_disk s = Some (resources_snapshot sha (rs_res s)) \<Longrightarrow> disk_fence s = fence_of (res_table (rs_res s))"
  by (simp add: disk_fence_def fence_of_def resources_snapshot_def fence_snapshot_def fun_eq_iff)

lemma store_moves_wf:
  assumes "store_moves sha s s'" "rs_wf s"
  shows "rs_wf s' \<and> disk_fence s r \<le> disk_fence s' r"
proof -
  have le: "fence_of (res_table (rs_res s)) r \<le> fence_of (res_table (rs_res s')) r" for r
    using lt.fence_steps [of sha] assms by (simp add: rs_wf_def store_moves_def)
  have lt: "lt_wf (res_table (rs_res s'))"
    using lt.inv_steps [of sha] assms unfolding rs_wf_def store_moves_def by blast
  consider "rs_disk s' = rs_disk s" | "rs_disk s' = Some (resources_snapshot sha (rs_res s'))"
    using assms(1) by (auto simp: store_moves_def)
  then show ?thesis
  proof cases
    case 1
    have "disk_fence s' r \<le> fence_of (res_table (rs_res s')) r" for r
      using assms(2) disk_same [OF 1] order_trans [OF _ le, of "disk_fence s r" r] by (simp add: rs_wf_def)
    with assms lt 1 disk_same [OF 1] show ?thesis by (simp add: rs_wf_def store_moves_def)
  next
    case 2
    with assms lt have "rs_wf s'" by (intro rs_wf_written) (simp_all add: rs_wf_def store_moves_def)
    with assms(2) le 2 show ?thesis by (simp add: rs_wf_def written_fence) (metis order_trans)
  qed
qed

lemma persist_disk:
  "rs_disk (snd (resources_persist sha io s)) = rs_disk s \<or>
   rs_disk (snd (resources_persist sha io s)) = Some (resources_snapshot sha (rs_res s))"
  by (simp add: resources_persist_def split: option.splits)

lemma begin_effect:
  assumes "resources_begin sha clk io requested grants s = (r, s')"
  shows "\<exists>act. rs_res s' = (rs_res s)\<lparr>res_active := act\<rparr> \<and> set (res_active (rs_res s)) \<subseteq> set act \<and>
    (rs_disk s' = rs_disk s \<or> rs_disk s' = Some (resources_snapshot sha (rs_res s')))"
proof -
  define s1 where "s1 = s\<lparr>rs_res := (rs_res s)\<lparr>res_active := fold bs_insert (remdups_adj (sort requested)) (res_active (rs_res s))\<rparr>\<rparr>"
  have "s' \<in> {s, s1, snd (resources_persist sha io s1)}"
    using assms by (auto simp: resources_begin_def Let_def s1_def split: sum.splits if_splits prod.splits)
  moreover have "rs_disk s1 = rs_disk s" by (simp add: s1_def)
  moreover have "\<exists>act. rs_res s1 = (rs_res s)\<lparr>res_active := act\<rparr> \<and> set (res_active (rs_res s)) \<subseteq> set act"
    by (simp add: s1_def) (metis Un_upper2 set_bs_fold)
  moreover have "\<exists>act. rs_res s = (rs_res s)\<lparr>res_active := act\<rparr> \<and> set (res_active (rs_res s)) \<subseteq> set act"
    by (rule exI [of _ "res_active (rs_res s)"]) simp
  ultimately show ?thesis using persist_disk [of sha io s1] by auto
qed

lemma res_step_moves:
  "res_step sha ev a b \<Longrightarrow> ev \<noteq> EvCrash \<Longrightarrow> store_moves sha (fst a) (fst b)"
proof (induction rule: res_step.induct)
  case (res_command s action params ps clk ids io)
  from command_shape [OF res_command.hyps, of sha action params clk ids io] show ?case
    by (auto simp: command_effect_def store_moves_def)
next
  case (res_begin clk io requested grants s p s' ps)
  from begin_effect [OF res_begin.hyps] show ?case by (auto simp: store_moves_def)
next
  case (res_refused clk io requested grants s e s' ps)
  from begin_effect [OF res_refused.hyps] show ?case by (auto simp: store_moves_def)
next
  case (res_drop s ps p qs io)
  then show ?case
    using persist_disk [of sha io "s\<lparr>rs_res := (rs_res s)\<lparr>res_active := filter (\<lambda>k. k \<notin> set p) (res_active (rs_res s))\<rparr>\<rparr>"]
    by (auto simp: permit_drop_def Let_def store_moves_def)
qed simp

lemma crash_wf:
  assumes "rs_wf s" "resources_open path (Inr (rs_disk s)) = Inr res"
  shows "rs_wf (s\<lparr>rs_res := res\<rparr>)"
proof -
  let ?fs = "case rs_disk s of None \<Rightarrow> [] | Some d \<Rightarrow> snap_fences d"
  have res: "res_table res = from_snapshot (disk_leases s) ?fs" "res_path res = Some path"
    using assms(2) by (auto simp: resources_open_def Let_def disk_leases_def split: option.splits)
  have wf: "bt_wf ?fs" using assms(1) by (auto simp: rs_wf_def split: option.splits)
  have "disk_fence s r \<le> fence_of (res_table res) r" for r
    using fence_of_load_all [OF maps_wf_start [OF wf], of r "disk_leases s"] res(1)
    by (auto simp: from_snapshot_def fence_of_def disk_fence_def split: option.splits)
  then show ?thesis
    using assms(1) res lt_wf_from_snapshot [OF wf] disk_same [of "s\<lparr>rs_res := res\<rparr>" s]
    by (auto simp: rs_wf_def)
qed

lemma res_step_wf:
  assumes "res_step sha ev a b" "rs_wf (fst a)"
  shows "rs_wf (fst b) \<and> disk_fence (fst a) r \<le> disk_fence (fst b) r"
proof (cases "ev = EvCrash")
  case True
  with assms show ?thesis
    by (auto simp: crash_wf disk_fence_def elim: res_step.cases)
next
  case False
  with res_step_moves [OF assms(1)] assms(2) show ?thesis by (blast dest: store_moves_wf)
qed

definition disk_lease :: "resource_store \<Rightarrow> string \<Rightarrow> lease option" where
  "disk_lease s r = find (\<lambda>l. lease_resource l = r) (disk_leases s)"

interpretation rt: fenced_store "\<lambda>x. rs_wf (fst x)" "\<lambda>x. disk_lease (fst x)" "\<lambda>x. disk_fence (fst x)"
  "\<lambda>a b. \<exists>ev. res_step sha ev a b" for sha
proof unfold_locales
  fix s :: "resource_store \<times> permit list" and r l
  assume "rs_wf (fst s)" "disk_lease (fst s) r = Some l"
  then show "lease_fence l \<le> disk_fence (fst s) r"
    by (auto simp: disk_lease_def rs_wf_def find_Some_iff)
qed (use res_step_wf in blast)+

subsection \<open>Permits\<close>

lemma begin_check_ok:
  "begin_check sha clk grants res rs = Inr u \<Longrightarrow> r \<in> set rs \<Longrightarrow>
     available res r = Inr () \<and>
     (\<forall>l. lease_get (res_table res) r = Some l \<longrightarrow> (\<forall>n. clk n < lease_expires_at l) \<longrightarrow>
        (\<exists>g \<in> set grants. get_str g ''resource'' = Some r \<and> get_str g ''owner'' = Some (lease_owner l) \<and>
           (\<exists>token. get_str g ''token'' = Some token \<and> token_matches sha (lease_token l) token)))"
proof (induction rs arbitrary: clk u)
  case (Cons q rs)
  show ?case
  proof (cases "r = q")
    case False
    with Cons.prems obtain u' where "begin_check sha (\<lambda>n. clk (n + 1)) grants res rs = Inr u'" by auto
    with Cons.IH [OF this] False Cons.prems(2) show ?thesis by auto
  next
    case True
    with Cons.prems have av: "available res r = Inr ()" by auto
    have "\<exists>g \<in> set grants. get_str g ''resource'' = Some r \<and> get_str g ''owner'' = Some (lease_owner l) \<and>
           (\<exists>token. get_str g ''token'' = Some token \<and> token_matches sha (lease_token l) token)"
      if l: "lease_get (res_table res) r = Some l" "\<forall>n. clk n < lease_expires_at l" for l
    proof (cases "find (\<lambda>g. get_str g ''resource'' = Some r) grants")
      case None
      with Cons.prems True l show ?thesis by auto
    next
      case (Some g)
      with Cons.prems True obtain ow tok v where v: "string_param g ''owner'' = Inr ow" "string_param g ''token'' = Inr tok"
          "map_sum id (\<lambda>_. ()) (validate sha (clk 0) (res_table res) r ow tok) = Inr v"
        by auto
      then obtain l' where "validate sha (clk 0) (res_table res) r ow tok = Inr l'"
        by (cases "validate sha (clk 0) (res_table res) r ow tok") auto
      with l have "lease_owner l = ow" "token_matches sha (lease_token l) tok"
        by (auto simp: validate_Inr lease_get_def)
      with v Some show ?thesis
        by (intro bexI [of _ g]) (auto simp: find_Some_iff dest: string_param_Inr)
    qed
    with av show ?thesis by blast
  qed
qed simp

lemma available_ok: "available res r = Inr u \<longleftrightarrow> r \<notin> set (res_quarantined res) \<and> r \<notin> set (res_active res)"
  by (simp add: available_def)

lemma begin_ok:
  assumes "resources_begin sha clk io requested grants s = (Inr p, s')" "res_path (rs_res s) \<noteq> None"
  shows "p = remdups_adj (sort requested)" "begin_check sha clk grants (rs_res s) p = Inr ()"
    "set (res_active (rs_res s')) = set p \<union> set (res_active (rs_res s))"
    "set p \<subseteq> set (disk_active s')"
proof -
  let ?p = "remdups_adj (sort requested)"
  define s1 where "s1 = s\<lparr>rs_res := (rs_res s)\<lparr>res_active := fold bs_insert ?p (res_active (rs_res s))\<rparr>\<rparr>"
  have p: "p = ?p" "begin_check sha clk grants (rs_res s) p = Inr ()"
    and s': "if ?p = [] then s' = s1 else resources_persist sha io s1 = (Inr (), s')"
    using assms by (auto simp: resources_begin_def Let_def s1_def split: sum.splits if_splits prod.splits)
  show "p = ?p" "begin_check sha clk grants (rs_res s) p = Inr ()" by (fact p)+
  have "rs_res s' = rs_res s1" using s' by (metis rs_res_persist snd_conv)
  then show "set (res_active (rs_res s')) = set p \<union> set (res_active (rs_res s))"
    by (simp add: s1_def p(1) set_bs_fold)
  show "set p \<subseteq> set (disk_active s')"
  proof (cases "?p = []")
    case False
    with s' assms(2) have "s' = s1\<lparr>rs_disk := Some (resources_snapshot sha (rs_res s1))\<rparr>"
      using persist_ok [of sha io s1 "()" s'] by (simp add: s1_def)
    then show ?thesis by (simp add: disk_snapshot) (auto simp: s1_def p(1) set_bs_fold)
  qed (simp add: p(1))
qed

lemma disk_active_moves:
  assumes "rs_disk s' = rs_disk s \<or> rs_disk s' = Some (resources_snapshot sha (rs_res s'))"
  shows "set (disk_active s') = set (disk_active s) \<or>
    set (disk_active s') = set (res_quarantined (rs_res s')) \<union> set (res_active (rs_res s'))"
  using assms by (auto simp: disk_active_def resources_snapshot_def set_bs_fold)

lemma permits_keep:
  assumes "permits_ok s ps" "set (concat qs) \<subseteq> set (concat ps)" "distinct (concat qs)"
    "set (concat qs) \<subseteq> set (res_active (rs_res s'))"
    "rs_disk s' = rs_disk s \<or> rs_disk s' = Some (resources_snapshot sha (rs_res s'))"
  shows "permits_ok s' qs"
  using assms disk_active_moves [OF assms(5)] unfolding permits_ok_def by blast

lemma res_step_permits:
  "res_step sha ev a b \<Longrightarrow> rs_wf (fst a) \<Longrightarrow> permits_ok (fst a) (snd a) \<Longrightarrow> permits_ok (fst b) (snd b)"
proof (induction rule: res_step.induct)
  case (res_command s action params ps clk ids io)
  let ?s' = "snd (resources_command sha clk ids io action params s)"
  obtain t q where "rs_res ?s' = (rs_res s)\<lparr>res_table := t, res_quarantined := q\<rparr>"
      and d: "rs_disk ?s' = rs_disk s \<or> rs_disk ?s' = Some (resources_snapshot sha (rs_res ?s'))"
    using command_shape [OF res_command.hyps, of sha action params clk ids io] unfolding command_effect_def by blast
  then have "res_active (rs_res ?s') = res_active (rs_res s)" by simp
  then show ?case unfolding fst_conv snd_conv
    by (intro permits_keep [of s ps ps, OF _ _ _ _ d]) (use res_command.prems(2) in \<open>simp_all add: permits_ok_def\<close>)
next
  case (res_begin clk io requested grants s p s' ps)
  then have path: "res_path (rs_res s) \<noteq> None" by (simp add: rs_wf_def)
  note ok = begin_ok [OF res_begin.hyps path]
  have "distinct p" unfolding ok(1) by (simp add: distinct_dedup_sorted)
  moreover have "set p \<inter> set (res_active (rs_res s)) = {}"
    using begin_check_ok [OF ok(2)] by (auto simp: available_ok)
  moreover have "permits_ok s' ps"
    using begin_effect [OF res_begin.hyps] res_begin.prems(2) ok(3)
    by (intro permits_keep [of s ps ps s' sha]) (auto simp: permits_ok_def)
  ultimately show ?case
    using res_begin.prems(2) ok(3,4) by (auto simp: permits_ok_def)
next
  case (res_refused clk io requested grants s e s' ps)
  from begin_effect [OF res_refused.hyps] have sub: "set (res_active (rs_res s)) \<subseteq> set (res_active (rs_res s'))"
      and d: "rs_disk s' = rs_disk s \<or> rs_disk s' = Some (resources_snapshot sha (rs_res s'))" by auto
  from res_refused.prems(2) subset_trans [OF _ sub] show ?case
    unfolding fst_conv snd_conv by (intro permits_keep [of s ps ps, OF _ _ _ _ d]) (simp_all add: permits_ok_def)
next
  case (res_drop s ps p qs io)
  let ?s1 = "s\<lparr>rs_res := (rs_res s)\<lparr>res_active := filter (\<lambda>k. k \<notin> set p) (res_active (rs_res s))\<rparr>\<rparr>"
  have "permits_ok (snd (resources_persist sha io ?s1)) (ps @ qs)"
    by (rule permits_keep [of s "ps @ p # qs"])
      (use res_drop persist_disk [of sha io ?s1] in \<open>auto simp: permits_ok_def\<close>)
  with res_drop show ?case by (auto simp: permit_drop_def Let_def permits_ok_def)
next
  case (res_crash s path res ps)
  then show ?case by (simp add: permits_ok_def)
qed

definition res_inv :: "resource_store \<times> permit list \<Rightarrow> bool" where
  "res_inv x = (rs_wf (fst x) \<and> permits_ok (fst x) (snd x))"

lemma res_inv_run: "(\<lambda>a b. \<exists>ev. res_step sha ev a b)\<^sup>*\<^sup>* a b \<Longrightarrow> res_inv a \<Longrightarrow> res_inv b"
  by (induction rule: rtranclp_induct) (auto simp: res_inv_def dest: res_step_wf res_step_permits)

definition fresh_store :: "string \<Rightarrow> resource_store" where
  "fresh_store path = \<lparr>rs_res = resources_default\<lparr>res_path := Some path\<rparr>, rs_disk = None\<rparr>"

lemma fresh_store_open: "resources_open path (Inr None) = Inr (rs_res (fresh_store path))"
  by (simp add: resources_open_def fresh_store_def from_snapshot_def resources_default_def lease_table_default_def)

lemma res_inv_fresh: "res_inv (fresh_store path, [])"
  by (simp add: res_inv_def rs_wf_def permits_ok_def fresh_store_def resources_default_def lt_wf_default disk_fence_def disk_leases_def)

text \<open>
  C6. Permits are exclusive and crash-safe: whatever commands, admissions, failed writes,
  drops and crashes happened since the store was first opened, no resource is held by two
  outstanding permits (nor twice by one), every held resource is marked in the file, and
  after a crash the reopened store refuses to admit any operation on it and to lease it,
  reporting that recovery is required.
\<close>

theorem permits_exclusive:
  assumes run: "(\<lambda>a b. \<exists>ev. res_step sha ev a b)\<^sup>*\<^sup>* (fresh_store path, []) (s, ps)"
    and held: "p \<in> set ps" "r \<in> set p"
    and crash: "res_step sha EvCrash (s, ps) (s', ps')"
  shows "distinct (concat ps) \<and> r \<in> set (disk_active s) \<and>
    available (rs_res s') r = Inl (rpc_err ''RESOURCE_RECOVERY_REQUIRED''
      (''uncertain operation on '' @ r @ '' survived Executor restart'')) \<and>
    (r \<in> set requested \<longrightarrow> \<not> is_ok (fst (resources_begin sha clk io requested grants s')))"
proof -
  from res_inv_run [OF run res_inv_fresh] have "permits_ok s ps" by (simp add: res_inv_def)
  with held have d: "distinct (concat ps)" "r \<in> set (disk_active s)" by (auto simp: permits_ok_def)
  from crash d(2) have q: "r \<in> set (res_quarantined (rs_res s'))"
    by (auto elim!: res_step.cases simp: resources_open_def Let_def disk_active_def resources_default_def unwrap_or_def split: option.splits)
  moreover have "\<not> is_ok (fst (resources_begin sha clk io requested grants s'))" if "r \<in> set requested"
  proof
    assume "is_ok (fst (resources_begin sha clk io requested grants s'))"
    then obtain u where "begin_check sha clk grants (rs_res s') (remdups_adj (sort requested)) = Inr u"
      by (auto simp: resources_begin_def Let_def split: sum.splits)
    from begin_check_ok [OF this, of r] that q show False by (simp add: available_ok)
  qed
  ultimately show ?thesis using d by (simp add: available_def)
qed

definition demo_grant_free :: "resource_store \<times> permit list" where
  "demo_grant_free = (snd (resources_begin (\<lambda>s. s) (\<lambda>_. 1) None [''port:80''] [] (fresh_store ''f'')), [[''port:80'']])"

lemma demo_begin:
  "resources_begin (\<lambda>s. s) (\<lambda>_. 1) None [''port:80''] [] (fresh_store ''f'') = (Inr [''port:80''], fst demo_grant_free)"
  by (simp add: demo_grant_free_def resources_begin_def fresh_store_def resources_default_def available_def
      lease_table_default_def lease_get_def bt_get_def resources_persist_def Let_def)

lemma demo_run: "(\<lambda>a b. \<exists>ev. res_step (\<lambda>s. s) ev a b)\<^sup>*\<^sup>* (fresh_store ''f'', []) demo_grant_free"
  using res_begin [OF demo_begin, of "[]"] by (intro r_into_rtranclp exI) (simp add: demo_grant_free_def)

theorem permits_exclusive_witness:
  "\<exists>s' ps'. res_step (\<lambda>s. s) EvCrash demo_grant_free (s', ps') \<and>
     \<not> is_ok (fst (resources_begin (\<lambda>s. s) (\<lambda>_. 2) None [''port:80''] [] s'))"
proof -
  let ?s = "fst demo_grant_free"
  have path: "res_path (rs_res ?s) = Some ''f''"
    by (simp add: demo_grant_free_def resources_begin_def fresh_store_def resources_default_def available_def
      lease_table_default_def lease_get_def bt_get_def resources_persist_def Let_def)
  obtain res where res: "resources_open ''f'' (Inr (rs_disk ?s)) = Inr res" by (simp add: resources_open_def Let_def)
  have run: "(\<lambda>a b. \<exists>ev. res_step (\<lambda>s. s) ev a b)\<^sup>*\<^sup>* (fresh_store ''f'', []) (?s, [[''port:80'']])"
    using demo_run by (simp add: demo_grant_free_def)
  have crash: "res_step (\<lambda>s. s) EvCrash (?s, [[''port:80'']]) (?s\<lparr>rs_res := res\<rparr>, [])"
    by (rule res_crash [OF path res])
  from permits_exclusive [OF run _ _ crash, of "[''port:80'']" "''port:80''" "[''port:80'']"] crash
  show ?thesis by (intro exI conjI) (auto simp: demo_grant_free_def)
qed

text \<open>
  Quarantine is left by a confirmed recovery of that resource only, further crashes included.
\<close>

fun recovers :: "string \<Rightarrow> resource_event \<Rightarrow> bool" where
  "recovers r (EvCommand action params) =
     (action = ''resource.lease.recover'' \<and> get_str params ''resource'' = Some r)"
| "recovers r _ = False"

definition closed :: "string \<Rightarrow> resource_store \<Rightarrow> bool" where
  "closed r s = (r \<in> set (res_quarantined (rs_res s)) \<and> r \<in> set (disk_active s))"

lemma closed_keep:
  assumes "closed r s" "r \<in> set (res_quarantined (rs_res s'))"
    "rs_disk s' = rs_disk s \<or> rs_disk s' = Some (resources_snapshot sha (rs_res s'))"
  shows "closed r s'"
  using assms disk_active_moves [OF assms(3)] by (auto simp: closed_def)

lemma res_step_closed:
  "res_step sha ev a b \<Longrightarrow> \<not> recovers r ev \<Longrightarrow> closed r (fst a) \<Longrightarrow> closed r (fst b)"
proof (induction rule: res_step.induct)
  case (res_command s action params ps clk ids io)
  let ?s' = "snd (resources_command sha clk ids io action params s)"
  from command_shape [OF res_command.hyps, of sha action params clk ids io] res_command.prems
  have "r \<in> set (res_quarantined (rs_res ?s'))"
    and d: "rs_disk ?s' = rs_disk s \<or> rs_disk ?s' = Some (resources_snapshot sha (rs_res ?s'))"
    unfolding command_effect_def by (auto simp: closed_def)
  with res_command.prems show ?case unfolding fst_conv by (intro closed_keep [OF _ _ d]) simp_all
next
  case (res_begin clk io requested grants s p s' ps)
  from begin_effect [OF res_begin.hyps] res_begin.prems show ?case
    unfolding fst_conv by (intro closed_keep [of r s s' sha]) (auto simp: closed_def)
next
  case (res_refused clk io requested grants s e s' ps)
  from begin_effect [OF res_refused.hyps] res_refused.prems show ?case
    unfolding fst_conv by (intro closed_keep [of r s s' sha]) (auto simp: closed_def)
next
  case (res_drop s ps p qs io)
  let ?s1 = "s\<lparr>rs_res := (rs_res s)\<lparr>res_active := filter (\<lambda>k. k \<notin> set p) (res_active (rs_res s))\<rparr>\<rparr>"
  have "closed r (snd (resources_persist sha io ?s1))"
    by (rule closed_keep [of r s])
      (use res_drop persist_disk [of sha io ?s1] in \<open>auto simp: closed_def\<close>)
  with res_drop show ?case by (simp add: permit_drop_def Let_def)
next
  case (res_crash s path res ps)
  then show ?case
    by (auto simp: closed_def resources_open_def Let_def disk_active_def resources_default_def unwrap_or_def split: option.splits)
qed

lemma closed_run:
  "(\<lambda>a b. \<exists>ev. res_step sha ev a b \<and> \<not> recovers r ev)\<^sup>*\<^sup>* a b \<Longrightarrow> closed r (fst a) \<Longrightarrow> closed r (fst b)"
  by (induction rule: rtranclp_induct) (auto dest: res_step_closed)

lemma begin_refused:
  assumes "available (rs_res s) r = Inl e" "r \<in> set requested"
  shows "\<not> is_ok (fst (resources_begin sha clk io requested grants s))"
proof
  assume "is_ok (fst (resources_begin sha clk io requested grants s))"
  then obtain u where "begin_check sha clk grants (rs_res s) (remdups_adj (sort requested)) = Inr u"
    by (auto simp: resources_begin_def Let_def split: sum.splits)
  from begin_check_ok [OF this, of r] assms show False by simp
qed

text \<open>
  C29. An uncertain resource stays closed until an operator vouches for it: along every run with
  further commands, admissions and crashes but no recovery of that resource, it stays
  quarantined in memory and in the file, no operation on it is admitted, and leasing it is
  refused; a recovery without the confirmation changes nothing, and a confirmed one, when the
  resource is not active and the write succeeds, lifts exactly this quarantine.
\<close>

theorem quarantine_until_recovered:
  assumes "closed r s"
    and "(\<lambda>a b. \<exists>ev. res_step sha ev a b \<and> \<not> recovers r ev)\<^sup>*\<^sup>* (s, ps) (s', ps')"
    and "get_str params ''resource'' = Some r" "r \<noteq> []"
  shows "closed r s' \<and>
    (r \<in> set requested \<longrightarrow> \<not> is_ok (fst (resources_begin sha clk io requested grants s'))) \<and>
    \<not> is_ok (fst (resources_command sha clk ids io ''resource.lease.acquire'' params s')) \<and>
    (get_bool params ''confirmExecutionStopped'' \<noteq> Some True \<longrightarrow>
       snd (resources_command sha clk ids io ''resource.lease.recover'' params s') = s') \<and>
    (get_bool params ''confirmExecutionStopped'' = Some True \<longrightarrow> r \<notin> set (res_active (rs_res s')) \<longrightarrow>
       set (res_quarantined (rs_res (snd (resources_command sha clk ids None ''resource.lease.recover'' params s')))) =
         set (res_quarantined (rs_res s')) - {r})"
proof -
  have c: "closed r s'" using closed_run [OF assms(2)] assms(1) by simp
  then have av: "\<exists>e. available (rs_res s') r = Inl e" by (simp add: available_def closed_def)
  have p: "string_param params ''resource'' = Inr r" using assms(3,4) by (simp add: string_param_def)
  have "\<not> is_ok (fst (resources_command sha clk ids io ''resource.lease.acquire'' params s'))"
    using p av by (auto simp: resources_command_def lease_command_def Let_def split: sum.splits)
  then show ?thesis
    using c p av begin_refused
    by (auto simp: resources_command_def Let_def snd_persist_case)
qed

theorem quarantine_until_recovered_witness:
  "\<exists>s. closed ''port:80'' s \<and> \<not> is_ok (fst (resources_begin (\<lambda>s. s) (\<lambda>_. 2) None [''port:80''] [] s))"
proof -
  let ?s = "\<lparr>rs_res = resources_default\<lparr>res_quarantined := [''port:80''], res_path := Some ''f''\<rparr>,
     rs_disk = Some \<lparr>snap_leases = [], snap_fences = [], snap_active = [''port:80'']\<rparr>\<rparr>"
  have c: "closed ''port:80'' ?s" by (simp add: closed_def disk_active_def)
  have "get_str (JObj [(''resource'', JStr ''port:80'')]) ''resource'' = Some ''port:80''"
    by (simp add: get_str_def bt_get_def)
  from quarantine_until_recovered [OF c rtranclp.rtrancl_refl this,
      where requested = "[''port:80'']" and sha = "\<lambda>s. s" and clk = "\<lambda>_. 2" and io = None and grants = "[]"] c
  show ?thesis by (intro exI [of _ ?s]) simp
qed

definition stuck :: "string \<Rightarrow> resource_store \<times> permit list \<Rightarrow> bool" where
  "stuck r x = (r \<in> set (res_active (rs_res (fst x))) \<and> (\<forall>p \<in> set (snd x). r \<notin> set p))"

lemma res_step_stuck:
  "res_step sha ev a b \<Longrightarrow> ev \<noteq> EvCrash \<Longrightarrow> rs_wf (fst a) \<Longrightarrow> stuck r a \<Longrightarrow> stuck r b"
proof (induction rule: res_step.induct)
  case (res_command s action params ps clk ids io)
  from command_shape [OF res_command.hyps, of sha action params clk ids io] res_command.prems show ?case
    unfolding command_effect_def stuck_def by auto
next
  case (res_begin clk io requested grants s p s' ps)
  then have "res_path (rs_res s) \<noteq> None" by (simp add: rs_wf_def)
  note ok = begin_ok [OF res_begin.hyps this]
  from begin_check_ok [OF ok(2), of r] ok(3) res_begin.prems show ?case
    by (auto simp: stuck_def available_ok)
next
  case (res_refused clk io requested grants s e s' ps)
  from begin_effect [OF res_refused.hyps] res_refused.prems show ?case by (auto simp: stuck_def)
next
  case (res_drop s ps p qs io)
  then show ?case by (auto simp: stuck_def permit_drop_def Let_def)
qed simp

lemma stuck_run:
  "(\<lambda>a b. \<exists>ev. res_step sha ev a b \<and> ev \<noteq> EvCrash)\<^sup>*\<^sup>* a b \<Longrightarrow> rs_wf (fst a) \<Longrightarrow> stuck r a \<Longrightarrow> rs_wf (fst b) \<and> stuck r b"
  by (induction rule: rtranclp_induct) (auto dest: res_step_stuck res_step_wf)

lemma begin_write_failed:
  assumes "res_path (rs_res s) \<noteq> None" "is_ok (fst (resources_begin sha clk None requested grants s))" "r \<in> set requested"
  shows "fst (resources_begin sha clk (Some e) requested grants s) = Inl (rpc_err ''RESOURCE_STATE_FAILED'' e)"
    "r \<in> set (res_active (rs_res (snd (resources_begin sha clk (Some e) requested grants s))))"
    "r \<notin> set (res_active (rs_res s))"
proof -
  from assms(2) obtain u where u: "begin_check sha clk grants (rs_res s) (remdups_adj (sort requested)) = Inr u"
      "scope_check (remdups_adj (sort requested)) grants = Inr ()"
    by (auto simp: resources_begin_def Let_def split: sum.splits)
  from assms(3) have ne: "remdups_adj (sort requested) \<noteq> []" by (metis empty_iff list.set(1) remdups_adj_set set_sort)
  from u ne assms(1) show "fst (resources_begin sha clk (Some e) requested grants s) = Inl (rpc_err ''RESOURCE_STATE_FAILED'' e)"
    by (auto simp: resources_begin_def Let_def resources_persist_def)
  from u ne assms(1,3) show "r \<in> set (res_active (rs_res (snd (resources_begin sha clk (Some e) requested grants s))))"
    by (auto simp: resources_begin_def Let_def resources_persist_def set_bs_fold)
  from begin_check_ok [OF u(1), of r] assms(3) show "r \<notin> set (res_active (rs_res s))" by (simp add: available_ok)
qed

text \<open>
  When the write of an otherwise admissible admission fails, the caller gets no permit but the
  resources stay marked: without a restart no later run of commands, admissions and drops
  frees them, every operation on them is refused, and so is their recovery.
\<close>

theorem failed_begin_leaks:
  assumes wf: "res_inv (s, ps)"
    and admissible: "is_ok (fst (resources_begin sha clk None requested grants s))"
    and r: "r \<in> set requested"
    and run: "(\<lambda>a b. \<exists>ev. res_step sha ev a b \<and> ev \<noteq> EvCrash)\<^sup>*\<^sup>*
                 (snd (resources_begin sha clk (Some e) requested grants s), ps) (s', ps')"
  shows "fst (resources_begin sha clk (Some e) requested grants s) = Inl (rpc_err ''RESOURCE_STATE_FAILED'' e) \<and>
    (\<forall>p \<in> set ps'. r \<notin> set p) \<and>
    \<not> is_ok (fst (resources_begin sha clk' io requested grants' s')) \<and>
    (get_str params ''resource'' = Some r \<longrightarrow>
       \<not> is_ok (fst (resources_command sha clk' ids io ''resource.lease.recover'' params s')))"
proof -
  let ?s1 = "snd (resources_begin sha clk (Some e) requested grants s)"
  have path: "res_path (rs_res s) \<noteq> None" using wf by (simp add: res_inv_def rs_wf_def)
  note failed = begin_write_failed [OF path admissible r]
  have "rs_wf ?s1"
    using res_step_wf [of sha EvBegin "(s, ps)" "(?s1, ps)"] failed(1) wf
    by (metis fst_conv prod.collapse res_inv_def res_refused)
  moreover have "stuck r (?s1, ps)" using failed wf by (auto simp: stuck_def res_inv_def permits_ok_def)
  ultimately have st: "stuck r (s', ps')" using stuck_run [OF run] by auto
  then have "\<exists>e. available (rs_res s') r = Inl e" by (simp add: available_def stuck_def)
  moreover have "\<not> is_ok (fst (resources_command sha clk' ids io ''resource.lease.recover'' params s'))"
    if "get_str params ''resource'' = Some r"
    using that st by (auto simp: resources_command_def Let_def string_param_def stuck_def)
  ultimately show ?thesis using st failed(1) r begin_refused by (auto simp: stuck_def)
qed

theorem failed_begin_leaks_witness:
  "fst (resources_begin (\<lambda>s. s) (\<lambda>_. 1) (Some ''disk full'') [''port:80''] [] (fresh_store ''f'')) =
     Inl (rpc_err ''RESOURCE_STATE_FAILED'' ''disk full'') \<and>
   \<not> is_ok (fst (resources_begin (\<lambda>s. s) (\<lambda>_. 2) None [''port:80''] []
     (snd (resources_begin (\<lambda>s. s) (\<lambda>_. 1) (Some ''disk full'') [''port:80''] [] (fresh_store ''f'')))))"
proof -
  have "is_ok (fst (resources_begin (\<lambda>s. s) (\<lambda>_. 1) None [''port:80''] [] (fresh_store ''f'')))"
    by (simp add: demo_begin)
  from failed_begin_leaks [OF res_inv_fresh this, where r = "''port:80''" and e = "''disk full''", OF _ rtranclp.rtrancl_refl]
  show ?thesis by simp
qed

lemma acquire_get:
  "lt_wf t \<Longrightarrow> acquire now u1 u2 kind r ow ttl t = (Inr l, t') \<Longrightarrow> lease_get t' r = Some l"
  by (auto simp: acquire_def Let_def lease_get_def bt_simps lt_wfD(1) split: option.splits if_splits)

lemma acquire_command:
  assumes "resources_command sha clk ids io ''resource.lease.acquire'' params s = (Inr v, s')"
    and "get_str params ''resource'' = Some r" "res_path (rs_res s) \<noteq> None"
  obtains ow ttl l where "acquire (clk 0) (ids 0) (ids 1) LeaseResource r ow ttl (res_table (rs_res s)) = (Inr l, res_table (rs_res s'))"
    "v = lease_json l" "disk_fence s' = fence_of (res_table (rs_res s'))"
proof -
  from assms(1,2) have r: "string_param params ''resource'' = Inr r"
    by (auto simp: string_param_def resources_command_def Let_def split: if_splits)
  then obtain ow where ow: "string_param params ''owner'' = Inr ow"
    using assms(1) by (auto simp: resources_command_def Let_def split: sum.splits)
  let ?ttl = "unwrap_or 300000 (get_u64 params ''ttlMs'')"
  let ?a = "acquire (clk 0) (ids 0) (ids 1) LeaseResource r ow ?ttl (res_table (rs_res s))"
  obtain x t where a: "?a = (x, t)" by fastforce
  have av: "available (rs_res s) r = Inr ()"
    using assms(1) r ow by (cases "available (rs_res s) r") (auto simp: resources_command_def lease_command_def Let_def split: if_splits)
  with assms(1) r ow a obtain l where l: "x = Inr l" "v = lease_json l"
      "resources_persist sha io (s\<lparr>rs_res := (rs_res s)\<lparr>res_table := t\<rparr>\<rparr>) = (Inr (), s')"
    by (cases x) (auto simp: resources_command_def lease_command_def Let_def split: if_splits prod.splits sum.splits)
  with assms(3) persist_ok [OF l(3)] have "s' = s\<lparr>rs_res := (rs_res s)\<lparr>res_table := t\<rparr>,
      rs_disk := Some (resources_snapshot sha ((rs_res s)\<lparr>res_table := t\<rparr>))\<rparr>" by simp
  then have "res_table (rs_res s') = t" "disk_fence s' = fence_of (res_table (rs_res s'))"
    by (simp_all add: written_fence [of _ sha])
  with a l that show thesis by simp
qed

text \<open>
  Fencing numbers that were handed out grow across crashes and failed writes: of two
  leases of one resource that the Executor answered with, with any run in between (crashes,
  which lose whatever was not written, included), the later has the larger number.
\<close>

theorem resource_fencing:
  assumes "res_inv (s0, ps)"
    and first: "resources_command sha clk1 ids1 io1 ''resource.lease.acquire'' params1 s0 = (Inr v1, s1)"
    and run: "(\<lambda>a b. \<exists>ev. res_step sha ev a b)\<^sup>*\<^sup>* (s1, ps) (s2, ps2)"
    and second: "resources_command sha clk2 ids2 io2 ''resource.lease.acquire'' params2 s2 = (Inr v2, s3)"
    and res: "get_str params1 ''resource'' = Some r" "get_str params2 ''resource'' = Some r"
    and left: "counters_left (res_table (rs_res s0))" "counters_left (res_table (rs_res s2))"
  shows "\<exists>f1 f2. get_u64 v1 ''fence'' = Some f1 \<and> get_u64 v2 ''fence'' = Some f2 \<and> f1 < f2"
proof -
  have wf0: "rs_wf s0" using assms(1) by (simp add: res_inv_def)
  have s1: "s1 = snd (resources_command sha clk1 ids1 io1 ''resource.lease.acquire'' params1 s0)" using first by simp
  have wf1: "rs_wf s1" using res_step_wf [OF res_command [OF left(1)]] wf0 unfolding s1 by simp
  have wf2: "rs_wf s2" using rt.inv_steps [OF run] wf1 by simp
  then have path2: "res_path (rs_res s2) \<noteq> None" by (simp add: rs_wf_def)
  obtain ow1 ttl1 l1 where a1: "acquire (clk1 0) (ids1 0) (ids1 1) LeaseResource r ow1 ttl1 (res_table (rs_res s0)) = (Inr l1, res_table (rs_res s1))"
      "v1 = lease_json l1" "disk_fence s1 = fence_of (res_table (rs_res s1))"
    using acquire_command [OF first res(1)] wf0 by (auto simp: rs_wf_def)
  obtain ow2 ttl2 l2 where a2: "acquire (clk2 0) (ids2 0) (ids2 1) LeaseResource r ow2 ttl2 (res_table (rs_res s2)) = (Inr l2, res_table (rs_res s3))"
      "v2 = lease_json l2"
    by (rule acquire_command [OF second res(2) path2]) blast
  have "lease_get (res_table (rs_res s1)) r = Some l1"
    using acquire_get [OF _ a1(1)] wf0 by (simp add: rs_wf_def)
  then have "lease_fence l1 \<le> disk_fence s1 r" using lt_wf_fence wf1 a1(3) by (simp add: rs_wf_def)
  also have "\<dots> \<le> disk_fence s2 r" using rt.fence_steps [OF run] wf1 by simp
  also have "\<dots> \<le> fence_of (res_table (rs_res s2)) r" using wf2 by (simp add: rs_wf_def)
  also have "\<dots> < lease_fence l2" using a2(1) acquire_Inr u64_less_succ counters_leftD [OF left(2)] by (metis fst_conv)
  finally show ?thesis
    using a1(2) a2(2) by (simp add: lease_json_def get_u64_def bt_get_def junum_def)
qed

definition demo_acquire :: json where
  "demo_acquire = JObj [(''owner'', JStr ''ann''), (''resource'', JStr ''port:80''), (''ttlMs'', jnat 10)]"

lemmas resource_eval = demo_acquire_def resources_command_def lease_command_def Let_def string_param_def get_str_def
  get_u64_def bt_get_def jnat_def fresh_store_def resources_default_def available_def lease_table_default_def
  acquire_def sat_add_def resources_persist_def counters_left_def

lemma demo_acquire_ok:
  "\<exists>v s'. resources_command (\<lambda>s. s) (\<lambda>_. 1) (\<lambda>_. ''a'') None ''resource.lease.acquire'' demo_acquire (fresh_store ''f'') = (Inr v, s') \<and>
     (\<exists>v' s''. resources_command (\<lambda>s. s) (\<lambda>_. 99) (\<lambda>_. ''b'') None ''resource.lease.acquire'' demo_acquire s' = (Inr v', s'')) \<and>
     counters_left (res_table (rs_res s'))"
  by (simp add: resource_eval)

theorem resource_fencing_witness:
  "\<exists>v1 s1 v2 s2 f1 f2.
     resources_command (\<lambda>s. s) (\<lambda>_. 1) (\<lambda>_. ''a'') None ''resource.lease.acquire'' demo_acquire (fresh_store ''f'') = (Inr v1, s1) \<and>
     resources_command (\<lambda>s. s) (\<lambda>_. 99) (\<lambda>_. ''b'') None ''resource.lease.acquire'' demo_acquire s1 = (Inr v2, s2) \<and>
     get_u64 v1 ''fence'' = Some f1 \<and> get_u64 v2 ''fence'' = Some f2 \<and> f1 < f2"
proof -
  obtain v1 s1 v2 s2 where a:
      "resources_command (\<lambda>s. s) (\<lambda>_. 1) (\<lambda>_. ''a'') None ''resource.lease.acquire'' demo_acquire (fresh_store ''f'') = (Inr v1, s1)"
      "resources_command (\<lambda>s. s) (\<lambda>_. 99) (\<lambda>_. ''b'') None ''resource.lease.acquire'' demo_acquire s1 = (Inr v2, s2)"
      "counters_left (res_table (rs_res s1))"
    using demo_acquire_ok by blast
  have r: "get_str demo_acquire ''resource'' = Some ''port:80''" by (simp add: demo_acquire_def get_str_def bt_get_def)
  have "counters_left (res_table (rs_res (fresh_store ''f'')))" by (simp add: resource_eval)
  from resource_fencing [OF res_inv_fresh a(1) rtranclp.rtrancl_refl a(2) r r this a(3)] a show ?thesis by blast
qed

end
