(* ===== verification/Observability.thy ===== *)
theory Observability
  imports Protocol
begin

section \<open>The observability store\<close>

text \<open>
  \<^verbatim>\<open>crates/workbench-core/src/observability.rs\<close>: the two tables behind the dashboard. A table is
  the list of its rows in row order; each statement of the source is the list operation it
  denotes, and a row's payload is the value its JSON decodes to. Of the database's own
  failures the model has those the statements can cause: a duplicate key, and an integer
  above the 63 bits of a column (\<open>ObsSql\<close>). The sizes the file system reports for the database
  files are the sequence \<open>sz\<close>, one reading for each test of the pruning loop.
\<close>

definition RETENTION_MS :: u64 where
  "RETENTION_MS = 30 * 24 * 60 * 60 * 1000"

definition MAX_BYTES :: u64 where
  "MAX_BYTES = 1024 * 1024 * 1024"

datatype observability_error = ObsSql | ObsRunNotFound string | ObsInvalidTransition string

record observation_query =
  oq_run_id :: "string option"
  oq_after_event_id :: "u64 option"
  oq_limit :: nat

record run_row =
  rr_run_id :: string
  rr_payload :: run
  rr_started_at :: u64
  rr_status :: string

record observation_row =
  or_event_id :: u64
  or_run_id :: "string option"
  or_timestamp :: u64
  or_payload :: observation

text \<open>\<open>os_sequence\<close> is the last identifier the table handed out, deleted rows included.\<close>

record observability_store =
  os_runs :: "run_row list"
  os_observations :: "observation_row list"
  os_sequence :: u64

definition observability_open :: observability_store where
  "observability_open = \<lparr>os_runs = [], os_observations = [], os_sequence = 0\<rparr>"

definition sql_integer :: "u64 \<Rightarrow> bool" where
  "sql_integer n = (n \<le> 0x7FFFFFFFFFFFFFFF)"

definition start_run :: "run \<Rightarrow> observability_store \<Rightarrow> (observability_error + unit) \<times> observability_store" where
  "start_run r s =
     (if \<not> sql_integer (run_started_at r) \<or> list_ex (\<lambda>row. rr_run_id row = run_id r) (os_runs s)
      then (Inl ObsSql, s)
      else (Inr (), s\<lparr>os_runs := os_runs s @
             [\<lparr>rr_run_id = run_id r, rr_payload = r, rr_started_at = run_started_at r,
               rr_status = ''running''\<rparr>]\<rparr>))"

definition get_run :: "observability_store \<Rightarrow> string \<Rightarrow> run option" where
  "get_run s i = map_option rr_payload (find (\<lambda>row. rr_run_id row = i) (os_runs s))"

fun run_status_name :: "run_status \<Rightarrow> string" where
  "run_status_name RunRunning = ''running''"
| "run_status_name RunCompleted = ''completed''"
| "run_status_name RunCancelled = ''cancelled''"
| "run_status_name RunInterrupted = ''interrupted''"

definition run_health_after :: "run_status \<Rightarrow> string option \<Rightarrow> run_health" where
  "run_health_after status outcome =
     (if outcome = Some ''failed'' then RunFailed
      else case status of
             RunCompleted \<Rightarrow> RunHealthy
           | RunCancelled \<Rightarrow> RunDegraded
           | RunInterrupted \<Rightarrow> RunDegraded
           | RunRunning \<Rightarrow> RunUnknown)"

definition finish_run ::
  "string \<Rightarrow> run_status \<Rightarrow> u64 \<Rightarrow> string option \<Rightarrow> observability_store
    \<Rightarrow> (observability_error + run) \<times> observability_store" where
  "finish_run i status finished_at outcome s =
     (if status = RunRunning
      then (Inl (ObsInvalidTransition ''finished run cannot remain running''), s)
      else case get_run s i of
             None \<Rightarrow> (Inl (ObsRunNotFound i), s)
           | Some r \<Rightarrow>
               if run_status r \<noteq> RunRunning
               then (Inl (ObsInvalidTransition (''run '' @ i @ '' is already terminal'')), s)
               else let r' = r\<lparr>run_status := status, run_finished_at := Some finished_at,
                               run_business_outcome := outcome,
                               run_health := run_health_after status outcome\<rparr>
                    in (Inr r', s\<lparr>os_runs := map (\<lambda>row.
                          if rr_run_id row = i
                          then row\<lparr>rr_payload := r', rr_status := run_status_name status\<rparr>
                          else row) (os_runs s)\<rparr>))"

definition clamp :: "nat \<Rightarrow> nat \<Rightarrow> nat \<Rightarrow> nat" where
  "clamp lo hi n = max lo (min hi n)"

definition list_runs :: "nat \<Rightarrow> observability_store \<Rightarrow> run list" where
  "list_runs limit s =
     take (clamp 1 500 limit) (map rr_payload (sort_key (\<lambda>row. - int (unat (rr_started_at row))) (os_runs s)))"

definition append_observation ::
  "observation \<Rightarrow> observability_store \<Rightarrow> (observability_error + u64) \<times> observability_store" where
  "append_observation ob s =
     (if \<not> sql_integer (ob_timestamp ob) \<or> os_sequence s = 0x7FFFFFFFFFFFFFFF
      then (Inl ObsSql, s)
      else let i = os_sequence s + 1 in
           (Inr i, s\<lparr>os_sequence := i,
              os_observations := os_observations s @
                [\<lparr>or_event_id = i, or_run_id = ob_run_id ob,
                  or_timestamp = ob_timestamp ob, or_payload = ob\<lparr>ob_event_id := 0\<rparr>\<rparr>]\<rparr>))"

definition row_matches :: "observation_query \<Rightarrow> observation_row \<Rightarrow> bool" where
  "row_matches q row =
     ((oq_run_id q = None \<or> or_run_id row = oq_run_id q)
      \<and> unwrap_or 0 (oq_after_event_id q) < or_event_id row)"

text \<open>The rows are in identifier order already: an identifier is larger than all before it.\<close>

definition query_observations ::
  "observation_query \<Rightarrow> observability_store \<Rightarrow> observability_error + observation list" where
  "query_observations q s =
     (if \<not> sql_integer (unwrap_or 0 (oq_after_event_id q)) then Inl ObsSql
      else Inr (map (\<lambda>row. (or_payload row)\<lparr>ob_event_id := or_event_id row\<rparr>)
             (take (clamp 1 1000 (oq_limit q))
                (sort_key or_event_id (filter (row_matches q) (os_observations s))))))"

text \<open>
  One round deletes the oldest tenth of the observations, at least one; the loop ends when the
  database is small enough or the table is empty.
\<close>

function prune_loop ::
  "(nat \<Rightarrow> u64) \<Rightarrow> u64 \<Rightarrow> observation_row list \<Rightarrow> nat \<Rightarrow> nat \<times> observation_row list" where
  "prune_loop sz max_bytes rows removed =
     (if sz 0 \<le> max_bytes \<or> rows = [] then (removed, rows)
      else let batch = max 1 (length rows div 10)
           in prune_loop (\<lambda>n. sz (Suc n)) max_bytes (drop batch rows) (removed + batch))"
  by pat_completeness auto
termination
  by (relation "measure (\<lambda>(sz, m, rows, removed). length rows)") (auto simp: max_def)

declare prune_loop.simps [simp del]

definition prune_with_max_bytes ::
  "(nat \<Rightarrow> u64) \<Rightarrow> u64 \<Rightarrow> u64 \<Rightarrow> observability_store
    \<Rightarrow> (observability_error + nat) \<times> observability_store" where
  "prune_with_max_bytes sz now_ms max_bytes s =
     (let cutoff = sat_sub now_ms RETENTION_MS in
      if \<not> sql_integer cutoff then (Inl ObsSql, s)
      else let rows = filter (\<lambda>row. \<not> or_timestamp row < cutoff) (os_observations s);
               expired = length (os_observations s) - length rows;
               (removed, rows') = prune_loop sz max_bytes rows expired
           in (Inr removed,
               s\<lparr>os_observations := rows',
                 os_runs := filter (\<lambda>row. \<not> (rr_started_at row < cutoff \<and> rr_status row \<noteq> ''running''))
                              (os_runs s)\<rparr>))"

definition prune_observations ::
  "(nat \<Rightarrow> u64) \<Rightarrow> u64 \<Rightarrow> observability_store
    \<Rightarrow> (observability_error + nat) \<times> observability_store" where
  "prune_observations sz now_ms s = prune_with_max_bytes sz now_ms MAX_BYTES s"

subsection \<open>Well-formedness\<close>

text \<open>
  Observation identifiers increase along the table and never exceed the sequence; run
  identifiers are unique, and a row's status column says what its payload says.
\<close>

definition os_wf :: "observability_store \<Rightarrow> bool" where
  "os_wf s = (sorted_wrt (<) (map or_event_id (os_observations s)) \<and>
     list_all (\<lambda>row. or_event_id row \<le> os_sequence s) (os_observations s) \<and>
     os_sequence s \<le> 0x7FFFFFFFFFFFFFFF \<and>
     distinct (map rr_run_id (os_runs s)) \<and>
     list_all (\<lambda>row. rr_run_id row = run_id (rr_payload row) \<and> rr_started_at row = run_started_at (rr_payload row) \<and>
       (rr_status row = ''running'' \<longleftrightarrow> run_status (rr_payload row) = RunRunning)) (os_runs s))"

lemma os_wf_open [wf_intros]: "os_wf observability_open"
  by (simp add: os_wf_def observability_open_def)

lemma sequence_succ:
  assumes "n \<le> 0x7FFFFFFFFFFFFFFF" "n \<noteq> (0x7FFFFFFFFFFFFFFF :: u64)"
  shows "n < n + 1 \<and> n + 1 \<le> 0x7FFFFFFFFFFFFFFF"
proof -
  from assms have "n < 0x7FFFFFFFFFFFFFFF" by simp
  then have "n + 1 \<le> 0x7FFFFFFFFFFFFFFF" by (rule inc_le)
  moreover have "n \<noteq> - 1" using assms(1) by (auto simp: word_le_nat_alt)
  ultimately show ?thesis using u64_less_succ by blast
qed

lemma os_wf_append [wf_intros]: "os_wf s \<Longrightarrow> os_wf (snd (append_observation ob s))"
  using sequence_succ [of "os_sequence s"]
  by (auto simp: append_observation_def Let_def os_wf_def sorted_wrt_append list_all_iff intro: le_less_trans order_trans less_imp_le)

lemma os_wf_start_run [wf_intros]: "os_wf s \<Longrightarrow> run_status r = RunRunning \<Longrightarrow> os_wf (snd (start_run r s))"
  by (auto simp: start_run_def os_wf_def list_ex_iff)

lemma get_run_row:
  "os_wf s \<Longrightarrow> row \<in> set (os_runs s) \<Longrightarrow> get_run s (rr_run_id row) = Some (rr_payload row)"
  by (simp add: get_run_def os_wf_def find_distinct_key)

lemma get_run_Some:
  assumes "os_wf s" "get_run s i = Some r"
  obtains row where "row \<in> set (os_runs s)" "rr_run_id row = i" "rr_payload row = r" "run_id r = i"
    "rr_status row = ''running'' \<longleftrightarrow> run_status r = RunRunning"
proof -
  from assms(2) obtain row where "row \<in> set (os_runs s)" "rr_run_id row = i" "rr_payload row = r"
    by (auto simp: get_run_def find_Some_iff dest: nth_mem)
  with assms(1) that show thesis by (auto simp: os_wf_def list_all_iff)
qed

definition finished :: "run_status \<Rightarrow> u64 \<Rightarrow> string option \<Rightarrow> run \<Rightarrow> run" where
  "finished status t outcome r = r\<lparr>run_status := status, run_finished_at := Some t,
     run_business_outcome := outcome, run_health := run_health_after status outcome\<rparr>"

definition finish_row :: "string \<Rightarrow> run \<Rightarrow> run_row \<Rightarrow> run_row" where
  "finish_row i r row = (if rr_run_id row = i
     then row\<lparr>rr_payload := r, rr_status := run_status_name (run_status r)\<rparr> else row)"

lemma finish_run_cases:
  obtains "snd (finish_run i status t outcome s) = s" "\<not> is_ok (fst (finish_run i status t outcome s))"
  | r where "get_run s i = Some r" "run_status r = RunRunning" "status \<noteq> RunRunning"
    "finish_run i status t outcome s = (Inr (finished status t outcome r),
       s\<lparr>os_runs := map (finish_row i (finished status t outcome r)) (os_runs s)\<rparr>)"
proof (cases "status = RunRunning \<or> get_run s i = None \<or> run_status (the (get_run s i)) \<noteq> RunRunning")
  case True
  then show ?thesis by (intro that(1)) (auto simp: finish_run_def Let_def split: option.split)
next
  case False
  then obtain r where "get_run s i = Some r" "run_status r = RunRunning" "status \<noteq> RunRunning" by auto
  then show ?thesis
    by (intro that(2)) (auto simp: finish_run_def Let_def finished_def finish_row_def [abs_def])
qed

lemma finish_row_fields [simp]:
  "rr_run_id (finish_row i r row) = rr_run_id row" "rr_started_at (finish_row i r row) = rr_started_at row"
  by (simp_all add: finish_row_def)

lemma os_wf_finish_run [wf_intros]:
  assumes "os_wf s"
  shows "os_wf (snd (finish_run i status t outcome s))"
proof (rule finish_run_cases [of i status t outcome s])
  fix r assume r: "get_run s i = Some r" "run_status r = RunRunning" "status \<noteq> RunRunning"
    and f: "finish_run i status t outcome s = (Inr (finished status t outcome r),
       s\<lparr>os_runs := map (finish_row i (finished status t outcome r)) (os_runs s)\<rparr>)"
  have name: "run_status_name status \<noteq> ''running''" using r(3) by (cases status) auto
  have "rr_run_id row = run_id (rr_payload (finish_row i (finished status t outcome r) row)) \<and>
      rr_started_at row = run_started_at (rr_payload (finish_row i (finished status t outcome r) row)) \<and>
      (rr_status (finish_row i (finished status t outcome r) row) = ''running'' \<longleftrightarrow>
         run_status (rr_payload (finish_row i (finished status t outcome r) row)) = RunRunning)" if "row \<in> set (os_runs s)" for row
  proof (cases "rr_run_id row = i")
    case True
    with get_run_row [OF assms that] r(1) have "rr_payload row = r" by simp
    with that assms True r name show ?thesis by (auto simp: os_wf_def list_all_iff finish_row_def finished_def)
  next
    case False
    with that assms show ?thesis by (simp add: os_wf_def list_all_iff finish_row_def)
  qed
  moreover have "map rr_run_id (map (finish_row i (finished status t outcome r)) (os_runs s)) = map rr_run_id (os_runs s)" by simp
  ultimately show ?thesis using assms f by (simp add: os_wf_def list_all_iff comp_def)
qed (use assms in simp)

lemma prune_loop_drop:
  "\<exists>k \<le> length rows. prune_loop sz m rows n = (n + k, drop k rows) \<and> (k = length rows \<or> (\<exists>j. sz j \<le> m))"
proof (induction sz m rows n rule: prune_loop.induct)
  case (1 sz m rows n)
  show ?case
  proof (cases "sz 0 \<le> m \<or> rows = []")
    case True
    then show ?thesis by (subst prune_loop.simps) (auto intro!: exI [of _ 0])
  next
    case False
    define b where "b = max 1 (length rows div 10)"
    have b: "b \<le> length rows" using False by (auto simp: b_def Suc_leI)
    from 1 [OF False b_def] obtain k where k: "k \<le> length (drop b rows)"
        "prune_loop (\<lambda>n. sz (Suc n)) m (drop b rows) (n + b) = (n + b + k, drop k (drop b rows))"
        "k = length (drop b rows) \<or> (\<exists>j. sz (Suc j) \<le> m)" by blast
    have "prune_loop sz m rows n = prune_loop (\<lambda>n. sz (Suc n)) m (drop b rows) (n + b)"
      using False by (subst prune_loop.simps) (simp add: b_def Let_def)
    with k(2) have "prune_loop sz m rows n = (n + (b + k), drop (b + k) rows)" by (simp add: add.commute)
    with k b show ?thesis by (intro exI [of _ "b + k"]) auto
  qed
qed

lemma os_wf_prune [wf_intros]: "os_wf s \<Longrightarrow> os_wf (snd (prune_with_max_bytes sz now m s))"
proof -
  assume wf: "os_wf s"
  let ?c = "sat_sub now RETENTION_MS"
  let ?rows = "filter (\<lambda>row. \<not> or_timestamp row < ?c) (os_observations s)"
  obtain k where k: "prune_loop sz m ?rows (length (os_observations s) - length ?rows) =
      (length (os_observations s) - length ?rows + k, drop k ?rows)"
    using prune_loop_drop [of ?rows sz m "length (os_observations s) - length ?rows"] by blast
  have "sorted_wrt (<) (map or_event_id (drop k ?rows))"
    using wf by (simp add: os_wf_def drop_map [symmetric] sorted_wrt_drop) (simp add: sorted_wrt_map sorted_wrt_filter sorted_wrt_drop)
  moreover have "set (drop k ?rows) \<subseteq> set (os_observations s)" by (meson filter_is_subset set_drop_subset subset_trans)
  ultimately show ?thesis
    using wf k by (auto simp: prune_with_max_bytes_def Let_def os_wf_def list_all_iff distinct_map_filter)
qed

lemma sort_sorted_rows: "sorted_wrt (<) (map or_event_id rows) \<Longrightarrow> sort_key or_event_id rows = rows"
  by (intro sort_key_id_if_sorted strict_sorted_imp_sorted)

lemma sorted_le_last:
  "sorted_wrt (\<lambda>a b. f a < (f b :: u64)) xs \<Longrightarrow> a \<in> set xs \<Longrightarrow> f a \<le> f (last xs)"
  by (induction xs) (auto intro: less_imp_le)

lemma query_rows:
  assumes "os_wf s" "sql_integer (unwrap_or 0 (oq_after_event_id q))"
  shows "query_observations q s = Inr (map (\<lambda>row. (or_payload row)\<lparr>ob_event_id := or_event_id row\<rparr>)
    (take (clamp 1 1000 (oq_limit q)) (filter (row_matches q) (os_observations s))))"
proof -
  have "sorted_wrt (<) (map or_event_id (filter (row_matches q) (os_observations s)))"
    using assms(1) by (simp add: os_wf_def sorted_wrt_map sorted_wrt_filter)
  with assms(2) show ?thesis by (simp add: query_observations_def sort_sorted_rows)
qed

text \<open>
  Reading the observations page by page loses nothing and repeats nothing: the page a
  query returns is the oldest part of what lies after its cursor, and the observations after
  the cursor are exactly that page followed by those after the page's last identifier, so the
  reader who continues from there sees every matching observation once, in order.
\<close>

theorem observation_paging:
  assumes wf: "os_wf s" and q: "query_observations q s = Inr page" and ne: "page \<noteq> []"
    and q': "q' = q\<lparr>oq_after_event_id := Some (ob_event_id (last page))\<rparr>"
  shows "map or_event_id (filter (row_matches q) (os_observations s)) =
    map ob_event_id page @ map or_event_id (filter (row_matches q') (os_observations s))"
proof -
  have int: "sql_integer (unwrap_or 0 (oq_after_event_id q))" using q by (simp add: query_observations_def split: if_splits)
  define rows where "rows = filter (row_matches q) (os_observations s)"
  define n where "n = clamp 1 1000 (oq_limit q)"
  have page: "map ob_event_id page = map or_event_id (take n rows)"
    using query_rows [OF wf int] q by (auto simp: rows_def n_def)
  have tk: "take n rows \<noteq> []" using page ne by (metis map_is_Nil_conv)
  have last: "ob_event_id (last page) = or_event_id (last (take n rows))"
    using page ne tk by (metis last_map)
  have sorted: "sorted_wrt (\<lambda>a b. or_event_id a < or_event_id b) (take n rows @ drop n rows)"
    using wf by (simp add: rows_def os_wf_def sorted_wrt_map sorted_wrt_filter)
  have le: "or_event_id a \<le> or_event_id (last (take n rows))" if "a \<in> set (take n rows)" for a
    using that sorted by (intro sorted_le_last) (simp_all add: sorted_wrt_append del: append_take_drop_id)
  have gt: "or_event_id (last (take n rows)) < or_event_id b" if "b \<in> set (drop n rows)" for b
    using that sorted last_in_set [OF tk] by (simp add: sorted_wrt_append del: append_take_drop_id)
  have "filter (row_matches q') (os_observations s) = filter (\<lambda>row. or_event_id (last (take n rows)) < or_event_id row) rows"
  proof -
    have "row_matches q (last (take n rows))" using last_in_set [OF tk] in_set_takeD by (fastforce simp: rows_def)
    then show ?thesis
      unfolding rows_def filter_filter by (intro filter_cong) (auto simp: q' last row_matches_def rows_def)
  qed
  also have "\<dots> = drop n rows"
    using le gt by (subst append_take_drop_id [of n rows, symmetric], subst filter_append) (auto simp: not_less intro: filter_True)
  finally show ?thesis using page by (simp flip: map_append rows_def)
qed

definition demo_observation :: "u64 \<Rightarrow> observation" where
  "demo_observation t = \<lparr>ob_event_id = 0, ob_run_id = Some ''r'', ob_timestamp = t, ob_node_id = ''n'', ob_role = ''controller'',
     ob_kind = ''task'', ob_name = ''x'', ob_status = ''ok'', ob_duration_ms = None, ob_span_id = None, ob_parent_span_id = None,
     ob_request_id = None, ob_task_id = None, ob_process_id = None, ob_connection_id = None, ob_attributes = JNull\<rparr>"

definition demo_observations :: observability_store where
  "demo_observations = snd (append_observation (demo_observation 9) (snd (append_observation (demo_observation 8) observability_open)))"

lemma demo_observations_wf: "os_wf demo_observations"
  by (simp add: demo_observations_def wf_intros)

lemma demo_observations_eval:
  "demo_observations = \<lparr>os_runs = [], os_observations =
     [\<lparr>or_event_id = 1, or_run_id = Some ''r'', or_timestamp = 8, or_payload = demo_observation 8\<rparr>,
      \<lparr>or_event_id = 2, or_run_id = Some ''r'', or_timestamp = 9, or_payload = demo_observation 9\<rparr>], os_sequence = 2\<rparr>"
  by (simp add: demo_observations_def append_observation_def observability_open_def sql_integer_def demo_observation_def Let_def)

theorem observation_paging_witness:
  "\<exists>page. query_observations \<lparr>oq_run_id = None, oq_after_event_id = None, oq_limit = 1\<rparr> demo_observations = Inr page \<and>
     map ob_event_id page = [1] \<and>
     filter (row_matches \<lparr>oq_run_id = None, oq_after_event_id = Some 1, oq_limit = 1\<rparr>) (os_observations demo_observations) \<noteq> []"
proof -
  let ?q = "\<lparr>oq_run_id = None, oq_after_event_id = None, oq_limit = 1\<rparr> :: observation_query"
  obtain page where p: "query_observations ?q demo_observations = Inr page" "map ob_event_id page = [1]"
    by (simp add: query_observations_def sql_integer_def demo_observations_eval row_matches_def clamp_def)
  then have "page \<noteq> []" "ob_event_id (last page) = 1" by (auto simp: last_conv_nth)
  with observation_paging [OF demo_observations_wf p(1) _ refl] p show ?thesis
    by (auto simp: demo_observations_eval row_matches_def)
qed

text \<open>Runs of the store; the process may prune at any time.\<close>

inductive obs_step :: "observability_store \<Rightarrow> observability_store \<Rightarrow> bool" where
  obs_start: "run_status r = RunRunning \<Longrightarrow> obs_step s (snd (start_run r s))"
| obs_finish: "obs_step s (snd (finish_run i status t outcome s))"
| obs_append: "obs_step s (snd (append_observation ob s))"
| obs_prune: "obs_step s (snd (prune_with_max_bytes sz now m s))"

lemma obs_step_wf: "obs_step s s' \<Longrightarrow> os_wf s \<Longrightarrow> os_wf s'"
  by (induction rule: obs_step.induct) (auto intro: wf_intros)

lemma obs_step_sequence: "obs_step s s' \<Longrightarrow> os_wf s \<Longrightarrow> os_sequence s \<le> os_sequence s'"
proof (induction rule: obs_step.induct)
  case (obs_finish s i status t outcome)
  show ?case by (rule finish_run_cases [of i status t outcome s]) auto
next
  case (obs_append s ob)
  then show ?case using sequence_succ [of "os_sequence s"] by (auto simp: append_observation_def Let_def os_wf_def less_imp_le)
qed (auto simp: start_run_def prune_with_max_bytes_def Let_def case_prod_beta)

text \<open>What a run's row may become, and that only pruning takes it away.\<close>

definition run_evolves :: "run \<Rightarrow> run \<Rightarrow> bool" where
  "run_evolves a b = (b = a \<or> (run_status a = RunRunning \<and> (\<exists>status t outcome. status \<noteq> RunRunning \<and> b = finished status t outcome a)))"

lemma get_run_finish:
  assumes "os_wf s" "get_run s i = Some r"
  shows "get_run (s\<lparr>os_runs := map (finish_row i r') (os_runs s)\<rparr>) j = (if j = i then Some r' else get_run s j)"
proof -
  have "find (\<lambda>row. rr_run_id row = j) (map (finish_row i r') rows) = map_option (finish_row i r') (find (\<lambda>row. rr_run_id row = j) rows)" for rows
    by (induction rows) auto
  with assms(2) show ?thesis
    by (cases "find (\<lambda>row. rr_run_id row = j) (os_runs s)") (auto simp: get_run_def finish_row_def dest: find_SomeD)
qed

lemma find_filter_keep:
  assumes "distinct (map f xs)" "find (\<lambda>x. f x = k) (filter P xs) = Some b"
  shows "find (\<lambda>x. f x = k) xs = Some b"
  using assms by (intro find_distinct_key) (auto dest: find_SomeD)

lemma obs_step_runs:
  "obs_step s s' \<Longrightarrow> os_wf s \<Longrightarrow> get_run s i = Some a \<Longrightarrow> get_run s' i = Some b \<Longrightarrow> run_evolves a b"
proof (induction rule: obs_step.induct)
  case (obs_start r s)
  then show ?case by (auto simp: start_run_def get_run_def run_evolves_def find_append split: if_splits option.splits)
next
  case (obs_finish s j status t outcome)
  show ?case
  proof (rule finish_run_cases [of j status t outcome s])
    fix r assume "get_run s j = Some r" "run_status r = RunRunning" "status \<noteq> RunRunning"
      "finish_run j status t outcome s = (Inr (finished status t outcome r),
         s\<lparr>os_runs := map (finish_row j (finished status t outcome r)) (os_runs s)\<rparr>)"
    with obs_finish get_run_finish [of s j r "finished status t outcome r" i] show ?thesis
      by (auto simp: run_evolves_def split: if_splits)
  qed (use obs_finish in \<open>simp add: run_evolves_def\<close>)
next
  case (obs_append s ob)
  then show ?case by (auto simp: append_observation_def get_run_def run_evolves_def Let_def split: if_splits)
next
  case (obs_prune s sz now m)
  have d: "distinct (map rr_run_id (os_runs s))" using obs_prune.prems(1) by (simp add: os_wf_def)
  from obs_prune.prems find_filter_keep [OF d] show ?case
    by (auto simp: prune_with_max_bytes_def get_run_def run_evolves_def Let_def case_prod_beta split: if_splits)
qed

interpretation runs: entity_store os_wf get_run obs_step run_evolves
  by unfold_locales (auto intro: obs_step_wf obs_step_runs)

lemma run_evolves_run:
  "run_evolves\<^sup>*\<^sup>* a b \<Longrightarrow> run_id b = run_id a \<and> run_started_at b = run_started_at a \<and> (run_status a \<noteq> RunRunning \<longrightarrow> b = a)"
  by (induction rule: rtranclp_induct) (auto simp: run_evolves_def finished_def)

text \<open>
  A run finishes at most once: along every run of the store that keeps the row, its
  identity and start never change, and once its status is not running, nothing of it changes
  any more and finishing it again is refused without effect.
\<close>

theorem run_finishes_once:
  assumes "os_wf s" "get_run s i = Some a"
    and "(\<lambda>s s'. obs_step s s' \<and> get_run s' i \<noteq> None)\<^sup>*\<^sup>* s s'"
  shows "\<exists>b. get_run s' i = Some b \<and> run_id b = run_id a \<and> run_started_at b = run_started_at a \<and>
    (run_status a \<noteq> RunRunning \<longrightarrow> b = a \<and> snd (finish_run i status t outcome s') = s' \<and> \<not> is_ok (fst (finish_run i status t outcome s')))"
proof -
  from runs.kept_run [OF assms(3,1,2)] obtain b where b: "get_run s' i = Some b" "run_evolves\<^sup>*\<^sup>* a b" by blast
  with run_evolves_run [OF b(2)] show ?thesis by (auto simp: finish_run_def)
qed

definition demo_run :: run where
  "demo_run = \<lparr>run_id = ''r'', run_workspace_session_id = None, run_agent_session_id = None, run_target_summary = ''t'',
     run_created_by = ''ann'', run_status = RunRunning, run_health = RunUnknown, run_started_at = 5, run_finished_at = None, run_business_outcome = None\<rparr>"

definition demo_runs :: observability_store where
  "demo_runs = snd (finish_run ''r'' RunCompleted 9 None (snd (start_run demo_run observability_open)))"

theorem run_finishes_once_witness:
  "\<exists>a. get_run demo_runs ''r'' = Some a \<and> run_status a = RunCompleted \<and> run_health a = RunHealthy \<and>
     snd (finish_run ''r'' RunCancelled 10 None demo_runs) = demo_runs"
proof -
  have wf: "os_wf demo_runs" by (simp add: demo_runs_def wf_intros demo_run_def)
  obtain a where a: "get_run demo_runs ''r'' = Some a" "run_status a = RunCompleted" "run_health a = RunHealthy"
    by (simp add: demo_runs_def demo_run_def start_run_def observability_open_def finish_run_def get_run_def sql_integer_def run_health_after_def Let_def)
  from run_finishes_once [OF wf a(1) rtranclp.rtrancl_refl, of RunCancelled 10 None] a show ?thesis by auto
qed

lemma obs_run_sequence: "obs_step\<^sup>*\<^sup>* s s' \<Longrightarrow> os_wf s \<Longrightarrow> os_sequence s \<le> os_sequence s'"
  by (induction rule: rtranclp_induct) (auto intro: order_trans obs_step_sequence runs.inv_run)

text \<open>
  Event identifiers are never reused, also not after pruning: an observation appended
  later has a larger identifier than one appended earlier, and a reader whose cursor is at an
  identifier it was given never misses a later observation.
\<close>

theorem observation_ids_increase:
  assumes wf: "os_wf s" and first: "append_observation ob1 s = (Inr i, s1)"
    and run: "obs_step\<^sup>*\<^sup>* s1 s2" and second: "append_observation ob2 s2 = (Inr j, s3)"
  shows "i < j \<and> (\<exists>row \<in> set (os_observations s3). or_event_id row = j \<and>
    row_matches \<lparr>oq_run_id = None, oq_after_event_id = Some i, oq_limit = n\<rparr> row)"
proof -
  have "s1 = snd (append_observation ob1 s)" using first by simp
  with wf have wf1: "os_wf s1" by (simp add: os_wf_append)
  have "i = os_sequence s1" using first by (auto simp: append_observation_def Let_def split: if_splits)
  also have "\<dots> \<le> os_sequence s2" using obs_run_sequence [OF run wf1] .
  also have "\<dots> < j"
    using second sequence_succ [of "os_sequence s2"] runs.inv_run [OF run wf1]
    by (auto simp: append_observation_def Let_def os_wf_def split: if_splits)
  finally show ?thesis
    using second by (auto simp: append_observation_def Let_def row_matches_def split: if_splits)
qed

theorem observation_ids_increase_witness:
  "\<exists>i s1 j s3. append_observation (demo_observation 8) observability_open = (Inr i, s1) \<and>
     append_observation (demo_observation 9) (snd (prune_with_max_bytes (\<lambda>_. 5) 9 1 s1)) = (Inr j, s3) \<and> i < j"
proof -
  obtain i s1 where 1: "append_observation (demo_observation 8) observability_open = (Inr i, s1)"
    by (simp add: append_observation_def observability_open_def sql_integer_def demo_observation_def Let_def)
  let ?s2 = "snd (prune_with_max_bytes (\<lambda>_. 5) 9 1 s1)"
  have "os_sequence ?s2 = 1"
    using 1 by (auto simp: append_observation_def observability_open_def prune_with_max_bytes_def Let_def case_prod_beta split: if_splits)
  then obtain j s3 where 2: "append_observation (demo_observation 9) ?s2 = (Inr j, s3)"
    by (simp add: append_observation_def sql_integer_def demo_observation_def Let_def)
  from observation_ids_increase [OF os_wf_open 1 _ 2] obs_prune 1 2 show ?thesis by blast
qed

text \<open>
  C36. Pruning always ends and takes the oldest first: of the observations inside the retention
  window it drops a prefix, in identifier order, and it stops only when a size reading is
  within the bound or no observation is left; it reports how many it dropped; observations
  and finished runs outside the window go, and a run that is still running stays.
\<close>

theorem prune_keeps_newest:
  assumes wf: "os_wf s" and now: "sql_integer now"
  shows "\<exists>k rows. rows = filter (\<lambda>row. sat_sub now RETENTION_MS \<le> or_timestamp row) (os_observations s) \<and> k \<le> length rows \<and>
    prune_with_max_bytes sz now m s =
      (Inr (length (os_observations s) - length rows + k),
       s\<lparr>os_observations := drop k rows,
         os_runs := filter (\<lambda>row. sat_sub now RETENTION_MS \<le> rr_started_at row \<or> run_status (rr_payload row) = RunRunning) (os_runs s)\<rparr>) \<and>
    (k = length rows \<or> (\<exists>j. sz j \<le> m))"
proof -
  let ?c = "sat_sub now RETENTION_MS"
  let ?rows = "filter (\<lambda>row. ?c \<le> or_timestamp row) (os_observations s)"
  have "?c \<le> now" by (simp add: word_le_nat_alt unat_sat_sub)
  then have int: "sql_integer ?c" using now unfolding sql_integer_def by (rule order_trans)
  obtain k where k: "k \<le> length ?rows" "prune_loop sz m ?rows (length (os_observations s) - length ?rows) =
      (length (os_observations s) - length ?rows + k, drop k ?rows)" "k = length ?rows \<or> (\<exists>j. sz j \<le> m)"
    using prune_loop_drop by blast
  have "filter (\<lambda>row. \<not> (rr_started_at row < ?c \<and> rr_status row \<noteq> ''running'')) (os_runs s) =
      filter (\<lambda>row. ?c \<le> rr_started_at row \<or> run_status (rr_payload row) = RunRunning) (os_runs s)"
    using wf by (intro filter_cong) (auto simp: os_wf_def list_all_iff not_less)
  with k int show ?thesis
    by (intro exI [of _ k] exI [of _ ?rows]) (simp add: prune_with_max_bytes_def Let_def not_less)
qed

theorem prune_keeps_newest_witness:
  "\<exists>k. os_observations (snd (prune_with_max_bytes (\<lambda>n. if n = 0 then 5 else 0) 9 1 demo_observations)) =
     drop k (os_observations demo_observations)"
proof -
  have "sql_integer 9" by (simp add: sql_integer_def)
  from prune_keeps_newest [OF demo_observations_wf this, of "\<lambda>n. if n = 0 then 5 else 0" 1] show ?thesis
    by (auto simp: demo_observations_eval sat_sub_def RETENTION_MS_def)
qed

end
