(* ===== verification/Controller_Util.thy ===== *)
theory Controller_Util
  imports Task_Table Lease_Table Observability
begin

section \<open>Helpers of the Controller\<close>

text \<open>
  The free functions of \<^verbatim>\<open>crates/workbench-runtime/src/controller.rs\<close>: parameter access,
  allow-lists for what is logged, the input validator, compaction of what is persisted, lock
  templates, lease ordering and the execution fence. The compact JSON text of a value
  (\<^verbatim>\<open>to_string\<close>, \<^verbatim>\<open>to_vec\<close>) is the parameter \<open>jshow\<close>, the decimal text of a floating
  point number \<open>fshow\<close>, and SHA-256 in hexadecimal \<open>sha\<close>.
\<close>

subsection \<open>Requests without an answer\<close>

text \<open>
  A panic of the code unwinds the thread of the request, which then has no answer, and neither
  has one a lock template whose rendering never ends; the model gives each as an error of its own
  that no handler returns otherwise.
\<close>

definition panicked :: rpc_error where
  "panicked = rpc_err ''panic'' []"

definition never_answers :: rpc_error where
  "never_answers = rpc_err ''never'' []"

subsection \<open>Parameters\<close>

definition required_str :: "json \<Rightarrow> string \<Rightarrow> rpc_error + string" where
  "required_str params key =
     (case get_str params key of
        Some v \<Rightarrow> if v \<noteq> [] then Inr v else Inl (rpc_err ''INVALID_PARAMS'' (key @ '' is required''))
      | None \<Rightarrow> Inl (rpc_err ''INVALID_PARAMS'' (key @ '' is required'')))"

definition optional_str :: "json \<Rightarrow> string \<Rightarrow> rpc_error + string option" where
  "optional_str params key =
     (case jget params key of
        None \<Rightarrow> Inr None
      | Some JNull \<Rightarrow> Inr None
      | Some (JStr v) \<Rightarrow> Inr (Some v)
      | Some _ \<Rightarrow> Inl (rpc_err ''INVALID_PARAMS'' (key @ '' must be a string'')))"

fun observability_code :: "observability_error \<Rightarrow> string" where
  "observability_code (ObsRunNotFound _) = ''RUN_NOT_FOUND''"
| "observability_code (ObsInvalidTransition _) = ''INVALID_RUN_TRANSITION''"
| "observability_code _ = ''OBSERVABILITY_STORE_FAILED''"

fun lease_error_code :: "lease_error \<Rightarrow> string" where
  "lease_error_code (LeaseActive _ _) = ''LEASE_ACTIVE''"
| "lease_error_code LeaseNotFound = ''LEASE_NOT_FOUND''"
| "lease_error_code LeaseOwnedByOther = ''LEASE_OWNED_BY_OTHER''"
| "lease_error_code LeaseInvalidHandoff = ''INVALID_HANDOFF''"

definition map_lease_error :: "lease_error \<Rightarrow> rpc_error" where
  "map_lease_error e = rpc_err (lease_error_code e) (lease_error_text e)"

subsection \<open>Text\<close>

text \<open>A character of a string starts at each byte that is not a UTF-8 continuation byte.\<close>

definition continuation :: "char \<Rightarrow> bool" where
  "continuation c = (128 \<le> (of_char c :: nat) \<and> (of_char c :: nat) < 192)"

fun take_chars :: "nat \<Rightarrow> string \<Rightarrow> string" where
  "take_chars n [] = []"
| "take_chars n (c # s) =
     (if continuation c then c # take_chars n s
      else case n of 0 \<Rightarrow> [] | Suc k \<Rightarrow> c # take_chars k s)"

fun has_control :: "string \<Rightarrow> bool" where
  "has_control [] = False"
| "has_control (c # s) =
     ((of_char c :: nat) < 32 \<or> (of_char c :: nat) = 127
      \<or> ((of_char c :: nat) = 0xC2 \<and> s \<noteq> [] \<and> 128 \<le> (of_char (hd s) :: nat) \<and> (of_char (hd s) :: nat) < 160)
      \<or> has_control s)"

definition bytes :: "nat list \<Rightarrow> string" where
  "bytes ns = map char_of ns"

text \<open>The encodings of the characters \<^verbatim>\<open>trim\<close> removes.\<close>

definition whitespace :: "string list" where
  "whitespace =
     map bytes ([[9], [10], [11], [12], [13], [32], [0xC2, 0x85], [0xC2, 0xA0], [0xE1, 0x9A, 0x80]]
       @ map (\<lambda>n. [0xE2, 0x80, n]) ([0x80..<0x8B] @ [0xA8, 0xA9, 0xAF])
       @ [[0xE2, 0x81, 0x9F], [0xE3, 0x80, 0x80]])"

function trim_start :: "string list \<Rightarrow> string \<Rightarrow> string" where
  "trim_start ws s =
     (case find (\<lambda>w. w \<noteq> [] \<and> starts_with w s) ws of
        None \<Rightarrow> s
      | Some w \<Rightarrow> trim_start ws (drop (length w) s))"
  by pat_completeness auto
termination
proof (relation "measure (\<lambda>(ws, s). length s)", simp)
  fix ws s w assume "find (\<lambda>w. w \<noteq> [] \<and> starts_with w s) ws = Some w"
  then have "w \<noteq> []" "starts_with w s" by (auto dest: find_SomeD)
  then show "((ws, drop (length w) s), ws, s) \<in> measure (\<lambda>(ws, s). length s)"
    by (cases s) (auto simp: starts_with_iff)
qed

declare trim_start.simps [simp del]

definition trim :: "string \<Rightarrow> string" where
  "trim s = rev (trim_start (map rev whitespace) (rev (trim_start whitespace s)))"

subsection \<open>What is logged\<close>

definition allowed_observation_attributes :: "string list" where
  "allowed_observation_attributes =
     [''capability'', ''component'', ''stage'', ''targetNode'', ''targetRepo'', ''errorCode'',
      ''artifactDigest'', ''approvalId'', ''action'', ''workspaceSessionId'', ''agentId'',
      ''blockerId'', ''blockerKind'', ''blockerReason'', ''waitingOn'']"

fun safe_attribute :: "json \<Rightarrow> json" where
  "safe_attribute (JStr text) = JStr (take_chars 500 text)"
| "safe_attribute (JBool b) = JBool b"
| "safe_attribute (JNum n) = JNum n"
| "safe_attribute _ = JNull"

definition safe_observation_attributes :: "json \<Rightarrow> json" where
  "safe_observation_attributes attributes =
     (case as_object attributes of
        None \<Rightarrow> JObj []
      | Some m \<Rightarrow> JObj (map (\<lambda>e. (fst e, safe_attribute (snd e)))
                    (filter (\<lambda>e. fst e \<in> set allowed_observation_attributes) m)))"

definition operator_actions :: "string list" where
  "operator_actions =
     [''cancel-task'', ''stop-process'', ''retry-task'', ''restart-process'', ''driver-acquire'',
      ''driver-handoff'', ''driver-release'', ''approval-approve'', ''approval-revoke'']"

definition required_operator_action :: "json \<Rightarrow> rpc_error + string" where
  "required_operator_action params =
     and_then (required_str params ''action'') (\<lambda>action.
       if action \<in> set operator_actions then Inr action
       else Inl (rpc_err ''OPERATOR_ACTION_NOT_ALLOWED'' ''operator action is not in the fixed allowlist''))"

definition required_force_action :: "json \<Rightarrow> rpc_error + string" where
  "required_force_action params =
     and_then (required_operator_action params) (\<lambda>action.
       if action = ''cancel-task'' \<or> action = ''stop-process'' then Inr action
       else Inl (rpc_err ''OPERATOR_ACTION_NOT_ALLOWED'' ''only cancel-task and stop-process support force actions''))"

definition jmember :: "json \<Rightarrow> string \<Rightarrow> json" where
  "jmember v k = unwrap_or JNull (jget v k)"

definition safe_summary :: "json \<Rightarrow> json" where
  "safe_summary v =
     JObj [(''id'', case jget v ''id'' of Some x \<Rightarrow> x | None \<Rightarrow> jmember v ''taskId''),
           (''state'', jmember v ''state''), (''status'', jmember v ''status'')]"

definition lifecycle_observation_kind :: "string \<Rightarrow> string option" where
  "lifecycle_observation_kind action =
     (if starts_with ''driver.'' action \<or> starts_with ''lease.'' action then Some ''lease''
      else if starts_with ''approval.'' action then Some ''approval''
      else if starts_with ''artifact.'' action then Some ''artifact''
      else if starts_with ''generation.'' action then Some ''generation''
      else if starts_with ''handoff.'' action \<or> starts_with ''session.handoff'' action then Some ''handoff''
      else if starts_with ''agent.'' action then Some ''agent''
      else None)"

fun is_string :: "json \<Rightarrow> bool" where
  "is_string (JStr _) = True"
| "is_string _ = False"

fun is_number :: "json \<Rightarrow> bool" where
  "is_number (JNum _) = True"
| "is_number _ = False"

fun is_boolean :: "json \<Rightarrow> bool" where
  "is_boolean (JBool _) = True"
| "is_boolean _ = False"

text \<open>Copying the listed members of \<open>params\<close> that satisfy \<open>P\<close> into a new map.\<close>

fun copy_fields :: "(json \<Rightarrow> bool) \<Rightarrow> json \<Rightarrow> string list \<Rightarrow> (string \<times> json) list \<Rightarrow> (string \<times> json) list" where
  "copy_fields P params [] m = m"
| "copy_fields P params (k # ks) m =
     copy_fields P params ks
       (case jget params k of Some v \<Rightarrow> if P v then bt_insert k v m else m | None \<Rightarrow> m)"

definition safe_lifecycle_attributes :: "json \<Rightarrow> json" where
  "safe_lifecycle_attributes params =
     JObj (copy_fields (\<lambda>v. is_string v \<or> is_number v) params
       [''taskId'', ''processId'', ''approvalId'', ''generationId'', ''agentId'', ''executorId'',
        ''workspaceSessionId'', ''targetControllerId'', ''digest''] [])"

definition safe_request_fields :: "(json \<Rightarrow> string) \<Rightarrow> string \<Rightarrow> json \<Rightarrow> json" where
  "safe_request_fields jshow action params =
     (let fields = copy_fields (\<lambda>v. is_string v \<or> is_number v \<or> is_boolean v) params
            [''executorId'', ''capability'', ''workspaceSessionId'', ''sessionId'', ''taskId'',
             ''processId'', ''executionMode''] [];
          input = jmember params ''input''
      in JObj (if action = ''capability.invoke''
               then bt_insert ''inputSummary''
                      (JObj [(''encodedBytes'', jnat (length (jshow input))),
                             (''keys'', JArr (map JStr (take 32 (map fst (unwrap_or [] (as_object input))))))])
                      fields
               else fields))"

subsection \<open>Validation of inputs\<close>

text \<open>
  A number as the 64-bit float \<^verbatim>\<open>as_f64\<close> makes of it, mantissa and binary exponent: an
  integer of more than 53 bits is rounded to the nearest, ties to even.
\<close>

fun round_bits :: "nat \<Rightarrow> nat \<Rightarrow> nat" where
  "round_bits shift n =
     (let q = n div 2 ^ shift; r = n mod 2 ^ shift; half = 2 ^ (shift - 1)
      in if shift = 0 \<or> r < half \<or> (r = half \<and> even q) then q else q + 1)"

definition excess_bits :: "nat \<Rightarrow> nat" where
  "excess_bits n = length (takeWhile (\<lambda>k. 2 ^ (53 + k) \<le> n) [0..<64])"

definition f64_of_nat :: "nat \<Rightarrow> int \<times> int" where
  "f64_of_nat n = (let s = excess_bits n in (int (round_bits s n), int s))"

fun as_f64 :: "json \<Rightarrow> (int \<times> int) option" where
  "as_f64 (JNum (PosInt n)) = Some (f64_of_nat (unat n))"
| "as_f64 (JNum (NegInt i)) = Some (let (m, e) = f64_of_nat (nat (- i)) in (- m, e))"
| "as_f64 (JNum (Float m e)) = Some (m, e)"
| "as_f64 _ = None"

definition f64_less :: "int \<times> int \<Rightarrow> int \<times> int \<Rightarrow> bool" where
  "f64_less a b =
     (let e = min (snd a) (snd b)
      in fst a * 2 ^ nat (snd a - e) < fst b * 2 ^ nat (snd b - e))"

definition value_matches_type :: "json \<Rightarrow> string \<Rightarrow> bool" where
  "value_matches_type v kind =
     (if kind = ''null'' then v = JNull
      else if kind = ''boolean'' then is_boolean v
      else if kind = ''integer'' then (case v of JNum (PosInt _) \<Rightarrow> True | JNum (NegInt _) \<Rightarrow> True | _ \<Rightarrow> False)
      else if kind = ''number'' then is_number v
      else if kind = ''string'' then is_string v
      else if kind = ''array'' then as_array v \<noteq> None
      else if kind = ''object'' then as_object v \<noteq> None
      else False)"

definition schema_error :: "string \<Rightarrow> string \<Rightarrow> rpc_error" where
  "schema_error path message = rpc_err ''SCHEMA_VALIDATION_FAILED'' (path @ '' '' @ message)"

text \<open>The checks of one level that do not recurse, in the order of the source.\<close>

definition check_enum :: "json \<Rightarrow> json \<Rightarrow> string \<Rightarrow> rpc_error + unit" where
  "check_enum schema v path =
     (case get_array schema ''enum'' of
        Some allowed \<Rightarrow> if v \<in> set allowed then Inr () else Inl (schema_error path ''value is not in enum'')
      | None \<Rightarrow> Inr ())"

definition check_type :: "(json \<Rightarrow> string) \<Rightarrow> json \<Rightarrow> json \<Rightarrow> string \<Rightarrow> rpc_error + unit" where
  "check_type jshow schema v path =
     (case jget schema ''type'' of
        None \<Rightarrow> Inr ()
      | Some types \<Rightarrow>
          if (case types of
                JStr kind \<Rightarrow> value_matches_type v kind
              | JArr kinds \<Rightarrow> list_ex (value_matches_type v) (List.map_filter as_str kinds)
              | _ \<Rightarrow> False)
          then Inr () else Inl (schema_error path (''does not match type '' @ jshow types)))"

definition check_bounds :: "(int \<times> int \<Rightarrow> string) \<Rightarrow> json \<Rightarrow> json \<Rightarrow> string \<Rightarrow> rpc_error + unit" where
  "check_bounds fshow schema v path =
     and_then
     (case (Option.bind (jget schema ''minimum'') as_f64, as_f64 v) of
        (Some minimum, Some number) \<Rightarrow>
          if f64_less number minimum then Inl (schema_error path (''is below minimum '' @ fshow minimum)) else Inr ()
      | _ \<Rightarrow> Inr ()) (\<lambda>_.
     (case (Option.bind (jget schema ''maximum'') as_f64, as_f64 v) of
        (Some maximum, Some number) \<Rightarrow>
          if f64_less maximum number then Inl (schema_error path (''is above maximum '' @ fshow maximum)) else Inr ()
      | _ \<Rightarrow> Inr ()))"

fun check_required :: "(string \<times> json) list \<Rightarrow> string \<Rightarrow> string list \<Rightarrow> rpc_error + unit" where
  "check_required obj path [] = Inr ()"
| "check_required obj path (k # ks) =
     (if bt_get obj k = None then Inl (schema_error (path @ ''.'' @ k) ''is required'')
      else check_required obj path ks)"

function (sequential)
  validate_schema :: "(json \<Rightarrow> string) \<Rightarrow> (int \<times> int \<Rightarrow> string) \<Rightarrow> json \<Rightarrow> json \<Rightarrow> string \<Rightarrow> rpc_error + unit"
  and validate_members ::
    "(json \<Rightarrow> string) \<Rightarrow> (int \<times> int \<Rightarrow> string) \<Rightarrow> json \<Rightarrow> (string \<times> json) list \<Rightarrow> (string \<times> json) list \<Rightarrow> string \<Rightarrow> rpc_error + unit"
  and validate_items ::
    "(json \<Rightarrow> string) \<Rightarrow> (int \<times> int \<Rightarrow> string) \<Rightarrow> json \<Rightarrow> nat \<Rightarrow> json list \<Rightarrow> string \<Rightarrow> rpc_error + unit" where
  "validate_schema jshow fshow schema v path =
     (if as_object schema = None \<or> as_object schema = Some [] then Inr ()
      else and_then (check_enum schema v path) (\<lambda>_.
           and_then (check_type jshow schema v path) (\<lambda>_.
           and_then (check_bounds fshow schema v path) (\<lambda>_.
           and_then
             (case v of
                JObj obj \<Rightarrow>
                  and_then
                    (case get_array schema ''required'' of
                       Some required \<Rightarrow> check_required obj path (List.map_filter as_str required)
                     | None \<Rightarrow> Inr ()) (\<lambda>_.
                  case Option.bind (jget schema ''properties'') as_object of
                    Some properties \<Rightarrow> validate_members jshow fshow schema properties obj path
                  | None \<Rightarrow> Inr ())
              | _ \<Rightarrow> Inr ()) (\<lambda>_.
           case (jget schema ''items'', v) of
             (Some items, JArr vs) \<Rightarrow> validate_items jshow fshow items 0 vs path
           | _ \<Rightarrow> Inr ())))))"
| "validate_members jshow fshow schema properties [] path = Inr ()"
| "validate_members jshow fshow schema properties ((k, child) # rest) path =
     and_then
       (case bt_get properties k of
          Some child_schema \<Rightarrow> validate_schema jshow fshow child_schema child (path @ ''.'' @ k)
        | None \<Rightarrow>
            if jget schema ''additionalProperties'' = Some (JBool False)
            then Inl (schema_error (path @ ''.'' @ k) ''is not allowed'') else Inr ()) (\<lambda>_.
     validate_members jshow fshow schema properties rest path)"
| "validate_items jshow fshow items index [] path = Inr ()"
| "validate_items jshow fshow items index (child # rest) path =
     and_then (validate_schema jshow fshow items child (path @ ''['' @ dec index @ '']'')) (\<lambda>_.
     validate_items jshow fshow items (index + 1) rest path)"
  by pat_completeness auto
termination
  by (relation "measure (\<lambda>x. case x of
        Inl (j, f, sc, v, p) \<Rightarrow> 2 * size v
      | Inr (Inl (j, f, sc, pr, m, p)) \<Rightarrow> Suc (2 * size_list (size_prod (\<lambda>_. 0) size) m)
      | Inr (Inr (j, f, it, i, vs, p)) \<Rightarrow> Suc (2 * size_list size vs))") auto

declare validate_schema.simps [simp del]

subsection \<open>Compaction of what is persisted\<close>

fun add_names :: "nat \<Rightarrow> json \<Rightarrow> string list \<Rightarrow> string list \<Rightarrow> string list" where
  "add_names limit v [] names = names"
| "add_names limit v (k # ks) names =
     (case get_str v k of
        None \<Rightarrow> add_names limit v ks names
      | Some text \<Rightarrow>
          let t = trim text in
          if t \<noteq> [] \<and> t \<notin> set names
          then (if limit \<le> length (names @ [t]) then names @ [t] else add_names limit v ks (names @ [t]))
          else add_names limit v ks names)"

definition hidden_role :: "json \<Rightarrow> bool" where
  "hidden_role v =
     (case get_str v ''role'' of
        None \<Rightarrow> False
      | Some role \<Rightarrow> role \<in> set [''AXMenuBar'', ''AXMenuBarItem'', ''AXMenu'', ''AXMenuItem''])"

lemma children_size: "get_array v k = Some cs \<Longrightarrow> size_list size cs < size v"
proof -
  assume "get_array v k = Some cs"
  then obtain m where m: "v = JObj m" "map_of m k = Some (JArr cs)"
    by (cases v) (auto simp: get_array_def bt_get_def bind_eq_Some_conv elim!: as_array.elims)
  then have "size (JArr cs) < size v" using json_obj_size [OF map_of_SomeD [OF m(2)]] by simp
  then show ?thesis by simp
qed

function (sequential)
  collect_native_accessible_names :: "nat \<Rightarrow> json \<Rightarrow> string list \<Rightarrow> string list"
  and collect_children :: "nat \<Rightarrow> json list \<Rightarrow> string list \<Rightarrow> string list" where
  "collect_native_accessible_names limit v names =
     (if limit \<le> length names then names
      else if hidden_role v then names
      else let names' = add_names limit v [''title'', ''value'', ''description''] names in
           if limit \<le> length names' then names'
           else case get_array v ''children'' of
                  None \<Rightarrow> names'
                | Some children \<Rightarrow> collect_children limit children names')"
| "collect_children limit [] names = names"
| "collect_children limit (c # cs) names =
     (let names' = collect_native_accessible_names limit c names
      in if limit \<le> length names' then names' else collect_children limit cs names')"
  by pat_completeness auto
termination
  by (relation "measure (\<lambda>x. case x of Inl (l, v, n) \<Rightarrow> 2 * size v | Inr (l, cs, n) \<Rightarrow> Suc (2 * size_list size cs))")
    (auto dest: children_size)

definition retained_window :: "json \<Rightarrow> json" where
  "retained_window window =
     JObj [(''accessibleNames'', JArr (map JStr (collect_native_accessible_names 128 window []))),
           (''description'', jmember window ''description''), (''role'', jmember window ''role''),
           (''title'', jmember window ''title''), (''value'', jmember window ''value'')]"

definition retained_process :: "json \<Rightarrow> json" where
  "retained_process process =
     JObj [(''pid'', jmember process ''pid''),
           (''windows'', JArr (map retained_window (unwrap_or [] (get_array process ''windows''))))]"

definition retained_task_output :: "string \<Rightarrow> json \<Rightarrow> json" where
  "retained_task_output capability result =
     (if capability \<noteq> ''ui.native-inspect'' then result
      else let inspection = jmember result ''inspection''; processes = unwrap_or [] (get_array inspection ''processes'') in
        JObj [(''applicationPath'', jmember result ''applicationPath''),
              (''inspectedAt'', jmember result ''inspectedAt''),
              (''inspection'', JObj
                 [(''accessibilityTrusted'', unwrap_or (JBool False) (jget inspection ''accessibilityTrusted'')),
                  (''processCount'', jnat (length processes)),
                  (''processes'', JArr (map retained_process processes))]),
              (''pids'', unwrap_or (JArr []) (jget result ''pids''))])"

definition MAX_PERSISTED_TASK_OUTPUT_BYTES :: nat where
  "MAX_PERSISTED_TASK_OUTPUT_BYTES = 256 * 1024"

definition bounded_task_output :: "(string \<Rightarrow> string) \<Rightarrow> (json \<Rightarrow> string) \<Rightarrow> json \<Rightarrow> json" where
  "bounded_task_output sha jshow result =
     (let encoded = jshow result in
      if length encoded \<le> MAX_PERSISTED_TASK_OUTPUT_BYTES then result
      else JObj (bt_insert ''outputDigest'' (JStr (sha encoded))
                (bt_insert ''originalBytes'' (jnat (length encoded))
                (bt_insert ''_workbenchOutputOmitted'' (JBool True)
                (copy_fields (\<lambda>_. True) result
                   [''id'', ''path'', ''destination'', ''digest'', ''size'', ''encoding'', ''truncated'', ''nextOffset''] [])))))"

definition compact_task_output :: "(string \<Rightarrow> string) \<Rightarrow> (json \<Rightarrow> string) \<Rightarrow> task \<Rightarrow> task" where
  "compact_task_output sha jshow t =
     t\<lparr>task_output := map_option (\<lambda>output.
         bounded_task_output sha jshow (retained_task_output (task_capability t) output)) (task_output t)\<rparr>"

definition compact_task_outputs :: "(string \<Rightarrow> string) \<Rightarrow> (json \<Rightarrow> string) \<Rightarrow> task list \<Rightarrow> bool \<times> task list" where
  "compact_task_outputs sha jshow tasks =
     (list_ex (\<lambda>t. task_output (compact_task_output sha jshow t) \<noteq> task_output t) tasks,
      map (compact_task_output sha jshow) tasks)"

text \<open>
  \<^verbatim>\<open>compact_value\<close> rewrites a value in place and says whether it changed: the flag and the
  rewritten value.
\<close>

definition drop_evaluations :: "(string \<times> json) list \<Rightarrow> bool \<times> (string \<times> json) list" where
  "drop_evaluations m =
     (case bt_get m ''nativeEvaluations'' of
        None \<Rightarrow> (False, m)
      | Some v \<Rightarrow> (True, bt_insert ''nativeObservationCount'' (jnat (length (unwrap_or [] (as_array v))))
                           (bt_remove ''nativeEvaluations'' m)))"

lemma bt_insert_member: "(k', v') \<in> set (bt_insert k v m) \<Longrightarrow> (k', v') = (k, v) \<or> (k', v') \<in> set m"
  by (induction k v m rule: bt_insert.induct) (auto split: if_splits)

lemma drop_evaluations_size:
  "(k, v) \<in> set (snd (drop_evaluations m)) \<Longrightarrow> size v < Suc (size_list (size_prod (\<lambda>_. 0) size) m)"
  by (auto simp: drop_evaluations_def bt_remove_def jnat_def dest!: bt_insert_member dest: json_obj_size split: option.splits)

function (sequential)
  compact_value :: "json \<Rightarrow> bool \<times> json" where
  "compact_value (JObj m) =
     (let (changed, m1) = drop_evaluations m;
          cs = map (\<lambda>e. (fst e, compact_value (snd e))) m1
      in (changed \<or> list_ex (\<lambda>e. fst (snd e)) cs, JObj (map (\<lambda>e. (fst e, snd (snd e))) cs)))"
| "compact_value (JArr xs) =
     (let cs = map compact_value xs in (list_ex fst cs, JArr (map snd cs)))"
| "compact_value v = (False, v)"
  by pat_completeness auto
termination
  by (relation "measure size") (auto dest: json_arr_size, metis drop_evaluations_size snd_conv)

subsection \<open>Artifacts and generations\<close>

definition artifact_from_result ::
  "u64 \<Rightarrow> string \<Rightarrow> json \<Rightarrow> json \<Rightarrow> string \<Rightarrow> string \<Rightarrow> string \<Rightarrow> artifact option" where
  "artifact_from_result now capability input result workspace_session_id executor_id tid =
     Option.bind
       (if capability = ''artifact.build'' then jget result ''artifact''
        else if capability = ''artifact.describe'' \<or> capability = ''artifact.transfer'' then Some result
        else None) (\<lambda>v.
     Option.bind (get_str v ''digest'') (\<lambda>digest.
     Option.bind (Option.bind (case jget v ''path'' of Some p \<Rightarrow> Some p | None \<Rightarrow> jget v ''destination'') as_str) (\<lambda>path.
     Some \<lparr>artifact_digest = digest,
           artifact_type = unwrap_or ''generic'' (get_str input ''artifactType''),
           artifact_schema = ''workbench.dev/artifact/v1'',
           artifact_size = unwrap_or 0 (get_u64 v ''size''),
           artifact_locations = [LocationFile executor_id path],
           artifact_provenance =
             \<lparr>prov_workspace_session_id = workspace_session_id, prov_task_id = Some tid,
              prov_source_digests = (case get_str input ''digest'' of Some d \<Rightarrow> [d] | None \<Rightarrow> []),
              prov_attributes = []\<rparr>,
           artifact_created_at = now\<rparr>)))"

definition generation_transition_allowed :: "generation_state \<Rightarrow> generation_state \<Rightarrow> bool" where
  "generation_transition_allowed from to =
     (from = to \<or> (from, to) \<in> set
        [(GenReserved, GenMaterializing), (GenReserved, GenFailed),
         (GenMaterializing, GenMaterialized), (GenMaterializing, GenFailed),
         (GenMaterialized, GenValidated), (GenMaterialized, GenFailed),
         (GenValidated, GenFinalized), (GenValidated, GenFailed),
         (GenFinalized, GenSmokePassed), (GenFinalized, GenFailed),
         (GenSmokePassed, GenActive), (GenSmokePassed, GenFailed),
         (GenActive, GenSuperseded)])"

fun upsert_by :: "('a \<Rightarrow> bool) \<Rightarrow> 'a \<Rightarrow> 'a list \<Rightarrow> 'a list" where
  "upsert_by P v [] = [v]"
| "upsert_by P v (x # xs) = (if P x then v # xs else x # upsert_by P v xs)"

subsection \<open>Lock templates and command resources\<close>

text \<open>What precedes the first \<^verbatim>\<open>${\<close> and what follows it.\<close>

fun split_open :: "string \<Rightarrow> (string \<times> string) option" where
  "split_open [] = None"
| "split_open (c # s) =
     (if c = CHR ''$'' \<and> s \<noteq> [] \<and> hd s = CHR ''{'' then Some ([], tl s)
      else map_option (\<lambda>(a, b). (c # a, b)) (split_open s))"

definition display_text :: "(json \<Rightarrow> string) \<Rightarrow> json \<Rightarrow> string" where
  "display_text jshow v = (case as_str v of Some s \<Rightarrow> s | None \<Rightarrow> jshow v)"

text \<open>The loop of \<^verbatim>\<open>render_lock\<close>; it may not end, and then has no result.\<close>

partial_function (option) render_loop ::
  "(json \<Rightarrow> string) \<Rightarrow> string \<Rightarrow> json \<Rightarrow> string \<Rightarrow> (rpc_error + string) option" where
  "render_loop jshow template input rendered =
     (case split_open rendered of
        None \<Rightarrow> Some (Inr rendered)
      | Some (before, rest) \<Rightarrow>
          (case split_once (CHR ''}'') rest of
             None \<Rightarrow> Some (Inl (rpc_err ''INVALID_LOCK_TEMPLATE'' template))
           | Some (key, after) \<Rightarrow>
               (case jget input key of
                  None \<Rightarrow> Some (Inl (rpc_err ''INVALID_LOCK_INPUT'' (''lock requires input field '' @ key)))
                | Some v \<Rightarrow> render_loop jshow template input (before @ display_text jshow v @ after))))"

definition render_lock :: "(json \<Rightarrow> string) \<Rightarrow> string \<Rightarrow> json \<Rightarrow> (rpc_error + string) option" where
  "render_lock jshow template input = render_loop jshow template input template"

text \<open>\<^verbatim>\<open>str::replace\<close>: every occurrence, left to right, without rescanning what was put in.\<close>

function replace_all :: "string \<Rightarrow> string \<Rightarrow> string \<Rightarrow> string" where
  "replace_all p r [] = []"
| "replace_all p r (c # s) =
     (if p \<noteq> [] \<and> starts_with p (c # s) then r @ replace_all p r (drop (length p) (c # s))
      else c # replace_all p r s)"
  by pat_completeness auto
termination
  by (relation "measure (\<lambda>(p, r, s). length s)") (auto simp: neq_Nil_conv)

definition render_capability_authority_resource ::
  "(json \<Rightarrow> string) \<Rightarrow> string \<Rightarrow> string \<Rightarrow> json \<Rightarrow> (rpc_error + string) option" where
  "render_capability_authority_resource jshow template executor_id input =
     render_lock jshow (replace_all ''${executorId}'' executor_id template) input"

fun command_resource_list :: "json list \<Rightarrow> rpc_error + string list" where
  "command_resource_list [] = Inr []"
| "command_resource_list (v # vs) =
     (case as_str v of
        None \<Rightarrow> Inl (rpc_err ''INVALID_PARAMS'' ''command resources must be strings'')
      | Some resource \<Rightarrow>
          if resource = [] \<or> 512 < length resource \<or> has_control resource
          then Inl (rpc_err ''INVALID_PARAMS'' ''command resource is empty, too long, or contains control characters'')
          else and_then (command_resource_list vs) (\<lambda>rs. Inr ((''command:'' @ resource) # rs)))"

definition command_resources :: "json \<Rightarrow> rpc_error + string list" where
  "command_resources input =
     (case jget input ''resources'' of
        None \<Rightarrow> Inr []
      | Some vs \<Rightarrow>
          (case as_array vs of
             None \<Rightarrow> Inl (rpc_err ''INVALID_PARAMS'' ''command resources must be an array'')
           | Some values \<Rightarrow>
               if 32 < length values
               then Inl (rpc_err ''INVALID_PARAMS'' ''command resources may contain at most 32 entries'')
               else command_resource_list values))"

text \<open>
  The final component of a slash-separated path, \<^verbatim>\<open>Path::file_name\<close>: trailing separators and
  \<^verbatim>\<open>.\<close> components are skipped, and \<^verbatim>\<open>..\<close> or an empty path have none.
\<close>

fun path_components :: "string \<Rightarrow> string \<Rightarrow> string list" where
  "path_components acc [] = [acc]"
| "path_components acc (c # s) = (if c = CHR ''/'' then acc # path_components [] s else path_components (acc @ [c]) s)"

definition file_name :: "string \<Rightarrow> string option" where
  "file_name path =
     (case rev (filter (\<lambda>c. c \<noteq> [] \<and> c \<noteq> ''.'') (path_components [] path)) of
        [] \<Rightarrow> None
      | c # _ \<Rightarrow> if c = ''..'' then None else Some c)"

definition command_requires_approval :: "json \<Rightarrow> bool" where
  "command_requires_approval input =
     (case get_array input ''argv'' of
        Some (v # _) \<Rightarrow>
          (case Option.bind (as_str v) file_name of
             Some name \<Rightarrow> name \<in> set [''rm'', ''sudo'', ''su'', ''dd'', ''mkfs'']
           | None \<Rightarrow> False)
      | _ \<Rightarrow> False)"

definition command_digest :: "(string \<Rightarrow> string) \<Rightarrow> (json \<Rightarrow> string) \<Rightarrow> json \<Rightarrow> rpc_error + string" where
  "command_digest sha jshow input =
     (case jget input ''cwd'' of
        None \<Rightarrow> Inl (rpc_err ''INVALID_PARAMS'' ''cwd is required'')
      | Some cwd \<Rightarrow>
          (case jget input ''argv'' of
             None \<Rightarrow> Inl (rpc_err ''INVALID_PARAMS'' ''argv is required'')
           | Some argv \<Rightarrow> Inr (sha (jshow (JObj [(''argv'', argv), (''cwd'', cwd)])))))"

subsection \<open>Leases\<close>

definition release_acquired :: "(string \<Rightarrow> string) \<Rightarrow> clock \<Rightarrow> lease list \<Rightarrow> lease_table \<Rightarrow> lease_table" where
  "release_acquired sha clk acquired t =
     snd (fold (\<lambda>l (n, t). (Suc n, snd (release sha (clk n) (lease_resource l) (lease_owner l) (lease_token l) t)))
           (rev acquired) (0, t))"

definition lease_order_rank :: "string \<Rightarrow> nat" where
  "lease_order_rank resource =
     (if starts_with ''workspace:'' resource then 1
      else if starts_with ''runtime:'' resource then 2
      else if starts_with ''acceptance:'' resource \<or> starts_with ''computer-use:'' resource then 3
      else 0)"

definition executor_execution_fence :: "u64 \<Rightarrow> u64 \<Rightarrow> u64" where
  "executor_execution_fence now fence =
     sat_add (sat_mul now (2 ^ 16)) (min fence 0xFFFF)"

definition prune_task_retention ::
  "(task \<Rightarrow> nat) \<Rightarrow> u64 \<Rightarrow> u64 \<Rightarrow> nat \<Rightarrow> nat \<Rightarrow> task_table \<Rightarrow> task list \<times> task_table" where
  "prune_task_retention enc_len now retention_ms max_count max_bytes tasks =
     prune_retention enc_len now retention_ms max_count max_bytes tasks"

end
