(* ===== verification/Util_Properties.thy ===== *)
theory Util_Properties
  imports Controller_Util Task_Properties
begin

section \<open>Properties of the Controller's helpers\<close>

text \<open>
  Termination and divergence of lock templates, the order of execution fences, stability of
  compaction, the generation lifecycle, the list update every store operation uses and what
  the input validator accepts.
\<close>

lemma split_open_Some: "split_open s = Some (a, b) \<Longrightarrow> s = a @ CHR ''$'' # CHR ''{'' # b"
proof (induction s arbitrary: a)
  case (Cons c s)
  then show ?case by (cases s) (auto split: if_splits)
qed simp

lemma split_open_None: "split_open s = None \<Longrightarrow> \<not> contains ''${'' s"
proof (induction s)
  case (Cons c s)
  then show ?case by (cases s) (auto split: if_splits)
qed simp

lemma split_once_Some: "split_once d s = Some (a, b) \<Longrightarrow> s = a @ d # b"
  by (induction s arbitrary: a) (auto split: if_splits)

text \<open>
  Rendering a lock template ends whenever no value of the input contains a dollar sign,
  and a rendered name then holds no placeholder any more.
\<close>

theorem render_lock_ends:
  assumes "\<And>k v. jget input k = Some v \<Longrightarrow> CHR ''$'' \<notin> set (display_text jshow v)"
  shows "\<exists>r. render_lock jshow template input = Some r \<and> (\<forall>s. r = Inr s \<longrightarrow> \<not> contains ''${'' s)"
proof -
  have "\<exists>r. render_loop jshow template input s = Some r \<and> (\<forall>x. r = Inr x \<longrightarrow> \<not> contains ''${'' x)" for s
  proof (induction "count_list s (CHR ''$'')" arbitrary: s rule: less_induct)
    case less
    show ?case
    proof (cases "split_open s")
      case None
      then show ?thesis by (subst render_loop.simps) (simp add: split_open_None)
    next
      case (Some p)
      obtain before rest where p: "p = (before, rest)" by (cases p)
      show ?thesis
      proof (cases "split_once (CHR ''}'') rest")
        case None
        then show ?thesis using Some p by (subst render_loop.simps) simp
      next
        case k: (Some q)
        obtain key after where q: "q = (key, after)" by (cases q)
        show ?thesis
        proof (cases "jget input key")
          case None
          then show ?thesis using Some p k q by (subst render_loop.simps) simp
        next
          case v: (Some v)
          have s: "s = before @ CHR ''$'' # CHR ''{'' # key @ CHR ''}'' # after"
            using split_open_Some [of s before rest] split_once_Some [of _ rest key after] Some p k q by simp
          have "count_list (display_text jshow v) (CHR ''$'') = 0"
            using assms [OF v] by (simp add: count_list_0_iff)
          then have "count_list (before @ display_text jshow v @ after) (CHR ''$'') < count_list s (CHR ''$'')"
            unfolding s by simp
          from less [OF this] show ?thesis using Some p k q v by (subst render_loop.simps) simp
        qed
      qed
    qed
  qed
  then show ?thesis by (simp add: render_lock_def)
qed

theorem render_lock_ends_witness:
  "\<exists>r. render_lock (\<lambda>_. ''?'') ''port:${p}'' (JObj [(''p'', JStr ''80'')]) = Some r \<and> (\<forall>s. r = Inr s \<longrightarrow> \<not> contains ''${'' s)"
  by (rule render_lock_ends) (auto simp: display_text_def bt_get_def split: if_splits)

text \<open>
  The restriction matters: a value that contains its own placeholder makes the rendering
  loop for ever, so the request never returns.
\<close>

theorem render_lock_diverges:
  "render_lock jshow ''${a}'' (JObj [(''a'', JStr ''${a}'')]) = None"
proof -
  let ?in = "JObj [(''a'', JStr ''${a}'')]"
  have step: "split_open ''${a}'' = Some ([], ''a}'')" "split_once (CHR ''}'') ''a}'' = Some (''a'', [])"
      "jget ?in ''a'' = Some (JStr ''${a}'')" "display_text j (JStr ''${a}'') = ''${a}''" for j
    by (simp_all add: bt_get_def display_text_def)
  have "i = ?in \<longrightarrow> s \<noteq> ''${a}''" if "render_loop j t i s = Some r" for j t i s r
  proof (rule render_loop.raw_induct [where P = "\<lambda>j t i s r. i = ?in \<longrightarrow> s \<noteq> ''${a}''", OF _ that])
    fix f j t i s r
    assume IH: "\<And>j t i s y. f j t i s = Some y \<Longrightarrow> i = ?in \<longrightarrow> s \<noteq> ''${a}''"
      and body: "(case split_open s of None \<Rightarrow> Some (Inr s)
        | Some (before, rest) \<Rightarrow>
            (case split_once CHR ''}'' rest of
               None \<Rightarrow> Some (Inl (rpc_err ''INVALID_LOCK_TEMPLATE'' t))
             | Some (key, after) \<Rightarrow>
                 (case jget i key of
                    None \<Rightarrow> Some (Inl (rpc_err ''INVALID_LOCK_INPUT'' (''lock requires input field '' @ key)))
                  | Some v \<Rightarrow> f j t i (before @ display_text j v @ after)))) = Some r"
    show "i = ?in \<longrightarrow> s \<noteq> ''${a}''"
    proof (intro impI notI)
      assume "i = ?in" "s = ''${a}''"
      with body step have "f j t ?in ''${a}'' = Some r" by (simp only: option.case prod.case append_Nil append_Nil2)
      with IH show False by blast
    qed
  qed
  then show ?thesis unfolding render_lock_def
    by (cases "render_loop jshow ''${a}'' ?in ''${a}''") blast+
qed

text \<open>
  Execution fences follow the wall clock: while milliseconds fit in 48 bits, a lease
  granted at a later millisecond has a larger execution fence than any granted before it,
  whatever their lease numbers; within one millisecond the order is that of the lease numbers,
  as far as they fit in 16 bits.
\<close>

theorem execution_fence_monotone:
  assumes "unat t1 < 2 ^ 48" "unat t2 < 2 ^ 48"
    and "t1 < t2 \<or> (t1 = t2 \<and> f1 < f2 \<and> f2 \<le> 0xFFFF)"
  shows "executor_execution_fence t1 f1 < executor_execution_fence t2 f2"
proof -
  have val: "unat (executor_execution_fence t f) = unat t * 2 ^ 16 + min (unat f) 0xFFFF" if "unat t < 2 ^ 48" for t f
  proof -
    have m: "unat (min f 0xFFFF) = min (unat f) 0xFFFF" by (simp add: min_def word_le_nat_alt)
    have "unat t * 2 ^ 16 + 0xFFFF < 2 ^ 64" using that by simp
    then show ?thesis by (simp add: executor_execution_fence_def unat_sat_add unat_sat_mul m)
  qed
  have "unat t1 * 2 ^ 16 + min (unat f1) 0xFFFF < unat t2 * 2 ^ 16 + min (unat f2) 0xFFFF"
    using assms(3) by (auto simp: word_less_nat_alt word_le_nat_alt)
  with assms(1,2) show ?thesis by (simp add: word_less_nat_alt val)
qed

theorem execution_fence_monotone_witness:
  "executor_execution_fence 1700000000000 9 < executor_execution_fence 1700000000001 1"
  by (rule execution_fence_monotone) simp_all

lemma drop_evaluations_absent: "''nativeEvaluations'' \<notin> fst ` set (snd (drop_evaluations m))"
  by (auto simp: drop_evaluations_def bt_remove_def bt_get_def map_of_eq_None_iff split: option.splits dest!: bt_insert_member)

lemma drop_evaluations_id: "''nativeEvaluations'' \<notin> fst ` set m \<Longrightarrow> drop_evaluations m = (False, m)"
  by (auto simp: drop_evaluations_def bt_get_def map_of_eq_None_iff split: option.splits)

lemma drop_evaluations_changed: "fst (drop_evaluations m) \<longleftrightarrow> ''nativeEvaluations'' \<in> fst ` set m"
  by (auto simp: drop_evaluations_def bt_get_def map_of_eq_None_iff split: option.splits)
    (metis map_of_SomeD fst_conv image_eqI)

lemma compact_no_evaluations: "(''nativeEvaluations'', x) \<notin> set (json_members (snd (compact_value v)))"
proof (induction v rule: compact_value.induct)
  case (1 m)
  obtain c m1 where d: "drop_evaluations m = (c, m1)" by fastforce
  have "\<forall>e \<in> set m1. fst e \<noteq> ''nativeEvaluations''" using drop_evaluations_absent [of m] d by force
  with 1 [OF refl] d show ?case by (auto simp: Let_def)
qed (auto simp: Let_def)

lemma compact_flag: "fst (compact_value v) \<longleftrightarrow> snd (compact_value v) \<noteq> v"
proof (induction v rule: compact_value.induct)
  case (1 m)
  obtain c m1 where d: "drop_evaluations m = (c, m1)" by fastforce
  show ?case
  proof (cases "''nativeEvaluations'' \<in> fst ` set m")
    case True
    then have "c" using drop_evaluations_changed [of m] d by simp
    moreover have "map (\<lambda>e. (fst e, snd (compact_value (snd e)))) m1 \<noteq> m"
      using True drop_evaluations_absent [of m] d by force
    ultimately show ?thesis using d by (simp add: Let_def comp_def)
  next
    case False
    then have d: "drop_evaluations m = (False, m)" by (rule drop_evaluations_id)
    have "fst (compact_value (snd e)) = (snd (compact_value (snd e)) \<noteq> snd e)" if "e \<in> set m" for e
      using 1 [OF refl d [symmetric] that] by simp
    moreover have "map (\<lambda>e. (fst e, snd (compact_value (snd e)))) m = m \<longleftrightarrow> (\<forall>e \<in> set m. snd (compact_value (snd e)) = snd e)"
      by (induction m) auto
    ultimately show ?thesis using d by (auto simp: Let_def comp_def list_ex_iff)
  qed
next
  case (2 xs)
  have "map (\<lambda>x. snd (compact_value x)) xs = xs \<longleftrightarrow> (\<forall>x \<in> set xs. snd (compact_value x) = x)" by (induction xs) auto
  with 2 show ?case by (auto simp: Let_def comp_def list_ex_iff)
qed auto

lemma compact_id: "(\<forall>x. (''nativeEvaluations'', x) \<notin> set (json_members v)) \<Longrightarrow> snd (compact_value v) = v"
proof (induction v rule: compact_value.induct)
  case (1 m)
  then have d: "drop_evaluations m = (False, m)" by (intro drop_evaluations_id) auto
  have "snd (compact_value (snd e)) = snd e" if "e \<in> set m" for e
    using 1(1) [OF refl d [symmetric] that] 1(2) that by auto
  then have "map (\<lambda>e. (fst e, snd (compact_value (snd e)))) m = m" by (simp add: map_idI)
  with d show ?case by (simp add: Let_def comp_def)
next
  case (2 xs)
  then have "map (\<lambda>x. snd (compact_value x)) xs = xs" by (intro map_idI) auto
  then show ?case by (simp add: Let_def comp_def)
qed auto

text \<open>
  Compaction is stable: after it no object at any depth has a member with the raw
  evaluations, compacting again changes nothing and says so, and the flag of the first pass
  says exactly whether the value changed.
\<close>


theorem compact_value_stable:
  "(''nativeEvaluations'', x) \<notin> set (json_members (snd (compact_value v))) \<and>
   compact_value (snd (compact_value v)) = (False, snd (compact_value v)) \<and>
   (fst (compact_value v) \<longleftrightarrow> snd (compact_value v) \<noteq> v)"
  using compact_no_evaluations [of _ v] compact_flag [of v] compact_flag [of "snd (compact_value v)"]
    compact_id [of "snd (compact_value v)"] by (simp add: prod_eq_iff)

fun generation_rank :: "generation_state \<Rightarrow> nat" where
  "generation_rank GenReserved = 0"
| "generation_rank GenMaterializing = 1"
| "generation_rank GenMaterialized = 2"
| "generation_rank GenValidated = 3"
| "generation_rank GenFinalized = 4"
| "generation_rank GenSmokePassed = 5"
| "generation_rank GenActive = 6"
| "generation_rank GenSuperseded = 7"
| "generation_rank GenFailed = 7"

lemma generation_step: "generation_transition_allowed a b \<Longrightarrow> b \<noteq> a \<Longrightarrow> generation_rank a < generation_rank b \<and> a \<noteq> GenFailed \<and> a \<noteq> GenSuperseded"
  by (auto simp: generation_transition_allowed_def)

lemma generation_active: "generation_transition_allowed GenActive z \<Longrightarrow> z = GenActive \<or> z = GenSuperseded"
  by (cases z) (simp_all add: generation_transition_allowed_def)

text \<open>
  A generation only moves forward: the transition relation is acyclic apart from staying
  where it is, a superseded or failed generation never leaves its state, and an active one is only
  ever superseded.
\<close>

lemma generation_forward:
  assumes "generation_transition_allowed\<^sup>*\<^sup>* a b"
  shows "(b = a \<or> generation_rank a < generation_rank b) \<and>
    (a = GenSuperseded \<or> a = GenFailed \<longrightarrow> b = a) \<and>
    (a = GenActive \<longrightarrow> b = GenActive \<or> b = GenSuperseded)"
  using assms
proof (induction rule: rtranclp_induct)
  case (step y z)
  show ?case
  proof (cases "z = y")
    case False
    from generation_step [OF step.hyps(2) False] generation_active [of z] step show ?thesis by auto
  qed (use step in simp)
qed simp

text \<open>Releasing in reverse order what was acquired.\<close>

lemma upsert_by_set: "x \<in> set (upsert_by P v xs) \<Longrightarrow> x = v \<or> x \<in> set xs"
  by (induction xs) (auto split: if_splits)

lemma upsert_by_in [simp]: "v \<in> set (upsert_by P v xs)"
  by (induction xs) auto

lemma upsert_by_key:
  assumes "f v = k"
  shows "find (\<lambda>x. f x = j) (upsert_by (\<lambda>x. f x = k) v xs) = (if j = k then Some v else find (\<lambda>x. f x = j) xs)"
  using assms by (induction xs) auto

lemma upsert_by_distinct:
  assumes "f v = k" "distinct (map f xs)"
  shows "distinct (map f (upsert_by (\<lambda>x. f x = k) v xs))"
  using assms by (induction xs) (auto dest: upsert_by_set)

subsection \<open>Accepted inputs\<close>

lemma check_required_ok: "check_required obj path ks = Inr u \<longleftrightarrow> (\<forall>k \<in> set ks. bt_get obj k \<noteq> None)"
  by (induction ks) auto

lemma validate_members_ok:
  "validate_members jshow fshow schema properties obj path = Inr u \<longleftrightarrow>
     (\<forall>(k, child) \<in> set obj. case bt_get properties k of
        Some cs \<Rightarrow> validate_schema jshow fshow cs child (path @ ''.'' @ k) = Inr ()
      | None \<Rightarrow> jget schema ''additionalProperties'' \<noteq> Some (JBool False))"
  by (induction obj) (auto split: option.splits)

text \<open>
  What the validator accepts conforms: of an accepted object, every member the schema
  requires is present, every member the schema describes is itself accepted by its schema,
  and when the schema forbids further members there are none.
\<close>

theorem schema_accepts:
  assumes ok: "validate_schema jshow fshow schema (JObj obj) path = Inr ()"
    and schema: "schema = JObj m" "m \<noteq> []"
  shows "(\<forall>required k. get_array schema ''required'' = Some required \<longrightarrow> JStr k \<in> set required \<longrightarrow> bt_get obj k \<noteq> None) \<and>
    (\<forall>properties k child. jget schema ''properties'' = Some (JObj properties) \<longrightarrow> (k, child) \<in> set obj \<longrightarrow>
       (case bt_get properties k of
          Some cs \<Rightarrow> validate_schema jshow fshow cs child (path @ ''.'' @ k) = Inr ()
        | None \<Rightarrow> jget schema ''additionalProperties'' \<noteq> Some (JBool False)))"
proof -
  have ne: "\<not> (as_object schema = None \<or> as_object schema = Some [])" using schema by simp
  have req: "check_required obj path (List.map_filter as_str required) = Inr ()"
    if "get_array schema ''required'' = Some required" for required
    using ok ne that by (subst (asm) validate_schema.simps) auto
  have mem: "validate_members jshow fshow schema properties obj path = Inr ()"
    if "jget schema ''properties'' = Some (JObj properties)" for properties
    using ok ne that by (subst (asm) validate_schema.simps) auto
  have "bt_get obj k \<noteq> None" if "get_array schema ''required'' = Some required" "JStr k \<in> set required" for required k
    using req [OF that(1)] that(2) by (force simp: check_required_ok set_map_filter)
  moreover have "case bt_get properties k of
          Some cs \<Rightarrow> validate_schema jshow fshow cs child (path @ ''.'' @ k) = Inr ()
        | None \<Rightarrow> jget schema ''additionalProperties'' \<noteq> Some (JBool False)"
    if "jget schema ''properties'' = Some (JObj properties)" "(k, child) \<in> set obj" for properties k child
    using mem [OF that(1)] that(2) unfolding validate_members_ok by blast
  ultimately show ?thesis by blast
qed

definition demo_schema :: json where
  "demo_schema = JObj [(''additionalProperties'', JBool False), (''properties'', JObj [(''p'', JObj [(''type'', JStr ''string'')])]),
     (''required'', JArr [JStr ''p''])]"

theorem schema_accepts_witness:
  "validate_schema (\<lambda>_. []) (\<lambda>_. []) demo_schema (JObj [(''p'', JStr ''80'')]) ''input'' = Inr () \<and>
   bt_get [(''p'', JStr ''80'')] ''p'' \<noteq> None"
proof -
  have v: "validate_schema (\<lambda>_. []) (\<lambda>_. []) demo_schema (JObj [(''p'', JStr ''80'')]) ''input'' = Inr ()"
    by (simp add: demo_schema_def validate_schema.simps check_enum_def check_type_def check_bounds_def get_array_def
        bt_get_def List.map_filter_simps value_matches_type_def)
  have "get_array demo_schema ''required'' = Some [JStr ''p'']" by (simp add: demo_schema_def get_array_def bt_get_def)
  with schema_accepts [OF v demo_schema_def] v show ?thesis by auto
qed

end
