(* ===== verification/Catalog.thy ===== *)
theory Catalog
  imports Controller_Util
begin

section \<open>The capability catalogue of an executor\<close>

text \<open>
  What an executor offers and under which terms: \<^verbatim>\<open>capability_catalog\<close>, \<^verbatim>\<open>contract\<close>,
  \<^verbatim>\<open>output_schema\<close> and the small policies of \<^verbatim>\<open>executor.rs\<close>. The controller reads these
  contracts: the input schema it checks, the locks it renders, the authority it requires, the
  attempts it allows. The match arms of \<^verbatim>\<open>contract\<close> and \<^verbatim>\<open>output_schema\<close> are grouped by family;
  no name occurs in two arms, so the grouping does not change which arm is taken. The target platform,
  a compile-time choice in the source, is an argument.
\<close>

datatype platform = Macos | Windows | Linux

definition jtype :: "string \<Rightarrow> json" where
  "jtype t = JObj [(''type'', JStr t)]"

definition jstrs :: "string list \<Rightarrow> json" where
  "jstrs xs = JArr (map JStr xs)"

subsection \<open>Execution classes\<close>

datatype execution_class = ClassControl | ClassProbe | ClassReadOnly | ClassMutating

definition execution_class_of :: "string \<Rightarrow> json \<Rightarrow> execution_class" where
  "execution_class_of action params =
    (if action \<in> set [''ping'', ''status'', ''capability.list'', ''process.get'', ''process.list'',
          ''process.events'', ''tunnel.get'', ''tunnel.list''] then ClassControl
     else if action \<in> set [''filesystem.resolve'', ''filesystem.stat'', ''filesystem.read'', ''filesystem.list'',
          ''filesystem.search'', ''artifact.describe'', ''artifact.relay.archive.read'', ''artifact.relay.manifest'',
          ''artifact.relay.read'', ''readiness.wait'', ''logs.read'', ''port.check'', ''application.inspect'',
          ''ui.inspect'', ''ui.evaluate'', ''ui.native-inspect'', ''clipboard.read'', ''clipboard.status'',
          ''computer-use.tools''] then ClassReadOnly
     else if action = ''command.run'' \<and> get_str params ''mode'' = Some ''readonly'' then ClassProbe
     else ClassMutating)"

subsection \<open>The terms of each capability\<close>

text \<open>Required features, input properties, locks, key fields, timeout, rollback and evidence.\<close>

type_synonym contract_terms =
  "string list \<times> json \<times> string list \<times> string list \<times> u64 \<times> rollback_strategy \<times> string list"

text \<open>The arms for computer use and the clipboard.\<close>

definition contract_desktop :: "string \<Rightarrow> contract_terms option" where
  "contract_desktop name =
    (if name \<in> set [''computer-use.tools'', ''computer-use.call''] then
        Some ([''computer-use''],
            (if name = ''computer-use.tools'' then JObj [] else JObj [(''_desktop'', JObj [(''properties'', JObj [(''owner'', jtype ''string''),
            (''token'', jtype ''string'')]), (''required'', jstrs [''owner'', ''token'']),
            (''type'', JStr ''object'')]), (''arguments'', jtype ''object''), (''tool'', jtype ''string'')]),
            [], [], 120000, RollbackNone, [''computer-use-result''])
     else if name = ''clipboard.status'' then
        Some ([''clipboard''], JObj [], [], [], 5000, RollbackNone, [''clipboard-status''])
     else if name = ''clipboard.read'' then
        Some ([''clipboard''], JObj [(''maxBytes'', JObj [(''maximum'', jnat 16777216), (''minimum'', jnat 1),
            (''type'', JStr ''integer'')])], [], [''maxBytes''], 5000, RollbackNone, [''clipboard-digest''])
     else if name = ''clipboard.write'' then
        Some ([''clipboard''], JObj [(''content'', jtype ''object''),
            (''expiresAtMs'', JObj [(''minimum'', jnat 1), (''type'', JStr ''integer'')]),
            (''maxBytes'', JObj [(''maximum'', jnat 16777216), (''minimum'', jnat 1),
            (''type'', JStr ''integer'')]), (''semanticDigest'', jtype ''string'')], [], [''semanticDigest''],
            5000, RollbackNone, [''clipboard-digest''])
     else None)"

text \<open>The arms for the file system.\<close>

definition contract_filesystem :: "string \<Rightarrow> contract_terms option" where
  "contract_filesystem name =
    (if name \<in> set [''filesystem.resolve'', ''filesystem.stat'', ''filesystem.list''] then
        Some ([''filesystem''], JObj [(''path'', jtype ''string'')], [], [''path''], 30000, RollbackNone,
            [''filesystem-result''])
     else if name = ''filesystem.read'' then
        Some ([''filesystem''], JObj [(''limit'', JObj [(''maximum'', jnat 1048576), (''minimum'', jnat 0),
            (''type'', JStr ''integer'')]), (''offset'', JObj [(''minimum'', jnat 0),
            (''type'', JStr ''integer'')]), (''path'', jtype ''string'')], [], [''path'', ''offset'',
            ''limit''], 30000, RollbackNone, [''filesystem-result''])
     else if name = ''filesystem.search'' then
        Some ([''filesystem''], JObj [(''maxResults'', JObj [(''minimum'', jnat 1),
            (''type'', JStr ''integer'')]), (''path'', jtype ''string''), (''query'', jtype ''string'')], [],
            [''path'', ''query'', ''maxResults''], 60000, RollbackNone, [''search-results''])
     else if name = ''filesystem.write'' then
        Some ([''filesystem''], JObj [(''content'', jtype ''string''),
            (''encoding'', JObj [(''enum'', jstrs [''utf-8'', ''base64'']), (''type'', JStr ''string'')]),
            (''expectedDigest'', jtype ''string''), (''path'', jtype ''string'')], [''filesystem:${path}''],
            [''path'', ''content'', ''encoding'', ''expectedDigest''], 30000, RollbackNone, [''file-digest''])
     else if name = ''filesystem.patch'' then
        Some ([''filesystem''], JObj [(''after'', jtype ''string''), (''before'', jtype ''string''),
            (''expectedDigest'', jtype ''string''), (''path'', jtype ''string'')], [''filesystem:${path}''],
            [''path'', ''before'', ''after'', ''expectedDigest''], 30000, RollbackNone, [''file-digest''])
     else if name = ''filesystem.remove'' then
        Some ([''filesystem''], JObj [(''expectedDigest'', jtype ''string''), (''path'', jtype ''string'')],
            [''filesystem:${path}''], [''path'', ''expectedDigest''], 30000,
            (RollbackCompensate ''filesystem.restore''), [''restore-token''])
     else if name = ''filesystem.restore'' then
        Some ([''filesystem''], JObj [(''path'', jtype ''string''), (''restoreToken'', jtype ''string'')],
            [''filesystem:${path}''], [''path'', ''restoreToken''], 30000, RollbackNone, [''restore-result''])
     else if name = ''filesystem.mkdir'' then
        Some ([''filesystem''], JObj [(''path'', jtype ''string'')], [''filesystem:${path}''], [''path''],
            30000, RollbackNone, [''directory-result''])
     else None)"

text \<open>The arms for commands, builds and the artifact relay.\<close>

definition contract_artifact :: "string \<Rightarrow> contract_terms option" where
  "contract_artifact name =
    (if name = ''command.run'' then
        Some ([''process''], JObj [(''approvalDigest'', jtype ''string''),
            (''argv'', JObj [(''items'', jtype ''string''), (''type'', JStr ''array'')]),
            (''cwd'', jtype ''string''), (''env'', JObj [(''additionalProperties'', jtype ''string''),
            (''type'', JStr ''object'')]), (''mode'', JObj [(''enum'', jstrs [''readonly'', ''mutating'']),
            (''type'', JStr ''string'')]), (''resources'', JObj [(''items'', jtype ''string''),
            (''type'', JStr ''array'')]), (''timeoutMs'', JObj [(''maximum'', jnat 3600000),
            (''minimum'', jnat 1), (''type'', JStr ''integer'')])], [], [''cwd'', ''argv'', ''env'', ''mode'',
            ''resources''], 3600000, RollbackNone, [''command-result''])
     else if name = ''artifact.build'' then
        Some ([''process'', ''filesystem''], JObj [(''approvalDigest'', jtype ''string''),
            (''argv'', JObj [(''items'', jtype ''string''), (''type'', JStr ''array'')]),
            (''artifactPath'', jtype ''string''), (''artifactType'', jtype ''string''),
            (''cwd'', jtype ''string''), (''env'', JObj [(''additionalProperties'', jtype ''string''),
            (''type'', JStr ''object'')])], [''build:${artifactPath}''], [''cwd'', ''argv'', ''env'',
            ''artifactPath'', ''artifactType''], 3600000, RollbackNone, [''build-log'', ''artifact-digest'',
            ''provenance''])
     else if name = ''artifact.describe'' then
        Some ([''filesystem''], JObj [(''path'', jtype ''string'')], [], [''path''], 3600000, RollbackNone,
            [''artifact-digest'', ''provenance''])
     else if name \<in> set [''artifact.relay.archive.create'', ''artifact.relay.archive.read'',
           ''artifact.relay.archive.remove'', ''artifact.relay.manifest'', ''artifact.relay.read''] then
        Some ([''filesystem''], JObj [(''limit'', jtype ''integer''), (''offset'', jtype ''integer''),
            (''path'', jtype ''string''), (''relativePath'', jtype ''string''), (''token'', jtype ''string'')],
            [], [''path'', ''relativePath'', ''offset'', ''limit''], 600000, RollbackNone,
            [''artifact-relay-source''])
     else if name = ''artifact.relay.local-copy'' then
        Some ([''filesystem-copy''], JObj [(''destination'', jtype ''string''), (''source'', jtype ''string''),
            (''staging'', jtype ''string'')], [''artifact-relay:${destination}''], [''source'',
            ''destination'', ''staging''], 3600000, RollbackNone, [''artifact-relay-local-copy''])
     else if name \<in> set [''artifact.relay.archive.prepare'', ''artifact.relay.archive.write'',
           ''artifact.relay.archive.commit'', ''artifact.relay.prepare'', ''artifact.relay.write'',
           ''artifact.relay.commit''] then
        Some ([''filesystem''], JObj [(''archiveSize'', jtype ''integer''), (''data'', jtype ''string''),
            (''destination'', jtype ''string''), (''entries'', jtype ''array''),
            (''expectedDigest'', jtype ''string''), (''files'', jtype ''integer''),
            (''offset'', jtype ''integer''), (''relativePath'', jtype ''string''),
            (''size'', jtype ''integer''), (''staging'', jtype ''string'')],
            [''artifact-relay:${destination}''], [''destination'', ''staging''], 3600000, RollbackNone,
            [''artifact-relay-destination''])
     else None)"

text \<open>The arms for generations of an application.\<close>

definition contract_generation :: "string \<Rightarrow> contract_terms option" where
  "contract_generation name =
    (if name = ''application.materialize'' then
        Some ([''filesystem-copy''], JObj [(''baselinePath'', jtype ''string''),
            (''derivedFrom'', JObj [(''type'', jstrs [''string'', ''null''])]),
            (''generationId'', jtype ''string''), (''generationRoot'', jtype ''string'')],
            [''generation:${generationRoot}/${generationId}''], [''generationRoot'', ''generationId'',
            ''baselinePath''], 3600000, RollbackRetainPreviousGeneration, [''generation-marker'',
            ''baseline-identity''])
     else if name = ''application.apply-artifacts'' then
        Some ([''filesystem-copy''], JObj [(''applicationPath'', jtype ''string''),
            (''overlays'', jtype ''array'')], [''application:${applicationPath}''], [''applicationPath'',
            ''overlays''], 3600000, RollbackRetainPreviousGeneration, [''applied-artifacts'',
            ''generation-marker''])
     else if name = ''artifact.pack-chromium-datapack'' then
        Some ([''chromium-datapack''], JObj [(''arch'', jtype ''string''),
            (''basePackDigest'', jtype ''string''), (''basePackPath'', jtype ''string''),
            (''bundleName'', jtype ''string''), (''changedPrefixes'', JObj [(''items'', jtype ''string''),
            (''type'', JStr ''array'')]), (''manifestMetadata'', jtype ''object''),
            (''outputRelative'', jtype ''string''), (''platform'', jtype ''string''),
            (''resourceTrees'', jtype ''array''), (''rootPath'', jtype ''string'')],
            [''datapack:${rootPath}/${outputRelative}''], [''rootPath'', ''resourceTrees'',
            ''outputRelative''], 3600000, RollbackRetainPreviousGeneration, [''packed-resource-digest'',
            ''packed-resource-manifest''])
     else if name = ''application.finalize'' then
        Some ([''macos-codesign''], JObj [(''applicationPath'', jtype ''string''),
            (''identity'', jtype ''string''), (''signingKeychain'', jtype ''string''),
            (''signingKeychainPasswordFile'', jtype ''string''), (''units'', jtype ''array'')],
            [''application:${applicationPath}''], [''applicationPath'', ''units'', ''identity''], 600000,
            RollbackRetainPreviousGeneration, [''signature-verification''])
     else if name = ''application.activate'' then
        Some ([''atomic-symlink''], JObj [(''fence'', jtype ''integer''), (''generationId'', jtype ''string''),
            (''generationRoot'', jtype ''string'')], [''activation:${generationRoot}/current''],
            [''generationRoot'', ''generationId''], 30000, RollbackRetainPreviousGeneration,
            [''activation-record''])
     else if name \<in> set [''application.generation.record'', ''application.runtime.record''] then
        Some ([''filesystem''], JObj [(''evidence'', jtype ''object''), (''generationId'', jtype ''string''),
            (''generationRoot'', jtype ''string''), (''state'', jtype ''string'')],
            [''generation:${generationRoot}/${generationId}''], [''generationRoot'', ''generationId'',
            ''state'', ''evidence''], 30000, RollbackRetainPreviousGeneration, [''generation-record''])
     else None)"

text \<open>The arms for running applications.\<close>

definition contract_application :: "string \<Rightarrow> contract_terms option" where
  "contract_application name =
    (if name = ''application.inspect'' then
        Some ([''macos-application''], JObj [(''applicationPath'', jtype ''string'')], [],
            [''applicationPath''], 30000, RollbackNone, [''application-identity''])
     else if name = ''application.launch'' then
        Some ([''macos-application''], JObj [(''applicationPath'', jtype ''string''),
            (''args'', JObj [(''items'', jtype ''string''), (''type'', JStr ''array'')]),
            (''bundleIdentifier'', jtype ''string''), (''chromiumLocalStatePatch'', jtype ''object''),
            (''chromiumLocalStatePath'', jtype ''string''), (''chromiumLocalStateReapply'', jtype ''boolean''),
            (''chromiumLocalStateSettleMs'', JObj [(''maximum'', jnat 30000), (''minimum'', jnat 0),
            (''type'', JStr ''integer'')]), (''file'', jtype ''string''),
            (''remoteDebuggingPort'', jtype ''integer''), (''runtimeShadowDir'', jtype ''string''),
            (''runtimeShadowMutablePaths'', JObj [(''items'', jtype ''string''), (''type'', JStr ''array'')]),
            (''terminateConflictingInstances'', jtype ''boolean''), (''userDataDir'', jtype ''string'')],
            [''application-instance:${bundleIdentifier}''], [''applicationPath'', ''bundleIdentifier'',
            ''args'', ''terminateConflictingInstances''], 120000, (RollbackCompensate ''process.stop''),
            [''process'', ''readiness''])
     else if name = ''application.open-file'' then
        Some ([''launch-services''], JObj [(''applicationPath'', jtype ''string''),
            (''file'', jtype ''string''), (''handlerPath'', jtype ''string'')],
            [''application-instance:${applicationPath}''], [''applicationPath'', ''file''], 30000,
            RollbackNone, [''open-result''])
     else if name = ''application.stop'' then
        Some ([''macos-application''], JObj [(''applicationPath'', jtype ''string'')],
            [''application-instance:${applicationPath}''], [''applicationPath''], 30000, RollbackNone,
            [''stop-result''])
     else None)"

text \<open>The arms for user interfaces.\<close>

definition contract_ui :: "platform \<Rightarrow> string \<Rightarrow> contract_terms option" where
  "contract_ui os name =
    (if name = ''ui.inspect'' then
        Some ([''cdp''], JObj [(''remoteDebuggingPort'', jtype ''integer'')], [], [], 30000, RollbackNone,
            [''ui-snapshot''])
     else if name = ''ui.evaluate'' then
        Some ([''cdp''], JObj [(''expression'', jtype ''string''),
            (''remoteDebuggingPort'', jtype ''integer''), (''targetUrlPrefix'', jtype ''string'')], [],
            [''remoteDebuggingPort'', ''targetUrlPrefix'', ''expression''], 30000, RollbackNone,
            [''evaluation-result''])
     else if name = ''ui.automate'' then
        Some ([''cdp''], JObj [(''method'', jtype ''string''), (''params'', jtype ''object''),
            (''remoteDebuggingPort'', jtype ''integer''), (''targetUrlPrefix'', jtype ''string'')],
            [''ui-target:${remoteDebuggingPort}''], [''remoteDebuggingPort'', ''targetUrlPrefix'', ''method'',
            ''params''], 30000, RollbackNone, [''automation-result''])
     else if os = Macos \<and> name = ''ui.capture'' then
        Some ([''cdp''], JObj [(''output'', jtype ''string''), (''remoteDebuggingPort'', jtype ''integer''),
            (''targetUrlPrefix'', jtype ''string'')], [], [''remoteDebuggingPort'', ''targetUrlPrefix'',
            ''output''], 30000, RollbackNone, [''screenshot''])
     else if os = Windows \<and> name = ''ui.capture'' then
        Some ([''windows-desktop'', ''printwindow''], JObj [(''applicationPath'', jtype ''string''),
            (''expectedWindowTitle'', jtype ''string''), (''output'', jtype ''string'')], [],
            [''applicationPath'', ''expectedWindowTitle'', ''output''], 30000, RollbackNone, [''screenshot'',
            ''capture-backend'', ''window-bounds''])
     else if os = Windows \<and> name = ''ui.input'' then
        Some ([''windows-desktop'', ''send-input''],
            JObj [(''actions'', JObj [(''items'', JObj [(''additionalProperties'', JBool False),
            (''properties'', JObj [(''button'', JObj [(''enum'', jstrs [''left'', ''right'', ''middle''])]),
            (''count'', JObj [(''maximum'', jnat 3), (''minimum'', jnat 1), (''type'', JStr ''integer'')]),
            (''durationMs'', JObj [(''maximum'', jnat 5000), (''minimum'', jnat 0),
            (''type'', JStr ''integer'')]), (''key'', jtype ''string''),
            (''modifiers'', JObj [(''items'', JObj [(''enum'', jstrs [''ALT'', ''CTRL'', ''SHIFT'',
            ''WIN''])]), (''type'', JStr ''array'')]), (''text'', JObj [(''maxLength'', jnat 16384),
            (''type'', JStr ''string'')]), (''type'', JObj [(''enum'', jstrs [''focus'', ''click'', ''key'',
            ''text'', ''paste'', ''wait''])]), (''x'', jtype ''integer''), (''y'', jtype ''integer'')]),
            (''required'', jstrs [''type'']), (''type'', JStr ''object'')]), (''maxItems'', jnat 100),
            (''minItems'', jnat 1), (''type'', JStr ''array'')]), (''applicationPath'', jtype ''string''),
            (''expectedWindowTitle'', jtype ''string''), (''remoteDebuggingPort'', jtype ''integer'')],
            [''ui-target:${remoteDebuggingPort}''], [''applicationPath'', ''expectedWindowTitle'',
            ''remoteDebuggingPort'', ''actions''], 30000, RollbackNone, [''input-actions'', ''target-window'',
            ''window-bounds''])
     else if name = ''ui.native-inspect'' then
        Some ([''macos-accessibility''], JObj [(''applicationPath'', jtype ''string''),
            (''requestPermission'', jtype ''boolean'')], [], [''applicationPath''], 30000, RollbackNone,
            [''native-window-tree'', ''accessibility-trust''])
     else None)"

text \<open>The arms for processes and ports.\<close>

definition contract_process :: "string \<Rightarrow> contract_terms option" where
  "contract_process name =
    (if name = ''process.start'' then
        Some ([''process''], JObj [(''argv'', JObj [(''items'', jtype ''string''),
            (''type'', JStr ''array'')]), (''cwd'', jtype ''string''),
            (''env'', JObj [(''additionalProperties'', jtype ''string''), (''type'', JStr ''object'')]),
            (''logPath'', jtype ''string''), (''processId'', jtype ''string''),
            (''readiness'', jtype ''object'')], [''process:${processId}''], [''processId'', ''argv'', ''cwd''],
            30000, (RollbackCompensate ''process.stop''), [''process-record'', ''readiness''])
     else if name \<in> set [''process.get'', ''process.stop'', ''process.restart'', ''process.events'',
           ''readiness.wait'', ''logs.read''] then
        Some ([''process''], JObj [(''processId'', jtype ''string''), (''tail'', jtype ''integer''),
            (''timeoutMs'', jtype ''integer'')], (if name \<in> set [''process.stop'',
            ''process.restart''] then [''process:${processId}''] else []), [''processId''],
            (if name = ''readiness.wait'' then 900000 else 30000), RollbackNone, [''process-record''])
     else if name = ''process.list'' then
        Some ([''process''], JObj [], [], [], 30000, RollbackNone, [''process-list''])
     else if name = ''port.check'' then
        Some ([''network''], JObj [(''port'', JObj [(''maximum'', jnat 65535), (''minimum'', jnat 1),
            (''type'', JStr ''integer'')])], [], [''port''], 30000, RollbackNone, [''port-status''])
     else None)"

text \<open>The arms for tunnels and agents.\<close>

definition contract_tunnel :: "string \<Rightarrow> contract_terms option" where
  "contract_tunnel name =
    (if name = ''tunnel.ensure'' then
        Some ([''process'', ''network''], JObj [(''bindHost'', jtype ''string''),
            (''bindPort'', JObj [(''maximum'', jnat 65535), (''minimum'', jnat 1),
            (''type'', JStr ''integer'')]), (''cwd'', jtype ''string''),
            (''direction'', JObj [(''enum'', jstrs [''local-forward'', ''remote-forward'']),
            (''type'', JStr ''string'')]), (''knownHostsFile'', jtype ''string''),
            (''logPath'', jtype ''string''), (''sshHost'', jtype ''string''),
            (''targetHost'', jtype ''string''), (''targetPort'', JObj [(''maximum'', jnat 65535),
            (''minimum'', jnat 1), (''type'', JStr ''integer'')]), (''tunnelId'', jtype ''string''),
            (''workspaceSessionId'', jtype ''string'')], [''tunnel:${tunnelId}'',
            ''bind:${bindHost}:${bindPort}''], [''tunnelId'', ''sshHost'', ''direction'', ''bindHost'',
            ''bindPort'', ''targetHost'', ''targetPort''], 30000, (RollbackCompensate ''tunnel.stop''),
            [''tunnel-record'', ''readiness''])
     else if name \<in> set [''tunnel.get'', ''tunnel.stop''] then
        Some ([''process'', ''network''], JObj [(''tunnelId'', jtype ''string'')],
            (if name = ''tunnel.stop'' then [''tunnel:${tunnelId}''] else []), [''tunnelId''], 30000,
            RollbackNone, [''tunnel-record''])
     else if name = ''tunnel.list'' then
        Some ([''process'', ''network''], JObj [], [], [], 30000, RollbackNone, [''tunnel-list''])
     else if name = ''agent.start'' then
        Some ([''process'', ''agent-runtime''], JObj [(''agentId'', jtype ''string''),
            (''argv'', JObj [(''items'', jtype ''string''), (''type'', JStr ''array'')]),
            (''cwd'', jtype ''string''), (''env'', JObj [(''additionalProperties'', jtype ''string''),
            (''type'', JStr ''object'')]), (''logPath'', jtype ''string''), (''readiness'', jtype ''object''),
            (''role'', jtype ''string'')], [''agent:${agentId}''], [''agentId'', ''role'', ''cwd'', ''argv''],
            60000, (RollbackCompensate ''agent.stop''), [''agent-process'', ''readiness''])
     else if name = ''agent.stop'' then
        Some ([''process'', ''agent-runtime''], JObj [(''agentId'', jtype ''string'')], [''agent:${agentId}''],
            [''agentId''], 30000, RollbackNone, [''agent-process''])
     else None)"

definition first_match :: "'a option list \<Rightarrow> 'a \<Rightarrow> 'a" where
  "first_match matches d = (case filter (\<lambda>m. m \<noteq> None) matches of Some t # _ \<Rightarrow> t | _ \<Rightarrow> d)"

definition terms_of :: "platform \<Rightarrow> string \<Rightarrow> contract_terms" where
  "terms_of os name =
     first_match
       [contract_desktop name, contract_filesystem name, contract_artifact name, contract_generation name,
        contract_application name, contract_ui os name, contract_process name, contract_tunnel name]
       ([], JObj [], [], [], 30000, RollbackNone, [])"

subsection \<open>Required input members\<close>

definition optional_fields :: "string list" where
  "optional_fields =
     [''mode'', ''identity'', ''fence'', ''remoteDebuggingPort'', ''targetUrlPrefix'', ''requestPermission'',
      ''maxResults'', ''env'', ''logPath'', ''readiness'', ''tail'', ''fence'', ''approvalDigest'',
      ''workspaceSessionId'', ''knownHostsFile'', ''mode'', ''resources'', ''timeoutMs'']"

definition optional_here :: "string \<Rightarrow> string list" where
  "optional_here name =
    (if name = ''application.launch'' then
       [''chromiumLocalStatePatch'', ''chromiumLocalStatePath'', ''chromiumLocalStateSettleMs'', ''file'',
        ''runtimeShadowDir'', ''runtimeShadowMutablePaths'', ''chromiumLocalStateReapply'', ''userDataDir'']
     else if name = ''application.open-file'' then [''handlerPath'']
     else if name = ''application.materialize'' then [''derivedFrom'']
     else if name = ''artifact.pack-chromium-datapack'' then
       [''basePackPath'', ''basePackDigest'', ''changedPrefixes'', ''manifestMetadata'']
     else if name = ''filesystem.read'' then [''offset'', ''limit'']
     else if name = ''filesystem.write'' then [''encoding'', ''expectedDigest'']
     else [])"

definition schema_required :: "string \<Rightarrow> json \<Rightarrow> string list" where
  "schema_required name properties =
     filter (\<lambda>key. key \<notin> set optional_fields \<and> key \<notin> set (optional_here name))
       (map fst (unwrap_or [] (as_object properties)))"

definition input_schema_of :: "string \<Rightarrow> json \<Rightarrow> json" where
  "input_schema_of name properties =
     JObj [(''$schema'', JStr ''https://json-schema.org/draft/2020-12/schema''), (''additionalProperties'', JBool True),
       (''properties'', properties), (''required'', jstrs (schema_required name properties)), (''type'', JStr ''object'')]"

subsection \<open>Authority, kind, priority, concurrency\<close>

definition capability_authority_of :: "string \<Rightarrow> capability_authority" where
  "capability_authority_of name =
    (if name \<in> set [''filesystem.resolve'', ''filesystem.stat'', ''filesystem.read'', ''filesystem.list'',
          ''filesystem.search'', ''artifact.describe'', ''artifact.relay.archive.create'', ''artifact.relay.archive.read'',
          ''artifact.relay.archive.remove'', ''artifact.relay.manifest'', ''artifact.relay.read'', ''tunnel.get'',
          ''tunnel.list'', ''process.get'', ''process.list'', ''process.events'', ''readiness.wait'', ''logs.read'',
          ''port.check'', ''application.inspect'', ''ui.inspect'', ''ui.evaluate'', ''ui.capture'',
          ''ui.native-inspect'', ''clipboard.status'', ''clipboard.read''] then AuthorityNone
     else if name = ''computer-use.tools'' then AuthorityNone
     else if name = ''computer-use.call'' then AuthorityDesktopSession
     else if name = ''clipboard.write'' then AuthorityResourceLease ''clipboard:${executorId}''
     else if name \<in> set [''application.activate'', ''application.launch'', ''application.open-file'',
          ''application.stop'', ''application.runtime.record''] then AuthorityResourceLease ''runtime:${executorId}''
     else if name \<in> set [''ui.automate'', ''ui.input''] then
       AuthorityResourceLease ''acceptance:${executorId}:${remoteDebuggingPort}''
     else if name \<in> set [''tunnel.ensure'', ''tunnel.stop''] then
       AuthorityResourceLease ''tunnel:${executorId}:${tunnelId}''
     else if name \<in> set [''artifact.relay.archive.prepare'', ''artifact.relay.archive.write'',
          ''artifact.relay.archive.commit'', ''artifact.relay.prepare'', ''artifact.relay.write'',
          ''artifact.relay.commit''] then AuthorityResourceLease ''artifact-relay:${destination}''
     else if name = ''artifact.relay.local-copy'' then AuthorityResourceLease ''artifact-relay:${destination}''
     else AuthorityWorkspaceDriver)"

definition capability_execution_kind :: "string \<Rightarrow> u64 \<Rightarrow> execution_kind" where
  "capability_execution_kind name timeout_ms =
    (if 30000 < timeout_ms \<or> name \<in> set [''artifact.build'', ''artifact.relay'', ''generation.materialize'',
          ''application.launch'', ''process.start'', ''command.run''] then ExecBackground
     else ExecInline)"

definition capability_priority :: "string \<Rightarrow> nat" where
  "capability_priority name =
    (case execution_class_of name JNull of
       ClassControl \<Rightarrow> 0
     | ClassProbe \<Rightarrow> 2
     | ClassReadOnly \<Rightarrow> 2
     | ClassMutating \<Rightarrow> if name \<in> set [''tunnel.ensure'', ''process.start'', ''process.stop''] then 3 else 4)"

definition capability_concurrency :: "string \<Rightarrow> u32 option" where
  "capability_concurrency name =
    (if name = ''command.run'' then Some 4
     else case execution_class_of name JNull of
       ClassControl \<Rightarrow> None
     | ClassProbe \<Rightarrow> Some 4
     | ClassReadOnly \<Rightarrow> Some 8
     | ClassMutating \<Rightarrow> Some 1)"

definition capability_cancel_policy :: "string \<Rightarrow> cancel_policy" where
  "capability_cancel_policy name = CancelContinue"

subsection \<open>Output schemas\<close>

definition output_files :: "string \<Rightarrow> json option" where
  "output_files name =
    (if name = ''filesystem.resolve'' then
        Some (JObj [(''exists'', jtype ''boolean''), (''path'', jtype ''string'')])
     else if name = ''filesystem.stat'' then
        Some (JObj [(''digest'', JObj [(''type'', jstrs [''string'', ''null''])]),
            (''exists'', jtype ''boolean''), (''kind'', jtype ''string''), (''path'', jtype ''string''),
            (''size'', jtype ''integer'')])
     else if name = ''filesystem.read'' then
        Some (JObj [(''bytes'', jtype ''integer''), (''content'', jtype ''string''),
            (''digest'', jtype ''string''), (''eof'', jtype ''boolean''), (''offset'', jtype ''integer''),
            (''path'', jtype ''string''), (''size'', jtype ''integer'')])
     else if name = ''filesystem.list'' then
        Some (JObj [(''entries'', jtype ''array''), (''path'', jtype ''string'')])
     else if name = ''filesystem.search'' then
        Some (JObj [(''matches'', jtype ''array''), (''path'', jtype ''string''),
            (''query'', jtype ''string''), (''truncated'', jtype ''boolean'')])
     else if name \<in> set [''filesystem.write'', ''filesystem.patch''] then
        Some (JObj [(''digest'', jtype ''string''), (''path'', jtype ''string'')])
     else if name = ''filesystem.remove'' then
        Some (JObj [(''path'', jtype ''string''), (''removed'', jtype ''boolean''),
            (''restoreToken'', jtype ''string'')])
     else if name = ''filesystem.restore'' then
        Some (JObj [(''path'', jtype ''string''), (''restored'', jtype ''boolean'')])
     else if name = ''filesystem.mkdir'' then
        Some (JObj [(''created'', jtype ''boolean''), (''path'', jtype ''string'')])
     else if name = ''artifact.describe'' then
        Some (JObj [(''digest'', jtype ''string''), (''executorId'', jtype ''string''),
            (''files'', jtype ''integer''), (''kind'', jtype ''string''), (''path'', jtype ''string''),
            (''size'', jtype ''integer'')])
     else if name = ''command.run'' then
        Some (JObj [(''argv'', jtype ''array''), (''cwd'', jtype ''string''),
            (''exitCode'', JObj [(''type'', jstrs [''integer'', ''null''])]), (''stderr'', jtype ''string''),
            (''stdout'', jtype ''string'')])
     else if name = ''artifact.build'' then
        Some (JObj [(''artifact'', jtype ''object''), (''command'', jtype ''object'')])
     else if name \<in> set [''process.start'', ''process.get'', ''process.stop'', ''process.restart'',
           ''agent.start'', ''agent.stop''] then
        Some (JObj [(''id'', jtype ''string''), (''pid'', JObj [(''type'', jstrs [''integer'', ''null''])]),
            (''state'', jtype ''string'')])
     else if name \<in> set [''tunnel.ensure'', ''tunnel.get'', ''tunnel.stop''] then
        Some (JObj [(''destination'', jtype ''object''), (''id'', jtype ''string''),
            (''observedState'', jtype ''string''), (''source'', jtype ''object''),
            (''state'', jtype ''string'')])
     else if name = ''tunnel.list'' then
        Some (JObj [(''tunnels'', jtype ''array'')])
     else None)"

definition output_application :: "string \<Rightarrow> json option" where
  "output_application name =
    (if name = ''application.materialize'' then
        Some (JObj [(''applicationPath'', jtype ''string''), (''cloneHits'', jtype ''integer''),
            (''copiedBytes'', jtype ''integer''), (''copiedFiles'', jtype ''integer''),
            (''createdAt'', jtype ''integer''), (''derivedFrom'', JObj [(''type'', jstrs [''string'',
            ''null''])]), (''generationId'', jtype ''string''), (''linkHits'', jtype ''integer''),
            (''markerPath'', jtype ''string''), (''root'', jtype ''string'')])
     else if name = ''application.activate'' then
        Some (JObj [(''activatedAt'', jtype ''integer''), (''current'', jtype ''string''),
            (''generationId'', jtype ''string''), (''previous'', JObj [(''type'', jstrs [''string'',
            ''null''])])])
     else if name \<in> set [''application.generation.record'', ''application.runtime.record''] then
        Some (JObj [(''generationId'', jtype ''string''), (''state'', jtype ''string'')])
     else if name = ''application.inspect'' then
        Some (JObj [(''build'', JObj []), (''bundleIdentifier'', JObj [(''type'', jstrs [''string'',
            ''null''])]), (''documentTypes'', JObj []), (''path'', jtype ''string''), (''version'', JObj [])])
     else if name = ''application.finalize'' then
        Some (JObj [(''applicationPath'', jtype ''string''), (''signed'', jtype ''array''),
            (''verified'', jtype ''boolean'')])
     else if name = ''application.launch'' then
        Some (JObj [(''applicationPath'', jtype ''string''), (''args'', jtype ''array''),
            (''cdp'', JObj [(''type'', jstrs [''object'', ''null''])]),
            (''file'', JObj [(''type'', jstrs [''string'', ''null''])]),
            (''launcherPid'', JObj [(''type'', jstrs [''integer'', ''null''])]), (''pid'', jtype ''integer''),
            (''runtimeApplicationPath'', JObj [(''type'', jstrs [''string'', ''null''])])])
     else if name = ''application.apply-artifacts'' then
        Some (JObj [(''applied'', jtype ''array'')])
     else if name = ''artifact.pack-chromium-datapack'' then
        Some (JObj [(''contentHash'', jtype ''string''), (''entries'', jtype ''integer''),
            (''output'', jtype ''string''), (''resources'', jtype ''integer''), (''sha256'', jtype ''string''),
            (''size'', jtype ''integer'')])
     else if name = ''application.open-file'' then
        Some (JObj [(''applicationPath'', jtype ''string''), (''file'', jtype ''string''),
            (''handlerPath'', jtype ''string''), (''openedAt'', jtype ''integer'')])
     else if name = ''application.stop'' then
        Some (JObj [(''applicationPath'', jtype ''string''), (''stopped'', jtype ''array'')])
     else None)"

definition output_ui :: "platform \<Rightarrow> string \<Rightarrow> json option" where
  "output_ui os name =
    (if name = ''ui.inspect'' then
        Some (JObj [(''targets'', jtype ''array'')])
     else if name = ''ui.automate'' then
        Some (JObj [(''result'', JObj []), (''target'', jtype ''object'')])
     else if os = Macos \<and> name = ''ui.capture'' then
        Some (JObj [(''bytes'', jtype ''integer''), (''capturedAt'', jtype ''integer''),
            (''path'', jtype ''string''), (''target'', jtype ''object'')])
     else if os = Windows \<and> name = ''ui.capture'' then
        Some (JObj [(''applicationPath'', jtype ''string''), (''bytes'', jtype ''integer''),
            (''capture'', jtype ''object''), (''capturedAt'', jtype ''integer''),
            (''executable'', jtype ''string''), (''path'', jtype ''string'')])
     else if os = Windows \<and> name = ''ui.input'' then
        Some (JObj [(''actions'', jtype ''array''), (''applicationPath'', jtype ''string''),
            (''executable'', jtype ''string''), (''inputAt'', jtype ''integer''),
            (''target'', jtype ''object'')])
     else if name = ''logs.read'' then
        Some (JObj [(''lines'', jtype ''array''), (''path'', jtype ''string''),
            (''processId'', jtype ''string'')])
     else if name = ''process.list'' then
        Some (JObj [(''processes'', jtype ''array'')])
     else if name = ''port.check'' then
        Some (JObj [(''available'', jtype ''boolean''), (''port'', jtype ''integer'')])
     else if name = ''ui.evaluate'' then
        Some (JObj [(''evaluatedAt'', jtype ''integer''), (''target'', jtype ''object''),
            (''value'', JObj [])])
     else if name = ''ui.native-inspect'' then
        Some (JObj [(''applicationPath'', jtype ''string''), (''inspectedAt'', jtype ''integer''),
            (''inspection'', jtype ''object''), (''pids'', jtype ''array'')])
     else if name = ''process.events'' then
        Some (JObj [(''events'', jtype ''array''), (''processId'', jtype ''string'')])
     else None)"

definition output_properties :: "platform \<Rightarrow> string \<Rightarrow> json" where
  "output_properties os name =
     first_match [output_files name, output_application name, output_ui os name] (JObj [])"

definition output_schema :: "platform \<Rightarrow> string \<Rightarrow> json" where
  "output_schema os name =
     (let properties = output_properties os name;
          required = filter (\<lambda>key. \<not> (name = ''application.launch'' \<and> key = ''runtimeApplicationPath''))
            (map fst (unwrap_or [] (as_object properties)))
      in JObj [(''additionalProperties'', JBool True), (''properties'', properties), (''required'', jstrs required),
           (''type'', JStr ''object'')])"

subsection \<open>The contract and the catalogue\<close>

definition contract :: "platform \<Rightarrow> string \<Rightarrow> effect \<Rightarrow> capability_descriptor" where
  "contract os name effect =
     (case terms_of os name of
        (required, properties, locks, key_fields, timeout_ms, rollback, evidence) \<Rightarrow>
          \<lparr>cap_name = name,
           cap_version = ''2.0.0'',
           cap_input_schema = input_schema_of name properties,
           cap_output_schema = output_schema os name,
           cap_required_executor_features = required,
           cap_locks = map (\<lambda>key. \<lparr>lock_key = key, lock_mode = LockExclusive\<rparr>) locks,
           cap_idempotency = \<lparr>idem_key_fields = key_fields, idem_retention_ms = 86400000\<rparr>,
           cap_timeout_ms = timeout_ms,
           cap_execution_kind = capability_execution_kind name timeout_ms,
           cap_retry =
             \<lparr>retry_max_attempts = (if effect = EffectReadOnly \<or> key_fields \<noteq> [] then 3 else 1),
              retry_retryable_errors = [''EXECUTOR_UNAVAILABLE''], retry_backoff_ms = 500\<rparr>,
           cap_rollback = rollback,
           cap_health_check = CheckProcess,
           cap_emitted_evidence = evidence,
           cap_effect = effect,
           cap_authority = capability_authority_of name,
           cap_priority = capability_priority name,
           cap_max_concurrency = capability_concurrency name,
           cap_cancel_policy = capability_cancel_policy name\<rparr>)"

definition common_capabilities :: "(string \<times> effect) list" where
  "common_capabilities =
     [(''filesystem.resolve'', EffectReadOnly), (''filesystem.stat'', EffectReadOnly),
     (''filesystem.read'', EffectReadOnly), (''filesystem.list'', EffectReadOnly),
     (''filesystem.search'', EffectReadOnly), (''filesystem.write'', EffectMutating),
     (''filesystem.patch'', EffectMutating), (''filesystem.remove'', EffectMutating),
     (''filesystem.restore'', EffectMutating), (''filesystem.mkdir'', EffectMutating),
     (''command.run'', EffectMutating), (''computer-use.tools'', EffectReadOnly),
     (''computer-use.call'', EffectMutating), (''clipboard.status'', EffectReadOnly),
     (''clipboard.read'', EffectReadOnly), (''clipboard.write'', EffectMutating),
     (''artifact.build'', EffectMutating), (''artifact.describe'', EffectReadOnly),
     (''artifact.relay.archive.create'', EffectReadOnly), (''artifact.relay.archive.read'', EffectReadOnly),
     (''artifact.relay.archive.remove'', EffectReadOnly), (''artifact.relay.archive.prepare'', EffectMutating),
     (''artifact.relay.archive.write'', EffectMutating), (''artifact.relay.archive.commit'', EffectMutating),
     (''artifact.relay.local-copy'', EffectMutating), (''artifact.relay.manifest'', EffectReadOnly),
     (''artifact.relay.read'', EffectReadOnly), (''artifact.relay.prepare'', EffectMutating),
     (''artifact.relay.write'', EffectMutating), (''artifact.relay.commit'', EffectMutating),
     (''process.start'', EffectMutating), (''process.get'', EffectReadOnly),
     (''process.list'', EffectReadOnly), (''process.stop'', EffectMutating),
     (''process.restart'', EffectMutating), (''process.events'', EffectReadOnly),
     (''readiness.wait'', EffectReadOnly), (''logs.read'', EffectReadOnly), (''port.check'', EffectReadOnly),
     (''tunnel.ensure'', EffectMutating), (''tunnel.get'', EffectReadOnly), (''tunnel.list'', EffectReadOnly),
     (''tunnel.stop'', EffectMutating), (''agent.start'', EffectMutating), (''agent.stop'', EffectMutating),
     (''application.materialize'', EffectMutating), (''application.apply-artifacts'', EffectMutating),
     (''artifact.pack-chromium-datapack'', EffectMutating),
     (''application.generation.record'', EffectMutating), (''application.runtime.record'', EffectMutating),
     (''application.activate'', EffectMutating)]"

definition platform_capabilities :: "platform \<Rightarrow> (string \<times> effect) list" where
  "platform_capabilities os =
    (case os of
       Macos \<Rightarrow>
     [(''application.inspect'', EffectReadOnly), (''application.finalize'', EffectMutating),
     (''application.launch'', EffectMutating), (''application.open-file'', EffectMutating),
     (''application.stop'', EffectMutating), (''ui.inspect'', EffectReadOnly),
     (''ui.evaluate'', EffectReadOnly), (''ui.automate'', EffectMutating), (''ui.capture'', EffectReadOnly),
     (''ui.native-inspect'', EffectReadOnly)]
     | Windows \<Rightarrow>
     [(''application.inspect'', EffectReadOnly), (''application.launch'', EffectMutating),
     (''application.open-file'', EffectMutating), (''ui.evaluate'', EffectReadOnly),
     (''ui.capture'', EffectReadOnly), (''ui.input'', EffectMutating), (''ui.native-inspect'', EffectReadOnly)]
     | Linux \<Rightarrow> [])"

definition capability_catalog :: "platform \<Rightarrow> capability_descriptor list" where
  "capability_catalog os =
     map (\<lambda>(name, effect). contract os name effect) (common_capabilities @ platform_capabilities os)"

end
