(* ===== verification/Paths.thy ===== *)
theory Paths
  imports Controller_Util
begin

section \<open>Paths and files\<close>

text \<open>
  The part of the standard library's \<^verbatim>\<open>std::path\<close> and \<^verbatim>\<open>std::fs\<close> that the executor uses, for
  slash-separated systems. A path is the list of its components, which is what comparison, \<^verbatim>\<open>parent\<close>,
  \<^verbatim>\<open>file_name\<close> and \<^verbatim>\<open>starts_with\<close> work on; the root is the component \<open>/\<close>. The file system is a map
  from canonical paths to nodes. Resolving a path (symbolic links, permissions) is the operating
  system's: the record \<open>os\<close> has its answers and the failures it reports. A call takes effect as a whole or
  fails and leaves the tree as it was; that a real write or a recursive removal may stop half way, in the
  temporary file, the backup or the staging directory it works on, is not modelled.
\<close>

type_synonym path = "string list"

definition components :: "string \<Rightarrow> path" where
  "components s =
     (let parts = path_components [] s; names = filter (\<lambda>c. c \<noteq> [] \<and> c \<noteq> ''.'') parts
      in if starts_with ''/'' s then ''/'' # names
         else if hd parts = ''.'' then ''.'' # names
         else names)"

definition is_normal :: "string \<Rightarrow> bool" where
  "is_normal c \<longleftrightarrow> c \<noteq> ''/'' \<and> c \<noteq> ''.'' \<and> c \<noteq> ''..''"

definition path_file_name :: "path \<Rightarrow> string option" where
  "path_file_name p = (if p \<noteq> [] \<and> is_normal (last p) then Some (last p) else None)"

definition path_parent :: "path \<Rightarrow> path option" where
  "path_parent p = (if p = [] \<or> p = [''/''] then None else Some (butlast p))"

definition path_within :: "path \<Rightarrow> path \<Rightarrow> bool" where
  "path_within p base \<longleftrightarrow> take (length base) p = base"

definition path_absolute :: "path \<Rightarrow> bool" where
  "path_absolute p \<longleftrightarrow> p \<noteq> [] \<and> hd p = ''/''"

fun slashed :: "string list \<Rightarrow> string" where
  "slashed [] = []"
| "slashed [c] = c"
| "slashed (c # cs) = c @ ''/'' @ slashed cs"

definition path_display :: "path \<Rightarrow> string" where
  "path_display p = (if path_absolute p then ''/'' @ slashed (tl p) else slashed p)"

definition jpath :: "path \<Rightarrow> json" where
  "jpath p = JStr (path_display p)"

lemma path_within_iff: "path_within p base \<longleftrightarrow> (\<exists>rest. p = base @ rest)"
  unfolding path_within_def by (metis append_eq_conv_conj append_take_drop_id)

lemma path_within_trans: "path_within p q \<Longrightarrow> path_within q r \<Longrightarrow> path_within p r"
  by (auto simp: path_within_iff)

lemma path_parent_length: "path_parent p = Some q \<Longrightarrow> length q < length p"
  by (auto simp: path_parent_def split: if_splits)

subsection \<open>The file system\<close>

datatype node = Dir | File string | Link string | Special

type_synonym files = "(path, node) btree_map"

abbreviation node_at :: "files \<Rightarrow> path \<Rightarrow> node option" where
  "node_at fs p \<equiv> bt_get fs p"

definition is_file :: "node option \<Rightarrow> bool" where
  "is_file n = (case n of Some (File _) \<Rightarrow> True | _ \<Rightarrow> False)"

text \<open>
  The operating system: whether a path leads to something, what it resolves to, the failures it
  injects into an operation on a path, and its messages. \<open>os_utf8\<close> is the lossy conversion of bytes
  to text and \<open>os_text\<close> tells whether they are text; \<open>os_size\<close> is the size it reports of what is not a
  file, and \<open>os_longest\<close> the number of components a path may have.
\<close>

record os =
  os_exists :: "files \<Rightarrow> path \<Rightarrow> bool"
  os_canonicalize :: "files \<Rightarrow> path \<Rightarrow> string + path"
  os_fault :: "string \<Rightarrow> path \<Rightarrow> string option"
  os_message :: "string \<Rightarrow> path \<Rightarrow> string"
  os_utf8 :: "string \<Rightarrow> string"
  os_text :: "string \<Rightarrow> bool"
  os_size :: "path \<Rightarrow> u64"
  os_longest :: nat

definition io_error :: "string \<Rightarrow> string \<Rightarrow> string \<Rightarrow> rpc_error" where
  "io_error code path error = rpc_err code (path @ '': '' @ error)"

definition os_call :: "os \<Rightarrow> string \<Rightarrow> path \<Rightarrow> 'a option \<Rightarrow> string + 'a" where
  "os_call sys call p r =
     (case os_fault sys call p of Some e \<Rightarrow> Inl e | None \<Rightarrow> ok_or (os_message sys call p) r)"

definition read_file :: "os \<Rightarrow> files \<Rightarrow> path \<Rightarrow> string + string" where
  "read_file sys fs p = os_call sys ''read'' p (case node_at fs p of Some (File b) \<Rightarrow> Some b | _ \<Rightarrow> None)"

definition node_size :: "os \<Rightarrow> path \<Rightarrow> node \<Rightarrow> u64" where
  "node_size sys p n = (case n of File b \<Rightarrow> of_nat (length b) | _ \<Rightarrow> os_size sys p)"

definition metadata_at :: "os \<Rightarrow> files \<Rightarrow> path \<Rightarrow> string + node" where
  "metadata_at sys fs p = os_call sys ''stat'' p (node_at fs p)"

definition children :: "files \<Rightarrow> path \<Rightarrow> (string \<times> node) list" where
  "children fs p = map (\<lambda>(k, n). (last k, n)) (filter (\<lambda>(k, n). k \<noteq> [] \<and> butlast k = p) fs)"

definition read_dir :: "os \<Rightarrow> files \<Rightarrow> path \<Rightarrow> string + (string \<times> node) list" where
  "read_dir sys fs p = os_call sys ''readdir'' p (if node_at fs p = Some Dir then Some (children fs p) else None)"

fun make_dirs :: "files \<Rightarrow> path \<Rightarrow> string list \<Rightarrow> files option" where
  "make_dirs fs base [] = Some fs"
| "make_dirs fs base (name # names) =
     (case node_at fs (base @ [name]) of
        None \<Rightarrow> make_dirs (bt_insert (base @ [name]) Dir fs) (base @ [name]) names
      | Some Dir \<Rightarrow> make_dirs fs (base @ [name]) names
      | Some _ \<Rightarrow> None)"

definition create_dir_all :: "os \<Rightarrow> files \<Rightarrow> path \<Rightarrow> string + files" where
  "create_dir_all sys fs p =
     os_call sys ''mkdir'' p (if length p \<le> os_longest sys then make_dirs fs (take 1 p) (drop 1 p) else None)"

definition write_file :: "os \<Rightarrow> files \<Rightarrow> path \<Rightarrow> string \<Rightarrow> string + files" where
  "write_file sys fs p contents =
     os_call sys ''write'' p
       (if Option.bind (path_parent p) (node_at fs) = Some Dir \<and> (node_at fs p = None \<or> is_file (node_at fs p))
        then Some (bt_insert p (File contents) fs) else None)"

text \<open>
  A rename moves a node with everything below it, onto nothing, a file onto a node that is not a
  directory, a directory onto an empty directory.
\<close>

definition rename_to :: "path \<Rightarrow> path \<Rightarrow> files \<Rightarrow> files" where
  "rename_to a b fs =
     fold (\<lambda>(k, n). bt_insert (b @ drop (length a) k) n) (filter (\<lambda>(k, n). path_within k a) fs)
       (filter (\<lambda>(k, n). \<not> path_within k a \<and> k \<noteq> b) fs)"

definition rename_allowed :: "files \<Rightarrow> path \<Rightarrow> path \<Rightarrow> bool" where
  "rename_allowed fs a b \<longleftrightarrow>
     Option.bind (path_parent b) (node_at fs) = Some Dir \<and> \<not> path_within b a \<and>
     (case (node_at fs a, node_at fs b) of
        (None, _) \<Rightarrow> False
      | (Some _, None) \<Rightarrow> True
      | (Some Dir, Some m) \<Rightarrow> m = Dir \<and> children fs b = []
      | (Some _, Some m) \<Rightarrow> m \<noteq> Dir)"

definition rename :: "os \<Rightarrow> files \<Rightarrow> path \<Rightarrow> path \<Rightarrow> string + files" where
  "rename sys fs a b = os_call sys ''rename'' a (if rename_allowed fs a b then Some (rename_to a b fs) else None)"

text \<open>Removing, creating one directory, writing at an offset of an existing file (a gap is filled with zeros), copying.\<close>

definition remove_dir_all :: "os \<Rightarrow> files \<Rightarrow> path \<Rightarrow> string + files" where
  "remove_dir_all sys fs p =
     os_call sys ''rmdir'' p (if node_at fs p = Some Dir then Some (filter (\<lambda>(k, n). \<not> path_within k p) fs) else None)"

definition remove_file :: "os \<Rightarrow> files \<Rightarrow> path \<Rightarrow> string + files" where
  "remove_file sys fs p =
     os_call sys ''unlink'' p (if node_at fs p = None \<or> node_at fs p = Some Dir then None else Some (bt_remove p fs))"

definition create_dir :: "os \<Rightarrow> files \<Rightarrow> path \<Rightarrow> string + files" where
  "create_dir sys fs p =
     os_call sys ''mkdir'' p
       (if Option.bind (path_parent p) (node_at fs) = Some Dir \<and> node_at fs p = None then Some (bt_insert p Dir fs) else None)"

definition splice :: "nat \<Rightarrow> string \<Rightarrow> string \<Rightarrow> string" where
  "splice offset new old =
     (if new = [] then old else take offset old @ replicate (offset - length old) (char_of (0 :: nat)) @ new @ drop (offset + length new) old)"

definition write_at :: "os \<Rightarrow> files \<Rightarrow> path \<Rightarrow> nat \<Rightarrow> string \<Rightarrow> string + files" where
  "write_at sys fs p offset new =
     os_call sys ''write'' p
       (case node_at fs p of Some (File old) \<Rightarrow> Some (bt_insert p (File (splice offset new old)) fs) | _ \<Rightarrow> None)"

definition copy_file :: "os \<Rightarrow> files \<Rightarrow> path \<Rightarrow> path \<Rightarrow> string + files" where
  "copy_file sys fs a b = and_then (read_file sys fs a) (write_file sys fs b)"

text \<open>The stem and the extension of a name, and a path with another extension.\<close>

definition split_extension :: "string \<Rightarrow> string \<times> string option" where
  "split_extension name =
     (let after = rev (takeWhile (\<lambda>c. c \<noteq> CHR ''.'') (rev name)) in
      if CHR ''.'' \<notin> set name \<or> name = CHR ''.'' # after then (name, None)
      else (take (length name - length after - 1) name, Some after))"

definition path_extension :: "path \<Rightarrow> string option" where
  "path_extension p = Option.bind (path_file_name p) (\<lambda>name. snd (split_extension name))"

definition with_extension :: "string \<Rightarrow> path \<Rightarrow> path" where
  "with_extension e p =
     (case path_file_name p of
        None \<Rightarrow> p
      | Some name \<Rightarrow> butlast p @ [fst (split_extension name) @ ''.'' @ e])"

lemma split_extension_examples:
  "split_extension ''a.txt'' = (''a'', Some ''txt'')" "split_extension ''.rc'' = (''.rc'', None)"
  "split_extension ''x.tar.gz'' = (''x.tar'', Some ''gz'')" "split_extension ''a'' = (''a'', None)"
  by (simp_all add: split_extension_def)

end
