(* ===== verification/Executor_State.thy ===== *)
theory Executor_State
  imports Catalog Paths Resources Desktop_Queue
begin

section \<open>The executor: state, capacity and authority\<close>

text \<open>
  The first half of \<^verbatim>\<open>executor.rs\<close>: the runtime's state and how it is opened, the pools that bound
  what runs at once, the paths and the read grants it accepts, the commands it refuses, and
  \<^verbatim>\<open>enforce_authority\<close>, which decides whether a controller may still act. A mutex-protected field is a
  field of the state; a call is one step of it, except that a permit of a pool is taken and dropped in
  separate steps.
\<close>

subsection \<open>Execution capacity\<close>

record capacity_pool =
  pool_maximum :: nat
  pool_active :: nat

definition pool_new :: "nat \<Rightarrow> capacity_pool" where
  "pool_new maximum = \<lparr>pool_maximum = maximum, pool_active = 0\<rparr>"

definition pool_try_acquire :: "capacity_pool \<Rightarrow> rpc_error + capacity_pool" where
  "pool_try_acquire p =
     (if pool_maximum p \<le> pool_active p
      then Inl ((rpc_err ''EXECUTOR_BUSY'' (''executor concurrency limit '' @ dec (pool_maximum p) @ '' reached''))
             \<lparr>err_retryable := True\<rparr>)
      else Inr (p\<lparr>pool_active := pool_active p + 1\<rparr>))"

text \<open>Dropping a permit; the subtraction saturates.\<close>

definition pool_drop :: "capacity_pool \<Rightarrow> capacity_pool" where
  "pool_drop p = p\<lparr>pool_active := pool_active p - 1\<rparr>"

record execution_capacity =
  cap_mutating :: capacity_pool
  cap_readonly :: capacity_pool
  cap_probes :: capacity_pool

text \<open>The environment variables as read and parsed, and the parallelism of the machine if it is known.\<close>

definition from_environment :: "nat option \<Rightarrow> (string \<Rightarrow> nat option) \<Rightarrow> execution_capacity" where
  "from_environment parallelism var =
     (let fallback = min 32 (max 2 (unwrap_or 4 parallelism));
          limit = (\<lambda>name d. case var name of Some n \<Rightarrow> if 0 < n then n else d | None \<Rightarrow> d)
      in \<lparr>cap_mutating = pool_new (limit ''WORKBENCH_EXECUTOR_MAX_CONCURRENCY'' fallback),
          cap_readonly = pool_new (limit ''WORKBENCH_EXECUTOR_READONLY_CONCURRENCY'' 8),
          cap_probes = pool_new (limit ''WORKBENCH_EXECUTOR_PROBE_CONCURRENCY'' 4)\<rparr>)"

definition capacity_try_acquire :: "execution_class \<Rightarrow> execution_capacity \<Rightarrow> rpc_error + execution_capacity" where
  "capacity_try_acquire class c =
     (case class of
        ClassControl \<Rightarrow> Inr c
      | ClassProbe \<Rightarrow> and_then (pool_try_acquire (cap_probes c)) (\<lambda>p. Inr (c\<lparr>cap_probes := p\<rparr>))
      | ClassReadOnly \<Rightarrow> and_then (pool_try_acquire (cap_readonly c)) (\<lambda>p. Inr (c\<lparr>cap_readonly := p\<rparr>))
      | ClassMutating \<Rightarrow> and_then (pool_try_acquire (cap_mutating c)) (\<lambda>p. Inr (c\<lparr>cap_mutating := p\<rparr>)))"

definition capacity_drop :: "execution_class \<Rightarrow> execution_capacity \<Rightarrow> execution_capacity" where
  "capacity_drop class c =
     (case class of
        ClassControl \<Rightarrow> c
      | ClassProbe \<Rightarrow> c\<lparr>cap_probes := pool_drop (cap_probes c)\<rparr>
      | ClassReadOnly \<Rightarrow> c\<lparr>cap_readonly := pool_drop (cap_readonly c)\<rparr>
      | ClassMutating \<Rightarrow> c\<lparr>cap_mutating := pool_drop (cap_mutating c)\<rparr>)"

subsection \<open>The runtime\<close>

record fence_record =
  fr_controller_id :: string
  fr_fence :: u64

record executor_fences =
  ef_resources :: "(string, fence_record) btree_map"
  ef_read_grants :: "read_grant list"

record fence_store =
  fst_table :: executor_fences
  fst_disk :: "executor_fences option"

definition executor_fences_default :: executor_fences where
  "executor_fences_default = \<lparr>ef_resources = [], ef_read_grants = []\<rparr>"

text \<open>
  The process table, the clipboard and computer use act on the machine; their actions are
  parameters of the dispatcher.
\<close>

record executor_runtime =
  xr_id :: string
  xr_allowed_roots :: "path list"
  xr_configured_roots :: "string list"
  xr_application_roots :: "path list"
  xr_grantable_read_roots :: "path list"
  xr_fences :: "fence_store option"
  xr_execution :: execution_capacity
  xr_relay_root :: path
  xr_observations :: "observability_store option"
  xr_desktop :: desktop_store
  xr_resources :: resource_store
  xr_files :: files

text \<open>
  What the executor is given from outside: the platform, hashing and printing, clock readings,
  fresh identifiers, the outcomes of its writes of state files, the operating system, the
  conversions of the records it stores or reports with the messages of those that fail, the number of
  its process, what a command it starts comes to, the actions on processes, tunnels, applications
  and the clipboard (\<open>xe_native\<close>), how closing the native helpers went, and what it reports of
  itself. A command that ran tells whether it succeeded, the text of its status, its code and outputs.
  Archives are written and read by other packages: \<open>xe_pack\<close> gives the bytes of an archive of entries
  (a directory, or a file with its contents), \<open>xe_pack_broken\<close> what is left of one given up, \<open>xe_unpack\<close> the
  entries read back, and \<open>xe_unpack_in\<close> extracts an entry below a directory, or tells that it would
  leave it.
\<close>

datatype command_outcome =
    SpawnFailed string
  | WaitFailed string
  | DeadlinePassed "rpc_error + unit"
  | Exited bool string "int option" string string

datatype tar_kind = TarFile | TarDir | TarOther

record tar_entry =
  te_kind :: tar_kind
  te_path :: "string + string"
  te_size :: u64
  te_data :: string

record exec_env =
  xe_platform :: platform
  xe_sha :: "string \<Rightarrow> string"
  xe_jshow :: "json \<Rightarrow> string"
  xe_clock :: clock
  xe_ids :: uuids
  xe_io :: writes
  xe_os :: os
  xe_dec_grant :: "json \<Rightarrow> string + read_grant"
  xe_enc_grant :: "read_grant \<Rightarrow> json"
  xe_enc_capability :: "capability_descriptor \<Rightarrow> json"
  xe_conversion :: "json \<Rightarrow> string"
  xe_base64 :: "string \<Rightarrow> string + string"
  xe_base64_encode :: "string \<Rightarrow> string"
  xe_pack :: "(path \<times> string option) list \<Rightarrow> string"
  xe_pack_broken :: "(path \<times> string option) list \<Rightarrow> string"
  xe_unpack :: "string \<Rightarrow> string + (string + tar_entry) list"
  xe_unpack_in :: "tar_entry \<Rightarrow> path \<Rightarrow> files \<Rightarrow> (string + bool) \<times> files"
  xe_pid :: nat
  xe_command :: "string list \<Rightarrow> path \<Rightarrow> (string \<times> string) list \<Rightarrow> u64 \<Rightarrow> files \<Rightarrow> command_outcome \<times> files"
  xe_native :: "string \<Rightarrow> json \<Rightarrow> files \<Rightarrow> (rpc_error + json) \<times> files"
  xe_close :: "rpc_error + unit"
  xe_computer_use :: json
  xe_home :: "string option"
  xe_version :: string
  xe_duration :: u64

definition persist_fences :: "string option \<Rightarrow> fence_store \<Rightarrow> (rpc_error + unit) \<times> fence_store" where
  "persist_fences io s =
     (case io of
        Some e \<Rightarrow> (Inl (rpc_err ''FENCE_STATE_FAILED'' e), s)
      | None \<Rightarrow> (Inr (), s\<lparr>fst_disk := Some (fst_table s)\<rparr>))"

fun canonical_roots :: "os \<Rightarrow> files \<Rightarrow> string \<Rightarrow> string list \<Rightarrow> rpc_error + path list" where
  "canonical_roots sys fs code [] = Inr []"
| "canonical_roots sys fs code (root # rest) =
     and_then (map_err (io_error code root) (os_canonicalize sys fs (components root))) (\<lambda>p.
     and_then (canonical_roots sys fs code rest) (\<lambda>ps. Inr (p # ps)))"

definition executor_base ::
  "exec_env \<Rightarrow> execution_capacity \<Rightarrow> files \<Rightarrow> string \<Rightarrow> string list \<Rightarrow> string list \<Rightarrow> rpc_error + executor_runtime" where
  "executor_base env capacity fs i allowed_roots grantable_read_roots =
     and_then (canonical_roots (xe_os env) fs ''INVALID_ROOT'' allowed_roots) (\<lambda>roots.
     and_then (case roots of [] \<Rightarrow> Inl (rpc_err ''INVALID_ROOT'' ''at least one allowed root is required'')
               | root # _ \<Rightarrow> Inr (root @ [''.workbench-relay''])) (\<lambda>relay_root.
     and_then (canonical_roots (xe_os env) fs ''INVALID_GRANTABLE_ROOT'' grantable_read_roots) (\<lambda>grantable.
     Inr \<lparr>xr_id = i, xr_allowed_roots = roots, xr_configured_roots = allowed_roots, xr_application_roots = [],
          xr_grantable_read_roots = grantable, xr_fences = None, xr_execution = capacity, xr_relay_root = relay_root,
          xr_observations = None, xr_desktop = \<lparr>ds_queue = desktop_queue_default, ds_disk = None\<rparr>,
          xr_resources = \<lparr>rs_res = resources_default, rs_disk = None\<rparr>, xr_files = fs\<rparr>)))"

fun with_application_roots :: "exec_env \<Rightarrow> string list \<Rightarrow> executor_runtime \<Rightarrow> rpc_error + executor_runtime" where
  "with_application_roots env [] x = Inr x"
| "with_application_roots env (root # rest) x =
     (if \<not> path_absolute (components root)
      then Inl (rpc_err ''INVALID_APPLICATION_ROOT'' ''application root must be absolute'')
      else and_then (map_err (io_error ''INVALID_APPLICATION_ROOT'' root)
                       (os_canonicalize (xe_os env) (xr_files x) (components root))) (\<lambda>checked.
           if node_at (xr_files x) checked \<noteq> Some Dir \<or> path_parent checked = None
           then Inl (rpc_err ''INVALID_APPLICATION_ROOT'' ''application root must be an existing non-root directory'')
           else with_application_roots env rest
                  (x\<lparr>xr_application_roots := xr_application_roots x @ [checked]\<rparr>)))"

text \<open>
  Opening with a state directory: what reading each file gave. The process table and the
  observability store report their own errors.
\<close>

definition open_with_grantable ::
  "exec_env \<Rightarrow> execution_capacity \<Rightarrow> files \<Rightarrow> string \<Rightarrow> string list \<Rightarrow> string list \<Rightarrow> path
    \<Rightarrow> string + executor_fences option \<Rightarrow> rpc_error + unit \<Rightarrow> string + observability_store
    \<Rightarrow> string + desktop_queue option \<Rightarrow> string + resource_snapshot option \<Rightarrow> rpc_error + executor_runtime" where
  "open_with_grantable env capacity fs i allowed_roots grantable state_path fence_file processes observations
      desktop_file resource_file =
     and_then (executor_base env capacity fs i allowed_roots grantable) (\<lambda>x.
     and_then (map_err (rpc_err ''FENCE_STATE_FAILED'') fence_file) (\<lambda>contents.
     and_then processes (\<lambda>_.
     and_then (map_err (rpc_err ''OBSERVABILITY_STORE_FAILED'') observations) (\<lambda>obs.
       let beside = (\<lambda>name. unwrap_or [] (path_parent state_path) @ [name]) in
     and_then (desktop_open (path_display (beside ''desktop-queue.json'')) (xe_io env 0) desktop_file) (\<lambda>desktop.
     and_then (resources_open (path_display (beside ''executor-resources.json'')) resource_file) (\<lambda>res.
     Inr (x\<lparr>xr_relay_root := beside ''artifact-relay'', xr_observations := Some obs, xr_desktop := desktop,
            xr_resources := \<lparr>rs_res = res, rs_disk = (case resource_file of Inr d \<Rightarrow> d | Inl _ \<Rightarrow> None)\<rparr>,
            xr_fences := Some \<lparr>fst_table = unwrap_or executor_fences_default contents, fst_disk = contents\<rparr>\<rparr>)))))))"

subsection \<open>Paths and read grants\<close>

text \<open>
  The nearest ancestor that exists and the names below it; a path of which no ancestor exists, or
  whose missing part has a component that is not a name, has none.
\<close>

function existing_ancestor :: "(path \<Rightarrow> bool) \<Rightarrow> path \<Rightarrow> rpc_error + path \<times> string list" where
  "existing_ancestor exists p =
     (if exists p then Inr (p, [])
      else case path_file_name p of
             None \<Rightarrow> Inl (rpc_err ''PATH_INVALID'' ''path has no existing ancestor'')
           | Some name \<Rightarrow>
               (case path_parent p of
                  None \<Rightarrow> Inl (rpc_err ''PATH_INVALID'' ''path has no parent'')
                | Some q \<Rightarrow> and_then (existing_ancestor exists q) (\<lambda>(a, missing). Inr (a, missing @ [name]))))"
  by pat_completeness auto
termination
  by (relation "measure (\<lambda>(e, p). length p)") (auto dest: path_parent_length)

declare existing_ancestor.simps [simp del]

definition resolve_path :: "os \<Rightarrow> files \<Rightarrow> string \<Rightarrow> bool \<Rightarrow> rpc_error + path" where
  "resolve_path sys fs raw must_exist =
     (let p = components raw in
      if must_exist \<or> os_exists sys fs p then map_err (io_error ''PATH_INVALID'' raw) (os_canonicalize sys fs p)
      else and_then (existing_ancestor (os_exists sys fs) p) (\<lambda>(ancestor, missing).
           and_then (map_err (io_error ''PATH_INVALID'' raw) (os_canonicalize sys fs ancestor)) (\<lambda>resolved.
           Inr (resolved @ missing))))"

definition under_roots :: "path list \<Rightarrow> path \<Rightarrow> bool" where
  "under_roots roots p = list_ex (path_within p) roots"

definition grant_covers :: "executor_runtime \<Rightarrow> string \<Rightarrow> string \<Rightarrow> path \<Rightarrow> read_grant \<Rightarrow> bool" where
  "grant_covers x workspace capability checked g \<longleftrightarrow>
     grant_state g = GrantApproved \<and> grant_workspace_session_id g = workspace \<and> grant_executor_id g = xr_id x \<and>
     capability \<in> set (grant_capabilities g) \<and> path_within checked (components (grant_real_root g))"

definition validate_read_grant :: "executor_runtime \<Rightarrow> json \<Rightarrow> path \<Rightarrow> string \<Rightarrow> rpc_error + unit" where
  "validate_read_grant x params checked capability =
     and_then (ok_or (rpc_err ''READ_GRANT_REQUIRED'' ''workspace-scoped read grant is required'')
                (Option.bind (case jget params ''_workspaceScope'' of
                                None \<Rightarrow> jget params ''_workspaceSessionId'' | Some v \<Rightarrow> Some v) as_str)) (\<lambda>workspace.
     and_then (ok_or (rpc_err ''READ_GRANT_REQUIRED'' (''read grant required for '' @ path_display checked))
                (get_str params ''_readGrantId'')) (\<lambda>i.
     and_then (ok_or (rpc_err ''READ_GRANT_REQUIRED'' ''executor has no persistent read-grant state'') (xr_fences x)) (\<lambda>fences.
     and_then (ok_or (rpc_err ''READ_GRANT_REQUIRED'' ''read grant is unknown to executor'')
                (find (\<lambda>g. grant_id g = i) (ef_read_grants (fst_table fences)))) (\<lambda>g.
     if grant_covers x workspace capability checked g then Inr ()
     else Inl (rpc_err ''READ_GRANT_DENIED''
                 ''read grant does not cover this workspace, executor, capability, and real path'')))))"

definition checked_path ::
  "exec_env \<Rightarrow> executor_runtime \<Rightarrow> json \<Rightarrow> string \<Rightarrow> bool \<Rightarrow> string option \<Rightarrow> rpc_error + path" where
  "checked_path env x params key must_exist read_capability =
     and_then (ok_or (rpc_err ''INVALID_PARAMS'' (key @ '' is required'')) (get_str params key)) (\<lambda>raw.
     and_then (resolve_path (xe_os env) (xr_files x) raw must_exist) (\<lambda>checked.
     if under_roots (xr_allowed_roots x) checked then Inr checked
     else case read_capability of
            Some capability \<Rightarrow> and_then (validate_read_grant x params checked capability) (\<lambda>_. Inr checked)
          | None \<Rightarrow> Inl (rpc_err ''PATH_OUTSIDE_ALLOWED_ROOTS'' (path_display checked @ '' is outside executor roots''))))"

abbreviation write_path :: "exec_env \<Rightarrow> executor_runtime \<Rightarrow> json \<Rightarrow> string \<Rightarrow> bool \<Rightarrow> rpc_error + path" where
  "write_path env x params key must_exist \<equiv> checked_path env x params key must_exist None"

abbreviation read_path :: "exec_env \<Rightarrow> executor_runtime \<Rightarrow> json \<Rightarrow> string \<Rightarrow> bool \<Rightarrow> string \<Rightarrow> rpc_error + path" where
  "read_path env x params key must_exist capability \<equiv> checked_path env x params key must_exist (Some capability)"

definition allowed_application_path :: "exec_env \<Rightarrow> executor_runtime \<Rightarrow> path \<Rightarrow> bool" where
  "allowed_application_path env x p \<longleftrightarrow>
     under_roots (xr_allowed_roots x) p \<or>
     (under_roots (xr_application_roots x) p \<and>
        ((xe_platform env = Windows \<and> is_file (node_at (xr_files x) p) \<and>
            (case path_extension p of None \<Rightarrow> False | Some e \<Rightarrow> to_ascii_lowercase e = ''exe'')) \<or>
         (xe_platform env = Macos \<and> node_at (xr_files x) p = Some Dir \<and> path_extension p = Some ''app''))) \<or>
     (xe_platform env = Macos \<and> path_parent p = Some [''/'', ''Applications''] \<and> path_extension p = Some ''app'')"

definition application_path :: "exec_env \<Rightarrow> executor_runtime \<Rightarrow> json \<Rightarrow> string \<Rightarrow> rpc_error + path" where
  "application_path env x params key =
     and_then (required_str params key) (\<lambda>raw.
     and_then (map_err (io_error ''PATH_INVALID'' raw) (os_canonicalize (xe_os env) (xr_files x) (components raw))) (\<lambda>checked.
     if allowed_application_path env x checked then Inr checked
     else Inl (rpc_err ''PATH_OUTSIDE_APPLICATION_ROOTS''
            (path_display checked
               @ '' is outside managed roots, configured application roots, and platform application locations''))))"

definition readable_application_path :: "exec_env \<Rightarrow> executor_runtime \<Rightarrow> json \<Rightarrow> string \<Rightarrow> rpc_error + path" where
  "readable_application_path env x params key =
     and_then (required_str params key) (\<lambda>raw.
     and_then (map_err (io_error ''PATH_INVALID'' raw) (os_canonicalize (xe_os env) (xr_files x) (components raw))) (\<lambda>checked.
     if allowed_application_path env x checked then Inr checked
     else and_then (validate_read_grant x params checked ''filesystem.read'') (\<lambda>_. Inr checked)))"

subsection \<open>Parameters and commands\<close>

definition required_port :: "json \<Rightarrow> string \<Rightarrow> rpc_error + nat" where
  "required_port params key =
     (case get_u64 params key of
        Some n \<Rightarrow> if 1 \<le> n \<and> n \<le> 65535 then Inr (unat n)
                  else Inl (rpc_err ''INVALID_PARAMS'' (key @ '' must be a valid port''))
      | None \<Rightarrow> Inl (rpc_err ''INVALID_PARAMS'' (key @ '' must be a valid port'')))"

definition ascii_alphanumeric :: "char \<Rightarrow> bool" where
  "ascii_alphanumeric c =
     (let n = of_char c :: nat in 48 \<le> n \<and> n \<le> 57 \<or> 65 \<le> n \<and> n \<le> 90 \<or> 97 \<le> n \<and> n \<le> 122)"

definition validate_resource_id :: "string \<Rightarrow> rpc_error + unit" where
  "validate_resource_id value =
     (if value = [] \<or> 128 < length value
        \<or> \<not> list_all (\<lambda>c. ascii_alphanumeric c \<or> c \<in> set ''-_.'') value
      then Inl (rpc_err ''INVALID_PARAMS'' ''resource id must contain only letters, digits, dot, dash, or underscore'')
      else Inr ())"

text \<open>An array of strings; \<open>text\<close> is the message of the conversion when it is something else.\<close>

fun strings_of :: "json list \<Rightarrow> string list option" where
  "strings_of [] = Some []"
| "strings_of (v # vs) = Option.bind (as_str v) (\<lambda>s. map_option ((#) s) (strings_of vs))"

definition string_array :: "(json \<Rightarrow> string) \<Rightarrow> json \<Rightarrow> string \<Rightarrow> rpc_error + string list" where
  "string_array text params key =
     (case jget params key of
        None \<Rightarrow> Inl (rpc_err ''INVALID_PARAMS'' (key @ '' is required''))
      | Some v \<Rightarrow>
          (case Option.bind (as_array v) strings_of of
             None \<Rightarrow> Inl (rpc_err ''INVALID_PARAMS'' (text v))
           | Some xs \<Rightarrow> if xs = [] then Inl (rpc_err ''INVALID_PARAMS'' (key @ '' is required'')) else Inr xs))"

text \<open>The caller has made sure that there is a first argument.\<close>

definition validate_command ::
  "(string \<Rightarrow> string) \<Rightarrow> (json \<Rightarrow> string) \<Rightarrow> string list \<Rightarrow> string \<Rightarrow> string option \<Rightarrow> rpc_error + unit" where
  "validate_command sha jshow argv cwd approved =
     (let executable = unwrap_or (hd argv) (path_file_name (components (hd argv))) in
      if executable \<in> set [''rm'', ''sudo'', ''su'', ''dd'', ''mkfs''] \<and>
         approved \<noteq> Some (sha (jshow (JObj [(''argv'', jstrs argv), (''cwd'', JStr cwd)])))
      then Inl (rpc_err ''COMMAND_BLOCKED'' (''high-risk executable requires an exact one-shot approval: '' @ executable))
      else if executable \<in> set [''python'', ''python3'', ''node'', ''ruby'', ''perl''] \<and> (''-c'' \<in> set argv \<or> ''-e'' \<in> set argv)
      then Inl (rpc_err ''COMMAND_BLOCKED'' ''inline interpreter execution is not allowed'')
      else Inr ())"

text \<open>The end of an output; \<open>lossy\<close> replaces what is not UTF-8.\<close>

definition bounded_output :: "(string \<Rightarrow> string) \<Rightarrow> string \<Rightarrow> string" where
  "bounded_output lossy out = lossy (drop (length out - 64 * 1024) out)"

definition portable_relative_path :: "(string \<Rightarrow> bool) \<Rightarrow> path \<Rightarrow> rpc_error + string" where
  "portable_relative_path text p =
     and_then (traverse (\<lambda>c.
         if \<not> is_normal c then Inl (rpc_err ''INVALID_ARTIFACT_PATH'' (''artifact path must be relative: '' @ path_display p))
         else if text c then Inr c
         else Inl (rpc_err ''INVALID_ARTIFACT_PATH'' ''artifact paths must be UTF-8'')) p) (\<lambda>cs.
     Inr (slashed cs))"

definition safe_relative :: "string \<Rightarrow> rpc_error + path" where
  "safe_relative value =
     (let p = components value in
      if value = [] \<or> path_absolute p \<or> \<not> list_all is_normal p
      then Inl (rpc_err ''INVALID_ARTIFACT_PATH'' (''unsafe relative path: '' @ value)) else Inr p)"

definition ascii_hexdigit :: "char \<Rightarrow> bool" where
  "ascii_hexdigit c =
     (let n = of_char c :: nat in 48 \<le> n \<and> n \<le> 57 \<or> 65 \<le> n \<and> n \<le> 70 \<or> 97 \<le> n \<and> n \<le> 102)"

definition relay_archive_path :: "path \<Rightarrow> string \<Rightarrow> rpc_error + path" where
  "relay_archive_path root token =
     (if length token \<noteq> 32 \<or> \<not> list_all ascii_hexdigit token
      then Inl (rpc_err ''INVALID_ARTIFACT_TOKEN'' ''archive relay token must be 32 hexadecimal characters'')
      else Inr (root @ [token @ ''.tar.gz'']))"

subsection \<open>Authority\<close>

definition canonical_action :: "string \<Rightarrow> string" where
  "canonical_action action =
     (if action = ''fs.write'' then ''filesystem.write''
      else if action = ''fs.patch'' then ''filesystem.patch''
      else if action = ''fs.remove'' then ''filesystem.remove''
      else if action = ''fs.restore'' then ''filesystem.restore''
      else action)"

definition contract_of :: "platform \<Rightarrow> string \<Rightarrow> capability_descriptor option" where
  "contract_of os action = find (\<lambda>c. cap_name c = canonical_action action) (capability_catalog os)"

text \<open>The rendering loop of the executor; it may not end, like the controller's.\<close>

partial_function (option) authority_loop ::
  "(json \<Rightarrow> string) \<Rightarrow> string \<Rightarrow> json \<Rightarrow> string \<Rightarrow> (rpc_error + string) option" where
  "authority_loop jshow template params rendered =
     (case split_open rendered of
        None \<Rightarrow> Some (Inr rendered)
      | Some (before, rest) \<Rightarrow>
          (case split_once (CHR ''}'') rest of
             None \<Rightarrow> Some (Inl (rpc_err ''INVALID_LOCK_TEMPLATE'' template))
           | Some (key, after) \<Rightarrow>
               (case jget params key of
                  None \<Rightarrow> Some (Inl (rpc_err ''EXECUTOR_AUTHORITY_MISMATCH'' (''capability lock requires '' @ key)))
                | Some v \<Rightarrow> authority_loop jshow template params (before @ display_text jshow v @ after))))"

definition render_authority_resource :: "(json \<Rightarrow> string) \<Rightarrow> string \<Rightarrow> json \<Rightarrow> rpc_error + string" where
  "render_authority_resource jshow template params =
     (case authority_loop jshow template params template of None \<Rightarrow> Inl never_answers | Some r \<Rightarrow> r)"

fun render_all :: "(json \<Rightarrow> string) \<Rightarrow> string list \<Rightarrow> json \<Rightarrow> rpc_error + string list" where
  "render_all jshow [] params = Inr []"
| "render_all jshow (t # ts) params =
     and_then (render_authority_resource jshow t params) (\<lambda>r.
     and_then (render_all jshow ts params) (\<lambda>rs. Inr (r # rs)))"

fun required_strs :: "string \<Rightarrow> json list \<Rightarrow> rpc_error + string list" where
  "required_strs key [] = Inr []"
| "required_strs key (v # vs) =
     and_then (required_str v key) (\<lambda>s. and_then (required_strs key vs) (\<lambda>ss. Inr (s # ss)))"

definition expected_resources ::
  "(json \<Rightarrow> string) \<Rightarrow> string \<Rightarrow> capability_descriptor \<Rightarrow> json \<Rightarrow> rpc_error + string list" where
  "expected_resources jshow i terms params =
     and_then
       (case cap_authority terms of
          AuthorityNone \<Rightarrow> Inr []
        | AuthorityDesktopSession \<Rightarrow> Inr []
        | AuthorityWorkspaceDriver \<Rightarrow>
            and_then (required_str params ''_workspaceSessionId'') (\<lambda>w. Inr [''workspace:'' @ w])
        | AuthorityResourceLease resource \<Rightarrow>
            and_then (render_authority_resource jshow (replace_all ''${executorId}'' i resource) params) (\<lambda>r. Inr [r])) (\<lambda>base.
     and_then (render_all jshow (map lock_key (cap_locks terms)) params) (\<lambda>locks.
     Inr (remdups_adj (sort (base @ locks)))))"

text \<open>
  The checks of the supplied authorities and, after all passed, their recording. Only those for
  a workspace are fenced here, under the name of their controller. Authority \<open>n\<close> is compared with
  clock reading \<open>n\<close>.
\<close>

definition fence_key :: "string \<Rightarrow> string \<Rightarrow> string" where
  "fence_key controller resource = controller @ ''/'' @ resource"

definition check_authority :: "u64 \<Rightarrow> (string, fence_record) btree_map \<Rightarrow> json \<Rightarrow> rpc_error + unit" where
  "check_authority now table authority =
     and_then (required_str authority ''controllerId'') (\<lambda>controller.
     and_then (required_str authority ''resource'') (\<lambda>name.
     if \<not> starts_with ''workspace:'' name then Inr ()
     else
       let resource = fence_key controller name in
       if (case get_u64 authority ''expiresAt'' of Some expiry \<Rightarrow> expiry \<le> now | None \<Rightarrow> False)
       then Inl (rpc_err ''DRIVER_LEASE_EXPIRED'' ''driver expired before execution'')
       else and_then (ok_or (rpc_err ''INVALID_AUTHORITY'' ''fence is required'') (get_u64 authority ''fence'')) (\<lambda>fence.
         if fence = 0 then Inl (rpc_err ''INVALID_AUTHORITY'' ''fence must be positive'')
         else case bt_get table resource of
                Some current \<Rightarrow>
                  if fence < fr_fence current \<or> (fence = fr_fence current \<and> controller \<noteq> fr_controller_id current)
                  then Inl (rpc_err ''STALE_EXECUTOR_FENCE''
                         (''resource '' @ resource @ '' is fenced at '' @ dec (unat (fr_fence current)) @ '' by ''
                            @ fr_controller_id current))
                  else Inr ()
              | None \<Rightarrow> Inr ())))"

fun check_authorities :: "clock \<Rightarrow> (string, fence_record) btree_map \<Rightarrow> json list \<Rightarrow> rpc_error + unit" where
  "check_authorities clk table [] = Inr ()"
| "check_authorities clk table (a # as) =
     and_then (check_authority (clk 0) table a) (\<lambda>_. check_authorities (\<lambda>n. clk (Suc n)) table as)"

fun record_authorities :: "(string, fence_record) btree_map \<Rightarrow> json list \<Rightarrow> rpc_error + (string, fence_record) btree_map" where
  "record_authorities table [] = Inr table"
| "record_authorities table (a # as) =
     and_then (required_str a ''controllerId'') (\<lambda>controller.
     and_then (required_str a ''resource'') (\<lambda>name.
     if \<not> starts_with ''workspace:'' name then record_authorities table as
     else and_then (ok_or panicked (as_u64 (jindex a ''fence''))) (\<lambda>fence.
       record_authorities
         (bt_insert (fence_key controller name) \<lparr>fr_controller_id = controller, fr_fence = fence\<rparr> table) as)))"

definition enforce_fences ::
  "exec_env \<Rightarrow> capability_descriptor \<Rightarrow> json \<Rightarrow> executor_runtime \<Rightarrow> fence_store \<Rightarrow> (rpc_error + unit) \<times> executor_runtime" where
  "enforce_fences env terms params x fences =
     (case
        and_then (ok_or (rpc_err ''EXECUTOR_AUTHORITY_REQUIRED''
                    (''mutating capability '' @ cap_name terms @ '' requires fenced authority''))
                    (get_array params ''_authority'')) (\<lambda>authorities.
        if authorities = [] then Inl (rpc_err ''EXECUTOR_AUTHORITY_REQUIRED'' ''authority must cover at least one resource'')
        else and_then (expected_resources (xe_jshow env) (xr_id x) terms params) (\<lambda>expected.
        and_then (required_strs ''resource'' authorities) (\<lambda>supplied.
        if length expected \<noteq> length supplied \<or> \<not> set expected \<subseteq> set supplied
        then Inl (rpc_err ''EXECUTOR_AUTHORITY_MISMATCH'' ''authority resources do not match capability locks'')
        else and_then (check_authorities (xe_clock env) (ef_resources (fst_table fences)) authorities) (\<lambda>_.
        record_authorities (ef_resources (fst_table fences)) authorities)))) of
        Inl e \<Rightarrow> (Inl e, x)
      | Inr table \<Rightarrow>
          let (r, fences') = persist_fences (xe_io env 0) (fences\<lparr>fst_table := (fst_table fences)\<lparr>ef_resources := table\<rparr>\<rparr>)
          in (r, x\<lparr>xr_fences := Some fences'\<rparr>))"

definition enforce_authority :: "exec_env \<Rightarrow> string \<Rightarrow> json \<Rightarrow> executor_runtime \<Rightarrow> (rpc_error + unit) \<times> executor_runtime" where
  "enforce_authority env action params x =
     (case xr_fences x of
        None \<Rightarrow> (Inr (), x)
      | Some fences \<Rightarrow>
          (case contract_of (xe_platform env) action of
             None \<Rightarrow> (Inr (), x)
           | Some terms \<Rightarrow>
               (case cap_authority terms of
                  AuthorityNone \<Rightarrow> (Inr (), x)
                | AuthorityResourceLease _ \<Rightarrow>
                    if starts_with ''tunnel.'' (canonical_action action) \<or> starts_with ''artifact.relay.'' (canonical_action action)
                    then (Inr (), x)
                    else if (case get_array params ''_resourceLeases'' of None \<Rightarrow> True | Some v \<Rightarrow> v = [])
                    then (Inl (rpc_err ''RESOURCE_LEASE_REQUIRED'' ''resource operation requires an Executor-issued grant''), x)
                    else (Inr (), x)
                | _ \<Rightarrow> enforce_fences env terms params x fences)))"

end
