(* ===== verification/Filesystem.thy ===== *)
theory Filesystem
  imports Executor_State
begin

section \<open>The executor's file actions\<close>

text \<open>
  The arms of \<^verbatim>\<open>dispatch\<close> in \<^verbatim>\<open>executor.rs\<close> that read and change files, and the functions they
  use. A reading action gives its answer; a changing one also gives the runtime with the files it
  leaves, also when it fails halfway.
\<close>

subsection \<open>Digests\<close>

text \<open>Hashing a file in blocks is hashing its contents.\<close>

definition digest_file :: "exec_env \<Rightarrow> files \<Rightarrow> path \<Rightarrow> rpc_error + string" where
  "digest_file env fs p =
     and_then (map_err (io_error ''FS_READ_FAILED'' (path_display p)) (read_file (xe_os env) fs p)) (\<lambda>b. Inr (xe_sha env b))"

lemma children_mem: "(name, n) \<in> set (children fs p) \<longleftrightarrow> (p @ [name], n) \<in> set fs"
  by (force simp: children_def)

definition depth :: "files \<Rightarrow> nat" where
  "depth fs = Max (insert 0 (length ` fst ` set fs))"

lemma child_depth:
  assumes "read_dir sys fs p = Inr cs" "(name, n) \<in> set cs"
  shows "length p < depth fs"
proof -
  from assms have "(p @ [name], n) \<in> set fs"
    by (auto simp: read_dir_def os_call_def ok_or_def children_mem split: option.splits if_splits)
  then have "length (p @ [name]) \<in> insert 0 (length ` fst ` set fs)" by force
  then have "length (p @ [name]) \<le> depth fs" unfolding depth_def by (intro Max_ge) auto
  then show ?thesis by simp
qed

lemma map_err_Inr [simp]: "map_err h r = Inr a \<longleftrightarrow> r = Inr a"
  by (cases r) simp_all

text \<open>The files and links below a directory, as paths relative to the root of the walk.\<close>

function collect_tree :: "os \<Rightarrow> files \<Rightarrow> path \<Rightarrow> path \<Rightarrow> rpc_error + path list" where
  "collect_tree sys fs base p =
     and_then (map_err (io_error ''ARTIFACT_READ_FAILED'' (path_display (base @ p))) (read_dir sys fs (base @ p))) (\<lambda>cs.
     and_then (traverse (\<lambda>(name, _).
         and_then (map_err (io_error ''ARTIFACT_READ_FAILED'' (path_display (base @ p @ [name])))
                    (metadata_at sys fs (base @ p @ [name]))) (\<lambda>m.
         case m of
           Dir \<Rightarrow> collect_tree sys fs base (p @ [name])
         | File _ \<Rightarrow> Inr [p @ [name]]
         | Link _ \<Rightarrow> Inr [p @ [name]]
         | Special \<Rightarrow> Inr [])) cs) (\<lambda>found.
     Inr (concat found)))"
  by pat_completeness auto
termination
  by (relation "measure (\<lambda>(sys, fs, base, p). depth fs - length (base @ p))")
    (auto dest: child_depth intro: diff_less_mono2)

declare collect_tree.simps [simp del]

definition tree_entry :: "exec_env \<Rightarrow> files \<Rightarrow> path \<Rightarrow> string \<times> path \<Rightarrow> rpc_error + string \<times> u64" where
  "tree_entry env fs root entry =
     (case entry of (portable, relative) \<Rightarrow>
        let p = root @ relative; fail = io_error ''ARTIFACT_READ_FAILED'' (path_display p) in
        and_then (map_err fail (metadata_at (xe_os env) fs p)) (\<lambda>m.
        case m of
          Link target \<Rightarrow> Inr (portable @ [char_of (0 :: nat)] @ target @ [char_of (0 :: nat)], 0)
        | _ \<Rightarrow> and_then (map_err fail (read_file (xe_os env) fs p)) (\<lambda>b.
                Inr (portable @ [char_of (0 :: nat)] @ b @ [char_of (0 :: nat)], of_nat (length b)))))"

definition digest_tree :: "exec_env \<Rightarrow> files \<Rightarrow> path \<Rightarrow> rpc_error + string \<times> u64 \<times> nat" where
  "digest_tree env fs root =
     and_then (collect_tree (xe_os env) fs root []) (\<lambda>paths.
     and_then (traverse (\<lambda>p. and_then (portable_relative_path (os_text (xe_os env)) p) (\<lambda>portable. Inr (portable, p))) paths) (\<lambda>named.
       let sorted = sort_key fst named in
     and_then (traverse (tree_entry env fs root) sorted) (\<lambda>parts.
     Inr (xe_sha env (concat (map fst parts)), fold (\<lambda>part size. sat_add size (snd part)) parts 0, length sorted))))"

subsection \<open>Reading\<close>

fun node_kind :: "node \<Rightarrow> string" where
  "node_kind Dir = ''directory''"
| "node_kind (File _) = ''file''"
| "node_kind _ = ''other''"

definition fs_stat :: "exec_env \<Rightarrow> json \<Rightarrow> executor_runtime \<Rightarrow> rpc_error + json" where
  "fs_stat env params x =
     and_then (read_path env x params ''path'' False ''filesystem.stat'') (\<lambda>p.
     and_then (map_err (io_error ''FS_STAT_FAILED'' (path_display p)) (metadata_at (xe_os env) (xr_files x) p)) (\<lambda>m.
     and_then (case m of File _ \<Rightarrow> and_then (digest_file env (xr_files x) p) (\<lambda>d. Inr (JStr d)) | _ \<Rightarrow> Inr JNull) (\<lambda>digest.
     Inr (JObj [(''digest'', digest), (''exists'', JBool True), (''kind'', JStr (node_kind m)), (''path'', jpath p),
                (''size'', junum (node_size (xe_os env) p m))]))))"

definition fs_resolve :: "exec_env \<Rightarrow> json \<Rightarrow> executor_runtime \<Rightarrow> rpc_error + json" where
  "fs_resolve env params x =
     and_then (read_path env x params ''path'' False ''filesystem.resolve'') (\<lambda>p.
     Inr (JObj [(''exists'', JBool (os_exists (xe_os env) (xr_files x) p)), (''path'', jpath p)]))"

text \<open>
  Reading a block (at most a mebibyte from the offset on) when a limit is given, and the whole file
  otherwise.
\<close>

definition fs_read :: "exec_env \<Rightarrow> json \<Rightarrow> executor_runtime \<Rightarrow> rpc_error + json" where
  "fs_read env params x =
     and_then (read_path env x params ''path'' True ''filesystem.read'') (\<lambda>p.
       let offset = unwrap_or 0 (get_u64 params ''offset''); fail = io_error ''FS_READ_FAILED'' (path_display p) in
     and_then (map_err fail (metadata_at (xe_os env) (xr_files x) p)) (\<lambda>m.
     and_then (map_err fail (read_file (xe_os env) (xr_files x) p)) (\<lambda>contents.
       let data = (case get_u64 params ''limit'' of
                     Some limit \<Rightarrow> take (min (unat limit) (1024 * 1024)) (drop (unat offset) contents)
                   | None \<Rightarrow> contents);
           size = node_size (xe_os env) p m
       in Inr (JObj [(''bytes'', jnat (length data)), (''content'', JStr (os_utf8 (xe_os env) data)),
                (''digest'', JStr (xe_sha env data)),
                (''eof'', JBool (size \<le> sat_add offset (of_nat (length data)))), (''offset'', junum offset),
                (''path'', jpath p), (''size'', junum size)]))))"

definition fs_list :: "exec_env \<Rightarrow> json \<Rightarrow> executor_runtime \<Rightarrow> rpc_error + json" where
  "fs_list env params x =
     and_then (read_path env x params ''path'' True ''filesystem.list'') (\<lambda>p.
     and_then (map_err (io_error ''FS_LIST_FAILED'' (path_display p)) (read_dir (xe_os env) (xr_files x) p)) (\<lambda>cs.
     and_then (traverse (\<lambda>(name, _).
         and_then (map_err (io_error ''FS_LIST_FAILED'' (path_display (p @ [name])))
                    (metadata_at (xe_os env) (xr_files x) (p @ [name]))) (\<lambda>m. Inr (name, m))) cs) (\<lambda>entries.
     Inr (JObj [(''entries'', JArr (map (\<lambda>(name, m).
            JObj [(''kind'', JStr (node_kind m)), (''name'', JStr name), (''path'', jpath (p @ [name])),
                  (''size'', junum (node_size (xe_os env) (p @ [name]) m))]) (sort_key fst entries))),
          (''path'', jpath p)]))))"

text \<open>\<^verbatim>\<open>str::lines\<close>: the text before each line feed, without the carriage return that precedes it, and
  what follows the last one unless that is empty.\<close>

definition strip_cr :: "string \<Rightarrow> string" where
  "strip_cr line = (if line \<noteq> [] \<and> last line = CHR 13 then butlast line else line)"

fun split_lines :: "string \<Rightarrow> string \<Rightarrow> string list" where
  "split_lines acc [] = (if acc = [] then [] else [acc])"
| "split_lines acc (c # s) = (if c = CHR 10 then strip_cr acc # split_lines [] s else split_lines (acc @ [c]) s)"

fun search_lines :: "path \<Rightarrow> string \<Rightarrow> nat \<Rightarrow> nat \<Rightarrow> string list \<Rightarrow> json list \<Rightarrow> json list" where
  "search_lines p query limit index [] found = found"
| "search_lines p query limit index (line # rest) found =
     (if contains query line then
        let found' = found @ [JObj [(''line'', jnat (index + 1)), (''path'', jpath p), (''text'', JStr line)]] in
        if limit \<le> length found' then found' else search_lines p query limit (index + 1) rest found'
      else search_lines p query limit (index + 1) rest found)"

function search_tree :: "os \<Rightarrow> files \<Rightarrow> path \<Rightarrow> string \<Rightarrow> nat \<Rightarrow> json list \<Rightarrow> rpc_error + json list" where
  "search_tree sys fs p query limit found =
     (if limit \<le> length found then Inr found
      else
        let fail = io_error ''FS_SEARCH_FAILED'' (path_display p) in
        and_then (map_err fail (metadata_at sys fs p)) (\<lambda>m.
        case m of
          Dir \<Rightarrow>
            and_then (map_err fail (read_dir sys fs p)) (\<lambda>cs.
              fold_until (\<lambda>(name, _) found. search_tree sys fs (p @ [name]) query limit found)
                (\<lambda>found. limit \<le> length found) (sort_key fst cs) found)
        | File b \<Rightarrow>
            if length b \<le> 16 * 1024 * 1024 then
              and_then (map_err fail (read_file sys fs p)) (\<lambda>b.
              Inr (search_lines p query limit 0 (split_lines [] (os_utf8 sys b)) found))
            else Inr found
        | _ \<Rightarrow> Inr found))"
  by pat_completeness auto
termination
  by (relation "measure (\<lambda>(sys, fs, p, query, limit, found). depth fs - length p)")
    (auto dest: child_depth intro: diff_less_mono2)

declare search_tree.simps [simp del]

definition fs_search :: "exec_env \<Rightarrow> json \<Rightarrow> executor_runtime \<Rightarrow> rpc_error + json" where
  "fs_search env params x =
     and_then (read_path env x params ''path'' True ''filesystem.search'') (\<lambda>p.
     and_then (required_str params ''query'') (\<lambda>query.
       let limit = (case get_u64 params ''maxResults'' of Some n \<Rightarrow> unat n | None \<Rightarrow> 200) in
     and_then (search_tree (xe_os env) (xr_files x) p query limit []) (\<lambda>found.
     Inr (JObj [(''matches'', JArr found), (''path'', jpath p), (''query'', JStr query),
                (''truncated'', JBool (limit \<le> length found))]))))"

definition artifact_identity :: "exec_env \<Rightarrow> files \<Rightarrow> path \<Rightarrow> node \<Rightarrow> rpc_error + string \<times> u64 \<times> nat \<times> string" where
  "artifact_identity env fs p m =
     (case m of
        Dir \<Rightarrow> and_then (digest_tree env fs p) (\<lambda>(digest, len, count). Inr (digest, len, count, ''directory''))
      | _ \<Rightarrow> and_then (digest_file env fs p) (\<lambda>digest. Inr (digest, node_size (xe_os env) p m, 1, ''file'')))"

definition artifact_fields :: "executor_runtime \<Rightarrow> path \<Rightarrow> string \<times> u64 \<times> nat \<times> string \<Rightarrow> json" where
  "artifact_fields x p d =
     (case d of (digest, len, count, kind) \<Rightarrow>
        JObj [(''digest'', JStr digest), (''executorId'', JStr (xr_id x)), (''files'', jnat count), (''kind'', JStr kind),
              (''path'', jpath p), (''size'', junum len)])"

definition artifact_describe :: "exec_env \<Rightarrow> json \<Rightarrow> executor_runtime \<Rightarrow> rpc_error + json" where
  "artifact_describe env params x =
     and_then (write_path env x params ''path'' True) (\<lambda>p.
     and_then (map_err (io_error ''ARTIFACT_READ_FAILED'' (path_display p)) (metadata_at (xe_os env) (xr_files x) p)) (\<lambda>m.
     if m = Dir \<or> is_file (Some m)
     then and_then (artifact_identity env (xr_files x) p m) (\<lambda>d. Inr (artifact_fields x p d))
     else Inl (rpc_err ''INVALID_ARTIFACT'' ''artifact must be a file or directory'')))"

subsection \<open>Changing\<close>

text \<open>The file an action writes before it replaces the path: the same name with another extension.\<close>

definition temporary :: "exec_env \<Rightarrow> path \<Rightarrow> path" where
  "temporary env p = with_extension (''workbench.'' @ dec (xe_pid env) @ ''.tmp'') p"

definition put_files :: "files \<Rightarrow> executor_runtime \<Rightarrow> executor_runtime" where
  "put_files fs x = x\<lparr>xr_files := fs\<rparr>"

definition fs_step :: "(string \<Rightarrow> rpc_error) \<Rightarrow> string + files \<Rightarrow> executor_runtime \<Rightarrow> (rpc_error + unit) \<times> executor_runtime" where
  "fs_step fail r x = (case r of Inl e \<Rightarrow> (Inl (fail e), x) | Inr fs \<Rightarrow> (Inr (), put_files fs x))"

definition replace_contents ::
  "exec_env \<Rightarrow> string \<Rightarrow> path \<Rightarrow> string \<Rightarrow> executor_runtime \<Rightarrow> (rpc_error + json) \<times> executor_runtime" where
  "replace_contents env code p contents x =
     (let temp = temporary env p in
      sbind (fs_step (io_error code (path_display temp)) (write_file (xe_os env) (xr_files x) temp contents) x) (\<lambda>_ x.
      sbind (fs_step (io_error code (path_display p)) (rename (xe_os env) (xr_files x) temp p) x) (\<lambda>_ x.
      (and_then (digest_file env (xr_files x) p) (\<lambda>d. Inr (JObj [(''digest'', JStr d), (''path'', jpath p)])), x))))"

definition decoded_content :: "exec_env \<Rightarrow> json \<Rightarrow> rpc_error + string" where
  "decoded_content env params =
     and_then (ok_or (rpc_err ''INVALID_PARAMS'' ''content is required'') (get_str params ''content'')) (\<lambda>content.
       let encoding = unwrap_or ''utf-8'' (get_str params ''encoding'') in
       if encoding = ''utf-8'' then Inr content
       else if encoding = ''base64'' then
         map_err (\<lambda>e. rpc_err ''INVALID_PARAMS'' (''content is not valid base64: '' @ e)) (xe_base64 env content)
       else Inl (rpc_err ''INVALID_PARAMS'' (''unsupported filesystem.write encoding: '' @ encoding)))"

definition expected_unchanged :: "exec_env \<Rightarrow> json \<Rightarrow> executor_runtime \<Rightarrow> path \<Rightarrow> rpc_error + unit" where
  "expected_unchanged env params x p =
     (case get_str params ''expectedDigest'' of
        None \<Rightarrow> Inr ()
      | Some expected \<Rightarrow>
          and_then (if os_exists (xe_os env) (xr_files x) p
                    then and_then (digest_file env (xr_files x) p) (\<lambda>d. Inr (Some d)) else Inr None) (\<lambda>actual.
          if actual \<noteq> Some expected
          then Inl (rpc_err ''DIGEST_CONFLICT'' (''expected '' @ expected @ '', got '' @ unwrap_or ''<missing>'' actual))
          else Inr ()))"

definition fs_write :: "exec_env \<Rightarrow> json \<Rightarrow> executor_runtime \<Rightarrow> (rpc_error + json) \<times> executor_runtime" where
  "fs_write env params x =
     sbind (write_path env x params ''path'' False, x) (\<lambda>p x.
     sbind (decoded_content env params, x) (\<lambda>contents x.
     sbind (expected_unchanged env params x p, x) (\<lambda>_ x.
     sbind (case path_parent p of
              None \<Rightarrow> (Inr (), x)
            | Some parent \<Rightarrow>
                fs_step (io_error ''FS_WRITE_FAILED'' (path_display parent)) (create_dir_all (xe_os env) (xr_files x) parent) x) (\<lambda>_ x.
     replace_contents env ''FS_WRITE_FAILED'' p contents x))))"

text \<open>How often a text occurs in another without overlap, and the first occurrence replaced.\<close>

function occurrences :: "string \<Rightarrow> string \<Rightarrow> nat" where
  "occurrences p [] = 0"
| "occurrences p (c # s) =
     (if p \<noteq> [] \<and> starts_with p (c # s) then Suc (occurrences p (drop (length p) (c # s))) else occurrences p s)"
  by pat_completeness auto
termination
  by (relation "measure (\<lambda>(p, s). length s)") (auto simp: neq_Nil_conv)

fun replace_first :: "string \<Rightarrow> string \<Rightarrow> string \<Rightarrow> string" where
  "replace_first p r [] = []"
| "replace_first p r (c # s) =
     (if p \<noteq> [] \<and> starts_with p (c # s) then r @ drop (length p) (c # s) else c # replace_first p r s)"

definition fs_patch :: "exec_env \<Rightarrow> json \<Rightarrow> executor_runtime \<Rightarrow> (rpc_error + json) \<times> executor_runtime" where
  "fs_patch env params x =
     sbind (write_path env x params ''path'' True, x) (\<lambda>p x.
     sbind (required_str params ''expectedDigest'', x) (\<lambda>expected x.
     sbind (digest_file env (xr_files x) p, x) (\<lambda>actual x.
     if actual \<noteq> expected then (Inl (rpc_err ''DIGEST_CONFLICT'' (''expected '' @ expected @ '', got '' @ actual)), x)
     else
     sbind (required_str params ''before'', x) (\<lambda>before x.
     sbind (required_str params ''after'', x) (\<lambda>after x.
     sbind (and_then (map_err (io_error ''FS_PATCH_FAILED'' (path_display p)) (read_file (xe_os env) (xr_files x) p)) (\<lambda>b.
              if os_text (xe_os env) b then Inr b
              else Inl (io_error ''FS_PATCH_FAILED'' (path_display p) (os_message (xe_os env) ''text'' p))), x) (\<lambda>content x.
     if occurrences before content \<noteq> 1
     then (Inl (rpc_err ''PATCH_CONTEXT_MISMATCH'' (''patch context matched '' @ dec (occurrences before content) @ '' times'')), x)
     else replace_contents env ''FS_PATCH_FAILED'' p (replace_first before after content) x))))))"

definition fs_remove :: "exec_env \<Rightarrow> json \<Rightarrow> executor_runtime \<Rightarrow> (rpc_error + json) \<times> executor_runtime" where
  "fs_remove env params x =
     sbind (write_path env x params ''path'' True, x) (\<lambda>p x.
     sbind (required_str params ''expectedDigest'', x) (\<lambda>expected x.
     sbind (if node_at (xr_files x) p = Some Dir then and_then (digest_tree env (xr_files x) p) (\<lambda>d. Inr (fst d))
            else digest_file env (xr_files x) p, x) (\<lambda>actual x.
     if actual \<noteq> expected then (Inl (rpc_err ''DIGEST_CONFLICT'' (''expected '' @ expected @ '', got '' @ actual)), x)
     else
     sbind (ok_or (rpc_err ''PATH_INVALID'' ''path has no parent'') (path_parent p), x) (\<lambda>parent x.
       let trash = parent @ [''.workbench-trash''] in
     sbind (fs_step (io_error ''FS_REMOVE_FAILED'' (path_display trash)) (create_dir_all (xe_os env) (xr_files x) trash) x) (\<lambda>_ x.
       let destination = trash @ [dec (unat (xe_clock env 0)) @ ''_'' @ xe_ids env 0] in
     sbind (fs_step (io_error ''FS_REMOVE_FAILED'' (path_display p)) (rename (xe_os env) (xr_files x) p destination) x) (\<lambda>_ x.
     (Inr (JObj [(''path'', jpath p), (''removed'', JBool True), (''restoreToken'', jpath destination)]), x)))))))"

definition fs_restore :: "exec_env \<Rightarrow> json \<Rightarrow> executor_runtime \<Rightarrow> (rpc_error + json) \<times> executor_runtime" where
  "fs_restore env params x =
     sbind (write_path env x params ''path'' False, x) (\<lambda>destination x.
     sbind (write_path env x params ''restoreToken'' True, x) (\<lambda>token x.
     if Option.bind (path_parent token) path_file_name \<noteq> Some ''.workbench-trash''
     then (Inl (rpc_err ''INVALID_RESTORE_TOKEN'' ''restore token is not managed by workbench''), x)
     else if os_exists (xe_os env) (xr_files x) destination
     then (Inl (rpc_err ''RESTORE_CONFLICT'' ''restore destination already exists''), x)
     else
     sbind (fs_step (io_error ''FS_RESTORE_FAILED'' (path_display destination))
              (rename (xe_os env) (xr_files x) token destination) x) (\<lambda>_ x.
     (Inr (JObj [(''path'', jpath destination), (''restored'', JBool True)]), x))))"

definition fs_mkdir :: "exec_env \<Rightarrow> json \<Rightarrow> executor_runtime \<Rightarrow> (rpc_error + json) \<times> executor_runtime" where
  "fs_mkdir env params x =
     sbind (write_path env x params ''path'' False, x) (\<lambda>p x.
     sbind (fs_step (io_error ''FS_MKDIR_FAILED'' (path_display p)) (create_dir_all (xe_os env) (xr_files x) p) x) (\<lambda>_ x.
     (Inr (JObj [(''created'', JBool True), (''path'', jpath p)]), x)))"

end
