(* ===== verification/Relay.thy ===== *)
theory Relay
  imports Filesystem
begin

section \<open>The executor's part of an artifact relay\<close>

text \<open>
  The arms \<^verbatim>\<open>artifact.relay.*\<close> of \<^verbatim>\<open>executor.rs\<close>: a source describes and reads an artifact, as single
  files or as one archive; a destination collects it in a staging directory and commits it by
  renaming. The format of the archive (tar and gzip) is a parameter of the environment.
\<close>

abbreviation relay_error :: "path \<Rightarrow> string \<Rightarrow> rpc_error" where
  "relay_error p \<equiv> io_error ''ARTIFACT_TRANSFER_FAILED'' (path_display p)"

abbreviation artifact_error :: "path \<Rightarrow> string \<Rightarrow> rpc_error" where
  "artifact_error p \<equiv> io_error ''ARTIFACT_READ_FAILED'' (path_display p)"

text \<open>Opening a file follows the links on its path.\<close>

definition open_file :: "os \<Rightarrow> files \<Rightarrow> path \<Rightarrow> string + path" where
  "open_file sys fs p = os_canonicalize sys fs p"

definition block_at :: "nat \<Rightarrow> nat \<Rightarrow> string \<Rightarrow> string" where
  "block_at offset limit contents = take limit (drop offset contents)"

subsection \<open>Manifests\<close>

function relay_manifest :: "os \<Rightarrow> files \<Rightarrow> path \<Rightarrow> path \<Rightarrow> rpc_error + json list" where
  "relay_manifest sys fs root p =
     and_then (map_err (artifact_error (root @ p)) (read_dir sys fs (root @ p))) (\<lambda>cs.
     and_then (traverse (\<lambda>(name, _).
         and_then (map_err (artifact_error (root @ p @ [name])) (metadata_at sys fs (root @ p @ [name]))) (\<lambda>m.
         if \<not> list_all (os_text sys) (p @ [name])
         then Inl (rpc_err ''INVALID_ARTIFACT_PATH'' ''artifact paths must be UTF-8'')
         else case m of
           Dir \<Rightarrow>
             and_then (relay_manifest sys fs root (p @ [name])) (\<lambda>entries.
             Inr (JObj [(''kind'', JStr ''directory''), (''path'', JStr (slashed (p @ [name])))] # entries))
         | File b \<Rightarrow>
             Inr [JObj [(''kind'', JStr ''file''), (''path'', JStr (slashed (p @ [name]))), (''size'', junum (of_nat (length b)))]]
         | _ \<Rightarrow>
             Inl (rpc_err ''INVALID_ARTIFACT''
                    (''relay does not support symlinks or special files: '' @ path_display (root @ p @ [name])))))
       (sort_key fst cs)) (\<lambda>found.
     Inr (concat found)))"
  by pat_completeness auto
termination
  by (relation "measure (\<lambda>(sys, fs, root, p). depth fs - length (root @ p))")
    (auto dest: child_depth intro: diff_less_mono2)

declare relay_manifest.simps [simp del]

definition relay_describe :: "exec_env \<Rightarrow> json \<Rightarrow> executor_runtime \<Rightarrow> rpc_error + json" where
  "relay_describe env params x =
     and_then (write_path env x params ''path'' True) (\<lambda>source.
     and_then (relay_manifest (xe_os env) (xr_files x) source []) (\<lambda>entries.
     and_then (digest_tree env (xr_files x) source) (\<lambda>(digest, len, count).
     Inr (JObj [(''digest'', JStr digest), (''entries'', JArr entries), (''files'', jnat count), (''path'', jpath source),
                (''size'', junum len)]))))"

subsection \<open>Reading and writing blocks\<close>

definition read_block ::
  "exec_env \<Rightarrow> (string \<times> json) list \<Rightarrow> u64 \<Rightarrow> u64 \<Rightarrow> json \<Rightarrow> path \<Rightarrow> executor_runtime \<Rightarrow> rpc_error + json" where
  "read_block env label standard most params p x =
     (let offset = unwrap_or 0 (get_u64 params ''offset'');
          limit = min (unwrap_or standard (get_u64 params ''limit'')) most; sys = xe_os env; fs = xr_files x in
      and_then (map_err (artifact_error p) (and_then (open_file sys fs p) (read_file sys fs))) (\<lambda>contents.
        let data = block_at (unat offset) (unat limit) contents in
        Inr (JObj ([(''bytes'', jnat (length data)), (''data'', JStr (xe_base64_encode env data)),
                    (''eof'', JBool (length data < unat limit)), (''offset'', junum offset)] @ label))))"

definition relay_read :: "exec_env \<Rightarrow> json \<Rightarrow> executor_runtime \<Rightarrow> rpc_error + json" where
  "relay_read env params x =
     and_then (write_path env x params ''path'' True) (\<lambda>source.
     and_then (required_str params ''relativePath'') (\<lambda>text.
     and_then (safe_relative text) (\<lambda>relative.
     read_block env [(''relativePath'', JStr text)] (1024 * 1024) (4 * 1024 * 1024) params (source @ relative) x)))"

definition archive_read :: "exec_env \<Rightarrow> json \<Rightarrow> executor_runtime \<Rightarrow> rpc_error + json" where
  "archive_read env params x =
     and_then (required_str params ''token'') (\<lambda>token.
     and_then (relay_archive_path (xr_relay_root x) token) (\<lambda>p.
     read_block env [(''token'', JStr token)] (8 * 1024 * 1024) (16 * 1024 * 1024) params p x))"

definition write_block :: "exec_env \<Rightarrow> (string \<times> json) list \<Rightarrow> json \<Rightarrow> path \<Rightarrow> executor_runtime \<Rightarrow> (rpc_error + json) \<times> executor_runtime" where
  "write_block env label params p x =
     sbind (ok_or (rpc_err ''INVALID_PARAMS'' ''offset is required'') (get_u64 params ''offset''), x) (\<lambda>offset x.
     sbind (required_str params ''data'', x) (\<lambda>text x.
     sbind (map_err (rpc_err ''INVALID_PARAMS'') (xe_base64 env text), x) (\<lambda>data x.
     sbind (fs_step (relay_error p)
              (and_then (open_file (xe_os env) (xr_files x) p) (\<lambda>q. write_at (xe_os env) (xr_files x) q (unat offset) data)) x) (\<lambda>_ x.
     (Inr (JObj ([(''bytes'', jnat (length data)), (''offset'', junum offset)] @ label)), x)))))"

definition relay_write :: "exec_env \<Rightarrow> json \<Rightarrow> executor_runtime \<Rightarrow> (rpc_error + json) \<times> executor_runtime" where
  "relay_write env params x =
     sbind (write_path env x params ''staging'' True, x) (\<lambda>staging x.
     sbind (required_str params ''relativePath'', x) (\<lambda>text x.
     sbind (safe_relative text, x) (\<lambda>relative x.
     write_block env [(''relativePath'', JStr text)] params (staging @ relative) x)))"

definition archive_write :: "exec_env \<Rightarrow> json \<Rightarrow> executor_runtime \<Rightarrow> (rpc_error + json) \<times> executor_runtime" where
  "archive_write env params x =
     sbind (write_path env x params ''staging'' True, x) (\<lambda>staging x.
     write_block env [] params (staging @ [''payload.tar.gz'']) x)"

subsection \<open>Staging\<close>

text \<open>A staging directory that is there is removed; the preparation then creates it.\<close>

definition fresh_staging :: "exec_env \<Rightarrow> path \<Rightarrow> executor_runtime \<Rightarrow> (rpc_error + unit) \<times> executor_runtime" where
  "fresh_staging env staging x =
     sbind (if os_exists (xe_os env) (xr_files x) staging
            then fs_step (relay_error staging) (remove_dir_all (xe_os env) (xr_files x) staging) x else (Inr (), x)) (\<lambda>_ x.
     fs_step (relay_error staging) (create_dir_all (xe_os env) (xr_files x) staging) x)"

fun prepare_entries :: "exec_env \<Rightarrow> path \<Rightarrow> json list \<Rightarrow> executor_runtime \<Rightarrow> (rpc_error + unit) \<times> executor_runtime" where
  "prepare_entries env staging [] x = (Inr (), x)"
| "prepare_entries env staging (entry # rest) x =
     sbind (required_str entry ''path'', x) (\<lambda>text x.
     sbind (safe_relative text, x) (\<lambda>relative x.
       let p = staging @ relative; sys = xe_os env in
     sbind (required_str entry ''kind'', x) (\<lambda>kind x.
     sbind (if kind = ''directory'' then fs_step (relay_error p) (create_dir_all sys (xr_files x) p) x
            else if kind = ''file'' then
              sbind (case path_parent p of
                       None \<Rightarrow> (Inr (), x)
                     | Some parent \<Rightarrow> fs_step (relay_error parent) (create_dir_all sys (xr_files x) parent) x) (\<lambda>_ x.
              fs_step (relay_error p) (write_file sys (xr_files x) p []) x)
            else (Inl (rpc_err ''INVALID_ARTIFACT'' ''relay supports files and directories only''), x)) (\<lambda>_ x.
     prepare_entries env staging rest x))))"

definition relay_prepare :: "exec_env \<Rightarrow> json \<Rightarrow> executor_runtime \<Rightarrow> (rpc_error + json) \<times> executor_runtime" where
  "relay_prepare env params x =
     sbind (write_path env x params ''destination'' False, x) (\<lambda>destination x.
     sbind (write_path env x params ''staging'' False, x) (\<lambda>staging x.
     sbind (fresh_staging env staging x) (\<lambda>_ x.
     sbind (ok_or (rpc_err ''INVALID_PARAMS'' ''entries are required'') (get_array params ''entries''), x) (\<lambda>entries x.
     sbind (prepare_entries env staging entries x) (\<lambda>_ x.
     (Inr (JObj [(''destination'', jpath destination), (''staging'', jpath staging)]), x))))))"

definition archive_prepare :: "exec_env \<Rightarrow> json \<Rightarrow> executor_runtime \<Rightarrow> (rpc_error + json) \<times> executor_runtime" where
  "archive_prepare env params x =
     sbind (write_path env x params ''staging'' False, x) (\<lambda>staging x.
     sbind (fresh_staging env staging x) (\<lambda>_ x.
       let p = staging @ [''payload.tar.gz''] in
     sbind (fs_step (relay_error p) (write_file (xe_os env) (xr_files x) p []) x) (\<lambda>_ x.
     (Inr (JObj [(''staging'', jpath staging)]), x))))"

subsection \<open>Committing\<close>

text \<open>
  The destination is moved aside, the staged tree takes its place, and what was moved aside is
  removed; when the second rename fails the first is undone as far as possible. The two callers
  differ in how they remove the backup.
\<close>

definition remove_any :: "os \<Rightarrow> files \<Rightarrow> path \<Rightarrow> string + files" where
  "remove_any sys fs p = (if node_at fs p = Some Dir then remove_dir_all sys fs p else remove_file sys fs p)"

definition backup_of :: "exec_env \<Rightarrow> path \<Rightarrow> path" where
  "backup_of env destination = with_extension (''workbench-backup-'' @ xe_ids env 0) destination"

definition swap_in ::
  "(os \<Rightarrow> files \<Rightarrow> path \<Rightarrow> string + files) \<Rightarrow> exec_env \<Rightarrow> path \<Rightarrow> path \<Rightarrow> executor_runtime \<Rightarrow> (rpc_error + unit) \<times> executor_runtime" where
  "swap_in remove env destination staging x =
     (let sys = xe_os env; backup = backup_of env destination in
      sbind (if os_exists sys (xr_files x) destination
             then fs_step (relay_error destination) (rename sys (xr_files x) destination backup) x else (Inr (), x)) (\<lambda>_ x.
      sbind (case rename sys (xr_files x) staging destination of
               Inr fs \<Rightarrow> (Inr (), put_files fs x)
             | Inl e \<Rightarrow>
                 (Inl (relay_error destination e),
                  if os_exists sys (xr_files x) backup
                  then snd (fs_step (relay_error backup) (rename sys (xr_files x) backup destination) x) else x)) (\<lambda>_ x.
      if os_exists sys (xr_files x) backup
      then fs_step (relay_error backup) (remove sys (xr_files x) backup) x else (Inr (), x))))"

definition commit_relay_staging :: "exec_env \<Rightarrow> path \<Rightarrow> path \<Rightarrow> executor_runtime \<Rightarrow> (rpc_error + unit) \<times> executor_runtime" where
  "commit_relay_staging = swap_in remove_any"

definition relay_commit :: "exec_env \<Rightarrow> json \<Rightarrow> executor_runtime \<Rightarrow> (rpc_error + json) \<times> executor_runtime" where
  "relay_commit env params x =
     sbind (write_path env x params ''destination'' False, x) (\<lambda>destination x.
     sbind (write_path env x params ''staging'' True, x) (\<lambda>staging x.
     sbind (required_str params ''expectedDigest'', x) (\<lambda>expected x.
     sbind (digest_tree env (xr_files x) staging, x) (\<lambda>(digest, len, count) x.
     if digest \<noteq> expected then (Inl (rpc_err ''ARTIFACT_DIGEST_MISMATCH'' (''expected '' @ expected @ '', got '' @ digest)), x)
     else
     sbind (swap_in remove_dir_all env destination staging x) (\<lambda>_ x.
     (Inr (JObj [(''destination'', jpath destination), (''digest'', JStr digest), (''files'', jnat count), (''size'', junum len)]), x))))))"

subsection \<open>Archives\<close>

fun pack_entries ::
  "os \<Rightarrow> files \<Rightarrow> path \<Rightarrow> json list \<Rightarrow> (path \<times> string option) list \<Rightarrow> (rpc_error + unit) \<times> (path \<times> string option) list" where
  "pack_entries sys fs source [] packed = (Inr (), packed)"
| "pack_entries sys fs source (entry # rest) packed =
     sbind (required_str entry ''path'', packed) (\<lambda>text packed.
     sbind (safe_relative text, packed) (\<lambda>relative packed.
       let p = source @ relative in
     sbind (required_str entry ''kind'', packed) (\<lambda>kind packed.
     sbind (map_err (relay_error p)
              (if kind = ''directory'' then and_then (metadata_at sys fs p) (\<lambda>_. Inr None)
               else and_then (read_file sys fs p) (\<lambda>b. Inr (Some b))), packed) (\<lambda>contents packed.
     pack_entries sys fs source rest (packed @ [(relative, contents)])))))"

definition pack_artifact :: "exec_env \<Rightarrow> files \<Rightarrow> path \<Rightarrow> node \<Rightarrow> (rpc_error + unit) \<times> (path \<times> string option) list" where
  "pack_artifact env fs source m =
     (if is_file (Some m) then
        (case read_file (xe_os env) fs source of
           Inl e \<Rightarrow> (Inl (relay_error source e), [])
         | Inr b \<Rightarrow> (Inr (), [([''payload''], Some b)]))
      else sbind (relay_manifest (xe_os env) fs source [], []) (\<lambda>entries packed.
           pack_entries (xe_os env) fs source entries packed))"

definition archive_create :: "exec_env \<Rightarrow> json \<Rightarrow> executor_runtime \<Rightarrow> (rpc_error + json) \<times> executor_runtime" where
  "archive_create env params x =
     sbind (write_path env x params ''path'' True, x) (\<lambda>source x.
     sbind (map_err (artifact_error source) (metadata_at (xe_os env) (xr_files x) source), x) (\<lambda>m x.
     if m \<noteq> Dir \<and> \<not> is_file (Some m)
     then (Inl (rpc_err ''INVALID_ARTIFACT'' ''archive relay requires a regular file or directory artifact''), x)
     else
     sbind (artifact_identity env (xr_files x) source m, x) (\<lambda>(digest, len, count, kind) x.
     sbind (fs_step (relay_error (xr_relay_root x)) (create_dir_all (xe_os env) (xr_files x) (xr_relay_root x)) x) (\<lambda>_ x.
       let token = xe_ids env 0 in
     sbind (relay_archive_path (xr_relay_root x) token, x) (\<lambda>p x.
     sbind (fs_step (relay_error p) (write_file (xe_os env) (xr_files x) p []) x) (\<lambda>_ x.
     case pack_artifact env (xr_files x) source m of
       (Inl e, packed) \<Rightarrow>
         (Inl e, snd (fs_step (relay_error p) (write_file (xe_os env) (xr_files x) p (xe_pack_broken env packed)) x))
     | (Inr _, packed) \<Rightarrow>
         sbind (fs_step (relay_error p) (write_file (xe_os env) (xr_files x) p (xe_pack env packed)) x) (\<lambda>_ x.
         sbind (map_err (relay_error p) (metadata_at (xe_os env) (xr_files x) p), x) (\<lambda>am x.
         (Inr (JObj [(''archiveSize'', junum (node_size (xe_os env) p am)), (''compression'', JStr ''gzip''),
                     (''digest'', JStr digest), (''files'', jnat count), (''kind'', JStr kind), (''size'', junum len),
                     (''token'', JStr token)]), x)))))))))"

definition archive_remove :: "exec_env \<Rightarrow> json \<Rightarrow> executor_runtime \<Rightarrow> (rpc_error + json) \<times> executor_runtime" where
  "archive_remove env params x =
     sbind (required_str params ''token'', x) (\<lambda>token x.
     sbind (relay_archive_path (xr_relay_root x) token, x) (\<lambda>p x.
       let said = (\<lambda>b. Inr (JObj [(''removed'', JBool b), (''token'', JStr token)])) in
     case remove_file (xe_os env) (xr_files x) p of
       Inr fs \<Rightarrow> (said True, put_files fs x)
     | Inl e \<Rightarrow>
         if node_at (xr_files x) p = None \<and> os_fault (xe_os env) ''unlink'' p = None then (said False, x)
         else (Inl (relay_error p e), x)))"

fun extract_entries ::
  "exec_env \<Rightarrow> path \<Rightarrow> path \<Rightarrow> u64 \<Rightarrow> u64 \<Rightarrow> (string + tar_entry) list \<Rightarrow> u64 \<Rightarrow> u64 \<Rightarrow> executor_runtime
    \<Rightarrow> (rpc_error + u64 \<times> u64) \<times> executor_runtime" where
  "extract_entries env archive destination expected_size expected_files [] len count x = (Inr (len, count), x)"
| "extract_entries env archive destination expected_size expected_files (item # rest) len count x =
     sbind (map_err (relay_error archive) item, x) (\<lambda>entry x.
     if te_kind entry \<noteq> TarFile \<and> te_kind entry \<noteq> TarDir
     then (Inl (rpc_err ''INVALID_ARTIFACT'' ''archive relay supports only regular files and directories''), x)
     else
     sbind (map_err (relay_error archive) (te_path entry), x) (\<lambda>text x.
       let p = components text in
       if path_absolute p \<or> \<not> list_all (\<lambda>c. c = ''.'' \<or> is_normal c) p
       then (Inl (rpc_err ''INVALID_ARTIFACT_PATH'' (''unsafe archive path: '' @ text)), x)
       else
       let count1 = (if te_kind entry = TarFile then sat_add count 1 else count);
           len1 = (if te_kind entry = TarFile then sat_add len (te_size entry) else len) in
       if te_kind entry = TarFile \<and> (expected_files < count1 \<or> expected_size < len1)
       then (Inl (rpc_err ''ARTIFACT_ARCHIVE_LIMIT_EXCEEDED'' ''archive contents exceed the declared artifact limits''), x)
       else
       let (unpacked, fs) = xe_unpack_in env entry destination (xr_files x); x = put_files fs x in
       sbind (map_err (relay_error destination) unpacked, x) (\<lambda>within x.
       if \<not> within then (Inl (rpc_err ''INVALID_ARTIFACT_PATH'' (''archive path escapes destination: '' @ text)), x)
       else extract_entries env archive destination expected_size expected_files rest len1 count1 x)))"

definition extract_relay_archive ::
  "exec_env \<Rightarrow> path \<Rightarrow> path \<Rightarrow> u64 \<Rightarrow> u64 \<Rightarrow> executor_runtime \<Rightarrow> (rpc_error + unit) \<times> executor_runtime" where
  "extract_relay_archive env archive destination expected_size expected_files x =
     sbind (map_err (relay_error archive)
              (and_then (open_file (xe_os env) (xr_files x) archive) (read_file (xe_os env) (xr_files x))), x) (\<lambda>b x.
     sbind (map_err (relay_error archive) (xe_unpack env b), x) (\<lambda>entries x.
     sbind (extract_entries env archive destination expected_size expected_files entries 0 0 x) (\<lambda>(len, count) x.
     if count \<noteq> expected_files \<or> len \<noteq> expected_size
     then (Inl (rpc_err ''ARTIFACT_ARCHIVE_CONTENT_MISMATCH''
             (''expected '' @ dec (unat expected_files) @ '' files/'' @ dec (unat expected_size) @ '' bytes, got ''
                @ dec (unat count) @ '' files/'' @ dec (unat len) @ '' bytes'')), x)
     else (Inr (), x))))"

definition required_u64 :: "json \<Rightarrow> string \<Rightarrow> rpc_error + u64" where
  "required_u64 params key = ok_or (rpc_err ''INVALID_PARAMS'' (key @ '' is required'')) (get_u64 params key)"

definition payload_identity :: "exec_env \<Rightarrow> files \<Rightarrow> path \<Rightarrow> string \<Rightarrow> rpc_error + string \<times> u64 \<times> nat" where
  "payload_identity env fs p kind =
     (if kind = ''file'' then
        and_then (digest_file env fs p) (\<lambda>digest.
        and_then (map_err (relay_error p) (metadata_at (xe_os env) fs p)) (\<lambda>m.
        Inr (digest, node_size (xe_os env) p m, 1)))
      else digest_tree env fs p)"

definition archive_commit :: "exec_env \<Rightarrow> json \<Rightarrow> executor_runtime \<Rightarrow> (rpc_error + json) \<times> executor_runtime" where
  "archive_commit env params x =
     sbind (write_path env x params ''destination'' False, x) (\<lambda>destination x.
     sbind (write_path env x params ''staging'' True, x) (\<lambda>staging x.
     sbind (required_str params ''expectedDigest'', x) (\<lambda>expected x.
     sbind (required_u64 params ''archiveSize'', x) (\<lambda>expected_archive_size x.
     sbind (required_u64 params ''size'', x) (\<lambda>expected_size x.
     sbind (required_u64 params ''files'', x) (\<lambda>expected_files x.
       let kind = unwrap_or ''directory'' (get_str params ''kind''); archive = staging @ [''payload.tar.gz''] in
     sbind (map_err (relay_error archive)
              (and_then (open_file (xe_os env) (xr_files x) archive) (\<lambda>p.
               and_then (metadata_at (xe_os env) (xr_files x) p) (\<lambda>m. Inr (node_size (xe_os env) p m)))), x) (\<lambda>actual x.
     if actual \<noteq> expected_archive_size
     then (Inl (rpc_err ''ARTIFACT_ARCHIVE_SIZE_MISMATCH''
             (''expected '' @ dec (unat expected_archive_size) @ '' archive bytes, got '' @ dec (unat actual))), x)
     else
       let extracted = staging @ [''extracted'']; payload = (if kind = ''file'' then extracted @ [''payload''] else extracted) in
     sbind (fs_step (relay_error extracted) (create_dir (xe_os env) (xr_files x) extracted) x) (\<lambda>_ x.
     sbind (extract_relay_archive env archive extracted expected_size expected_files x) (\<lambda>_ x.
     sbind (payload_identity env (xr_files x) payload kind, x) (\<lambda>(digest, len, count) x.
     if digest \<noteq> expected then (Inl (rpc_err ''ARTIFACT_DIGEST_MISMATCH'' (''expected '' @ expected @ '', got '' @ digest)), x)
     else
     sbind (commit_relay_staging env destination payload x) (\<lambda>_ x.
       let x = snd (fs_step (relay_error staging) (remove_dir_all (xe_os env) (xr_files x) staging) x) in
     (Inr (JObj [(''destination'', jpath destination), (''digest'', JStr digest), (''files'', jnat count), (''size'', junum len)]),
      x))))))))))))"

subsection \<open>Copying on one executor\<close>

text \<open>
  Copying a tree. The walk reads what is there, so it would follow a staging directory inside the
  source until a path is too long for the system.
\<close>

fun each_child :: "(string \<times> node \<Rightarrow> 's \<Rightarrow> ('e + unit) \<times> 's) \<Rightarrow> (string \<times> node) list \<Rightarrow> 's \<Rightarrow> ('e + unit) \<times> 's" where
  "each_child f [] x = (Inr (), x)"
| "each_child f (c # cs) x = sbind (f c x) (\<lambda>_ x. each_child f cs x)"

lemma each_child_cong [fundef_cong]:
  "cs = cs' \<Longrightarrow> x = x' \<Longrightarrow> (\<And>c y. c \<in> set cs' \<Longrightarrow> f c y = g c y) \<Longrightarrow> each_child f cs x = each_child g cs' x'"
  by (induction cs arbitrary: cs' x x') (auto simp: sbind_def split: sum.splits prod.splits)

lemma sbind_cong [fundef_cong]:
  "r = r' \<Longrightarrow> (\<And>a y. r' = (Inr a, y) \<Longrightarrow> f a y = g a y) \<Longrightarrow> sbind r f = sbind r' g"
  by (auto simp: sbind_def split: sum.splits prod.splits)

function copy_relay_tree :: "os \<Rightarrow> path \<Rightarrow> path \<Rightarrow> executor_runtime \<Rightarrow> (rpc_error + unit) \<times> executor_runtime" where
  "copy_relay_tree sys source staging x =
     sbind (fs_step (relay_error staging) (create_dir_all sys (xr_files x) staging) x) (\<lambda>_ x.
     sbind (map_err (artifact_error source) (read_dir sys (xr_files x) source), x) (\<lambda>cs x.
     each_child (\<lambda>(name, _) x.
       sbind (map_err (artifact_error (source @ [name])) (metadata_at sys (xr_files x) (source @ [name])), x) (\<lambda>m x.
       case m of
         Dir \<Rightarrow> copy_relay_tree sys (source @ [name]) (staging @ [name]) x
       | File _ \<Rightarrow> fs_step (relay_error (source @ [name])) (copy_file sys (xr_files x) (source @ [name]) (staging @ [name])) x
       | _ \<Rightarrow>
           (Inl (rpc_err ''INVALID_ARTIFACT''
              (''local copy does not support symlinks or special files: '' @ path_display (source @ [name]))), x)))
       (sort_key fst cs) x))"
  by pat_completeness auto
termination
  by (relation "measure (\<lambda>(sys, source, staging, x). Suc (os_longest sys) - length staging)")
    (auto simp: fs_step_def create_dir_all_def os_call_def ok_or_def split: sum.splits option.splits if_splits)

declare copy_relay_tree.simps [simp del]

definition local_copy :: "exec_env \<Rightarrow> json \<Rightarrow> executor_runtime \<Rightarrow> (rpc_error + json) \<times> executor_runtime" where
  "local_copy env params x =
     (let sys = xe_os env in
     sbind (write_path env x params ''source'' True, x) (\<lambda>source x.
     sbind (write_path env x params ''destination'' False, x) (\<lambda>destination x.
     sbind (write_path env x params ''staging'' False, x) (\<lambda>staging x.
     if source = destination \<or> path_within destination source
     then (Inl (rpc_err ''INVALID_ARTIFACT_PATH'' ''local artifact destination must be outside the source''), x)
     else
     sbind (map_err (artifact_error source) (metadata_at sys (xr_files x) source), x) (\<lambda>m x.
     if m \<noteq> Dir \<and> \<not> is_file (Some m)
     then (Inl (rpc_err ''INVALID_ARTIFACT'' ''local artifact copy supports only regular files and directories''), x)
     else
     sbind (artifact_identity env (xr_files x) source m, x) (\<lambda>(source_digest, source_size, source_files, kind) x.
     sbind (if os_exists sys (xr_files x) staging then fs_step (relay_error staging) (remove_any sys (xr_files x) staging) x
            else (Inr (), x)) (\<lambda>_ x.
     sbind (if kind = ''file'' then
              sbind (case path_parent staging of
                       None \<Rightarrow> (Inr (), x)
                     | Some parent \<Rightarrow> fs_step (relay_error parent) (create_dir_all sys (xr_files x) parent) x) (\<lambda>_ x.
              fs_step (relay_error source) (copy_file sys (xr_files x) source staging) x)
            else copy_relay_tree sys source staging x) (\<lambda>_ x.
     sbind (payload_identity env (xr_files x) staging kind, x) (\<lambda>(digest, len, count) x.
     if source_digest \<noteq> digest \<or> source_size \<noteq> len \<or> source_files \<noteq> count
     then (Inl (rpc_err ''ARTIFACT_DIGEST_MISMATCH'' ''source changed during local copy''),
           snd (fs_step (relay_error staging) (remove_any sys (xr_files x) staging) x))
     else
     sbind (commit_relay_staging env destination staging x) (\<lambda>_ x.
     (Inr (JObj [(''destination'', jpath destination), (''digest'', JStr digest), (''files'', jnat count), (''kind'', JStr kind),
                 (''size'', junum len), (''transport'', JStr ''local'')]), x)))))))))))"

subsection \<open>Dispatch\<close>

definition relay_actions :: "string list" where
  "relay_actions =
     [''artifact.relay.archive.create'', ''artifact.relay.local-copy'', ''artifact.relay.archive.read'', ''artifact.relay.archive.remove'',
      ''artifact.relay.archive.prepare'', ''artifact.relay.archive.write'', ''artifact.relay.archive.commit'', ''artifact.relay.manifest'',
      ''artifact.relay.read'', ''artifact.relay.prepare'', ''artifact.relay.write'', ''artifact.relay.commit'']"

definition relay_dispatch :: "exec_env \<Rightarrow> string \<Rightarrow> json \<Rightarrow> executor_runtime \<Rightarrow> (rpc_error + json) \<times> executor_runtime" where
  "relay_dispatch env action params x =
    (if action = ''artifact.relay.archive.create'' then archive_create env params x
     else if action = ''artifact.relay.local-copy'' then local_copy env params x
     else if action = ''artifact.relay.archive.read'' then (archive_read env params x, x)
     else if action = ''artifact.relay.archive.remove'' then archive_remove env params x
     else if action = ''artifact.relay.archive.prepare'' then archive_prepare env params x
     else if action = ''artifact.relay.archive.write'' then archive_write env params x
     else if action = ''artifact.relay.archive.commit'' then archive_commit env params x
     else if action = ''artifact.relay.manifest'' then (relay_describe env params x, x)
     else if action = ''artifact.relay.read'' then (relay_read env params x, x)
     else if action = ''artifact.relay.prepare'' then relay_prepare env params x
     else if action = ''artifact.relay.write'' then relay_write env params x
     else relay_commit env params x)"

end
