(* ===== verification/Executor.thy ===== *)
theory Executor
  imports Relay
begin

section \<open>The executor's requests\<close>

text \<open>
  The second half of \<^verbatim>\<open>executor.rs\<close>: commands, read grants, negotiation, the dispatcher, and the
  layers around it, from the permit of the pool over the desktop's gate to the resources and the
  authority. A call has its own environment for each of its stages (readings, writes,
  identifiers): \<open>e n\<close> is that of stage \<open>n\<close>.
\<close>

subsection \<open>Commands\<close>

definition string_map :: "json \<Rightarrow> (string \<times> string) list option" where
  "string_map v = Option.bind (as_object v) (\<lambda>m.
     Option.bind (strings_of (map snd m)) (\<lambda>vs. Some (zip (map fst m) vs)))"

definition run_command :: "exec_env \<Rightarrow> json \<Rightarrow> executor_runtime \<Rightarrow> (rpc_error + json) \<times> executor_runtime" where
  "run_command env params x =
     sbind (required_str params ''cwd'', x) (\<lambda>cwd_input x.
     sbind (write_path env x params ''cwd'' True, x) (\<lambda>cwd x.
     sbind (string_array (xe_conversion env) params ''argv'', x) (\<lambda>argv x.
     sbind (validate_command (xe_sha env) (xe_jshow env) argv cwd_input (get_str params ''approvalDigest''), x) (\<lambda>_ x.
     sbind (case jget params ''env'' of
              None \<Rightarrow> Inr []
            | Some v \<Rightarrow> ok_or (rpc_err ''INVALID_PARAMS'' (xe_conversion env v)) (string_map v), x) (\<lambda>vars x.
       let timeout_ms = min 3600000 (max 1 (unwrap_or 3600000 (get_u64 params ''timeoutMs'')));
           (outcome, fs) = xe_command env argv cwd vars timeout_ms (xr_files x); x = put_files fs x
       in case outcome of
            SpawnFailed e \<Rightarrow> (Inl (rpc_err ''COMMAND_FAILED'' e), x)
          | WaitFailed e \<Rightarrow> (Inl (rpc_err ''COMMAND_FAILED'' e), x)
          | DeadlinePassed (Inl e) \<Rightarrow> (Inl e, x)
          | DeadlinePassed (Inr _) \<Rightarrow>
              (Inl ((rpc_err ''COMMAND_TIMED_OUT'' (''command exceeded its '' @ dec (unat timeout_ms) @ ''ms deadline''))
                 \<lparr>err_retryable := True\<rparr>), x)
          | Exited success status code out err \<Rightarrow>
              let stdout = bounded_output (os_utf8 (xe_os env)) out; stderr = bounded_output (os_utf8 (xe_os env)) err in
              if \<not> success then (Inl (rpc_err ''COMMAND_FAILED'' (''command exited with '' @ status @ '': '' @ stderr)), x)
              else (Inr (JObj [(''argv'', jstrs argv), (''cwd'', jpath cwd),
                      (''exitCode'', jopt (\<lambda>c. JNum (if 0 \<le> c then PosInt (of_int c) else NegInt c)) code),
                      (''stderr'', JStr stderr), (''stdout'', JStr stdout)]), x))))))"

definition artifact_build :: "exec_env \<Rightarrow> json \<Rightarrow> executor_runtime \<Rightarrow> (rpc_error + json) \<times> executor_runtime" where
  "artifact_build env params x =
     sbind (run_command env params x) (\<lambda>result x.
     sbind (write_path env x params ''artifactPath'' True, x) (\<lambda>p x.
     sbind (map_err (io_error ''ARTIFACT_READ_FAILED'' (path_display p)) (metadata_at (xe_os env) (xr_files x) p), x) (\<lambda>m x.
     sbind (artifact_identity env (xr_files x) p m, x) (\<lambda>d x.
     (Inr (JObj [(''artifact'', artifact_fields x p d), (''command'', result)]), x)))))"

subsection \<open>Read grants\<close>

definition with_fences ::
  "executor_runtime \<Rightarrow> (fence_store \<Rightarrow> (rpc_error + json) \<times> executor_runtime) \<Rightarrow> (rpc_error + json) \<times> executor_runtime" where
  "with_fences x f =
     (case xr_fences x of
        None \<Rightarrow> (Inl (rpc_err ''READ_GRANT_STATE_REQUIRED'' ''executor persistence is required''), x)
      | Some s \<Rightarrow> f s)"

definition keep_fences ::
  "exec_env \<Rightarrow> executor_fences \<Rightarrow> fence_store \<Rightarrow> json \<Rightarrow> executor_runtime \<Rightarrow> (rpc_error + json) \<times> executor_runtime" where
  "keep_fences env table s answer x =
     (let (r, s') = persist_fences (xe_io env 0) (s\<lparr>fst_table := table\<rparr>)
      in (and_then r (\<lambda>_. Inr answer), x\<lparr>xr_fences := Some s'\<rparr>))"

definition read_grant_resolve :: "exec_env \<Rightarrow> json \<Rightarrow> executor_runtime \<Rightarrow> rpc_error + json" where
  "read_grant_resolve env params x =
     and_then (required_str params ''requestedRoot'') (\<lambda>raw.
     and_then (map_err (io_error ''PATH_INVALID'' raw) (os_canonicalize (xe_os env) (xr_files x) (components raw))) (\<lambda>resolved.
     if under_roots (xr_grantable_read_roots x) resolved
     then Inr (JObj [(''realRoot'', jpath resolved), (''requestedRoot'', JStr raw)])
     else Inl (rpc_err ''READ_GRANT_ROOT_NOT_ALLOWED'' (path_display resolved @ '' is not under a grantable read root''))))"

definition read_grant_find :: "exec_env \<Rightarrow> json \<Rightarrow> executor_runtime \<Rightarrow> rpc_error + json" where
  "read_grant_find env params x =
     and_then (required_str params ''workspaceSessionId'') (\<lambda>workspace.
     and_then (required_str params ''capability'') (\<lambda>capability.
     and_then (required_str params ''path'') (\<lambda>raw.
     and_then (map_err (io_error ''PATH_INVALID'' raw) (os_canonicalize (xe_os env) (xr_files x) (components raw))) (\<lambda>checked.
     and_then (ok_or (rpc_err ''READ_GRANT_STATE_REQUIRED'' ''executor persistence is required'') (xr_fences x)) (\<lambda>s.
     Inr (jopt (xe_enc_grant env)
            (find (grant_covers x workspace capability checked) (ef_read_grants (fst_table s)))))))))"

definition executor_grant_approve :: "exec_env \<Rightarrow> json \<Rightarrow> executor_runtime \<Rightarrow> (rpc_error + json) \<times> executor_runtime" where
  "executor_grant_approve env params x =
     sbind (map_err (rpc_err ''INVALID_READ_GRANT'') (xe_dec_grant env params), x) (\<lambda>g x.
     if grant_executor_id g \<noteq> xr_id x \<or> grant_state g \<noteq> GrantApproved
     then (Inl (rpc_err ''INVALID_READ_GRANT'' ''approved grant must target this executor''), x)
     else
     sbind (map_err (rpc_err ''INVALID_READ_GRANT'')
              (os_canonicalize (xe_os env) (xr_files x) (components (grant_real_root g))), x) (\<lambda>real x.
     if \<not> under_roots (xr_grantable_read_roots x) real
     then (Inl (rpc_err ''READ_GRANT_ROOT_NOT_ALLOWED'' ''grant root is outside configured grantable roots''), x)
     else with_fences x (\<lambda>s.
       keep_fences env
         ((fst_table s)\<lparr>ef_read_grants := filter (\<lambda>item. grant_id item \<noteq> grant_id g) (ef_read_grants (fst_table s)) @ [g]\<rparr>)
         s (xe_enc_grant env g) x)))"

definition executor_grant_revoke :: "exec_env \<Rightarrow> json \<Rightarrow> executor_runtime \<Rightarrow> (rpc_error + json) \<times> executor_runtime" where
  "executor_grant_revoke env params x =
     sbind (required_str params ''grantId'', x) (\<lambda>i x.
     with_fences x (\<lambda>s.
       let grants = ef_read_grants (fst_table s) in
       case position (\<lambda>item. grant_id item = i) grants of
         None \<Rightarrow> (Inl (rpc_err ''READ_GRANT_NOT_FOUND'' (''unknown read grant: '' @ i)), x)
       | Some n \<Rightarrow>
           let g = (grants ! n)\<lparr>grant_state := GrantRevoked, grant_revoked_at := Some (xe_clock env 0)\<rparr> in
           keep_fences env ((fst_table s)\<lparr>ef_read_grants := grants[n := g]\<rparr>) s (xe_enc_grant env g) x))"

definition major :: "string \<Rightarrow> string" where
  "major version = takeWhile (\<lambda>c. c \<noteq> CHR ''.'') version"

definition capability_negotiate :: "exec_env \<Rightarrow> json \<Rightarrow> rpc_error + json" where
  "capability_negotiate env params =
     and_then (required_str params ''name'') (\<lambda>name.
     and_then (required_str params ''version'') (\<lambda>requested.
     and_then (ok_or (rpc_err ''CAPABILITY_NOT_FOUND'' (''unknown capability: '' @ name))
                (find (\<lambda>c. cap_name c = name) (capability_catalog (xe_platform env)))) (\<lambda>descriptor.
     if major requested \<noteq> major (cap_version descriptor)
     then Inl (rpc_err ''CAPABILITY_VERSION_UNSUPPORTED''
            (name @ '' requested '' @ requested @ '', executor provides '' @ cap_version descriptor))
     else Inr (JObj [(''contract'', xe_enc_capability env descriptor), (''name'', JStr name),
                (''requestedVersion'', JStr requested), (''selectedVersion'', JStr (cap_version descriptor))]))))"

definition executor_status :: "exec_env \<Rightarrow> executor_runtime \<Rightarrow> json" where
  "executor_status env x =
     (let beside = unwrap_or [] (path_parent (xr_relay_root x)) @ [''computer-use''];
          pool = (\<lambda>p. JObj [(''active'', jnat (pool_active p)), (''maximum'', jnat (pool_maximum p))])
      in JObj [(''allowedRoots'', JArr (map jpath (xr_allowed_roots x))),
          (''applicationRoots'', JArr (map jpath (xr_application_roots x))),
          (''capabilities'', JArr (map (xe_enc_capability env) (capability_catalog (xe_platform env)))),
          (''computerUse'', xe_computer_use env), (''computerUseStateRoot'', jpath beside),
          (''configuredRoots'', jstrs (xr_configured_roots x)),
          (''execution'', JObj [(''control'', JObj [(''bounded'', JBool False)]), (''mutating'', pool (cap_mutating (xr_execution x))),
             (''readonly'', pool (cap_readonly (xr_execution x)))]),
          (''executorId'', JStr (xr_id x)), (''grantableReadRoots'', JArr (map jpath (xr_grantable_read_roots x))),
          (''protocolFeatures'', jstrs [''capability-authority-v2'', ''driver-draining-v1'', ''read-grant-v1'',
             ''acceptance-handoff-v1'', ''desktop-queue-v1'', ''desktop-maintenance-v1'']),
          (''runtimeIdentity'', JObj [(''component'', JStr ''executor''), (''version'', JStr (xe_version env))]),
          (''status'', JStr ''ready''), (''userHome'', jopt JStr (xe_home env))])"

subsection \<open>Dispatch\<close>

definition answer :: "rpc_error + json \<Rightarrow> executor_runtime \<Rightarrow> (rpc_error + json) \<times> executor_runtime" where
  "answer r x = (r, x)"

definition executor_dispatch :: "exec_env \<Rightarrow> string \<Rightarrow> json \<Rightarrow> executor_runtime \<Rightarrow> (rpc_error + json) \<times> executor_runtime" where
  "executor_dispatch env action params x =
    (if action = ''ping'' \<or> action = ''status'' then answer (Inr (executor_status env x)) x
     else if action = ''capability.list''
       then answer (Inr (JArr (map (xe_enc_capability env) (capability_catalog (xe_platform env))))) x
     else if action = ''read-grant.resolve'' then answer (read_grant_resolve env params x) x
     else if action = ''read-grant.find'' then answer (read_grant_find env params x) x
     else if action = ''read-grant.approve'' then executor_grant_approve env params x
     else if action = ''read-grant.revoke'' then executor_grant_revoke env params x
     else if action = ''capability.negotiate'' then answer (capability_negotiate env params) x
     else if action = ''fs.stat'' \<or> action = ''filesystem.stat'' then answer (fs_stat env params x) x
     else if action = ''fs.resolve'' \<or> action = ''filesystem.resolve'' then answer (fs_resolve env params x) x
     else if action = ''fs.read'' \<or> action = ''filesystem.read'' then answer (fs_read env params x) x
     else if action = ''fs.list'' \<or> action = ''filesystem.list'' then answer (fs_list env params x) x
     else if action = ''fs.search'' \<or> action = ''filesystem.search'' then answer (fs_search env params x) x
     else if action = ''fs.write'' \<or> action = ''filesystem.write'' then fs_write env params x
     else if action = ''fs.patch'' \<or> action = ''filesystem.patch'' then fs_patch env params x
     else if action = ''fs.remove'' \<or> action = ''filesystem.remove'' then fs_remove env params x
     else if action = ''fs.restore'' \<or> action = ''filesystem.restore'' then fs_restore env params x
     else if action = ''filesystem.mkdir'' then fs_mkdir env params x
     else if action = ''command.run'' then run_command env params x
     else if action = ''artifact.build'' then artifact_build env params x
     else if action = ''artifact.describe'' then answer (artifact_describe env params x) x
     else if action \<in> set relay_actions then relay_dispatch env action params x
     else let (r, fs) = xe_native env action params (xr_files x) in (r, put_files fs x))"

subsection \<open>Resources and the desktop\<close>

definition requested_resources :: "exec_env \<Rightarrow> string \<Rightarrow> json \<Rightarrow> executor_runtime \<Rightarrow> rpc_error + string list" where
  "requested_resources env action params x =
     (let own = replace_all ''${executorId}'' (xr_id x); render = render_authority_resource (xe_jshow env) in
      and_then
        (case contract_of (xe_platform env) action of
           None \<Rightarrow> Inr []
         | Some terms \<Rightarrow>
             and_then (case cap_authority terms of
                         AuthorityResourceLease resource \<Rightarrow> and_then (render (own resource) params) (\<lambda>r. Inr [r])
                       | _ \<Rightarrow> Inr []) (\<lambda>lease.
             and_then (render_all (xe_jshow env) (map (\<lambda>l. own (lock_key l)) (cap_locks terms)) params) (\<lambda>locks.
             and_then (if canonical_action action = ''command.run'' then command_resources params else Inr []) (\<lambda>more.
             Inr (lease @ locks @ more))))) (\<lambda>resources.
      and_then (if canonical_action action = ''tunnel.ensure''
                then and_then (required_port params ''bindPort'') (\<lambda>p. Inr [''port:'' @ xr_id x @ '':'' @ dec p])
                else Inr []) (\<lambda>port.
      Inr (resources @ port))))"

text \<open>Stages: 0 the resources, 1 the authority, 2 the action, 3 dropping the permit, which happens in any case.\<close>

definition resource_dispatch ::
  "(nat \<Rightarrow> exec_env) \<Rightarrow> string \<Rightarrow> json \<Rightarrow> executor_runtime \<Rightarrow> (rpc_error + json) \<times> executor_runtime" where
  "resource_dispatch e action params x =
     (if starts_with ''resource.lease.'' action then
        (let (r, s) = resources_command (xe_sha (e 0)) (xe_clock (e 0)) (xe_ids (e 0)) (xe_io (e 0) 0) action params (xr_resources x)
         in (r, x\<lparr>xr_resources := s\<rparr>))
      else
      sbind (requested_resources (e 0) action params x, x) (\<lambda>resources x.
        let (begun, s) = resources_begin (xe_sha (e 0)) (xe_clock (e 0)) (xe_io (e 0) 0) resources
                           (unwrap_or [] (get_array params ''_resourceLeases'')) (xr_resources x)
        in sbind (begun, x\<lparr>xr_resources := s\<rparr>) (\<lambda>permit x.
             let (r, x) = sbind (enforce_authority (e 1) action params x) (\<lambda>_ x. executor_dispatch (e 2) action params x)
             in (r, x\<lparr>xr_resources := permit_drop (xe_sha (e 3)) (xe_io (e 3) 0) permit (xr_resources x)\<rparr>))))"

definition on_desktop ::
  "(desktop_store \<Rightarrow> (rpc_error + 'a) \<times> desktop_store) \<Rightarrow> executor_runtime \<Rightarrow> (rpc_error + 'a) \<times> executor_runtime" where
  "on_desktop f x = (let (r, s) = f (xr_desktop x) in (r, x\<lparr>xr_desktop := s\<rparr>))"

definition reconcile :: "exec_env \<Rightarrow> executor_runtime \<Rightarrow> (rpc_error + unit) \<times> executor_runtime" where
  "reconcile env = on_desktop (reconcile_desktop (xe_clock env) (xe_io env) (xe_close env))"

definition desktop_dispatch ::
  "(nat \<Rightarrow> exec_env) \<Rightarrow> string \<Rightarrow> json \<Rightarrow> executor_runtime \<Rightarrow> (rpc_error + json) \<times> executor_runtime" where
  "desktop_dispatch e action params x =
     (if starts_with ''desktop.'' action then
        sbind (reconcile (e 0) x) (\<lambda>_ x.
        sbind (on_desktop (desktop_command (xe_clock (e 1)) (xe_ids (e 1)) (xe_io (e 1)) action params) x) (\<lambda>result x.
        sbind (reconcile (e 2) x) (\<lambda>_ x.
        if action = ''desktop.finish'' \<or> action = ''desktop.cancel''
        then on_desktop (desktop_command (xe_clock (e 3)) (xe_ids (e 3)) (xe_io (e 3)) ''desktop.get'' params) x
        else (Inr result, x))))
      else if \<not> protected action then resource_dispatch (\<lambda>n. e (n + 4)) action params x
      else
        sbind (reconcile (e 0) x) (\<lambda>_ x.
        sbind (on_desktop (desktop_begin (xe_clock (e 1) 0) (xe_io (e 1) 0) action params) x) (\<lambda>params x.
          let (result, x) = (if action = ''computer-use.call'' then executor_dispatch (e 6) action params x
                             else resource_dispatch (\<lambda>n. e (n + 4)) action params x)
          in sbind (on_desktop (desktop_end (xe_io (e 2) 0) (uncertain_result result)) x) (\<lambda>_ x.
             sbind (reconcile (e 3) x) (\<lambda>_ x.
             (result, x))))))"

subsection \<open>Requests\<close>

definition executor_observation :: "exec_env \<Rightarrow> executor_runtime \<Rightarrow> request \<Rightarrow> string \<Rightarrow> string \<Rightarrow> json \<Rightarrow> observation" where
  "executor_observation env x q kind status attributes =
     \<lparr>ob_event_id = 0, ob_run_id = req_run_id q, ob_timestamp = xe_clock env 0, ob_node_id = xr_id x, ob_role = ''executor'',
      ob_kind = kind, ob_name = req_action q, ob_status = status, ob_duration_ms = Some (xe_duration env),
      ob_span_id = req_span_id q, ob_parent_span_id = req_parent_span_id q, ob_request_id = Some (req_request_id q),
      ob_task_id = None, ob_process_id = get_str (req_params q) ''processId'', ob_connection_id = None,
      ob_attributes = attributes\<rparr>"

definition observe_response :: "(nat \<Rightarrow> exec_env) \<Rightarrow> request \<Rightarrow> response \<Rightarrow> executor_runtime \<Rightarrow> executor_runtime" where
  "observe_response e q r x =
     (case xr_observations x of
        None \<Rightarrow> x
      | Some obs \<Rightarrow>
          let outcome = (if resp_ok r then ''completed'' else ''failed'');
              attributes = (case resp_error r of Some er \<Rightarrow> JObj [(''errorCode'', JStr (err_code er))] | None \<Rightarrow> JObj []);
              obs1 = snd (append_observation (executor_observation (e 0) x q ''rpc'' outcome attributes) obs);
              readiness = Option.bind (Option.bind (resp_result r) (\<lambda>v. jget v ''readiness'')) (\<lambda>v. get_str v ''state'');
              obs2 = (if starts_with ''process.'' (req_action q) \<or> req_action q = ''readiness.wait'' then
                        snd (append_observation
                          (executor_observation (e 1) x q
                             (if req_action q = ''readiness.wait'' \<or> readiness \<noteq> None then ''readiness'' else ''process'')
                             (unwrap_or outcome readiness) (JObj [])) obs1)
                      else obs1)
          in x\<lparr>xr_observations := Some obs2\<rparr>)"

text \<open>
  A request from the permit to the observation. The tunnels that are restarted first, and the
  log lines, are outside the model. Stages 0 and 1 are the observations'; the call has the rest.
\<close>

definition executor_handle :: "(nat \<Rightarrow> exec_env) \<Rightarrow> request \<Rightarrow> executor_runtime \<Rightarrow> response \<times> executor_runtime" where
  "executor_handle e q x =
     (let class = execution_class_of (req_action q) (req_params q);
          (result, x) =
            (case capacity_try_acquire class (xr_execution x) of
               Inl er \<Rightarrow> (Inl er, x)
             | Inr taken \<Rightarrow>
                 let (r, x) = desktop_dispatch (\<lambda>n. e (n + 2)) (req_action q) (req_params q) (x\<lparr>xr_execution := taken\<rparr>)
                 in (r, x\<lparr>xr_execution := capacity_drop class (xr_execution x)\<rparr>));
          response = (case result of
                        Inr v \<Rightarrow> response_success (req_request_id q) v
                      | Inl er \<Rightarrow> response_failure (req_request_id q) er)
      in (response, observe_response e q response x))"

end
