(* ===== verification/Controller.thy ===== *)
theory Controller
  imports Controller_Util
begin

section \<open>The Controller: state, persistence, leases and driver handoffs\<close>

text \<open>
  \<^verbatim>\<open>crates/workbench-runtime/src/controller.rs\<close> and the state of
  \<^verbatim>\<open>crates/workbench-core/src/store.rs\<close>. The state is the persisted record, the lease and task
  tables, the observability store, the operator credentials kept in memory, and the contents
  of the state file. What surrounds the program is one record: SHA-256, the JSON text of a
  value, the encoded length of a task, the configured retention bounds, the clock readings and
  random identifiers of the request in order, the outcome of each write of the state file
  (an error text, or nothing), the answer of a remote endpoint to a request (two requests
  differ in their identifiers, so two answers may differ), and the generated conversions.

  The Controller answers one request under the locks it takes; a handler is a function from
  the parameters and the state to the answer and the state it leaves, error returns included.
\<close>

record workbench_state =
  ws_controller_id :: "string option"
  ws_sessions :: "workspace_session list"
  ws_executors :: "executor list"
  ws_controllers :: "controller_peer list"
  ws_leases :: "lease list"
  ws_lease_fences :: "(string, u64) btree_map"
  ws_tasks :: "task list"
  ws_artifacts :: "artifact list"
  ws_generations :: "generation list"
  ws_transactions :: "activation_transaction list"
  ws_agents :: "agent_instance list"
  ws_handoffs :: "handoff list"
  ws_driver_handoff_requests :: "driver_handoff_request list"
  ws_agent_mutations :: "agent_mutation_operation list"
  ws_read_grants :: "read_grant list"
  ws_approvals :: "approval list"

definition workbench_state_default :: workbench_state where
  "workbench_state_default =
     \<lparr>ws_controller_id = None, ws_sessions = [], ws_executors = [], ws_controllers = [], ws_leases = [],
      ws_lease_fences = [], ws_tasks = [], ws_artifacts = [], ws_generations = [], ws_transactions = [],
      ws_agents = [], ws_handoffs = [], ws_driver_handoff_requests = [], ws_agent_mutations = [],
      ws_read_grants = [], ws_approvals = []\<rparr>"

text \<open>The trace of the request being handled, kept per thread.\<close>

record trace_context =
  trace_correlation_id :: string
  trace_request_id :: string
  trace_run_id :: "string option"
  trace_span_id :: "string option"
  trace_agent_session_id :: "string option"

record operator_grant =
  og_operator_id :: string
  og_token_digest :: string
  og_expires_at :: u64

record operator_nonce =
  on_operator_id :: string
  on_action :: string
  on_target :: string
  on_reason :: string
  on_expires_at :: u64

text \<open>
  The hash maps of the source are kept in key order; no operation depends on theirs. The last
  fields before the file are those of asynchronous tasks: how many are active, the token each
  worker resumes its task with, and the workers started that have not finished (a task and the
  request the worker sends).
\<close>

record controller =
  ctl_id :: string
  ctl_state :: workbench_state
  ctl_leases :: lease_table
  ctl_tasks :: task_table
  ctl_observations :: observability_store
  ctl_operator_grants :: "(string, operator_grant) btree_map"
  ctl_operator_nonces :: "(string, operator_nonce) btree_map"
  ctl_async_active :: nat
  ctl_resume_tokens :: "(string, string) btree_map"
  ctl_workers :: "(string \<times> request) list"
  ctl_disk :: "workbench_state option"

text \<open>
  The conversions between JSON and the records, generated from the type declarations: decoders
  that give the error's text on the left, and encoders; and the texts of a database
  error and of a floating point number.
\<close>

record codecs =
  dec_session :: "json \<Rightarrow> string + workspace_session"
  enc_session :: "workspace_session \<Rightarrow> json"
  dec_session_state :: "json \<Rightarrow> string + session_state"
  dec_artifact :: "json \<Rightarrow> string + artifact"
  enc_artifact :: "artifact \<Rightarrow> json"
  dec_generation :: "json \<Rightarrow> string + generation"
  enc_generation :: "generation \<Rightarrow> json"
  dec_agent :: "json \<Rightarrow> string + agent_instance"
  enc_agent :: "agent_instance \<Rightarrow> json"
  dec_agent_state :: "json \<Rightarrow> string + agent_state"
  dec_executor :: "json \<Rightarrow> string + executor"
  enc_executor :: "executor \<Rightarrow> json"
  dec_endpoint :: "json \<Rightarrow> string + executor_endpoint"
  dec_capabilities :: "json \<Rightarrow> string + capability_descriptor list"
  dec_strings :: "json \<Rightarrow> string + string list"
  dec_lease :: "json \<Rightarrow> string + lease"
  enc_peer :: "controller_peer \<Rightarrow> json"
  enc_approval :: "approval \<Rightarrow> json"
  dec_grant :: "json \<Rightarrow> string + read_grant"
  enc_grant :: "read_grant \<Rightarrow> json"
  enc_transaction :: "activation_transaction \<Rightarrow> json"
  dec_step_state :: "json \<Rightarrow> string + transaction_step_state"
  dec_handoff :: "json \<Rightarrow> string + handoff"
  enc_handoff :: "handoff \<Rightarrow> json"
  enc_task :: "task \<Rightarrow> json"
  dec_task_state :: "json \<Rightarrow> string + task_state"
  dec_run :: "json \<Rightarrow> string + run"
  enc_run :: "run \<Rightarrow> json"
  dec_run_status :: "json \<Rightarrow> string + run_status"
  dec_observation :: "json \<Rightarrow> string + observation"
  enc_observation :: "observation \<Rightarrow> json"
  enc_rpc_error :: "rpc_error \<Rightarrow> json"
  enc_task_event :: "task_event \<Rightarrow> json"
  sql_error_text :: string
  float_text :: "int \<times> int \<Rightarrow> string"

record environment =
  env_sha :: "string \<Rightarrow> string"
  env_jshow :: "json \<Rightarrow> string"
  env_enc_len :: "task \<Rightarrow> nat"
  env_retention_ms :: u64
  env_max_count :: nat
  env_max_bytes :: nat
  env_async_maximum :: nat
  env_clock :: clock
  env_ids :: uuids
  env_io :: "nat \<Rightarrow> string option"
  env_trace :: "trace_context option"
  env_call :: "executor_endpoint \<Rightarrow> request \<Rightarrow> string + response"
  env_codec :: codecs

subsection \<open>Persistence\<close>

definition compact_error :: "task_error \<Rightarrow> bool \<times> task_error" where
  "compact_error e = (let (c, d) = compact_value (terr_details e) in (c, e\<lparr>terr_details := d\<rparr>))"

definition compact_option :: "('a \<Rightarrow> bool \<times> 'a) \<Rightarrow> 'a option \<Rightarrow> bool \<times> 'a option" where
  "compact_option f x = (case x of None \<Rightarrow> (False, None) | Some a \<Rightarrow> let (c, b) = f a in (c, Some b))"

definition compact_list :: "('a \<Rightarrow> bool \<times> 'a) \<Rightarrow> 'a list \<Rightarrow> bool \<times> 'a list" where
  "compact_list f xs = (list_ex (\<lambda>x. fst (f x)) xs, map (\<lambda>x. snd (f x)) xs)"

definition compact_task :: "task \<Rightarrow> bool \<times> task" where
  "compact_task t =
     (let (c1, i) = compact_value (task_input t);
          (c2, out) = compact_option compact_value (task_output t);
          (c3, err) = compact_option compact_error (task_error t)
      in (c1 \<or> c2 \<or> c3, t\<lparr>task_input := i, task_output := out, task_error := err\<rparr>))"

definition compact_entry :: "transaction_journal_entry \<Rightarrow> bool \<times> transaction_journal_entry" where
  "compact_entry e = (let (c, d) = compact_value (je_details e) in (c, e\<lparr>je_details := d\<rparr>))"

definition compact_transaction :: "activation_transaction \<Rightarrow> bool \<times> activation_transaction" where
  "compact_transaction t =
     (let (c1, j) = compact_list compact_entry (tx_journal t);
          (c2, err) = compact_option compact_error (tx_error t)
      in (c1 \<or> c2, t\<lparr>tx_journal := j, tx_error := err\<rparr>))"

definition compact_evidence :: "evidence_result \<Rightarrow> bool \<times> evidence_result" where
  "compact_evidence e = (let (c, d) = compact_value (evidence_details e) in (c, e\<lparr>evidence_details := d\<rparr>))"

definition compact_generation :: "generation \<Rightarrow> bool \<times> generation" where
  "compact_generation g =
     (let (c1, a) = compact_option compact_evidence (gen_validation g);
          (c2, b) = compact_option compact_evidence (gen_finalization g);
          (c3, d) = compact_option compact_evidence (gen_smoke g);
          (c4, err) = compact_option compact_error (gen_failure g)
      in (c1 \<or> c2 \<or> c3 \<or> c4, g\<lparr>gen_validation := a, gen_finalization := b, gen_smoke := d, gen_failure := err\<rparr>))"

definition compact_handoff :: "handoff \<Rightarrow> bool \<times> handoff" where
  "compact_handoff h = (let (c, ev) = compact_list compact_value (handoff_evidence h) in (c, h\<lparr>handoff_evidence := ev\<rparr>))"

definition compact_agent :: "agent_instance \<Rightarrow> bool \<times> agent_instance" where
  "compact_agent a = (let (c, m) = compact_value (agent_metadata a) in (c, a\<lparr>agent_metadata := m\<rparr>))"

definition compact_persisted_evidence ::
  "(string \<Rightarrow> string) \<Rightarrow> (json \<Rightarrow> string) \<Rightarrow> workbench_state \<Rightarrow> bool \<times> workbench_state" where
  "compact_persisted_evidence sha jshow st =
     (let (c0, tasks0) = compact_task_outputs sha jshow (ws_tasks st);
          (c1, tasks) = compact_list compact_task tasks0;
          (c2, transactions) = compact_list compact_transaction (ws_transactions st);
          (c3, generations) = compact_list compact_generation (ws_generations st);
          (c4, handoffs) = compact_list compact_handoff (ws_handoffs st);
          (c5, agents) = compact_list compact_agent (ws_agents st)
      in (c0 \<or> c1 \<or> c2 \<or> c3 \<or> c4 \<or> c5,
          st\<lparr>ws_tasks := tasks, ws_transactions := transactions, ws_generations := generations,
             ws_handoffs := handoffs, ws_agents := agents\<rparr>))"

text \<open>
  \<^verbatim>\<open>persist\<close>: take the tables into the state (pruning the tasks at the clock reading \<open>now\<close>)
  and write the file; \<open>io\<close> is the outcome of the write.
\<close>

definition persist :: "environment \<Rightarrow> u64 \<Rightarrow> string option \<Rightarrow> controller \<Rightarrow> (rpc_error + unit) \<times> controller" where
  "persist env now io c =
     (let tasks = snd (prune_task_retention (env_enc_len env) now (env_retention_ms env)
                         (env_max_count env) (env_max_bytes env) (ctl_tasks c));
          st = (ctl_state c)
            \<lparr>ws_leases := lease_persistence_snapshot (env_sha env) (ctl_leases c),
             ws_lease_fences := fence_snapshot (ctl_leases c),
             ws_tasks := snd (compact_task_outputs (env_sha env) (env_jshow env) (task_persistence_snapshot tasks))\<rparr>;
          c' = c\<lparr>ctl_state := st, ctl_tasks := tasks\<rparr>
      in case io of
           Some e \<Rightarrow> (Inl (rpc_err ''STATE_WRITE_FAILED'' e), c')
         | None \<Rightarrow> (Inr (), c'\<lparr>ctl_disk := Some st\<rparr>))"

datatype store_error =
    StoreIo string
  | StoreJson string
  | ControllerIdentityMismatch string string
  | StoreObservability string

definition adopt_session :: "string \<Rightarrow> workspace_session \<Rightarrow> workspace_session" where
  "adopt_session i s =
     (if session_authority s = None
      then s\<lparr>session_authority := Some \<lparr>authority_controller_id = i, authority_epoch = 1,
                                      authority_pending_controller_id = None\<rparr>\<rparr>
      else s)"

text \<open>
  Opening: what reading the file gave (nothing when there is none), the observability store as
  opened, and the identifier of the configuration. Readings: pruning the observations 0,
  reaping 1, pruning the tasks 2, recovery of orphans from 3 on; the write is write 0.
\<close>

definition open_rest ::
  "environment \<Rightarrow> workbench_state option \<Rightarrow> workbench_state \<Rightarrow> observability_store \<Rightarrow> string
    \<Rightarrow> store_error + controller" where
  "open_rest env file st0 obs i =
     (let identity_changed = (ws_controller_id st0 \<noteq> Some i)
            \<or> list_ex (\<lambda>s. session_authority s = None) (ws_sessions st0);
          st1 = st0\<lparr>ws_controller_id := Some i, ws_sessions := map (adopt_session i) (ws_sessions st0)\<rparr>;
          (compacted, st2) = compact_persisted_evidence (env_sha env) (env_jshow env) st1;
          (reaped, leases) = reap_expired (env_clock env 1) (from_snapshot (ws_leases st2) (ws_lease_fences st2));
          (recovered, tasks0) = recover_orphans (\<lambda>n. env_clock env (n + 3)) (from_tasks (ws_tasks st2));
          (pruned, tasks) = prune_task_retention (env_enc_len env) (env_clock env 2) (env_retention_ms env)
                              (env_max_count env) (env_max_bytes env) tasks0;
          opened = \<lparr>ctl_id = i, ctl_state = st2, ctl_leases = leases, ctl_tasks = tasks, ctl_observations = obs,
                    ctl_operator_grants = [], ctl_operator_nonces = [], ctl_async_active = 0, ctl_resume_tokens = [],
                    ctl_workers = [], ctl_disk = file\<rparr>
      in if identity_changed \<or> compacted \<or> reaped \<noteq> [] \<or> recovered \<noteq> [] \<or> pruned \<noteq> [] then
           let st3 = st2\<lparr>ws_leases := lease_persistence_snapshot (env_sha env) leases,
                         ws_lease_fences := fence_snapshot leases,
                         ws_tasks := task_persistence_snapshot tasks\<rparr>
           in (case env_io env 0 of
                 Some e \<Rightarrow> Inl (StoreIo e)
               | None \<Rightarrow> Inr (opened\<lparr>ctl_state := st3, ctl_disk := Some st3\<rparr>))
         else Inr opened)"

definition open_with_id ::
  "environment \<Rightarrow> (nat \<Rightarrow> u64) \<Rightarrow> store_error + workbench_state option
    \<Rightarrow> store_error + observability_store \<Rightarrow> string option \<Rightarrow> store_error + controller" where
  "open_with_id env sz load obs_open configured_id =
     and_then load (\<lambda>file.
     and_then obs_open (\<lambda>obs0.
       let st0 = unwrap_or workbench_state_default file;
           obs = snd (prune_observations sz (env_clock env 0) obs0)
       in case (ws_controller_id st0, configured_id) of
            (Some stored, Some configured) \<Rightarrow>
              if stored \<noteq> configured then Inl (ControllerIdentityMismatch stored configured)
              else open_rest env file st0 obs configured
          | (None, Some configured) \<Rightarrow> open_rest env file st0 obs configured
          | (Some stored, None) \<Rightarrow> open_rest env file st0 obs stored
          | (None, None) \<Rightarrow> open_rest env file st0 obs (''controller_'' @ env_ids env 0)))"

end
