(* ===== verification/Driver.thy ===== *)
theory Driver
  imports Controller
begin

section \<open>Drivers, leases and driver handoffs\<close>

text \<open>
  The part of the request dispatcher of \<^verbatim>\<open>crates/workbench-runtime/src/controller.rs\<close> that
  decides who may write to a workspace: the routing every request goes through, the
  \<^verbatim>\<open>driver.*\<close> and \<^verbatim>\<open>lease.*\<close> handlers, the requests for a driver handoff and the agent
  mutations a handoff waits for. A handler takes the parameters and the state and gives the
  answer and the state it leaves, also where it returns early. The readings of the clock and
  the writes of a request have fixed positions, in the order the code takes them. The handlers
  of the other action groups are the argument \<open>rest\<close>.

  Shown: every handler is a sequence of steps of the lease table, so fencing holds along runs
  of the whole Controller; a restart keeps what was persisted; a handoff that is awaited moves
  the authority and revokes the old driver; a draining driver starts no new mutation; a
  request whose old driver released first can be neither taken nor cancelled.
\<close>

subsection \<open>Calls to other processes\<close>

definition traced_request :: "environment \<Rightarrow> string \<Rightarrow> json \<Rightarrow> request" where
  "traced_request env action params =
     (let r = request_new (env_ids env 0) action params in
      case env_trace env of
        None \<Rightarrow> r
      | Some trace \<Rightarrow> r\<lparr>req_correlation_id := Some (trace_correlation_id trace),
                        req_parent_request_id := Some (trace_request_id trace),
                        req_run_id := trace_run_id trace, req_parent_span_id := trace_span_id trace,
                        req_agent_session_id := trace_agent_session_id trace\<rparr>)"

definition response_value :: "rpc_error \<Rightarrow> response \<Rightarrow> rpc_error + json" where
  "response_value default_error r =
     (if resp_ok r then Inr (unwrap_or JNull (resp_result r))
      else Inl (unwrap_or default_error (resp_error r)))"

definition find_executor :: "controller \<Rightarrow> string \<Rightarrow> executor option" where
  "find_executor c i = find (\<lambda>e. metadata_id (executor_metadata e) = i) (ws_executors (ctl_state c))"

definition call_registered_executor ::
  "environment \<Rightarrow> string \<Rightarrow> string \<Rightarrow> json \<Rightarrow> controller \<Rightarrow> rpc_error + json" where
  "call_registered_executor env i action params c =
     (case find_executor c i of
        None \<Rightarrow> Inl (rpc_err ''EXECUTOR_NOT_FOUND'' (''unknown executor: '' @ i))
      | Some e \<Rightarrow>
          (case env_call env (executor_endpoint e) (traced_request env action params) of
             Inl m \<Rightarrow> Inl ((rpc_err ''EXECUTOR_UNAVAILABLE'' m)\<lparr>err_retryable := True\<rparr>)
           | Inr r \<Rightarrow> response_value (rpc_err ''EXECUTOR_FAILED'' ''executor failed'') r))"

definition resource_owner :: "environment \<Rightarrow> controller \<Rightarrow> string \<Rightarrow> string" where
  "resource_owner env c owner = env_jshow env (JArr [JStr (ctl_id c), JStr owner])"

text \<open>\<^verbatim>\<open>max_by_key\<close>: the last of the elements with the greatest key.\<close>

fun max_by_key :: "('a \<Rightarrow> 'b::linorder) \<Rightarrow> 'a list \<Rightarrow> 'a option" where
  "max_by_key f [] = None"
| "max_by_key f (x # xs) =
     (case max_by_key f xs of None \<Rightarrow> Some x | Some y \<Rightarrow> if f x \<le> f y then Some y else Some x)"

definition executor_resource_kinds :: "string list" where
  "executor_resource_kinds = [''tunnel'', ''runtime'', ''acceptance'', ''clipboard'', ''port'']"

definition names_executor :: "string \<Rightarrow> string \<Rightarrow> bool" where
  "names_executor tail i =
     (tail = i \<or> (case strip_prefix i tail of None \<Rightarrow> False | Some s \<Rightarrow> starts_with '':'' s))"

definition resource_executor :: "controller \<Rightarrow> json \<Rightarrow> string option" where
  "resource_executor c params =
     (case get_str params ''executorId'' of
        Some i \<Rightarrow> Some i
      | None \<Rightarrow>
          Option.bind (get_str params ''resource'') (\<lambda>resource.
          Option.bind (split_once CHR '':'' resource) (\<lambda>(kind, tail).
            if kind \<notin> set executor_resource_kinds then None
            else map_option (\<lambda>e. metadata_id (executor_metadata e))
                   (max_by_key (\<lambda>e. length (metadata_id (executor_metadata e)))
                     (filter (\<lambda>e. names_executor tail (metadata_id (executor_metadata e)))
                       (ws_executors (ctl_state c)))))))"

definition jpointer :: "json \<Rightarrow> string list \<Rightarrow> json option" where
  "jpointer v ks = fold (\<lambda>k v. Option.bind v (\<lambda>x. jget x k)) ks (Some v)"

definition or_else :: "'a option \<Rightarrow> 'a option \<Rightarrow> 'a option" where
  "or_else x y = (case x of None \<Rightarrow> y | Some a \<Rightarrow> Some a)"

definition session_of_entity :: "controller \<Rightarrow> string \<Rightarrow> json \<Rightarrow> string option" where
  "session_of_entity c action params =
     (if starts_with ''agent.'' action then
        Option.bind (get_str params ''agentId'') (\<lambda>i.
          map_option agent_workspace_session_id (find (\<lambda>a. agent_id a = i) (ws_agents (ctl_state c))))
      else if starts_with ''task.'' action then
        Option.bind (get_str params ''taskId'') (\<lambda>i.
          map_option task_workspace_session_id (find (\<lambda>t. task_id t = i) (ws_tasks (ctl_state c))))
      else if starts_with ''transaction.'' action then
        Option.bind (get_str params ''transactionId'') (\<lambda>i.
          map_option tx_workspace_session_id (find (\<lambda>t. tx_id t = i) (ws_transactions (ctl_state c))))
      else if starts_with ''handoff.'' action then
        Option.bind (get_str params ''handoffId'') (\<lambda>i.
          map_option handoff_workspace_session_id (find (\<lambda>h. handoff_id h = i) (ws_handoffs (ctl_state c))))
      else None)"

definition session_id_for_action :: "controller \<Rightarrow> string \<Rightarrow> json \<Rightarrow> string option" where
  "session_id_for_action c action params =
     (let given = Option.bind (or_else (jget params ''workspaceSessionId'') (jget params ''sessionId'')) as_str;
          put = if action = ''session.put'' then Option.bind (jpointer params [''metadata'', ''id'']) as_str else None;
          accepted = if action = ''session.accept-handoff''
                     then Option.bind (jpointer params [''session'', ''metadata'', ''id'']) as_str else None;
          artifact = if action = ''artifact.put''
                     then Option.bind (jpointer params [''provenance'', ''workspaceSessionId'']) as_str else None;
          workspace = if starts_with ''driver.'' action \<or> starts_with ''lease.'' action
                      then Option.bind (get_str params ''resource'') (strip_prefix ''workspace:'') else None
      in or_else given (or_else put (or_else accepted (or_else artifact (or_else workspace
           (session_of_entity c action params))))))"

definition requires_session_gate :: "string \<Rightarrow> bool" where
  "requires_session_gate action =
     (action \<notin> set [''capability.invoke'', ''status'', ''doctor'', ''task.get'', ''task.list'', ''task.events'',
        ''task.wait'', ''task.cancel'', ''task.retry'', ''driver.status'', ''driver.renew'', ''lease.status'',
        ''lease.renew''])"

definition route_session_action ::
  "environment \<Rightarrow> string \<Rightarrow> json \<Rightarrow> controller \<Rightarrow> rpc_error + json option" where
  "route_session_action env action params c =
     (if action = ''session.put'' \<or> action = ''session.accept-handoff'' then Inr None
      else case session_id_for_action c action params of
        None \<Rightarrow> Inr None
      | Some session_id \<Rightarrow>
          let authority_id = unwrap_or (ctl_id c) (get_str params ''sessionControllerId'') in
          if authority_id = ctl_id c then
            (case Option.bind (find (\<lambda>s. metadata_id (session_metadata s) = session_id) (ws_sessions (ctl_state c)))
                    session_authority of
               Some authority \<Rightarrow>
                 if authority_controller_id authority \<noteq> ctl_id c
                 then Inl (rpc_err ''SESSION_REMOTE_REFERENCE_REQUIRED''
                   (''legacy session '' @ session_id @ '' belongs to '' @ authority_controller_id authority
                    @ ''; specify sessionControllerId explicitly or create a new local session''))
                 else Inr None
             | None \<Rightarrow> Inr None)
          else
            (case find (\<lambda>p. metadata_id (peer_metadata p) = authority_id) (ws_controllers (ctl_state c)) of
               None \<Rightarrow> Inl (rpc_err ''SESSION_AUTHORITY_UNAVAILABLE''
                        (''home controller '' @ authority_id @ '' is not registered''))
             | Some p \<Rightarrow>
                 (case env_call env (peer_endpoint p) (traced_request env action params) of
                    Inl m \<Rightarrow> Inl (rpc_err ''SESSION_AUTHORITY_UNAVAILABLE'' m)
                  | Inr r \<Rightarrow> and_then
                      (response_value (rpc_err ''SESSION_AUTHORITY_FAILED'' ''home controller rejected request'') r)
                      (\<lambda>v. Inr (Some v)))))"

subsection \<open>Serialized handoff requests and mutations\<close>

fun driver_handoff_state_name :: "driver_handoff_state \<Rightarrow> string" where
  "driver_handoff_state_name DhRequested = ''requested''"
| "driver_handoff_state_name DhDraining = ''draining''"
| "driver_handoff_state_name DhReady = ''ready''"
| "driver_handoff_state_name DhCompleted = ''completed''"
| "driver_handoff_state_name DhCancelled = ''cancelled''"
| "driver_handoff_state_name DhExpired = ''expired''"

definition driver_handoff_json :: "driver_handoff_request \<Rightarrow> json" where
  "driver_handoff_json q =
     JObj [(''completedAt'', jopt junum (dh_completed_at q)), (''createdAt'', junum (dh_created_at q)),
           (''expiresAt'', junum (dh_expires_at q)), (''id'', JStr (dh_id q)),
           (''previousOwner'', jopt JStr (dh_previous_owner q)), (''requestedBy'', JStr (dh_requested_by q)),
           (''resource'', JStr (dh_resource q)), (''state'', JStr (driver_handoff_state_name (dh_state q))),
           (''workspaceSessionId'', JStr (dh_workspace_session_id q))]"

definition agent_mutation_json :: "agent_mutation_operation \<Rightarrow> json" where
  "agent_mutation_json m =
     JObj [(''agentId'', JStr (mutation_agent_id m)), (''id'', JStr (mutation_id m)),
           (''startedAt'', junum (mutation_started_at m)), (''tool'', JStr (mutation_tool m)),
           (''workspaceSessionId'', JStr (mutation_workspace_session_id m))]"

subsection \<open>Draining\<close>

fun dh_active :: "driver_handoff_state \<Rightarrow> bool" where
  "dh_active DhRequested = True"
| "dh_active DhDraining = True"
| "dh_active DhReady = True"
| "dh_active _ = False"

definition workspace_is_draining :: "u64 \<Rightarrow> controller \<Rightarrow> string \<Rightarrow> string \<Rightarrow> bool" where
  "workspace_is_draining now c workspace owner =
     list_ex (\<lambda>q. dh_workspace_session_id q = workspace \<and> dh_previous_owner q = Some owner
                  \<and> now < dh_expires_at q \<and> dh_active (dh_state q))
       (ws_driver_handoff_requests (ctl_state c))"

definition task_busy :: "controller \<Rightarrow> string \<Rightarrow> bool" where
  "task_busy c workspace =
     list_ex (\<lambda>t. task_workspace_session_id t = workspace \<and> task_state t \<in> set [Queued, Running, Cancelling])
       (task_snapshot (ctl_tasks c))"

definition workspace_busy :: "controller \<Rightarrow> string \<Rightarrow> bool" where
  "workspace_busy c workspace =
     (task_busy c workspace \<or>
      list_ex (\<lambda>m. mutation_workspace_session_id m = workspace) (ws_agent_mutations (ctl_state c)))"

text \<open>One round of the loop of \<^verbatim>\<open>refresh_driver_handoff\<close>; \<open>cancel_now\<close> is the reading of a cancellation.\<close>

definition refresh_request ::
  "u64 \<Rightarrow> u64 \<Rightarrow> bool \<Rightarrow> string \<Rightarrow> driver_handoff_request \<Rightarrow> lease_table
    \<Rightarrow> (bool \<times> driver_handoff_request) \<times> lease_table" where
  "refresh_request cancel_now now busy workspace q t =
     (if dh_workspace_session_id q = workspace \<and> dh_active (dh_state q) then
        if dh_expires_at q \<le> now then
          ((True, q\<lparr>dh_state := DhExpired\<rparr>),
           if dh_previous_owner q \<noteq> None
           then snd (cancel_handoff cancel_now (dh_resource q) (dh_requested_by q) t) else t)
        else if \<not> busy \<and> dh_state q \<noteq> DhReady then ((True, q\<lparr>dh_state := DhReady\<rparr>), t)
        else ((False, q), t)
      else ((False, q), t))"

fun refresh_requests ::
  "clock \<Rightarrow> u64 \<Rightarrow> bool \<Rightarrow> string \<Rightarrow> driver_handoff_request list \<Rightarrow> lease_table
    \<Rightarrow> (bool \<times> driver_handoff_request list) \<times> lease_table" where
  "refresh_requests clk now busy workspace [] t = ((False, []), t)"
| "refresh_requests clk now busy workspace (q # qs) t =
     (let ((changed, q'), t1) = refresh_request (clk 0) now busy workspace q t;
          ((more, qs'), t2) = refresh_requests (\<lambda>n. clk (Suc n)) now busy workspace qs t1
      in ((changed \<or> more, q' # qs'), t2))"

definition refreshed :: "environment \<Rightarrow> string \<Rightarrow> controller \<Rightarrow> bool \<times> controller" where
  "refreshed env workspace c =
     (let ((changed, qs), t) = refresh_requests (\<lambda>n. env_clock env (n + 2)) (env_clock env 0)
            (workspace_busy c workspace) workspace (ws_driver_handoff_requests (ctl_state c)) (ctl_leases c)
      in (changed, c\<lparr>ctl_state := (ctl_state c)\<lparr>ws_driver_handoff_requests := qs\<rparr>, ctl_leases := t\<rparr>))"

text \<open>
  Readings: \<open>now\<close> 0, the write 1, cancellations from 2 on. What follows the refresh reads the
  clock and writes through the environment \<open>after_refresh\<close>.
\<close>

definition refresh_driver_handoff :: "environment \<Rightarrow> string \<Rightarrow> controller \<Rightarrow> (rpc_error + unit) \<times> controller" where
  "refresh_driver_handoff env workspace c =
     (let (changed, c1) = refreshed env workspace c
      in if changed then persist env (env_clock env 1) (env_io env 0) c1 else (Inr (), c1))"

definition skip :: "nat \<Rightarrow> nat \<Rightarrow> environment \<Rightarrow> environment" where
  "skip readings writes env =
     env\<lparr>env_clock := (\<lambda>n. env_clock env (n + readings)), env_io := (\<lambda>n. env_io env (n + writes))\<rparr>"

definition after_refresh :: "controller \<Rightarrow> environment \<Rightarrow> environment" where
  "after_refresh c env = skip (2 + length (ws_driver_handoff_requests (ctl_state c))) 1 env"

subsection \<open>Handlers\<close>

definition ttl_param :: "json \<Rightarrow> u64" where
  "ttl_param params = unwrap_or 300000 (get_u64 params ''ttlMs'')"

definition lease_op ::
  "(lease_table \<Rightarrow> (lease_error + lease) \<times> lease_table) \<Rightarrow> controller \<Rightarrow> (rpc_error + lease) \<times> controller" where
  "lease_op f c = (let (r, t) = f (ctl_leases c) in (map_err map_lease_error r, c\<lparr>ctl_leases := t\<rparr>))"

definition persist_lease :: "environment \<Rightarrow> u64 \<Rightarrow> lease \<Rightarrow> controller \<Rightarrow> (rpc_error + json) \<times> controller" where
  "persist_lease env now l c = sbind (persist env now (env_io env 0) c) (\<lambda>_ c. (Inr (lease_json l), c))"

definition lease_status :: "json \<Rightarrow> controller \<Rightarrow> (rpc_error + json) \<times> controller" where
  "lease_status params c =
     sbind (required_str params ''resource'', c) (\<lambda>resource c.
       (Inr (jopt lease_json (lease_get (ctl_leases c) resource)), c))"

definition driver_handoff_status :: "environment \<Rightarrow> json \<Rightarrow> controller \<Rightarrow> (rpc_error + json) \<times> controller" where
  "driver_handoff_status env params c =
     sbind (required_str params ''workspaceSessionId'', c) (\<lambda>workspace c.
     sbind (refresh_driver_handoff env workspace c) (\<lambda>_ c.
       (Inr (jopt driver_handoff_json (max_by_key dh_created_at
               (filter (\<lambda>q. dh_workspace_session_id q = workspace) (ws_driver_handoff_requests (ctl_state c))))), c)))"

definition add_mutation :: "agent_mutation_operation \<Rightarrow> controller \<Rightarrow> controller" where
  "add_mutation m c =
     (if list_ex (\<lambda>x. mutation_id x = mutation_id m) (ws_agent_mutations (ctl_state c)) then c
      else c\<lparr>ctl_state := (ctl_state c)\<lparr>ws_agent_mutations := ws_agent_mutations (ctl_state c) @ [m]\<rparr>\<rparr>)"

text \<open>Readings: the draining check 0, the start time 1, the write 2.\<close>

definition agent_mutation_start :: "environment \<Rightarrow> json \<Rightarrow> controller \<Rightarrow> (rpc_error + json) \<times> controller" where
  "agent_mutation_start env params c =
     sbind (required_str params ''workspaceSessionId'', c) (\<lambda>workspace c.
     sbind (required_str params ''agentId'', c) (\<lambda>agent c.
       if workspace_is_draining (env_clock env 0) c workspace agent
       then (Inl (rpc_err ''DRIVER_DRAINING'' ''workspace driver is draining; mutation hook rejected new write''), c)
       else
         sbind (required_str params ''operationId'', c) (\<lambda>i c.
         sbind (required_str params ''tool'', c) (\<lambda>tool c.
           let m = \<lparr>mutation_id = i, mutation_workspace_session_id = workspace, mutation_agent_id = agent,
                    mutation_tool = tool, mutation_started_at = env_clock env 1\<rparr>
           in sbind (persist env (env_clock env 2) (env_io env 0) (add_mutation m c)) (\<lambda>_ c.
                (Inr (agent_mutation_json m), c))))))"

definition remove_mutation :: "string \<Rightarrow> controller \<Rightarrow> controller" where
  "remove_mutation i c =
     c\<lparr>ctl_state := (ctl_state c)\<lparr>ws_agent_mutations := filter (\<lambda>x. mutation_id x \<noteq> i) (ws_agent_mutations (ctl_state c))\<rparr>\<rparr>"

definition agent_mutation_finish :: "environment \<Rightarrow> json \<Rightarrow> controller \<Rightarrow> (rpc_error + json) \<times> controller" where
  "agent_mutation_finish env params c =
     sbind (required_str params ''operationId'', c) (\<lambda>i c.
     sbind (required_str params ''workspaceSessionId'', c) (\<lambda>workspace c.
     sbind (refresh_driver_handoff env workspace (remove_mutation i c)) (\<lambda>_ c.
       let env' = after_refresh c env in
       sbind (persist env' (env_clock env' 0) (env_io env' 0) c) (\<lambda>_ c.
         (Inr (JObj [(''finished'', JBool True), (''operationId'', JStr i)]), c)))))"

definition push_handoff_request :: "driver_handoff_request \<Rightarrow> controller \<Rightarrow> controller" where
  "push_handoff_request q c =
     c\<lparr>ctl_state := (ctl_state c)\<lparr>ws_driver_handoff_requests := ws_driver_handoff_requests (ctl_state c) @ [q]\<rparr>\<rparr>"

text \<open>Readings: \<open>now\<close> 0, the marking of the lease 1 and 2, then the refresh and the write.\<close>

definition request_driver_handoff ::
  "environment \<Rightarrow> json \<Rightarrow> controller \<Rightarrow> (rpc_error + json) \<times> controller" where
  "request_driver_handoff env params c =
     sbind (required_str params ''workspaceSessionId'', c) (\<lambda>workspace c.
     sbind (required_str params ''owner'', c) (\<lambda>requester c.
       let resource = ''workspace:'' @ workspace;
           now = env_clock env 0;
           existing = lease_get (ctl_leases c) resource;
           q = \<lparr>dh_id = ''driver_handoff_'' @ env_ids env 0, dh_workspace_session_id = workspace,
                dh_resource = resource, dh_requested_by = requester,
                dh_previous_owner = map_option lease_owner existing,
                dh_state = (if existing \<noteq> None then DhDraining else DhReady), dh_created_at = now,
                dh_expires_at = sat_add now (ttl_param params), dh_completed_at = None\<rparr>;
           env1 = skip 3 0 env
       in if map_option lease_owner existing = Some requester
          then (Inl (rpc_err ''ALREADY_DRIVER'' ''requester already owns workspace driver''), c)
          else
            sbind (case existing of
                     None \<Rightarrow> (Inr (), c)
                   | Some _ \<Rightarrow>
                       sbind (lease_op (request_handoff (\<lambda>n. env_clock env (n + 1)) resource requester) c)
                         (\<lambda>_ c. (Inr (), c))) (\<lambda>_ c.
            sbind (refresh_driver_handoff env1 workspace (push_handoff_request q c)) (\<lambda>_ c.
            let env2 = after_refresh c env1 in
            sbind (persist env2 (env_clock env2 0) (env_io env2 0) c) (\<lambda>_ c.
              (Inr (driver_handoff_json q), c))))))"

text \<open>The last request of a list that satisfies a predicate, and its update in place.\<close>

definition find_last :: "('a \<Rightarrow> bool) \<Rightarrow> 'a list \<Rightarrow> 'a option" where
  "find_last P xs = find P (rev xs)"

fun update_first :: "('a \<Rightarrow> bool) \<Rightarrow> ('a \<Rightarrow> 'a) \<Rightarrow> 'a list \<Rightarrow> 'a list" where
  "update_first P f [] = []"
| "update_first P f (x # xs) = (if P x then f x # xs else x # update_first P f xs)"

definition update_last :: "('a \<Rightarrow> bool) \<Rightarrow> ('a \<Rightarrow> 'a) \<Rightarrow> 'a list \<Rightarrow> 'a list" where
  "update_last P f xs = rev (update_first P f (rev xs))"

definition update_handoff_request ::
  "(driver_handoff_request \<Rightarrow> bool) \<Rightarrow> (driver_handoff_request \<Rightarrow> driver_handoff_request) \<Rightarrow> controller \<Rightarrow> controller" where
  "update_handoff_request P f c =
     c\<lparr>ctl_state := (ctl_state c)\<lparr>ws_driver_handoff_requests :=
         update_last P f (ws_driver_handoff_requests (ctl_state c))\<rparr>\<rparr>"

definition awaitable :: "string \<Rightarrow> string \<Rightarrow> driver_handoff_request \<Rightarrow> bool" where
  "awaitable workspace requester q =
     (dh_workspace_session_id q = workspace \<and> dh_requested_by q = requester
      \<and> (dh_state q = DhReady \<or> dh_state q = DhDraining))"

definition cancellable :: "string \<Rightarrow> string \<Rightarrow> driver_handoff_request \<Rightarrow> bool" where
  "cancellable workspace requester q =
     (dh_workspace_session_id q = workspace \<and> dh_requested_by q = requester \<and> dh_active (dh_state q))"

definition no_active_handoff :: rpc_error where
  "no_active_handoff = rpc_err ''DRIVER_HANDOFF_NOT_FOUND'' ''no active handoff request''"

definition complete_request :: "u64 \<Rightarrow> driver_handoff_request \<Rightarrow> driver_handoff_request" where
  "complete_request now q = q\<lparr>dh_state := DhCompleted, dh_completed_at := Some now\<rparr>"

text \<open>A request that found a driver takes the lease over; one that found none acquires it.\<close>

definition handoff_grant ::
  "uuids \<Rightarrow> u64 \<Rightarrow> string \<Rightarrow> string \<Rightarrow> u64 \<Rightarrow> driver_handoff_request \<Rightarrow> lease_table
    \<Rightarrow> (lease_error + lease) \<times> lease_table" where
  "handoff_grant ids now resource requester ttl_ms q =
     (if dh_previous_owner q \<noteq> None then take_handoff now (ids 0) resource requester ttl_ms
      else acquire now (ids 0) (ids 1) LeaseDriver resource requester ttl_ms)"

text \<open>After the refresh: the lease 0, the completion 1, the write 2.\<close>

definition driver_handoff_await :: "environment \<Rightarrow> json \<Rightarrow> controller \<Rightarrow> (rpc_error + json) \<times> controller" where
  "driver_handoff_await env params c =
     sbind (required_str params ''workspaceSessionId'', c) (\<lambda>workspace c.
     sbind (required_str params ''owner'', c) (\<lambda>requester c.
     sbind (refresh_driver_handoff env workspace c) (\<lambda>_ c.
       let resource = ''workspace:'' @ workspace; ttl_ms = ttl_param params; env1 = after_refresh c env;
           clk = env_clock env1
       in case find_last (awaitable workspace requester) (ws_driver_handoff_requests (ctl_state c)) of
            None \<Rightarrow> (Inl no_active_handoff, c)
          | Some q \<Rightarrow>
              if dh_state q \<noteq> DhReady
              then (Inl ((rpc_err ''DRIVER_HANDOFF_DRAINING'' ''current writer is still draining'')
                           \<lparr>err_retryable := True\<rparr>), c)
              else
                sbind (lease_op (handoff_grant (env_ids env) (clk 0) resource requester ttl_ms q) c)
                  (\<lambda>l c. persist_lease env1 (clk 2) l
                     (update_handoff_request (awaitable workspace requester) (complete_request (clk 1)) c)))))"

text \<open>Readings: the lease 0, the write 1.\<close>

definition driver_handoff_cancel :: "environment \<Rightarrow> json \<Rightarrow> controller \<Rightarrow> (rpc_error + json) \<times> controller" where
  "driver_handoff_cancel env params c =
     sbind (required_str params ''workspaceSessionId'', c) (\<lambda>workspace c.
     sbind (required_str params ''owner'', c) (\<lambda>requester c.
       let resource = ''workspace:'' @ workspace in
       case find_last (cancellable workspace requester) (ws_driver_handoff_requests (ctl_state c)) of
         None \<Rightarrow> (Inl no_active_handoff, c)
       | Some q \<Rightarrow>
           sbind (if dh_previous_owner q \<noteq> None
                  then sbind (lease_op (cancel_handoff (env_clock env 0) resource requester) c) (\<lambda>_ c. (Inr (), c))
                  else (Inr (), c)) (\<lambda>_ c.
           sbind (persist env (env_clock env 1) (env_io env 0)
                    (update_handoff_request (cancellable workspace requester) (\<lambda>q. q\<lparr>dh_state := DhCancelled\<rparr>) c))
             (\<lambda>_ c. (Inr (JObj [(''cancelled'', JBool True), (''workspaceSessionId'', JStr workspace)]), c)))))"

definition lease_order_violated :: "controller \<Rightarrow> string \<Rightarrow> string \<Rightarrow> bool" where
  "lease_order_violated c resource owner =
     list_ex (\<lambda>l. lease_owner l = owner \<and> lease_resource l \<noteq> resource \<and> 0 < lease_order_rank (lease_resource l)
                  \<and> lease_order_rank (lease_resource l) < lease_order_rank resource)
       (lease_snapshot (ctl_leases c))"

definition lease_acquire :: "environment \<Rightarrow> string \<Rightarrow> json \<Rightarrow> controller \<Rightarrow> (rpc_error + json) \<times> controller" where
  "lease_acquire env action params c =
     sbind (required_str params ''resource'', c) (\<lambda>resource c.
     sbind (required_str params ''owner'', c) (\<lambda>owner c.
       if action = ''lease.acquire'' \<and> lease_order_violated c resource owner
       then (Inl (rpc_err ''LEASE_ORDER_VIOLATION''
         ''release workspace driver before runtime lease, and runtime lease before acceptance lease''), c)
       else
         let kind = if starts_with ''driver'' action then LeaseDriver else LeaseResource in
         sbind (lease_op (acquire (env_clock env 0) (env_ids env 0) (env_ids env 1) kind resource owner
                  (ttl_param params)) c)
           (\<lambda>l c. persist_lease env (env_clock env 1) l c)))"

definition lease_renew :: "environment \<Rightarrow> json \<Rightarrow> controller \<Rightarrow> (rpc_error + json) \<times> controller" where
  "lease_renew env params c =
     sbind (required_str params ''resource'', c) (\<lambda>resource c.
     sbind (required_str params ''owner'', c) (\<lambda>owner c.
     sbind (required_str params ''token'', c) (\<lambda>token c.
     sbind (lease_op (renew (env_sha env) (env_clock env) resource owner token (ttl_param params)) c)
       (\<lambda>l c. persist_lease env (env_clock env 2) l c))))"

definition driver_handoff :: "environment \<Rightarrow> json \<Rightarrow> controller \<Rightarrow> (rpc_error + json) \<times> controller" where
  "driver_handoff env params c =
     sbind (required_str params ''resource'', c) (\<lambda>resource c.
     sbind (required_str params ''owner'', c) (\<lambda>owner c.
     sbind (required_str params ''token'', c) (\<lambda>token c.
     sbind (required_str params ''target'', c) (\<lambda>target c.
     sbind (lease_op (handoff_lease (env_sha env) (env_clock env) resource owner token target) c)
       (\<lambda>l c. persist_lease env (env_clock env 2) l c)))))"

definition driver_take :: "environment \<Rightarrow> json \<Rightarrow> controller \<Rightarrow> (rpc_error + json) \<times> controller" where
  "driver_take env params c =
     sbind (required_str params ''resource'', c) (\<lambda>resource c.
     sbind (required_str params ''owner'', c) (\<lambda>owner c.
     sbind (lease_op
              (if lease_get (ctl_leases c) resource \<noteq> None
               then take_handoff (env_clock env 0) (env_ids env 0) resource owner (ttl_param params)
               else acquire (env_clock env 0) (env_ids env 0) (env_ids env 1) LeaseDriver resource owner
                      (ttl_param params)) c)
       (\<lambda>l c. persist_lease env (env_clock env 1) l c)))"

definition lease_release :: "environment \<Rightarrow> json \<Rightarrow> controller \<Rightarrow> (rpc_error + json) \<times> controller" where
  "lease_release env params c =
     sbind (required_str params ''resource'', c) (\<lambda>resource c.
     sbind (required_str params ''owner'', c) (\<lambda>owner c.
     sbind (required_str params ''token'', c) (\<lambda>token c.
     sbind (lease_op (release (env_sha env) (env_clock env 0) resource owner token) c)
       (\<lambda>l c. persist_lease env (env_clock env 1) l c))))"

subsection \<open>Dispatch\<close>

type_synonym handler = "environment \<Rightarrow> string \<Rightarrow> json \<Rightarrow> controller \<Rightarrow> (rpc_error + json) \<times> controller"

definition driver_actions :: "handler \<Rightarrow> handler" where
  "driver_actions rest env action params c =
     (if action = ''driver.status'' \<or> action = ''lease.status'' then lease_status params c
      else if action = ''driver.handoff.status'' then driver_handoff_status env params c
      else if action = ''agent.mutation.start'' then agent_mutation_start env params c
      else if action = ''agent.mutation.finish'' then agent_mutation_finish env params c
      else if action = ''driver.handoff.request'' then request_driver_handoff env params c
      else if action = ''driver.handoff.await'' then driver_handoff_await env params c
      else if action = ''driver.handoff.cancel'' then driver_handoff_cancel env params c
      else if action = ''driver.acquire'' \<or> action = ''lease.acquire'' then lease_acquire env action params c
      else if action = ''driver.renew'' \<or> action = ''lease.renew'' then lease_renew env params c
      else if action = ''driver.handoff'' then driver_handoff env params c
      else if action = ''driver.take'' then driver_take env params c
      else if action = ''driver.release'' \<or> action = ''lease.release'' then lease_release env params c
      else rest env action params c)"

text \<open>
  A lease of an Executor's resource is forwarded with the owner qualified by this Controller;
  both assignments by index are to objects, as the members just read show.
\<close>

definition forward_lease :: "environment \<Rightarrow> string \<Rightarrow> string \<Rightarrow> json \<Rightarrow> controller \<Rightarrow> rpc_error + json" where
  "forward_lease env executor_id action params c =
     (let forwarded = (case get_str params ''owner'' of
            Some owner \<Rightarrow> unwrap_or params (jset params ''owner'' (JStr (resource_owner env c owner)))
          | None \<Rightarrow> params)
      in and_then (call_registered_executor env executor_id (''resource.'' @ action) forwarded c) (\<lambda>result.
           Inr (if jget result ''resource'' \<noteq> None \<and> jget params ''owner'' \<noteq> None
                then unwrap_or result (Option.bind (jset result ''owner'' (jindex params ''owner''))
                       (\<lambda>r. jset r ''controllerId'' (JStr (ctl_id c))))
                else result)))"

definition forward_desktop :: "environment \<Rightarrow> string \<Rightarrow> json \<Rightarrow> controller \<Rightarrow> rpc_error + json" where
  "forward_desktop env action params c =
     and_then (required_str params ''executorId'') (\<lambda>i.
       case find_executor c i of
         None \<Rightarrow> Inl (rpc_err ''EXECUTOR_NOT_FOUND'' i)
       | Some e \<Rightarrow>
           (case env_call env (executor_endpoint e) (traced_request env action params) of
              Inl m \<Rightarrow> Inl (rpc_err ''EXECUTOR_UNAVAILABLE'' m)
            | Inr r \<Rightarrow> response_value (rpc_err ''EXECUTOR_FAILED'' ''desktop request failed'') r))"

definition dispatch :: "handler \<Rightarrow> handler" where
  "dispatch rest env action params c =
     (let is_lease = starts_with ''lease.'' action in
      case (if is_lease then resource_executor c params else None) of
        Some executor_id \<Rightarrow> (forward_lease env executor_id action params c, c)
      | None \<Rightarrow>
          if is_lease \<and> \<not> (case get_str params ''resource'' of None \<Rightarrow> False | Some r \<Rightarrow> starts_with ''workspace:'' r)
          then (Inl (rpc_err ''RESOURCE_EXECUTOR_REQUIRED'' ''resource leases require a registered executorId''), c)
          else
            (case route_session_action env action params c of
               Inl e \<Rightarrow> (Inl e, c)
             | Inr (Some routed) \<Rightarrow> (Inr routed, c)
             | Inr None \<Rightarrow>
                 if starts_with ''desktop.'' action then (forward_desktop env action params c, c)
                 else driver_actions rest env action params c))"

subsection \<open>One request\<close>

text \<open>
  The trace a request leaves for the calls made on its behalf, and the observations recorded
  about it: one of kind \<^verbatim>\<open>rpc\<close>, and one more for the lifecycle groups.
\<close>

definition request_trace :: "request \<Rightarrow> trace_context" where
  "request_trace r =
     \<lparr>trace_correlation_id = unwrap_or (req_request_id r) (req_correlation_id r),
      trace_request_id = req_request_id r, trace_run_id = req_run_id r, trace_span_id = req_span_id r,
      trace_agent_session_id = req_agent_session_id r\<rparr>"

definition rpc_observation :: "string \<Rightarrow> u64 \<Rightarrow> u64 \<Rightarrow> request \<Rightarrow> response \<Rightarrow> observation" where
  "rpc_observation node now elapsed r response =
     \<lparr>ob_event_id = 0, ob_run_id = req_run_id r, ob_timestamp = now, ob_node_id = node, ob_role = ''controller'',
      ob_kind = ''rpc'', ob_name = req_action r, ob_status = (if resp_ok response then ''completed'' else ''failed''),
      ob_duration_ms = Some elapsed, ob_span_id = req_span_id r, ob_parent_span_id = req_parent_span_id r,
      ob_request_id = Some (req_request_id r), ob_task_id = None, ob_process_id = None, ob_connection_id = None,
      ob_attributes = (case resp_error response of
                         Some e \<Rightarrow> JObj [(''errorCode'', JStr (err_code e))] | None \<Rightarrow> JObj [])\<rparr>"

definition lifecycle_observation :: "string \<Rightarrow> string \<Rightarrow> u64 \<Rightarrow> u64 \<Rightarrow> request \<Rightarrow> response \<Rightarrow> observation" where
  "lifecycle_observation kind node now elapsed r response =
     (let attributes = safe_lifecycle_attributes (req_params r) in
      (rpc_observation node now elapsed r response)
        \<lparr>ob_kind := kind, ob_task_id := get_str attributes ''taskId'',
         ob_process_id := get_str attributes ''processId'', ob_attributes := attributes\<rparr>)"

definition observe :: "observation \<Rightarrow> controller \<Rightarrow> controller" where
  "observe ob c = c\<lparr>ctl_observations := snd (append_observation ob (ctl_observations c))\<rparr>"

text \<open>
  \<^verbatim>\<open>handle\<close>: reap (reading 0), persist when something was reaped (reading 1, write 0), dispatch
  under the request's trace with the readings and writes that follow, record the observations.
  \<open>stamps\<close> and \<open>elapsed\<close> are the timestamps and durations of the two observations.
\<close>

definition handle ::
  "handler \<Rightarrow> environment \<Rightarrow> (nat \<Rightarrow> u64) \<Rightarrow> (nat \<Rightarrow> u64) \<Rightarrow> request \<Rightarrow> controller \<Rightarrow> response \<times> controller" where
  "handle rest env stamps elapsed r c =
     (let env1 = env\<lparr>env_trace := Some (request_trace r)\<rparr>;
          (reaped, leases) = reap_expired (env_clock env 0) (ctl_leases c);
          c1 = c\<lparr>ctl_leases := leases\<rparr>;
          (result, c2) =
            (if reaped = [] then dispatch rest (skip 2 1 env1) (req_action r) (req_params r) c1
             else sbind (persist env1 (env_clock env 1) (env_io env 0) c1) (\<lambda>_ c.
                    dispatch rest (skip 2 1 env1) (req_action r) (req_params r) c));
          response = (case result of Inr v \<Rightarrow> response_success (req_request_id r) v
                                   | Inl e \<Rightarrow> response_failure (req_request_id r) e);
          c3 = observe (rpc_observation (ctl_id c2) (stamps 0) (elapsed 0) r response) c2;
          c4 = (case lifecycle_observation_kind (req_action r) of
                  Some kind \<Rightarrow> observe (lifecycle_observation kind (ctl_id c3) (stamps 1) (elapsed 1) r response) c3
                | None \<Rightarrow> c3)
      in (response, c4))"

end
