(* ===== verification/Artifact_Transfer.thy ===== *)
theory Artifact_Transfer
  imports Executor Driver
begin

section \<open>The Controller's part of an artifact relay\<close>

text \<open>
  \<^verbatim>\<open>relay_artifact\<close>, \<^verbatim>\<open>relay_local_artifact\<close> and \<^verbatim>\<open>relay_archive\<close> of \<^verbatim>\<open>controller.rs\<close>. They change nothing
  of the Controller: they call registered Executors. A call is an argument, a function of the
  Executor, the action, the parameters and the state of everything outside, which gives
  the answer and the state it leaves; log events are outside the model.
\<close>

type_synonym 'w caller = "string \<Rightarrow> string \<Rightarrow> json \<Rightarrow> 'w \<Rightarrow> (rpc_error + json) \<times> 'w"

text \<open>
  The Controller's identifier, the fresh identifier of the staging directory, the durations that
  are reported, and whether the deadline has passed at the \<open>n\<close>-th reading of the stability loop.
\<close>

record transfer_env =
  tr_controller :: string
  tr_fresh :: string
  tr_total_ms :: u64
  tr_relay_ms :: u64
  tr_commit_ms :: u64
  tr_late :: "nat \<Rightarrow> bool"

definition transfer_error :: "string \<Rightarrow> u64 \<Rightarrow> u64 \<Rightarrow> rpc_error \<Rightarrow> rpc_error" where
  "transfer_error stage offset chunks error =
     error\<lparr>err_details := JObj [(''cause'', err_details error), (''chunks'', junum chunks), (''failureOffset'', junum offset),
       (''retryCount'', jnat 0), (''stage'', JStr stage), (''transferredBytes'', junum offset)]\<rparr>"

subsection \<open>The lease of the destination\<close>

definition relay_resource :: "string \<Rightarrow> string" where
  "relay_resource destination = ''artifact-relay:'' @ destination"

definition relay_owner :: "transfer_env \<Rightarrow> string" where
  "relay_owner env = ''controller:'' @ tr_controller env"

definition relay_grant :: "transfer_env \<Rightarrow> string \<Rightarrow> json \<Rightarrow> json" where
  "relay_grant env destination lease =
     JObj [(''owner'', JStr (relay_owner env)), (''resource'', JStr (relay_resource destination)), (''token'', jindex lease ''token'')]"

definition relay_authority :: "transfer_env \<Rightarrow> string \<Rightarrow> json \<Rightarrow> json" where
  "relay_authority env destination lease =
     JArr [JObj [(''controllerId'', JStr (tr_controller env)), (''fence'', jindex lease ''fence''),
                 (''resource'', JStr (relay_resource destination))]]"

text \<open>The work is done between an acquisition and a release whose outcome is ignored.\<close>

definition under_lease ::
  "'w caller \<Rightarrow> transfer_env \<Rightarrow> string \<Rightarrow> string \<Rightarrow> (json \<Rightarrow> 'w \<Rightarrow> (rpc_error + json) \<times> 'w) \<Rightarrow> 'w \<Rightarrow> (rpc_error + json) \<times> 'w" where
  "under_lease call env executor destination work w =
     sbind (call executor ''resource.lease.acquire''
              (JObj [(''owner'', JStr (relay_owner env)), (''resource'', JStr (relay_resource destination)), (''ttlMs'', jnat 3600000)]) w)
       (\<lambda>lease w.
       let (result, w) = work lease w
       in (result, snd (call executor ''resource.lease.release'' (relay_grant env destination lease) w)))"

text \<open>The parameters that every request to the destination carries.\<close>

definition staged :: "transfer_env \<Rightarrow> string \<Rightarrow> json \<Rightarrow> (string \<times> json) list \<Rightarrow> json" where
  "staged env destination lease own =
     JObj ([(''_authority'', relay_authority env destination lease), (''_resourceLeases'', JArr [relay_grant env destination lease])]
           @ own)"

subsection \<open>On one Executor\<close>

definition relay_local_artifact ::
  "'w caller \<Rightarrow> transfer_env \<Rightarrow> string \<Rightarrow> string \<Rightarrow> string \<Rightarrow> string \<Rightarrow> 'w \<Rightarrow> (rpc_error + json) \<times> 'w" where
  "relay_local_artifact call env executor source_path destination_path mode =
     under_lease call env executor destination_path (\<lambda>lease w.
       let staging = destination_path @ ''.workbench-local-'' @ tr_fresh env in
       sbind (call executor ''artifact.relay.local-copy''
                (staged env destination_path lease
                   [(''destination'', JStr destination_path), (''source'', JStr source_path), (''staging'', JStr staging)]) w) (\<lambda>copied w.
       (Inr (JObj
          [(''destination'', JObj [(''executorId'', JStr executor), (''path'', JStr destination_path)]),
           (''digest'', jindex copied ''digest''), (''files'', jindex copied ''files''), (''mode'', JStr mode),
           (''size'', jindex copied ''size''),
           (''source'', JObj [(''executorId'', JStr executor), (''path'', JStr source_path)]),
           (''transfer'', JObj [(''chunks'', jnat 0), (''commitDurationMs'', junum (tr_total_ms env)), (''rawBytes'', jindex copied ''size''),
              (''relayDurationMs'', jnat 0), (''retryCount'', jnat 0), (''totalDurationMs'', junum (tr_total_ms env)),
              (''transferredBytes'', jindex copied ''size'')]),
           (''transport'', JStr ''local'')]), w)))"

subsection \<open>As an archive\<close>

text \<open>The loop counts the blocks and the characters of their encoding.\<close>

lemma sat_add_grows: "a < b \<Longrightarrow> n \<noteq> 0 \<Longrightarrow> a < sat_add a (n :: u64)"
proof -
  assume "a < b" "n \<noteq> 0"
  then have "unat a < unat b" "0 < unat n" by (simp_all add: word_less_nat_alt unat_gt_0)
  with u64_unat_less [of b] show ?thesis by (simp add: word_less_nat_alt unat_sat_add)
qed

function archive_chunks ::
  "'w caller \<Rightarrow> transfer_env \<Rightarrow> string \<Rightarrow> string \<Rightarrow> string \<Rightarrow> string \<Rightarrow> json \<Rightarrow> string \<Rightarrow> u64 \<Rightarrow> u64 \<Rightarrow> u64 \<Rightarrow> u64 \<Rightarrow> 'w
    \<Rightarrow> (rpc_error + u64 \<times> u64 \<times> u64) \<times> 'w" where
  "archive_chunks call env source destination destination_path staging lease token archive_size offset chunks encoded w =
     (if offset < archive_size then
        sbind (let (r, w) = call source ''artifact.relay.archive.read''
                              (JObj [(''limit'', jnat (8 * 1024 * 1024)), (''offset'', junum offset), (''token'', JStr token)]) w
               in (map_err (transfer_error ''reading'' offset chunks) r, w)) (\<lambda>chunk w.
        sbind (ok_or (rpc_err ''INVALID_ARTIFACT'' ''archive chunk has no byte count'') (get_u64 chunk ''bytes''), w) (\<lambda>count w.
        if count = 0
        then (Inl (transfer_error ''reading'' offset chunks
                (rpc_err ''ARTIFACT_TRANSFER_FAILED'' ''unexpected EOF while reading archive'')), w)
        else
        sbind (let (r, w) = call destination ''artifact.relay.archive.write''
                              (staged env destination_path lease
                                 [(''data'', jindex chunk ''data''), (''destination'', JStr destination_path), (''offset'', junum offset),
                                  (''staging'', JStr staging)]) w
               in (map_err (transfer_error ''writing'' offset (chunks + 1)) r, w)) (\<lambda>_ w.
        archive_chunks call env source destination destination_path staging lease token archive_size
          (sat_add offset count) (chunks + 1)
          (encoded + of_nat (case get_str chunk ''data'' of Some s \<Rightarrow> length s | None \<Rightarrow> 0)) w)))
      else (Inr (offset, chunks, encoded), w))"
  by pat_completeness auto
termination
  by (relation "measure (\<lambda>(call, env, source, destination, destination_path, staging, lease, token, archive_size, offset, chunks,
        encoded, w). unat archive_size - unat offset)")
    (auto simp: word_less_nat_alt dest: sat_add_grows [unfolded word_less_nat_alt] intro!: diff_less_mono2)

declare archive_chunks.simps [simp del]

definition relay_archive ::
  "'w caller \<Rightarrow> transfer_env \<Rightarrow> string \<Rightarrow> string \<Rightarrow> string \<Rightarrow> string \<Rightarrow> json \<Rightarrow> 'w \<Rightarrow> (rpc_error + json) \<times> 'w" where
  "relay_archive call env source destination destination_path mode archive w =
     sbind (required_str archive ''token'', w) (\<lambda>token w.
     sbind (required_str archive ''digest'', w) (\<lambda>expected w.
     sbind (ok_or (rpc_err ''INVALID_ARTIFACT'' ''archive size is required'') (get_u64 archive ''archiveSize''), w) (\<lambda>archive_size w.
     sbind (ok_or (rpc_err ''INVALID_ARTIFACT'' ''artifact size is required'') (get_u64 archive ''size''), w) (\<lambda>len w.
     sbind (ok_or (rpc_err ''INVALID_ARTIFACT'' ''artifact file count is required'') (get_u64 archive ''files''), w) (\<lambda>files w.
       let kind = unwrap_or ''directory'' (get_str archive ''kind''); staging = destination_path @ ''.workbench-relay-'' @ tr_fresh env in
     under_lease call env destination destination_path (\<lambda>lease w.
       sbind (let (r, w) = call destination ''artifact.relay.archive.prepare''
                             (staged env destination_path lease
                                [(''destination'', JStr destination_path), (''staging'', JStr staging)]) w
              in (map_err (transfer_error ''preparing'' 0 0) r, w)) (\<lambda>_ w.
       sbind (archive_chunks call env source destination destination_path staging lease token archive_size 0 0 0 w) (\<lambda>(offset, chunks, encoded) w.
       sbind (let (r, w) = call destination ''artifact.relay.archive.commit''
                             (staged env destination_path lease
                                [(''archiveSize'', junum archive_size), (''destination'', JStr destination_path),
                                 (''expectedDigest'', JStr expected), (''files'', junum files), (''kind'', JStr kind), (''size'', junum len),
                                 (''staging'', JStr staging)]) w
              in (map_err (transfer_error ''committing'' offset chunks) r, w)) (\<lambda>committed w.
       (Inr (JObj
          [(''archiveSize'', junum archive_size), (''compression'', JStr ''gzip''),
           (''destination'', JObj [(''executorId'', JStr destination), (''path'', JStr destination_path)]),
           (''digest'', jindex committed ''digest''), (''files'', jindex committed ''files''), (''mode'', JStr mode),
           (''size'', jindex committed ''size''), (''source'', JObj [(''executorId'', JStr source)]),
           (''transfer'', JObj [(''archiveBytes'', junum archive_size), (''chunkSize'', jnat (8 * 1024 * 1024)), (''chunks'', junum chunks),
              (''commitDurationMs'', junum (tr_commit_ms env)), (''encodedBytes'', junum encoded), (''rawBytes'', junum len),
              (''relayDurationMs'', junum (tr_relay_ms env)), (''retryCount'', jnat 0),
              (''throughputBytesPerSecond'',
                 junum (if tr_relay_ms env = 0 then archive_size * 1000 else sat_mul archive_size 1000 div tr_relay_ms env)),
              (''transferredBytes'', junum offset)]),
           (''transport'', JStr ''archive'')]), w))))) w)))))"

subsection \<open>File by file\<close>

text \<open>Reading the manifest until two readings agree; no value when it never settles and the deadline never passes.\<close>

partial_function (option) stable_manifest ::
  "'w caller \<Rightarrow> (nat \<Rightarrow> bool) \<Rightarrow> string \<Rightarrow> string \<Rightarrow> nat \<Rightarrow> json \<Rightarrow> 'w \<Rightarrow> ((rpc_error + json) \<times> 'w) option" where
  "stable_manifest call late source source_path n manifest w =
     (case call source ''artifact.relay.manifest'' (JObj [(''path'', JStr source_path)]) w of
        (Inl e, w) \<Rightarrow> Some (Inl e, w)
      | (Inr latest, w) \<Rightarrow>
          if jget latest ''digest'' = jget manifest ''digest'' \<and> jget latest ''entries'' = jget manifest ''entries''
          then Some (Inr latest, w)
          else if late n
          then Some (Inl (rpc_err ''ARTIFACT_NOT_STABLE'' ''source artifact changed during the stability window''), w)
          else stable_manifest call late source source_path (Suc n) latest w)"

function file_chunks ::
  "'w caller \<Rightarrow> transfer_env \<Rightarrow> string \<Rightarrow> string \<Rightarrow> string \<Rightarrow> string \<Rightarrow> string \<Rightarrow> json \<Rightarrow> string \<Rightarrow> u64 \<Rightarrow> u64 \<Rightarrow> 'w
    \<Rightarrow> (rpc_error + unit) \<times> 'w" where
  "file_chunks call env source source_path destination destination_path staging lease relative len offset w =
     (if offset < len then
        sbind (call source ''artifact.relay.read''
                 (JObj [(''limit'', jnat (1024 * 1024)), (''offset'', junum offset), (''path'', JStr source_path),
                        (''relativePath'', JStr relative)]) w) (\<lambda>chunk w.
        sbind (ok_or (rpc_err ''INVALID_ARTIFACT'' ''relay chunk has no byte count'') (get_u64 chunk ''bytes''), w) (\<lambda>count w.
        if count = 0
        then (Inl (rpc_err ''ARTIFACT_TRANSFER_FAILED'' (''unexpected EOF while reading '' @ relative)), w)
        else
        sbind (call destination ''artifact.relay.write''
                 (staged env destination_path lease
                    [(''data'', jindex chunk ''data''), (''destination'', JStr destination_path), (''offset'', junum offset),
                     (''relativePath'', JStr relative), (''staging'', JStr staging)]) w) (\<lambda>_ w.
        file_chunks call env source source_path destination destination_path staging lease relative len (sat_add offset count) w)))
      else (Inr (), w))"
  by pat_completeness auto
termination
  by (relation "measure (\<lambda>(call, env, source, source_path, destination, destination_path, staging, lease, relative, len, offset, w).
        unat len - unat offset)")
    (auto simp: word_less_nat_alt dest: sat_add_grows [unfolded word_less_nat_alt] intro!: diff_less_mono2)

declare file_chunks.simps [simp del]

fun relay_entries ::
  "'w caller \<Rightarrow> transfer_env \<Rightarrow> string \<Rightarrow> string \<Rightarrow> string \<Rightarrow> string \<Rightarrow> string \<Rightarrow> json \<Rightarrow> json list \<Rightarrow> 'w \<Rightarrow> (rpc_error + unit) \<times> 'w" where
  "relay_entries call env source source_path destination destination_path staging lease [] w = (Inr (), w)"
| "relay_entries call env source source_path destination destination_path staging lease (entry # rest) w =
     sbind (required_str entry ''kind'', w) (\<lambda>kind w.
     if kind \<noteq> ''file'' then relay_entries call env source source_path destination destination_path staging lease rest w
     else
     sbind (required_str entry ''path'', w) (\<lambda>relative w.
     sbind (ok_or (rpc_err ''INVALID_ARTIFACT'' ''file size is required'') (get_u64 entry ''size''), w) (\<lambda>len w.
     sbind (file_chunks call env source source_path destination destination_path staging lease relative len 0 w) (\<lambda>_ w.
     relay_entries call env source source_path destination destination_path staging lease rest w))))"

definition relay_files ::
  "'w caller \<Rightarrow> transfer_env \<Rightarrow> string \<Rightarrow> string \<Rightarrow> string \<Rightarrow> string \<Rightarrow> string \<Rightarrow> json list \<Rightarrow> string \<Rightarrow> 'w \<Rightarrow> (rpc_error + json) \<times> 'w" where
  "relay_files call env source source_path destination destination_path mode entries expected =
     under_lease call env destination destination_path (\<lambda>lease w.
       let staging = destination_path @ ''.workbench-relay-'' @ tr_fresh env in
       sbind (call destination ''artifact.relay.prepare''
                (staged env destination_path lease
                   [(''destination'', JStr destination_path), (''entries'', JArr entries), (''staging'', JStr staging)]) w) (\<lambda>_ w.
       sbind (relay_entries call env source source_path destination destination_path staging lease entries w) (\<lambda>_ w.
       sbind (call destination ''artifact.relay.commit''
                (staged env destination_path lease
                   [(''destination'', JStr destination_path), (''expectedDigest'', JStr expected), (''staging'', JStr staging)]) w) (\<lambda>committed w.
       (Inr (JObj
          [(''destination'', JObj [(''executorId'', JStr destination), (''path'', JStr destination_path)]),
           (''digest'', jindex committed ''digest''), (''files'', jindex committed ''files''), (''mode'', JStr mode),
           (''size'', jindex committed ''size''),
           (''source'', JObj [(''executorId'', JStr source), (''path'', JStr source_path)])]), w)))))"

definition has_empty_file :: "json list \<Rightarrow> bool" where
  "has_empty_file entries = list_ex (\<lambda>entry. get_str entry ''kind'' = Some ''file'' \<and> get_u64 entry ''size'' = Some 0) entries"

subsection \<open>The action\<close>

definition relay_route :: "json \<Rightarrow> rpc_error + string \<times> string \<times> string \<times> string \<times> string" where
  "relay_route params =
     (let given = (\<lambda>key. ok_or (rpc_err ''INVALID_PARAMS'' (key @ '' is required'')) (jget params key));
          mode = unwrap_or ''mirror'' (get_str params ''mode'')
      in and_then (given ''source'') (\<lambda>source.
         and_then (given ''destination'') (\<lambda>destination.
         and_then (required_str source ''executorId'') (\<lambda>se.
         and_then (required_str source ''path'') (\<lambda>sp.
         and_then (required_str destination ''executorId'') (\<lambda>de.
         and_then (required_str destination ''path'') (\<lambda>dp.
         if mode \<noteq> ''mirror''
         then Inl (rpc_err ''INVALID_PARAMS'' ''Controller artifact relay currently requires mode=mirror'')
         else Inr (se, sp, de, dp, mode))))))))"

definition archive_transfer ::
  "'w caller \<Rightarrow> transfer_env \<Rightarrow> string \<Rightarrow> string \<Rightarrow> string \<Rightarrow> string \<Rightarrow> json \<Rightarrow> 'w \<Rightarrow> (rpc_error + json) \<times> 'w" where
  "archive_transfer call env se de dp mode archive w =
     sbind (required_str archive ''token'', w) (\<lambda>token w.
       let (result, w) = relay_archive call env se de dp mode archive w;
           w = snd (call se ''artifact.relay.archive.remove'' (JObj [(''token'', JStr token)]) w)
       in (and_then result (\<lambda>v.
             ok_or panicked (Option.bind (jset (jindex v ''transfer'') ''totalDurationMs'' (junum (tr_total_ms env))) (jset v ''transfer''))), w))"

definition manifest_transfer ::
  "'w caller \<Rightarrow> transfer_env \<Rightarrow> json \<Rightarrow> string \<Rightarrow> string \<Rightarrow> string \<Rightarrow> string \<Rightarrow> string \<Rightarrow> 'w \<Rightarrow> ((rpc_error + json) \<times> 'w) option" where
  "manifest_transfer call env params se sp de dp mode w =
     (case call se ''artifact.relay.manifest'' (JObj [(''path'', JStr sp)]) w of
        (Inl e, w) \<Rightarrow> Some (Inl e, w)
      | (Inr first, w) \<Rightarrow>
          Option.bind (stable_manifest call (tr_late env) se sp 0 first w) (\<lambda>settled. Some
            (sbind settled (\<lambda>manifest w.
             sbind (ok_or (rpc_err ''INVALID_ARTIFACT'' ''source manifest has no entries'') (get_array manifest ''entries''), w) (\<lambda>entries w.
             if get_bool params ''rejectEmptyFiles'' = Some True \<and> has_empty_file entries
             then (Inl (rpc_err ''ARTIFACT_INCOMPLETE'' ''source artifact contains an empty file''), w)
             else
             sbind (required_str manifest ''digest'', w) (\<lambda>expected w.
             relay_files call env se sp de dp mode entries expected w))))))"

text \<open>An Executor that does not know archives is asked for a manifest instead.\<close>

definition relay_artifact :: "'w caller \<Rightarrow> transfer_env \<Rightarrow> json \<Rightarrow> 'w \<Rightarrow> ((rpc_error + json) \<times> 'w) option" where
  "relay_artifact call env params w =
     (case relay_route params of
        Inl e \<Rightarrow> Some (Inl e, w)
      | Inr (se, sp, de, dp, mode) \<Rightarrow>
          if se = de then Some (relay_local_artifact call env se sp dp mode w)
          else
            (case call se ''artifact.relay.archive.create'' (JObj [(''path'', JStr sp)]) w of
               (Inr archive, w) \<Rightarrow> Some (archive_transfer call env se de dp mode archive w)
             | (Inl e, w) \<Rightarrow>
                 if err_code e \<noteq> ''UNKNOWN_ACTION'' then Some (Inl e, w)
                 else manifest_transfer call env params se sp de dp mode w))"

end
