(* ===== verification/Filesystem_Properties.thy ===== *)
theory Filesystem_Properties
  imports Executor
begin

section \<open>Properties of the file actions\<close>

text \<open>
  What each file action leaves: lookups after the basic operations, the shape of the tree that all
  of them keep, which paths an action can touch, compare-and-swap on digests, and removing and
  restoring. Two theorems show what goes wrong: writes of sibling files that share their temporary
  file, and reads whose offset is ignored.
\<close>

subsection \<open>Lookups\<close>

lemma os_call_Inr: "os_call sys call p r = Inr a \<longleftrightarrow> os_fault sys call p = None \<and> r = Some a"
  by (auto simp: os_call_def ok_or_def split: option.splits)

text \<open>The paths between a base and a path below it.\<close>

definition between :: "path \<Rightarrow> string list \<Rightarrow> path \<Rightarrow> bool" where
  "between base names q \<longleftrightarrow> (\<exists>pre post. pre \<noteq> [] \<and> names = pre @ post \<and> q = base @ pre)"

lemma between_Nil [simp]: "\<not> between base [] q"
  by (simp add: between_def)

lemma between_Cons: "between base (n # ns) q \<longleftrightarrow> q = base @ [n] \<or> between (base @ [n]) ns q"
proof
  assume "between base (n # ns) q"
  then obtain pre post where p: "pre \<noteq> []" "n # ns = pre @ post" "q = base @ pre" by (auto simp: between_def)
  then obtain pre' where "pre = n # pre'" by (cases pre) auto
  with p show "q = base @ [n] \<or> between (base @ [n]) ns q"
    by (cases "pre' = []") (auto simp: between_def)
next
  assume "q = base @ [n] \<or> between (base @ [n]) ns q"
  then show "between base (n # ns) q"
  proof
    assume "q = base @ [n]"
    then show ?thesis by (auto simp: between_def intro!: exI [of _ "[n]"])
  next
    assume "between (base @ [n]) ns q"
    then obtain pre post where "ns = pre @ post" "q = base @ n # pre" by (auto simp: between_def)
    then show ?thesis by (auto simp: between_def intro!: exI [of _ "n # pre"])
  qed
qed

lemma node_at_make_dirs:
  assumes "make_dirs fs base names = Some fs'"
  shows "node_at fs' q = (if node_at fs q = None \<and> between base names q then Some Dir else node_at fs q) \<and>
    (between base names q \<longrightarrow> node_at fs' q = Some Dir)"
  using assms
proof (induction names arbitrary: fs base)
  case (Cons name names)
  consider (new) "node_at fs (base @ [name]) = None" "make_dirs (bt_insert (base @ [name]) Dir fs) (base @ [name]) names = Some fs'"
    | (old) "node_at fs (base @ [name]) = Some Dir" "make_dirs fs (base @ [name]) names = Some fs'"
    using Cons.prems by (auto split: option.splits node.splits)
  then show ?case
  proof cases
    case new
    from Cons.IH [OF new(2)] new(1) show ?thesis by (auto simp: between_Cons bt_get_insert_any split: if_splits)
  next
    case old
    from Cons.IH [OF old(2)] old(1) show ?thesis by (auto simp: between_Cons split: if_splits)
  qed
qed simp

lemma make_dirs_wf: "make_dirs fs base names = Some fs' \<Longrightarrow> bt_wf fs \<Longrightarrow> bt_wf fs'"
  by (induction names arbitrary: fs base) (auto simp: bt_wf_insert split: option.splits node.splits)

lemma bt_get_filter_key: "bt_get (filter (\<lambda>(k, n). P k) m) q = (if P q then bt_get m q else None)"
  by (induction m) (auto simp: bt_get_def)

lemma rename_to_wf: "bt_wf fs \<Longrightarrow> bt_wf (rename_to a b fs)"
  unfolding rename_to_def case_prod_unfold by (intro bt.invar_load bt_wf_filter)

lemma node_at_rename_to:
  assumes "bt_wf fs"
  shows "node_at (rename_to a b fs) q =
    (if path_within q b \<and> node_at fs (a @ drop (length b) q) \<noteq> None then node_at fs (a @ drop (length b) q)
     else if path_within q a \<or> q = b then None else node_at fs q)"
proof -
  let ?moved = "filter (\<lambda>(k, n). path_within k a) fs"
  let ?kept = "filter (\<lambda>(k, n). \<not> path_within k a \<and> k \<noteq> b) fs"
  have wf: "bt_wf ?kept" using assms by (rule bt_wf_filter)
  have "rename_to a b fs = fold (\<lambda>x. bt_insert (b @ drop (length a) (fst x)) (snd x)) ?moved ?kept"
    by (simp add: rename_to_def case_prod_unfold)
  then have look: "node_at (rename_to a b fs) q =
      (case find (\<lambda>x. b @ drop (length a) (fst x) = q) (rev ?moved) of Some x \<Rightarrow> Some (snd x) | None \<Rightarrow> bt_get ?kept q)"
    using bt.get_load [OF wf] by simp
  show ?thesis
  proof (cases "path_within q b \<and> node_at fs (a @ drop (length b) q) \<noteq> None")
    case True
    then obtain n where n: "node_at fs (a @ drop (length b) q) = Some n" by blast
    let ?x = "(a @ drop (length b) q, n)"
    have "?x \<in> set ?moved" using n assms by (simp add: bt_entry_iff path_within_iff)
    moreover have "distinct (map (\<lambda>x. b @ drop (length a) (fst x)) (rev ?moved))"
    proof -
      have "distinct (map fst ?moved)" using assms bt_wf_filter bt_wf_distinct by blast
      moreover have "inj_on (\<lambda>k. b @ drop (length a) k) (fst ` set ?moved)"
        by (auto simp: inj_on_def path_within_iff)
      ultimately have "distinct (map (\<lambda>k. b @ drop (length a) k) (map fst ?moved))"
        by (auto simp: distinct_map intro: comp_inj_on)
      then show ?thesis by (simp add: rev_map [symmetric] comp_def)
    qed
    ultimately have "find (\<lambda>x. b @ drop (length a) (fst x) = q) (rev ?moved) = Some ?x"
      using True by (intro find_distinct_key) (auto simp: path_within_iff)
    with look n True show ?thesis by simp
  next
    case False
    have "find (\<lambda>x. b @ drop (length a) (fst x) = q) (rev ?moved) = None"
      using False assms by (auto simp: find_None_iff path_within_iff bt_entry_iff)
    with look show ?thesis using False by (auto simp: bt_get_filter_key)
  qed
qed

subsection \<open>The tree\<close>

text \<open>Sorted and without duplicates, with a root, and every other node in a directory.\<close>

definition tree_ok :: "files \<Rightarrow> bool" where
  "tree_ok fs \<longleftrightarrow> bt_wf fs \<and> node_at fs [''/''] = Some Dir \<and>
     (\<forall>p. node_at fs p \<noteq> None \<longrightarrow> p = [''/''] \<or> (\<exists>q. path_parent p = Some q \<and> node_at fs q = Some Dir))"

lemma tree_above:
  assumes "tree_ok fs" "node_at fs (p @ r) \<noteq> None" "r \<noteq> []" "p \<noteq> []"
  shows "node_at fs p = Some Dir"
  using assms(2,3)
proof (induction r rule: rev_induct)
  case (snoc x r)
  have "p @ r @ [x] \<noteq> [''/'']" using assms(4) by (cases p) auto
  then have "node_at fs (p @ r) = Some Dir"
    using assms(1) snoc.prems(1) unfolding tree_ok_def path_parent_def
    by (metis append_assoc append_is_Nil_conv butlast_snoc option.inject option.simps(3))
  then show ?case using snoc.IH by (cases "r = []") auto
qed simp

lemma tree_parent:
  assumes "tree_ok fs" "node_at fs p \<noteq> None" "p \<noteq> [''/'']"
  obtains q name where "p = q @ [name]" "node_at fs q = Some Dir" "q \<noteq> []"
proof -
  from assms obtain q where q: "path_parent p = Some q" "node_at fs q = Some Dir" unfolding tree_ok_def by blast
  then have p: "p = q @ [last p]" by (auto simp: path_parent_def split: if_splits)
  have "q \<noteq> []"
  proof
    assume "q = []"
    with q(2) assms(1) have "[] = [''/''] \<or> (\<exists>q. path_parent [] = Some q \<and> node_at fs q = Some Dir)"
      unfolding tree_ok_def by (metis option.distinct(1))
    then show False by (simp add: path_parent_def)
  qed
  with p q(2) that show thesis by blast
qed

lemma tree_no_Nil: "tree_ok fs \<Longrightarrow> node_at fs [] = None"
  by (rule ccontr) (auto simp: tree_ok_def path_parent_def)

lemma within_length: "path_within q b \<Longrightarrow> length b \<le> length q"
  by (auto simp: path_within_iff)

lemma parent_within: "path_parent b = Some q \<Longrightarrow> path_within b q"
  by (auto simp: path_parent_def path_within_iff split: if_splits) (metis append_butlast_last_id)

text \<open>What a rename that is allowed leaves.\<close>

lemma node_at_rename:
  assumes "tree_ok fs" "rename_allowed fs a b"
  shows "node_at (rename_to a b fs) q =
    (if path_within q b then node_at fs (a @ drop (length b) q) else if path_within q a then None else node_at fs q)"
proof -
  have wf: "bt_wf fs" using assms(1) by (simp add: tree_ok_def)
  have b: "b \<noteq> []" using assms(2) by (auto simp: rename_allowed_def path_parent_def)
  have below: "node_at fs q = None" if "path_within q b" "node_at fs (a @ drop (length b) q) = None" "q \<noteq> b" for q
  proof (rule ccontr)
    assume n: "node_at fs q \<noteq> None"
    from that(1,3) obtain r where r: "q = b @ r" "r \<noteq> []" by (auto simp: path_within_iff)
    with tree_above [OF assms(1)] n b have bd: "node_at fs b = Some Dir" by blast
    from r obtain c r' where c: "r = c # r'" by (cases r) auto
    have "node_at fs (b @ [c]) \<noteq> None"
    proof (cases "r' = []")
      case False
      then show ?thesis using tree_above [OF assms(1), of "b @ [c]" r'] n r c by simp
    qed (use n r c in simp)
    then obtain m where "(b @ [c], m) \<in> set fs" using wf by (auto simp: bt_entry_iff)
    then have "(c, m) \<in> set (children fs b)" by (simp add: children_mem)
    then have "children fs b \<noteq> []" by auto
    with assms(2) bd have "node_at fs a \<noteq> Some Dir \<and> node_at fs a \<noteq> None \<longrightarrow> False" "node_at fs a \<noteq> Some Dir"
      by (auto simp: rename_allowed_def split: option.splits node.splits)
    with assms(2) show False by (auto simp: rename_allowed_def split: option.splits)
  qed
  show ?thesis
    unfolding node_at_rename_to [OF wf]
    using below [of q] assms(2) by (auto simp: rename_allowed_def path_within_iff split: option.splits)
qed

lemma rename_tree:
  assumes "tree_ok fs" "rename_allowed fs a b" "a \<noteq> [''/'']"
  shows "tree_ok (rename_to a b fs)"
proof -
  note look = node_at_rename [OF assms(1,2)]
  have b: "b \<noteq> []" "\<not> path_within b a" and bp: "\<exists>q. path_parent b = Some q \<and> node_at fs q = Some Dir"
    using assms(2) by (auto simp: rename_allowed_def path_parent_def bind_eq_Some_conv split: if_splits)
  have root: "node_at (rename_to a b fs) [''/''] = Some Dir"
  proof -
    have "\<not> path_within [''/''] b" using bp b(1) by (auto simp: path_within_iff path_parent_def Cons_eq_append_conv)
    moreover have "\<not> path_within [''/''] a"
      using assms(2,3) tree_no_Nil [OF assms(1)]
      by (auto simp: path_within_iff Cons_eq_append_conv rename_allowed_def split: option.splits)
    ultimately show ?thesis using look assms(1) by (simp add: tree_ok_def)
  qed
  have "\<exists>q. path_parent p = Some q \<and> node_at (rename_to a b fs) q = Some Dir"
    if n: "node_at (rename_to a b fs) p \<noteq> None" and p: "p \<noteq> [''/'']" for p
  proof (cases "path_within p b")
    case True
    then obtain r where r: "p = b @ r" by (auto simp: path_within_iff)
    show ?thesis
    proof (cases "r = []")
      case True
      from bp obtain q where q: "path_parent b = Some q" "node_at fs q = Some Dir" by blast
      then have "\<not> path_within q b" using path_parent_length within_length by (meson not_le)
      moreover have "\<not> path_within q a" using b(2) path_within_trans [OF parent_within [OF q(1)]] by blast
      ultimately show ?thesis using q r True look by auto
    next
      case False
      have an: "node_at fs (a @ r) \<noteq> None" using n r look [of p] by (simp add: path_within_iff)
      have ane: "a \<noteq> []" using assms(2) tree_no_Nil [OF assms(1)] by (auto simp: rename_allowed_def split: option.splits)
      have "node_at fs (a @ butlast r) = Some Dir"
        using tree_above [OF assms(1), of "a @ butlast r" "[last r]"] an False ane by simp
      moreover have "path_parent p = Some (b @ butlast r)" using r False p b(1) by (auto simp: path_parent_def butlast_append)
      ultimately show ?thesis using look [of "b @ butlast r"] by (simp add: path_within_iff)
    qed
  next
    case False
    then have n': "node_at fs p \<noteq> None" "\<not> path_within p a" using n look [of p] by (auto split: if_splits)
    from tree_parent [OF assms(1) n'(1) p] obtain q name where q: "p = q @ [name]" "node_at fs q = Some Dir" "q \<noteq> []" .
    have "\<not> path_within q b" "\<not> path_within q a" using False n'(2) q(1) by (auto simp: path_within_iff)
    then show ?thesis using q look [of q] p by (auto simp: path_parent_def)
  qed
  with root rename_to_wf [of fs a b] assms(1) show ?thesis by (auto simp: tree_ok_def)
qed

subsection \<open>Resolved paths\<close>

text \<open>Absolute, with names only: no dots, no empty parts.\<close>

definition proper_name :: "string \<Rightarrow> bool" where
  "proper_name c \<longleftrightarrow> c \<noteq> [] \<and> is_normal c \<and> CHR ''/'' \<notin> set c"

definition plain :: "path \<Rightarrow> bool" where
  "plain p \<longleftrightarrow> path_absolute p \<and> list_all proper_name (tl p)"

text \<open>
  What is relied on of the system's path resolution: it gives an absolute path without dots
  or links at which there is something; such a path resolves to itself; a path exists when it
  resolves; and nothing exists at a name that its directory does not have.
\<close>

definition resolves :: "os \<Rightarrow> bool" where
  "resolves sys \<longleftrightarrow>
     (\<forall>fs p q. os_canonicalize sys fs p = Inr q \<longrightarrow> plain q \<and> node_at fs q \<noteq> None \<and> (\<forall>t. node_at fs q \<noteq> Some (Link t))) \<and>
     (\<forall>fs p n. tree_ok fs \<longrightarrow> plain p \<longrightarrow> node_at fs p = Some n \<longrightarrow> (\<forall>t. n \<noteq> Link t) \<longrightarrow> os_canonicalize sys fs p = Inr p) \<and>
     (\<forall>fs p. os_exists sys fs p \<longleftrightarrow> is_ok (os_canonicalize sys fs p)) \<and>
     (\<forall>fs p c. plain (p @ [c]) \<longrightarrow> node_at fs p = Some Dir \<longrightarrow> node_at fs (p @ [c]) = None \<longrightarrow> \<not> os_exists sys fs (p @ [c]))"

lemma path_components_clean: "CHR ''/'' \<notin> set acc \<Longrightarrow> c \<in> set (path_components acc s) \<Longrightarrow> CHR ''/'' \<notin> set c"
  by (induction acc s rule: path_components.induct) (auto split: if_splits)

lemma components_clean: "c \<in> set (components s) \<Longrightarrow> is_normal c \<Longrightarrow> proper_name c"
  using path_components_clean [of "[]" c s]
  by (auto simp: components_def Let_def proper_name_def is_normal_def split: if_splits)

lemma existing_ancestor_split:
  assumes "existing_ancestor ex p = Inr (a, missing)"
  shows "p = a @ missing \<and> ex a \<and> list_all is_normal missing"
  using assms
proof (induction ex p arbitrary: a missing rule: existing_ancestor.induct)
  case (1 ex p)
  show ?case
  proof (cases "ex p")
    case True
    then show ?thesis using 1(2) unfolding existing_ancestor.simps [of ex p] by simp
  next
    case False
    then obtain name q b m where q: "path_file_name p = Some name" "path_parent p = Some q" "existing_ancestor ex q = Inr (b, m)"
      "a = b" "missing = m @ [name]"
      using 1(2) unfolding existing_ancestor.simps [of ex p] by (auto split: option.splits)
    have "q = b @ m \<and> ex b \<and> list_all is_normal m" using 1(1) False q by blast
    moreover have "p = q @ [name]" "is_normal name"
      using q(1,2) by (auto simp: path_file_name_def path_parent_def split: if_splits)
    ultimately show ?thesis using q by simp
  qed
qed

lemma plain_append: "plain p \<Longrightarrow> list_all proper_name names \<Longrightarrow> plain (p @ names)"
  by (cases p) (auto simp: plain_def path_absolute_def)

lemma resolve_path_plain:
  assumes "resolves sys" "resolve_path sys fs raw must = Inr p"
  shows "plain p" and "must \<Longrightarrow> node_at fs p \<noteq> None"
proof -
  have c: "os_canonicalize sys fs p = Inr q \<Longrightarrow> plain q \<and> node_at fs q \<noteq> None" for p q
    using assms(1) unfolding resolves_def by blast
  show "must \<Longrightarrow> node_at fs p \<noteq> None" using assms(2) c by (auto simp: resolve_path_def Let_def)
  show "plain p"
  proof (cases "must \<or> os_exists sys fs (components raw)")
    case True
    then show ?thesis using assms(2) c by (auto simp: resolve_path_def Let_def)
  next
    case False
    then obtain a missing q where a: "existing_ancestor (os_exists sys fs) (components raw) = Inr (a, missing)"
      "os_canonicalize sys fs a = Inr q" "p = q @ missing"
      using assms(2) by (auto simp: resolve_path_def Let_def)
    from existing_ancestor_split [OF a(1)] have "list_all proper_name missing"
      by (auto simp: list_all_iff intro!: components_clean [of _ raw])
    then show ?thesis using c [OF a(2)] a(3) plain_append by blast
  qed
qed

lemma checked_path_cases:
  assumes "checked_path env x params key must None = Inr p"
  obtains raw where "get_str params key = Some raw" "resolve_path (xe_os env) (xr_files x) raw must = Inr p"
    "under_roots (xr_allowed_roots x) p"
  using assms by (auto simp: checked_path_def ok_or_def split: if_splits option.splits)

subsection \<open>Staying below the roots\<close>

text \<open>A change of files that keeps the tree and everything outside the roots.\<close>

definition inside :: "path list \<Rightarrow> files \<Rightarrow> files \<Rightarrow> bool" where
  "inside roots fs fs' \<longleftrightarrow> tree_ok fs' \<and> (\<forall>q. \<not> under_roots roots q \<longrightarrow> node_at fs' q = node_at fs q)"

lemma inside_refl: "tree_ok fs \<Longrightarrow> inside roots fs fs"
  by (simp add: inside_def)

lemma inside_trans: "inside roots fs fs' \<Longrightarrow> inside roots fs' fs'' \<Longrightarrow> inside roots fs fs''"
  by (simp add: inside_def)

lemma under_roots_within: "under_roots roots p \<Longrightarrow> path_within q p \<Longrightarrow> under_roots roots q"
  by (auto simp: under_roots_def list_ex_iff intro: path_within_trans)

lemma create_dir_all_lookup:
  assumes "path_absolute p" "create_dir_all sys fs p = Inr fs'"
  shows "node_at fs' q = (if node_at fs q = None \<and> between [''/''] (tl p) q then Some Dir else node_at fs q)"
    and "between [''/''] (tl p) q \<Longrightarrow> node_at fs' q = Some Dir" and "bt_wf fs \<Longrightarrow> bt_wf fs'"
proof -
  have m: "make_dirs fs [''/''] (tl p) = Some fs'"
    using assms by (cases p) (auto simp: create_dir_all_def os_call_Inr path_absolute_def split: if_splits)
  from node_at_make_dirs [OF m] show
    "node_at fs' q = (if node_at fs q = None \<and> between [''/''] (tl p) q then Some Dir else node_at fs q)"
    "between [''/''] (tl p) q \<Longrightarrow> node_at fs' q = Some Dir" by blast+
  show "bt_wf fs \<Longrightarrow> bt_wf fs'" by (rule make_dirs_wf [OF m])
qed

lemma between_parent:
  assumes "between [''/''] names q"
  shows "path_parent q = Some [''/''] \<or> (\<exists>q'. path_parent q = Some q' \<and> between [''/''] names q')"
proof -
  from assms obtain pre post where q: "pre \<noteq> []" "names = pre @ post" "q = ''/'' # pre" by (auto simp: between_def)
  then have p: "path_parent q = Some (''/'' # butlast pre)" by (simp add: path_parent_def)
  show ?thesis
  proof (cases "butlast pre = []")
    case False
    then have "between [''/''] names (''/'' # butlast pre)"
      using q(1,2) unfolding between_def by (metis append_Cons append_Nil append_assoc append_butlast_last_id)
    with p show ?thesis by blast
  qed (use p in simp)
qed

lemma create_dir_all_tree:
  assumes "tree_ok fs" "path_absolute p" "create_dir_all sys fs p = Inr fs'"
  shows "tree_ok fs'"
proof -
  note look = create_dir_all_lookup [OF assms(2,3)]
  have root: "node_at fs [''/''] = Some Dir" "bt_wf fs" using assms(1) by (simp_all add: tree_ok_def)
  have "\<exists>r. path_parent q = Some r \<and> node_at fs' r = Some Dir" if "node_at fs' q \<noteq> None" "q \<noteq> [''/'']" for q
  proof (cases "node_at fs q = None")
    case True
    with that(1) have "between [''/''] (tl p) q" using look(1) [of q] by (auto split: if_splits)
    from between_parent [OF this] show ?thesis using look(1) [of "[''/'']"] look(2) root by auto
  next
    case False
    with assms(1) that(2) obtain r where "path_parent q = Some r" "node_at fs r = Some Dir" unfolding tree_ok_def by blast
    then show ?thesis using look(1) [of r] by auto
  qed
  with root look(3) look(1) [of "[''/'']"] show ?thesis by (auto simp: tree_ok_def)
qed

text \<open>Directories made above a path below an existing root are below that root, or there already.\<close>

lemma create_dir_all_inside:
  assumes "tree_ok fs" "path_absolute p" "create_dir_all sys fs p = Inr fs'"
    and root: "root \<in> set roots" "path_within p root" "root \<noteq> []" "node_at fs root \<noteq> None"
  shows "inside roots fs fs'"
proof -
  note look = create_dir_all_lookup [OF assms(2,3)]
  have "node_at fs' q = node_at fs q" if out: "\<not> under_roots roots q" for q
  proof (rule ccontr)
    assume "node_at fs' q \<noteq> node_at fs q"
    then have new: "node_at fs q = None" "between [''/''] (tl p) q" using look(1) [of q] by (auto split: if_splits)
    then have q: "path_within p q" using assms(2) by (cases p) (auto simp: between_def path_within_iff path_absolute_def)
    have "\<not> path_within q root" using out root(1) by (auto simp: under_roots_def list_ex_iff)
    with q root(2) obtain r where r: "root = q @ r" "r \<noteq> []"
      by (auto simp: path_within_iff append_eq_append_conv2)
    moreover have "q \<noteq> []" using new(2) by (auto simp: between_def)
    ultimately show False using tree_above [OF assms(1), of q r] root(4) new(1) by simp
  qed
  then show ?thesis using create_dir_all_tree [OF assms(1-3)] by (simp add: inside_def)
qed

lemma write_file_lookup:
  assumes "write_file sys fs p b = Inr fs'"
  shows "fs' = bt_insert p (File b) fs" "Option.bind (path_parent p) (node_at fs) = Some Dir" "node_at fs p \<noteq> Some Dir"
  using assms by (auto simp: write_file_def os_call_Inr is_file_def split: if_splits option.splits node.splits)

lemma write_file_tree:
  assumes "tree_ok fs" "write_file sys fs p b = Inr fs'"
  shows "tree_ok fs'"
proof -
  note w = write_file_lookup [OF assms(2)]
  have "p \<noteq> [''/'']" using w(2) by (auto simp: path_parent_def)
  then have "bt_wf fs'" "node_at fs' [''/''] = Some Dir" using assms(1) w(1) by (simp_all add: tree_ok_def bt_get_insert_any bt_wf_insert)
  moreover have "\<exists>q'. path_parent q = Some q' \<and> node_at fs' q' = Some Dir" if "node_at fs' q \<noteq> None" "q \<noteq> [''/'']" for q
  proof -
    have "\<exists>q'. path_parent q = Some q' \<and> node_at fs q' = Some Dir"
    proof (cases "q = p")
      case True
      then show ?thesis using w(2) by (auto simp: bind_eq_Some_conv)
    next
      case False
      then have "node_at fs q \<noteq> None" using that(1) w(1) by (simp add: bt_get_insert_any)
      with assms(1) that(2) show ?thesis unfolding tree_ok_def by blast
    qed
    then show ?thesis using w(1,3) by (auto simp: bt_get_insert_any)
  qed
  ultimately show ?thesis unfolding tree_ok_def by blast
qed

lemma write_file_inside:
  assumes "tree_ok fs" "write_file sys fs p b = Inr fs'" "under_roots roots p"
  shows "inside roots fs fs'"
  using write_file_tree [OF assms(1,2)] write_file_lookup(1) [OF assms(2)] assms(3)
  by (auto simp: inside_def bt_get_insert_any)

lemma rename_lookup: "rename sys fs a b = Inr fs' \<Longrightarrow> fs' = rename_to a b fs \<and> rename_allowed fs a b"
  by (auto simp: rename_def os_call_Inr split: if_splits)

lemma rename_inside:
  assumes "tree_ok fs" "rename sys fs a b = Inr fs'" "under_roots roots a" "under_roots roots b" "a \<noteq> [''/'']"
  shows "inside roots fs fs'"
proof -
  have r: "fs' = rename_to a b fs" "rename_allowed fs a b" using rename_lookup [OF assms(2)] by simp_all
  show ?thesis
    unfolding inside_def r(1) node_at_rename [OF assms(1) r(2)]
    using rename_tree [OF assms(1) r(2) assms(5)] under_roots_within assms(3,4) by auto
qed

subsection \<open>The changing actions\<close>

definition strictly_under :: "path list \<Rightarrow> path \<Rightarrow> bool" where
  "strictly_under roots p \<longleftrightarrow> (\<exists>root \<in> set roots. path_within p root \<and> p \<noteq> root)"

definition roots_exist :: "executor_runtime \<Rightarrow> bool" where
  "roots_exist x \<longleftrightarrow> (\<forall>root \<in> set (xr_allowed_roots x). root \<noteq> [] \<and> node_at (xr_files x) root \<noteq> None)"

lemma plain_strict:
  assumes "plain p" "strictly_under roots p" "\<forall>root \<in> set roots. root \<noteq> []"
  obtains q name root where "p = q @ [name]" "proper_name name" "path_absolute q" "root \<in> set roots" "path_within q root"
proof -
  from assms(2) obtain root where root: "root \<in> set roots" "path_within p root" "p \<noteq> root" by (auto simp: strictly_under_def)
  then obtain r where r: "p = root @ r" "r \<noteq> []" by (auto simp: path_within_iff)
  with root assms(3) have ne: "root \<noteq> []" by blast
  have "p = (root @ butlast r) @ [last r]" using r by simp
  moreover have "proper_name (last r)" using assms(1) r ne by (cases root) (auto simp: plain_def list_all_iff)
  moreover have "path_absolute (root @ butlast r)" using assms(1) r ne by (cases root) (auto simp: plain_def path_absolute_def)
  ultimately show thesis using that root(1) by (metis path_within_iff)
qed

lemma fs_step_Inr: "fs_step fail res x = (Inr u, y) \<Longrightarrow> \<exists>fs. res = Inr fs \<and> y = put_files fs x"
  by (auto simp: fs_step_def split: sum.splits)

lemma fs_step_inside:
  assumes "inside roots fs (xr_files x)" "\<And>fs'. res = Inr fs' \<Longrightarrow> inside roots (xr_files x) fs'"
  shows "inside roots fs (xr_files (snd (fs_step fail res x)))"
  using assms by (auto simp: fs_step_def put_files_def split: sum.splits intro: inside_trans)

lemma inside_tree: "inside roots fs fs' \<Longrightarrow> tree_ok fs'"
  by (simp add: inside_def)

lemma sibling_under: "root \<in> set roots \<Longrightarrow> path_within q root \<Longrightarrow> under_roots roots (q @ names)"
  unfolding under_roots_def list_ex_iff path_within_iff by (metis append_assoc)

lemma temporary_sibling: "proper_name name \<Longrightarrow> \<exists>t. temporary env (q @ [name]) = q @ [t]"
  by (simp add: temporary_def with_extension_def path_file_name_def proper_name_def)

lemma replace_contents_inside:
  assumes "inside roots fs (xr_files x)" "root \<in> set roots" "path_within q root" "q \<noteq> []" "proper_name name"
  shows "inside roots fs (xr_files (snd (replace_contents env code (q @ [name]) c x)))"
proof -
  obtain t where t: "temporary env (q @ [name]) = q @ [t]" using temporary_sibling [OF assms(5)] by blast
  note under = sibling_under [OF assms(2,3)]
  show ?thesis
    unfolding replace_contents_def Let_def t
    by (intro sbind_inv [where Q = "\<lambda>y. inside roots fs (xr_files y)"] fs_step_inside assms(1))
      (use under assms(4) in \<open>auto intro: write_file_inside rename_inside inside_tree assms(1)\<close>)
qed

lemma fs_write_inside:
  assumes "tree_ok (xr_files x)" "resolves (xe_os env)" "roots_exist x"
    and strict: "\<And>p. write_path env x params ''path'' False = Inr p \<Longrightarrow> strictly_under (xr_allowed_roots x) p"
  shows "inside (xr_allowed_roots x) (xr_files x) (xr_files (snd (fs_write env params x)))"
proof (cases "write_path env x params ''path'' False")
  case (Inr p)
  from Inr obtain raw where raw: "resolve_path (xe_os env) (xr_files x) raw False = Inr p" by (rule checked_path_cases)
  have ne: "\<forall>root \<in> set (xr_allowed_roots x). root \<noteq> []" using assms(3) by (simp add: roots_exist_def)
  from plain_strict [OF resolve_path_plain(1) [OF assms(2) raw] strict [OF Inr] ne]
  obtain q name root where p: "p = q @ [name]" "proper_name name" "path_absolute q" "root \<in> set (xr_allowed_roots x)" "path_within q root" .
  have qn: "q \<noteq> []" using p(3) by (simp add: path_absolute_def)
  have parent: "path_parent p = Some q" using p(1) qn by (simp add: path_parent_def)
  have dirs: "inside (xr_allowed_roots x) (xr_files x) fs'" if "create_dir_all (xe_os env) (xr_files x) q = Inr fs'" for fs'
    using create_dir_all_inside [OF assms(1) p(3) that p(4,5)] assms(3) p(4) by (auto simp: roots_exist_def)
  have "inside (xr_allowed_roots x) (xr_files x) (xr_files (snd (sbind
      (fs_step f (create_dir_all (xe_os env) (xr_files x) q) x) (\<lambda>_. replace_contents env code (q @ [name]) c))))" for f code c
    by (intro sbind_inv [where Q = "\<lambda>y. inside (xr_allowed_roots x) (xr_files x) (xr_files y)"] fs_step_inside)
      (auto intro: replace_contents_inside [OF _ p(4,5) qn p(2)] inside_refl assms(1) dirs)
  then show ?thesis
    using Inr parent p(1) by (auto simp: fs_write_def sbind_def inside_refl [OF assms(1)] split: sum.splits)
qed (simp add: fs_write_def inside_refl assms(1))

lemma fs_patch_inside:
  assumes "tree_ok (xr_files x)" "resolves (xe_os env)" "roots_exist x"
    and strict: "\<And>p. write_path env x params ''path'' True = Inr p \<Longrightarrow> strictly_under (xr_allowed_roots x) p"
  shows "inside (xr_allowed_roots x) (xr_files x) (xr_files (snd (fs_patch env params x)))"
proof (cases "write_path env x params ''path'' True")
  case (Inr p)
  from Inr obtain raw where raw: "resolve_path (xe_os env) (xr_files x) raw True = Inr p" by (rule checked_path_cases)
  have ne: "\<forall>root \<in> set (xr_allowed_roots x). root \<noteq> []" using assms(3) by (simp add: roots_exist_def)
  from plain_strict [OF resolve_path_plain(1) [OF assms(2) raw] strict [OF Inr] ne]
  obtain q name root where p: "p = q @ [name]" "proper_name name" "path_absolute q" "root \<in> set (xr_allowed_roots x)" "path_within q root" .
  have qn: "q \<noteq> []" using p(3) by (simp add: path_absolute_def)
  show ?thesis
    using Inr replace_contents_inside [OF inside_refl [OF assms(1)] p(4,5) qn p(2)] p(1)
    by (auto simp: fs_patch_def sbind_def inside_refl [OF assms(1)] split: sum.splits)
qed (simp add: fs_patch_def inside_refl assms(1))

lemma fs_remove_inside:
  assumes "tree_ok (xr_files x)" "resolves (xe_os env)" "roots_exist x"
    and strict: "\<And>p. write_path env x params ''path'' True = Inr p \<Longrightarrow> strictly_under (xr_allowed_roots x) p"
  shows "inside (xr_allowed_roots x) (xr_files x) (xr_files (snd (fs_remove env params x)))"
proof (cases "write_path env x params ''path'' True")
  case (Inr p)
  from Inr obtain raw where raw: "resolve_path (xe_os env) (xr_files x) raw True = Inr p" "under_roots (xr_allowed_roots x) p"
    by (rule checked_path_cases)
  have ne: "\<forall>root \<in> set (xr_allowed_roots x). root \<noteq> []" using assms(3) by (simp add: roots_exist_def)
  from plain_strict [OF resolve_path_plain(1) [OF assms(2) raw(1)] strict [OF Inr] ne]
  obtain q name root where p: "p = q @ [name]" "proper_name name" "path_absolute q" "root \<in> set (xr_allowed_roots x)" "path_within q root" .
  have qn: "q \<noteq> []" using p(3) by (simp add: path_absolute_def)
  have parent: "path_parent p = Some q" "p \<noteq> [''/'']" using p(1) qn by (auto simp: path_parent_def)
  have abs: "path_absolute (q @ [t])" for t using p(3) by (cases q) (auto simp: path_absolute_def)
  have dirs: "inside (xr_allowed_roots x) (xr_files x) fs'" if "create_dir_all (xe_os env) (xr_files x) (q @ [t]) = Inr fs'" for fs' t
  proof -
    have "path_within (q @ [t]) root" using p(5) by (auto simp: path_within_iff)
    then show ?thesis
      using create_dir_all_inside [OF assms(1) abs that p(4)] assms(3) p(4) by (auto simp: roots_exist_def)
  qed
  have moved: "inside (xr_allowed_roots x) fs fs'" if "tree_ok fs" "rename (xe_os env) fs p (q @ [t, d]) = Inr fs'" for fs fs' t d
    using rename_inside [OF that raw(2) _ parent(2)] sibling_under [OF p(4,5), of "[t, d]"] by blast
  have tail: "inside (xr_allowed_roots x) (xr_files x) (xr_files (snd (sbind
      (fs_step f (create_dir_all (xe_os env) (xr_files x) (q @ [t])) x) (\<lambda>_ x.
        sbind (fs_step g (rename (xe_os env) (xr_files x) p (q @ [t, d])) x) (\<lambda>_ x. (Inr v, x))))))" for f g t d v
    by (intro sbind_inv [where Q = "\<lambda>y. inside (xr_allowed_roots x) (xr_files x) (xr_files y)"] fs_step_inside)
      (auto intro: inside_refl assms(1) dirs moved inside_tree)
  show ?thesis
    using Inr parent tail
    by (auto simp: fs_remove_def Let_def inside_refl [OF assms(1)] sbind_def [of "(_, x)"] ok_or_def split: sum.splits)
qed (simp add: fs_remove_def inside_refl assms(1))

lemma fs_restore_inside:
  assumes "tree_ok (xr_files x)" "resolves (xe_os env)" "roots_exist x"
  shows "inside (xr_allowed_roots x) (xr_files x) (xr_files (snd (fs_restore env params x)))"
proof (cases "write_path env x params ''path'' False")
  case (Inr p)
  from Inr have p: "under_roots (xr_allowed_roots x) p" by (rule checked_path_cases)
  show ?thesis
  proof (cases "write_path env x params ''restoreToken'' True")
    case token: (Inr token)
    then have t: "under_roots (xr_allowed_roots x) token" by (rule checked_path_cases)
    have "inside (xr_allowed_roots x) (xr_files x) (xr_files (snd (sbind (fs_step f (rename (xe_os env) (xr_files x) token p) x)
        (\<lambda>_ x. (Inr v, x)))))" if "path_parent token \<noteq> None" for f v
      by (intro sbind_inv [where Q = "\<lambda>y. inside (xr_allowed_roots x) (xr_files x) (xr_files y)"] fs_step_inside)
        (use that in \<open>auto intro: inside_refl assms(1) rename_inside [OF assms(1) _ t p] simp: path_parent_def\<close>)
    then show ?thesis using Inr token
      by (auto simp: fs_restore_def inside_refl [OF assms(1)] bind_eq_Some_conv)
  qed (simp add: fs_restore_def Inr inside_refl assms(1))
qed (simp add: fs_restore_def inside_refl assms(1))

lemma fs_mkdir_inside:
  assumes "tree_ok (xr_files x)" "resolves (xe_os env)" "roots_exist x"
  shows "inside (xr_allowed_roots x) (xr_files x) (xr_files (snd (fs_mkdir env params x)))"
proof (cases "write_path env x params ''path'' False")
  case (Inr p)
  from Inr obtain raw where raw: "resolve_path (xe_os env) (xr_files x) raw False = Inr p" "under_roots (xr_allowed_roots x) p"
    by (rule checked_path_cases)
  have abs: "path_absolute p" using resolve_path_plain(1) [OF assms(2) raw(1)] by (simp add: plain_def)
  from raw(2) obtain root where root: "root \<in> set (xr_allowed_roots x)" "path_within p root" by (auto simp: under_roots_def list_ex_iff)
  have "inside (xr_allowed_roots x) (xr_files x) (xr_files (snd (sbind (fs_step f (create_dir_all (xe_os env) (xr_files x) p) x)
      (\<lambda>_ x. (Inr v, x)))))" for f v
    by (intro sbind_inv [where Q = "\<lambda>y. inside (xr_allowed_roots x) (xr_files x) (xr_files y)"] fs_step_inside)
      (use assms(3) root in \<open>auto intro: inside_refl assms(1) create_dir_all_inside [OF assms(1) abs] simp: roots_exist_def\<close>)
  then show ?thesis using Inr by (simp add: fs_mkdir_def)
qed (simp add: fs_mkdir_def inside_refl assms(1))

definition file_actions :: "string list" where
  "file_actions =
     [''filesystem.stat'', ''fs.stat'', ''filesystem.resolve'', ''fs.resolve'', ''filesystem.read'', ''fs.read'', ''filesystem.list'',
      ''fs.list'', ''filesystem.search'', ''fs.search'', ''filesystem.mkdir'', ''filesystem.restore'', ''fs.restore'',
      ''filesystem.write'', ''fs.write'', ''filesystem.patch'', ''fs.patch'', ''filesystem.remove'', ''fs.remove'']"

text \<open>
  C8. The file actions stay inside the allowed roots. When path resolution does what the
  system documents, no action on files changes anything outside the roots, and each keeps the files a
  tree, provided that a path to be written, patched or removed lies strictly below a root.
\<close>

theorem files_confined:
  assumes "tree_ok (xr_files x)" "resolves (xe_os env)" "roots_exist x" "action \<in> set file_actions"
    and strict: "\<And>p must. action \<in> set (drop 13 file_actions) \<Longrightarrow> write_path env x params ''path'' must = Inr p \<Longrightarrow>
      strictly_under (xr_allowed_roots x) p"
    and "executor_dispatch env action params x = (r, x')"
  shows "tree_ok (xr_files x') \<and> (\<forall>q. \<not> under_roots (xr_allowed_roots x) q \<longrightarrow> node_at (xr_files x') q = node_at (xr_files x) q)"
proof -
  have "inside (xr_allowed_roots x) (xr_files x) (xr_files (snd (executor_dispatch env action params x)))"
    using assms(4)
    unfolding file_actions_def set_simps insert_iff empty_iff
    by (elim disjE; simp add: executor_dispatch_def answer_def inside_refl assms(1) fs_restore_inside fs_mkdir_inside
        fs_write_inside fs_patch_inside fs_remove_inside assms(2,3) strict file_actions_def)
  then show ?thesis using assms(6) by (simp add: inside_def)
qed

subsection \<open>Compare and swap\<close>

text \<open>A file moved over another file or to a free name changes these two names only.\<close>

lemma rename_file_lookup:
  assumes "tree_ok fs" "rename sys fs a b = Inr fs'" "node_at fs a = Some (File c)"
  shows "node_at fs' b = Some (File c)" "node_at fs' a = None" "q \<noteq> a \<Longrightarrow> q \<noteq> b \<Longrightarrow> node_at fs' q = node_at fs q"
proof -
  have r: "fs' = rename_to a b fs" "rename_allowed fs a b" using rename_lookup [OF assms(2)] by simp_all
  note look = node_at_rename [OF assms(1) r(2), folded r(1)]
  have ne: "a \<noteq> []" "b \<noteq> []" using tree_no_Nil [OF assms(1)] assms(3) r(2) by (auto simp: rename_allowed_def path_parent_def)
  have ab: "\<not> path_within b a" using r(2) by (simp add: rename_allowed_def)
  have leaf: "node_at fs (a @ t) = None" if "t \<noteq> []" for t
    using tree_above [OF assms(1) _ that ne(1)] assms(3) by force
  have nb: "node_at fs b \<noteq> Some Dir" using r(2) assms(3) by (auto simp: rename_allowed_def split: option.splits)
  have leaf': "node_at fs (b @ t) = None" if "t \<noteq> []" for t
    using tree_above [OF assms(1) _ that ne(2)] nb by force
  show "node_at fs' b = Some (File c)" using look [of b] assms(3) by (simp add: path_within_iff)
  have "\<not> path_within a b"
  proof
    assume "path_within a b"
    then obtain t where t: "a = b @ t" by (auto simp: path_within_iff)
    with ab leaf' [of t] assms(3) show False by (cases "t = []") (auto simp: path_within_iff)
  qed
  then show "node_at fs' a = None" using look [of a] by (simp add: path_within_iff)
  show "node_at fs' q = node_at fs q" if other: "q \<noteq> a" "q \<noteq> b"
  proof (cases "path_within q b")
    case True
    then obtain t where t: "q = b @ t" "t \<noteq> []" using other(2) by (auto simp: path_within_iff)
    then show ?thesis using look [of q] leaf [of t] leaf' [of t] by (simp add: path_within_iff)
  next
    case False
    then show ?thesis using look [of q] leaf other(1) by (auto simp: path_within_iff) (metis leaf)
  qed
qed

lemma replace_contents_success:
  assumes "tree_ok (xr_files x)" "replace_contents env code p c x = (Inr v, x')"
  shows "node_at (xr_files x') p = Some (File c)" "node_at (xr_files x') (temporary env p) = None"
    "q \<noteq> p \<Longrightarrow> q \<noteq> temporary env p \<Longrightarrow> node_at (xr_files x') q = node_at (xr_files x) q"
    "v = JObj [(''digest'', JStr (xe_sha env c)), (''path'', jpath p)]"
proof -
  let ?t = "temporary env p"
  from assms(2) obtain fs1 fs2 d where w: "write_file (xe_os env) (xr_files x) ?t c = Inr fs1" "rename (xe_os env) fs1 ?t p = Inr fs2"
    "x' = x\<lparr>xr_files := fs2\<rparr>" and d: "digest_file env fs2 p = Inr d" "v = JObj [(''digest'', JStr d), (''path'', jpath p)]"
    by (auto simp: replace_contents_def Let_def sbind_Inr put_files_def dest!: fs_step_Inr)
  have fs1: "fs1 = bt_insert ?t (File c) (xr_files x)" "tree_ok fs1"
    using write_file_lookup(1) [OF w(1)] write_file_tree [OF assms(1) w(1)] by simp_all
  have t: "node_at fs1 ?t = Some (File c)" using fs1(1) by (simp add: bt_get_insert_any)
  note look = rename_file_lookup [OF fs1(2) w(2) t]
  have x': "xr_files x' = fs2" using w(3) by simp
  show "node_at (xr_files x') p = Some (File c)" "node_at (xr_files x') ?t = None" using look x' by simp_all
  show "node_at (xr_files x') q = node_at (xr_files x) q" if "q \<noteq> p" "q \<noteq> ?t"
    using look(3) [OF that(2,1)] fs1(1) that x' by (simp add: bt_get_insert_any)
  have "d = xe_sha env c" using d(1) look(1) by (auto simp: digest_file_def read_file_def os_call_Inr)
  with d(2) show "v = JObj [(''digest'', JStr (xe_sha env c)), (''path'', jpath p)]" by simp
qed

text \<open>Whatever the outcome, the file has its old or its new contents.\<close>

lemma replace_contents_any:
  assumes "tree_ok (xr_files x)" "replace_contents env code p c x = (r, x')"
  shows "node_at (xr_files x') p = node_at (xr_files x) p \<or> node_at (xr_files x') p = Some (File c)"
    "q \<noteq> p \<Longrightarrow> q \<noteq> temporary env p \<Longrightarrow> node_at (xr_files x') q = node_at (xr_files x) q"
proof -
  let ?t = "temporary env p"
  have "(node_at (xr_files x') p = node_at (xr_files x) p \<or> node_at (xr_files x') p = Some (File c)) \<and>
    (\<forall>q. q \<noteq> p \<longrightarrow> q \<noteq> ?t \<longrightarrow> node_at (xr_files x') q = node_at (xr_files x) q)"
  proof (cases "write_file (xe_os env) (xr_files x) ?t c")
    case (Inl e)
    then show ?thesis using assms(2) by (simp add: replace_contents_def Let_def fs_step_def)
  next
    case (Inr fs1)
    then have fs1: "fs1 = bt_insert ?t (File c) (xr_files x)" "tree_ok fs1"
      using write_file_lookup(1) write_file_tree [OF assms(1)] by blast+
    show ?thesis
    proof (cases "rename (xe_os env) fs1 ?t p")
      case (Inl e)
      then have "xr_files x' = fs1" using Inr assms(2) by (auto simp: replace_contents_def Let_def fs_step_def put_files_def)
      then show ?thesis using fs1(1) by (simp add: bt_get_insert_any)
    next
      case (Inr fs2)
      have t: "node_at fs1 ?t = Some (File c)" using fs1(1) by (simp add: bt_get_insert_any)
      note look = rename_file_lookup [OF fs1(2) Inr t]
      have "xr_files x' = fs2"
        using Inr \<open>write_file (xe_os env) (xr_files x) ?t c = Inr fs1\<close> assms(2)
        by (auto simp: replace_contents_def Let_def fs_step_def put_files_def)
      then show ?thesis using look(1) look(3) fs1(1) by (auto simp: bt_get_insert_any)
    qed
  qed
  then show "node_at (xr_files x') p = node_at (xr_files x) p \<or> node_at (xr_files x') p = Some (File c)"
    "q \<noteq> p \<Longrightarrow> q \<noteq> temporary env p \<Longrightarrow> node_at (xr_files x') q = node_at (xr_files x) q" by auto
qed

text \<open>The directories made for a file keep every node, and the file itself is not among them.\<close>

lemma parent_made:
  assumes "tree_ok (xr_files x)" "plain p"
    "(case path_parent p of None \<Rightarrow> (Inr (), x)
       | Some parent \<Rightarrow> fs_step (fail parent) (create_dir_all sys (xr_files x) parent) x) = (r, x1)"
  shows "tree_ok (xr_files x1)" "node_at (xr_files x) q = Some n \<Longrightarrow> node_at (xr_files x1) q = Some n"
    "node_at (xr_files x1) p = node_at (xr_files x) p"
proof -
  have "tree_ok (xr_files x1) \<and> (\<forall>q n. node_at (xr_files x) q = Some n \<longrightarrow> node_at (xr_files x1) q = Some n) \<and>
    node_at (xr_files x1) p = node_at (xr_files x) p"
  proof (cases "path_parent p")
    case None
    with assms show ?thesis by simp
  next
    case (Some d)
    then have d: "path_absolute d" "length d < length p"
      using assms(2) by (cases p; auto simp: path_parent_def plain_def path_absolute_def split: if_splits)+
    show ?thesis
    proof (cases "create_dir_all sys (xr_files x) d")
      case (Inl e)
      with Some assms show ?thesis by (auto simp: fs_step_def)
    next
      case (Inr fs1)
      with Some assms(3) have fs1: "xr_files x1 = fs1" by (auto simp: fs_step_def put_files_def)
      have "\<not> between [''/''] (tl d) p"
      proof
        assume "between [''/''] (tl d) p"
        then have "length p \<le> length d" using d(1) by (cases d) (auto simp: between_def path_absolute_def)
        with d(2) show False by simp
      qed
      then show ?thesis
        using create_dir_all_tree [OF assms(1) d(1) Inr] create_dir_all_lookup(1) [OF d(1) Inr] fs1 by auto
    qed
  qed
  then show "tree_ok (xr_files x1)" "node_at (xr_files x) q = Some n \<Longrightarrow> node_at (xr_files x1) q = Some n"
    "node_at (xr_files x1) p = node_at (xr_files x) p" by blast+
qed

lemma expected_held:
  assumes "expected_unchanged env params x p = Inr u" "get_str params ''expectedDigest'' = Some d"
  shows "\<exists>old. node_at (xr_files x) p = Some (File old) \<and> xe_sha env old = d"
  using assms
  by (auto simp: expected_unchanged_def digest_file_def read_file_def os_call_Inr split: if_splits option.splits node.splits)

text \<open>
  C18. Writing is a compare and swap of one file. Whatever the outcome, the file at the path of the request is
  as it was, or it holds exactly the decoded contents, and this only if the digest that the request
  expected, if any, was that of the file before; of what was there, nothing else changes but a file that has
  the name of the temporary file, and a refused path changes nothing at all. When the write succeeds, the file
  holds the decoded contents, the answer is their digest, and no temporary file is left. (An
  error may be answered with the new contents in place, when the file cannot be read back, and may leave
  the temporary file.)
\<close>

theorem write_compare_and_swap:
  assumes "tree_ok (xr_files x)" "resolves (xe_os env)" "fs_write env params x = (r, x')"
  shows "(\<forall>e. write_path env x params ''path'' False = Inl e \<longrightarrow> r = Inl e \<and> x' = x) \<and>
    (\<forall>p. write_path env x params ''path'' False = Inr p \<longrightarrow>
      (\<forall>q n. q \<noteq> p \<longrightarrow> q \<noteq> temporary env p \<longrightarrow> node_at (xr_files x) q = Some n \<longrightarrow> node_at (xr_files x') q = Some n) \<and>
      (node_at (xr_files x') p = node_at (xr_files x) p \<or>
        (\<exists>new. decoded_content env params = Inr new \<and> node_at (xr_files x') p = Some (File new) \<and>
          (\<forall>d. get_str params ''expectedDigest'' = Some d \<longrightarrow>
            (\<exists>old. node_at (xr_files x) p = Some (File old) \<and> xe_sha env old = d)))) \<and>
      (\<forall>v. r = Inr v \<longrightarrow>
        (\<exists>new. decoded_content env params = Inr new \<and> node_at (xr_files x') p = Some (File new) \<and>
          v = JObj [(''digest'', JStr (xe_sha env new)), (''path'', jpath p)] \<and> node_at (xr_files x') (temporary env p) = None \<and>
          (\<forall>d. get_str params ''expectedDigest'' = Some d \<longrightarrow>
            (\<exists>old. node_at (xr_files x) p = Some (File old) \<and> xe_sha env old = d)))))"
proof (cases "write_path env x params ''path'' False")
  case (Inl e)
  then show ?thesis using assms(3) by (simp add: fs_write_def)
next
  case (Inr p)
  show ?thesis
  proof (cases "\<exists>new. decoded_content env params = Inr new \<and> expected_unchanged env params x p = Inr ()")
    case False
    then obtain e where "r = Inl e" "x' = x"
      using assms(3) Inr by (cases "decoded_content env params"; cases "expected_unchanged env params x p") (auto simp: fs_write_def)
    then show ?thesis using Inr by simp
  next
    case True
    then obtain new where new: "decoded_content env params = Inr new" "expected_unchanged env params x p = Inr ()" by blast
    note swap = expected_held [OF new(2)]
    from Inr obtain raw where "resolve_path (xe_os env) (xr_files x) raw False = Inr p" by (rule checked_path_cases)
    then have plain: "plain p" by (rule resolve_path_plain(1) [OF assms(2)])
    obtain u x1 where made: "(case path_parent p of None \<Rightarrow> (Inr (), x)
       | Some parent \<Rightarrow> fs_step (io_error ''FS_WRITE_FAILED'' (path_display parent)) (create_dir_all (xe_os env) (xr_files x) parent) x) = (u, x1)"
      by (rule prod.exhaust)
    note kept = parent_made [OF assms(1) plain made]
    show ?thesis
    proof (cases u)
      case (Inl e)
      then have "r = Inl e" "x' = x1" using assms(3) Inr new made by (auto simp: fs_write_def)
      then show ?thesis using Inr kept \<open>write_path env x params ''path'' False = Inr p\<close> by simp
    next
      case (Inr _)
      then have run: "replace_contents env ''FS_WRITE_FAILED'' p new x1 = (r, x')"
        using assms(3) new made \<open>write_path env x params ''path'' False = Inr p\<close> by (simp add: fs_write_def)
      note any = replace_contents_any [OF kept(1) run]
      have "node_at (xr_files x') q = Some n" if "q \<noteq> p" "q \<noteq> temporary env p" "node_at (xr_files x) q = Some n" for q n
        using any(2) [OF that(1,2)] kept(2) [OF that(3)] by simp
      moreover have "v = JObj [(''digest'', JStr (xe_sha env new)), (''path'', jpath p)] \<and> node_at (xr_files x') p = Some (File new) \<and>
          node_at (xr_files x') (temporary env p) = None" if "r = Inr v" for v
        using replace_contents_success [OF kept(1) run [unfolded that]] by blast
      ultimately show ?thesis
        using any(1) kept(3) new(1) swap \<open>write_path env x params ''path'' False = Inr p\<close> by auto
    qed
  qed
qed

subsection \<open>Removing and restoring\<close>

lemma path_components_append: "CHR ''/'' \<notin> set c \<Longrightarrow> path_components acc (c @ s) = path_components (acc @ c) s"
  by (induction c arbitrary: acc) auto

lemma path_components_slashed:
  "list_all proper_name names \<Longrightarrow> names \<noteq> [] \<Longrightarrow> path_components [] (slashed names) = names"
proof (induction names rule: slashed.induct)
  case (2 c)
  then show ?case using path_components_append [of c "[]" "[]"] by (simp add: proper_name_def)
next
  case (3 c d cs)
  then show ?case using path_components_append [of c "[]" "''/'' @ slashed (d # cs)"] by (simp add: proper_name_def)
qed simp

lemma components_display: "plain p \<Longrightarrow> components (path_display p) = p"
proof -
  assume p: "plain p"
  then obtain names where n: "p = ''/'' # names" "list_all proper_name names" by (cases p) (auto simp: plain_def path_absolute_def)
  have "path_components [] (''/'' @ slashed names) = [] # (if names = [] then [[]] else names)"
    using path_components_slashed [OF n(2)] by simp
  moreover have "filter (\<lambda>c. c \<noteq> [] \<and> c \<noteq> ''.'') names = names"
    using n(2) by (auto simp: list_all_iff proper_name_def is_normal_def intro: filter_True)
  ultimately show ?thesis using n(1)
    by (auto simp: components_def path_display_def path_absolute_def Let_def)
qed

lemma plain_butlast: "plain (q @ [name]) \<Longrightarrow> q \<noteq> [] \<Longrightarrow> plain q \<and> proper_name name"
  by (cases q) (auto simp: plain_def path_absolute_def)

lemma resolves_exists: "resolves sys \<Longrightarrow> os_exists sys fs p \<longleftrightarrow> is_ok (os_canonicalize sys fs p)"
  by (simp add: resolves_def)

lemma resolves_node: "resolves sys \<Longrightarrow> os_canonicalize sys fs p = Inr q \<Longrightarrow> \<exists>n. node_at fs q = Some n \<and> (\<forall>t. n \<noteq> Link t)"
  unfolding resolves_def by (metis option.exhaust)

lemma resolves_self:
  assumes "resolves sys" "tree_ok fs" "plain p" "node_at fs p = Some n" "\<forall>t. n \<noteq> Link t"
  shows "os_canonicalize sys fs p = Inr p" "os_exists sys fs p"
proof -
  show c: "os_canonicalize sys fs p = Inr p" using assms unfolding resolves_def by blast
  show "os_exists sys fs p" using c by (simp add: resolves_exists [OF assms(1)])
qed

lemma resolve_path_free:
  assumes "resolves sys" "tree_ok fs" "plain (q @ [name])" "q \<noteq> []" "node_at fs q = Some Dir" "node_at fs (q @ [name]) = None"
  shows "resolve_path sys fs (path_display (q @ [name])) False = Inr (q @ [name])" "\<not> os_exists sys fs (q @ [name])"
proof -
  show free: "\<not> os_exists sys fs (q @ [name])" using assms unfolding resolves_def by blast
  have q: "plain q" "proper_name name" using plain_butlast [OF assms(3,4)] by simp_all
  have self: "os_canonicalize sys fs q = Inr q" "os_exists sys fs q" using resolves_self [OF assms(1,2) q(1) assms(5)] by simp_all
  have stop: "existing_ancestor (os_exists sys fs) q = Inr (q, [])" using self(2) by (subst existing_ancestor.simps) simp
  have parts: "path_file_name (q @ [name]) = Some name" "path_parent (q @ [name]) = Some q"
    using q(2) assms(4) by (simp_all add: path_file_name_def path_parent_def proper_name_def)
  have "existing_ancestor (os_exists sys fs) (q @ [name]) = Inr (q, [name])"
    unfolding existing_ancestor.simps [of "os_exists sys fs" "q @ [name]"] by (simp add: free parts stop)
  then show "resolve_path sys fs (path_display (q @ [name])) False = Inr (q @ [name])"
    using free self(1) by (simp add: resolve_path_def components_display [OF assms(3)])
qed

definition trash_of :: "path \<Rightarrow> path" where
  "trash_of q = q @ [''.workbench-trash'']"

definition trash_name :: "exec_env \<Rightarrow> string" where
  "trash_name env = dec (unat (xe_clock env 0)) @ ''_'' @ xe_ids env 0"

text \<open>What a removal that succeeds leaves, when the name in the trash is free.\<close>

lemma fs_remove_success:
  assumes "tree_ok (xr_files x)" "resolves (xe_os env)" "fs_remove env params x = (Inr v, x')"
    "write_path env x params ''path'' True = Inr p" "p = q @ [name]" "q \<noteq> []"
    "node_at (xr_files x) (trash_of q @ [trash_name env]) = None"
  shows "v = JObj [(''path'', jpath p), (''removed'', JBool True), (''restoreToken'', jpath (trash_of q @ [trash_name env]))]"
    "tree_ok (xr_files x')" "node_at (xr_files x') q = Some Dir" "node_at (xr_files x') p = None"
    "node_at (xr_files x') (trash_of q @ trash_name env # r) = node_at (xr_files x) (p @ r)"
    "\<not> path_within k p \<Longrightarrow> \<not> path_within k (trash_of q @ [trash_name env]) \<Longrightarrow> k \<noteq> trash_of q \<Longrightarrow>
       node_at (xr_files x') k = node_at (xr_files x) k"
    "xr_allowed_roots x' = xr_allowed_roots x" "\<not> path_within (trash_of q @ [trash_name env]) p"
proof -
  let ?d = "trash_of q @ [trash_name env]"
  have parent: "path_parent p = Some q" "p \<noteq> [''/'']" using assms(5,6) by (auto simp: path_parent_def)
  from assms(3,4) obtain fs1 fs2 where c: "create_dir_all (xe_os env) (xr_files x) (trash_of q) = Inr fs1" "rename (xe_os env) fs1 p ?d = Inr fs2"
    "x' = x\<lparr>xr_files := fs2\<rparr>" and v: "v = JObj [(''path'', jpath p), (''removed'', JBool True), (''restoreToken'', jpath ?d)]"
    by (auto simp: fs_remove_def sbind_Inr Let_def put_files_def trash_of_def trash_name_def parent(1) split: if_splits dest!: fs_step_Inr)
  from assms(4) obtain raw where raw: "resolve_path (xe_os env) (xr_files x) raw True = Inr p" by (rule checked_path_cases)
  have p: "plain p" "node_at (xr_files x) p \<noteq> None" using resolve_path_plain [OF assms(2) raw] by simp_all
  have q: "plain q" "node_at (xr_files x) q = Some Dir"
    using plain_butlast p(1) assms(5,6) tree_above [OF assms(1), of q "[name]"] p(2) by auto
  have abs: "path_absolute (trash_of q)" using q(1) assms(6) by (cases q) (auto simp: plain_def path_absolute_def trash_of_def)
  note look1 = create_dir_all_lookup [OF abs c(1)]
  have t1: "tree_ok fs1" by (rule create_dir_all_tree [OF assms(1) abs c(1)])
  have same: "node_at fs1 k = node_at (xr_files x) k" if "k \<noteq> trash_of q" for k
  proof (rule ccontr)
    assume "node_at fs1 k \<noteq> node_at (xr_files x) k"
    then have k: "node_at (xr_files x) k = None" "between [''/''] (tl (trash_of q)) k" using look1(1) [of k] by (auto split: if_splits)
    from k(2) abs have "path_within (trash_of q) k" by (cases "trash_of q") (auto simp: between_def path_within_iff path_absolute_def)
    then obtain s where s: "trash_of q = k @ s" by (auto simp: path_within_iff)
    have "k \<noteq> []" using k(2) by (auto simp: between_def)
    from s that have "s \<noteq> []" by auto
    then obtain r where "q = k @ r" using s by (cases s rule: rev_cases) (auto simp: trash_of_def)
    then show False using tree_above [OF assms(1), of k r] q(2) k(1) \<open>k \<noteq> []\<close> by (cases "r = []") auto
  qed
  have r: "fs2 = rename_to p ?d fs1" "rename_allowed fs1 p ?d" using rename_lookup [OF c(2)] by simp_all
  note look = node_at_rename [OF t1 r(2), folded r(1)]
  have out: "\<not> path_within ?d p" using r(2) by (simp add: rename_allowed_def)
  have x': "xr_files x' = fs2" using c(3) by simp
  have qp: "\<not> path_within q p" using assms(5) by (auto simp: path_within_iff)
  have qd: "\<not> path_within q ?d" by (auto simp: path_within_iff trash_of_def)
  have pd: "\<not> path_within p ?d" using assms(5) by (auto simp: path_within_iff trash_of_def)
  have qt: "q \<noteq> trash_of q" by (simp add: trash_of_def)
  show "tree_ok (xr_files x')" using rename_tree [OF t1 r(2) parent(2)] r(1) x' by simp
  show "node_at (xr_files x') q = Some Dir" using look [of q] x' qp qd same [OF qt] q(2) by simp
  show "node_at (xr_files x') p = None" using look [of p] x' pd by (simp add: path_within_iff)
  have "p @ r \<noteq> trash_of q" using out unfolding path_within_iff by (metis append_assoc)
  then show "node_at (xr_files x') (trash_of q @ trash_name env # r) = node_at (xr_files x) (p @ r)"
    using look [of "trash_of q @ trash_name env # r"] x' same [of "p @ r"] by (simp add: path_within_iff)
  show "node_at (xr_files x') k = node_at (xr_files x) k" if "\<not> path_within k p" "\<not> path_within k ?d" "k \<noteq> trash_of q"
    using look [of k] x' same [OF that(3)] that by simp
  show "v = JObj [(''path'', jpath p), (''removed'', JBool True), (''restoreToken'', jpath ?d)]" by (rule v)
  show "xr_allowed_roots x' = xr_allowed_roots x" using c(3) by simp
  show "\<not> path_within ?d p" by (rule out)
qed

lemma plain_trash: "plain q \<Longrightarrow> proper_name name \<Longrightarrow> plain (trash_of q @ [name])"
  using plain_append [of q "[''.workbench-trash'', name]"] by (simp add: trash_of_def proper_name_def is_normal_def)

lemma under_roots_below: "under_roots roots q \<Longrightarrow> path_within p q \<Longrightarrow> under_roots roots p"
  unfolding under_roots_def list_ex_iff by (meson path_within_trans)

lemma checked_path_known:
  assumes "resolves (xe_os env)" "tree_ok (xr_files x)" "plain p" "node_at (xr_files x) p = Some n" "\<forall>t. n \<noteq> Link t"
    "under_roots (xr_allowed_roots x) p" "get_str params key = Some (path_display p)"
  shows "write_path env x params key True = Inr p"
  using assms resolves_self [OF assms(1-5)]
  by (simp add: checked_path_def resolve_path_def components_display [OF assms(3)])

text \<open>After a removal the path is free and its token leads to what was there.\<close>

lemma removed_state:
  assumes "tree_ok (xr_files x)" "resolves (xe_os env)" "resolves (xe_os env')"
    "fs_remove env params x = (Inr v, x')" "write_path env x params ''path'' True = Inr p" "path_parent p = Some q"
    "proper_name (trash_name env)" "node_at (xr_files x) (trash_of q @ [trash_name env]) = None"
    and d: "d = trash_of q @ [trash_name env]"
  obtains n name where "p = q @ [name]" "q \<noteq> []" "jindex v ''restoreToken'' = jpath d" "plain d" "node_at (xr_files x') d = Some n"
    "\<forall>t. n \<noteq> Link t" "write_path env' x' (JObj [(''path'', jpath p), (''restoreToken'', jpath d)]) ''path'' False = Inr p"
    "\<not> os_exists (xe_os env') (xr_files x') p"
proof -
  from assms(5) obtain raw where raw: "resolve_path (xe_os env) (xr_files x) raw True = Inr p" "under_roots (xr_allowed_roots x) p"
    by (rule checked_path_cases)
  note p = resolve_path_plain [OF assms(2) raw(1)]
  from raw(1) assms(2) obtain n where n: "node_at (xr_files x) p = Some n" "\<forall>t. n \<noteq> Link t"
    by (auto simp: resolve_path_def Let_def dest: resolves_node)
  from p assms(6) obtain name where name: "p = q @ [name]" "q \<noteq> []"
    by (cases p rule: rev_cases; cases q) (auto simp: path_parent_def plain_def path_absolute_def split: if_splits)
  have q: "plain q" using plain_butlast p(1) name by blast
  note left = fs_remove_success [OF assms(1,2,4,5) name assms(8)]
  have at: "plain d" "node_at (xr_files x') d = Some n" using plain_trash [OF q assms(7)] left(5) [of "[]"] n(1) d by simp_all
  have path: "write_path env' x' (JObj [(''path'', jpath p), (''restoreToken'', jpath d)]) ''path'' False = Inr p"
      and free: "\<not> os_exists (xe_os env') (xr_files x') p"
    using resolve_path_free [OF assms(3) left(2) p(1) [unfolded name(1)] name(2) left(3) left(4) [unfolded name(1)]] raw(2) left(7) name(1)
    by (simp_all add: checked_path_def get_str_def jpath_def bt_get_def)
  have "jindex v ''restoreToken'' = jpath d" using left(1) d by (simp add: jindex_def bt_get_def)
  from that [OF name this at n(2) path free] show thesis .
qed

text \<open>
  C27. A removal moves the path into the trash beside it and answers a token. Restoring with the path and the
  token, below the allowed roots and with no failure of the rename, succeeds and brings back every node:
  only the directory of the trash may remain.
\<close>

theorem remove_restore:
  assumes "tree_ok (xr_files x)" "resolves (xe_os env)" "resolves (xe_os env')"
    and removed: "fs_remove env params x = (Inr v, x')" "write_path env x params ''path'' True = Inr p" "path_parent p = Some q"
    and token: "under_roots (xr_allowed_roots x) q" "proper_name (trash_name env)"
      "node_at (xr_files x) (trash_of q @ [trash_name env]) = None"
      "os_fault (xe_os env') ''rename'' (trash_of q @ [trash_name env]) = None"
  shows "\<exists>x''. fs_restore env' (JObj [(''path'', jpath p), (''restoreToken'', jindex v ''restoreToken'')]) x' =
      (Inr (JObj [(''path'', jpath p), (''restored'', JBool True)]), x'') \<and>
    (\<forall>k. k \<noteq> trash_of q \<longrightarrow> node_at (xr_files x'') k = node_at (xr_files x) k)"
proof -
  define d where d: "d = trash_of q @ [trash_name env]"
  let ?params = "JObj [(''path'', jpath p), (''restoreToken'', jpath d)]" and ?fs = "xr_files x'"
  obtain n name where name: "p = q @ [name]" "q \<noteq> []" and v: "jindex v ''restoreToken'' = jpath d"
    and at: "plain d" "node_at ?fs d = Some n" "\<forall>t. n \<noteq> Link t"
    and path: "write_path env' x' ?params ''path'' False = Inr p" "\<not> os_exists (xe_os env') ?fs p"
    by (rule removed_state [OF assms(1-3) removed token(2,3) d])
  note left = fs_remove_success [OF assms(1,2) removed(1,2) name token(3), folded d]
  have dr: "under_roots (xr_allowed_roots x') d" using under_roots_below [OF token(1)] left(7) by (simp add: d path_within_iff trash_of_def)
  have tok: "write_path env' x' ?params ''restoreToken'' True = Inr d"
    by (rule checked_path_known [OF assms(3) left(2) at dr]) (simp add: get_str_def jpath_def bt_get_def)
  have allowed: "rename_allowed ?fs d p"
    using removed(3) left(3,4) at(2) name by (auto simp: d rename_allowed_def path_within_iff trash_of_def split: node.split)
  have managed: "Option.bind (path_parent d) path_file_name = Some ''.workbench-trash''"
    by (simp add: d path_parent_def path_file_name_def trash_of_def is_normal_def butlast_append)
  have "fs_restore env' ?params x' = (Inr (JObj [(''path'', jpath p), (''restored'', JBool True)]), put_files (rename_to d p ?fs) x')"
    unfolding fs_restore_def
    by (simp add: path tok managed fs_step_def rename_def os_call_def ok_or_def token(4) [folded d] allowed)
  moreover have "node_at (rename_to d p ?fs) k = node_at (xr_files x) k" if "k \<noteq> trash_of q" for k
  proof -
    have "node_at (xr_files x) (d @ r) = None" for r
      using tree_above [OF assms(1), of d r] token(3) by (cases "r = []"; cases "node_at (xr_files x) (d @ r)") (auto simp: d)
    then show ?thesis using left(5) left(6) [OF _ _ that] node_at_rename [OF left(2) allowed, of k] by (auto simp: path_within_iff d)
  qed
  ultimately show ?thesis by (auto simp: v put_files_def)
qed

subsection \<open>A concrete executor\<close>

fun not_link :: "node option \<Rightarrow> bool" where
  "not_link None = False"
| "not_link (Some (Link _)) = False"
| "not_link (Some _) = True"

definition demo_os :: os where
  "demo_os = \<lparr>os_exists = (\<lambda>fs p. plain p \<and> not_link (node_at fs p)),
     os_canonicalize = (\<lambda>fs p. if plain p \<and> not_link (node_at fs p) then Inr p else Inl ''no such file''),
     os_fault = (\<lambda>_ _. None), os_message = (\<lambda>_ _. ''refused''), os_utf8 = id, os_text = (\<lambda>_. True), os_size = (\<lambda>_. 0), os_longest = 64\<rparr>"

definition demo_exec_env :: exec_env where
  "demo_exec_env = \<lparr>xe_platform = Linux, xe_sha = id, xe_jshow = (\<lambda>_. []), xe_clock = (\<lambda>_. 5), xe_ids = (\<lambda>_. ''id''),
     xe_io = (\<lambda>_. None), xe_os = demo_os, xe_dec_grant = (\<lambda>_. Inl []), xe_enc_grant = (\<lambda>_. JNull), xe_enc_capability = (\<lambda>_. JNull),
     xe_conversion = (\<lambda>_. []), xe_base64 = Inr, xe_base64_encode = id,
     xe_pack = (\<lambda>_. []), xe_pack_broken = (\<lambda>_. []), xe_unpack = (\<lambda>_. Inr []), xe_unpack_in = (\<lambda>_ _ fs. (Inr False, fs)), xe_pid = 7, xe_command = (\<lambda>_ _ _ _ fs. (Exited True [] (Some 0) [] [], fs)),
     xe_native = (\<lambda>_ _ fs. (Inr JNull, fs)), xe_close = Inr (), xe_computer_use = JNull, xe_home = None, xe_version = ''0'',
     xe_duration = 1\<rparr>"

definition demo_exec :: "files \<Rightarrow> executor_runtime" where
  "demo_exec fs = \<lparr>xr_id = ''x'', xr_allowed_roots = [[''/'', ''w'']], xr_configured_roots = [''/w''], xr_application_roots = [],
     xr_grantable_read_roots = [], xr_fences = Some \<lparr>fst_table = executor_fences_default, fst_disk = None\<rparr>,
     xr_execution = from_environment None (\<lambda>_. None), xr_relay_root = [''/'', ''s'', ''artifact-relay''], xr_observations = None,
     xr_desktop = \<lparr>ds_queue = desktop_queue_default, ds_disk = None\<rparr>, xr_resources = \<lparr>rs_res = resources_default, rs_disk = None\<rparr>,
     xr_files = fs\<rparr>"

definition demo_files :: files where
  "demo_files = [([''/''], Dir), ([''/'', ''w''], Dir), ([''/'', ''w'', ''a.json''], File ''1''), ([''/'', ''w'', ''a.txt''], File ''2'')]"

lemma demo_resolves: "resolves demo_os"
proof -
  have "not_link n \<longleftrightarrow> n \<noteq> None \<and> (\<forall>t. n \<noteq> Some (Link t))" for n by (cases n rule: not_link.cases) auto
  then show ?thesis by (auto simp: resolves_def demo_os_def)
qed

lemma demo_tree: "tree_ok demo_files"
proof -
  have "bt_wf demo_files" by (simp add: demo_files_def bt_wf_def)
  moreover have "p = [''/''] \<or> (\<exists>q. path_parent p = Some q \<and> node_at demo_files q = Some Dir)" if "node_at demo_files p \<noteq> None" for p
    using that by (auto simp: demo_files_def bt_get_def path_parent_def split: if_splits)
  ultimately show ?thesis by (auto simp: tree_ok_def demo_files_def bt_get_def)
qed

lemma demo_write_path:
  "get_str params ''path'' = Some ''/w/a.txt'' \<Longrightarrow>
   write_path demo_exec_env (demo_exec demo_files) params ''path'' must = Inr [''/'', ''w'', ''a.txt'']"
  by (simp add: checked_path_def resolve_path_def components_def demo_exec_env_def demo_os_def demo_exec_def demo_files_def plain_def
      path_absolute_def proper_name_def is_normal_def bt_get_def under_roots_def path_within_def)

lemma demo_env [simp]:
  "xe_os demo_exec_env = demo_os" "xe_sha demo_exec_env = id" "xe_pid demo_exec_env = 7" "xe_clock demo_exec_env n = 5"
  "xe_ids demo_exec_env n = ''id''"
  by (simp_all add: demo_exec_env_def)

lemma demo_exec_files: "xr_files (demo_exec fs) = fs"
  by (simp add: demo_exec_def)

lemmas demo_defs = demo_os_def demo_exec_def demo_files_def

lemma demo_dec: "dec 5 = ''5''" "dec 7 = ''7''"
  by code_simp+

definition demo_write :: json where
  "demo_write = JObj [(''content'', JStr ''3''), (''expectedDigest'', JStr ''2''), (''path'', JStr ''/w/a.txt'')]"

lemma demo_write_get:
  "get_str demo_write ''path'' = Some ''/w/a.txt''" "get_str demo_write ''content'' = Some ''3''"
  "get_str demo_write ''expectedDigest'' = Some ''2''" "get_str demo_write ''encoding'' = None"
  by (simp_all add: demo_write_def get_str_def bt_get_def)

theorem files_confined_witness:
  "\<exists>r x'. executor_dispatch demo_exec_env ''filesystem.write'' demo_write (demo_exec demo_files) = (r, x') \<and>
     tree_ok (xr_files x') \<and> node_at (xr_files x') [''/''] = Some Dir"
proof -
  obtain r x' where d: "executor_dispatch demo_exec_env ''filesystem.write'' demo_write (demo_exec demo_files) = (r, x')" by fastforce
  have t: "tree_ok (xr_files (demo_exec demo_files))" "resolves (xe_os demo_exec_env)" "roots_exist (demo_exec demo_files)"
    using demo_tree demo_resolves by (simp_all add: demo_exec_def demo_exec_env_def roots_exist_def demo_files_def bt_get_def)
  have s: "strictly_under (xr_allowed_roots (demo_exec demo_files)) p"
    if "write_path demo_exec_env (demo_exec demo_files) demo_write ''path'' must = Inr p" for p must
    using that demo_write_path [OF demo_write_get(1), of must] by (simp add: strictly_under_def demo_exec_def path_within_def)
  from files_confined [OF t _ s d] have "tree_ok (xr_files x')"
    "\<not> under_roots (xr_allowed_roots (demo_exec demo_files)) q \<Longrightarrow> node_at (xr_files x') q = node_at (xr_files (demo_exec demo_files)) q" for q
    by (simp_all add: file_actions_def)
  with d show ?thesis by (auto simp: demo_exec_def under_roots_def path_within_def demo_files_def bt_get_def)
qed

lemma demo_unchanged: "expected_unchanged demo_exec_env demo_write (demo_exec demo_files) [''/'', ''w'', ''a.txt''] = Inr ()"
  by (simp add: expected_unchanged_def demo_write_get digest_file_def read_file_def os_call_def ok_or_def demo_defs bt_get_def plain_def
      path_absolute_def proper_name_def is_normal_def)

lemma demo_written: "\<exists>v x'. fs_write demo_exec_env demo_write (demo_exec demo_files) = (Inr v, x')"
proof -
  have c: "decoded_content demo_exec_env demo_write = Inr ''3''" by (simp add: decoded_content_def demo_write_get ok_or_def)
  have temp: "temporary demo_exec_env [''/'', ''w'', ''a.txt''] = [''/'', ''w'', ''a.workbench.7.tmp'']"
    by (simp add: temporary_def with_extension_def path_file_name_def is_normal_def split_extension_def demo_dec)
  show ?thesis
    unfolding fs_write_def
    by (simp add: demo_write_path [OF demo_write_get(1)] c demo_unchanged)
      (simp add: replace_contents_def temp path_parent_def demo_defs fs_step_def create_dir_all_def write_file_def rename_def os_call_def ok_or_def bt_get_def
        put_files_def is_file_def rename_allowed_def rename_to_def path_within_def digest_file_def read_file_def Let_def)
qed

theorem write_compare_and_swap_witness:
  "\<exists>v x'. fs_write demo_exec_env demo_write (demo_exec demo_files) = (Inr v, x') \<and>
     node_at (xr_files x') [''/'', ''w'', ''a.txt''] = Some (File ''3'') \<and> node_at demo_files [''/'', ''w'', ''a.txt''] = Some (File ''2'')"
proof -
  obtain v x' where w: "fs_write demo_exec_env demo_write (demo_exec demo_files) = (Inr v, x')" using demo_written by blast
  have ok: "tree_ok (xr_files (demo_exec demo_files))" "resolves (xe_os demo_exec_env)"
    using demo_tree demo_resolves by (simp_all add: demo_exec_env_def demo_exec_def)
  have same: "xr_files (demo_exec demo_files) = demo_files" "xe_sha demo_exec_env old = old" for old
    by (simp_all add: demo_exec_def demo_exec_env_def)
  from write_compare_and_swap [OF ok w] demo_write_path [OF demo_write_get(1), of False] demo_write_get(3) same
  have "\<exists>new. decoded_content demo_exec_env demo_write = Inr new \<and> node_at (xr_files x') [''/'', ''w'', ''a.txt''] = Some (File new) \<and>
      node_at demo_files [''/'', ''w'', ''a.txt''] = Some (File ''2'')" by fastforce
  with w show ?thesis by (auto simp: decoded_content_def demo_write_get demo_exec_env_def)
qed

definition demo_remove :: json where
  "demo_remove = JObj [(''expectedDigest'', JStr ''2''), (''path'', JStr ''/w/a.txt'')]"

lemma demo_remove_get:
  "get_str demo_remove ''path'' = Some ''/w/a.txt''" "required_str demo_remove ''expectedDigest'' = Inr ''2''"
  by (simp_all add: demo_remove_def get_str_def bt_get_def required_str_def)

lemma demo_removed: "\<exists>v x'. fs_remove demo_exec_env demo_remove (demo_exec demo_files) = (Inr v, x')"
  unfolding fs_remove_def demo_write_path [OF demo_remove_get(1)] demo_remove_get(2)
  by (simp add: path_parent_def demo_defs fs_step_def create_dir_all_def rename_def os_call_def ok_or_def bt_get_def
        put_files_def rename_allowed_def rename_to_def path_within_def digest_file_def read_file_def Let_def demo_dec)

theorem remove_restore_witness:
  "\<exists>v x' x''. fs_remove demo_exec_env demo_remove (demo_exec demo_files) = (Inr v, x') \<and>
     fs_restore demo_exec_env (JObj [(''path'', JStr ''/w/a.txt''), (''restoreToken'', jindex v ''restoreToken'')]) x' =
       (Inr (JObj [(''path'', JStr ''/w/a.txt''), (''restored'', JBool True)]), x'') \<and>
     node_at (xr_files x'') [''/'', ''w'', ''a.txt''] = Some (File ''2'')"
proof -
  obtain v x' where r: "fs_remove demo_exec_env demo_remove (demo_exec demo_files) = (Inr v, x')" using demo_removed by blast
  have t: "tree_ok (xr_files (demo_exec demo_files))" "resolves (xe_os demo_exec_env)"
    using demo_tree demo_resolves by (simp_all add: demo_exec_def demo_exec_env_def)
  have name: "trash_name demo_exec_env = ''5_id''" by (simp add: trash_name_def demo_dec)
  have p: "path_parent [''/'', ''w'', ''a.txt''] = Some [''/'', ''w'']" by (simp add: path_parent_def)
  have k: "under_roots (xr_allowed_roots (demo_exec demo_files)) [''/'', ''w'']" "proper_name (trash_name demo_exec_env)"
    "node_at (xr_files (demo_exec demo_files)) (trash_of [''/'', ''w''] @ [trash_name demo_exec_env]) = None"
    "os_fault (xe_os demo_exec_env) ''rename'' (trash_of [''/'', ''w''] @ [trash_name demo_exec_env]) = None"
    unfolding name by (simp_all add: demo_defs under_roots_def path_within_def proper_name_def is_normal_def trash_of_def bt_get_def)
  from remove_restore [OF t t(2) r demo_write_path [OF demo_remove_get(1)] p k] r show ?thesis
    by (fastforce simp: jpath_def path_display_def path_absolute_def trash_of_def demo_exec_def demo_files_def bt_get_def)
qed


subsection \<open>Where the file actions go wrong\<close>

text \<open>
  The temporary file of a write is named after the stem of the path alone. Two writes to names of one
  directory that differ in the extension only, of which both write their temporary file before the first
  renames its own, leave the second one's contents under the first name, and the second rename fails.
\<close>

theorem sibling_writes_collide:
  assumes "tree_ok fs" "butlast p1 = butlast p2" "path_file_name p1 = Some n1" "path_file_name p2 = Some n2"
    and stems: "fst (split_extension n1) = fst (split_extension n2)"
    and writes: "write_file sys fs (temporary env p1) c1 = Inr fs1" "write_file sys fs1 (temporary env p2) c2 = Inr fs2"
    and renamed: "rename sys fs2 (temporary env p1) p1 = Inr fs3"
  shows "node_at fs3 p1 = Some (File c2) \<and> (\<exists>e. rename sys fs3 (temporary env p2) p2 = Inl e)"
proof -
  have temp: "temporary env p2 = temporary env p1" using assms(2-5) by (simp add: temporary_def with_extension_def)
  have "tree_ok fs1" by (rule write_file_tree [OF assms(1) writes(1)])
  then have t: "tree_ok fs2" by (rule write_file_tree [OF _ writes(2)])
  have c: "node_at fs2 (temporary env p1) = Some (File c2)"
    using writes(2) by (auto simp: temp write_file_def os_call_Inr bt_get_insert_any split: if_splits)
  note left = rename_file_lookup [OF t renamed c]
  then show ?thesis by (auto simp: temp rename_def os_call_def ok_or_def rename_allowed_def split: option.splits)
qed

theorem sibling_writes_collide_witness:
  "\<exists>fs1 fs2 fs3. write_file demo_os demo_files (temporary demo_exec_env [''/'', ''w'', ''a.json'']) ''x'' = Inr fs1 \<and>
     write_file demo_os fs1 (temporary demo_exec_env [''/'', ''w'', ''a.txt'']) ''y'' = Inr fs2 \<and>
     rename demo_os fs2 (temporary demo_exec_env [''/'', ''w'', ''a.json'']) [''/'', ''w'', ''a.json''] = Inr fs3 \<and>
     node_at fs3 [''/'', ''w'', ''a.json''] = Some (File ''y'')"
proof -
  have temp: "temporary demo_exec_env [''/'', ''w'', n] = [''/'', ''w'', ''a.workbench.7.tmp'']" if "n \<in> {''a.json'', ''a.txt''}" for n
    using that by (auto simp: temporary_def with_extension_def path_file_name_def is_normal_def split_extension_def demo_dec)
  obtain fs1 fs2 fs3 where s: "write_file demo_os demo_files (temporary demo_exec_env [''/'', ''w'', ''a.json'']) ''x'' = Inr fs1"
    "write_file demo_os fs1 (temporary demo_exec_env [''/'', ''w'', ''a.txt'']) ''y'' = Inr fs2"
    "rename demo_os fs2 (temporary demo_exec_env [''/'', ''w'', ''a.json'']) [''/'', ''w'', ''a.json''] = Inr fs3"
    by (simp add: temp path_parent_def demo_defs write_file_def rename_def os_call_def ok_or_def bt_get_def is_file_def
        rename_allowed_def rename_to_def path_within_def)
  from sibling_writes_collide [OF demo_tree _ _ _ _ s] s show ?thesis
    by (auto simp: path_file_name_def is_normal_def split_extension_def)
qed

text \<open>
  Removing an allowed root moves it into a trash beside it, outside the roots: the token that the removal
  answers is refused when the root is to be restored.
\<close>

theorem removed_root_unrestorable:
  assumes "tree_ok (xr_files x)" "resolves (xe_os env)" "resolves (xe_os env')"
    and removed: "fs_remove env params x = (Inr v, x')" "write_path env x params ''path'' True = Inr p" "path_parent p = Some q"
    and token: "\<not> under_roots (xr_allowed_roots x) (trash_of q @ [trash_name env])" "proper_name (trash_name env)"
      "node_at (xr_files x) (trash_of q @ [trash_name env]) = None"
  shows "\<exists>m. fs_restore env' (JObj [(''path'', jpath p), (''restoreToken'', jindex v ''restoreToken'')]) x' =
    (Inl (rpc_err ''PATH_OUTSIDE_ALLOWED_ROOTS'' m), x')"
proof -
  define d where d: "d = trash_of q @ [trash_name env]"
  let ?params = "JObj [(''path'', jpath p), (''restoreToken'', jpath d)]"
  obtain n name where name: "p = q @ [name]" "q \<noteq> []" and v: "jindex v ''restoreToken'' = jpath d"
    and at: "plain d" "node_at (xr_files x') d = Some n" "\<forall>t. n \<noteq> Link t"
    and path: "write_path env' x' ?params ''path'' False = Inr p" "\<not> os_exists (xe_os env') (xr_files x') p"
    by (rule removed_state [OF assms(1-3) removed token(2,3) d])
  note left = fs_remove_success [OF assms(1,2) removed(1,2) name token(3)]
  have "os_canonicalize (xe_os env') (xr_files x') d = Inr d" by (rule resolves_self [OF assms(3) left(2) at])
  then have "write_path env' x' ?params ''restoreToken'' True =
      Inl (rpc_err ''PATH_OUTSIDE_ALLOWED_ROOTS'' (path_display d @ '' is outside executor roots''))"
    using token(1) [folded d] left(7) by (simp add: checked_path_def resolve_path_def components_display [OF at(1)] get_str_def jpath_def bt_get_def)
  then show ?thesis using path(1) by (auto simp: v fs_restore_def)
qed

text \<open>An offset without a limit is reported, but the whole file is returned.\<close>

theorem read_offset_ignored:
  assumes "fs_read env params x = Inr v" "get_u64 params ''offset'' = Some offset" "get_u64 params ''limit'' = None"
  shows "\<exists>p contents. read_path env x params ''path'' True ''filesystem.read'' = Inr p \<and> node_at (xr_files x) p = Some (File contents) \<and>
    jindex v ''offset'' = junum offset \<and> jindex v ''content'' = JStr (os_utf8 (xe_os env) contents) \<and>
    jindex v ''bytes'' = jnat (length contents)"
proof -
  from assms(1) obtain p m contents where f: "read_path env x params ''path'' True ''filesystem.read'' = Inr p"
      "read_file (xe_os env) (xr_files x) p = Inr contents" "metadata_at (xe_os env) (xr_files x) p = Inr m"
    by (auto simp: fs_read_def Let_def)
  then have "node_at (xr_files x) p = Some (File contents)"
    by (auto simp: read_file_def os_call_Inr split: option.splits node.splits)
  then show ?thesis using assms f by (auto simp: fs_read_def Let_def jindex_def bt_get_def)
qed

lemma demo_node: "node_at demo_files [''/'', ''w'', ''a.txt''] = Some (File ''2'')"
  by (simp add: demo_files_def bt_get_def)

definition demo_read :: json where
  "demo_read = JObj [(''offset'', junum 1), (''path'', JStr ''/w/a.txt'')]"

lemma demo_read_path:
  "get_str params ''path'' = Some ''/w/a.txt'' \<Longrightarrow>
   read_path demo_exec_env (demo_exec demo_files) params ''path'' must c = Inr [''/'', ''w'', ''a.txt'']"
  using demo_write_path [of params must] by (auto simp: checked_path_def split: if_splits)

theorem read_offset_ignored_witness:
  "\<exists>v. fs_read demo_exec_env demo_read (demo_exec demo_files) = Inr v \<and> jindex v ''offset'' = junum 1 \<and> jindex v ''content'' = JStr ''2''"
proof -
  have g: "get_str demo_read ''path'' = Some ''/w/a.txt''" "get_u64 demo_read ''offset'' = Some 1" "get_u64 demo_read ''limit'' = None"
    by (simp_all add: demo_read_def get_str_def get_u64_def bt_get_def junum_def)
  have "\<exists>v. fs_read demo_exec_env demo_read (demo_exec demo_files) = Inr v"
    by (simp add: fs_read_def demo_read_path [OF g(1)]) (simp add: metadata_at_def read_file_def os_call_def ok_or_def demo_defs bt_get_def Let_def)
  then obtain v where v: "fs_read demo_exec_env demo_read (demo_exec demo_files) = Inr v" by blast
  from read_offset_ignored [OF v g(2,3)] v show ?thesis
    by (auto simp: demo_read_path [OF g(1)] demo_node demo_os_def demo_exec_files)
qed

definition demo_root_env :: exec_env where
  "demo_root_env = demo_exec_env\<lparr>xe_sha := (\<lambda>_. ''d'')\<rparr>"

definition demo_remove_root :: json where
  "demo_remove_root = JObj [(''expectedDigest'', JStr ''d''), (''path'', JStr ''/w'')]"

abbreviation demo_rooted :: executor_runtime where
  "demo_rooted \<equiv> demo_exec [([''/''], Dir), ([''/'', ''w''], Dir)]"

lemma demo_root_path: "write_path demo_root_env demo_rooted demo_remove_root ''path'' True = Inr [''/'', ''w'']"
  by (simp add: checked_path_def resolve_path_def components_def demo_root_env_def demo_os_def demo_exec_def plain_def demo_remove_root_def
      path_absolute_def proper_name_def is_normal_def bt_get_def under_roots_def path_within_def get_str_def)

lemma demo_root_removed: "\<exists>v x'. fs_remove demo_root_env demo_remove_root demo_rooted = (Inr v, x')"
proof -
  have e: "required_str demo_remove_root ''expectedDigest'' = Inr ''d''"
    by (simp add: demo_remove_root_def required_str_def get_str_def bt_get_def)
  have "collect_tree demo_os [([''/''], Dir), ([''/'', ''w''], Dir)] [''/'', ''w''] [] = Inr []"
    by (subst collect_tree.simps) (simp add: read_dir_def os_call_def ok_or_def demo_os_def bt_get_def children_def)
  then have "digest_tree demo_root_env [([''/''], Dir), ([''/'', ''w''], Dir)] [''/'', ''w''] = Inr (''d'', 0, 0)"
    by (simp add: digest_tree_def demo_root_env_def Let_def)
  then show ?thesis
    by (simp add: fs_remove_def demo_root_path e)
      (simp add: demo_root_env_def path_parent_def demo_defs fs_step_def create_dir_all_def rename_def os_call_def ok_or_def bt_get_def
        put_files_def rename_allowed_def rename_to_def path_within_def Let_def demo_dec)
qed

theorem removed_root_unrestorable_witness:
  "\<exists>v x' m. fs_remove demo_root_env demo_remove_root demo_rooted = (Inr v, x') \<and>
     fs_restore demo_root_env (JObj [(''path'', JStr ''/w''), (''restoreToken'', jindex v ''restoreToken'')]) x' =
       (Inl (rpc_err ''PATH_OUTSIDE_ALLOWED_ROOTS'' m), x')"
proof -
  obtain v x' where r: "fs_remove demo_root_env demo_remove_root demo_rooted = (Inr v, x')" using demo_root_removed by blast
  have "bt_wf (xr_files demo_rooted)" by (simp add: demo_exec_def bt_wf_def)
  then have t: "tree_ok (xr_files demo_rooted)" by (auto simp: tree_ok_def demo_exec_def bt_get_def path_parent_def split: if_splits)
  have s: "resolves (xe_os demo_root_env)" using demo_resolves by (simp add: demo_root_env_def)
  have name: "trash_name demo_root_env = ''5_id''" by (simp add: trash_name_def demo_root_env_def demo_dec)
  have p: "path_parent [''/'', ''w''] = Some [''/'']" by (simp add: path_parent_def)
  have k: "\<not> under_roots (xr_allowed_roots demo_rooted) (trash_of [''/''] @ [trash_name demo_root_env])"
    "proper_name (trash_name demo_root_env)" "node_at (xr_files demo_rooted) (trash_of [''/''] @ [trash_name demo_root_env]) = None"
    unfolding name by (simp_all add: demo_exec_def under_roots_def path_within_def proper_name_def is_normal_def trash_of_def bt_get_def)
  from removed_root_unrestorable [OF t s s r demo_root_path p k] r show ?thesis
    by (auto simp: jpath_def path_display_def path_absolute_def)
qed

end
