(* ===== verification/Record_History.thy ===== *)
theory Record_History
  imports Driver
begin

section \<open>How the kept records may change\<close>

text \<open>
  The Controller keeps sessions, generations, activation transactions, handoffs and approvals as
  lists of records. Whatever a request does, an existing record stays where it is and changes
  only according to a law of its kind; new records are added at the end. This theory states the
  laws and the relation \<open>history\<close> between two states in which every list keeps its law.
\<close>

subsection \<open>Lists of records under a law\<close>

definition evolves :: "('a \<Rightarrow> 'a \<Rightarrow> bool) \<Rightarrow> 'a list \<Rightarrow> 'a list \<Rightarrow> bool" where
  "evolves R xs ys = (\<exists>zs ws. ys = zs @ ws \<and> list_all2 R xs zs)"

text \<open>A law on records that keeps their key, and what it gives for lists kept by that key.\<close>

locale record_law =
  fixes key :: "'a \<Rightarrow> 'k"
    and law :: "'a \<Rightarrow> 'a \<Rightarrow> bool"
  assumes law_refl: "law x x"
    and law_trans: "law x y \<Longrightarrow> law y z \<Longrightarrow> law x z"
    and law_key: "law x y \<Longrightarrow> key y = key x"
begin

lemma all2_refl: "list_all2 law xs xs"
  by (simp add: list.rel_refl law_refl)

lemma evolves_refl: "evolves law xs xs"
  unfolding evolves_def by (rule exI [of _ xs]) (simp add: all2_refl)

lemma evolves_trans:
  assumes "evolves law xs ys" "evolves law ys zs"
  shows "evolves law xs zs"
proof -
  from assms obtain us vs ws rs where ys: "ys = us @ vs" "list_all2 law xs us"
    and zs: "zs = ws @ rs" "list_all2 law (us @ vs) ws"
    by (auto simp: evolves_def)
  from zs(2) obtain w1 w2 where w: "ws = w1 @ w2" "list_all2 law us w1" by (auto simp: list_all2_append1)
  have "list_all2 law xs w1"
    by (rule list_all2_trans [OF _ ys(2) w(2)]) (rule law_trans)
  with zs w show ?thesis by (auto simp: evolves_def)
qed

lemma evolves_append: "evolves law xs (xs @ ys)"
  unfolding evolves_def by (rule exI [of _ xs]) (simp add: all2_refl)

lemma evolves_Cons: "law x y \<Longrightarrow> evolves law xs ys \<Longrightarrow> evolves law (x # xs) (y # ys)"
  unfolding evolves_def by (metis append_Cons list_all2_Cons)

lemma evolves_update: "(\<And>x. find P xs = Some x \<Longrightarrow> law x (f x)) \<Longrightarrow> evolves law xs (update_first P f xs)"
  by (induction xs) (auto intro: evolves_Cons law_refl evolves_refl split: if_splits)

lemma evolves_upsert: "(\<And>x. find P xs = Some x \<Longrightarrow> law x y) \<Longrightarrow> evolves law xs (upsert_by P y xs)"
proof (induction xs)
  case Nil
  show ?case by (simp add: evolves_def)
qed (auto intro: evolves_Cons law_refl evolves_refl split: if_splits)

text \<open>The record an identifier names is kept, and the law holds between before and after.\<close>

lemma all2_find:
  "list_all2 law xs zs \<Longrightarrow> find (\<lambda>x. key x = i) xs = Some x \<Longrightarrow>
     \<exists>y. find (\<lambda>x. key x = i) (zs @ ws) = Some y \<and> law x y"
  by (induction rule: list_all2_induct) (auto dest: law_key split: if_splits)

lemma evolves_find:
  "evolves law xs ys \<Longrightarrow> find (\<lambda>x. key x = i) xs = Some x \<Longrightarrow> \<exists>y. find (\<lambda>x. key x = i) ys = Some y \<and> law x y"
  unfolding evolves_def using all2_find by blast

end

subsection \<open>The laws\<close>

text \<open>An approval is granted at most once, only while pending, and what it is for never changes.\<close>

fun approval_rank :: "approval_state \<Rightarrow> nat" where
  "approval_rank ApprovalPending = 0"
| "approval_rank ApprovalApproved = 1"
| "approval_rank ApprovalConsumed = 2"
| "approval_rank ApprovalExpired = 2"
| "approval_rank ApprovalRevoked = 3"

definition approval_law :: "approval \<Rightarrow> approval \<Rightarrow> bool" where
  "approval_law a b =
     (approval_id b = approval_id a \<and> approval_digest b = approval_digest a \<and> approval_owner b = approval_owner a
      \<and> approval_reason b = approval_reason a
      \<and> (approval_state b = approval_state a \<or> approval_rank (approval_state a) < approval_rank (approval_state b))
      \<and> (2 \<le> approval_rank (approval_state a) \<longrightarrow> approval_consumed_at b = approval_consumed_at a))"

text \<open>A generation keeps its identity and moves along the allowed transitions.\<close>

definition generation_law :: "generation \<Rightarrow> generation \<Rightarrow> bool" where
  "generation_law g h =
     (gen_id h = gen_id g \<and> gen_workspace_session_id h = gen_workspace_session_id g \<and> gen_root h = gen_root g
      \<and> baseline_digest (gen_baseline h) = baseline_digest (gen_baseline g)
      \<and> generation_transition_allowed\<^sup>*\<^sup>* (gen_state g) (gen_state h))"

text \<open>
  The journal of a transaction only grows, numbered consecutively, under one fence. (The details of
  an entry are compacted when the state is loaded.)
\<close>

definition entry_core :: "transaction_journal_entry \<Rightarrow> transaction_journal_entry" where
  "entry_core e = e\<lparr>je_details := JNull\<rparr>"

definition entry_ok :: "u64 option \<Rightarrow> nat \<Rightarrow> transaction_journal_entry \<Rightarrow> bool" where
  "entry_ok fence i e =
     (je_sequence e = of_nat i + 1 \<and> (fence = None \<or> je_fence e = None \<or> je_fence e = fence))"

definition transaction_law :: "activation_transaction \<Rightarrow> activation_transaction \<Rightarrow> bool" where
  "transaction_law t u =
     (tx_id u = tx_id t \<and> tx_workspace_session_id u = tx_workspace_session_id t
      \<and> tx_idempotency_key u = tx_idempotency_key t \<and> tx_target u = tx_target t
      \<and> tx_generation_id u = tx_generation_id t \<and> tx_created_at u = tx_created_at t
      \<and> tx_lease_fence u = tx_lease_fence t
      \<and> length (tx_journal t) \<le> length (tx_journal u)
      \<and> (\<forall>i < length (tx_journal t). entry_core (tx_journal u ! i) = entry_core (tx_journal t ! i))
      \<and> (\<forall>i < length (tx_journal u). length (tx_journal t) \<le> i \<longrightarrow> entry_ok (tx_lease_fence t) i (tx_journal u ! i))
      \<and> set (tx_completed_steps t) \<subseteq> set (tx_completed_steps u))"

text \<open>A handoff is acknowledged once, completed only then, and an acceptance only with a report.\<close>

definition handoff_law :: "handoff \<Rightarrow> handoff \<Rightarrow> bool" where
  "handoff_law h k =
     (k = h\<lparr>handoff_acknowledged_at := handoff_acknowledged_at k, handoff_completed_at := handoff_completed_at k,
            handoff_report := handoff_report k, handoff_evidence := handoff_evidence k\<rparr>
      \<and> (handoff_acknowledged_at h \<noteq> None \<longrightarrow> handoff_acknowledged_at k = handoff_acknowledged_at h)
      \<and> (handoff_report h \<noteq> None \<longrightarrow> handoff_report k \<noteq> None)
      \<and> (handoff_completed_at h \<noteq> None \<longrightarrow> handoff_completed_at k \<noteq> None)
      \<and> (handoff_completed_at k \<noteq> None \<longrightarrow> handoff_completed_at h \<noteq> None
           \<or> (handoff_acknowledged_at k \<noteq> None \<and> (handoff_kind h = HandoffAcceptance \<longrightarrow> handoff_report k \<noteq> None))))"

text \<open>The authority of a session never changes once it is set.\<close>

definition session_key :: "workspace_session \<Rightarrow> string" where
  "session_key s = metadata_id (session_metadata s)"

definition session_law :: "workspace_session \<Rightarrow> workspace_session \<Rightarrow> bool" where
  "session_law s t =
     (session_key t = session_key s \<and> (session_authority s \<noteq> None \<longrightarrow> session_authority t = session_authority s))"

interpretation approvals: record_law approval_id approval_law
  by unfold_locales (auto simp: approval_law_def)

interpretation generations: record_law gen_id generation_law
  by unfold_locales (auto simp: generation_law_def)

lemma transaction_law_trans:
  assumes "transaction_law t u" "transaction_law u v"
  shows "transaction_law t v"
proof -
  note law = assms [unfolded transaction_law_def]
  have ok: "entry_ok f i e = entry_ok f i (entry_core e)" for f i e
    by (simp add: entry_ok_def entry_core_def)
  have "entry_ok (tx_lease_fence t) i (tx_journal v ! i)"
    if "i < length (tx_journal v)" "length (tx_journal t) \<le> i" for i
  proof (cases "i < length (tx_journal u)")
    case True
    with law have "entry_core (tx_journal v ! i) = entry_core (tx_journal u ! i)" by simp
    with True that law show ?thesis by (metis ok)
  next
    case False
    with that law show ?thesis by simp
  qed
  with law show ?thesis by (auto simp: transaction_law_def)
qed

interpretation transactions: record_law tx_id transaction_law
  by unfold_locales (auto intro: transaction_law_trans, auto simp: transaction_law_def)

lemma handoff_law_trans: "handoff_law h k \<Longrightarrow> handoff_law k l \<Longrightarrow> handoff_law h l"
  unfolding handoff_law_def by (cases h; cases k; cases l) auto

interpretation handoffs: record_law handoff_id handoff_law
proof unfold_locales
  show "handoff_law x x" for x by (simp add: handoff_law_def)
  show "handoff_id y = handoff_id x" if "handoff_law x y" for x y
    using that by (cases x; cases y) (auto simp: handoff_law_def)
qed (rule handoff_law_trans)

interpretation sessions: record_law session_key session_law
  by unfold_locales (auto simp: session_law_def)

subsection \<open>Histories of the Controller\<close>

definition state_history :: "workbench_state \<Rightarrow> workbench_state \<Rightarrow> bool" where
  "state_history st st' =
     (evolves session_law (ws_sessions st) (ws_sessions st')
      \<and> evolves generation_law (ws_generations st) (ws_generations st')
      \<and> evolves transaction_law (ws_transactions st) (ws_transactions st')
      \<and> evolves handoff_law (ws_handoffs st) (ws_handoffs st')
      \<and> evolves approval_law (ws_approvals st) (ws_approvals st'))"

definition history :: "controller \<Rightarrow> controller \<Rightarrow> bool" where
  "history c c' = state_history (ctl_state c) (ctl_state c')"

lemmas records_refl [simp] =
  sessions.evolves_refl generations.evolves_refl transactions.evolves_refl handoffs.evolves_refl approvals.evolves_refl

lemma state_history_trans: "state_history a b \<Longrightarrow> state_history b c \<Longrightarrow> state_history a c"
  unfolding state_history_def
  by (blast intro: sessions.evolves_trans generations.evolves_trans transactions.evolves_trans
      handoffs.evolves_trans approvals.evolves_trans)

lemma state_history_same:
  "ws_sessions st' = ws_sessions st \<Longrightarrow> ws_generations st' = ws_generations st \<Longrightarrow>
   ws_transactions st' = ws_transactions st \<Longrightarrow> ws_handoffs st' = ws_handoffs st \<Longrightarrow>
   ws_approvals st' = ws_approvals st \<Longrightarrow> state_history st st'"
  by (simp add: state_history_def)

lemma state_history_refl [simp]: "state_history st st"
  by (simp add: state_history_same)

lemma state_history_empty: "state_history workbench_state_default st"
  by (simp add: state_history_def evolves_def workbench_state_default_def)

lemma history_trans: "history c c' \<Longrightarrow> history c' c'' \<Longrightarrow> history c c''"
  unfolding history_def by (rule state_history_trans)

lemma history_same:
  "ws_sessions (ctl_state c') = ws_sessions (ctl_state c) \<Longrightarrow>
   ws_generations (ctl_state c') = ws_generations (ctl_state c) \<Longrightarrow>
   ws_transactions (ctl_state c') = ws_transactions (ctl_state c) \<Longrightarrow>
   ws_handoffs (ctl_state c') = ws_handoffs (ctl_state c) \<Longrightarrow>
   ws_approvals (ctl_state c') = ws_approvals (ctl_state c) \<Longrightarrow> history c c'"
  by (simp add: history_def state_history_same)

lemma history_refl [simp]: "history c c"
  by (simp add: history_def)

lemma history_persist: "history c (snd (persist env now io c))"
  by (rule history_same) (simp_all add: persist_def Let_def split: option.split)

lemmas history_defs = history_def state_history_def

subsection \<open>Loading a state\<close>

text \<open>Each list is mapped through a function that keeps the law.\<close>

lemma evolves_map: "(\<And>x. R x (f x)) \<Longrightarrow> evolves R xs (map f xs)"
  unfolding evolves_def by (rule exI [of _ "map f xs"]) (simp add: list.rel_map list_all2_same)

lemma adopt_session_law: "session_law s (adopt_session i s)"
  by (simp add: session_law_def adopt_session_def session_key_def)

lemma compact_generation_law: "generation_law g (snd (compact_generation g))"
  by (simp add: generation_law_def compact_generation_def case_prod_beta Let_def)

lemma compact_transaction_law: "transaction_law t (snd (compact_transaction t))"
  by (simp add: transaction_law_def compact_transaction_def compact_list_def compact_entry_def entry_core_def
      case_prod_beta Let_def)

lemma compact_handoff_law: "handoff_law h (snd (compact_handoff h))"
  by (simp add: handoff_law_def compact_handoff_def case_prod_beta Let_def)

lemma loaded_history:
  "state_history st (snd (compact_persisted_evidence sha jshow
     (st\<lparr>ws_controller_id := i, ws_sessions := map (adopt_session j) (ws_sessions st)\<rparr>)))"
  unfolding state_history_def compact_persisted_evidence_def
  by (simp add: case_prod_beta Let_def compact_list_def evolves_map adopt_session_law compact_generation_law
      compact_transaction_law compact_handoff_law)

end
