(* ===== verification/Registry.thy ===== *)
theory Registry
  imports Record_History
begin

section \<open>The registries of the Controller\<close>

text \<open>
  The handlers of \<^verbatim>\<open>crates/workbench-runtime/src/controller.rs\<close> that keep records: sessions,
  artifacts, generations, agents, Executors, peer Controllers, approvals, read grants,
  activation transactions and handoffs. As in \<^verbatim>\<open>Driver\<close>, a handler gives the answer and the
  state it leaves; its readings of the clock and its calls to other processes have fixed
  positions. Requests and answers are converted by the generated codecs of the environment.
\<close>

subsection \<open>Shared steps\<close>

definition with_state :: "(workbench_state \<Rightarrow> workbench_state) \<Rightarrow> controller \<Rightarrow> controller" where
  "with_state f c = c\<lparr>ctl_state := f (ctl_state c)\<rparr>"

definition persist_answer :: "environment \<Rightarrow> u64 \<Rightarrow> json \<Rightarrow> controller \<Rightarrow> (rpc_error + json) \<times> controller" where
  "persist_answer env now v c = sbind (persist env now (env_io env 0) c) (\<lambda>_ c. (Inr v, c))"

definition decoded :: "string \<Rightarrow> string + 'a \<Rightarrow> rpc_error + 'a" where
  "decoded code r = map_err (rpc_err code) r"

definition required_member :: "json \<Rightarrow> string \<Rightarrow> rpc_error + json" where
  "required_member params key = ok_or (rpc_err ''INVALID_PARAMS'' (key @ '' is required'')) (jget params key)"

definition found :: "string \<Rightarrow> string \<Rightarrow> 'a option \<Rightarrow> rpc_error + 'a" where
  "found code message x = ok_or (rpc_err code message) x"

text \<open>The environment of the \<open>n\<close>th call to another process of a handler.\<close>

definition nth_call :: "nat \<Rightarrow> environment \<Rightarrow> environment" where
  "nth_call n env = env\<lparr>env_ids := (\<lambda>k. env_ids env (k + n))\<rparr>"

definition session_scope :: "environment \<Rightarrow> controller \<Rightarrow> string \<Rightarrow> string" where
  "session_scope env c session = env_jshow env (JArr [JStr (ctl_id c), JStr session])"

subsection \<open>Sessions\<close>

definition find_session :: "controller \<Rightarrow> string \<Rightarrow> workspace_session option" where
  "find_session c i = find (\<lambda>s. session_key s = i) (ws_sessions (ctl_state c))"

definition admit_session :: "controller \<Rightarrow> workspace_session \<Rightarrow> rpc_error + workspace_session" where
  "admit_session c s =
     (let existing = find_session c (session_key s) in
      if (case Option.bind existing session_authority of None \<Rightarrow> False | Some a \<Rightarrow> authority_controller_id a \<noteq> ctl_id c)
      then Inl (rpc_err ''SESSION_REMOTE_REFERENCE_REQUIRED''
                  ''legacy remote session identity is reserved; create a new local session ID'')
      else
        let s1 = (case existing of
                    Some x \<Rightarrow> if session_authority s = None then s\<lparr>session_authority := session_authority x\<rparr> else s
                  | None \<Rightarrow> s)
        in case session_authority s1 of
             None \<Rightarrow> Inr (s1\<lparr>session_authority := Some \<lparr>authority_controller_id = ctl_id c, authority_epoch = 1,
                                                        authority_pending_controller_id = None\<rparr>\<rparr>)
           | Some a \<Rightarrow>
               if authority_controller_id a = ctl_id c then
                 (if Option.bind existing session_authority \<noteq> Some a
                  then Inl (rpc_err ''INVALID_AUTHORITY'' ''session authority can only change through handoff'')
                  else Inr s1)
               else Inl (rpc_err ''NOT_SESSION_AUTHORITY''
                           (''session '' @ session_key s1 @ '' is owned by controller '' @ authority_controller_id a)))"

definition archived_grants :: "controller \<Rightarrow> workspace_session \<Rightarrow> (string \<times> string) list" where
  "archived_grants c s =
     (if session_state s = SessionArchived
      then map (\<lambda>g. (grant_id g, grant_executor_id g))
             (filter (\<lambda>g. grant_workspace_session_id g = session_key s \<and> grant_state g = GrantApproved)
               (ws_read_grants (ctl_state c)))
      else [])"

fun revoke_on_executors :: "environment \<Rightarrow> (string \<times> string) list \<Rightarrow> controller \<Rightarrow> rpc_error + unit" where
  "revoke_on_executors env [] c = Inr ()"
| "revoke_on_executors env ((i, executor_id) # rest) c =
     and_then (call_registered_executor env executor_id ''read-grant.revoke'' (JObj [(''grantId'', JStr i)]) c)
       (\<lambda>_. revoke_on_executors (nth_call 1 env) rest c)"

definition revoke_grant :: "u64 \<Rightarrow> string \<Rightarrow> read_grant list \<Rightarrow> read_grant list" where
  "revoke_grant now i gs =
     update_first (\<lambda>g. grant_id g = i) (\<lambda>g. g\<lparr>grant_state := GrantRevoked, grant_revoked_at := Some now\<rparr>) gs"

fun revoke_grants :: "clock \<Rightarrow> (string \<times> string) list \<Rightarrow> read_grant list \<Rightarrow> read_grant list" where
  "revoke_grants clk [] gs = gs"
| "revoke_grants clk ((i, _) # rest) gs = revoke_grants (\<lambda>n. clk (Suc n)) rest (revoke_grant (clk 0) i gs)"

text \<open>Readings: the write 0, the revocations from 1 on.\<close>

definition session_put :: "environment \<Rightarrow> json \<Rightarrow> controller \<Rightarrow> (rpc_error + json) \<times> controller" where
  "session_put env params c =
     sbind (decoded ''INVALID_PARAMS'' (dec_session (env_codec env) params), c) (\<lambda>s c.
     sbind (admit_session c s, c) (\<lambda>s c.
       let archived = archived_grants c s in
       sbind (revoke_on_executors env archived c, c) (\<lambda>_ c.
         persist_answer env (env_clock env 0) (enc_session (env_codec env) s)
           (with_state (\<lambda>st. st\<lparr>ws_sessions := upsert_by (\<lambda>x. session_key x = session_key s) s (ws_sessions st),
                                ws_read_grants := revoke_grants (\<lambda>n. env_clock env (Suc n)) archived (ws_read_grants st)\<rparr>) c))))"

definition session_immutable :: rpc_error where
  "session_immutable = rpc_err ''SESSION_IMMUTABLE_HOME''
     ''sessions have a permanent Controller identity; create a new session to continue on another Controller''"

definition session_get :: "environment \<Rightarrow> json \<Rightarrow> controller \<Rightarrow> (rpc_error + json) \<times> controller" where
  "session_get env params c =
     sbind (required_str params ''sessionId'', c) (\<lambda>i c.
     sbind (found ''SESSION_NOT_FOUND'' (''unknown session: '' @ i) (find_session c i), c) (\<lambda>s c.
       (Inr (enc_session (env_codec env) s), c)))"

definition session_list :: "environment \<Rightarrow> controller \<Rightarrow> (rpc_error + json) \<times> controller" where
  "session_list env c = (Inr (JArr (map (enc_session (env_codec env)) (ws_sessions (ctl_state c)))), c)"

definition session_transition :: "environment \<Rightarrow> json \<Rightarrow> controller \<Rightarrow> (rpc_error + json) \<times> controller" where
  "session_transition env params c =
     sbind (required_str params ''sessionId'', c) (\<lambda>i c.
     sbind (required_member params ''state'', c) (\<lambda>v c.
     sbind (decoded ''INVALID_PARAMS'' (dec_session_state (env_codec env) v), c) (\<lambda>state c.
     sbind (found ''SESSION_NOT_FOUND'' (''unknown session: '' @ i) (find_session c i), c) (\<lambda>s c.
       let f = (\<lambda>s. s\<lparr>session_state := state,
                      session_metadata := (session_metadata s)\<lparr>metadata_updated_at := env_clock env 0\<rparr>\<rparr>)
       in persist_answer env (env_clock env 1) (enc_session (env_codec env) (f s))
            (with_state (\<lambda>st. st\<lparr>ws_sessions := update_first (\<lambda>x. session_key x = i) f (ws_sessions st)\<rparr>) c)))))"

subsection \<open>Artifacts, generations and agents\<close>

definition artifact_put :: "environment \<Rightarrow> json \<Rightarrow> controller \<Rightarrow> (rpc_error + json) \<times> controller" where
  "artifact_put env params c =
     sbind (decoded ''INVALID_PARAMS'' (dec_artifact (env_codec env) params), c) (\<lambda>a c.
       persist_answer env (env_clock env 0) (enc_artifact (env_codec env) a)
         (with_state (\<lambda>st. st\<lparr>ws_artifacts := upsert_by (\<lambda>x. artifact_digest x = artifact_digest a) a (ws_artifacts st)\<rparr>) c))"

definition artifact_get :: "environment \<Rightarrow> json \<Rightarrow> controller \<Rightarrow> (rpc_error + json) \<times> controller" where
  "artifact_get env params c =
     sbind (required_str params ''digest'', c) (\<lambda>d c.
     sbind (found ''ARTIFACT_NOT_FOUND'' (''unknown artifact: '' @ d)
              (find (\<lambda>a. artifact_digest a = d) (ws_artifacts (ctl_state c))), c) (\<lambda>a c.
       (Inr (enc_artifact (env_codec env) a), c)))"

definition artifact_list :: "environment \<Rightarrow> controller \<Rightarrow> (rpc_error + json) \<times> controller" where
  "artifact_list env c = (Inr (JArr (map (enc_artifact (env_codec env)) (ws_artifacts (ctl_state c)))), c)"

fun generation_state_debug :: "generation_state \<Rightarrow> string" where
  "generation_state_debug GenReserved = ''Reserved''"
| "generation_state_debug GenMaterializing = ''Materializing''"
| "generation_state_debug GenMaterialized = ''Materialized''"
| "generation_state_debug GenValidated = ''Validated''"
| "generation_state_debug GenFinalized = ''Finalized''"
| "generation_state_debug GenSmokePassed = ''SmokePassed''"
| "generation_state_debug GenActive = ''Active''"
| "generation_state_debug GenSuperseded = ''Superseded''"
| "generation_state_debug GenFailed = ''Failed''"

definition find_generation :: "controller \<Rightarrow> string \<Rightarrow> generation option" where
  "find_generation c i = find (\<lambda>g. gen_id g = i) (ws_generations (ctl_state c))"

definition check_generation :: "generation option \<Rightarrow> generation \<Rightarrow> rpc_error + unit" where
  "check_generation existing g =
     (case existing of
        None \<Rightarrow> Inr ()
      | Some x \<Rightarrow>
          if gen_workspace_session_id x \<noteq> gen_workspace_session_id g \<or> gen_root x \<noteq> gen_root g
             \<or> baseline_digest (gen_baseline x) \<noteq> baseline_digest (gen_baseline g)
          then Inl (rpc_err ''GENERATION_IDENTITY_CONFLICT'' ''generation identity fields are immutable'')
          else if \<not> generation_transition_allowed (gen_state x) (gen_state g)
          then Inl (rpc_err ''INVALID_GENERATION_STATE''
                 (''invalid generation transition '' @ generation_state_debug (gen_state x) @ '' -> ''
                  @ generation_state_debug (gen_state g)))
          else Inr ())"

definition generation_put :: "environment \<Rightarrow> json \<Rightarrow> controller \<Rightarrow> (rpc_error + json) \<times> controller" where
  "generation_put env params c =
     sbind (decoded ''INVALID_PARAMS'' (dec_generation (env_codec env) params), c) (\<lambda>g c.
     sbind (check_generation (find_generation c (gen_id g)) g, c) (\<lambda>_ c.
       persist_answer env (env_clock env 0) (enc_generation (env_codec env) g)
         (with_state (\<lambda>st. st\<lparr>ws_generations := upsert_by (\<lambda>x. gen_id x = gen_id g) g (ws_generations st)\<rparr>) c)))"

definition generation_get :: "environment \<Rightarrow> json \<Rightarrow> controller \<Rightarrow> (rpc_error + json) \<times> controller" where
  "generation_get env params c =
     sbind (required_str params ''generationId'', c) (\<lambda>i c.
     sbind (found ''GENERATION_NOT_FOUND'' (''unknown generation: '' @ i) (find_generation c i), c) (\<lambda>g c.
       (Inr (enc_generation (env_codec env) g), c)))"

definition generation_list :: "environment \<Rightarrow> controller \<Rightarrow> (rpc_error + json) \<times> controller" where
  "generation_list env c = (Inr (JArr (map (enc_generation (env_codec env)) (ws_generations (ctl_state c)))), c)"

definition find_agent :: "controller \<Rightarrow> string \<Rightarrow> agent_instance option" where
  "find_agent c i = find (\<lambda>a. agent_id a = i) (ws_agents (ctl_state c))"

definition agent_put :: "environment \<Rightarrow> json \<Rightarrow> controller \<Rightarrow> (rpc_error + json) \<times> controller" where
  "agent_put env params c =
     sbind (decoded ''INVALID_PARAMS'' (dec_agent (env_codec env) params), c) (\<lambda>a c.
       persist_answer env (env_clock env 0) (enc_agent (env_codec env) a)
         (with_state (\<lambda>st. st\<lparr>ws_agents := upsert_by (\<lambda>x. agent_id x = agent_id a) a (ws_agents st)\<rparr>) c))"

definition agent_get :: "environment \<Rightarrow> json \<Rightarrow> controller \<Rightarrow> (rpc_error + json) \<times> controller" where
  "agent_get env params c =
     sbind (required_str params ''agentId'', c) (\<lambda>i c.
     sbind (found ''AGENT_NOT_FOUND'' (''unknown agent: '' @ i) (find_agent c i), c) (\<lambda>a c.
       (Inr (enc_agent (env_codec env) a), c)))"

definition agent_list :: "environment \<Rightarrow> controller \<Rightarrow> (rpc_error + json) \<times> controller" where
  "agent_list env c = (Inr (JArr (map (enc_agent (env_codec env)) (ws_agents (ctl_state c)))), c)"

definition agent_transition :: "environment \<Rightarrow> json \<Rightarrow> controller \<Rightarrow> (rpc_error + json) \<times> controller" where
  "agent_transition env params c =
     sbind (required_str params ''agentId'', c) (\<lambda>i c.
     sbind (required_member params ''state'', c) (\<lambda>v c.
     sbind (decoded ''INVALID_PARAMS'' (dec_agent_state (env_codec env) v), c) (\<lambda>state c.
     sbind (found ''AGENT_NOT_FOUND'' (''unknown agent: '' @ i) (find_agent c i), c) (\<lambda>a c.
       persist_answer env (env_clock env 0) (enc_agent (env_codec env) (a\<lparr>agent_state := state\<rparr>))
         (with_state (\<lambda>st. st\<lparr>ws_agents := update_first (\<lambda>x. agent_id x = i) (\<lambda>a. a\<lparr>agent_state := state\<rparr>) (ws_agents st)\<rparr>) c)))))"

subsection \<open>Executors and peer Controllers\<close>

definition retryable :: "rpc_error \<Rightarrow> rpc_error" where
  "retryable e = e\<lparr>err_retryable := True\<rparr>"

definition executor_key :: "executor \<Rightarrow> string" where
  "executor_key e = metadata_id (executor_metadata e)"

definition peer_key :: "controller_peer \<Rightarrow> string" where
  "peer_key p = metadata_id (peer_metadata p)"

definition new_metadata :: "string \<Rightarrow> u64 \<Rightarrow> metadata" where
  "new_metadata i now = \<lparr>metadata_id = i, metadata_labels = [], metadata_created_at = now, metadata_updated_at = now\<rparr>"

definition executor_list :: "environment \<Rightarrow> controller \<Rightarrow> (rpc_error + json) \<times> controller" where
  "executor_list env c = (Inr (JArr (map (enc_executor (env_codec env)) (ws_executors (ctl_state c)))), c)"

definition controller_list :: "environment \<Rightarrow> controller \<Rightarrow> (rpc_error + json) \<times> controller" where
  "controller_list env c = (Inr (JArr (map (enc_peer (env_codec env)) (ws_controllers (ctl_state c)))), c)"

definition executor_unregister :: "environment \<Rightarrow> json \<Rightarrow> controller \<Rightarrow> (rpc_error + json) \<times> controller" where
  "executor_unregister env params c =
     sbind (required_str params ''executorId'', c) (\<lambda>i c.
       let removed = list_ex (\<lambda>e. executor_key e = i) (ws_executors (ctl_state c));
           c1 = with_state (\<lambda>st. st\<lparr>ws_executors := filter (\<lambda>e. executor_key e \<noteq> i) (ws_executors st)\<rparr>) c;
           v = JObj [(''executorId'', JStr i), (''removed'', JBool removed)]
       in if removed then persist_answer env (env_clock env 0) v c1 else (Inr v, c1))"

definition controller_unregister :: "environment \<Rightarrow> json \<Rightarrow> controller \<Rightarrow> (rpc_error + json) \<times> controller" where
  "controller_unregister env params c =
     sbind (required_str params ''controllerId'', c) (\<lambda>i c.
       if i = ctl_id c
       then (Inl (rpc_err ''CONTROLLER_SELF_UNREGISTER'' ''a Controller cannot unregister itself''), c)
       else
         let removed = list_ex (\<lambda>p. peer_key p = i) (ws_controllers (ctl_state c));
             c1 = with_state (\<lambda>st. st\<lparr>ws_controllers := filter (\<lambda>p. peer_key p \<noteq> i) (ws_controllers st)\<rparr>) c;
             v = JObj [(''controllerId'', JStr i), (''removed'', JBool removed)]
         in if removed then persist_answer env (env_clock env 0) v c1 else (Inr v, c1))"

definition endpoint_param :: "environment \<Rightarrow> json \<Rightarrow> rpc_error + executor_endpoint" where
  "endpoint_param env params =
     and_then (required_member params ''endpoint'') (\<lambda>v. decoded ''INVALID_PARAMS'' (dec_endpoint (env_codec env) v))"

definition remote_value :: "rpc_error \<Rightarrow> string \<Rightarrow> string + response \<Rightarrow> rpc_error + json" where
  "remote_value failed unavailable r =
     (case r of Inl m \<Rightarrow> Inl (retryable (rpc_err unavailable m)) | Inr resp \<Rightarrow> response_value failed resp)"

definition controller_register :: "environment \<Rightarrow> json \<Rightarrow> controller \<Rightarrow> (rpc_error + json) \<times> controller" where
  "controller_register env params c =
     sbind (required_str params ''controllerId'', c) (\<lambda>i c.
     sbind (endpoint_param env params, c) (\<lambda>endpoint c.
     sbind (remote_value (rpc_err ''CONTROLLER_FAILED'' ''controller failed'') ''CONTROLLER_UNAVAILABLE''
              (env_call env endpoint (traced_request env ''ping'' JNull)), c) (\<lambda>status c.
     sbind (found ''CONTROLLER_INVALID'' ''controller status did not report an identity''
              (Option.bind (jpointer status [''controller'', ''id'']) as_str), c) (\<lambda>actual c.
       if actual \<noteq> i
       then (Inl (rpc_err ''CONTROLLER_IDENTITY_MISMATCH''
                    (''endpoint reported Controller '' @ actual @ '', expected '' @ i)), c)
       else
         let p = \<lparr>peer_api_version = ''workbench.dev/v1'', peer_metadata = new_metadata i (env_clock env 0),
                  peer_endpoint = endpoint, peer_health = HealthReady\<rparr>
         in persist_answer env (env_clock env 1) (enc_peer (env_codec env) p)
              (with_state (\<lambda>st. st\<lparr>ws_controllers := upsert_by (\<lambda>x. peer_key x = i) p (ws_controllers st)\<rparr>) c)))))"

definition controller_call :: "environment \<Rightarrow> json \<Rightarrow> controller \<Rightarrow> (rpc_error + json) \<times> controller" where
  "controller_call env params c =
     sbind (required_str params ''controllerId'', c) (\<lambda>i c.
     sbind (found ''CONTROLLER_NOT_FOUND'' (''unknown controller: '' @ i)
              (find (\<lambda>p. peer_key p = i) (ws_controllers (ctl_state c))), c) (\<lambda>p c.
     sbind (required_str params ''action'', c) (\<lambda>action c.
       (remote_value (rpc_err ''CONTROLLER_FAILED'' ''controller failed'') ''CONTROLLER_UNAVAILABLE''
          (env_call env (peer_endpoint p) (traced_request env action (jindex params ''params''))), c))))"

definition executor_put :: "environment \<Rightarrow> json \<Rightarrow> controller \<Rightarrow> (rpc_error + json) \<times> controller" where
  "executor_put env params c =
     sbind (decoded ''INVALID_PARAMS'' (dec_executor (env_codec env) params), c) (\<lambda>e c.
       persist_answer env (env_clock env 0) (enc_executor (env_codec env) e)
         (with_state (\<lambda>st. st\<lparr>ws_executors := upsert_by (\<lambda>x. executor_key x = executor_key e) e (ws_executors st)\<rparr>) c))"

definition executor_register :: "environment \<Rightarrow> json \<Rightarrow> controller \<Rightarrow> (rpc_error + json) \<times> controller" where
  "executor_register env params c =
     sbind (required_str params ''executorId'', c) (\<lambda>i c.
     sbind (endpoint_param env params, c) (\<lambda>endpoint c.
     sbind (remote_value (rpc_err ''EXECUTOR_FAILED'' ''executor failed'') ''EXECUTOR_UNAVAILABLE''
              (env_call env endpoint (traced_request env ''status'' JNull)), c) (\<lambda>status c.
     sbind (found ''EXECUTOR_INVALID'' ''executor status did not report an identity'' (get_str status ''executorId''), c)
       (\<lambda>actual c.
       if actual \<noteq> i
       then (Inl (rpc_err ''EXECUTOR_IDENTITY_MISMATCH''
                    (''endpoint reported Executor '' @ actual @ '', expected '' @ i)), c)
       else
         sbind (decoded ''EXECUTOR_INVALID'' (dec_capabilities (env_codec env)
                  (unwrap_or (JArr []) (jget status ''capabilities''))), c) (\<lambda>caps c.
         sbind (decoded ''EXECUTOR_INVALID'' (dec_strings (env_codec env)
                  (unwrap_or (JArr []) (jget status ''allowedRoots''))), c) (\<lambda>roots c.
           let e = \<lparr>executor_api_version = ''workbench.dev/v1'', executor_metadata = new_metadata i (env_clock env 0),
                    executor_endpoint = endpoint, executor_capabilities = caps, executor_allowed_roots = roots,
                    executor_health = HealthReady\<rparr>
           in persist_answer env (env_clock env 1) (enc_executor (env_codec env) e)
                (with_state (\<lambda>st. st\<lparr>ws_executors := upsert_by (\<lambda>x. executor_key x = i) e (ws_executors st)\<rparr>) c)))))))"

definition executor_remove :: "environment \<Rightarrow> json \<Rightarrow> controller \<Rightarrow> (rpc_error + json) \<times> controller" where
  "executor_remove env params c =
     sbind (required_str params ''executorId'', c) (\<lambda>i c.
       let c1 = with_state (\<lambda>st. st\<lparr>ws_executors := filter (\<lambda>e. executor_key e \<noteq> i) (ws_executors st)\<rparr>) c in
       if \<not> list_ex (\<lambda>e. executor_key e = i) (ws_executors (ctl_state c))
       then (Inl (rpc_err ''EXECUTOR_NOT_FOUND'' (''unknown executor: '' @ i)), c1)
       else persist_answer env (env_clock env 0) (JObj [(''executorId'', JStr i), (''removed'', JBool True)]) c1)"

text \<open>
  \<^verbatim>\<open>executor.call\<close> with leases: each is validated where it lives (at the Executor for its own
  resources, in the table otherwise) before the call is forwarded; the \<open>n\<close>th lease takes the
  \<open>n\<close>th reading and call.
\<close>

definition call_leases :: "json \<Rightarrow> json list option" where
  "call_leases params =
     (case get_array params ''leases'' of
        Some ls \<Rightarrow> Some ls
      | None \<Rightarrow> map_option (\<lambda>r. [JObj [(''owner'', jindex params ''owner''), (''resource'', r),
                                        (''token'', jindex params ''token'')]]) (jget params ''leaseResource''))"

definition authorize_lease ::
  "environment \<Rightarrow> string \<Rightarrow> json \<Rightarrow> controller \<Rightarrow> rpc_error + (json option \<times> json)" where
  "authorize_lease env executor_id item c =
     and_then (required_str item ''resource'') (\<lambda>resource.
     and_then (required_str item ''owner'') (\<lambda>owner.
     and_then (required_str item ''token'') (\<lambda>token.
       let authority = (\<lambda>l. JObj [(''controllerId'', JStr (ctl_id c)), (''fence'', junum (lease_fence l)),
                                   (''resource'', JStr (lease_resource l))])
       in if resource_executor c (JObj [(''resource'', JStr resource)]) \<noteq> None then
            (let grant = JObj [(''owner'', JStr (resource_owner env c owner)), (''resource'', JStr resource),
                               (''token'', JStr token)]
             in and_then (call_registered_executor env executor_id ''resource.lease.validate'' grant c) (\<lambda>v.
                and_then (decoded ''INVALID_LEASE'' (dec_lease (env_codec env) v)) (\<lambda>l.
                  Inr (Some grant, authority l))))
          else and_then (map_err map_lease_error
                 (validate (env_sha env) (env_clock env 0) (ctl_leases c) resource owner token)) (\<lambda>l.
                   Inr (None, authority l)))))"

fun authorize_leases ::
  "environment \<Rightarrow> string \<Rightarrow> json list \<Rightarrow> controller \<Rightarrow> rpc_error + (json list \<times> json list)" where
  "authorize_leases env executor_id [] c = Inr ([], [])"
| "authorize_leases env executor_id (item # items) c =
     and_then (authorize_lease env executor_id item c) (\<lambda>(grant, authority).
     and_then (authorize_leases (nth_call 1 (skip 1 0 env)) executor_id items c) (\<lambda>(grants, authorities).
       Inr ((case grant of None \<Rightarrow> [] | Some g \<Rightarrow> [g]) @ grants, authority # authorities)))"

definition executor_call :: "environment \<Rightarrow> json \<Rightarrow> controller \<Rightarrow> (rpc_error + json) \<times> controller" where
  "executor_call env params c =
     sbind (required_str params ''executorId'', c) (\<lambda>i c.
     sbind (found ''EXECUTOR_NOT_FOUND'' (''unknown executor: '' @ i) (find_executor c i), c) (\<lambda>e c.
     sbind (required_str params ''action'', c) (\<lambda>action c.
       let nested = jindex params ''params'' in
       sbind (case call_leases params of
                None \<Rightarrow> (Inr nested, c)
              | Some items \<Rightarrow>
                  sbind (authorize_leases env i items c, c) (\<lambda>(grants, authorities) c.
                    (ok_or panicked (Option.bind (jset nested ''_resourceLeases'' (JArr grants))
                       (\<lambda>v. jset v ''_authority'' (JArr authorities))), c))) (\<lambda>nested c.
         (remote_value (rpc_err ''EXECUTOR_FAILED'' ''executor failed'') ''EXECUTOR_UNAVAILABLE''
            (env_call env (executor_endpoint e) (traced_request env action nested)), c)))))"

subsection \<open>Approvals\<close>

definition find_approval :: "controller \<Rightarrow> string \<Rightarrow> approval option" where
  "find_approval c i = find (\<lambda>a. approval_id a = i) (ws_approvals (ctl_state c))"

definition update_approval :: "string \<Rightarrow> (approval \<Rightarrow> approval) \<Rightarrow> controller \<Rightarrow> controller" where
  "update_approval i f c =
     with_state (\<lambda>st. st\<lparr>ws_approvals := update_first (\<lambda>a. approval_id a = i) f (ws_approvals st)\<rparr>) c"

definition approval_request :: "environment \<Rightarrow> json \<Rightarrow> controller \<Rightarrow> (rpc_error + json) \<times> controller" where
  "approval_request env params c =
     sbind (required_str params ''digest'', c) (\<lambda>digest c.
     sbind (required_str params ''owner'', c) (\<lambda>owner c.
       case find (\<lambda>a. approval_digest a = digest \<and> approval_owner a = owner
                      \<and> (approval_state a = ApprovalPending \<or> approval_state a = ApprovalApproved))
              (ws_approvals (ctl_state c)) of
         Some a \<Rightarrow> (Inr (enc_approval (env_codec env) a), c)
       | None \<Rightarrow>
           sbind (required_str params ''reason'', c) (\<lambda>reason c.
             let a = \<lparr>approval_id = ''approval_'' @ env_ids env 0, approval_digest = digest, approval_owner = owner,
                      approval_reason = reason, approval_state = ApprovalPending, approval_created_at = env_clock env 0,
                      approval_approved_at = None, approval_consumed_at = None, approval_expires_at = None\<rparr>
             in persist_answer env (env_clock env 1) (enc_approval (env_codec env) a)
                  (with_state (\<lambda>st. st\<lparr>ws_approvals := ws_approvals st @ [a]\<rparr>) c))))"

definition approval_list :: "environment \<Rightarrow> controller \<Rightarrow> (rpc_error + json) \<times> controller" where
  "approval_list env c = (Inr (JArr (map (enc_approval (env_codec env)) (ws_approvals (ctl_state c)))), c)"

definition approve :: "u64 \<Rightarrow> u64 \<Rightarrow> approval \<Rightarrow> approval" where
  "approve now ttl a =
     a\<lparr>approval_state := ApprovalApproved, approval_approved_at := Some now, approval_expires_at := Some (sat_add now ttl)\<rparr>"

definition revoke :: "approval \<Rightarrow> approval" where
  "revoke a = a\<lparr>approval_state := ApprovalRevoked\<rparr>"

definition approval_decide :: "environment \<Rightarrow> string \<Rightarrow> json \<Rightarrow> controller \<Rightarrow> (rpc_error + json) \<times> controller" where
  "approval_decide env action params c =
     sbind (required_str params ''approvalId'', c) (\<lambda>i c.
     sbind (found ''APPROVAL_NOT_FOUND'' (''unknown approval: '' @ i) (find_approval c i), c) (\<lambda>a c.
       if action = ''approval.approve'' then
         (if approval_state a \<noteq> ApprovalPending
          then (Inl (rpc_err ''APPROVAL_NOT_PENDING'' ''approval is not pending''), c)
          else let f = approve (env_clock env 0) (ttl_param params)
               in persist_answer env (env_clock env 1) (enc_approval (env_codec env) (f a)) (update_approval i f c))
       else persist_answer env (env_clock env 1) (enc_approval (env_codec env) (revoke a)) (update_approval i revoke c)))"

subsection \<open>Read grants\<close>

text \<open>
  \<^verbatim>\<open>Path::starts_with\<close> compares whole components: repeated separators and inner \<^verbatim>\<open>.\<close> components do
  not count, a leading \<^verbatim>\<open>.\<close> of a relative path and every \<^verbatim>\<open>..\<close> do.
\<close>

definition unix_components :: "string \<Rightarrow> string list" where
  "unix_components path =
     (let parts = path_components [] path in
      (if starts_with ''/'' path then [''/''] else if parts \<noteq> [] \<and> hd parts = ''.'' then [''.''] else [])
      @ filter (\<lambda>c. c \<noteq> [] \<and> c \<noteq> ''.'') parts)"

definition path_starts_with :: "string \<Rightarrow> string \<Rightarrow> bool" where
  "path_starts_with path root =
     (let cs = unix_components path; rs = unix_components root in take (length rs) cs = rs)"

definition grant_applies :: "controller \<Rightarrow> string \<Rightarrow> string \<Rightarrow> string \<Rightarrow> string \<Rightarrow> read_grant \<Rightarrow> bool" where
  "grant_applies c executor_id workspace capability path g =
     (grant_workspace_session_id g = workspace \<and> get_str (grant_audit g) ''sessionControllerId'' = Some (ctl_id c)
      \<and> grant_executor_id g = executor_id \<and> grant_state g = GrantApproved \<and> capability \<in> set (grant_capabilities g)
      \<and> path_starts_with path (grant_real_root g))"

definition find_read_grant ::
  "environment \<Rightarrow> string \<Rightarrow> string \<Rightarrow> string \<Rightarrow> string \<Rightarrow> controller \<Rightarrow> (rpc_error + read_grant option) \<times> controller" where
  "find_read_grant env executor_id workspace capability path c =
     (case find (grant_applies c executor_id workspace capability path) (ws_read_grants (ctl_state c)) of
        Some g \<Rightarrow> (Inr (Some g), c)
      | None \<Rightarrow>
          sbind (call_registered_executor env executor_id ''read-grant.find''
                   (JObj [(''capability'', JStr capability), (''path'', JStr path),
                          (''workspaceSessionId'', JStr (session_scope env c workspace))]) c, c) (\<lambda>v c.
            if v = JNull then (Inr None, c)
            else
              sbind (decoded ''INVALID_READ_GRANT'' (dec_grant (env_codec env) v), c) (\<lambda>g c.
                let g1 = g\<lparr>grant_workspace_session_id := workspace\<rparr> in
                sbind (persist env (env_clock env 0) (env_io env 0)
                         (with_state (\<lambda>st. st\<lparr>ws_read_grants :=
                            filter (\<lambda>x. grant_id x \<noteq> grant_id g1) (ws_read_grants st) @ [g1]\<rparr>) c))
                  (\<lambda>_ c. (Inr (Some g1), c)))))"

definition grant_capability_names :: "string list" where
  "grant_capability_names =
     [''filesystem.resolve'', ''filesystem.stat'', ''filesystem.list'', ''filesystem.read'', ''filesystem.search'']"

text \<open>Readings: the write of a grant found at the Executor 0, the new grant 1, its write 2; the write of a new grant is write 1.\<close>

definition read_grant_request :: "environment \<Rightarrow> json \<Rightarrow> controller \<Rightarrow> (rpc_error + json) \<times> controller" where
  "read_grant_request env params c =
     sbind (required_str params ''workspaceSessionId'', c) (\<lambda>workspace c.
     sbind (required_str params ''executorId'', c) (\<lambda>executor_id c.
     sbind (required_str params ''requestedRoot'', c) (\<lambda>requested_root c.
     sbind (call_registered_executor env executor_id ''read-grant.resolve''
              (JObj [(''requestedRoot'', JStr requested_root)]) c, c) (\<lambda>resolved c.
     sbind (required_str resolved ''realRoot'', c) (\<lambda>real_root c.
     sbind (find_read_grant (nth_call 1 env) executor_id workspace ''filesystem.read'' real_root c) (\<lambda>existing c.
       case existing of
         Some g \<Rightarrow> (Inr (enc_grant (env_codec env) g), c)
       | None \<Rightarrow>
           (case find (\<lambda>g. grant_workspace_session_id g = workspace \<and> grant_executor_id g = executor_id
                           \<and> grant_state g = GrantRequested \<and> grant_real_root g = real_root)
                   (ws_read_grants (ctl_state c)) of
              Some g \<Rightarrow> (Inr (enc_grant (env_codec env) g), c)
            | None \<Rightarrow>
                sbind (required_str params ''requestedBy'', c) (\<lambda>requested_by c.
                  let g = \<lparr>grant_id = ''read_grant_'' @ env_ids env 2, grant_workspace_session_id = workspace,
                           grant_executor_id = executor_id, grant_requested_root = requested_root,
                           grant_real_root = real_root, grant_capabilities = grant_capability_names,
                           grant_state = GrantRequested, grant_requested_by = requested_by,
                           grant_created_at = env_clock env 1, grant_approved_at = None, grant_revoked_at = None,
                           grant_approved_by = None, grant_audit = unwrap_or (JObj []) (jget params ''audit'')\<rparr>
                  in persist_answer (skip 0 1 env) (env_clock env 2) (enc_grant (env_codec env) g)
                       (with_state (\<lambda>st. st\<lparr>ws_read_grants := ws_read_grants st @ [g]\<rparr>) c)))))))))"

definition find_grant :: "controller \<Rightarrow> string \<Rightarrow> rpc_error + read_grant" where
  "find_grant c i = found ''READ_GRANT_NOT_FOUND'' (''unknown read grant: '' @ i)
     (find (\<lambda>g. grant_id g = i) (ws_read_grants (ctl_state c)))"

text \<open>The audit record of the grant is assigned by index, which panics when it is not an object or null.\<close>

definition read_grant_approve :: "environment \<Rightarrow> json \<Rightarrow> controller \<Rightarrow> (rpc_error + json) \<times> controller" where
  "read_grant_approve env params c =
     sbind (required_str params ''grantId'', c) (\<lambda>i c.
     sbind (required_str params ''approvedBy'', c) (\<lambda>approver c.
     sbind (find_grant c i, c) (\<lambda>g c.
       if grant_state g \<noteq> GrantRequested
       then (Inl (rpc_err ''INVALID_READ_GRANT_STATE'' ''only requested grants can be approved''), c)
       else
         sbind (ok_or panicked (jset (grant_audit g) ''sessionControllerId'' (JStr (ctl_id c))), c) (\<lambda>audit c.
           let g1 = g\<lparr>grant_state := GrantApproved, grant_approved_at := Some (env_clock env 0),
                      grant_approved_by := Some approver, grant_audit := audit\<rparr>
           in sbind (call_registered_executor env (grant_executor_id g1) ''read-grant.approve''
                       (enc_grant (env_codec env)
                          (g1\<lparr>grant_workspace_session_id := session_scope env c (grant_workspace_session_id g1)\<rparr>)) c, c)
                (\<lambda>_ c. persist_answer env (env_clock env 1) (enc_grant (env_codec env) g1)
                   (with_state (\<lambda>st. st\<lparr>ws_read_grants :=
                      update_first (\<lambda>x. grant_id x = i) (\<lambda>_. g1) (ws_read_grants st)\<rparr>) c))))))"

definition read_grant_list :: "environment \<Rightarrow> json \<Rightarrow> controller \<Rightarrow> (rpc_error + json) \<times> controller" where
  "read_grant_list env params c =
     (Inr (JArr (map (enc_grant (env_codec env))
        (filter (\<lambda>g. (case get_str params ''workspaceSessionId'' of None \<Rightarrow> True | Some w \<Rightarrow> w = grant_workspace_session_id g)
                    \<and> (case get_str params ''executorId'' of None \<Rightarrow> True | Some e \<Rightarrow> e = grant_executor_id g))
          (ws_read_grants (ctl_state c))))), c)"

definition read_grant_revoke :: "environment \<Rightarrow> json \<Rightarrow> controller \<Rightarrow> (rpc_error + json) \<times> controller" where
  "read_grant_revoke env params c =
     sbind (required_str params ''grantId'', c) (\<lambda>i c.
     sbind (find_grant c i, c) (\<lambda>g c.
     sbind (call_registered_executor env (grant_executor_id g) ''read-grant.revoke'' (JObj [(''grantId'', JStr i)]) c, c)
       (\<lambda>_ c. persist_answer env (env_clock env 1)
          (enc_grant (env_codec env) (g\<lparr>grant_state := GrantRevoked, grant_revoked_at := Some (env_clock env 0)\<rparr>))
          (with_state (\<lambda>st. st\<lparr>ws_read_grants := revoke_grant (env_clock env 0) i (ws_read_grants st)\<rparr>) c))))"

subsection \<open>Activation transactions\<close>

definition find_transaction :: "controller \<Rightarrow> string \<Rightarrow> rpc_error + activation_transaction" where
  "find_transaction c i = found ''TRANSACTION_NOT_FOUND'' (''unknown transaction: '' @ i)
     (find (\<lambda>t. tx_id t = i) (ws_transactions (ctl_state c)))"

definition transaction_begin :: "environment \<Rightarrow> json \<Rightarrow> controller \<Rightarrow> (rpc_error + json) \<times> controller" where
  "transaction_begin env params c =
     sbind (required_str params ''idempotencyKey'', c) (\<lambda>key c.
       case find (\<lambda>t. tx_idempotency_key t = key
                      \<and> get_str params ''workspaceSessionId'' = Some (tx_workspace_session_id t))
              (ws_transactions (ctl_state c)) of
         Some t \<Rightarrow> (Inr (JObj [(''reused'', JBool True), (''transaction'', enc_transaction (env_codec env) t)]), c)
       | None \<Rightarrow>
           sbind (required_str params ''workspaceSessionId'', c) (\<lambda>workspace c.
           sbind (required_str params ''target'', c) (\<lambda>target c.
           sbind (required_str params ''generationId'', c) (\<lambda>generation_id c.
             let now = env_clock env 0;
                 t = \<lparr>tx_id = ''transaction_'' @ env_ids env 0, tx_workspace_session_id = workspace,
                      tx_idempotency_key = key, tx_target = target, tx_generation_id = generation_id,
                      tx_previous_generation_id = get_str params ''previousGenerationId'', tx_state = TxPlanned,
                      tx_created_at = now, tx_updated_at = now, tx_completed_steps = [], tx_journal = [],
                      tx_lease_fence = get_u64 params ''leaseFence'', tx_evidence = [], tx_error = None\<rparr>
             in persist_answer env (env_clock env 1)
                  (JObj [(''reused'', JBool False), (''transaction'', enc_transaction (env_codec env) t)])
                  (with_state (\<lambda>st. st\<lparr>ws_transactions := ws_transactions st @ [t]\<rparr>) c)))))"

definition transaction_get :: "environment \<Rightarrow> json \<Rightarrow> controller \<Rightarrow> (rpc_error + json) \<times> controller" where
  "transaction_get env params c =
     sbind (required_str params ''transactionId'', c) (\<lambda>i c.
     sbind (find_transaction c i, c) (\<lambda>t c. (Inr (enc_transaction (env_codec env) t), c)))"

definition transaction_list :: "environment \<Rightarrow> controller \<Rightarrow> (rpc_error + json) \<times> controller" where
  "transaction_list env c = (Inr (JArr (map (enc_transaction (env_codec env)) (ws_transactions (ctl_state c)))), c)"

fun step_finished :: "transaction_step_state \<Rightarrow> bool" where
  "step_finished StepSucceeded = True"
| "step_finished StepFailed = True"
| "step_finished StepCompensated = True"
| "step_finished StepOutcomeUnknown = True"
| "step_finished _ = False"

definition journal_entry ::
  "u64 \<Rightarrow> json \<Rightarrow> string \<Rightarrow> transaction_step_state \<Rightarrow> activation_transaction \<Rightarrow> transaction_journal_entry" where
  "journal_entry now params step state t =
     \<lparr>je_sequence = of_nat (length (tx_journal t)) + 1, je_step = step, je_state = state,
      je_attempt = ucast (unwrap_or 1 (get_u64 params ''attempt'')),
      je_started_at = unwrap_or now (get_u64 params ''startedAt''),
      je_finished_at = (if step_finished state then Some now else None),
      je_input_digest = get_str params ''inputDigest'', je_output_digest = get_str params ''outputDigest'',
      je_executor_id = get_str params ''executorId'', je_fence = get_u64 params ''fence'',
      je_details = jindex params ''details''\<rparr>"

definition advance_transaction ::
  "string \<Rightarrow> transaction_step_state \<Rightarrow> activation_transaction \<Rightarrow> activation_transaction" where
  "advance_transaction step state t =
     (case state of
        StepStarted \<Rightarrow> t\<lparr>tx_state := TxRunning\<rparr>
      | StepSucceeded \<Rightarrow>
          let t1 = (if step \<in> set (tx_completed_steps t) then t
                    else t\<lparr>tx_completed_steps := tx_completed_steps t @ [step]\<rparr>)
          in if step = ''activate'' then t1\<lparr>tx_state := TxActivated\<rparr> else t1
      | StepFailed \<Rightarrow> t\<lparr>tx_state := TxFailed\<rparr>
      | StepOutcomeUnknown \<Rightarrow> t\<lparr>tx_state := TxOutcomeUnknown\<rparr>
      | StepCompensated \<Rightarrow> t\<lparr>tx_state := TxRolledBack\<rparr>
      | StepPlanned \<Rightarrow> t)"

definition record_step ::
  "u64 \<Rightarrow> json \<Rightarrow> string \<Rightarrow> transaction_step_state \<Rightarrow> activation_transaction \<Rightarrow> activation_transaction" where
  "record_step now params step state t =
     (let t1 = t\<lparr>tx_journal := tx_journal t @ [journal_entry now params step state t], tx_updated_at := now\<rparr>;
          t2 = (case get_str params ''previousGenerationId'' of
                  Some previous \<Rightarrow> if step = ''activate'' then t1\<lparr>tx_previous_generation_id := Some previous\<rparr> else t1
                | None \<Rightarrow> t1)
      in advance_transaction step state t2)"

definition transaction_record :: "environment \<Rightarrow> json \<Rightarrow> controller \<Rightarrow> (rpc_error + json) \<times> controller" where
  "transaction_record env params c =
     sbind (required_str params ''transactionId'', c) (\<lambda>i c.
     sbind (required_str params ''step'', c) (\<lambda>step c.
     sbind (required_member params ''state'', c) (\<lambda>v c.
     sbind (decoded ''INVALID_PARAMS'' (dec_step_state (env_codec env) v), c) (\<lambda>state c.
     sbind (find_transaction c i, c) (\<lambda>t c.
       case (tx_lease_fence t, get_u64 params ''fence'') of
         (Some expected, Some actual) \<Rightarrow>
           if expected \<noteq> actual
           then (Inl (rpc_err ''STALE_FENCING_TOKEN''
                   (''transaction fence is '' @ dec (unat expected) @ '', request used '' @ dec (unat actual))), c)
           else persist_answer env (env_clock env 1)
                  (enc_transaction (env_codec env) (record_step (env_clock env 0) params step state t))
                  (with_state (\<lambda>st. st\<lparr>ws_transactions := update_first (\<lambda>x. tx_id x = i)
                     (record_step (env_clock env 0) params step state) (ws_transactions st)\<rparr>) c)
       | _ \<Rightarrow> persist_answer env (env_clock env 1)
                  (enc_transaction (env_codec env) (record_step (env_clock env 0) params step state t))
                  (with_state (\<lambda>st. st\<lparr>ws_transactions := update_first (\<lambda>x. tx_id x = i)
                     (record_step (env_clock env 0) params step state) (ws_transactions st)\<rparr>) c))))))"

subsection \<open>Handoffs between agents\<close>

definition find_handoff :: "controller \<Rightarrow> string \<Rightarrow> rpc_error + handoff" where
  "find_handoff c i = found ''HANDOFF_NOT_FOUND'' (''unknown handoff: '' @ i)
     (find (\<lambda>h. handoff_id h = i) (ws_handoffs (ctl_state c)))"

definition update_handoff :: "string \<Rightarrow> (handoff \<Rightarrow> handoff) \<Rightarrow> controller \<Rightarrow> controller" where
  "update_handoff i f c =
     with_state (\<lambda>st. st\<lparr>ws_handoffs := update_first (\<lambda>h. handoff_id h = i) f (ws_handoffs st)\<rparr>) c"

definition handoff_create :: "environment \<Rightarrow> json \<Rightarrow> controller \<Rightarrow> (rpc_error + json) \<times> controller" where
  "handoff_create env params c =
     sbind (decoded ''INVALID_PARAMS'' (dec_handoff (env_codec env) params), c) (\<lambda>h c.
       let h1 = (if handoff_id h = [] then h\<lparr>handoff_id := ''handoff_'' @ env_ids env 0\<rparr> else h);
           h2 = (if handoff_created_at h1 = 0 then h1\<lparr>handoff_created_at := env_clock env 0\<rparr> else h1)
       in persist_answer env (env_clock env 1) (enc_handoff (env_codec env) h2)
            (with_state (\<lambda>st. st\<lparr>ws_handoffs := ws_handoffs st @ [h2]\<rparr>) c))"

definition handoff_get :: "environment \<Rightarrow> json \<Rightarrow> controller \<Rightarrow> (rpc_error + json) \<times> controller" where
  "handoff_get env params c =
     sbind (required_str params ''handoffId'', c) (\<lambda>i c.
     sbind (find_handoff c i, c) (\<lambda>h c. (Inr (enc_handoff (env_codec env) h), c)))"

fun handoff_kind_name :: "handoff_kind \<Rightarrow> string" where
  "handoff_kind_name HandoffWork = ''work''"
| "handoff_kind_name HandoffAcceptance = ''acceptance''"

definition handoff_list :: "environment \<Rightarrow> json \<Rightarrow> controller \<Rightarrow> (rpc_error + json) \<times> controller" where
  "handoff_list env params c =
     (Inr (JArr (map (enc_handoff (env_codec env))
        (filter (\<lambda>h. (case get_str params ''kind'' of None \<Rightarrow> True | Some k \<Rightarrow> k = handoff_kind_name (handoff_kind h))
                    \<and> (case get_str params ''agentId'' of None \<Rightarrow> True | Some a \<Rightarrow> role_agent_id (handoff_to h) = Some a))
          (ws_handoffs (ctl_state c))))), c)"

text \<open>The lease of an acceptance environment, checked in the Controller's own table.\<close>

definition acceptance_lease ::
  "environment \<Rightarrow> string \<Rightarrow> json \<Rightarrow> controller \<Rightarrow> rpc_error + lease" where
  "acceptance_lease env message params c =
     and_then (required_str params ''acceptanceResource'') (\<lambda>resource.
       if \<not> starts_with ''acceptance:'' resource then Inl (rpc_err ''INVALID_ACCEPTANCE_RESOURCE'' message)
       else and_then (required_str params ''owner'') (\<lambda>owner.
            and_then (required_str params ''leaseToken'') (\<lambda>token.
              map_err map_lease_error (validate (env_sha env) (env_clock env 0) (ctl_leases c) resource owner token))))"

definition handoff_report_action :: "environment \<Rightarrow> json \<Rightarrow> controller \<Rightarrow> (rpc_error + json) \<times> controller" where
  "handoff_report_action env params c =
     sbind (required_str params ''handoffId'', c) (\<lambda>i c.
     sbind (acceptance_lease env ''acceptanceResource must use acceptance:<executor>:<port>'' params c, c) (\<lambda>_ c.
     sbind (find_handoff c i, c) (\<lambda>h c.
       if handoff_kind h \<noteq> HandoffAcceptance
       then (Inl (rpc_err ''INVALID_HANDOFF_KIND'' ''reports are only valid for acceptance handoffs''), c)
       else let f = (\<lambda>h. h\<lparr>handoff_report := Some (jindex params ''report'')\<rparr>)
            in persist_answer env (env_clock env 1) (enc_handoff (env_codec env) (f h)) (update_handoff i f c))))"

definition acknowledge :: "u64 \<Rightarrow> handoff \<Rightarrow> handoff" where
  "acknowledge now h = h\<lparr>handoff_acknowledged_at := Some now\<rparr>"

definition complete :: "u64 \<Rightarrow> handoff \<Rightarrow> handoff" where
  "complete now h = h\<lparr>handoff_completed_at := Some now\<rparr>"

text \<open>Readings: the lease 0, \<open>now\<close> 1, the write 2.\<close>

definition handoff_progress :: "environment \<Rightarrow> string \<Rightarrow> json \<Rightarrow> controller \<Rightarrow> (rpc_error + json) \<times> controller" where
  "handoff_progress env action params c =
     sbind (required_str params ''handoffId'', c) (\<lambda>i c.
     sbind (find_handoff c i, c) (\<lambda>h c.
       let now = env_clock env 1 in
       sbind
         (if action = ''handoff.acknowledge'' then
            (if handoff_acknowledged_at h \<noteq> None
             then (Inl (rpc_err ''HANDOFF_ALREADY_ACKNOWLEDGED'' (''handoff already acknowledged: '' @ i)), c)
             else (Inr (acknowledge now), c))
          else if handoff_acknowledged_at h = None then
            (Inl (rpc_err ''HANDOFF_NOT_ACKNOWLEDGED'' ''handoff must be acknowledged before completion''), c)
          else if handoff_kind h = HandoffAcceptance then
            sbind (acceptance_lease env ''acceptance resource is required'' params c, c) (\<lambda>_ c.
              if handoff_report h = None
              then (Inl (rpc_err ''ACCEPTANCE_REPORT_REQUIRED'' ''acceptance report is required before completion''), c)
              else (Inr (complete now), c))
          else (Inr (complete now), c))
         (\<lambda>f c. persist_answer env (env_clock env 2) (enc_handoff (env_codec env) (f h)) (update_handoff i f c))))"

subsection \<open>Dispatch\<close>

definition registry_actions :: "handler \<Rightarrow> handler" where
  "registry_actions rest env action params c =
     (if action = ''executor.list'' then executor_list env c
      else if action = ''controller.list'' then controller_list env c
      else if action = ''executor.unregister'' then executor_unregister env params c
      else if action = ''controller.unregister'' then controller_unregister env params c
      else if action = ''controller.register'' then controller_register env params c
      else if action = ''controller.call'' then controller_call env params c
      else if action = ''session.put'' then session_put env params c
      else if action = ''session.accept-handoff'' \<or> action = ''session.handoff'' then (Inl session_immutable, c)
      else if action = ''session.get'' then session_get env params c
      else if action = ''session.list'' then session_list env c
      else if action = ''session.transition'' then session_transition env params c
      else if action = ''artifact.put'' then artifact_put env params c
      else if action = ''artifact.get'' then artifact_get env params c
      else if action = ''artifact.list'' then artifact_list env c
      else if action = ''generation.put'' then generation_put env params c
      else if action = ''generation.get'' then generation_get env params c
      else if action = ''generation.list'' then generation_list env c
      else if action = ''agent.put'' then agent_put env params c
      else if action = ''agent.get'' then agent_get env params c
      else if action = ''agent.list'' then agent_list env c
      else if action = ''agent.transition'' then agent_transition env params c
      else if action = ''executor.put'' then executor_put env params c
      else if action = ''executor.register'' then executor_register env params c
      else if action = ''executor.remove'' then executor_remove env params c
      else if action = ''executor.call'' then executor_call env params c
      else if action = ''approval.request'' then approval_request env params c
      else if action = ''approval.list'' then approval_list env c
      else if action = ''approval.approve'' \<or> action = ''approval.revoke'' then approval_decide env action params c
      else if action = ''read-grant.request'' then read_grant_request env params c
      else if action = ''read-grant.approve'' then read_grant_approve env params c
      else if action = ''read-grant.list'' then read_grant_list env params c
      else if action = ''read-grant.revoke'' then read_grant_revoke env params c
      else if action = ''transaction.begin'' then transaction_begin env params c
      else if action = ''transaction.get'' then transaction_get env params c
      else if action = ''transaction.list'' then transaction_list env c
      else if action = ''transaction.record'' then transaction_record env params c
      else if action = ''handoff.create'' then handoff_create env params c
      else if action = ''handoff.get'' then handoff_get env params c
      else if action = ''handoff.list'' then handoff_list env params c
      else if action = ''handoff.report'' then handoff_report_action env params c
      else if action = ''handoff.acknowledge'' \<or> action = ''handoff.complete'' then handoff_progress env action params c
      else rest env action params c)"

end
