(* ===== verification/Operations.thy ===== *)
theory Operations
  imports Registry
begin

section \<open>Tasks, ports, runs and operator actions\<close>

text \<open>
  The handlers of \<^verbatim>\<open>crates/workbench-runtime/src/controller.rs\<close> for tasks, ports, runs and
  observations, and the actions of a human operator. The readings of the clock and the writes of
  a handler have fixed positions, given where they are not obvious; calls to other processes take
  their request identifiers in order.
\<close>

subsection \<open>Observations about the Controller's own work\<close>

definition plain_observation :: "string \<Rightarrow> string \<Rightarrow> string \<Rightarrow> string \<Rightarrow> string \<Rightarrow> u64 \<Rightarrow> string option \<Rightarrow> json \<Rightarrow> observation" where
  "plain_observation node role kind name status now run attributes =
     \<lparr>ob_event_id = 0, ob_run_id = run, ob_timestamp = now, ob_node_id = node, ob_role = role, ob_kind = kind,
      ob_name = name, ob_status = status, ob_duration_ms = None, ob_span_id = None, ob_parent_span_id = None,
      ob_request_id = None, ob_task_id = None, ob_process_id = None, ob_connection_id = None,
      ob_attributes = attributes\<rparr>"

definition current_trace :: "environment \<Rightarrow> string option \<times> string option" where
  "current_trace env =
     (case env_trace env of
        None \<Rightarrow> (None, None)
      | Some trace \<Rightarrow> (Some (trace_correlation_id trace), Some (trace_request_id trace)))"

definition current_run_id :: "environment \<Rightarrow> string option" where
  "current_run_id env = Option.bind (env_trace env) trace_run_id"

definition observe_task_state :: "environment \<Rightarrow> u64 \<Rightarrow> task \<Rightarrow> controller \<Rightarrow> controller" where
  "observe_task_state env now t c =
     observe ((plain_observation (ctl_id c) ''controller'' ''task-state'' (task_capability t) (task_state_name (task_state t)) now
        (current_run_id env)
        (JObj [(''capability'', JStr (task_capability t)), (''targetNode'', JStr (task_executor_id t))]))
          \<lparr>ob_request_id := task_request_id t, ob_task_id := Some (task_id t),
           ob_process_id := get_str (task_input t) ''processId''\<rparr>) c"

subsection \<open>Tasks\<close>

fun task_state_debug :: "task_state \<Rightarrow> string" where
  "task_state_debug Queued = ''Queued''"
| "task_state_debug Running = ''Running''"
| "task_state_debug CancelRequested = ''CancelRequested''"
| "task_state_debug Cancelling = ''Cancelling''"
| "task_state_debug Succeeded = ''Succeeded''"
| "task_state_debug Failed = ''Failed''"
| "task_state_debug Cancelled = ''Cancelled''"
| "task_state_debug FailedToCancel = ''FailedToCancel''"
| "task_state_debug TimedOut = ''TimedOut''"
| "task_state_debug OutcomeUnknown = ''OutcomeUnknown''"

fun task_error_text :: "task_table_error \<Rightarrow> string" where
  "task_error_text TaskNotFound = ''task not found''"
| "task_error_text (TaskInvalidTransition a b) =
     ''invalid transition from '' @ task_state_debug a @ '' to '' @ task_state_debug b"

definition task_op ::
  "string \<Rightarrow> (task_table \<Rightarrow> (task_table_error + task) \<times> task_table) \<Rightarrow> controller \<Rightarrow> (rpc_error + task) \<times> controller" where
  "task_op code f c =
     (let (r, t) = f (ctl_tasks c) in (map_err (\<lambda>e. rpc_err code (task_error_text e)) r, c\<lparr>ctl_tasks := t\<rparr>))"

definition find_task :: "controller \<Rightarrow> string \<Rightarrow> rpc_error + task" where
  "find_task c i = found ''TASK_NOT_FOUND'' (''unknown task: '' @ i) (task_get (ctl_tasks c) i)"

text \<open>Write the state, record the task's state, answer.\<close>

definition task_answer :: "environment \<Rightarrow> task \<Rightarrow> json \<Rightarrow> controller \<Rightarrow> (rpc_error + json) \<times> controller" where
  "task_answer env t v c =
     sbind (persist env (env_clock env 0) (env_io env 0) c) (\<lambda>_ c. (Inr v, observe_task_state env (env_clock env 1) t c))"

definition task_submit :: "environment \<Rightarrow> json \<Rightarrow> controller \<Rightarrow> (rpc_error + json) \<times> controller" where
  "task_submit env params c =
     sbind (required_str params ''workspaceSessionId'', c) (\<lambda>workspace c.
     sbind (required_str params ''executorId'', c) (\<lambda>executor_id c.
     sbind (required_str params ''capability'', c) (\<lambda>capability c.
     sbind (required_str params ''idempotencyKey'', c) (\<lambda>key c.
       let (correlation_id, request_id) = current_trace env in
       case submit_traced (env_clock env) (env_ids env 0) workspace executor_id capability (jindex params ''input'') key
              correlation_id request_id (ctl_tasks c) of
         None \<Rightarrow> (Inl panicked, c)
       | Some ((t, reused), tbl) \<Rightarrow>
           task_answer (skip 2 0 env) t
             (JObj [(''reused'', JBool reused), (''task'', enc_task (env_codec env) t)]) (c\<lparr>ctl_tasks := tbl\<rparr>)))))"

definition task_get_action :: "environment \<Rightarrow> json \<Rightarrow> controller \<Rightarrow> (rpc_error + json) \<times> controller" where
  "task_get_action env params c =
     sbind (required_str params ''taskId'', c) (\<lambda>i c.
     sbind (find_task c i, c) (\<lambda>t c. (Inr (enc_task (env_codec env) t), c)))"

definition task_list :: "environment \<Rightarrow> controller \<Rightarrow> (rpc_error + json) \<times> controller" where
  "task_list env c = (Inr (JArr (map (enc_task (env_codec env)) (task_snapshot (ctl_tasks c)))), c)"

definition task_events_action :: "environment \<Rightarrow> json \<Rightarrow> controller \<Rightarrow> (rpc_error + json) \<times> controller" where
  "task_events_action env params c =
     sbind (required_str params ''taskId'', c) (\<lambda>i c.
     sbind (find_task c i, c) (\<lambda>t c.
       (Inr (JObj [(''events'', JArr (map (enc_task_event (env_codec env)) (task_events t))), (''taskId'', JStr i)]), c)))"

text \<open>
  \<^verbatim>\<open>task.wait\<close> polls: round \<open>n\<close> looks at the table \<open>tables n\<close> of that moment, and \<open>late n\<close> says whether
  the deadline has passed when the round ends. The loop may not end when it never passes.
\<close>

definition wait_timeout :: "string \<Rightarrow> rpc_error" where
  "wait_timeout i = rpc_err ''TASK_WAIT_TIMEOUT'' (''task '' @ i @ '' did not finish before timeout'')"

partial_function (option) task_wait_loop ::
  "(nat \<Rightarrow> task_table) \<Rightarrow> (nat \<Rightarrow> bool) \<Rightarrow> string \<Rightarrow> nat \<Rightarrow> (rpc_error + task) option" where
  "task_wait_loop tables late i n =
     (case task_get (tables n) i of
        None \<Rightarrow> Some (Inl (rpc_err ''TASK_NOT_FOUND'' (''unknown task: '' @ i)))
      | Some t \<Rightarrow>
          if terminal (task_state t) then Some (Inr t)
          else if late n then Some (Inl (wait_timeout i))
          else task_wait_loop tables late i (Suc n))"

text \<open>The answer to a wait when nothing else changes the table meanwhile.\<close>

definition task_wait :: "environment \<Rightarrow> json \<Rightarrow> controller \<Rightarrow> (rpc_error + json) \<times> controller" where
  "task_wait env params c =
     sbind (required_str params ''taskId'', c) (\<lambda>i c.
     sbind (find_task c i, c) (\<lambda>t c.
       if terminal (task_state t) then (Inr (enc_task (env_codec env) t), c) else (Inl (wait_timeout i), c)))"

definition task_retry :: "environment \<Rightarrow> json \<Rightarrow> controller \<Rightarrow> (rpc_error + json) \<times> controller" where
  "task_retry env params c =
     sbind (required_str params ''taskId'', c) (\<lambda>i c.
     sbind (task_op ''TASK_NOT_RETRYABLE'' (retry (env_clock env) i) c) (\<lambda>t c.
       task_answer (skip 2 0 env) t (enc_task (env_codec env) t) c))"

definition error_of :: "rpc_error \<Rightarrow> task_error" where
  "error_of e = \<lparr>terr_code = err_code e, terr_message = err_message e, terr_retryable = err_retryable e,
                 terr_details = err_details e\<rparr>"

definition process_of :: "task \<Rightarrow> string option" where
  "process_of t =
     or_else (get_str (task_input t) ''processId'') (Option.bind (task_output t) (\<lambda>out. get_str out ''id''))"

text \<open>The cancellation of a running task: two transitions, the write, the stop request, the outcome.\<close>

definition stop_process :: "environment \<Rightarrow> task \<Rightarrow> controller \<Rightarrow> rpc_error + json" where
  "stop_process env t c =
     (case process_of t of
        Some p \<Rightarrow> call_registered_executor env (task_executor_id t) ''process.stop'' (JObj [(''processId'', JStr p)]) c
      | None \<Rightarrow> Inl (rpc_err ''TASK_PROCESS_NOT_REGISTERED'' ''running task has no registered processId''))"

definition cancel_running :: "environment \<Rightarrow> task \<Rightarrow> controller \<Rightarrow> (rpc_error + json) \<times> controller" where
  "cancel_running env t c =
     (let i = task_id t; clk = env_clock env in
      sbind (task_op ''INVALID_TASK_STATE'' (transition clk i CancelRequested None None) c) (\<lambda>t1 c.
      sbind (task_op ''INVALID_TASK_STATE'' (transition (\<lambda>n. clk (n + 3)) i Cancelling None None)
               (observe_task_state env (clk 2) t1 c)) (\<lambda>t2 c.
      sbind (persist env (clk 6) (env_io env 0) (observe_task_state env (clk 5) t2 c)) (\<lambda>_ c.
        let (state, error) = (case stop_process env t c of
              Inr _ \<Rightarrow> (Cancelled, None) | Inl e \<Rightarrow> (FailedToCancel, Some (error_of e)))
        in sbind (task_op ''INVALID_TASK_STATE'' (transition (\<lambda>n. clk (n + 7)) i state None error) c) (\<lambda>t3 c.
             task_answer (skip 9 1 env) t3 (enc_task (env_codec env) t3) c)))))"

definition task_cancel :: "environment \<Rightarrow> json \<Rightarrow> controller \<Rightarrow> (rpc_error + json) \<times> controller" where
  "task_cancel env params c =
     (if get_bool params ''_operatorAuthorized'' \<noteq> Some True
      then (Inl (rpc_err ''OPERATOR_REQUIRED'' ''task cancellation requires an operator nonce''), c)
      else
        sbind (required_str params ''taskId'', c) (\<lambda>i c.
        sbind (find_task c i, c) (\<lambda>t c.
          if terminal (task_state t) then (Inr (enc_task (env_codec env) t), c)
          else if task_state t = Queued then
            sbind (task_op ''INVALID_TASK_STATE'' (transition (env_clock env) i Cancelled None None) c) (\<lambda>t1 c.
              task_answer (skip 2 0 env) t1 (enc_task (env_codec env) t1) c)
          else cancel_running env t c)))"

definition task_prune :: "environment \<Rightarrow> json \<Rightarrow> controller \<Rightarrow> (rpc_error + json) \<times> controller" where
  "task_prune env params c =
     (let (removed, tbl) = prune_terminal_before (unwrap_or (env_clock env 0) (get_u64 params ''before'')) (ctl_tasks c)
      in persist_answer env (env_clock env 1)
           (JObj [(''pruned'', jnat (length removed)), (''taskIds'', JArr (map (\<lambda>t. JStr (task_id t)) removed))])
           (c\<lparr>ctl_tasks := tbl\<rparr>))"

definition task_transition :: "environment \<Rightarrow> json \<Rightarrow> controller \<Rightarrow> (rpc_error + json) \<times> controller" where
  "task_transition env params c =
     sbind (required_member params ''state'', c) (\<lambda>v c.
     sbind (decoded ''INVALID_PARAMS'' (dec_task_state (env_codec env) v), c) (\<lambda>state c.
     sbind (required_str params ''taskId'', c) (\<lambda>i c.
     sbind (task_op ''INVALID_TASK_STATE'' (transition (env_clock env) i state (jget params ''output'') None) c) (\<lambda>t c.
       task_answer (skip 2 0 env) t (enc_task (env_codec env) t) c))))"

subsection \<open>Ports\<close>

fun port_leases :: "environment \<Rightarrow> string list \<Rightarrow> controller \<Rightarrow> rpc_error + json list" where
  "port_leases env [] c = Inr []"
| "port_leases env (i # is) c =
     and_then (call_registered_executor env i ''resource.lease.list'' (JObj [(''prefix'', JStr ''port:'')]) c) (\<lambda>v.
     and_then (port_leases (nth_call 1 env) is c) (\<lambda>vs. Inr (unwrap_or [] (as_array v) @ vs)))"

definition port_list :: "environment \<Rightarrow> json \<Rightarrow> controller \<Rightarrow> (rpc_error + json) \<times> controller" where
  "port_list env params c =
     sbind (port_leases env
              (filter (\<lambda>i. case get_str params ''executorId'' of None \<Rightarrow> True | Some x \<Rightarrow> x = i)
                (map executor_key (filter (\<lambda>e. list_ex (\<lambda>cap. cap_name cap = ''port.check'') (executor_capabilities e))
                   (ws_executors (ctl_state c))))) c, c)
       (\<lambda>vs c. (Inr (JArr vs), c))"

text \<open>One port: lease it, check it, keep it when it is free and give it back otherwise; nothing means the next one.\<close>

definition try_port ::
  "environment \<Rightarrow> string \<Rightarrow> string \<Rightarrow> json \<Rightarrow> u64 \<Rightarrow> controller \<Rightarrow> rpc_error + json option" where
  "try_port env executor_id owner params port c =
     (let resource = ''port:'' @ executor_id @ '':'' @ dec (unat port);
          qualified = resource_owner env c owner
      in case call_registered_executor env executor_id ''resource.lease.acquire''
                (JObj [(''owner'', JStr qualified), (''resource'', JStr resource), (''ttlMs'', junum (ttl_param params))]) c of
           Inl e \<Rightarrow> if err_code e = ''RESOURCE_BUSY'' then Inr None else Inl e
         | Inr l \<Rightarrow>
             let checked = call_registered_executor (nth_call 1 env) executor_id ''port.check'' (JObj [(''port'', junum port)]) c
             in if (case checked of Inl _ \<Rightarrow> None | Inr v \<Rightarrow> get_bool v ''available'') = Some True then
                  and_then (ok_or panicked (jset l ''owner'' (JStr owner))) (\<lambda>l'.
                    Inr (Some (JObj [(''executorId'', JStr executor_id), (''lease'', l'), (''port'', junum port)])))
                else
                  let released = call_registered_executor (nth_call 2 env) executor_id ''resource.lease.release''
                        (JObj [(''owner'', JStr qualified), (''resource'', JStr resource), (''token'', jindex l ''token'')]) c
                  in and_then checked (\<lambda>_. Inr None))"

fun try_ports ::
  "environment \<Rightarrow> string \<Rightarrow> string \<Rightarrow> json \<Rightarrow> u64 list \<Rightarrow> controller \<Rightarrow> rpc_error + json option" where
  "try_ports env executor_id owner params [] c = Inr None"
| "try_ports env executor_id owner params (p # ps) c =
     and_then (try_port env executor_id owner params p c) (\<lambda>r.
       case r of Some v \<Rightarrow> Inr (Some v) | None \<Rightarrow> try_ports (nth_call 3 env) executor_id owner params ps c)"

definition port_allocate :: "environment \<Rightarrow> json \<Rightarrow> controller \<Rightarrow> (rpc_error + json) \<times> controller" where
  "port_allocate env params c =
     sbind (required_str params ''executorId'', c) (\<lambda>executor_id c.
     sbind (required_str params ''owner'', c) (\<lambda>owner c.
       let first = unwrap_or 20000 (get_u64 params ''start''); last = unwrap_or 40000 (get_u64 params ''end'') in
       if first = 0 \<or> 65535 < last \<or> last < first then (Inl (rpc_err ''INVALID_PARAMS'' ''invalid port range''), c)
       else
         sbind (try_ports env executor_id owner params (map of_nat [unat first..<Suc (unat last)]) c, c) (\<lambda>r c.
           case r of
             Some v \<Rightarrow> (Inr v, c)
           | None \<Rightarrow> (Inl (rpc_err ''PORT_UNAVAILABLE''
               (''no available port in '' @ dec (unat first) @ ''..='' @ dec (unat last))), c))))"

subsection \<open>Dispatch of tasks and ports\<close>

definition unknown_action :: handler where
  "unknown_action env action params c = (Inl (rpc_err ''UNKNOWN_ACTION'' (''unknown action: '' @ action)), c)"

definition task_actions :: "handler \<Rightarrow> handler" where
  "task_actions rest env action params c =
     (if action = ''task.submit'' then task_submit env params c
      else if action = ''task.get'' then task_get_action env params c
      else if action = ''task.list'' then task_list env c
      else if action = ''task.events'' then task_events_action env params c
      else if action = ''task.wait'' then task_wait env params c
      else if action = ''task.retry'' then task_retry env params c
      else if action = ''task.cancel'' then task_cancel env params c
      else if action = ''task.prune'' then task_prune env params c
      else if action = ''task.transition'' then task_transition env params c
      else if action = ''port.list'' then port_list env params c
      else if action = ''port.allocate'' then port_allocate env params c
      else rest env action params c)"

end
