(* ===== verification/Operator.thy ===== *)
theory Operator
  imports Operations
begin

section \<open>Runs, observations and the operator\<close>

text \<open>
  The handlers of \<^verbatim>\<open>crates/workbench-runtime/src/controller.rs\<close> behind the dashboard: runs and
  observations, answered together with the peer Controllers, health checks, and the actions a
  human operator is authorized for by a grant and, for the two destructive ones, a nonce of one
  use. Requests sent from threads of their own carry no trace, as the trace is per thread.
\<close>

subsection \<open>Runs\<close>

definition observability_text :: "environment \<Rightarrow> observability_error \<Rightarrow> string" where
  "observability_text env e =
     (case e of
        ObsSql \<Rightarrow> ''observability database error: '' @ sql_error_text (env_codec env)
      | ObsRunNotFound i \<Rightarrow> ''run not found: '' @ i
      | ObsInvalidTransition m \<Rightarrow> ''invalid run transition: '' @ m)"

definition observability_rpc_error :: "environment \<Rightarrow> observability_error \<Rightarrow> rpc_error" where
  "observability_rpc_error env e = rpc_err (observability_code e) (observability_text env e)"

definition local_only :: "json \<Rightarrow> bool" where
  "local_only params = (get_bool params ''localOnly'' = Some True)"

text \<open>Ask the peers in order until one succeeds.\<close>

fun first_success :: "environment \<Rightarrow> string \<Rightarrow> json \<Rightarrow> controller_peer list \<Rightarrow> json option" where
  "first_success env action params [] = None"
| "first_success env action params (p # ps) =
     (case env_call env (peer_endpoint p) (traced_request env action params) of
        Inl _ \<Rightarrow> first_success (nth_call 1 env) action params ps
      | Inr r \<Rightarrow> if resp_ok r then Some (unwrap_or JNull (resp_result r))
                else first_success (nth_call 1 env) action params ps)"

definition call_peer_until_success :: "environment \<Rightarrow> string \<Rightarrow> json \<Rightarrow> controller \<Rightarrow> rpc_error + json" where
  "call_peer_until_success env action params c =
     found ''RUN_NOT_FOUND'' ''run was not found on any connected Controller''
       (first_success env action params (ws_controllers (ctl_state c)))"

definition started_run :: "environment \<Rightarrow> json \<Rightarrow> rpc_error + run" where
  "started_run env params =
     and_then (optional_str params ''workspaceSessionId'') (\<lambda>workspace.
     and_then (optional_str params ''agentSessionId'') (\<lambda>agent.
     and_then (required_str params ''targetSummary'') (\<lambda>summary.
     and_then (optional_str params ''createdBy'') (\<lambda>created_by.
       Inr \<lparr>run_id = unwrap_or (''run_'' @ env_ids env 0) (get_str params ''runId''),
            run_workspace_session_id = workspace, run_agent_session_id = agent,
            run_target_summary = take_chars 500 summary, run_created_by = unwrap_or ''agent'' created_by,
            run_status = RunRunning, run_health = RunUnknown, run_started_at = env_clock env 0,
            run_finished_at = None, run_business_outcome = None\<rparr>))))"

definition run_start :: "environment \<Rightarrow> json \<Rightarrow> controller \<Rightarrow> (rpc_error + json) \<times> controller" where
  "run_start env params c =
     sbind (started_run env params, c) (\<lambda>r c.
       let (result, obs) = start_run r (ctl_observations c) in
       sbind (map_err (observability_rpc_error env) result, c\<lparr>ctl_observations := obs\<rparr>) (\<lambda>_ c.
         (Inr (enc_run (env_codec env) r),
          observe (plain_observation (ctl_id c) ''controller'' ''run'' ''run.start'' ''running'' (run_started_at r)
            (Some (run_id r)) (JObj [(''createdBy'', JStr (run_created_by r))])) c)))"

fun run_health_name :: "run_health \<Rightarrow> string" where
  "run_health_name RunHealthy = ''healthy''"
| "run_health_name RunDegraded = ''degraded''"
| "run_health_name RunFailed = ''failed''"
| "run_health_name RunUnknown = ''unknown''"

definition finish_observation :: "string \<Rightarrow> u64 \<Rightarrow> run \<Rightarrow> observation" where
  "finish_observation node now r =
     (let at = unwrap_or now (run_finished_at r) in
      (plain_observation node ''controller'' ''run'' ''run.finish'' (run_status_name (run_status r)) at (Some (run_id r))
         (JObj [(''businessOutcome'', jopt JStr (run_business_outcome r)), (''health'', JStr (run_health_name (run_health r)))]))
        \<lparr>ob_duration_ms := Some (sat_sub at (run_started_at r))\<rparr>)"

definition run_finish :: "environment \<Rightarrow> json \<Rightarrow> controller \<Rightarrow> (rpc_error + json) \<times> controller" where
  "run_finish env params c =
     sbind (decoded ''INVALID_PARAMS'' (dec_run_status (env_codec env)
              (unwrap_or (JStr ''completed'') (jget params ''status''))), c) (\<lambda>status c.
     sbind (required_str params ''runId'', c) (\<lambda>i c.
     sbind (optional_str params ''businessOutcome'', c) (\<lambda>outcome c.
       let (result, obs) = finish_run i status (env_clock env 0) outcome (ctl_observations c);
           c1 = c\<lparr>ctl_observations := obs\<rparr>
       in case result of
            Inr r \<Rightarrow> (Inr (enc_run (env_codec env) r), observe (finish_observation (ctl_id c) (env_clock env 1) r) c1)
          | Inl e \<Rightarrow>
              (case e of
                 ObsRunNotFound _ \<Rightarrow>
                   if local_only params then (Inl (observability_rpc_error env e), c1)
                   else (call_peer_until_success env ''run.finish''
                           (JObj [(''businessOutcome'', jindex params ''businessOutcome''), (''localOnly'', JBool True),
                                  (''runId'', JStr i), (''status'', jindex params ''status'')]) c1, c1)
               | _ \<Rightarrow> (Inl (observability_rpc_error env e), c1)))))"

definition run_get :: "environment \<Rightarrow> json \<Rightarrow> controller \<Rightarrow> (rpc_error + json) \<times> controller" where
  "run_get env params c =
     sbind (required_str params ''runId'', c) (\<lambda>i c.
       case get_run (ctl_observations c) i of
         Some r \<Rightarrow> (Inr (enc_run (env_codec env) r), c)
       | None \<Rightarrow>
           if local_only params then (Inl (rpc_err ''RUN_NOT_FOUND'' ''run not found''), c)
           else (call_peer_until_success env ''run.get'' (JObj [(''localOnly'', JBool True), (''runId'', JStr i)]) c, c))"

text \<open>The successful answers of all peers to one request, each sent from its own thread.\<close>

definition untraced :: "environment \<Rightarrow> environment" where
  "untraced env = env\<lparr>env_trace := None\<rparr>"

fun peer_answers ::
  "environment \<Rightarrow> string \<Rightarrow> (controller_peer \<Rightarrow> json) \<Rightarrow> controller_peer list \<Rightarrow> (controller_peer \<times> json option) list" where
  "peer_answers env action params [] = []"
| "peer_answers env action params (p # ps) =
     (p, case env_call env (peer_endpoint p) (traced_request (untraced env) action (params p)) of
           Inl _ \<Rightarrow> None
         | Inr r \<Rightarrow> if resp_ok r then Some (unwrap_or JNull (resp_result r)) else None)
     # peer_answers (nth_call 1 env) action params ps"

text \<open>The values that decode, and the first of those with the same key.\<close>

definition decodable :: "(json \<Rightarrow> string + 'a) \<Rightarrow> json list \<Rightarrow> 'a list" where
  "decodable d vs = concat (map (\<lambda>v. case d v of Inl _ \<Rightarrow> [] | Inr a \<Rightarrow> [a]) vs)"

fun retain_first :: "('a \<Rightarrow> 'k) \<Rightarrow> 'k list \<Rightarrow> 'a list \<Rightarrow> 'a list" where
  "retain_first key seen [] = []"
| "retain_first key seen (x # xs) =
     (if key x \<in> set seen then retain_first key seen xs else x # retain_first key (key x # seen) xs)"

definition newest_first :: "run list \<Rightarrow> run list" where
  "newest_first = sort_key (\<lambda>r. - int (unat (run_started_at r)))"

definition merge_runs :: "run list \<Rightarrow> run list \<Rightarrow> run list" where
  "merge_runs local remote = retain_first run_id [] (newest_first (local @ remote))"

definition run_list :: "environment \<Rightarrow> json \<Rightarrow> controller \<Rightarrow> (rpc_error + json) \<times> controller" where
  "run_list env params c =
     (let limit = clamp 1 500 (unat (unwrap_or 100 (get_u64 params ''limit'')));
          offset = min (unat (unwrap_or 0 (get_u64 params ''offset''))) 10000;
          fetch = min (limit + offset) 500
      in sbind (optional_str params ''status'', c) (\<lambda>status c.
           let local = list_runs fetch (ctl_observations c);
               answers = peer_answers env ''run.list'' (\<lambda>_. JObj [(''limit'', jnat fetch), (''localOnly'', JBool True)])
                           (ws_controllers (ctl_state c));
               remote = concat (map (\<lambda>a. case Option.bind (snd a) as_array of
                                            None \<Rightarrow> [] | Some vs \<Rightarrow> decodable (dec_run (env_codec env)) vs) answers);
               runs = (if local_only params then local else merge_runs local remote);
               kept = (case status of None \<Rightarrow> runs | Some s \<Rightarrow> filter (\<lambda>r. run_status_name (run_status r) = s) runs)
           in (Inr (JArr (map (enc_run (env_codec env)) (take limit (drop offset (newest_first kept))))), c)))"

subsection \<open>Observations\<close>

text \<open>What a peer contributes to a query: its cursor, its node entry and its events.\<close>

definition peer_cursor :: "json \<Rightarrow> controller_peer \<Rightarrow> u64" where
  "peer_cursor params p = unwrap_or 0 (Option.bind (Option.bind (Option.bind (jget params ''cursors'') as_object)
     (\<lambda>m. bt_get m (peer_key p))) as_u64)"

definition answered_cursor :: "json \<Rightarrow> controller_peer \<times> json option \<Rightarrow> u64" where
  "answered_cursor params a =
     (case snd a of
        None \<Rightarrow> peer_cursor params (fst a)
      | Some v \<Rightarrow> unwrap_or (peer_cursor params (fst a)) (get_u64 v ''cursor''))"

definition node_entry :: "string \<Rightarrow> bool \<Rightarrow> u64 \<Rightarrow> json" where
  "node_entry node stale cursor = JObj [(''cursor'', junum cursor), (''nodeId'', JStr node), (''stale'', JBool stale)]"

definition answered_events :: "environment \<Rightarrow> controller_peer \<times> json option \<Rightarrow> observation list" where
  "answered_events env a =
     (case Option.bind (snd a) (\<lambda>v. get_array v ''events'') of
        None \<Rightarrow> [] | Some vs \<Rightarrow> decodable (dec_observation (env_codec env)) vs)"

text \<open>Sorting is stable, so sorting by the least significant key first is sorting by the three keys.\<close>

definition merge_events :: "nat \<Rightarrow> observation list \<Rightarrow> observation list" where
  "merge_events limit events =
     (let sorted = sort_key ob_timestamp (sort_key ob_node_id (sort_key ob_event_id events));
          distinct_events = retain_first (\<lambda>e. (ob_node_id e, ob_event_id e)) [] sorted
      in drop (length distinct_events - limit) distinct_events)"

definition query_local :: "environment \<Rightarrow> json \<Rightarrow> controller \<Rightarrow> rpc_error + (observation list \<times> u64)" where
  "query_local env params c =
     (let after = or_else (Option.bind (Option.bind (Option.bind (jget params ''cursors'') as_object)
                             (\<lambda>m. bt_get m (ctl_id c))) as_u64) (get_u64 params ''cursor'')
      in and_then (optional_str params ''runId'') (\<lambda>run.
         and_then (map_err (observability_rpc_error env)
                     (query_observations \<lparr>oq_run_id = run, oq_after_event_id = after,
                        oq_limit = unat (unwrap_or 200 (get_u64 params ''limit''))\<rparr> (ctl_observations c))) (\<lambda>events.
           Inr (events, if events = [] then unwrap_or 0 after else ob_event_id (last events)))))"

definition observability_query :: "environment \<Rightarrow> json \<Rightarrow> controller \<Rightarrow> (rpc_error + json) \<times> controller" where
  "observability_query env params c =
     sbind (query_local env params c, c) (\<lambda>(events, cursor) c.
       if local_only params then
         (Inr (JObj [(''cursor'', junum cursor), (''events'', JArr (map (enc_observation (env_codec env)) events)),
                     (''nodeId'', JStr (ctl_id c)), (''stale'', JBool False)]), c)
       else
         sbind (optional_str params ''runId'', c) (\<lambda>run c.
           let limit = clamp 1 1000 (unat (unwrap_or 200 (get_u64 params ''limit'')));
               answers = peer_answers env ''observability.query''
                 (\<lambda>p. JObj [(''cursor'', junum (peer_cursor params p)), (''limit'', jnat limit), (''localOnly'', JBool True),
                            (''runId'', jopt JStr run)]) (ws_controllers (ctl_state c));
               cursors = fold (\<lambda>a m. bt_insert (peer_key (fst a)) (junum (answered_cursor params a)) m) answers
                           [(ctl_id c, junum cursor)];
               nodes = node_entry (ctl_id c) False cursor #
                 map (\<lambda>a. node_entry (peer_key (fst a)) (snd a = None) (answered_cursor params a)) answers;
               merged = merge_events limit (events @ concat (map (answered_events env) answers))
           in (Inr (JObj [(''cursor'', junum cursor), (''cursors'', JObj cursors),
                          (''events'', JArr (map (enc_observation (env_codec env)) merged)), (''nodes'', JArr nodes)]), c)))"

definition observation_append :: "environment \<Rightarrow> json \<Rightarrow> controller \<Rightarrow> (rpc_error + json) \<times> controller" where
  "observation_append env params c =
     sbind (decoded ''INVALID_PARAMS'' (dec_observation (env_codec env) params), c) (\<lambda>ob c.
       let (result, obs) = append_observation
             (ob\<lparr>ob_event_id := 0, ob_attributes := safe_observation_attributes (ob_attributes ob)\<rparr>) (ctl_observations c)
       in sbind (map_err (observability_rpc_error env) result, c\<lparr>ctl_observations := obs\<rparr>) (\<lambda>i c.
            (Inr (JObj [(''eventId'', junum i)]), c)))"

subsection \<open>Health\<close>

fun doctor_checks :: "environment \<Rightarrow> executor list \<Rightarrow> (bool \<times> json) list" where
  "doctor_checks env [] = []"
| "doctor_checks env (e # es) =
     (case env_call env (executor_endpoint e) (traced_request env ''status'' JNull) of
        Inr r \<Rightarrow>
          if resp_ok r
          then (True, JObj [(''capabilities'', jnat (length (executor_capabilities e))), (''executorId'', JStr (executor_key e)),
                            (''status'', JStr ''ready'')])
          else (False, JObj [(''error'', jopt (enc_rpc_error (env_codec env)) (resp_error r)),
                             (''executorId'', JStr (executor_key e)), (''status'', JStr ''failed'')])
      | Inl m \<Rightarrow> (False, JObj [(''error'', JStr m), (''executorId'', JStr (executor_key e)), (''status'', JStr ''offline'')]))
     # doctor_checks (nth_call 1 env) es"

definition doctor :: "environment \<Rightarrow> controller \<Rightarrow> (rpc_error + json) \<times> controller" where
  "doctor env c =
     (let checks = doctor_checks env (ws_executors (ctl_state c)) in
      (Inr (JObj [(''checks'', JArr (map snd checks)),
                  (''controller'', JObj [(''id'', JStr (ctl_id c)), (''status'', JStr ''ready'')]),
                  (''healthy'', JBool (list_all fst checks))]), c))"

definition protocol_features :: "string list" where
  "protocol_features =
     [''capability-authority-v2'', ''local-session-v1'', ''executor-resource-authority-v1'', ''driver-draining-v1'',
      ''read-grant-v1'', ''acceptance-handoff-v1'']"

definition ping :: "controller \<Rightarrow> (rpc_error + json) \<times> controller" where
  "ping c =
     (Inr (JObj [(''controller'', JObj [(''id'', JStr (ctl_id c)),
        (''protocolFeatures'', JArr (map JStr protocol_features)), (''status'', JStr ''ready'')])]), c)"

subsection \<open>The operator\<close>

definition operator_grant_action :: "environment \<Rightarrow> json \<Rightarrow> controller \<Rightarrow> (rpc_error + json) \<times> controller" where
  "operator_grant_action env params c =
     sbind (required_str params ''operatorId'', c) (\<lambda>i c.
       let token = ''grant_'' @ env_ids env 0;
           expires_at = env_clock env 0 + min (ttl_param params) 3600000;
           g = \<lparr>og_operator_id = i, og_token_digest = env_sha env token, og_expires_at = expires_at\<rparr>
       in (Inr (JObj [(''expiresAt'', junum expires_at), (''grantToken'', JStr token), (''operatorId'', JStr i)]),
           c\<lparr>ctl_operator_grants := bt_insert i g (ctl_operator_grants c)\<rparr>))"

definition find_operator :: "environment \<Rightarrow> json \<Rightarrow> controller \<Rightarrow> rpc_error + operator_grant" where
  "find_operator env params c =
     and_then (required_str params ''grantToken'') (\<lambda>token.
       found ''OPERATOR_GRANT_INVALID'' ''operator grant is invalid or expired''
         (find (\<lambda>g. og_token_digest g = env_sha env token \<and> env_clock env 0 < og_expires_at g)
            (bt_values (ctl_operator_grants c))))"

definition operator_nonce_action :: "environment \<Rightarrow> json \<Rightarrow> controller \<Rightarrow> (rpc_error + json) \<times> controller" where
  "operator_nonce_action env params c =
     sbind (required_str params ''grantToken'', c) (\<lambda>_ c.
     sbind (required_force_action params, c) (\<lambda>action c.
     sbind (required_str params ''target'', c) (\<lambda>target c.
     sbind (required_str params ''reason'', c) (\<lambda>reason c.
       if get_bool params ''confirmed'' \<noteq> Some True
       then (Inl (rpc_err ''CONFIRMATION_REQUIRED'' ''operator action requires explicit confirmation''), c)
       else
         sbind (find_operator env params c, c) (\<lambda>g c.
           let nonce = ''nonce_'' @ env_ids env 0;
               expires_at = env_clock env 1 + 60000;
               entry = \<lparr>on_operator_id = og_operator_id g, on_action = action, on_target = target,
                        on_reason = take_chars 500 reason, on_expires_at = expires_at\<rparr>
           in (Inr (JObj [(''action'', JStr action), (''actionNonce'', JStr nonce), (''expiresAt'', junum expires_at),
                          (''target'', JStr target)]),
               c\<lparr>ctl_operator_nonces := bt_insert nonce entry (ctl_operator_nonces c)\<rparr>))))))"

text \<open>
  An action under a grant. \<open>inner\<close> is the dispatcher of the nested requests. The observation is
  recorded last, so a malformed \<^verbatim>\<open>runId\<close> fails a request that has taken effect.
\<close>

definition ttl_or_default :: "json \<Rightarrow> json" where
  "ttl_or_default params = unwrap_or (JNum (PosInt 300000)) (jget params ''ttlMs'')"

definition granted_operation ::
  "handler \<Rightarrow> environment \<Rightarrow> string \<Rightarrow> string \<Rightarrow> operator_grant \<Rightarrow> json \<Rightarrow> controller \<Rightarrow> (rpc_error + json) \<times> controller" where
  "granted_operation inner env action target g params c =
     (if action = ''retry-task'' then
        inner env ''task.retry'' (JObj [(''_operatorAuthorized'', JBool True), (''taskId'', JStr target)]) c
      else if action = ''restart-process'' then
        sbind (required_str params ''executorId'', c) (\<lambda>i c.
          (call_registered_executor env i ''process.restart'' (JObj [(''processId'', JStr target)]) c, c))
      else if action = ''driver-acquire'' then
        inner env ''driver.acquire'' (JObj [(''owner'', JStr (og_operator_id g)), (''resource'', JStr target),
          (''ttlMs'', ttl_or_default params)]) c
      else if action = ''driver-handoff'' then
        sbind (required_str params ''owner'', c) (\<lambda>owner c.
        sbind (required_str params ''driverToken'', c) (\<lambda>token c.
        sbind (required_str params ''handoffTarget'', c) (\<lambda>to c.
          inner env ''driver.handoff'' (JObj [(''owner'', JStr owner), (''resource'', JStr target), (''target'', JStr to),
            (''token'', JStr token)]) c)))
      else if action = ''driver-release'' then
        sbind (required_str params ''owner'', c) (\<lambda>owner c.
        sbind (required_str params ''driverToken'', c) (\<lambda>token c.
          inner env ''driver.release'' (JObj [(''owner'', JStr owner), (''resource'', JStr target), (''token'', JStr token)]) c))
      else if action = ''approval-approve'' then
        inner env ''approval.approve'' (JObj [(''approvalId'', JStr target), (''ttlMs'', ttl_or_default params)]) c
      else if action = ''approval-revoke'' then
        inner env ''approval.revoke'' (JObj [(''approvalId'', JStr target)]) c
      else (Inl panicked, c))"

definition granted_action ::
  "handler \<Rightarrow> environment \<Rightarrow> string \<Rightarrow> string \<Rightarrow> json \<Rightarrow> controller \<Rightarrow> (rpc_error + json) \<times> controller" where
  "granted_action inner env action target params c =
     sbind (find_operator env params c, c) (\<lambda>g c.
     sbind (granted_operation inner (skip 2 0 env) action target g params c) (\<lambda>result c.
     sbind (optional_str params ''runId'', c) (\<lambda>run c.
       (Inr result, observe (plain_observation (ctl_id c) ''operator'' ''operator-action'' action ''completed'' (env_clock env 1) run
          (JObj [(''operatorId'', JStr (og_operator_id g)), (''target'', JStr target)])) c))))"

text \<open>
  A destructive action: the nonce is taken out of the table before it is checked. Readings: the
  check of the nonce 0, the observation 1, the nested requests from 2 on.
\<close>

definition forced_observation :: "string \<Rightarrow> u64 \<Rightarrow> string option \<Rightarrow> operator_nonce \<Rightarrow> json \<Rightarrow> json \<Rightarrow> observation" where
  "forced_observation node now run n before after =
     (plain_observation node ''operator'' ''operator-action'' (on_action n) ''completed'' now run
        (JObj [(''action'', JStr (on_action n)), (''after'', safe_summary after), (''before'', safe_summary before),
               (''operatorId'', JStr (on_operator_id n)), (''reason'', JStr (on_reason n))]))
       \<lparr>ob_task_id := (if on_action n = ''cancel-task'' then Some (on_target n) else None),
        ob_process_id := (if on_action n = ''stop-process'' then Some (on_target n) else None)\<rparr>"

definition forced_action ::
  "handler \<Rightarrow> environment \<Rightarrow> string \<Rightarrow> string \<Rightarrow> json \<Rightarrow> controller \<Rightarrow> (rpc_error + json) \<times> controller" where
  "forced_action inner env action target params c =
     sbind (required_str params ''actionNonce'', c) (\<lambda>i c.
     sbind (found ''ACTION_NONCE_INVALID'' ''action nonce is missing or already consumed''
              (bt_get (ctl_operator_nonces c) i), c\<lparr>ctl_operator_nonces := bt_remove i (ctl_operator_nonces c)\<rparr>) (\<lambda>n c.
       if on_expires_at n \<le> env_clock env 0 \<or> on_action n \<noteq> action \<or> on_target n \<noteq> target
       then (Inl (rpc_err ''ACTION_NONCE_INVALID'' ''action nonce is expired or does not match target''), c)
       else
         sbind (if action = ''cancel-task'' then inner (skip 2 0 env) ''task.get'' (JObj [(''taskId'', JStr target)]) c
                else (Inr JNull, c)) (\<lambda>before c.
         sbind (if action = ''cancel-task''
                then inner (skip 2 0 env) ''task.cancel'' (JObj [(''_operatorAuthorized'', JBool True), (''taskId'', JStr target)]) c
                else sbind (required_str params ''executorId'', c) (\<lambda>e c.
                  (call_registered_executor env e ''process.stop'' (JObj [(''processId'', JStr target)]) c, c))) (\<lambda>result c.
         sbind (optional_str params ''runId'', c) (\<lambda>run c.
           (Inr result, observe (forced_observation (ctl_id c) (env_clock env 1) run n before result) c))))))"

definition operator_action :: "handler \<Rightarrow> environment \<Rightarrow> json \<Rightarrow> controller \<Rightarrow> (rpc_error + json) \<times> controller" where
  "operator_action inner env params c =
     sbind (required_operator_action params, c) (\<lambda>action c.
     sbind (required_str params ''target'', c) (\<lambda>target c.
       if action = ''cancel-task'' \<or> action = ''stop-process'' then forced_action inner env action target params c
       else granted_action inner env action target params c))"

subsection \<open>Dispatch\<close>

text \<open>The requests an operator action makes are for drivers, tasks and approvals.\<close>

definition inner_dispatch :: handler where
  "inner_dispatch = dispatch (registry_actions (task_actions unknown_action))"

definition operator_group :: "handler \<Rightarrow> handler" where
  "operator_group rest env action params c =
     (if action = ''ping'' then ping c
      else if action = ''doctor'' then doctor env c
      else if action = ''run.start'' then run_start env params c
      else if action = ''run.finish'' then run_finish env params c
      else if action = ''run.get'' then run_get env params c
      else if action = ''run.list'' then run_list env params c
      else if action = ''observability.query'' then observability_query env params c
      else if action = ''observation.append'' then observation_append env params c
      else if action = ''operator.grant'' then operator_grant_action env params c
      else if action = ''operator.nonce'' then operator_nonce_action env params c
      else if action = ''operator.action'' then operator_action inner_dispatch env params c
      else rest env action params c)"

end
