(* ===== verification/Invoke.thy ===== *)
theory Invoke
  imports Operator
begin

section \<open>Invoking a capability\<close>

text \<open>
  The handler of \<^verbatim>\<open>capability.invoke\<close> in \<^verbatim>\<open>crates/workbench-runtime/src/controller.rs\<close>, in the stages
  the code has: checking the request, its authority and its input; accepting it as an
  asynchronous task; consuming an approval; the task that makes it happen once; the leases of
  its resources; the call to the Executor; and what the answer means for the task. A stage
  numbers its readings, writes and identifiers from 0; \<open>stage\<close> gives the next one its own.
\<close>

definition stage :: "nat \<Rightarrow> nat \<Rightarrow> nat \<Rightarrow> environment \<Rightarrow> environment" where
  "stage readings writes ids env = nth_call ids (skip readings writes env)"

definition assign :: "json \<Rightarrow> string \<Rightarrow> json \<Rightarrow> rpc_error + json" where
  "assign v k x = ok_or panicked (jset v k x)"

record invocation =
  inv_executor :: executor
  inv_contract :: capability_descriptor
  inv_workspace :: string
  inv_owner :: string
  inv_key :: string
  inv_input :: json
  inv_authority :: "lease option"

subsection \<open>The request and its input\<close>

definition check_session :: "controller \<Rightarrow> string \<Rightarrow> rpc_error + unit" where
  "check_session c workspace =
     and_then (found ''SESSION_NOT_FOUND'' (''unknown session: '' @ workspace)
                 (Option.bind (find_session c workspace) session_authority)) (\<lambda>a.
       if authority_controller_id a \<noteq> ctl_id c
       then Inl (rpc_err ''NOT_SESSION_AUTHORITY'' (''session is owned by '' @ authority_controller_id a))
       else Inr ())"

definition find_contract :: "executor \<Rightarrow> string \<Rightarrow> rpc_error + capability_descriptor" where
  "find_contract e capability =
     and_then (found ''CAPABILITY_NOT_FOUND'' (''executor does not provide '' @ capability)
                 (find (\<lambda>cap. cap_name cap = capability) (executor_capabilities e))) (\<lambda>contract.
       if takeWhile (\<lambda>ch. ch \<noteq> CHR ''.'') (cap_version contract) \<noteq> ''2''
       then Inl (rpc_err ''PEER_CAPABILITY_VERSION_MISMATCH''
              (executor_key e @ ''/'' @ capability @ '' does not implement authority protocol v2''))
       else Inr contract)"

text \<open>A read of a path gets the session and the grant that covers the path, when there is one.\<close>

definition add_read_grant ::
  "environment \<Rightarrow> string \<Rightarrow> string \<Rightarrow> string \<Rightarrow> string \<Rightarrow> json \<Rightarrow> controller \<Rightarrow> (rpc_error + json) \<times> controller" where
  "add_read_grant env executor_id workspace capability path_key input c =
     sbind (assign input ''_workspaceSessionId'' (JStr workspace), c) (\<lambda>input c.
       case get_str input path_key of
         None \<Rightarrow> (Inr input, c)
       | Some path \<Rightarrow>
           sbind (find_read_grant env executor_id workspace capability path c) (\<lambda>g c.
             case g of
               None \<Rightarrow> (Inr input, c)
             | Some g \<Rightarrow> (assign input ''_readGrantId'' (JStr (grant_id g)), c)))"

definition read_input ::
  "environment \<Rightarrow> string \<Rightarrow> string \<Rightarrow> string \<Rightarrow> json \<Rightarrow> controller \<Rightarrow> (rpc_error + json) \<times> controller" where
  "read_input env executor_id workspace capability input c =
     (if capability \<in> set grant_capability_names
      then add_read_grant env executor_id workspace capability ''path'' input c
      else if capability = ''application.inspect''
      then add_read_grant env executor_id workspace ''filesystem.read'' ''applicationPath'' input c
      else if capability = ''application.materialize''
      then add_read_grant env executor_id workspace ''filesystem.read'' ''baselinePath'' input c
      else (Inr input, c))"

definition agent_input :: "string \<Rightarrow> string \<Rightarrow> string \<Rightarrow> string \<Rightarrow> json \<Rightarrow> rpc_error + json" where
  "agent_input executor_id workspace owner capability input =
     (if capability \<noteq> ''agent.start'' then Inr input
      else
        let role = unwrap_or ''agent'' (get_str input ''role'');
            agent = unwrap_or owner (get_str input ''agentId'');
            variables = unwrap_or [] (Option.bind (jget input ''env'') as_object)
        in assign input ''env'' (JObj
             (bt_insert ''WORKBENCH_RUN_SUMMARY'' (JStr (role @ '' task in '' @ workspace))
             (bt_insert ''WORKBENCH_AGENT_ID'' (JStr agent)
             (bt_insert ''WORKBENCH_AGENT_ROLE'' (JStr role)
             (bt_insert ''WORKBENCH_NODE_ID'' (JStr executor_id)
             (bt_insert ''WORKBENCH_WORKSPACE_SESSION_ID'' (JStr workspace) variables)))))))"

subsection \<open>Authority\<close>

text \<open>
  What the contract asks for: nothing, the driver's lease of the workspace, or a lease of a
  resource that the Executor issued; the answer is the lease and the input that carries it.
\<close>

definition resource_authority ::
  "environment \<Rightarrow> string \<Rightarrow> string \<Rightarrow> string \<Rightarrow> string \<Rightarrow> json \<Rightarrow> json \<Rightarrow> controller \<Rightarrow> rpc_error + (lease option \<times> json)" where
  "resource_authority env executor_id capability owner template params input c =
     (case render_capability_authority_resource (env_jshow env) template executor_id input of
        None \<Rightarrow> Inl never_answers
      | Some r \<Rightarrow> and_then r (\<lambda>resource.
          case get_str params ''authorityLeaseToken'' of
            Some token \<Rightarrow>
              (let grant = JObj [(''owner'', JStr (resource_owner env c owner)), (''resource'', JStr resource), (''token'', JStr token)]
               in and_then (call_registered_executor env executor_id ''resource.lease.validate'' grant c) (\<lambda>v.
                  and_then (assign input ''_resourceLeases'' (JArr [grant])) (\<lambda>input.
                  and_then (decoded ''INVALID_LEASE'' (dec_lease (env_codec env) v)) (\<lambda>l. Inr (Some l, input)))))
          | None \<Rightarrow>
              if capability = ''tunnel.ensure'' \<or> capability = ''tunnel.stop'' then Inr (None, input)
              else Inl (rpc_err ''RESOURCE_LEASE_REQUIRED'' ''resource operation requires an Executor-issued lease'')))"

definition required_authority ::
  "environment \<Rightarrow> capability_descriptor \<Rightarrow> string \<Rightarrow> string \<Rightarrow> string \<Rightarrow> string \<Rightarrow> json \<Rightarrow> json \<Rightarrow> controller
    \<Rightarrow> rpc_error + (lease option \<times> json)" where
  "required_authority env contract executor_id capability workspace owner params input c =
     (case cap_authority contract of
        AuthorityNone \<Rightarrow> Inr (None, input)
      | AuthorityDesktopSession \<Rightarrow> Inr (None, input)
      | AuthorityWorkspaceDriver \<Rightarrow>
          and_then (required_str params ''driverToken'') (\<lambda>token.
          and_then (map_err map_lease_error
             (validate (env_sha env) (env_clock env 0) (ctl_leases c) (''workspace:'' @ workspace) owner token)) (\<lambda>l.
            Inr (Some l, input)))
      | AuthorityResourceLease template \<Rightarrow>
          resource_authority env executor_id capability owner template params input c)"

text \<open>
  Everything up to the schema of the input. Readings: the write of a read grant 0 (write 0),
  the draining check 1, the driver's lease 2; identifiers: the grant lookup 0, the lease 1.
\<close>

definition prepare ::
  "environment \<Rightarrow> json \<Rightarrow> controller \<Rightarrow> (rpc_error + invocation) \<times> controller" where
  "prepare env params c =
     sbind (required_str params ''executorId'', c) (\<lambda>executor_id c.
     sbind (required_str params ''capability'', c) (\<lambda>capability c.
     sbind (required_str params ''workspaceSessionId'', c) (\<lambda>workspace c.
     sbind (check_session c workspace, c) (\<lambda>_ c.
     sbind (required_str params ''owner'', c) (\<lambda>owner c.
     sbind (required_str params ''idempotencyKey'', c) (\<lambda>key c.
     sbind (found ''EXECUTOR_NOT_FOUND'' (''unknown executor: '' @ executor_id) (find_executor c executor_id), c) (\<lambda>e c.
     sbind (find_contract e capability, c) (\<lambda>contract c.
     sbind (read_input env executor_id workspace capability (unwrap_or (JObj []) (jget params ''input'')) c) (\<lambda>input c.
       if cap_authority contract = AuthorityWorkspaceDriver \<and> workspace_is_draining (env_clock env 1) c workspace owner
       then (Inl (rpc_err ''DRIVER_DRAINING''
               ''workspace driver is draining for an automatic handoff; new mutations are disabled''), c)
       else
         sbind (agent_input executor_id workspace owner capability input, c) (\<lambda>input c.
         sbind (required_authority (stage 2 0 1 env) contract executor_id capability workspace owner params input c, c)
           (\<lambda>(authority, input) c.
         sbind (validate_schema (env_jshow env) (float_text (env_codec env)) (cap_input_schema contract) input ''input'', c) (\<lambda>_ c.
           (Inr \<lparr>inv_executor = e, inv_contract = contract, inv_workspace = workspace, inv_owner = owner,
                 inv_key = key, inv_input = input, inv_authority = authority\<rparr>, c)))))))))))))"

subsection \<open>Asynchronous tasks\<close>

definition execution_mode :: "json \<Rightarrow> rpc_error + string" where
  "execution_mode params =
     (let mode = unwrap_or ''auto'' (get_str params ''executionMode'') in
      if mode \<in> set [''auto'', ''sync'', ''async''] then Inr mode
      else Inl (rpc_err ''INVALID_PARAMS'' ''executionMode must be auto, sync, or async''))"

definition resume :: "json \<Rightarrow> controller \<Rightarrow> bool \<times> controller" where
  "resume params c =
     (case get_str params ''_resumeTaskId'' of
        None \<Rightarrow> (False, c)
      | Some i \<Rightarrow>
          let supplied = get_str params ''_resumeToken'' in
          if supplied \<noteq> None \<and> supplied = bt_get (ctl_resume_tokens c) i
          then (True, c\<lparr>ctl_resume_tokens := bt_remove i (ctl_resume_tokens c)\<rparr>) else (False, c))"

definition submit_invocation ::
  "environment \<Rightarrow> invocation \<Rightarrow> controller \<Rightarrow> (rpc_error + (task \<times> bool)) \<times> controller" where
  "submit_invocation env iv c =
     (let (correlation_id, request_id) = current_trace env in
      case submit_traced (env_clock env) (env_ids env 0) (inv_workspace iv) (executor_key (inv_executor iv))
             (cap_name (inv_contract iv)) (inv_input iv) (inv_key iv) correlation_id request_id (ctl_tasks c) of
        None \<Rightarrow> (Inl panicked, c)
      | Some (r, tbl) \<Rightarrow> (Inr r, c\<lparr>ctl_tasks := tbl\<rparr>))"

text \<open>The request the worker of an accepted task sends, and the state it is started in.\<close>

definition worker_request :: "environment \<Rightarrow> json \<Rightarrow> task \<Rightarrow> string \<Rightarrow> rpc_error + request" where
  "worker_request env params t token =
     and_then (assign params ''executionMode'' (JStr ''sync'')) (\<lambda>p.
     and_then (assign p ''_resumeTaskId'' (JStr (task_id t))) (\<lambda>p.
     and_then (assign p ''_resumeToken'' (JStr token)) (\<lambda>p.
       let (correlation_id, request_id) = current_trace env in
       Inr ((request_new (env_ids env 2) ''capability.invoke'' p)
              \<lparr>req_correlation_id := correlation_id, req_parent_request_id := request_id\<rparr>))))"

definition start_worker :: "task \<Rightarrow> string \<Rightarrow> request \<Rightarrow> controller \<Rightarrow> controller" where
  "start_worker t token r c =
     c\<lparr>ctl_resume_tokens := bt_insert (task_id t) token (ctl_resume_tokens c),
       ctl_workers := ctl_workers c @ [(task_id t, r)]\<rparr>"

definition free_slot :: "controller \<Rightarrow> controller" where
  "free_slot c = c\<lparr>ctl_async_active := ctl_async_active c - 1\<rparr>"

text \<open>Readings: the task 0 and 1, the write 2, the observation 3; identifiers: task, resume token, worker's request.\<close>

definition accept_async :: "environment \<Rightarrow> invocation \<Rightarrow> json \<Rightarrow> controller \<Rightarrow> (rpc_error + json) \<times> controller" where
  "accept_async env iv params c =
     (if env_async_maximum env \<le> ctl_async_active c
      then (Inl (retryable (rpc_err ''TASK_QUEUE_FULL''
              (''controller async task limit '' @ dec (env_async_maximum env) @ '' reached''))), c)
      else
        sbind (submit_invocation env iv (c\<lparr>ctl_async_active := ctl_async_active c + 1\<rparr>)) (\<lambda>(t, reused) c.
          if reused then
            (Inr (JObj [(''accepted'', JBool (\<not> terminal (task_state t))), (''reused'', JBool True),
                        (''task'', enc_task (env_codec env) t)]), free_slot c)
          else
            (case persist env (env_clock env 2) (env_io env 0) c of
               (Inl e, c) \<Rightarrow> (Inl e, free_slot c)
             | (Inr _, c) \<Rightarrow>
                 let token = ''resume_'' @ env_ids env 1; c1 = observe_task_state env (env_clock env 3) t c in
                 sbind (worker_request env params t token, c1) (\<lambda>r c.
                   (Inr (JObj [(''accepted'', JBool True), (''reused'', JBool False), (''task'', enc_task (env_codec env) t)]),
                    start_worker t token r c)))))"

subsection \<open>Approvals and the task\<close>

definition needs_approval :: "invocation \<Rightarrow> bool" where
  "needs_approval iv =
     (cap_name (inv_contract iv) \<in> set [''process.start'', ''command.run'', ''artifact.build'', ''agent.start'']
      \<and> command_requires_approval (inv_input iv))"

definition approval_authorizes :: "u64 \<Rightarrow> string \<Rightarrow> string \<Rightarrow> approval \<Rightarrow> bool" where
  "approval_authorizes now digest owner a =
     (approval_digest a = digest \<and> approval_owner a = owner \<and> approval_state a = ApprovalApproved
      \<and> (case approval_expires_at a of None \<Rightarrow> False | Some t \<Rightarrow> now < t))"

definition consume :: "u64 \<Rightarrow> approval \<Rightarrow> approval" where
  "consume now a = a\<lparr>approval_state := ApprovalConsumed, approval_consumed_at := Some now\<rparr>"

definition consume_approval ::
  "environment \<Rightarrow> invocation \<Rightarrow> json \<Rightarrow> controller \<Rightarrow> (rpc_error + invocation) \<times> controller" where
  "consume_approval env iv params c =
     (if \<not> needs_approval iv then (Inr iv, c)
      else
        sbind (command_digest (env_sha env) (env_jshow env) (inv_input iv), c) (\<lambda>digest c.
        sbind (required_str params ''approvalId'', c) (\<lambda>i c.
        sbind (found ''APPROVAL_NOT_FOUND'' ''approval not found'' (find_approval c i), c) (\<lambda>a c.
          if \<not> approval_authorizes (env_clock env 0) digest (inv_owner iv) a
          then (Inl (rpc_err ''APPROVAL_INVALID'' ''approval does not authorize this exact command''), c)
          else
            sbind (assign (inv_input iv) ''approvalDigest'' (JStr digest), update_approval i (consume (env_clock env 1)) c) (\<lambda>input c.
            sbind (persist env (env_clock env 2) (env_io env 0) c) (\<lambda>_ c. (Inr (iv\<lparr>inv_input := input\<rparr>), c)))))))"

text \<open>
  The task of the invocation: an answer at once when it succeeded before, an error when it may
  not run (again), else the task, now running. Readings: the task 0 and 1, its retry 2 and 3, its start 4 and 5.
\<close>

definition replayed :: "environment \<Rightarrow> task \<Rightarrow> json" where
  "replayed env t = JObj [(''result'', jopt id (task_output t)), (''reused'', JBool True), (''task'', enc_task (env_codec env) t)]"

definition claim_task ::
  "environment \<Rightarrow> bool \<Rightarrow> json \<Rightarrow> invocation \<Rightarrow> task \<times> bool \<Rightarrow> controller \<Rightarrow> (rpc_error + (json + task)) \<times> controller" where
  "claim_task env resumed params iv submitted c =
     (let (t, reused) = submitted in
      if \<not> reused then (Inr (Inr t), c)
      else if task_state t = Succeeded then (Inr (Inl (replayed env t)), c)
      else if task_state t \<in> set [Failed, TimedOut, OutcomeUnknown] \<and> task_attempt t < retry_max_attempts (cap_retry (inv_contract iv))
      then sbind (task_op ''INVALID_TASK_STATE'' (retry (\<lambda>n. env_clock env (n + 2)) (task_id t)) c) (\<lambda>t c. (Inr (Inr t), c))
      else if task_state t = Queued \<and> get_str params ''_resumeTaskId'' = Some (task_id t) \<and> resumed then (Inr (Inr t), c)
      else if task_state t = Queued \<or> task_state t = Running
      then (Inl (rpc_err ''TASK_IN_PROGRESS'' (''task '' @ task_id t @ '' is already in progress'')), c)
      else (Inl (rpc_err ''TASK_RETRY_EXHAUSTED'' (''task '' @ task_id t @ '' exhausted retry policy'')), c))"

definition running_task ::
  "environment \<Rightarrow> bool \<Rightarrow> json \<Rightarrow> invocation \<Rightarrow> controller \<Rightarrow> (rpc_error + (json + task)) \<times> controller" where
  "running_task env resumed params iv c =
     sbind (submit_invocation env iv c) (\<lambda>submitted c.
     sbind (claim_task env resumed params iv submitted c) (\<lambda>r c.
       case r of
         Inl v \<Rightarrow> (Inr (Inl v), c)
       | Inr t \<Rightarrow>
           sbind (task_op ''INVALID_TASK_STATE'' (transition (\<lambda>n. env_clock env (n + 4)) (task_id t) Running None None) c)
             (\<lambda>t c. (Inr (Inr t), c))))"

text \<open>
  The task ends in \<open>state\<close> with an error, whatever the table says to that; the state is written and
  the error answered. Readings: the task 0 and 1, the write 2.
\<close>

definition end_task ::
  "environment \<Rightarrow> string \<Rightarrow> task_state \<Rightarrow> task_error \<Rightarrow> rpc_error \<Rightarrow> controller \<Rightarrow> (rpc_error + json) \<times> controller" where
  "end_task env i state error e c =
     sbind (persist env (env_clock env 2) (env_io env 0)
              (c\<lparr>ctl_tasks := snd (transition (env_clock env) i state None (Some error) (ctl_tasks c))\<rparr>))
       (\<lambda>_ c. (Inl e, c))"

subsection \<open>Resources\<close>

definition readonly :: "invocation \<Rightarrow> bool" where
  "readonly iv = (cap_authority (inv_contract iv) = AuthorityNone)"

fun render_locks :: "(json \<Rightarrow> string) \<Rightarrow> lock_template list \<Rightarrow> json \<Rightarrow> rpc_error + string list" where
  "render_locks jshow [] input = Inr []"
| "render_locks jshow (l # ls) input =
     (case render_lock jshow (lock_key l) input of
        None \<Rightarrow> Inl never_answers
      | Some r \<Rightarrow> and_then r (\<lambda>key. and_then (render_locks jshow ls input) (\<lambda>keys. Inr (key # keys))))"

definition invocation_resources :: "(json \<Rightarrow> string) \<Rightarrow> invocation \<Rightarrow> rpc_error + string list" where
  "invocation_resources jshow iv =
     and_then (render_locks jshow (cap_locks (inv_contract iv)) (inv_input iv)) (\<lambda>keys.
       if cap_name (inv_contract iv) = ''command.run'' \<and> \<not> readonly iv
       then and_then (command_resources (inv_input iv)) (\<lambda>more. Inr (keys @ more)) else Inr keys)"

text \<open>Resource \<open>n\<close> takes reading \<open>n\<close> and the identifiers \<open>2n\<close> and \<open>2n + 1\<close>; all are given with those that were acquired.\<close>

fun acquire_all ::
  "clock \<Rightarrow> uuids \<Rightarrow> string \<Rightarrow> u64 \<Rightarrow> string list \<Rightarrow> lease list \<Rightarrow> lease_table \<Rightarrow> ((lease_error \<times> lease list) + lease list) \<times> lease_table" where
  "acquire_all clk ids owner ttl [] acquired t = (Inr acquired, t)"
| "acquire_all clk ids owner ttl (r # rs) acquired t =
     (case acquire (clk 0) (ids 0) (ids 1) LeaseResource r owner ttl t of
        (Inl e, t') \<Rightarrow> (Inl (e, acquired), t')
      | (Inr l, t') \<Rightarrow> acquire_all (\<lambda>n. clk (Suc n)) (\<lambda>n. ids (n + 2)) owner ttl rs (acquired @ [l]) t')"

subsection \<open>The call\<close>

definition authority_entry :: "u64 \<Rightarrow> controller \<Rightarrow> lease \<Rightarrow> json" where
  "authority_entry now c l =
     JObj [(''controllerId'', JStr (ctl_id c)), (''expiresAt'', junum (lease_expires_at l)),
           (''fence'', junum (executor_execution_fence now (lease_fence l))), (''resource'', JStr (lease_resource l))]"

fun authority_entries :: "clock \<Rightarrow> controller \<Rightarrow> lease list \<Rightarrow> json list" where
  "authority_entries clk c [] = []"
| "authority_entries clk c (l # ls) = authority_entry (clk 0) c l # authority_entries (\<lambda>n. clk (Suc n)) c ls"

definition executor_input :: "environment \<Rightarrow> invocation \<Rightarrow> lease list \<Rightarrow> controller \<Rightarrow> rpc_error + json" where
  "executor_input env iv acquired c =
     (let authority = (case inv_authority iv of None \<Rightarrow> [] | Some l \<Rightarrow> [l])
                        @ take (length (cap_locks (inv_contract iv))) acquired
      in and_then
           (if readonly iv then Inr (inv_input iv)
            else and_then (assign (inv_input iv) ''_workspaceSessionId'' (JStr (inv_workspace iv))) (\<lambda>v.
                   assign v ''_authority'' (JArr (authority_entries (env_clock env) c authority)))) (\<lambda>v.
         and_then (assign v ''_sessionRef'' (JObj [(''controllerId'', JStr (ctl_id c)), (''sessionId'', JStr (inv_workspace iv))]))
           (\<lambda>v. assign v ''_agentSessionId'' (JStr (inv_owner iv)))))"

definition wait_for_process_readiness :: "environment \<Rightarrow> executor_endpoint \<Rightarrow> json \<Rightarrow> json \<Rightarrow> rpc_error + json" where
  "wait_for_process_readiness env endpoint input result =
     and_then (required_str input ''processId'') (\<lambda>p.
       let timeout = unwrap_or 180000 (or_else (get_u64 input ''readinessTimeoutMs'')
                       (Option.bind (jget input ''readiness'') (\<lambda>v. get_u64 v ''timeoutMs'')))
       in if Option.bind (jget result ''readiness'') (\<lambda>v. get_str v ''state'') = Some ''ready'' then Inr result
          else
            (case env_call env endpoint (traced_request env ''readiness.wait''
                    (JObj [(''processId'', JStr p), (''timeoutMs'', junum timeout)])) of
               Inl m \<Rightarrow> Inl (retryable (rpc_err ''EXECUTOR_DISCONNECTED'' m))
             | Inr r \<Rightarrow>
                 if \<not> resp_ok r
                 then Inl (unwrap_or (rpc_err ''INVALID_EXECUTOR_RESPONSE'' ''readiness.wait returned no result'') (resp_error r))
                 else ok_or (rpc_err ''INVALID_EXECUTOR_RESPONSE'' ''readiness.wait returned an empty result'') (resp_result r)))"

definition pending_tunnel :: "string \<Rightarrow> json \<Rightarrow> rpc_error + json" where
  "pending_tunnel message v =
     and_then (assign v ''observedState'' (JStr ''pending'')) (\<lambda>v.
     and_then (assign v ''pendingReason'' (JStr message)) (\<lambda>v. assign v ''retryable'' (JBool True)))"

definition tunnel_failure :: "string + response \<Rightarrow> rpc_error" where
  "tunnel_failure waited =
     (case waited of
        Inl m \<Rightarrow> retryable (rpc_err ''EXECUTOR_DISCONNECTED'' m)
      | Inr r \<Rightarrow> if resp_ok r then rpc_err ''TUNNEL_NOT_READY'' ''tunnel did not become ready''
                else unwrap_or (rpc_err ''TUNNEL_NOT_READY'' ''tunnel readiness failed'') (resp_error r))"

definition wait_for_tunnel_readiness :: "environment \<Rightarrow> executor_endpoint \<Rightarrow> json \<Rightarrow> json \<Rightarrow> rpc_error + json" where
  "wait_for_tunnel_readiness env endpoint input result =
     (if get_str result ''observedState'' = Some ''ready'' then Inr result
      else and_then (required_str input ''tunnelId'') (\<lambda>i.
        let timeout = min (unwrap_or 8000 (get_u64 input ''readinessTimeoutMs'')) 8000;
            waited = env_call env endpoint (traced_request env ''readiness.wait''
                       (JObj [(''processId'', JStr (''tunnel-'' @ i)), (''timeoutMs'', junum timeout)]))
        in case env_call env endpoint (traced_request (nth_call 1 env) ''tunnel.get'' (JObj [(''tunnelId'', JStr i)])) of
             Inl m \<Rightarrow> Inl (rpc_err ''EXECUTOR_DISCONNECTED'' m)
           | Inr current \<Rightarrow>
               (case (if resp_ok current then resp_result current else None) of
                  None \<Rightarrow> Inl (tunnel_failure waited)
                | Some v \<Rightarrow>
                    if get_str v ''observedState'' = Some ''ready'' then Inr v
                    else
                      (case waited of
                         Inr r \<Rightarrow>
                           (case resp_error r of
                              Some e \<Rightarrow> if \<not> resp_ok r \<and> err_retryable e then pending_tunnel (err_message e) v
                                        else Inl (tunnel_failure waited)
                            | None \<Rightarrow> Inl (tunnel_failure waited))
                       | Inl _ \<Rightarrow> Inl (tunnel_failure waited)))))"

text \<open>The result once the process or tunnel is ready, when the request waits for that.\<close>

definition ready_result :: "environment \<Rightarrow> invocation \<Rightarrow> json \<Rightarrow> json \<Rightarrow> rpc_error + json" where
  "ready_result env iv input result =
     (if get_bool input ''waitReady'' \<noteq> Some True then Inr result
      else if cap_name (inv_contract iv) = ''process.start''
      then wait_for_process_readiness env (executor_endpoint (inv_executor iv)) input result
      else if cap_name (inv_contract iv) = ''tunnel.ensure''
      then wait_for_tunnel_readiness env (executor_endpoint (inv_executor iv)) input result
      else Inr result)"

subsection \<open>What the answer means\<close>

definition record_artifact :: "u64 \<Rightarrow> invocation \<Rightarrow> json \<Rightarrow> json \<Rightarrow> string \<Rightarrow> controller \<Rightarrow> controller" where
  "record_artifact now iv input result i c =
     (case artifact_from_result now (cap_name (inv_contract iv)) input result (inv_workspace iv)
             (executor_key (inv_executor iv)) i of
        None \<Rightarrow> c
      | Some a \<Rightarrow> with_state (\<lambda>st. st\<lparr>ws_artifacts := upsert_by (\<lambda>x. artifact_digest x = artifact_digest a) a (ws_artifacts st)\<rparr>) c)"

definition record_agent :: "invocation \<Rightarrow> json \<Rightarrow> json \<Rightarrow> controller \<Rightarrow> (rpc_error + unit) \<times> controller" where
  "record_agent iv input result c =
     (if cap_name (inv_contract iv) = ''agent.start'' then
        sbind (required_str input ''agentId'', c) (\<lambda>i c.
        sbind (required_str input ''role'', c) (\<lambda>role c.
          let a = \<lparr>agent_id = i, agent_workspace_session_id = inv_workspace iv,
                   agent_executor_id = executor_key (inv_executor iv), agent_role = role,
                   agent_provider = unwrap_or ''process'' (get_str input ''provider''), agent_state = AgentRunning,
                   agent_metadata = result\<rparr>
          in (Inr (), with_state (\<lambda>st. st\<lparr>ws_agents := upsert_by (\<lambda>x. agent_id x = i) a (ws_agents st)\<rparr>) c)))
      else if cap_name (inv_contract iv) = ''agent.stop'' then
        (Inr (), with_state (\<lambda>st. st\<lparr>ws_agents := update_first (\<lambda>x. agent_id x = unwrap_or [] (get_str input ''agentId''))
           (\<lambda>a. a\<lparr>agent_state := AgentStopped, agent_metadata := result\<rparr>) (ws_agents st)\<rparr>) c)
      else (Inr (), c))"

text \<open>Readings: the task 0 and 1, the write 2, the artifact 3.\<close>

definition succeed ::
  "environment \<Rightarrow> invocation \<Rightarrow> json \<Rightarrow> string \<Rightarrow> json \<Rightarrow> controller \<Rightarrow> (rpc_error + json) \<times> controller" where
  "succeed env iv input i result c =
     (case ready_result env iv input result of
        Inl e \<Rightarrow> end_task env i Failed (error_of e) e c
      | Inr result \<Rightarrow>
          (case validate_schema (env_jshow env) (float_text (env_codec env)) (cap_output_schema (inv_contract iv)) result ''output'' of
             Inl e \<Rightarrow> end_task env i Failed ((error_of e)\<lparr>terr_retryable := False\<rparr>) e c
           | Inr _ \<Rightarrow>
               sbind (task_op ''INVALID_TASK_STATE'' (transition (env_clock env) i Succeeded
                        (Some (retained_task_output (cap_name (inv_contract iv)) result)) None) c) (\<lambda>t c.
               sbind (record_agent iv input result (record_artifact (env_clock env 3) iv input result i c)) (\<lambda>_ c.
                 persist_answer env (env_clock env 2)
                   (JObj [(''result'', result), (''reused'', JBool False), (''task'', enc_task (env_codec env) t)]) c))))"

definition timed_out :: "string + response \<Rightarrow> bool" where
  "timed_out response = (case response of Inl m \<Rightarrow> contains ''deadline'' m | Inr _ \<Rightarrow> False)"

definition settle ::
  "environment \<Rightarrow> invocation \<Rightarrow> json \<Rightarrow> string \<Rightarrow> string + response \<Rightarrow> controller \<Rightarrow> (rpc_error + json) \<times> controller" where
  "settle env iv input i response c =
     (case response of
        Inr r \<Rightarrow>
          if resp_ok r then succeed env iv input i (unwrap_or JNull (resp_result r)) c
          else let e = unwrap_or (rpc_err ''EXECUTOR_FAILED'' ''executor failed'') (resp_error r)
               in end_task env i Failed (error_of e) e c
      | Inl m \<Rightarrow>
          let e = retryable (rpc_err (if timed_out response then ''EXECUTOR_TIMEOUT'' else ''EXECUTOR_UNAVAILABLE'') m)
          in end_task env i (if timed_out response then OutcomeUnknown else Failed)
               ((error_of e)\<lparr>terr_details := JNull\<rparr>) e c)"

definition release_leases :: "environment \<Rightarrow> lease list \<Rightarrow> controller \<Rightarrow> controller" where
  "release_leases env acquired c =
     c\<lparr>ctl_leases := release_acquired (env_sha env) (env_clock env) acquired (ctl_leases c)\<rparr>"

text \<open>
  The call with the leases held, and their release unless the call timed out. Readings: the
  fences from 0 on, the releases, the outcome; \<open>n\<close> is the number of leases.
\<close>

definition execute ::
  "environment \<Rightarrow> invocation \<Rightarrow> string \<Rightarrow> lease list \<Rightarrow> controller \<Rightarrow> (rpc_error + json) \<times> controller" where
  "execute env iv i acquired c =
     sbind (executor_input env iv acquired c, c) (\<lambda>input c.
       let n = length acquired;
           response = env_call env (executor_endpoint (inv_executor iv)) (traced_request env (cap_name (inv_contract iv)) input);
           c1 = (if timed_out response then c else release_leases (skip (n + 1) 0 env) acquired c)
       in settle (stage (2 * n + 1) 0 1 env) iv input i response c1)"

text \<open>Readings: the leases from 0 on, then the release and the outcome after a conflict, or the call.\<close>

definition run_task ::
  "environment \<Rightarrow> invocation \<Rightarrow> task \<Rightarrow> controller \<Rightarrow> (rpc_error + json) \<times> controller" where
  "run_task env iv t c =
     sbind (invocation_resources (env_jshow env) iv, c) (\<lambda>resources c.
       let n = length resources;
           (r, leases) = acquire_all (env_clock env) (env_ids env) (inv_owner iv)
             (sat_add (cap_timeout_ms (inv_contract iv)) 30000) resources [] (ctl_leases c);
           c1 = c\<lparr>ctl_leases := leases\<rparr>
       in case r of
            Inl (e, acquired) \<Rightarrow>
              (let e' = map_lease_error e
               in end_task (skip (2 * n) 0 env) (task_id t) Failed (error_of e') e'
                    (release_leases (skip n 0 env) acquired c1))
          | Inr acquired \<Rightarrow> execute (stage n 0 (2 * n) env) iv (task_id t) acquired c1)"

subsection \<open>The handler\<close>

definition wants_async :: "json \<Rightarrow> string \<Rightarrow> invocation \<Rightarrow> bool" where
  "wants_async params mode iv =
     (get_str params ''_resumeTaskId'' = None
      \<and> (mode = ''async'' \<or> (mode = ''auto'' \<and> cap_execution_kind (inv_contract iv) = ExecBackground)))"

definition invoke_sync ::
  "environment \<Rightarrow> bool \<Rightarrow> invocation \<Rightarrow> json \<Rightarrow> controller \<Rightarrow> (rpc_error + json) \<times> controller" where
  "invoke_sync env resumed iv params c =
     sbind (consume_approval env iv params c) (\<lambda>iv c.
     sbind (running_task (stage 3 1 0 env) resumed params iv c) (\<lambda>r c.
       case r of
         Inl v \<Rightarrow> (Inr v, c)
       | Inr t \<Rightarrow> run_task (stage 9 1 1 env) iv t c))"

text \<open>What becomes of an invocation once it is checked, and the whole.\<close>

definition invoke_prepared :: "environment \<Rightarrow> json \<Rightarrow> invocation \<Rightarrow> controller \<Rightarrow> (rpc_error + json) \<times> controller" where
  "invoke_prepared env params = (\<lambda>iv c.
     sbind (execution_mode params, c) (\<lambda>mode c.
       let (resumed, c) = resume params c in
       if wants_async params mode iv then accept_async (stage 3 1 2 env) iv params c
       else invoke_sync (stage 3 1 2 env) resumed iv params c))"

definition capability_invoke :: "environment \<Rightarrow> json \<Rightarrow> controller \<Rightarrow> (rpc_error + json) \<times> controller" where
  "capability_invoke env params c = sbind (prepare env params c) (invoke_prepared env params)"

definition invoke_actions :: "handler \<Rightarrow> handler" where
  "invoke_actions rest env action params c =
     (if action = ''capability.invoke'' then capability_invoke env params c else rest env action params c)"

text \<open>
  All modelled actions; \<^verbatim>\<open>status\<close> and \<^verbatim>\<open>dashboard.snapshot\<close>, which only read, are the argument \<open>views\<close>.
\<close>

definition controller_actions :: "handler \<Rightarrow> handler" where
  "controller_actions views = registry_actions (operator_group (task_actions (invoke_actions views)))"

text \<open>
  A worker: its request is handled like any other, and its slot is free again when it ends.
\<close>

definition finish_worker ::
  "handler \<Rightarrow> environment \<Rightarrow> (nat \<Rightarrow> u64) \<Rightarrow> (nat \<Rightarrow> u64) \<Rightarrow> nat \<Rightarrow> controller \<Rightarrow> controller" where
  "finish_worker views env stamps elapsed k c =
     free_slot (snd (handle (controller_actions views) env stamps elapsed (snd (ctl_workers c ! k))
       (c\<lparr>ctl_workers := take k (ctl_workers c) @ drop (Suc k) (ctl_workers c)\<rparr>)))"

end
