(* ===== verification/Catalog_Properties.thy ===== *)
theory Catalog_Properties
  imports Catalog Util_Properties Invoke
begin

section \<open>Properties of the capability catalogue\<close>

text \<open>
  The contracts as the controller uses them: which capabilities need an authority, whether what a
  contract names exists, and whether an input its schema accepts always renders its locks and its
  authority. The catalogue is a finite table, so what holds of each row is computed once
  (\<open>rows_sound\<close>); the consequences for schemas and templates follow from general lemmas.
\<close>

subsection \<open>Templates\<close>

text \<open>The variables of a template in which every dollar sign opens one, in order.\<close>

function variables :: "string \<Rightarrow> string list option" where
  "variables s =
     (case split_open s of
        None \<Rightarrow> if CHR ''$'' \<in> set s then None else Some []
      | Some (before, rest) \<Rightarrow>
          if CHR ''$'' \<in> set before then None
          else (case split_once (CHR ''}'') rest of
                  None \<Rightarrow> None
                | Some (k, after) \<Rightarrow> map_option ((#) k) (variables after)))"
  by pat_completeness auto
termination
  by (relation "measure length") (auto dest!: split_open_Some split_once_Some)

declare variables.simps [simp del]

lemma split_open_plain: "CHR ''$'' \<notin> set p \<Longrightarrow> split_open (p @ s) = map_option (\<lambda>(a, b). (p @ a, b)) (split_open s)"
  by (induction p) (cases "split_open s"; auto)+

lemma variables_plain: "CHR ''$'' \<notin> set p \<Longrightarrow> variables (p @ s) = variables s"
  by (subst (1 2) variables.simps) (auto simp: split_open_plain split: option.splits)

lemma render_loop_variables:
  assumes "variables s = Some ks" "\<forall>k \<in> set ks. jget input k \<noteq> None"
    and clean: "\<And>k v. jget input k = Some v \<Longrightarrow> CHR ''$'' \<notin> set (display_text jshow v)"
  shows "\<exists>r. render_loop jshow template input s = Some (Inr r) \<and> CHR ''$'' \<notin> set r"
  using assms(1,2)
proof (induction ks arbitrary: s)
  case Nil
  then have "split_open s = None \<and> CHR ''$'' \<notin> set s"
    by (subst (asm) variables.simps) (auto split: option.splits if_splits prod.splits)
  then show ?case by (subst render_loop.simps) simp
next
  case (Cons k ks)
  from Cons.prems(1) obtain before rest after where
    s: "split_open s = Some (before, rest)" "CHR ''$'' \<notin> set before" "split_once (CHR ''}'') rest = Some (k, after)"
      "variables after = Some ks"
    by (subst (asm) variables.simps) (auto split: option.splits if_splits prod.splits)
  from Cons.prems(2) obtain v where v: "jget input k = Some v" by auto
  have "variables (before @ display_text jshow v @ after) = Some ks"
    using variables_plain [of "before @ display_text jshow v"] s(2,4) clean [OF v] by simp
  from Cons.IH [OF this] Cons.prems(2) v s show ?case by (subst render_loop.simps) simp
qed

lemma render_locks_variables:
  assumes "\<forall>l \<in> set locks. \<exists>ks. variables (lock_key l) = Some ks \<and> (\<forall>k \<in> set ks. jget input k \<noteq> None)"
    and "\<And>k v. jget input k = Some v \<Longrightarrow> CHR ''$'' \<notin> set (display_text jshow v)"
  shows "\<exists>keys. render_locks jshow locks input = Inr keys \<and> length keys = length locks \<and> (\<forall>k \<in> set keys. CHR ''$'' \<notin> set k)"
  using assms(1)
proof (induction locks)
  case (Cons l ls)
  then obtain ks where ks: "variables (lock_key l) = Some ks" "\<forall>k \<in> set ks. jget input k \<noteq> None" by auto
  obtain r where "render_loop jshow (lock_key l) input (lock_key l) = Some (Inr r)" "CHR ''$'' \<notin> set r"
    using render_loop_variables [OF ks] assms(2) by blast
  with Cons show ?case by (auto simp: render_lock_def)
qed simp

subsection \<open>The rows\<close>

lemmas families = contract_desktop_def contract_filesystem_def contract_artifact_def contract_generation_def
  contract_application_def contract_ui_def contract_process_def contract_tunnel_def

lemma first_match_simps [simp]:
  "first_match [] d = d"
  "first_match (None # ms) d = first_match ms d"
  "first_match (Some t # ms) d = t"
  by (simp_all add: first_match_def)

definition requires_member :: "string \<Rightarrow> json \<Rightarrow> string \<Rightarrow> bool" where
  "requires_member name properties k \<longleftrightarrow> k \<in> set (schema_required name properties)"

lemma requires_member_eval:
  "requires_member name properties k \<longleftrightarrow>
     k \<in> set (map fst (unwrap_or [] (as_object properties))) \<and> k \<notin> set optional_fields \<and> k \<notin> set (optional_here name)"
  by (auto simp: requires_member_def schema_required_def)

definition rendered_by :: "(string \<Rightarrow> bool) \<Rightarrow> string \<Rightarrow> bool" where
  "rendered_by known template \<longleftrightarrow> (case variables template of None \<Rightarrow> False | Some ks \<Rightarrow> list_all known ks)"

lemma template_variables [simp]:
  "variables ''filesystem:${path}'' = Some [''path'']"
  "variables ''build:${artifactPath}'' = Some [''artifactPath'']"
  "variables ''artifact-relay:${destination}'' = Some [''destination'']"
  "variables ''generation:${generationRoot}/${generationId}'' = Some [''generationRoot'', ''generationId'']"
  "variables ''application:${applicationPath}'' = Some [''applicationPath'']"
  "variables ''datapack:${rootPath}/${outputRelative}'' = Some [''rootPath'', ''outputRelative'']"
  "variables ''activation:${generationRoot}/current'' = Some [''generationRoot'']"
  "variables ''application-instance:${bundleIdentifier}'' = Some [''bundleIdentifier'']"
  "variables ''application-instance:${applicationPath}'' = Some [''applicationPath'']"
  "variables ''process:${processId}'' = Some [''processId'']"
  "variables ''tunnel:${tunnelId}'' = Some [''tunnelId'']"
  "variables ''bind:${bindHost}:${bindPort}'' = Some [''bindHost'', ''bindPort'']"
  "variables ''agent:${agentId}'' = Some [''agentId'']"
  by (simp_all add: variables.simps)

definition exempt :: "string list" where
  "exempt = [''ui.automate'', ''ui.input'']"

fun row_sound :: "string \<times> effect \<Rightarrow> contract_terms \<Rightarrow> bool" where
  "row_sound (name, e) (required, properties, locks, keys, timeout_ms, rollback, evidence) \<longleftrightarrow>
     required \<noteq> [] \<and> evidence \<noteq> [] \<and> timeout_ms \<noteq> 0 \<and>
     (e = EffectReadOnly \<longrightarrow> locks = []) \<and>
     set keys \<subseteq> set (map fst (unwrap_or [] (as_object properties))) \<and>
     (case rollback of RollbackCompensate n \<Rightarrow> (n, EffectMutating) \<in> set common_capabilities | _ \<Rightarrow> True) \<and>
     (name \<in> set exempt \<or> list_all (rendered_by (requires_member name properties)) locks)"

lemmas row_eval = terms_of_def families rendered_by_def requires_member_eval optional_fields_def optional_here_def exempt_def

text \<open>Computed in slices of the table.\<close>

lemma rows_sound_1: "list_all (\<lambda>entry. row_sound entry (terms_of os (fst entry))) (take 17 common_capabilities)"
  by (simp add: common_capabilities_def row_eval)

lemma rows_sound_2: "list_all (\<lambda>entry. row_sound entry (terms_of os (fst entry))) (take 17 (drop 17 common_capabilities))"
  by (simp add: common_capabilities_def row_eval)

lemma rows_sound_3: "list_all (\<lambda>entry. row_sound entry (terms_of os (fst entry))) (drop 17 (drop 17 common_capabilities))"
  by (simp add: common_capabilities_def row_eval)

lemma rows_sound_4: "list_all (\<lambda>entry. row_sound entry (terms_of os (fst entry))) (platform_capabilities os)"
  by (cases os) (simp_all add: common_capabilities_def platform_capabilities_def row_eval)

lemma rows_sound:
  assumes "entry \<in> set (common_capabilities @ platform_capabilities os)"
  shows "row_sound entry (terms_of os (fst entry))"
proof -
  have "list_all (\<lambda>entry. row_sound entry (terms_of os (fst entry)))
      (take 17 common_capabilities @ take 17 (drop 17 common_capabilities) @ drop 17 (drop 17 common_capabilities))"
    using rows_sound_1 rows_sound_2 rows_sound_3 by (simp only: list_all_append simp_thms)
  then have "list_all (\<lambda>entry. row_sound entry (terms_of os (fst entry))) common_capabilities"
    by (simp only: append_take_drop_id)
  with rows_sound_4 assms show ?thesis by (auto simp: list_all_iff)
qed

lemma effect_authority:
  assumes "(name, e) \<in> set (common_capabilities @ platform_capabilities os)"
  shows "e = EffectReadOnly \<longleftrightarrow> capability_authority_of name = AuthorityNone"
proof -
  have "list_all (\<lambda>(name, e). e = EffectReadOnly \<longleftrightarrow> capability_authority_of name = AuthorityNone) common_capabilities"
    by (simp add: common_capabilities_def capability_authority_of_def)
  moreover have "list_all (\<lambda>(name, e). e = EffectReadOnly \<longleftrightarrow> capability_authority_of name = AuthorityNone) (platform_capabilities os)"
    by (cases os) (simp_all add: platform_capabilities_def capability_authority_of_def)
  ultimately show ?thesis using assms by (auto simp: list_all_iff)
qed

lemma names_distinct: "distinct (map fst (common_capabilities @ platform_capabilities os))"
  by (cases os) (simp_all add: common_capabilities_def platform_capabilities_def)

lemma catalog_entry:
  assumes "c \<in> set (capability_catalog os)"
  obtains name e required properties locks keys timeout_ms rollback evidence where
    "c = contract os name e" "(name, e) \<in> set (common_capabilities @ platform_capabilities os)"
    "terms_of os name = (required, properties, locks, keys, timeout_ms, rollback, evidence)"
    "row_sound (name, e) (required, properties, locks, keys, timeout_ms, rollback, evidence)"
proof -
  from assms obtain name e where *: "c = contract os name e" "(name, e) \<in> set (common_capabilities @ platform_capabilities os)"
    by (auto simp: capability_catalog_def)
  with rows_sound [OF *(2)] that show thesis by (cases "terms_of os name") (metis fst_conv)
qed

lemma catalog_member:
  "(name, e) \<in> set (common_capabilities @ platform_capabilities os) \<Longrightarrow> contract os name e \<in> set (capability_catalog os)"
  unfolding capability_catalog_def set_map by (rule image_eqI [where x = "(name, e)"]) simp_all

text \<open>The members a schema describes.\<close>

definition described :: "json \<Rightarrow> string list" where
  "described schema = map fst (unwrap_or [] (Option.bind (jget schema ''properties'') as_object))"

text \<open>
  C15. The catalogue is well formed on every platform: names are unique; a capability needs an
  authority exactly when it is not read-only, and a read-only one takes no lock; idempotency keys are
  made of members its input schema describes; what compensates a capability is itself a mutating
  capability of the catalogue; and every contract allows time and at least one attempt.
\<close>

theorem catalog_contracts:
  "distinct (map cap_name (capability_catalog os)) \<and>
   (\<forall>c \<in> set (capability_catalog os).
      (cap_effect c = EffectReadOnly \<longleftrightarrow> cap_authority c = AuthorityNone) \<and>
      (cap_effect c = EffectReadOnly \<longrightarrow> cap_locks c = []) \<and>
      set (idem_key_fields (cap_idempotency c)) \<subseteq> set (described (cap_input_schema c)) \<and>
      (\<forall>n. cap_rollback c = RollbackCompensate n \<longrightarrow>
         (\<exists>d \<in> set (capability_catalog os). cap_name d = n \<and> cap_effect d = EffectMutating)) \<and>
      cap_timeout_ms c \<noteq> 0 \<and> retry_max_attempts (cap_retry c) \<noteq> 0)"
proof (intro conjI ballI)
  have names: "map cap_name (capability_catalog os) = map fst (common_capabilities @ platform_capabilities os)"
    by (simp add: capability_catalog_def contract_def case_prod_beta comp_def)
  then show "distinct (map cap_name (capability_catalog os))" using names_distinct by simp
  fix c assume "c \<in> set (capability_catalog os)"
  then obtain name e required properties locks keys timeout_ms rollback evidence where
    c: "c = contract os name e" "(name, e) \<in> set (common_capabilities @ platform_capabilities os)"
      "terms_of os name = (required, properties, locks, keys, timeout_ms, rollback, evidence)"
      "row_sound (name, e) (required, properties, locks, keys, timeout_ms, rollback, evidence)"
    by (rule catalog_entry)
  note def = c(1) contract_def c(3)
  show "cap_effect c = EffectReadOnly \<longleftrightarrow> cap_authority c = AuthorityNone"
    using effect_authority [OF c(2)] by (simp add: def)
  show "cap_effect c = EffectReadOnly \<longrightarrow> cap_locks c = []" using c(4) by (simp add: def)
  show "set (idem_key_fields (cap_idempotency c)) \<subseteq> set (described (cap_input_schema c))"
    using c(4) by (simp add: def described_def input_schema_of_def bt_get_def)
  show "cap_timeout_ms c \<noteq> 0" using c(4) by (simp add: def)
  show "retry_max_attempts (cap_retry c) \<noteq> 0" by (simp add: def)
  show "\<forall>n. cap_rollback c = RollbackCompensate n \<longrightarrow>
      (\<exists>d \<in> set (capability_catalog os). cap_name d = n \<and> cap_effect d = EffectMutating)"
  proof (intro allI impI)
    fix n assume "cap_rollback c = RollbackCompensate n"
    with c(4) have "(n, EffectMutating) \<in> set common_capabilities" by (simp add: def)
    then have "contract os n EffectMutating \<in> set (capability_catalog os)" by (intro catalog_member) simp
    then show "\<exists>d \<in> set (capability_catalog os). cap_name d = n \<and> cap_effect d = EffectMutating"
      by (rule bexI [rotated]) (simp add: contract_def case_prod_beta)
  qed
qed

lemma catalog_remove: "contract os ''filesystem.remove'' EffectMutating \<in> set (capability_catalog os)"
  by (rule catalog_member) (simp add: common_capabilities_def)

theorem catalog_contracts_witness:
  "\<exists>d \<in> set (capability_catalog Linux). cap_name d = ''filesystem.restore'' \<and> cap_effect d = EffectMutating"
proof -
  have "cap_rollback (contract Linux ''filesystem.remove'' EffectMutating) = RollbackCompensate ''filesystem.restore''"
    by (simp add: contract_def terms_of_def families)
  with catalog_contracts [of Linux] catalog_remove show ?thesis by blast
qed

subsection \<open>Accepted inputs render\<close>

lemma required_present:
  assumes "validate_schema jshow fshow (input_schema_of name properties) (JObj obj) path = Inr ()"
    and "requires_member name properties k"
  shows "jget (JObj obj) k \<noteq> None"
proof -
  have "check_required obj path (List.map_filter as_str (map JStr (schema_required name properties))) = Inr ()"
    using assms(1) by (subst (asm) validate_schema.simps) (auto simp: input_schema_of_def get_array_def bt_get_def jstrs_def)
  with assms(2) show ?thesis
    by (force simp: check_required_ok set_map_filter requires_member_def)
qed

lemma lease_variables:
  assumes "CHR ''$'' \<notin> set x"
  shows "rendered_by known (replace_all ''${executorId}'' x ''clipboard:${executorId}'')"
    "rendered_by known (replace_all ''${executorId}'' x ''runtime:${executorId}'')"
    "rendered_by known (replace_all ''${executorId}'' x ''tunnel:${executorId}:${tunnelId}'') = known ''tunnelId''"
    "rendered_by known (replace_all ''${executorId}'' x ''artifact-relay:${destination}'') = known ''destination''"
  using variables_plain [of "''clipboard:'' @ x" "[]"] variables_plain [of "''runtime:'' @ x" "[]"]
    variables_plain [of "''tunnel:'' @ x" "'':${tunnelId}''"] assms
  by (simp_all add: rendered_by_def variables.simps [of "'':${tunnelId}''"] variables.simps [of "[]"])

definition lease_rows :: "(string \<times> string) list" where
  "lease_rows =
     (''clipboard.write'', ''clipboard:${executorId}'') #
     map (\<lambda>name. (name, ''runtime:${executorId}''))
       [''application.activate'', ''application.launch'', ''application.open-file'', ''application.stop'', ''application.runtime.record''] @
     map (\<lambda>name. (name, ''tunnel:${executorId}:${tunnelId}'')) [''tunnel.ensure'', ''tunnel.stop''] @
     map (\<lambda>name. (name, ''artifact-relay:${destination}''))
       [''artifact.relay.archive.prepare'', ''artifact.relay.archive.write'', ''artifact.relay.archive.commit'',
        ''artifact.relay.prepare'', ''artifact.relay.write'', ''artifact.relay.commit'', ''artifact.relay.local-copy'']"

fun lease_listed :: "string \<times> effect \<Rightarrow> bool" where
  "lease_listed (name, e) \<longleftrightarrow>
     (case capability_authority_of name of
        AuthorityResourceLease template \<Rightarrow> (name, template) \<in> set lease_rows \<or> name \<in> set exempt
      | _ \<Rightarrow> True)"

lemma leases_listed:
  assumes "entry \<in> set (common_capabilities @ platform_capabilities os)"
  shows "lease_listed entry"
proof -
  have "list_all lease_listed common_capabilities"
    by (simp add: common_capabilities_def capability_authority_of_def lease_rows_def)
  moreover have "list_all lease_listed (platform_capabilities os)"
    by (cases os) (simp_all add: platform_capabilities_def capability_authority_of_def lease_rows_def exempt_def)
  ultimately show ?thesis using assms by (auto simp: list_all_iff)
qed

lemma leases_rendered:
  assumes "CHR ''$'' \<notin> set x" "(name, template) \<in> set lease_rows"
  shows "rendered_by (requires_member name (fst (snd (terms_of os name)))) (replace_all ''${executorId}'' x template)"
proof -
  have "list_all (\<lambda>(name, template).
      rendered_by (requires_member name (fst (snd (terms_of os name)))) (replace_all ''${executorId}'' x template)) lease_rows"
    using assms(1)
    by (simp add: lease_rows_def terms_of_def families requires_member_eval optional_fields_def optional_here_def lease_variables
        del: replace_all.simps)
  with assms(2) show ?thesis by (auto simp: list_all_iff)
qed

lemma rendered_byD:
  assumes "rendered_by (requires_member name properties) template"
    and "validate_schema jshow fshow (input_schema_of name properties) (JObj obj) path = Inr ()"
  shows "\<exists>ks. variables template = Some ks \<and> (\<forall>k \<in> set ks. jget (JObj obj) k \<noteq> None)"
  using assms required_present by (auto simp: rendered_by_def list_all_iff split: option.splits)

text \<open>
  C33. An input that a contract's own schema accepts renders: for every capability of the
  catalogue but the two that drive a user interface, when no value of the input and no executor name
  contains a dollar sign, every lock template gives a name without placeholders, and so does the
  template of the lease it needs.
\<close>

theorem accepted_inputs_render:
  assumes c: "c \<in> set (capability_catalog os)" and ne: "cap_name c \<notin> {''ui.automate'', ''ui.input''}"
    and ok: "validate_schema jshow fshow (cap_input_schema c) (JObj obj) path = Inr ()"
    and clean: "\<And>k v. jget (JObj obj) k = Some v \<Longrightarrow> CHR ''$'' \<notin> set (display_text jshow v)"
    and x: "CHR ''$'' \<notin> set x"
  shows "(\<exists>keys. render_locks jshow (cap_locks c) (JObj obj) = Inr keys \<and> length keys = length (cap_locks c) \<and>
      (\<forall>k \<in> set keys. CHR ''$'' \<notin> set k)) \<and>
    (\<forall>template. cap_authority c = AuthorityResourceLease template \<longrightarrow>
      (\<exists>r. render_capability_authority_resource jshow template x (JObj obj) = Some (Inr r) \<and> CHR ''$'' \<notin> set r))"
proof -
  from c obtain name e required properties locks keys timeout_ms rollback evidence where
    c: "c = contract os name e" "(name, e) \<in> set (common_capabilities @ platform_capabilities os)"
      "terms_of os name = (required, properties, locks, keys, timeout_ms, rollback, evidence)"
      "row_sound (name, e) (required, properties, locks, keys, timeout_ms, rollback, evidence)"
    by (rule catalog_entry)
  note def = c(1) contract_def c(3)
  have name: "name \<notin> set exempt" using ne by (simp add: def exempt_def)
  have ok: "validate_schema jshow fshow (input_schema_of name properties) (JObj obj) path = Inr ()" using ok by (simp add: def)
  have "\<forall>l \<in> set (cap_locks c). \<exists>ks. variables (lock_key l) = Some ks \<and> (\<forall>k \<in> set ks. jget (JObj obj) k \<noteq> None)"
  proof
    fix l assume "l \<in> set (cap_locks c)"
    then have "rendered_by (requires_member name properties) (lock_key l)" using c(4) name by (auto simp: def list_all_iff)
    from rendered_byD [OF this ok] show "\<exists>ks. variables (lock_key l) = Some ks \<and> (\<forall>k \<in> set ks. jget (JObj obj) k \<noteq> None)" .
  qed
  from render_locks_variables [OF this] clean
  have "\<exists>keys. render_locks jshow (cap_locks c) (JObj obj) = Inr keys \<and> length keys = length (cap_locks c) \<and>
      (\<forall>k \<in> set keys. CHR ''$'' \<notin> set k)" by blast
  moreover have "\<exists>r. render_capability_authority_resource jshow template x (JObj obj) = Some (Inr r) \<and> CHR ''$'' \<notin> set r"
    if "cap_authority c = AuthorityResourceLease template" for template
  proof -
    have "rendered_by (requires_member name properties) (replace_all ''${executorId}'' x template)"
      using leases_rendered [OF x, of name template os] leases_listed [OF c(2)] name that by (simp add: def)
    from rendered_byD [OF this ok] obtain ks where
      "variables (replace_all ''${executorId}'' x template) = Some ks" "\<forall>k \<in> set ks. jget (JObj obj) k \<noteq> None" by blast
    from render_loop_variables [OF this] clean show ?thesis
      by (auto simp: render_capability_authority_resource_def render_lock_def)
  qed
  ultimately show ?thesis by blast
qed

theorem accepted_inputs_render_witness:
  "\<exists>keys. render_locks (\<lambda>_. []) (cap_locks (contract Linux ''filesystem.mkdir'' EffectMutating)) (JObj [(''path'', JStr ''/a'')]) = Inr keys \<and>
     length keys = 1"
proof -
  let ?c = "contract Linux ''filesystem.mkdir'' EffectMutating"
  have t: "terms_of Linux ''filesystem.mkdir'' = ([''filesystem''], JObj [(''path'', jtype ''string'')], [''filesystem:${path}''],
      [''path''], 30000, RollbackNone, [''directory-result''])" by (simp add: terms_of_def families)
  have m: "?c \<in> set (capability_catalog Linux)" by (rule catalog_member) (simp add: common_capabilities_def)
  have v: "validate_schema (\<lambda>_. []) (\<lambda>_. []) (cap_input_schema ?c) (JObj [(''path'', JStr ''/a'')]) ''input'' = Inr ()"
    by (simp add: contract_def t input_schema_of_def schema_required_def optional_fields_def optional_here_def jstrs_def jtype_def
        validate_schema.simps check_enum_def check_type_def check_bounds_def get_array_def bt_get_def List.map_filter_simps
        value_matches_type_def)
  have l: "length (cap_locks ?c) = 1" by (simp add: contract_def t)
  have clean: "CHR ''$'' \<notin> set (display_text (\<lambda>_. []) w)" if "jget (JObj [(''path'', JStr ''/a'')]) k = Some w" for k w
    using that by (auto simp: bt_get_def display_text_def split: if_splits)
  have ne: "cap_name ?c \<notin> {''ui.automate'', ''ui.input''}" by (simp add: contract_def t)
  have x: "CHR ''$'' \<notin> set ([] :: string)" by simp
  show ?thesis using accepted_inputs_render [OF m ne v _ x, THEN conjunct1] clean unfolding l by blast
qed

text \<open>The exception on macOS: an accepted input whose lock does not render.\<close>

lemma automate_lock_unrendered:
  "contract Macos ''ui.automate'' EffectMutating \<in> set (capability_catalog Macos) \<and>
   validate_schema jshow fshow (cap_input_schema (contract Macos ''ui.automate'' EffectMutating))
     (JObj [(''method'', JStr ''click''), (''params'', JObj [])]) ''input'' = Inr () \<and>
   render_locks jshow (cap_locks (contract Macos ''ui.automate'' EffectMutating))
     (JObj [(''method'', JStr ''click''), (''params'', JObj [])]) =
     Inl (rpc_err ''INVALID_LOCK_INPUT'' ''lock requires input field remoteDebuggingPort'')"
proof -
  have t: "terms_of Macos ''ui.automate'' = ([''cdp''], JObj [(''method'', jtype ''string''), (''params'', jtype ''object''),
        (''remoteDebuggingPort'', jtype ''integer''), (''targetUrlPrefix'', jtype ''string'')],
      [''ui-target:${remoteDebuggingPort}''], [''remoteDebuggingPort'', ''targetUrlPrefix'', ''method'', ''params''], 30000,
      RollbackNone, [''automation-result''])" by (simp add: terms_of_def families)
  show ?thesis
    by (intro conjI catalog_member)
      (simp_all add: platform_capabilities_def contract_def t input_schema_of_def schema_required_def optional_fields_def
        optional_here_def jstrs_def jtype_def validate_schema.simps check_enum_def check_type_def check_bounds_def
        get_array_def bt_get_def List.map_filter_simps value_matches_type_def render_lock_def render_loop.simps and_then_def)
qed

end
