(* ===== verification/Executor_Properties.thy ===== *)
theory Executor_Properties
  imports Filesystem_Properties Catalog_Properties
begin

section \<open>Properties of the executor\<close>

text \<open>
  What a fenced authority is worth across requests, failed writes and restarts, and the bounds on
  what runs at once.
\<close>

subsection \<open>Steps\<close>

text \<open>A request, and a restart: opening again with what the file of fences holds.\<close>

inductive exec_step :: "executor_runtime \<Rightarrow> executor_runtime \<Rightarrow> bool" where
  request: "executor_handle e q x = (r, x') \<Longrightarrow> exec_step x x'"
| restart: "xr_fences x = Some s \<Longrightarrow>
    open_with_grantable env capacity fs i roots grantable state_path (Inr (fst_disk s)) processes observations desktop_file
      resource_file = Inr x' \<Longrightarrow> exec_step x x'"

definition fence_in :: "executor_fences \<Rightarrow> string \<Rightarrow> u64" where
  "fence_in table k = (case bt_get (ef_resources table) k of None \<Rightarrow> 0 | Some r \<Rightarrow> fr_fence r)"

definition fences_on_disk :: "fence_store \<Rightarrow> executor_fences" where
  "fences_on_disk s = unwrap_or executor_fences_default (fst_disk s)"

text \<open>The fences kept: those of the file are at most those in memory.\<close>

definition fences_kept :: "executor_runtime \<Rightarrow> bool" where
  "fences_kept x = (case xr_fences x of None \<Rightarrow> False
     | Some s \<Rightarrow> \<forall>k. fence_in (fences_on_disk s) k \<le> fence_in (fst_table s) k)"

definition disk_fence_of :: "executor_runtime \<Rightarrow> string \<Rightarrow> u64" where
  "disk_fence_of x k = (case xr_fences x of None \<Rightarrow> 0 | Some s \<Rightarrow> fence_in (fences_on_disk s) k)"

subsection \<open>What changes the fences\<close>

lemma xr_fences_put_files [simp]: "xr_fences (put_files fs x) = xr_fences x"
  by (simp add: put_files_def)

lemma fs_step_fences [simp]: "xr_fences (snd (fs_step f r x)) = xr_fences x"
  by (simp add: fs_step_def split: sum.splits)

lemma sbind_fences:
  assumes "xr_fences (snd r) = s" "\<And>a x. xr_fences x = s \<Longrightarrow> xr_fences (snd (f a x)) = s"
  shows "xr_fences (snd (sbind r f)) = s"
  using assms by (cases r; cases "fst r") auto

lemma file_actions_fences:
  "xr_fences (snd (replace_contents env code p c x)) = xr_fences x"
  "xr_fences (snd (fs_write env params x)) = xr_fences x"
  "xr_fences (snd (fs_patch env params x)) = xr_fences x"
  "xr_fences (snd (fs_remove env params x)) = xr_fences x"
  "xr_fences (snd (fs_restore env params x)) = xr_fences x"
  "xr_fences (snd (fs_mkdir env params x)) = xr_fences x"
  "xr_fences (snd (run_command env params x)) = xr_fences x"
proof -
  show r: "xr_fences (snd (replace_contents env code p c x)) = xr_fences x" for code p c x
    by (auto simp: replace_contents_def Let_def intro!: sbind_fences)
  show "xr_fences (snd (fs_write env params x)) = xr_fences x"
    by (auto simp: fs_write_def r split: option.splits intro!: sbind_fences)
  show "xr_fences (snd (fs_patch env params x)) = xr_fences x"
    by (auto simp: fs_patch_def r intro!: sbind_fences)
  show "xr_fences (snd (fs_remove env params x)) = xr_fences x"
    by (auto simp: fs_remove_def Let_def intro!: sbind_fences)
  show "xr_fences (snd (fs_restore env params x)) = xr_fences x"
    by (auto simp: fs_restore_def Let_def intro!: sbind_fences)
  show "xr_fences (snd (fs_mkdir env params x)) = xr_fences x"
    by (auto simp: fs_mkdir_def Let_def intro!: sbind_fences)
  show "xr_fences (snd (run_command env params x)) = xr_fences x"
    by (auto simp: run_command_def Let_def case_prod_beta split: command_outcome.splits sum.splits intro!: sbind_fences)
qed

lemma relay_swap_fences:
  "xr_fences (snd (swap_in remove env destination staging x)) = xr_fences x"
  "xr_fences (snd (fresh_staging env staging x)) = xr_fences x"
  "xr_fences (snd (prepare_entries env staging entries x)) = xr_fences x"
  "xr_fences (snd (write_block env label params p x)) = xr_fences x"
  by (auto simp: swap_in_def fresh_staging_def write_block_def Let_def split: sum.splits intro!: sbind_fences)
    (induction env staging entries x rule: prepare_entries.induct; auto simp: Let_def split: option.splits intro!: sbind_fences)

lemma extract_fences:
  "xr_fences (snd (extract_entries env archive destination a b entries len n x)) = xr_fences x"
  "xr_fences (snd (extract_relay_archive env archive destination a b x)) = xr_fences x"
proof -
  show e: "xr_fences (snd (extract_entries env archive destination a b entries len n x)) = xr_fences x" for entries len n x
    by (induction entries arbitrary: len n x) (auto simp: Let_def case_prod_beta intro!: sbind_fences)
  show "xr_fences (snd (extract_relay_archive env archive destination a b x)) = xr_fences x"
    by (auto simp: extract_relay_archive_def e case_prod_beta intro!: sbind_fences)
qed

lemma each_child_fences:
  "(\<And>c y. c \<in> set cs \<Longrightarrow> xr_fences (snd (f c y)) = xr_fences y) \<Longrightarrow> xr_fences (snd (each_child f cs x)) = xr_fences x"
  by (induction cs arbitrary: x) (auto intro!: sbind_fences)

lemma copy_tree_fences: "xr_fences (snd (copy_relay_tree sys source staging x)) = xr_fences x"
proof (induction "Suc (os_longest sys) - length staging" arbitrary: source staging x rule: less_induct)
  case less
  show ?case
  proof (cases "create_dir_all sys (xr_files x) staging")
    case (Inl e)
    then show ?thesis by (subst copy_relay_tree.simps) (simp add: fs_step_def)
  next
    case (Inr fs)
    then have "length staging \<le> os_longest sys"
      by (auto simp: create_dir_all_def os_call_def ok_or_def split: option.splits if_splits)
    then have "xr_fences (snd (copy_relay_tree sys (source @ [name]) (staging @ [name]) y)) = xr_fences y" for name y
      by (intro less) simp
    then show ?thesis
      by (subst copy_relay_tree.simps) (auto split: node.splits intro!: sbind_fences each_child_fences [THEN trans])
  qed
qed

lemma relay_dispatch_fences: "xr_fences (snd (relay_dispatch env action params x)) = xr_fences x"
proof -
  have "xr_fences (snd (archive_create env params x)) = xr_fences x" "xr_fences (snd (local_copy env params x)) = xr_fences x"
    "xr_fences (snd (archive_remove env params x)) = xr_fences x" "xr_fences (snd (archive_prepare env params x)) = xr_fences x"
    "xr_fences (snd (archive_write env params x)) = xr_fences x" "xr_fences (snd (archive_commit env params x)) = xr_fences x"
    "xr_fences (snd (relay_prepare env params x)) = xr_fences x" "xr_fences (snd (relay_write env params x)) = xr_fences x"
    "xr_fences (snd (relay_commit env params x)) = xr_fences x"
    unfolding archive_create_def local_copy_def archive_remove_def archive_prepare_def archive_write_def archive_commit_def
      relay_prepare_def relay_write_def relay_commit_def commit_relay_staging_def
    by (auto simp: Let_def case_prod_beta relay_swap_fences extract_fences copy_tree_fences
        split: sum.splits option.splits intro!: sbind_fences)
  then show ?thesis by (simp add: relay_dispatch_def)
qed

definition table_fence_of :: "executor_runtime \<Rightarrow> string \<Rightarrow> u64" where
  "table_fence_of x k = (case xr_fences x of None \<Rightarrow> 0 | Some s \<Rightarrow> fence_in (fst_table s) k)"

text \<open>A call may only raise fences, in memory and in the file, and keeps the file behind memory.\<close>

definition fences_move :: "executor_runtime \<Rightarrow> executor_runtime \<Rightarrow> bool" where
  "fences_move x x' \<longleftrightarrow> (fences_kept x \<longrightarrow>
     fences_kept x' \<and> (\<forall>k. table_fence_of x k \<le> table_fence_of x' k) \<and> (\<forall>k. disk_fence_of x k \<le> disk_fence_of x' k))"

lemma fences_move_same: "xr_fences x' = xr_fences x \<Longrightarrow> fences_move x x'"
  by (simp add: fences_move_def fences_kept_def table_fence_of_def disk_fence_of_def)

lemma fences_move_refl [simp]: "fences_move x x"
  by (simp add: fences_move_same)

lemma fences_move_trans: "fences_move x y \<Longrightarrow> fences_move y z \<Longrightarrow> fences_move x z"
  unfolding fences_move_def by (meson order_trans)

lemma sbind_fences_move:
  assumes "fences_move x (snd r)" "\<And>a y. fences_move y (snd (f a y))"
  shows "fences_move x (snd (sbind r f))"
proof (cases r)
  case (Pair a y)
  with assms show ?thesis by (cases a) (auto intro: fences_move_trans)
qed

lemma keep_moves:
  assumes "xr_fences x = Some s" "\<And>k. fence_in (fst_table s) k \<le> fence_in table k"
    "xr_fences x' = Some (snd (persist_fences io (s\<lparr>fst_table := table\<rparr>)))"
  shows "fences_move x x'"
  using assms
  by (auto simp: fences_move_def fences_kept_def table_fence_of_def disk_fence_of_def persist_fences_def fences_on_disk_def
      split: option.splits intro: order_trans)

definition workspace_authority :: "json \<Rightarrow> string \<Rightarrow> u64 \<Rightarrow> bool" where
  "workspace_authority a k f \<longleftrightarrow>
     (\<exists>controller name. required_str a ''controllerId'' = Inr controller \<and> required_str a ''resource'' = Inr name \<and>
        starts_with ''workspace:'' name \<and> k = fence_key controller name \<and> get_u64 a ''fence'' = Some f)"

lemma as_u64_jindex: "as_u64 (jindex a k) = get_u64 a k"
  by (simp add: jindex_def get_u64_def split: option.splits)

lemma record_authorities_source:
  assumes "record_authorities table as = Inr table'"
  shows "bt_get table' k = bt_get table k \<or>
    (\<exists>a \<in> set as. \<exists>f c. workspace_authority a k f \<and> bt_get table' k = Some \<lparr>fr_controller_id = c, fr_fence = f\<rparr>)"
  using assms
proof (induction as arbitrary: table)
  case (Cons a as)
  show ?case
  proof (cases "\<exists>controller name. required_str a ''controllerId'' = Inr controller \<and> required_str a ''resource'' = Inr name \<and>
      starts_with ''workspace:'' name")
    case False
    with Cons.prems have "record_authorities table as = Inr table'" by (auto split: if_splits)
    from Cons.IH [OF this] show ?thesis by auto
  next
    case True
    then obtain c n f where a: "required_str a ''controllerId'' = Inr c" "required_str a ''resource'' = Inr n"
      "starts_with ''workspace:'' n" "get_u64 a ''fence'' = Some f"
      "record_authorities (bt_insert (fence_key c n) \<lparr>fr_controller_id = c, fr_fence = f\<rparr> table) as = Inr table'"
      using Cons.prems by (auto simp: as_u64_jindex ok_or_def split: option.splits)
    have "workspace_authority a (fence_key c n) f" using a by (auto simp: workspace_authority_def)
    with Cons.IH [OF a(5)] show ?thesis by (auto simp: bt_get_insert_any split: if_splits)
  qed
qed simp

lemma workspace_authority_unique: "workspace_authority a k f \<Longrightarrow> workspace_authority a k' f' \<Longrightarrow> k' = k \<and> f' = f"
  by (auto simp: workspace_authority_def)

lemma record_authorities_kept:
  assumes "record_authorities table as = Inr table'" "workspace_authority a k f"
    and "\<forall>b \<in> set as. (\<exists>k f. workspace_authority b k f) \<longrightarrow> b = a"
    and "a \<in> set as \<or> (\<exists>c. bt_get table k = Some \<lparr>fr_controller_id = c, fr_fence = f\<rparr>)"
  shows "\<exists>c. bt_get table' k = Some \<lparr>fr_controller_id = c, fr_fence = f\<rparr>"
  using assms
proof (induction as arbitrary: table)
  case (Cons b as)
  show ?case
  proof (cases "b = a")
    case True
    then obtain c n where "record_authorities (bt_insert k \<lparr>fr_controller_id = c, fr_fence = f\<rparr> table) as = Inr table'"
      using Cons.prems(1,2) by (auto simp: workspace_authority_def as_u64_jindex ok_or_def split: if_splits)
    with Cons show ?thesis by (auto simp: bt_get_insert_any)
  next
    case False
    then have "\<not> (\<exists>k f. workspace_authority b k f)" using Cons.prems(3) by auto
    then have "record_authorities table as = Inr table'"
      using Cons.prems(1) by (auto simp: workspace_authority_def as_u64_jindex ok_or_def split: if_splits option.splits)
    with Cons False show ?thesis by auto
  qed
qed simp

lemma check_authorities_fence:
  assumes "check_authorities clk table as = Inr ()" "a \<in> set as" "workspace_authority a k f" "bt_get table k = Some r"
  shows "fr_fence r \<le> f"
  using assms
proof (induction as arbitrary: clk)
  case (Cons b as)
  show ?case
  proof (cases "a = b")
    case True
    with Cons.prems have "check_authority (clk 0) table a = Inr ()" by simp
    with Cons.prems(3,4) show ?thesis
      by (auto simp: workspace_authority_def check_authority_def Let_def not_less split: if_splits option.splits)
  next
    case False
    with Cons show ?thesis by auto
  qed
qed simp

lemma accepted_fences_grow:
  assumes "check_authorities clk table as = Inr ()" "record_authorities table as = Inr table'"
  shows "fence_in \<lparr>ef_resources = table, ef_read_grants = g\<rparr> k \<le> fence_in \<lparr>ef_resources = table', ef_read_grants = g'\<rparr> k"
  using record_authorities_source [OF assms(2), of k]
proof
  assume "\<exists>a \<in> set as. \<exists>f c. workspace_authority a k f \<and> bt_get table' k = Some \<lparr>fr_controller_id = c, fr_fence = f\<rparr>"
  then show ?thesis using check_authorities_fence [OF assms(1)] by (auto simp: fence_in_def split: option.splits)
qed (simp add: fence_in_def)

lemma fence_in_resources: "fence_in t k = fence_in \<lparr>ef_resources = ef_resources t, ef_read_grants = []\<rparr> k"
  by (simp add: fence_in_def)

lemma enforce_moves: "fences_move x (snd (enforce_authority env action params x))"
proof (cases "xr_fences x")
  case (Some s)
  have "fences_move x (snd (enforce_fences env terms params x s))" for terms
  proof (cases "xr_fences (snd (enforce_fences env terms params x s)) = xr_fences x")
    case False
    then obtain as table where t: "check_authorities (xe_clock env) (ef_resources (fst_table s)) as = Inr ()"
      "record_authorities (ef_resources (fst_table s)) as = Inr table"
      "xr_fences (snd (enforce_fences env terms params x s)) =
         Some (snd (persist_fences (xe_io env 0) (s\<lparr>fst_table := (fst_table s)\<lparr>ef_resources := table\<rparr>\<rparr>)))"
      unfolding enforce_fences_def by (auto simp: case_prod_beta Let_def split: sum.splits if_splits)
    have "fence_in (fst_table s) k \<le> fence_in ((fst_table s)\<lparr>ef_resources := table\<rparr>) k" for k
      using accepted_fences_grow [OF t(1,2)] by (subst (1 2) fence_in_resources) simp
    from keep_moves [OF Some this t(3)] show ?thesis .
  qed (rule fences_move_same)
  then show ?thesis using Some
    by (auto simp: enforce_authority_def fences_move_same split: option.splits capability_authority.splits)
qed (simp add: enforce_authority_def fences_move_same)

lemma grant_changes_move:
  assumes "xr_fences x = Some s" "ef_resources table = ef_resources (fst_table s)"
  shows "fences_move x (snd (keep_fences env table s v x))"
  using assms
  by (intro keep_moves [of x s table _ "xe_io env 0"]) (simp_all add: keep_fences_def case_prod_beta fence_in_def)

lemma with_fences_moves:
  assumes "\<And>s. xr_fences x = Some s \<Longrightarrow> fences_move x (snd (f s))"
  shows "fences_move x (snd (with_fences x f))"
  using assms by (simp add: with_fences_def fences_move_same split: option.splits)

lemma grant_actions_move:
  "fences_move x (snd (executor_grant_approve env params x))"
  "fences_move x (snd (executor_grant_revoke env params x))"
  by (auto simp: executor_grant_approve_def executor_grant_revoke_def Let_def fences_move_same
      split: option.splits intro!: sbind_fences_move with_fences_moves grant_changes_move)

lemma if_moves:
  "fences_move x (snd a) \<Longrightarrow> fences_move x (snd b) \<Longrightarrow> fences_move x (snd (if P then a else b))"
  by simp

lemma executor_dispatch_moves: "fences_move x (snd (executor_dispatch env action params x))"
proof -
  have "xr_fences (snd (artifact_build env params x)) = xr_fences x"
    by (auto simp: artifact_build_def file_actions_fences intro!: sbind_fences)
  then show ?thesis
    unfolding executor_dispatch_def
    by (intro if_moves)
      (simp_all add: answer_def case_prod_beta Let_def file_actions_fences relay_dispatch_fences fences_move_same grant_actions_move)
qed

lemma fences_move_back: "fences_move x y \<Longrightarrow> xr_fences z = xr_fences y \<Longrightarrow> fences_move x z"
  using fences_move_trans fences_move_same by blast

lemma fences_move_front: "fences_move y z \<Longrightarrow> xr_fences y = xr_fences x \<Longrightarrow> fences_move x z"
  using fences_move_trans fences_move_same by blast

lemma resource_dispatch_moves: "fences_move x (snd (resource_dispatch e action params x))"
proof -
  have "fences_move x (snd (let (r, x) = sbind (enforce_authority (e 1) action params x) (\<lambda>_ x. executor_dispatch (e 2) action params x)
      in (r, x\<lparr>xr_resources := d x\<rparr>)))" for x d
    using sbind_fences_move [OF enforce_moves executor_dispatch_moves, of x "e 1" action params "\<lambda>_ _. e 2" "\<lambda>_ _. action" "\<lambda>_ _. params"]
    by (simp add: case_prod_beta fences_move_back)
  then show ?thesis
    unfolding resource_dispatch_def
    by (auto simp: Let_def case_prod_beta fences_move_same intro!: sbind_fences_move)
qed

lemma desktop_moves [simp]:
  "fences_move x (snd (on_desktop f x))" "fences_move x (snd (reconcile env x))"
  by (simp_all add: on_desktop_def reconcile_def case_prod_beta fences_move_same)

lemma on_desktop_after: "fences_move x y \<Longrightarrow> fences_move x (snd (on_desktop f y))"
  by (blast intro: fences_move_trans desktop_moves)

lemma desktop_dispatch_moves: "fences_move x (snd (desktop_dispatch e action params x))"
  unfolding desktop_dispatch_def
  by (auto simp: Let_def case_prod_beta fences_move_same resource_dispatch_moves
      intro!: sbind_fences_move on_desktop_after executor_dispatch_moves)

lemma observe_fences [simp]: "xr_fences (observe_response e q r x) = xr_fences x"
  by (simp add: observe_response_def Let_def split: option.splits)

lemma observed_fences_move: "fences_move x y \<Longrightarrow> fences_move x (observe_response e q r (y\<lparr>xr_execution := c\<rparr>))"
  by (erule fences_move_back) simp

lemma executor_handle_moves: "fences_move x (snd (executor_handle e q x))"
proof -
  have "fences_move x (snd (desktop_dispatch e' a p (x\<lparr>xr_execution := t\<rparr>)))" for e' a p t
    by (rule fences_move_front [OF desktop_dispatch_moves]) simp
  then show ?thesis
    by (auto simp: executor_handle_def Let_def case_prod_beta fences_move_same split: sum.splits intro!: observed_fences_move)
qed

lemma step_moves:
  assumes "exec_step x x'" "fences_kept x"
  shows "fences_kept x' \<and> (\<forall>k. disk_fence_of x k \<le> disk_fence_of x' k)"
  using assms
proof (induction rule: exec_step.induct)
  case (request e q x r x')
  then show ?case using executor_handle_moves [of x e q] by (simp add: fences_move_def)
next
  case (restart x s)
  then show ?case
    by (auto simp: open_with_grantable_def Let_def fences_kept_def disk_fence_of_def fences_on_disk_def)
qed

lemma run_moves:
  assumes "exec_step\<^sup>*\<^sup>* x x'" "fences_kept x"
  shows "fences_kept x' \<and> (\<forall>k. disk_fence_of x k \<le> disk_fence_of x' k)"
  using assms by (induction rule: rtranclp_induct) (auto dest: step_moves intro: order_trans)

subsection \<open>Refusals\<close>

lemma contract_of_authority:
  assumes "contract_of os action = Some terms"
  shows "cap_authority terms = capability_authority_of (canonical_action action)" "cap_name terms = canonical_action action"
proof -
  from assms have c: "terms \<in> set (capability_catalog os)" "cap_name terms = canonical_action action"
    by (auto simp: contract_of_def dest: find_SomeD)
  then show "cap_authority terms = capability_authority_of (canonical_action action)" "cap_name terms = canonical_action action"
    by (auto simp: capability_catalog_def contract_def case_prod_beta)
qed

lemma catalog_names:
  "list_all (\<lambda>entry. \<not> starts_with ''resource.lease.'' (fst entry) \<and> \<not> starts_with ''desktop.'' (fst entry))
     (common_capabilities @ platform_capabilities os)"
  by (cases os) (simp_all add: common_capabilities_def platform_capabilities_def)

lemma contract_of_names:
  assumes "contract_of os action = Some terms"
  shows "\<not> starts_with ''resource.lease.'' action" "\<not> starts_with ''desktop.'' action"
proof -
  from assms obtain e where "(canonical_action action, e) \<in> set (common_capabilities @ platform_capabilities os)"
    by (force simp: contract_of_def capability_catalog_def contract_def case_prod_beta dest: find_SomeD)
  with catalog_names [of os] have
    "\<not> starts_with ''resource.lease.'' (canonical_action action)" "\<not> starts_with ''desktop.'' (canonical_action action)"
    by (force simp: list_all_iff)+
  then show "\<not> starts_with ''resource.lease.'' action" "\<not> starts_with ''desktop.'' action"
    by (auto simp: canonical_action_def split: if_splits)
qed

text \<open>A request of a driver whose authority is older than the fence the executor knows.\<close>

definition stale_for :: "executor_runtime \<Rightarrow> json \<Rightarrow> bool" where
  "stale_for x params \<longleftrightarrow>
     (\<exists>as a k f. get_array params ''_authority'' = Some as \<and> a \<in> set as \<and> workspace_authority a k f \<and> f < table_fence_of x k)"

lemma enforce_stale:
  assumes "contract_of (xe_platform env) action = Some terms" "cap_authority terms = AuthorityWorkspaceDriver" "stale_for x params"
  shows "\<exists>err. enforce_authority env action params x = (Inl err, x)"
proof -
  from assms(3) obtain as a k f where a: "get_array params ''_authority'' = Some as" "a \<in> set as" "workspace_authority a k f"
    "f < table_fence_of x k" by (auto simp: stale_for_def)
  from a(4) obtain s r where s: "xr_fences x = Some s" "bt_get (ef_resources (fst_table s)) k = Some r" "f < fr_fence r"
    by (auto simp: table_fence_of_def fence_in_def split: option.splits)
  have "check_authorities (xe_clock env) (ef_resources (fst_table s)) as \<noteq> Inr ()"
    using check_authorities_fence [OF _ a(2,3) s(2)] s(3) by (meson not_le)
  then obtain er where er: "check_authorities (xe_clock env) (ef_resources (fst_table s)) as = Inl er"
    by (cases "check_authorities (xe_clock env) (ef_resources (fst_table s)) as") auto
  have "\<exists>err. enforce_fences env terms params x s = (Inl err, x)"
    by (auto simp: enforce_fences_def a(1) er and_then_def split: sum.splits)
  then show ?thesis using assms(1,2) s(1) by (simp add: enforce_authority_def)
qed

lemma sbind_refused:
  assumes "fst r = Inl e \<or> (\<exists>a. fst r = Inr a \<and> (\<exists>e. fst (f a (snd r)) = Inl e) \<and> Q (snd (f a (snd r))))" "Q (snd r)"
  shows "(\<exists>e. fst (sbind r f) = Inl e) \<and> Q (snd (sbind r f))"
  using assms by (cases r; cases "fst r") auto

lemma resource_dispatch_stale:
  assumes "contract_of (xe_platform (e 1)) action = Some terms" "cap_authority terms = AuthorityWorkspaceDriver" "stale_for x params"
  shows "(\<exists>er. fst (resource_dispatch e action params x) = Inl er) \<and> xr_files (snd (resource_dispatch e action params x)) = xr_files x"
proof -
  have "\<exists>err. enforce_authority (e 1) action params (x\<lparr>xr_resources := s\<rparr>) = (Inl err, x\<lparr>xr_resources := s\<rparr>)" for s
    by (rule enforce_stale [OF assms(1,2)]) (use assms(3) in \<open>simp add: stale_for_def table_fence_of_def\<close>)
  then obtain err where err: "\<And>s. enforce_authority (e 1) action params (x\<lparr>xr_resources := s\<rparr>) = (Inl (err s), x\<lparr>xr_resources := s\<rparr>)"
    by metis
  show ?thesis
    using contract_of_names(1) [OF assms(1)]
    by (cases "requested_resources (e 0) action params x")
      (auto simp: resource_dispatch_def Let_def case_prod_beta err [simplified] sbind_def split: sum.splits)
qed

lemma on_desktop_keeps [simp]:
  "xr_files (snd (on_desktop f x)) = xr_files x" "xr_fences (snd (on_desktop f x)) = xr_fences x"
  "xr_files (snd (reconcile env x)) = xr_files x" "xr_fences (snd (reconcile env x)) = xr_fences x"
  by (simp_all add: on_desktop_def reconcile_def case_prod_beta)

lemma stale_for_cong: "xr_fences y = xr_fences x \<Longrightarrow> stale_for y params = stale_for x params"
  by (simp add: stale_for_def table_fence_of_def)

lemma desktop_begin_params:
  "action \<noteq> ''computer-use.call'' \<Longrightarrow> fst (desktop_begin now io action params s) = Inr p \<Longrightarrow> p = params"
  by (auto simp: desktop_begin_def Let_def split: if_splits option.splits sum.splits prod.splits)

lemma on_desktop_params:
  "action \<noteq> ''computer-use.call'' \<Longrightarrow> on_desktop (desktop_begin now io action params) x = (Inr p, y) \<Longrightarrow> p = params"
  by (auto simp: on_desktop_def case_prod_beta dest: desktop_begin_params)

text \<open>An error that leaves the files as they were, and a guard that fails or leads on to one.\<close>

definition refused :: "files \<Rightarrow> (rpc_error + 'a) \<times> executor_runtime \<Rightarrow> bool" where
  "refused fs r \<longleftrightarrow> (\<exists>er. fst r = Inl er) \<and> xr_files (snd r) = fs"

lemma refused_sbind:
  assumes "xr_files (snd r) = fs" "\<And>a y. r = (Inr a, y) \<Longrightarrow> refused fs (f a y)"
  shows "refused fs (sbind r f)"
proof (cases r)
  case (Pair a y)
  with assms show ?thesis by (cases a) (auto simp: refused_def)
qed

lemma on_desktop_out: "on_desktop f x = (r, y) \<Longrightarrow> xr_files y = xr_files x \<and> xr_fences y = xr_fences x"
  by (auto simp: on_desktop_def case_prod_beta)

lemma reconcile_out: "reconcile env x = (r, y) \<Longrightarrow> xr_files y = xr_files x \<and> xr_fences y = xr_fences x"
  by (auto simp: reconcile_def dest: on_desktop_out)

lemma desktop_dispatch_stale:
  assumes c: "contract_of (xe_platform (e 5)) action = Some terms" "cap_authority terms = AuthorityWorkspaceDriver" "stale_for x params"
  shows "refused (xr_files x) (desktop_dispatch e action params x)"
proof -
  have r: "refused (xr_files x) (resource_dispatch (\<lambda>n. e (n + 4)) action params y)"
    if "xr_fences y = xr_fences x" "xr_files y = xr_files x" for y
    using resource_dispatch_stale [of "\<lambda>n. e (n + 4)" action terms y params] c stale_for_cong [OF that(1)] that by (simp add: refused_def)
  have ne: "action \<noteq> ''computer-use.call''"
    using contract_of_authority(1) [OF c(1)] c(2) by (auto simp: canonical_action_def capability_authority_of_def)
  have ending: "refused (xr_files x) (sbind (on_desktop f (snd d)) (\<lambda>_ x. sbind (reconcile (e 3) x) (\<lambda>_ x. (fst d, x))))"
    if "refused (xr_files x) d" for f :: "desktop_store \<Rightarrow> (rpc_error + unit) \<times> desktop_store" and d :: "(rpc_error + json) \<times> executor_runtime"
    using that by (intro refused_sbind) (auto simp: refused_def dest!: on_desktop_out reconcile_out)
  have main: "refused (xr_files x) (sbind (reconcile (e 0) x) (\<lambda>_ x.
      sbind (on_desktop (desktop_begin (xe_clock (e 1) 0) (xe_io (e 1) 0) action params) x) (\<lambda>params x.
        let (result, x) = resource_dispatch (\<lambda>n. e (n + 4)) action params x
        in sbind (on_desktop (desktop_end (xe_io (e 2) 0) (uncertain_result result)) x) (\<lambda>_ x.
           sbind (reconcile (e 3) x) (\<lambda>_ x. (result, x))))))"
  proof (intro refused_sbind)
    fix u y p z
    assume y: "reconcile (e 0) x = (Inr u, y)"
      and z: "on_desktop (desktop_begin (xe_clock (e 1) 0) (xe_io (e 1) 0) action params) y = (Inr p, z)"
    have "p = params" "xr_fences z = xr_fences x" "xr_files z = xr_files x"
      using on_desktop_params [OF ne z] on_desktop_out [OF z] reconcile_out [OF y] by auto
    with ending [OF r [of z]] show "refused (xr_files x) (let (result, x) = resource_dispatch (\<lambda>n. e (n + 4)) action p z
        in sbind (on_desktop (desktop_end (xe_io (e 2) 0) (uncertain_result result)) x) (\<lambda>_ x.
           sbind (reconcile (e 3) x) (\<lambda>_ x. (result, x))))"
      by (simp add: Let_def case_prod_beta)
  qed (auto dest: reconcile_out)
  show ?thesis
    using main r [of x] ne contract_of_names(2) [OF c(1)] by (simp add: desktop_dispatch_def)
qed

lemma handle_stale:
  assumes "contract_of (xe_platform (e 7)) (req_action q) = Some terms" "cap_authority terms = AuthorityWorkspaceDriver"
    "stale_for x (req_params q)" "executor_handle e q x = (r, x')"
  shows "\<not> resp_ok r \<and> xr_files x' = xr_files x"
proof -
  have keep: "xr_files (observe_response e q r y) = xr_files y" for r y
    by (simp add: observe_response_def Let_def split: option.splits)
  have "refused (xr_files x) (desktop_dispatch (\<lambda>n. e (n + 2)) (req_action q) (req_params q) (x\<lparr>xr_execution := t\<rparr>))" for t
    using desktop_dispatch_stale [of "\<lambda>n. e (n + 2)" "req_action q" terms "x\<lparr>xr_execution := t\<rparr>" "req_params q"] assms(1-3)
      stale_for_cong [of "x\<lparr>xr_execution := t\<rparr>" x] by simp
  then have "\<exists>er. fst (desktop_dispatch (\<lambda>n. e (n + 2)) (req_action q) (req_params q) (x\<lparr>xr_execution := t\<rparr>)) = Inl er"
    "xr_files (snd (desktop_dispatch (\<lambda>n. e (n + 2)) (req_action q) (req_params q) (x\<lparr>xr_execution := t\<rparr>))) = xr_files x" for t
    by (auto simp: refused_def)
  then show ?thesis using assms(4)
    by (auto simp: executor_handle_def Let_def case_prod_beta keep response_failure_def response_success_def split: sum.splits; metis Inr_Inl_False)
qed

text \<open>
  C4. A superseded driver cannot act on an executor again. Once the executor has accepted a fenced
  authority for a workspace, and whatever requests follow, with writes that fail and restarts from the
  file, a request for a driver's capability that carries a smaller fence of the same controller and
  workspace fails and changes no file.
\<close>

theorem stale_driver_refused:
  assumes kept: "fences_kept x"
    and accepted: "contract_of (xe_platform env) action = Some terms" "cap_authority terms = AuthorityWorkspaceDriver"
      "enforce_authority env action params x = (Inr (), x1)"
      "get_array params ''_authority'' = Some as" "a \<in> set as" "workspace_authority a k f" "\<forall>b \<in> set as. (\<exists>k f. workspace_authority b k f) \<longrightarrow> b = a"
    and run: "exec_step\<^sup>*\<^sup>* x1 x2"
    and late: "contract_of (xe_platform (e 7)) (req_action q) = Some terms'" "cap_authority terms' = AuthorityWorkspaceDriver"
      "get_array (req_params q) ''_authority'' = Some as'" "a' \<in> set as'" "workspace_authority a' k f'" "f' < f"
    and answer: "executor_handle e q x2 = (r, x3)"
  shows "\<not> resp_ok r \<and> xr_files x3 = xr_files x2"
proof -
  from kept obtain s where s: "xr_fences x = Some s" by (auto simp: fences_kept_def split: option.splits)
  from accepted(1-3) s obtain as0 table where t: "get_array params ''_authority'' = Some as0"
      "check_authorities (xe_clock env) (ef_resources (fst_table s)) as0 = Inr ()"
      "record_authorities (ef_resources (fst_table s)) as0 = Inr table"
      "xr_fences x1 = Some \<lparr>fst_table = (fst_table s)\<lparr>ef_resources := table\<rparr>, fst_disk = Some ((fst_table s)\<lparr>ef_resources := table\<rparr>)\<rparr>"
    by (auto simp: enforce_authority_def enforce_fences_def persist_fences_def ok_or_def case_prod_beta Let_def
        split: sum.splits if_splits option.splits)
  have "as0 = as" using t(1) accepted(4) by simp
  then obtain c where "bt_get table k = Some \<lparr>fr_controller_id = c, fr_fence = f\<rparr>"
    using record_authorities_kept [OF t(3) accepted(6)] accepted(5,7) by blast
  then have "f \<le> disk_fence_of x1 k" by (simp add: disk_fence_of_def t(4) fences_on_disk_def fence_in_def)
  moreover have "fences_kept x1" using t(4) by (simp add: fences_kept_def fences_on_disk_def)
  moreover note run_moves [OF run]
  ultimately have "f \<le> disk_fence_of x2 k" "fences_kept x2" by (blast intro: order_trans)+
  then have "f \<le> table_fence_of x2 k"
    by (auto simp: fences_kept_def disk_fence_of_def table_fence_of_def split: option.splits intro: order_trans)
  then have "stale_for x2 (req_params q)"
    using late(3-6) unfolding stale_for_def by (meson less_le_trans)
  from handle_stale [OF late(1,2) this answer] show ?thesis .
qed

subsection \<open>A concrete executor\<close>

definition demo_authority :: "u64 \<Rightarrow> json" where
  "demo_authority f = JObj [(''controllerId'', JStr ''c''), (''fence'', junum f), (''resource'', JStr ''workspace:w'')]"

definition demo_driver_params :: "u64 \<Rightarrow> json" where
  "demo_driver_params f = JObj [(''_authority'', JArr [demo_authority f]), (''_workspaceSessionId'', JStr ''w'')]"

lemma demo_workspace_authority: "workspace_authority (demo_authority f) ''c/workspace:w'' f"
  by (simp add: workspace_authority_def demo_authority_def required_str_def get_str_def get_u64_def bt_get_def fence_key_def junum_def)

lemma find_contract_of:
  assumes "(name, ef) \<in> set (common_capabilities @ platform_capabilities os)" "canonical_action action = name"
  shows "contract_of os action = Some (contract os name ef)"
proof -
  have d: "distinct (map cap_name (capability_catalog os))"
    using names_distinct [of os] by (simp add: capability_catalog_def contract_def case_prod_beta comp_def)
  have "contract os name ef \<in> set (capability_catalog os)" by (rule catalog_member [OF assms(1)])
  with d have "find (\<lambda>c. cap_name c = cap_name (contract os name ef)) (capability_catalog os) = Some (contract os name ef)"
    by (rule find_distinct_key) (rule refl)
  then show ?thesis using assms(2) by (simp add: contract_of_def contract_def case_prod_beta)
qed

lemma demo_contract: "contract_of Linux ''command.run'' = Some (contract Linux ''command.run'' EffectMutating)"
  by (rule find_contract_of) (simp_all add: common_capabilities_def canonical_action_def)

lemma demo_contract_driver:
  "cap_authority (contract Linux ''command.run'' EffectMutating) = AuthorityWorkspaceDriver"
  "cap_locks (contract Linux ''command.run'' EffectMutating) = []"
  by (simp_all add: contract_def case_prod_beta capability_authority_of_def terms_of_def families)

lemma demo_accepts:
  "\<exists>x1. enforce_authority demo_exec_env ''command.run'' (demo_driver_params 2) (demo_exec fs) = (Inr (), x1)"
  by (simp add: enforce_authority_def demo_exec_def demo_exec_env_def demo_contract demo_contract_driver enforce_fences_def
      demo_driver_params_def demo_authority_def get_array_def get_u64_def get_str_def bt_get_def required_str_def expected_resources_def
      check_authority_def executor_fences_default_def fence_key_def junum_def as_u64_jindex persist_fences_def Let_def)

theorem stale_driver_refused_witness:
  "\<exists>x1 r x3. executor_handle (\<lambda>_. demo_exec_env) (request_new ''1'' ''command.run'' (demo_driver_params 1)) x1 = (r, x3) \<and>
     \<not> resp_ok r \<and> xr_files x3 = xr_files x1"
proof -
  obtain x1 where x1: "enforce_authority demo_exec_env ''command.run'' (demo_driver_params 2) (demo_exec []) = (Inr (), x1)"
    using demo_accepts by blast
  obtain r x3 where h: "executor_handle (\<lambda>_. demo_exec_env) (request_new ''1'' ''command.run'' (demo_driver_params 1)) x1 = (r, x3)"
    by fastforce
  have p: "xe_platform demo_exec_env = Linux" by (simp add: demo_exec_env_def)
  have q: "req_action (request_new ''1'' ''command.run'' (demo_driver_params 1)) = ''command.run''"
    "req_params (request_new ''1'' ''command.run'' (demo_driver_params 1)) = demo_driver_params 1"
    by (simp_all add: request_new_def Let_def)
  have as: "get_array (demo_driver_params f) ''_authority'' = Some [demo_authority f]" for f
    by (simp add: demo_driver_params_def get_array_def bt_get_def)
  have "fences_kept (demo_exec [])"
    by (simp add: fences_kept_def demo_exec_def fences_on_disk_def executor_fences_default_def)
  from stale_driver_refused [OF this _ demo_contract_driver(1) x1 as _ demo_workspace_authority [of 2] _ rtranclp.rtrancl_refl _
      demo_contract_driver(1) _ _ demo_workspace_authority [of 1] _ h, of "[demo_authority 1]"]
  have "\<not> resp_ok r \<and> xr_files x3 = xr_files x1" by (simp add: p q as demo_contract)
  with h show ?thesis by blast
qed

end
