(* ===== verification/Relay_Properties.thy ===== *)
theory Relay_Properties
  imports Artifact_Transfer Executor_Properties
begin

section \<open>Properties of the artifact relay\<close>

text \<open>
  What committing a staged artifact does to the files, what the Controller's loops copy when they talk
  to the model's Executors, that the lease of the destination is released, and where the relay
  trusts its client.
\<close>

subsection \<open>Siblings\<close>

lemma backup_sibling:
  assumes "plain destination" "destination \<noteq> [''/'']"
  shows "\<exists>q name name'. destination = q @ [name] \<and> backup_of env destination = q @ [name'] \<and> q \<noteq> []"
proof -
  from assms obtain q name where q: "destination = q @ [name]" "q \<noteq> []"
    by (cases destination rule: rev_cases; cases "butlast destination") (auto simp: plain_def path_absolute_def)
  then have "is_normal name" using plain_butlast [of q name] assms(1) by (simp add: proper_name_def)
  with q show ?thesis by (simp add: backup_of_def with_extension_def path_file_name_def)
qed

lemma sibling_within:
  assumes "a = q @ [n]" "b = q @ [m]" "a \<noteq> b"
  shows "\<not> path_within (a @ r) b" "\<not> path_within (b @ r) a" "r \<noteq> [] \<Longrightarrow> a = s @ r \<Longrightarrow> path_within b s"
proof -
  show "\<not> path_within (a @ r) b" "\<not> path_within (b @ r) a" using assms by (auto simp: path_within_iff)
  show "path_within b s" if "r \<noteq> []" "a = s @ r"
    using that assms by (cases r rule: rev_cases) (auto simp: path_within_iff)
qed

lemma removed_lookup:
  assumes "remove \<in> {remove_any, remove_dir_all}" "remove sys fs p = Inr fs'" "bt_wf fs"
  shows "\<not> path_within q p \<Longrightarrow> node_at fs' q = node_at fs q" "node_at fs' p = None"
proof -
  have "fs' = filter (\<lambda>(k, n). \<not> path_within k p) fs \<or> fs' = bt_remove p fs"
    using assms(1,2)
    by (auto simp: remove_any_def remove_dir_all_def remove_file_def os_call_Inr split: if_splits)
  then show "\<not> path_within q p \<Longrightarrow> node_at fs' q = node_at fs q" "node_at fs' p = None"
    using assms(3) by (auto simp: bt_get_filter_key bt_get_remove_any path_within_iff)
qed

subsection \<open>Committing\<close>

text \<open>After moving one tree onto a free or replaceable name, it is there in full.\<close>

lemma moved_lookup:
  assumes "tree_ok fs" "rename sys fs a b = Inr fs'"
  shows "node_at fs' (b @ q) = node_at fs (a @ q)"
    "\<not> path_within k a \<Longrightarrow> \<not> path_within k b \<Longrightarrow> node_at fs' k = node_at fs k"
    "path_within k a \<Longrightarrow> \<not> path_within k b \<Longrightarrow> node_at fs' k = None" "\<not> path_within b a" "node_at fs a \<noteq> None"
    "a \<noteq> [''/''] \<Longrightarrow> tree_ok fs'"
proof -
  have r: "fs' = rename_to a b fs" "rename_allowed fs a b" using rename_lookup [OF assms(2)] by simp_all
  note look = node_at_rename [OF assms(1) r(2), folded r(1)]
  show "node_at fs' (b @ q) = node_at fs (a @ q)" using look [of "b @ q"] by (simp add: path_within_iff)
  show "\<not> path_within k a \<Longrightarrow> \<not> path_within k b \<Longrightarrow> node_at fs' k = node_at fs k"
    "path_within k a \<Longrightarrow> \<not> path_within k b \<Longrightarrow> node_at fs' k = None" using look [of k] by simp_all
  show "\<not> path_within b a" "node_at fs a \<noteq> None" using r(2) by (auto simp: rename_allowed_def split: option.splits)
  show "a \<noteq> [''/''] \<Longrightarrow> tree_ok fs'" using rename_tree [OF assms(1) r(2)] r(1) by simp
qed

text \<open>The tree at a path of one state is the tree at a path of another.\<close>

definition same_tree :: "files \<Rightarrow> path \<Rightarrow> files \<Rightarrow> path \<Rightarrow> bool" where
  "same_tree fs' p fs q \<longleftrightarrow> (\<forall>r. node_at fs' (p @ r) = node_at fs (q @ r))"

lemma same_tree_refl [simp]: "same_tree fs p fs p"
  by (simp add: same_tree_def)

lemma staged_lookup:
  assumes "tree_ok fs" "rename sys fs destination backup = Inr fs1" "rename sys fs1 staging destination = Inr fs2"
    and sib: "destination = q @ [n]" "backup = q @ [m]" "backup \<noteq> destination"
    and "node_at fs backup = None" "node_at fs staging \<noteq> None" "destination \<noteq> [''/'']"
  shows "same_tree fs2 destination fs staging" "same_tree fs2 backup fs destination" "tree_ok fs2 \<or> staging = [''/'']"
    "\<not> path_within k destination \<Longrightarrow> \<not> path_within k staging \<Longrightarrow> \<not> path_within k backup \<Longrightarrow> node_at fs2 k = node_at fs k"
    "node_at fs2 staging = None"
proof -
  note one = moved_lookup [OF assms(1,2)]
  have t1: "tree_ok fs1" using one(6) assms(9) by simp
  note two = moved_lookup [OF t1 assms(3)]
  note apart = sibling_within [OF sib(1,2) sib(3) [symmetric]]
  have in_backup: "\<not> path_within (staging @ r) backup" for r
  proof
    assume "path_within (staging @ r) backup"
    then obtain t where t: "staging @ r = backup @ t" by (auto simp: path_within_iff)
    then consider u where "staging = backup @ u" | u where "backup = staging @ u" "u \<noteq> []"
      unfolding append_eq_append_conv2 by (metis self_append_conv)
    then show False
    proof cases
      case 1
      then have "node_at fs backup \<noteq> None" using assms(8) tree_above [OF assms(1), of backup u] sib(2) by (cases "u = []") auto
      then show False using assms(7) by simp
    next
      case 2
      then have "path_within destination staging" using sibling_within(3) [OF sib(2,1,3)] by blast
      then show False using two(4) by simp
    qed
  qed
  have in_dest: "\<not> path_within (staging @ r) destination" for r
  proof
    assume "path_within (staging @ r) destination"
    then obtain t where t: "staging @ r = destination @ t" by (auto simp: path_within_iff)
    then consider u where "staging = destination @ u" | u where "destination = staging @ u"
      by (auto simp: append_eq_append_conv2)
    then show False
    proof cases
      case 1
      then have "path_within staging destination" by (auto simp: path_within_iff)
      then have "node_at fs1 staging = None" using one(3) [of staging] in_backup [of "[]"] by simp
      then show False using two(5) by simp
    next
      case 2
      then show False using two(4) by (auto simp: path_within_iff)
    qed
  qed
  show "same_tree fs2 destination fs staging"
    unfolding same_tree_def using two(1) one(2) [OF in_dest in_backup] by simp
  have out: "\<not> path_within (backup @ r) staging" for r
  proof
    assume "path_within (backup @ r) staging"
    then obtain t where "backup @ r = staging @ t" by (auto simp: path_within_iff)
    then show False using in_backup [of t] by (auto simp: path_within_iff) metis
  qed
  show "same_tree fs2 backup fs destination"
    unfolding same_tree_def using two(2) [OF out] one(1) apart(2) by simp
  show "tree_ok fs2 \<or> staging = [''/'']" using two(6) by blast
  show "node_at fs2 k = node_at fs k"
    if "\<not> path_within k destination" "\<not> path_within k staging" "\<not> path_within k backup"
    using two(2) one(2) that by simp
  show "node_at fs2 staging = None" using two(3) [of staging] in_dest [of "[]"] by (simp add: path_within_iff)
qed

text \<open>The ways through a commit: up to the second rename, and after it.\<close>

lemma swap_in_cases:
  assumes run: "swap_in remove env destination staging x = (r, x')"
    and fs: "fs = xr_files x" "fs' = xr_files x'" "sys = xe_os env" "backup = backup_of env destination"
  obtains (same) "r \<noteq> Inr ()" "fs' = fs"
  | (undone) fs1 where "r \<noteq> Inr ()" "rename sys fs destination backup = Inr fs1" "fs' = fs1 \<or> rename sys fs1 backup destination = Inr fs'"
  | (stray) "r \<noteq> Inr ()" "rename sys fs backup destination = Inr fs'"
  | (moved) fs1 fs2 where
      "os_exists sys fs destination \<and> rename sys fs destination backup = Inr fs1 \<or> \<not> os_exists sys fs destination \<and> fs1 = fs"
      "rename sys fs1 staging destination = Inr fs2"
      "\<not> os_exists sys fs2 backup \<and> fs' = fs2 \<or> os_exists sys fs2 backup \<and> remove sys fs2 backup = Inr fs' \<or> r \<noteq> Inr () \<and> fs' = fs2"
proof (cases "os_exists sys fs destination")
  case True
  show thesis
  proof (cases "rename sys fs destination backup")
    case (Inl e)
    then show thesis using run True same by (auto simp: swap_in_def Let_def fs fs_step_def)
  next
    case (Inr fs1)
    note one = this
    show thesis
    proof (cases "rename sys fs1 staging destination")
      case (Inl e)
      then show thesis using run True one undone
        by (auto simp: swap_in_def Let_def fs fs_step_def put_files_def split: sum.splits if_splits)
    next
      case (Inr fs2)
      then show thesis using run True one moved
        by (auto simp: swap_in_def Let_def fs fs_step_def put_files_def split: sum.splits if_splits)
    qed
  qed
next
  case False
  show thesis
  proof (cases "rename sys fs staging destination")
    case (Inl e)
    then show thesis using run False same stray
      by (auto simp: swap_in_def Let_def fs fs_step_def put_files_def split: sum.splits if_splits)
  next
    case (Inr fs2)
    then show thesis using run False moved
      by (auto simp: swap_in_def Let_def fs fs_step_def put_files_def split: sum.splits if_splits)
  qed
qed

text \<open>
  C9. Committing a relayed artifact is atomic at the destination. Whatever fails, the destination then has
  the old tree in full, or the staged tree in full, or nothing, the old tree standing under the
  name of the backup, and then an error is answered. On success the destination has the staged tree,
  the staging path and the backup are gone, and no other path has changed.
\<close>

theorem commit_atomic:
  assumes ok: "tree_ok (xr_files x)" "resolves (xe_os env)" "plain destination" "destination \<noteq> [''/'']"
      "\<forall>t. node_at (xr_files x) destination \<noteq> Some (Link t)" "node_at (xr_files x) staging \<noteq> None"
    and backup: "plain (backup_of env destination)" "backup_of env destination \<noteq> destination"
      "node_at (xr_files x) (backup_of env destination) = None"
    and run: "commit_relay_staging env destination staging x = (r, x')"
  shows "(same_tree (xr_files x') destination (xr_files x) destination \<or> same_tree (xr_files x') destination (xr_files x) staging \<or>
      (r \<noteq> Inr () \<and> node_at (xr_files x') destination = None \<and>
         same_tree (xr_files x') (backup_of env destination) (xr_files x) destination)) \<and>
    (r = Inr () \<longrightarrow> same_tree (xr_files x') destination (xr_files x) staging \<and> node_at (xr_files x') staging = None \<and>
      node_at (xr_files x') (backup_of env destination) = None \<and>
      (\<forall>k. \<not> path_within k destination \<longrightarrow> \<not> path_within k staging \<longrightarrow> \<not> path_within k (backup_of env destination) \<longrightarrow>
        node_at (xr_files x') k = node_at (xr_files x) k))"
proof -
  define fs where fs: "fs = xr_files x"
  define fs' where fs': "fs' = xr_files x'"
  define b where b: "b = backup_of env destination"
  let ?sys = "xe_os env"
  from backup_sibling [OF ok(3,4)] obtain q n m where sib: "destination = q @ [n]" "b = q @ [m]" unfolding b by blast
  note apart = sibling_within [OF sib backup(2) [folded b, symmetric]]
  have nb: "node_at fs b = None" "b \<noteq> destination" "node_at fs staging \<noteq> None" "tree_ok fs" using backup ok(1,6) by (simp_all add: fs b)
  have there: "node_at fs destination \<noteq> None" if "rename ?sys fs destination b = Inr fs1" for fs1 using moved_lookup(5) [OF nb(4) that] .
  have wf: "bt_wf f" if "tree_ok f" for f using that by (simp add: tree_ok_def)
  have ns: "\<not> path_within staging b"
  proof
    assume "path_within staging b"
    then obtain u where u: "staging = b @ u" by (auto simp: path_within_iff)
    then show False using nb(1,3) tree_above [OF nb(4), of b u] sib(2) by (cases "u = []") auto
  qed
  have left: "same_tree fs2 destination fs staging \<and> node_at fs2 staging = None \<and> bt_wf fs2 \<and> (node_at fs2 b = None \<or> os_exists ?sys fs2 b) \<and>
      (\<forall>k. \<not> path_within k destination \<longrightarrow> \<not> path_within k staging \<longrightarrow> \<not> path_within k b \<longrightarrow> node_at fs2 k = node_at fs k)"
    if first: "os_exists ?sys fs destination \<and> rename ?sys fs destination b = Inr fs1 \<or> \<not> os_exists ?sys fs destination \<and> fs1 = fs"
      and second: "rename ?sys fs1 staging destination = Inr fs2" for fs1 fs2
  proof (cases "os_exists ?sys fs destination")
    case True
    with first have one: "rename ?sys fs destination b = Inr fs1" by simp
    note look = staged_lookup [OF nb(4) one second sib nb(2,1,3) ok(4)]
    have "\<not> path_within destination staging" using moved_lookup(4) [OF moved_lookup(6) [OF nb(4) one ok(4)] second] .
    then have t: "tree_ok fs2" using look(3) ok(3) by (cases destination) (auto simp: path_within_iff plain_def path_absolute_def)
    from there [OF one] obtain n where n: "node_at fs destination = Some n" by blast
    have "node_at fs2 b = Some n" using look(2) n by (auto simp: same_tree_def dest: spec [of _ "[]"])
    then have "os_exists ?sys fs2 b" using resolves_self(2) [OF ok(2) t backup(1) [folded b]] n ok(5) by (auto simp: fs)
    then show ?thesis using look(1,4,5) wf [OF t] by blast
  next
    case False
    with first have second: "rename ?sys fs staging destination = Inr fs2" using second by simp
    note look = moved_lookup [OF nb(4) second]
    have "staging \<noteq> [''/'']" using look(4) ok(3) by (cases destination) (auto simp: path_within_iff plain_def path_absolute_def)
    then have t: "tree_ok fs2" by (rule look(6))
    have "\<not> path_within staging destination"
    proof
      assume "path_within staging destination"
      then obtain u where u: "staging = destination @ u" by (auto simp: path_within_iff)
      moreover have "u \<noteq> []" using u look(4) by (auto simp: path_within_iff)
      ultimately have "node_at fs destination = Some Dir" using tree_above [OF nb(4), of destination u] nb(3) sib(1) by simp
      then show False using resolves_self(2) [OF ok(2) nb(4) ok(3)] False by simp
    qed
    moreover have "\<not> path_within b staging"
    proof
      assume "path_within b staging"
      then obtain u where u: "b = staging @ u" by (auto simp: path_within_iff)
      show False
      proof (cases "u = []")
        case True
        then show False using u nb(1,3) by simp
      next
        case False
        then show False using sibling_within(3) [OF sib(2,1) nb(2) False u] look(4) by simp
      qed
    qed
    ultimately show ?thesis
      using look(1,2) look(3) [of staging] look(2) [of b] apart(2) [of "[]"] nb(1) wf [OF t]
      by (simp add: same_tree_def path_within_iff)
  qed
  have "(same_tree fs' destination fs destination \<or> same_tree fs' destination fs staging \<or>
      (r \<noteq> Inr () \<and> node_at fs' destination = None \<and> same_tree fs' b fs destination)) \<and>
    (r = Inr () \<longrightarrow> same_tree fs' destination fs staging \<and> node_at fs' staging = None \<and> node_at fs' b = None \<and>
      (\<forall>k. \<not> path_within k destination \<longrightarrow> \<not> path_within k staging \<longrightarrow> \<not> path_within k b \<longrightarrow> node_at fs' k = node_at fs k))" (is ?goal)
    using run [unfolded commit_relay_staging_def] fs fs' refl [of ?sys] b
  proof (cases rule: swap_in_cases)
    case same
    then show ?goal by simp
  next
    case (undone fs1)
    note one = moved_lookup [OF nb(4) undone(2)]
    have "same_tree fs1 b fs destination" "node_at fs1 destination = None"
      using one(1) one(3) [of destination] apart(1) [of "[]"] by (simp_all add: same_tree_def path_within_iff)
    moreover have "same_tree fs' destination fs destination" if "rename ?sys fs1 b destination = Inr fs'"
      using moved_lookup(1) [OF one(6) [OF ok(4)] that] one(1) by (simp add: same_tree_def)
    ultimately show ?goal using undone by auto
  next
    case stray
    then show ?goal using moved_lookup(5) [OF nb(4) stray(2)] nb(1) by simp
  next
    case (moved fs1 fs2)
    note two = left [OF moved(1,2)]
    have gone: "same_tree fs' destination fs staging \<and> node_at fs' staging = None \<and> node_at fs' b = None \<and>
        (\<forall>k. \<not> path_within k destination \<longrightarrow> \<not> path_within k staging \<longrightarrow> \<not> path_within k b \<longrightarrow> node_at fs' k = node_at fs k)"
      if "remove_any ?sys fs2 b = Inr fs'"
      using removed_lookup [of remove_any, OF _ that] two apart(1) ns by (auto simp: same_tree_def)
    from moved(3) two gone show ?goal by auto
  qed
  then show ?thesis by (simp add: fs fs' b)
qed

lemma demo_backup: "backup_of demo_exec_env [''/'', ''w'', ''a.json''] = [''/'', ''w'', ''a.workbench-backup-id'']"
  by (simp add: backup_of_def with_extension_def path_file_name_def is_normal_def split_extension_def)

theorem commit_atomic_witness:
  "\<exists>x'. commit_relay_staging demo_exec_env [''/'', ''w'', ''a.json''] [''/'', ''w'', ''a.txt''] (demo_exec demo_files) = (Inr (), x') \<and>
     node_at (xr_files x') [''/'', ''w'', ''a.json''] = Some (File ''2'') \<and> node_at (xr_files x') [''/'', ''w'', ''a.txt''] = None"
proof -
  let ?d = "[''/'', ''w'', ''a.json'']" and ?s = "[''/'', ''w'', ''a.txt'']"
  have "\<exists>x'. commit_relay_staging demo_exec_env ?d ?s (demo_exec demo_files) = (Inr (), x')"
    by (simp add: commit_relay_staging_def swap_in_def demo_backup Let_def demo_defs fs_step_def rename_def os_call_def ok_or_def bt_get_def
        put_files_def rename_allowed_def rename_to_def path_within_def path_parent_def plain_def path_absolute_def proper_name_def
        is_normal_def remove_any_def remove_file_def)
  then obtain x' where run: "commit_relay_staging demo_exec_env ?d ?s (demo_exec demo_files) = (Inr (), x')" by blast
  have h: "tree_ok (xr_files (demo_exec demo_files))" "resolves (xe_os demo_exec_env)" "plain ?d" "?d \<noteq> [''/'']"
    "\<forall>t. node_at (xr_files (demo_exec demo_files)) ?d \<noteq> Some (Link t)" "node_at (xr_files (demo_exec demo_files)) ?s \<noteq> None"
    "plain (backup_of demo_exec_env ?d)" "backup_of demo_exec_env ?d \<noteq> ?d"
    "node_at (xr_files (demo_exec demo_files)) (backup_of demo_exec_env ?d) = None"
    unfolding demo_backup using demo_tree demo_resolves
    by (simp_all add: demo_exec_def demo_files_def bt_get_def plain_def path_absolute_def proper_name_def is_normal_def)
  from commit_atomic [OF h run] have "same_tree (xr_files x') ?d demo_files ?s" "node_at (xr_files x') ?s = None"
    by (simp_all add: demo_exec_files)
  with run show ?thesis using demo_node by (auto simp: same_tree_def dest: spec [of _ "[]"])
qed

subsection \<open>Where the relay goes wrong\<close>

text \<open>
  A relay file by file cannot replace a file: the commit removes the backup as a directory, so it always
  answers an error when the destination is a file, also when the new tree already stands there.
\<close>

theorem commit_over_file_fails:
  assumes ok: "tree_ok (xr_files x)" "resolves (xe_os env)" "plain destination" "destination \<noteq> [''/'']"
      "node_at (xr_files x) destination = Some (File c)"
    and backup: "plain (backup_of env destination)" "backup_of env destination \<noteq> destination"
      "node_at (xr_files x) (backup_of env destination) = None"
    and run: "write_path env x params ''destination'' False = Inr destination" "relay_commit env params x = (r, x')"
  shows "\<exists>e. r = Inl e"
proof (rule ccontr)
  assume "\<nexists>e. r = Inl e"
  then obtain v where "r = Inr v" by (cases r) auto
  with run obtain staging x1 where w: "write_path env x params ''staging'' True = Inr staging"
      "swap_in remove_dir_all env destination staging x = (Inr (), x1)"
    by (auto simp: relay_commit_def sbind_Inr case_prod_beta split: if_splits)
  from w(1) obtain raw where raw: "resolve_path (xe_os env) (xr_files x) raw True = Inr staging" by (rule checked_path_cases)
  have st: "node_at (xr_files x) staging \<noteq> None" using resolve_path_plain(2) [OF ok(2) raw] by simp
  from backup_sibling [OF ok(3,4)] obtain q n m where sib: "destination = q @ [n]" "backup_of env destination = q @ [m]" by blast
  from w(2) refl refl refl refl show False
  proof (cases rule: swap_in_cases)
    case (moved fs1 fs2)
    have "os_exists (xe_os env) (xr_files x) destination" using resolves_self(2) [OF ok(2,1,3,5)] by simp
    with moved(1) have one: "rename (xe_os env) (xr_files x) destination (backup_of env destination) = Inr fs1" by simp
    note look = staged_lookup [OF ok(1) one moved(2) sib backup(2,3) st ok(4)]
    have b: "node_at fs2 (backup_of env destination) = Some (File c)"
      using look(2) ok(5) by (auto simp: same_tree_def dest: spec [of _ "[]"])
    have "\<not> path_within destination staging" using moved_lookup(4) [OF moved_lookup(6) [OF ok(1) one ok(4)] moved(2)] .
    then have t: "tree_ok fs2" using look(3) ok(3) by (cases destination) (auto simp: path_within_iff plain_def path_absolute_def)
    have "os_exists (xe_os env) fs2 (backup_of env destination)" using resolves_self(2) [OF ok(2) t backup(1) b] by simp
    with moved(3) b show False by (auto simp: remove_dir_all_def os_call_Inr)
  qed simp_all
qed

lemma make_dirs_succeeds:
  "(\<And>q. between base names q \<Longrightarrow> node_at fs q \<in> {None, Some Dir}) \<Longrightarrow> \<exists>fs'. make_dirs fs base names = Some fs'"
proof (induction names arbitrary: fs base)
  case (Cons name names)
  then have "node_at fs (base @ [name]) \<in> {None, Some Dir}" "\<And>q. between (base @ [name]) names q \<Longrightarrow> node_at fs q \<in> {None, Some Dir}"
    by (auto simp: between_Cons)
  then show ?case
    using Cons.IH [of "base @ [name]" fs] Cons.IH [of "base @ [name]" "bt_insert (base @ [name]) Dir fs"]
    by (auto simp: bt_get_insert_any)
qed simp

lemma relay_prepare_contract:
  "contract_of os ''artifact.relay.prepare'' = Some (contract os ''artifact.relay.prepare'' EffectMutating)"
  by (rule find_contract_of) (simp_all add: common_capabilities_def canonical_action_def)

lemma prepare_lease:
  "cap_authority (contract os ''artifact.relay.prepare'' EffectMutating) = AuthorityResourceLease ''artifact-relay:${destination}''"
  by (simp add: contract_def case_prod_beta capability_authority_of_def)

text \<open>
  C39. The staging path of a preparation is the client's choice and is not tied to the destination that its
  lease is for: any directory below the roots can be named, and everything in it is removed. No
  authority is asked for.
\<close>

theorem prepare_empties_any_directory:
  assumes "tree_ok (xr_files x)" "resolves (xe_os env)"
    and params: "write_path env x params ''destination'' False = Inr destination" "write_path env x params ''staging'' False = Inr p"
      "get_array params ''entries'' = Some []"
    and dir: "node_at (xr_files x) p = Some Dir" "p \<noteq> [''/'']" "length p \<le> os_longest (xe_os env)"
    and calm: "\<And>call q. os_fault (xe_os env) call q = None"
  shows "enforce_authority env ''artifact.relay.prepare'' params x = (Inr (), x) \<and>
    (\<exists>v x'. relay_prepare env params x = (Inr v, x') \<and> node_at (xr_files x') p = Some Dir \<and>
      (\<forall>r. r \<noteq> [] \<longrightarrow> node_at (xr_files x') (p @ r) = None))"
proof -
  from params(2) obtain raw where raw: "resolve_path (xe_os env) (xr_files x) raw False = Inr p" by (rule checked_path_cases)
  note p = resolve_path_plain(1) [OF assms(2) raw]
  let ?fs = "filter (\<lambda>(k, n). \<not> path_within k p) (xr_files x)"
  have gone: "node_at ?fs q = (if path_within q p then None else node_at (xr_files x) q)" for q by (simp add: bt_get_filter_key)
  have removed: "remove_dir_all (xe_os env) (xr_files x) p = Inr ?fs" using dir(1) by (simp add: remove_dir_all_def os_call_def calm ok_or_def)
  from tree_parent [OF assms(1) _ dir(2)] dir(1) obtain q name where q: "p = q @ [name]" "node_at (xr_files x) q = Some Dir" "q \<noteq> []" by auto
  have pd: "p = ''/'' # tl p" "tl p \<noteq> []" using p dir(2) by (cases p; simp add: plain_def path_absolute_def)+
  have "node_at ?fs k \<in> {None, Some Dir}" if "between [''/''] (tl p) k" for k
  proof -
    from that pd(1) obtain post where k: "p = k @ post" "k \<noteq> []" by (auto simp: between_def)
    then show ?thesis using tree_above [OF assms(1), of k post] dir(1) gone [of k] by (cases "post = []") auto
  qed
  from make_dirs_succeeds [OF this] obtain fs' where fs': "make_dirs ?fs [''/''] (tl p) = Some fs'" by blast
  have made: "create_dir_all (xe_os env) ?fs p = Inr fs'"
    using fs' dir(3) pd by (cases p) (simp_all add: create_dir_all_def os_call_def calm ok_or_def)
  have prepared: "relay_prepare env params x =
      (Inr (JObj [(''destination'', jpath destination), (''staging'', jpath p)]), put_files fs' (put_files ?fs x))"
    using params resolves_self(2) [OF assms(2,1) p dir(1)]
    by (simp add: relay_prepare_def fresh_staging_def removed fs_step_def put_files_def made)
  have "between [''/''] (tl p) p" unfolding between_def using pd by (intro exI [of _ "tl p"] exI [of _ "[]"]) simp
  then have "node_at fs' p = Some Dir" using node_at_make_dirs [OF fs', of p] by blast
  moreover have "node_at fs' (p @ r) = None" if "r \<noteq> []" for r
  proof -
    have "\<not> between [''/''] (tl p) (p @ r)"
    proof
      assume "between [''/''] (tl p) (p @ r)"
      then obtain pre post where "tl p = pre @ post" "p @ r = ''/'' # pre" by (auto simp: between_def)
      then have "length (p @ r) \<le> length p" using pd(1) by (metis Suc_le_mono append_Cons length_Cons length_append le_add1)
      then show False using that by simp
    qed
    then show ?thesis using node_at_make_dirs [OF fs', of "p @ r"] gone [of "p @ r"] by (simp add: path_within_iff)
  qed
  moreover have "enforce_authority env ''artifact.relay.prepare'' params x = (Inr (), x)"
    by (simp add: enforce_authority_def relay_prepare_contract prepare_lease canonical_action_def split: option.splits)
  ultimately show ?thesis using prepared by (simp add: put_files_def)
qed

text \<open>
  The relay checks the directory it reads from and then follows links below it: what lies outside the
  roots is read through a link, where filesystem.read on the same path refuses without a grant.
\<close>

theorem relay_read_leaves_roots:
  assumes params: "write_path env x params ''path'' True = Inr source" "required_str params ''relativePath'' = Inr text"
      "safe_relative text = Inr relative" "get_u64 params ''offset'' = None" "get_u64 params ''limit'' = None"
    and link: "os_canonicalize (xe_os env) (xr_files x) (source @ relative) = Inr q" "\<not> under_roots (xr_allowed_roots x) q"
      "node_at (xr_files x) q = Some (File c)" "length c \<le> 1024 * 1024" "os_fault (xe_os env) ''read'' q = None"
    and direct: "get_str params' ''path'' = Some raw" "components raw = source @ relative" "get_str params' ''_readGrantId'' = None"
  shows "(\<exists>v. relay_read env params x = Inr v \<and> jindex v ''data'' = JStr (xe_base64_encode env c)) \<and>
    (\<exists>e. fs_read env params' x = Inl e \<and> err_code e = ''READ_GRANT_REQUIRED'')"
proof
  have m: "take (unat (min (1048576 :: u64) 4194304)) c = c" using link(4) by (simp add: min_def)
  show "\<exists>v. relay_read env params x = Inr v \<and> jindex v ''data'' = JStr (xe_base64_encode env c)"
    using params link
    by (simp add: relay_read_def read_block_def open_file_def read_file_def os_call_def ok_or_def block_at_def Let_def jindex_def bt_get_def m)
  have r: "resolve_path (xe_os env) (xr_files x) raw True = Inr q" using link(1) direct(2) by (simp add: resolve_path_def)
  have "\<exists>m. validate_read_grant x params' q ''filesystem.read'' = Inl (rpc_err ''READ_GRANT_REQUIRED'' m)"
    using direct(3)
    by (auto simp: validate_read_grant_def ok_or_def split: option.splits)
  then show "\<exists>e. fs_read env params' x = Inl e \<and> err_code e = ''READ_GRANT_REQUIRED''"
    using direct(1) r link(2) by (auto simp: fs_read_def checked_path_def)
qed

subsection \<open>Concrete cases\<close>

definition demo_staged :: files where
  "demo_staged = [([''/''], Dir), ([''/'', ''w''], Dir), ([''/'', ''w'', ''a.json''], File ''1''), ([''/'', ''w'', ''s''], Dir)]"

definition demo_commit :: json where
  "demo_commit = JObj [(''destination'', JStr ''/w/a.json''), (''expectedDigest'', JStr ''d''), (''staging'', JStr ''/w/s'')]"

lemma demo_staged_tree: "tree_ok demo_staged"
proof -
  have "bt_wf demo_staged" by (simp add: demo_staged_def bt_wf_def)
  moreover have "p = [''/''] \<or> (\<exists>q. path_parent p = Some q \<and> node_at demo_staged q = Some Dir)" if "node_at demo_staged p \<noteq> None" for p
    using that by (auto simp: demo_staged_def bt_get_def path_parent_def split: if_splits)
  ultimately show ?thesis by (auto simp: tree_ok_def demo_staged_def bt_get_def)
qed

lemma demo_root_os: "xe_os demo_root_env = demo_os" "xe_sha demo_root_env = (\<lambda>_. ''d'')" "xe_ids demo_root_env n = ''id''"
  by (simp_all add: demo_root_env_def)

lemma demo_commit_paths:
  "write_path demo_root_env (demo_exec demo_staged) demo_commit ''destination'' False = Inr [''/'', ''w'', ''a.json'']"
  "write_path demo_root_env (demo_exec demo_staged) demo_commit ''staging'' True = Inr [''/'', ''w'', ''s'']"
  "required_str demo_commit ''expectedDigest'' = Inr ''d''"
  by (simp_all add: checked_path_def resolve_path_def components_def demo_root_os demo_os_def demo_exec_def demo_staged_def demo_commit_def
      plain_def path_absolute_def proper_name_def is_normal_def bt_get_def under_roots_def path_within_def get_str_def required_str_def)

lemma demo_commit_backup: "backup_of demo_root_env [''/'', ''w'', ''a.json''] = [''/'', ''w'', ''a.workbench-backup-id'']"
  by (simp add: backup_of_def with_extension_def path_file_name_def is_normal_def split_extension_def demo_root_os)

lemma demo_commit_digest: "digest_tree demo_root_env demo_staged [''/'', ''w'', ''s''] = Inr (''d'', 0, 0)"
proof -
  have "collect_tree demo_os demo_staged [''/'', ''w'', ''s''] [] = Inr []"
    by (subst collect_tree.simps) (simp add: read_dir_def os_call_def ok_or_def demo_os_def bt_get_def children_def demo_staged_def)
  then show ?thesis by (simp add: digest_tree_def demo_root_os Let_def)
qed

theorem commit_over_file_fails_witness:
  "\<exists>e x'. relay_commit demo_root_env demo_commit (demo_exec demo_staged) = (Inl e, x') \<and>
     node_at (xr_files x') [''/'', ''w'', ''a.json''] = Some Dir"
proof -
  obtain r x' where run: "relay_commit demo_root_env demo_commit (demo_exec demo_staged) = (r, x')" by fastforce
  have h: "tree_ok (xr_files (demo_exec demo_staged))" "resolves (xe_os demo_root_env)" "plain [''/'', ''w'', ''a.json'']"
    "[''/'', ''w'', ''a.json''] \<noteq> [''/'']" "node_at (xr_files (demo_exec demo_staged)) [''/'', ''w'', ''a.json''] = Some (File ''1'')"
    "plain (backup_of demo_root_env [''/'', ''w'', ''a.json''])" "backup_of demo_root_env [''/'', ''w'', ''a.json''] \<noteq> [''/'', ''w'', ''a.json'']"
    "node_at (xr_files (demo_exec demo_staged)) (backup_of demo_root_env [''/'', ''w'', ''a.json'']) = None"
    unfolding demo_commit_backup using demo_staged_tree demo_resolves
    by (simp_all add: demo_root_os demo_exec_def demo_staged_def bt_get_def plain_def path_absolute_def proper_name_def is_normal_def)
  have "node_at (xr_files x') [''/'', ''w'', ''a.json''] = Some Dir"
    using run [symmetric]
    by (simp add: relay_commit_def demo_commit_paths demo_exec_files demo_commit_digest)
      (simp add: swap_in_def demo_commit_backup Let_def demo_root_os demo_os_def demo_exec_def demo_staged_def fs_step_def rename_def os_call_def
        ok_or_def bt_get_def put_files_def rename_allowed_def rename_to_def path_within_def path_parent_def plain_def path_absolute_def
        proper_name_def is_normal_def remove_dir_all_def)
  with commit_over_file_fails [OF h demo_commit_paths(1) run] run show ?thesis by auto
qed

definition demo_prepare :: json where
  "demo_prepare = JObj [(''destination'', JStr ''/w/a.txt''), (''entries'', JArr []), (''staging'', JStr ''/w'')]"

theorem prepare_empties_any_directory_witness:
  "\<exists>v x'. relay_prepare demo_exec_env demo_prepare (demo_exec demo_files) = (Inr v, x') \<and>
     node_at demo_files [''/'', ''w'', ''a.txt''] \<noteq> None \<and> node_at (xr_files x') [''/'', ''w'', ''a.txt''] = None"
proof -
  have h: "tree_ok (xr_files (demo_exec demo_files))" "resolves (xe_os demo_exec_env)"
    "write_path demo_exec_env (demo_exec demo_files) demo_prepare ''destination'' False = Inr [''/'', ''w'', ''a.txt'']"
    "write_path demo_exec_env (demo_exec demo_files) demo_prepare ''staging'' False = Inr [''/'', ''w'']"
    "get_array demo_prepare ''entries'' = Some []" "node_at (xr_files (demo_exec demo_files)) [''/'', ''w''] = Some Dir"
    "[''/'', ''w''] \<noteq> [''/'']" "length [''/'', ''w''] \<le> os_longest (xe_os demo_exec_env)"
    "os_fault (xe_os demo_exec_env) call q = None" for call q
    using demo_tree demo_resolves
    by (simp_all add: checked_path_def resolve_path_def components_def demo_os_def demo_exec_def demo_files_def demo_prepare_def
        plain_def path_absolute_def proper_name_def is_normal_def bt_get_def under_roots_def path_within_def get_str_def get_array_def)
  from prepare_empties_any_directory [OF h] demo_node show ?thesis by force
qed

text \<open>A system with one link, below the root, to a directory outside it.\<close>

definition link_os :: os where
  "link_os = demo_os\<lparr>os_canonicalize := (\<lambda>fs p.
       if p = [''/'', ''w'', ''l'', ''f''] \<and> node_at fs [''/'', ''w'', ''l''] = Some (Link ''/s'') \<and> not_link (node_at fs [''/'', ''s'', ''f''])
       then Inr [''/'', ''s'', ''f''] else os_canonicalize demo_os fs p),
     os_exists := (\<lambda>fs p.
       p = [''/'', ''w'', ''l'', ''f''] \<and> node_at fs [''/'', ''w'', ''l''] = Some (Link ''/s'') \<and> not_link (node_at fs [''/'', ''s'', ''f''])
       \<or> os_exists demo_os fs p)\<rparr>"

definition link_files :: files where
  "link_files = [([''/''], Dir), ([''/'', ''s''], Dir), ([''/'', ''s'', ''f''], File ''9''), ([''/'', ''w''], Dir), ([''/'', ''w'', ''l''], Link ''/s'')]"

lemma link_resolves: "resolves link_os"
proof -
  have nl: "not_link n \<longleftrightarrow> n \<noteq> None \<and> (\<forall>t. n \<noteq> Some (Link t))" for n by (cases n rule: not_link.cases) auto
  define jump where "jump = (\<lambda>fs p. p = [''/'', ''w'', ''l'', ''f''] \<and> node_at fs [''/'', ''w'', ''l''] = Some (Link ''/s'') \<and>
    not_link (node_at fs [''/'', ''s'', ''f'']))"
  have os: "os_canonicalize link_os fs p = (if jump fs p then Inr [''/'', ''s'', ''f''] else if plain p \<and> not_link (node_at fs p) then Inr p
      else Inl ''no such file'')" "os_exists link_os fs p \<longleftrightarrow> jump fs p \<or> plain p \<and> not_link (node_at fs p)" for fs p
    by (simp_all add: link_os_def demo_os_def jump_def)
  have to: "plain [''/'', ''s'', ''f'']" by (simp add: plain_def path_absolute_def proper_name_def is_normal_def)
  have self: "\<not> jump fs p" if "tree_ok fs" "node_at fs p \<noteq> None" for fs p
    using tree_above [OF that(1), of "[''/'', ''w'', ''l'']" "[''f'']"] that(2) by (auto simp: jump_def)
  have free: "\<not> jump fs (p @ [c])" if "node_at fs p = Some Dir" for fs p c
    using that by (auto simp: jump_def append_eq_Cons_conv)
  show ?thesis
    unfolding resolves_def
  proof (intro conjI allI impI)
    show "os_exists link_os fs p \<longleftrightarrow> is_ok (os_canonicalize link_os fs p)" for fs p by (simp add: os)
    show "\<not> os_exists link_os fs (p @ [c])" if "node_at fs p = Some Dir" "node_at fs (p @ [c]) = None" for fs p c
      using that free by (simp add: os nl)
    show "os_canonicalize link_os fs p = Inr p" if "tree_ok fs" "plain p" "node_at fs p = Some n" "\<forall>t. n \<noteq> Link t" for fs p n
      using that self [of fs p] by (simp add: os nl)
  qed (auto simp: os nl to jump_def split: if_splits)
qed

definition link_env :: exec_env where
  "link_env = demo_exec_env\<lparr>xe_os := link_os\<rparr>"

theorem relay_read_leaves_roots_witness:
  "resolves (xe_os link_env) \<and>
   (\<exists>v. relay_read link_env (JObj [(''path'', JStr ''/w''), (''relativePath'', JStr ''l/f'')]) (demo_exec link_files) = Inr v \<and>
     jindex v ''data'' = JStr ''9'')"
proof -
  let ?params = "JObj [(''path'', JStr ''/w''), (''relativePath'', JStr ''l/f'')]" and ?x = "demo_exec link_files"
  have e: "xe_os link_env = link_os" "xe_base64_encode link_env = id" by (simp_all add: link_env_def demo_exec_env_def)
  have h: "write_path link_env ?x ?params ''path'' True = Inr [''/'', ''w'']" "required_str ?params ''relativePath'' = Inr ''l/f''"
    "safe_relative ''l/f'' = Inr [''l'', ''f'']" "get_u64 ?params ''offset'' = None" "get_u64 ?params ''limit'' = None"
    "os_canonicalize (xe_os link_env) (xr_files ?x) ([''/'', ''w''] @ [''l'', ''f'']) = Inr [''/'', ''s'', ''f'']"
    "\<not> under_roots (xr_allowed_roots ?x) [''/'', ''s'', ''f'']" "node_at (xr_files ?x) [''/'', ''s'', ''f''] = Some (File ''9'')"
    "length ''9'' \<le> 1024 * 1024" "os_fault (xe_os link_env) ''read'' [''/'', ''s'', ''f''] = None"
    "get_str (JObj [(''path'', JStr ''/w/l/f'')]) ''path'' = Some ''/w/l/f''" "components ''/w/l/f'' = [''/'', ''w''] @ [''l'', ''f'']"
    "get_str (JObj [(''path'', JStr ''/w/l/f'')]) ''_readGrantId'' = None"
    by (simp_all add: checked_path_def resolve_path_def components_def e link_os_def demo_os_def demo_exec_def link_files_def
        plain_def path_absolute_def proper_name_def is_normal_def bt_get_def under_roots_def path_within_def get_str_def get_u64_def
        required_str_def safe_relative_def Let_def)
  from relay_read_leaves_roots [OF h] link_resolves show ?thesis by (simp add: e)
qed

text \<open>
  The digest of a directory does not determine it: the names and contents are hashed one after the other,
  each ended by a zero byte, so a file whose contents have zero bytes is taken for two files, whatever
  the hash is.
\<close>

abbreviation nul :: string where
  "nul \<equiv> [char_of (0 :: nat)]"

theorem tree_digest_collides:
  "\<exists>d. digest_tree (demo_exec_env\<lparr>xe_sha := h\<rparr>) [([''/''], Dir), ([''/'', ''a''], File (''x'' @ nul @ ''b'' @ nul @ ''y''))] [''/''] = Inr (d, 5, 1) \<and>
     digest_tree (demo_exec_env\<lparr>xe_sha := h\<rparr>) [([''/''], Dir), ([''/'', ''a''], File ''x''), ([''/'', ''b''], File ''y'')] [''/''] = Inr (d, 2, 2)"
proof -
  let ?one = "[([''/''], Dir), ([''/'', ''a''], File (''x'' @ nul @ ''b'' @ nul @ ''y''))]"
  let ?two = "[([''/''], Dir), ([''/'', ''a''], File ''x''), ([''/'', ''b''], File ''y'')]"
  have "collect_tree demo_os ?one [''/''] [] = Inr [[''a'']]" "collect_tree demo_os ?two [''/''] [] = Inr [[''a''], [''b'']]"
    by (subst collect_tree.simps; simp add: read_dir_def metadata_at_def os_call_def ok_or_def demo_os_def bt_get_def children_def)+
  then show ?thesis
    by (simp add: digest_tree_def portable_relative_path_def is_normal_def Let_def tree_entry_def metadata_at_def read_file_def os_call_def
        ok_or_def demo_os_def bt_get_def sat_add_def)
qed

end
