(* ===== verification/Transfer_Properties.thy ===== *)
theory Transfer_Properties
  imports Relay_Properties
begin

section \<open>Properties of a transfer\<close>

text \<open>
  The Controller's side of a relay, for any Executors: the lease of the destination brackets the work. And
  against the model's Executors: what the loop over the blocks of a file leaves at the destination.
\<close>

subsection \<open>The calls of a transfer\<close>

text \<open>A caller that also records its calls with their answers.\<close>

type_synonym call_record = "string \<times> string \<times> json \<times> (rpc_error + json)"

definition logged :: "'w caller \<Rightarrow> ('w \<times> call_record list) caller" where
  "logged call executor action params s =
     (let (r, w) = call executor action params (fst s) in (r, (w, snd s @ [(executor, action, params, r)])))"

definition granted_call :: "call_record \<Rightarrow> bool" where
  "granted_call c = (case c of (executor, action, params, r) \<Rightarrow> action = ''resource.lease.acquire'' \<and> is_ok r)"

definition releases :: "call_record \<Rightarrow> bool" where
  "releases c = (case c of (executor, action, params, r) \<Rightarrow> action = ''resource.lease.release'')"

definition uses_lease :: "call_record \<Rightarrow> bool" where
  "uses_lease c = (case c of (executor, action, params, r) \<Rightarrow> jget params ''_resourceLeases'' \<noteq> None)"

text \<open>Only calls that satisfy a condition are added to the record.\<close>

definition adds :: "(call_record \<Rightarrow> bool) \<Rightarrow> 'w \<times> call_record list \<Rightarrow> 'w \<times> call_record list \<Rightarrow> bool" where
  "adds P s s' \<longleftrightarrow> (\<exists>more. snd s' = snd s @ more \<and> list_all P more)"

lemma adds_refl [simp]: "adds P s s"
  by (simp add: adds_def)

lemma adds_trans: "adds P s s' \<Longrightarrow> adds P s' s'' \<Longrightarrow> adds P s s''"
  by (auto simp: adds_def)

lemma adds_mono: "adds P s s' \<Longrightarrow> (\<And>c. P c \<Longrightarrow> Q c) \<Longrightarrow> adds Q s s'"
  by (auto simp: adds_def list_all_iff)

lemma logged_adds: "(\<And>r. P (executor, action, params, r)) \<Longrightarrow> adds P s (snd (logged call executor action params s))"
  by (auto simp: logged_def adds_def case_prod_beta)

lemma sbind_adds: "adds P s (snd r) \<Longrightarrow> (\<And>a s'. adds P s' (snd (f a s'))) \<Longrightarrow> adds P s (snd (sbind r f))"
  by (cases r; cases "fst r") (auto intro: adds_trans)

lemma mapped_adds: "adds P s (snd r) \<Longrightarrow> adds P s (snd (case r of (a, w) \<Rightarrow> (map_err g a, w)))"
  by (simp add: case_prod_beta)

text \<open>The work under a lease neither acquires nor releases.\<close>

definition working :: "call_record \<Rightarrow> bool" where
  "working c \<longleftrightarrow> \<not> granted_call c \<and> \<not> releases c"

lemma working_call [simp]:
  "working (executor, action, params, r) \<longleftrightarrow> \<not> (action = ''resource.lease.acquire'' \<and> is_ok r) \<and> action \<noteq> ''resource.lease.release''"
  by (simp add: working_def granted_call_def releases_def)

lemma archive_chunks_adds:
  "adds working s (snd (archive_chunks (logged call) env source destination dp staging lease token len offset chunks encoded s))"
proof (induction "unat len - unat offset" arbitrary: offset chunks encoded s rule: less_induct)
  case less
  have "unat len - unat (sat_add offset n) < unat len - unat offset" if "offset < len" "n \<noteq> 0" for n
    using sat_add_grows [OF that] that(1) by (simp add: word_less_nat_alt diff_less_mono2)
  then show ?case
    by (subst archive_chunks.simps) (auto intro!: sbind_adds mapped_adds logged_adds less)
qed

lemma file_chunks_adds:
  "adds working s (snd (file_chunks (logged call) env source sp destination dp staging lease relative len offset s))"
proof (induction "unat len - unat offset" arbitrary: offset s rule: less_induct)
  case less
  have "unat len - unat (sat_add offset n) < unat len - unat offset" if "offset < len" "n \<noteq> 0" for n
    using sat_add_grows [OF that] that(1) by (simp add: word_less_nat_alt diff_less_mono2)
  then show ?case
    by (subst file_chunks.simps) (auto intro!: sbind_adds logged_adds less)
qed

lemma relay_entries_adds:
  "adds working s (snd (relay_entries (logged call) env source sp destination dp staging lease entries s))"
  by (induction entries arbitrary: s) (auto intro!: sbind_adds file_chunks_adds)

text \<open>
  The record of a transfer: before the lease nothing uses one, and a lease that was granted is released
  after the work, with the token it came with, and is not used again: what follows only removes the archive
  at the source.
\<close>

definition removes :: "call_record \<Rightarrow> bool" where
  "removes c = (case c of (executor, action, params, r) \<Rightarrow> action = ''artifact.relay.archive.remove'')"

definition bracketed :: "transfer_env \<Rightarrow> call_record list \<Rightarrow> bool" where
  "bracketed env log \<longleftrightarrow>
     list_all (\<lambda>c. \<not> granted_call c \<and> \<not> releases c \<and> \<not> uses_lease c) log \<or>
     (\<exists>before executor destination params lease work r after.
        log = before @ [(executor, ''resource.lease.acquire'', params, Inr lease)] @ work
                @ [(executor, ''resource.lease.release'', relay_grant env destination lease, r)] @ after \<and>
        get_str params ''resource'' = Some (relay_resource destination) \<and>
        list_all (\<lambda>c. working c \<and> \<not> uses_lease c) before \<and> list_all working work \<and>
        list_all (\<lambda>c. removes c \<and> \<not> uses_lease c) after)"

abbreviation idle :: "call_record \<Rightarrow> bool" where
  "idle c \<equiv> \<not> granted_call c \<and> \<not> releases c \<and> \<not> uses_lease c"

lemma idle_call [simp]:
  "uses_lease (executor, action, params, r) \<longleftrightarrow> jget params ''_resourceLeases'' \<noteq> None"
  "granted_call (executor, action, params, r) \<longleftrightarrow> action = ''resource.lease.acquire'' \<and> is_ok r"
  "releases (executor, action, params, r) \<longleftrightarrow> action = ''resource.lease.release''"
  by (simp_all add: uses_lease_def granted_call_def releases_def)

lemma bracketed_idle: "list_all idle log \<Longrightarrow> bracketed env log"
  by (simp add: bracketed_def)

lemma bracketed_snoc:
  assumes "bracketed env log" "idle c" "removes c"
  shows "bracketed env (log @ [c])"
  using assms(1) unfolding bracketed_def
proof (elim disjE exE conjE)
  fix before executor destination params lease work r after
  assume "log = before @ [(executor, ''resource.lease.acquire'', params, Inr lease)] @ work
      @ [(executor, ''resource.lease.release'', relay_grant env destination lease, r)] @ after"
    "get_str params ''resource'' = Some (relay_resource destination)"
    "list_all (\<lambda>c. working c \<and> \<not> uses_lease c) before" "list_all working work" "list_all (\<lambda>c. removes c \<and> \<not> uses_lease c) after"
  with assms(2,3) show "list_all idle (log @ [c]) \<or> (\<exists>before executor destination params lease work r after.
      log @ [c] = before @ [(executor, ''resource.lease.acquire'', params, Inr lease)] @ work
        @ [(executor, ''resource.lease.release'', relay_grant env destination lease, r)] @ after \<and>
      get_str params ''resource'' = Some (relay_resource destination) \<and>
      list_all (\<lambda>c. working c \<and> \<not> uses_lease c) before \<and> list_all working work \<and>
      list_all (\<lambda>c. removes c \<and> \<not> uses_lease c) after)"
    by (intro disjI2 exI [of _ before] exI [of _ executor] exI [of _ destination] exI [of _ params] exI [of _ lease] exI [of _ work]
        exI [of _ r] exI [of _ "after @ [c]"]) (auto simp: working_def)
qed (use assms(2) in simp)

lemma under_lease_bracketed:
  assumes "list_all idle (snd s)" "\<And>lease s. adds working s (snd (work lease s))"
  shows "bracketed env (snd (snd (under_lease (logged call) env executor destination work s)))"
proof -
  let ?params = "JObj [(''owner'', JStr (relay_owner env)), (''resource'', JStr (relay_resource destination)), (''ttlMs'', jnat 3600000)]"
  obtain r w where c: "call executor ''resource.lease.acquire'' ?params (fst s) = (r, w)" by fastforce
  show ?thesis
  proof (cases r)
    case (Inl e)
    with assms(1) c show ?thesis by (simp add: under_lease_def logged_def bracketed_idle bt_get_def)
  next
    case (Inr lease)
    let ?s = "(w, snd s @ [(executor, ''resource.lease.acquire'', ?params, r)])"
    obtain a s1 where wk: "work lease ?s = (a, s1)" by (cases "work lease ?s") auto
    then obtain more where more: "snd s1 = snd ?s @ more" "list_all working more" using assms(2) [of ?s lease] by (auto simp: adds_def)
    obtain b w2 where rel: "call executor ''resource.lease.release'' (relay_grant env destination lease) (fst s1) = (b, w2)" by fastforce
    have "snd (snd (under_lease (logged call) env executor destination work s)) =
        snd s @ [(executor, ''resource.lease.acquire'', ?params, Inr lease)] @ more
          @ [(executor, ''resource.lease.release'', relay_grant env destination lease, b)] @ []"
      using c Inr wk rel more(1) by (simp add: under_lease_def logged_def)
    then show ?thesis
      unfolding bracketed_def using assms(1) more(2)
      by (intro disjI2 exI conjI) (assumption | simp add: get_str_def bt_get_def | auto simp: list_all_iff working_def)+
  qed
qed

lemma sbind_bracketed:
  assumes "list_all idle (snd s)" "\<And>a. bracketed env (snd (snd (f a s)))"
  shows "bracketed env (snd (snd (sbind (r, s) f)))"
  using assms bracketed_idle by (cases r) auto

lemma relay_parts_bracketed:
  assumes "list_all idle (snd s)"
  shows "bracketed env (snd (snd (relay_local_artifact (logged call) env executor sp dp mode s)))"
    "bracketed env (snd (snd (relay_files (logged call) env source sp destination dp mode entries expected s)))"
    "bracketed env (snd (snd (relay_archive (logged call) env source destination dp mode archive s)))"
proof -
  show "bracketed env (snd (snd (relay_local_artifact (logged call) env executor sp dp mode s)))"
    unfolding relay_local_artifact_def Let_def by (intro under_lease_bracketed assms sbind_adds logged_adds) simp_all
  show "bracketed env (snd (snd (relay_files (logged call) env source sp destination dp mode entries expected s)))"
    unfolding relay_files_def Let_def
    by (intro under_lease_bracketed assms sbind_adds logged_adds relay_entries_adds) simp_all
  show "bracketed env (snd (snd (relay_archive (logged call) env source destination dp mode archive s)))"
    unfolding relay_archive_def Let_def
    by (intro sbind_bracketed under_lease_bracketed assms)
      (auto intro!: sbind_adds mapped_adds logged_adds archive_chunks_adds)
qed

lemma stable_manifest_adds:
  assumes "stable_manifest (logged call) late source sp n manifest s = Some r"
  shows "adds idle s (snd r)"
proof -
  have all: "c = logged call \<longrightarrow> adds idle s (snd r)" if "stable_manifest c late source sp n manifest s = Some r"
    for c late source sp n manifest s r
  proof (rule stable_manifest.raw_induct [where P = "\<lambda>c late source sp n manifest s r. c = logged call \<longrightarrow> adds idle s (snd r)", OF _ that])
    fix rec :: "('a \<times> call_record list) caller \<Rightarrow> (nat \<Rightarrow> bool) \<Rightarrow> string \<Rightarrow> string \<Rightarrow> nat \<Rightarrow> json \<Rightarrow> 'a \<times> call_record list
      \<Rightarrow> ((rpc_error + json) \<times> 'a \<times> call_record list) option" and c late source sp n manifest s r
    assume IH: "\<And>c late source sp n manifest s r. rec c late source sp n manifest s = Some r \<Longrightarrow> c = logged call \<longrightarrow> adds idle s (snd r)"
      and body: "(case c source ''artifact.relay.manifest'' (JObj [(''path'', JStr sp)]) s of
          (Inl e, w) \<Rightarrow> Some (Inl e, w)
        | (Inr latest, w) \<Rightarrow>
            if jget latest ''digest'' = jget manifest ''digest'' \<and> jget latest ''entries'' = jget manifest ''entries'' then Some (Inr latest, w)
            else if late n
            then Some (Inl (rpc_err ''ARTIFACT_NOT_STABLE'' ''source artifact changed during the stability window''), w)
            else rec c late source sp (Suc n) latest w) = Some r"
    show "c = logged call \<longrightarrow> adds idle s (snd r)"
    proof
      assume c: "c = logged call"
      obtain a s1 where one: "logged call source ''artifact.relay.manifest'' (JObj [(''path'', JStr sp)]) s = (a, s1)" by (rule prod.exhaust)
      have first: "adds idle s s1" using logged_adds [of idle source "''artifact.relay.manifest''" "JObj [(''path'', JStr sp)]" s call] one by (simp add: bt_get_def)
      then have "adds idle s (snd r)" if "rec (logged call) late source sp (Suc n) latest s1 = Some r" for latest
        using IH [OF that] by (blast intro: adds_trans)
      then show "adds idle s (snd r)" using body first by (cases a) (auto simp: c one split: if_splits)
    qed
  qed
  from all [OF assms] show ?thesis by simp
qed

lemma logged_idle:
  assumes "logged call executor action params s = (r, s')" "idle (executor, action, params, r)" "list_all idle (snd s)"
  shows "list_all idle (snd s')"
  using assms by (auto simp: logged_def case_prod_beta)

lemma archive_transfer_bracketed:
  assumes "list_all idle (snd s)"
  shows "bracketed env (snd (snd (archive_transfer (logged call) env se de dp mode archive s)))"
proof -
  have "bracketed env (snd (snd (logged call se ''artifact.relay.archive.remove'' (JObj [(''token'', JStr token)]) s')))"
    if "bracketed env (snd s')" for token s'
    using that by (auto simp: logged_def case_prod_beta bt_get_def removes_def intro!: bracketed_snoc)
  then show ?thesis
    unfolding archive_transfer_def using assms relay_parts_bracketed(3) [OF assms]
    by (intro sbind_bracketed) (auto simp: Let_def case_prod_beta)
qed

lemma manifest_transfer_bracketed:
  assumes "manifest_transfer (logged call) env params se sp de dp mode s = Some r" "list_all idle (snd s)"
  shows "bracketed env (snd (snd r))"
proof -
  obtain a s1 where c: "logged call se ''artifact.relay.manifest'' (JObj [(''path'', JStr sp)]) s = (a, s1)" by (rule prod.exhaust)
  have i1: "list_all idle (snd s1)" by (rule logged_idle [OF c _ assms(2)]) (simp add: bt_get_def)
  show ?thesis
  proof (cases a)
    case (Inl e)
    then show ?thesis using assms(1) c i1 by (auto simp: manifest_transfer_def bracketed_idle)
  next
    case (Inr first)
    then obtain b s2 where st: "stable_manifest (logged call) (tr_late env) se sp 0 first s1 = Some (b, s2)"
      using assms(1) c by (auto simp: manifest_transfer_def bind_eq_Some_conv)
    have i2: "list_all idle (snd s2)" using stable_manifest_adds [OF st] i1 by (auto simp: adds_def)
    have "r = sbind (b, s2) (\<lambda>manifest w.
        sbind (ok_or (rpc_err ''INVALID_ARTIFACT'' ''source manifest has no entries'') (get_array manifest ''entries''), w) (\<lambda>entries w.
        if get_bool params ''rejectEmptyFiles'' = Some True \<and> has_empty_file entries
        then (Inl (rpc_err ''ARTIFACT_INCOMPLETE'' ''source artifact contains an empty file''), w)
        else sbind (required_str manifest ''digest'', w) (\<lambda>expected w.
          relay_files (logged call) env se sp de dp mode entries expected w)))"
      using assms(1) c Inr st by (simp add: manifest_transfer_def)
    then show ?thesis using i2 by (auto intro!: sbind_bracketed relay_parts_bracketed(2) intro: bracketed_idle)
  qed
qed

text \<open>
  C23. The lease that guards the destination of a transfer. Whatever the Executors answer, a transfer that
  returns has made no request under a lease before one was granted, and a granted lease is
  released at its Executor with its own token after the last request that uses it. After that no
  lease is acquired, released or used any more: at most the archive of the artifact is removed at the source.
\<close>

theorem transfer_releases_lease:
  assumes "relay_artifact (logged call) env params (w, []) = Some (r, (w', log))"
  shows "bracketed env log"
proof (cases "relay_route params")
  case (Inl e)
  then show ?thesis using assms by (simp add: relay_artifact_def bracketed_idle)
next
  case (Inr route)
  obtain se sp de dp mode where route: "route = (se, sp, de, dp, mode)" by (cases route)
  obtain a s1 where c: "logged call se ''artifact.relay.archive.create'' (JObj [(''path'', JStr sp)]) (w, []) = (a, s1)" by (rule prod.exhaust)
  have i1: "list_all idle (snd s1)" by (rule logged_idle [OF c]) (simp_all add: bt_get_def)
  show ?thesis
  proof (cases "se = de")
    case True
    then show ?thesis using assms Inr route relay_parts_bracketed(1) [of "(w, [])" env call se sp dp mode] by (simp add: relay_artifact_def)
  next
    case False
    show ?thesis
    proof (cases a)
      case (Inl e)
      then show ?thesis using assms Inr route False c i1 manifest_transfer_bracketed [of call env params se sp de dp mode s1 "(r, (w', log))"]
        by (auto simp: relay_artifact_def bracketed_idle split: if_splits)
    next
      case (Inr archive)
      then show ?thesis using assms \<open>relay_route params = Inr route\<close> route False c archive_transfer_bracketed [OF i1, of env call se de dp mode archive]
        by (simp add: relay_artifact_def)
    qed
  qed
qed

definition demo_transfer_env :: transfer_env where
  "demo_transfer_env = \<lparr>tr_controller = ''c'', tr_fresh = ''1'', tr_total_ms = 0, tr_relay_ms = 0, tr_commit_ms = 0, tr_late = (\<lambda>_. True)\<rparr>"

definition demo_transfer :: json where
  "demo_transfer = JObj [(''destination'', JObj [(''executorId'', JStr ''x''), (''path'', JStr ''/b'')]),
     (''source'', JObj [(''executorId'', JStr ''x''), (''path'', JStr ''/a'')])]"

theorem transfer_releases_lease_witness:
  "\<exists>r log. relay_artifact (logged (\<lambda>_ _ _ w. (Inr (JObj [(''token'', JStr ''t'')]), w))) demo_transfer_env demo_transfer ((), []) =
     Some (r, ((), log)) \<and> bracketed demo_transfer_env log \<and> map (fst \<circ> snd) log =
       [''resource.lease.acquire'', ''artifact.relay.local-copy'', ''resource.lease.release'']"
proof -
  let ?call = "\<lambda>_ _ _ w. (Inr (JObj [(''token'', JStr ''t'')]), w) :: (rpc_error + json) \<times> unit"
  have "\<exists>r log. relay_artifact (logged ?call) demo_transfer_env demo_transfer ((), []) = Some (r, ((), log)) \<and> map (fst \<circ> snd) log =
       [''resource.lease.acquire'', ''artifact.relay.local-copy'', ''resource.lease.release'']"
    by (simp add: relay_artifact_def relay_route_def demo_transfer_def required_str_def get_str_def bt_get_def relay_local_artifact_def
        under_lease_def logged_def Let_def)
  then show ?thesis using transfer_releases_lease [of ?call demo_transfer_env demo_transfer "()"] by fastforce
qed

subsection \<open>Copying a file in blocks\<close>

text \<open>
  What the loop relies on: while an invariant holds, a reading answers the block at the offset of a file
  that stays as it is, encoded, with its length, and a writing puts the data at the offset of another.
\<close>

definition read_request :: "string \<Rightarrow> string \<Rightarrow> u64 \<Rightarrow> json" where
  "read_request source_path relative offset =
     JObj [(''limit'', jnat (1024 * 1024)), (''offset'', junum offset), (''path'', JStr source_path), (''relativePath'', JStr relative)]"

definition write_request :: "transfer_env \<Rightarrow> string \<Rightarrow> string \<Rightarrow> json \<Rightarrow> string \<Rightarrow> u64 \<Rightarrow> json \<Rightarrow> json" where
  "write_request env destination_path staging lease relative offset data =
     staged env destination_path lease
       [(''data'', data), (''destination'', JStr destination_path), (''offset'', junum offset), (''relativePath'', JStr relative),
        (''staging'', JStr staging)]"

locale block_channel =
  fixes call :: "'w caller" and env :: transfer_env and source source_path destination destination_path staging relative :: string
    and lease :: json and encode :: "string \<Rightarrow> string" and original received :: "'w \<Rightarrow> string" and invar :: "'w \<Rightarrow> bool"
  assumes reads: "invar w \<Longrightarrow> call source ''artifact.relay.read'' (read_request source_path relative offset) w = (Inr chunk, w') \<Longrightarrow>
      get_u64 chunk ''bytes'' = Some (of_nat (length (block_at (unat offset) (1024 * 1024) (original w)))) \<and>
      jindex chunk ''data'' = JStr (encode (block_at (unat offset) (1024 * 1024) (original w))) \<and>
      invar w' \<and> original w' = original w \<and> received w' = received w"
    and writes: "invar w \<Longrightarrow>
      call destination ''artifact.relay.write'' (write_request env destination_path staging lease relative offset (JStr (encode data))) w =
        (Inr v, w') \<Longrightarrow>
      invar w' \<and> original w' = original w \<and> received w' = splice (unat offset) data (received w)"
begin

lemma splice_append: "length old = offset \<Longrightarrow> splice offset new old = old @ new"
  by (simp add: splice_def)

lemma file_chunks_copy:
  "file_chunks call env source source_path destination destination_path staging lease relative len offset w = (Inr (), w') \<Longrightarrow>
   invar w \<Longrightarrow> unat len = length (original w) \<Longrightarrow> received w = take (unat offset) (original w) \<Longrightarrow>
   invar w' \<and> original w' = original w \<and> received w' = original w"
proof (induction "unat len - unat offset" arbitrary: offset w rule: less_induct)
  case less
  show ?case
  proof (cases "offset < len")
    case False
    then have "w' = w" using less.prems(1) by (subst (asm) file_chunks.simps) simp
    moreover have "length (original w) \<le> unat offset" using False less.prems(3) by (simp add: word_less_nat_alt not_less)
    ultimately show ?thesis using less.prems by simp
  next
    case True
    let ?data = "block_at (unat offset) (1024 * 1024) (original w)"
    from less.prems(1) True obtain chunk w1 count v w2 where
      r: "call source ''artifact.relay.read'' (read_request source_path relative offset) w = (Inr chunk, w1)" and
      n: "get_u64 chunk ''bytes'' = Some count" "count \<noteq> 0" and
      wr: "call destination ''artifact.relay.write'' (write_request env destination_path staging lease relative offset (jindex chunk ''data'')) w1 = (Inr v, w2)" and
      rest: "file_chunks call env source source_path destination destination_path staging lease relative len (sat_add offset count) w2 = (Inr (), w')"
      by (subst (asm) file_chunks.simps) (auto simp: sbind_Inr read_request_def write_request_def ok_or_def split: if_splits option.splits)
    note got = reads [OF less.prems(2) r]
    have small: "length ?data \<le> 1024 * 1024" by (simp add: block_at_def)
    have c: "unat count = length ?data" using got n(1) small by (simp add: unsigned_of_nat take_bit_nat_eq_self_iff less_le_trans)
    have put: "invar w2 \<and> original w2 = original w1 \<and> received w2 = splice (unat offset) ?data (received w1)"
      using writes [of w1 offset ?data v w2] got wr by simp
    have off: "unat offset < length (original w)" using True less.prems(3) by (simp add: word_less_nat_alt)
    have le: "unat offset + length ?data \<le> length (original w)" using off by (simp add: block_at_def)
    have step: "unat (sat_add offset count) = unat offset + length ?data"
      using le c less.prems(3) u64_unat_less [of len] by (simp add: unat_sat_add)
    have "received w2 = take (unat (sat_add offset count)) (original w2)"
      using put got less.prems(4) off le unfolding step by (simp add: splice_append block_at_def take_add min_def)
    moreover have "unat len - unat (sat_add offset count) < unat len - unat offset"
      using sat_add_grows [OF True n(2)] True by (simp add: word_less_nat_alt diff_less_mono2)
    ultimately show ?thesis using less.hyps [OF _ rest] put got less.prems(3) by simp
  qed
qed

end

subsection \<open>Executors as the other side\<close>

text \<open>Several Executors of the model, each with an environment for every stage of a request.\<close>

definition fleet_call :: "(string \<Rightarrow> nat \<Rightarrow> exec_env) \<Rightarrow> (string \<Rightarrow> executor_runtime) caller" where
  "fleet_call e executor action params w =
     (let (r, x) = executor_handle (e executor) (request_new ''relay'' action params) (w executor)
      in (response_value (rpc_err ''EXECUTOR_FAILED'' ''executor failed'') r, w(executor := x)))"

lemma enforce_keeps:
  "xr_files (snd (enforce_authority env action params x)) = xr_files x"
  "xr_allowed_roots (snd (enforce_authority env action params x)) = xr_allowed_roots x"
  by (simp_all add: enforce_authority_def enforce_fences_def case_prod_beta Let_def
      split: option.splits capability_authority.splits sum.splits)

lemma resource_answers:
  assumes "resource_dispatch e action params x = (Inr v, x1)" "\<not> starts_with ''resource.lease.'' action"
  obtains s x2 permit z where "enforce_authority (e 1) action params (x\<lparr>xr_resources := s\<rparr>) = (Inr (), x2)"
    "executor_dispatch (e 2) action params x2 = (Inr v, z)" "x1 = z\<lparr>xr_resources := permit\<rparr>"
proof -
  from assms obtain resources where r: "requested_resources (e 0) action params x = Inr resources"
    by (auto simp: resource_dispatch_def sbind_Inr)
  obtain begun s where b: "resources_begin (xe_sha (e 0)) (xe_clock (e 0)) (xe_io (e 0) 0) resources
      (unwrap_or [] (get_array params ''_resourceLeases'')) (xr_resources x) = (begun, s)" by (rule prod.exhaust)
  from assms r b obtain permit where p: "begun = Inr permit" by (cases begun) (auto simp: resource_dispatch_def)
  obtain a z where w: "sbind (enforce_authority (e 1) action params (x\<lparr>xr_resources := s\<rparr>)) (\<lambda>_ x. executor_dispatch (e 2) action params x) = (a, z)"
    by (rule prod.exhaust)
  have "a = Inr v" "x1 = z\<lparr>xr_resources := permit_drop (xe_sha (e 3)) (xe_io (e 3) 0) permit (xr_resources z)\<rparr>"
    using assms r b p w by (simp_all add: resource_dispatch_def)
  with w that show thesis by (auto simp: sbind_Inr)
qed

text \<open>A request that is answered has been dispatched, on the files and roots as they were.\<close>

lemma handle_answers:
  assumes "executor_handle e q x = (r, x')" "response_value er r = Inr v"
    "\<not> starts_with ''desktop.'' (req_action q)" "\<not> protected (req_action q)" "\<not> starts_with ''resource.lease.'' (req_action q)"
  obtains y z where "executor_dispatch (e 8) (req_action q) (req_params q) y = (Inr v, z)"
    "xr_files y = xr_files x" "xr_allowed_roots y = xr_allowed_roots x" "xr_files x' = xr_files z" "xr_allowed_roots x' = xr_allowed_roots z"
proof -
  have seen: "xr_files (observe_response e q r y) = xr_files y" "xr_allowed_roots (observe_response e q r y) = xr_allowed_roots y" for r y
    by (simp_all add: observe_response_def Let_def split: option.splits)
  from assms(1,2) obtain t x1 where d: "desktop_dispatch (\<lambda>n. e (n + 2)) (req_action q) (req_params q) (x\<lparr>xr_execution := t\<rparr>) = (Inr v, x1)"
      "xr_files x' = xr_files x1" "xr_allowed_roots x' = xr_allowed_roots x1"
    by (auto simp: executor_handle_def Let_def case_prod_beta seen response_value_def response_success_def response_failure_def
        split: sum.splits if_splits) (metis prod.collapse)+
  have "resource_dispatch (\<lambda>n. e (6 + n)) (req_action q) (req_params q) (x\<lparr>xr_execution := t\<rparr>) = (Inr v, x1)"
    using d(1) assms(3,4) by (simp add: desktop_dispatch_def)
  from resource_answers [OF this assms(5)] obtain s x2 permit z where
      "enforce_authority (e (6 + 1)) (req_action q) (req_params q) (x\<lparr>xr_execution := t, xr_resources := s\<rparr>) = (Inr (), x2)"
      "executor_dispatch (e (6 + 2)) (req_action q) (req_params q) x2 = (Inr v, z)" "x1 = z\<lparr>xr_resources := permit\<rparr>" .
  note a = this [simplified]
  show thesis
    using that [OF a(2)] enforce_keeps [of "e 7" "req_action q" "req_params q" "x\<lparr>xr_execution := t, xr_resources := s\<rparr>"] a(1,3) d(2,3) by simp
qed

lemma relay_dispatched [simp]:
  "executor_dispatch env ''artifact.relay.read'' params x = (relay_read env params x, x)"
  "executor_dispatch env ''artifact.relay.write'' params x = relay_write env params x"
  by (simp_all add: executor_dispatch_def relay_actions_def relay_dispatch_def)

lemma fleet_answers:
  assumes "fleet_call e executor action params w = (Inr v, w')" "action \<in> {''artifact.relay.read'', ''artifact.relay.write''}"
  obtains y z where "executor_dispatch (e executor 8) action params y = (Inr v, z)" "xr_files y = xr_files (w executor)"
    "xr_allowed_roots y = xr_allowed_roots (w executor)" "xr_files (w' executor) = xr_files z"
    "xr_allowed_roots (w' executor) = xr_allowed_roots z" "\<And>other. other \<noteq> executor \<Longrightarrow> w' other = w other"
proof -
  obtain r x' where h: "executor_handle (e executor) (request_new ''relay'' action params) (w executor) = (r, x')" by (rule prod.exhaust)
  with assms(1) have v: "response_value (rpc_err ''EXECUTOR_FAILED'' ''executor failed'') r = Inr v" "w' = w(executor := x')"
    by (simp_all add: fleet_call_def)
  have q: "req_action (request_new ''relay'' action params) = action" "req_params (request_new ''relay'' action params) = params"
    by (simp_all add: request_new_def Let_def)
  have n: "\<not> starts_with ''desktop.'' action" "\<not> protected action" "\<not> starts_with ''resource.lease.'' action"
    using assms(2) by (auto simp: protected_def)
  from handle_answers [OF h v(1)] n obtain y z where "executor_dispatch (e executor 8) action params y = (Inr v, z)"
      "xr_files y = xr_files (w executor)" "xr_allowed_roots y = xr_allowed_roots (w executor)" "xr_files x' = xr_files z"
      "xr_allowed_roots x' = xr_allowed_roots z" unfolding q by blast
  with that v(2) show thesis by simp
qed

text \<open>A file below a directory that resolves to itself, and its contents.\<close>

definition file_path :: "string \<Rightarrow> string \<Rightarrow> path" where
  "file_path dir relative = components dir @ components relative"

definition holds_file :: "executor_runtime \<Rightarrow> string \<Rightarrow> string \<Rightarrow> bool" where
  "holds_file x dir relative \<longleftrightarrow> tree_ok (xr_files x) \<and> plain (components dir) \<and> under_roots (xr_allowed_roots x) (components dir) \<and>
     node_at (xr_files x) (components dir) = Some Dir \<and> is_ok (safe_relative relative) \<and> plain (file_path dir relative) \<and>
     is_file (node_at (xr_files x) (file_path dir relative))"

definition contents_of :: "executor_runtime \<Rightarrow> string \<Rightarrow> string \<Rightarrow> string" where
  "contents_of x dir relative = (case node_at (xr_files x) (file_path dir relative) of Some (File c) \<Rightarrow> c | _ \<Rightarrow> [])"

lemma holds_file_node: "holds_file x dir relative \<Longrightarrow> node_at (xr_files x) (file_path dir relative) = Some (File (contents_of x dir relative))"
  by (auto simp: holds_file_def contents_of_def is_file_def split: option.splits node.splits)

lemma holds_file_path:
  assumes "holds_file x dir relative" "resolves (xe_os env)" "get_str params key = Some dir"
    "xr_files y = xr_files x" "xr_allowed_roots y = xr_allowed_roots x"
  shows "write_path env y params key True = Inr (components dir)" "safe_relative relative = Inr (components relative)"
    "os_canonicalize (xe_os env) (xr_files y) (file_path dir relative) = Inr (file_path dir relative)"
proof -
  note h = assms(1) [unfolded holds_file_def]
  have "os_canonicalize (xe_os env) (xr_files x) (components dir) = Inr (components dir)" using resolves_self [OF assms(2)] h by blast
  then show "write_path env y params key True = Inr (components dir)" using h assms(3-5) by (simp add: checked_path_def resolve_path_def)
  show "safe_relative relative = Inr (components relative)" using h by (auto simp: safe_relative_def Let_def split: if_splits)
  show "os_canonicalize (xe_os env) (xr_files y) (file_path dir relative) = Inr (file_path dir relative)"
    using resolves_self(1) [OF assms(2) _ _ holds_file_node [OF assms(1)]] h assms(4) by simp
qed

lemma overwrite_tree:
  assumes "tree_ok fs" "node_at fs p = Some (File b)"
  shows "tree_ok (bt_insert p (File c) fs)"
proof -
  have "q \<noteq> p" if "node_at fs q = Some Dir" for q using that assms(2) by auto
  then show ?thesis using assms unfolding tree_ok_def by (auto simp: bt_get_insert_any bt_wf_insert split: if_splits)
qed

text \<open>
  Two Executors whose file systems resolve paths as documented and that encode and decode blocks
  consistently; the file at the source is fixed, and so is everything but one file at the destination.
\<close>

definition fleet_ready ::
  "(string \<Rightarrow> nat \<Rightarrow> exec_env) \<Rightarrow> (string \<Rightarrow> string) \<Rightarrow> string \<Rightarrow> string \<Rightarrow> string \<Rightarrow> string \<Rightarrow> string \<Rightarrow> files \<Rightarrow> (path \<Rightarrow> node option)
    \<Rightarrow> (string \<Rightarrow> executor_runtime) \<Rightarrow> bool" where
  "fleet_ready e encode source source_path destination staging relative fs others w \<longleftrightarrow>
     source \<noteq> destination \<and> (\<forall>i n. resolves (xe_os (e i n)) \<and> xe_base64_encode (e i n) = encode) \<and>
     (\<forall>i n data. xe_base64 (e i n) (encode data) = Inr data) \<and>
     holds_file (w source) source_path relative \<and> xr_files (w source) = fs \<and> holds_file (w destination) staging relative \<and>
     (\<forall>q. q \<noteq> file_path staging relative \<longrightarrow> node_at (xr_files (w destination)) q = others q)"

lemma holds_file_cong:
  "holds_file x dir relative \<Longrightarrow> xr_files y = xr_files x \<Longrightarrow> xr_allowed_roots y = xr_allowed_roots x \<Longrightarrow> holds_file y dir relative"
  by (simp add: holds_file_def)

lemma relay_read_block:
  assumes "holds_file x dir relative" "resolves (xe_os env)" "xr_files y = xr_files x" "xr_allowed_roots y = xr_allowed_roots x"
    "relay_read env (read_request dir relative offset) y = Inr v"
  shows "get_u64 v ''bytes'' = Some (of_nat (length (block_at (unat offset) (1024 * 1024) (contents_of x dir relative)))) \<and>
    jindex v ''data'' = JStr (xe_base64_encode env (block_at (unat offset) (1024 * 1024) (contents_of x dir relative)))"
proof -
  let ?params = "read_request dir relative offset"
  have g: "get_str ?params ''path'' = Some dir" "required_str ?params ''relativePath'' = Inr relative"
    "get_u64 ?params ''offset'' = Some offset" "get_u64 ?params ''limit'' = Some 1048576"
    using assms(1) by (auto simp: read_request_def get_str_def get_u64_def bt_get_def required_str_def junum_def jnat_def holds_file_def
        safe_relative_def)
  note h = holds_file_path [OF assms(1,2) g(1) assms(3,4)]
  have "min (1048576 :: u64) 4194304 = 1048576" by (simp add: min_def)
  with assms(5) h g holds_file_node [OF assms(1)] assms(3) show ?thesis
    by (auto simp: relay_read_def read_block_def Let_def open_file_def file_path_def read_file_def os_call_Inr get_u64_def jindex_def bt_get_def
        jnat_def split: if_splits)
qed

lemma relay_write_block:
  assumes "holds_file x dir relative" "resolves (xe_os env)" "xr_files y = xr_files x" "xr_allowed_roots y = xr_allowed_roots x"
    "xe_base64 env (encode data) = Inr data"
    "relay_write env (write_request tenv destination_path dir lease relative offset (JStr (encode data))) y = (Inr v, z)"
  shows "xr_files z = bt_insert (file_path dir relative) (File (splice (unat offset) data (contents_of x dir relative))) (xr_files x) \<and>
    xr_allowed_roots z = xr_allowed_roots x"
proof -
  let ?params = "write_request tenv destination_path dir lease relative offset (JStr (encode data))"
  have g: "get_str ?params ''staging'' = Some dir" "get_str ?params ''relativePath'' = Some relative"
    "get_u64 ?params ''offset'' = Some offset" "get_str ?params ''data'' = Some (encode data)"
    by (simp_all add: write_request_def staged_def get_str_def get_u64_def bt_get_def junum_def)
  note h = holds_file_path [OF assms(1,2) g(1) assms(3,4)]
  show ?thesis
    using assms(6) h g holds_file_node [OF assms(1)] assms(3-5)
    by (auto simp: relay_write_def write_block_def sbind_Inr required_str_def open_file_def file_path_def write_at_def os_call_Inr
        fs_step_def put_files_def split: if_splits sum.splits)
qed

interpretation fleet: block_channel "fleet_call e" env source source_path destination destination_path staging relative lease encode
  "\<lambda>w. contents_of (w source) source_path relative" "\<lambda>w. contents_of (w destination) staging relative"
  "fleet_ready e encode source source_path destination staging relative fs others"
proof unfold_locales
  fix w w' offset chunk
  assume ready: "fleet_ready e encode source source_path destination staging relative fs others w"
    and call: "fleet_call e source ''artifact.relay.read'' (read_request source_path relative offset) w = (Inr chunk, w')"
  note r = ready [unfolded fleet_ready_def]
  obtain y z where d: "executor_dispatch (e source 8) ''artifact.relay.read'' (read_request source_path relative offset) y = (Inr chunk, z)"
      "xr_files y = xr_files (w source)" "xr_allowed_roots y = xr_allowed_roots (w source)" "xr_files (w' source) = xr_files z"
      "xr_allowed_roots (w' source) = xr_allowed_roots z" "\<And>other. other \<noteq> source \<Longrightarrow> w' other = w other"
    by (rule fleet_answers [OF call]) auto
  have same: "xr_files (w' source) = xr_files (w source)" "xr_allowed_roots (w' source) = xr_allowed_roots (w source)" using d by auto
  have read: "relay_read (e source 8) (read_request source_path relative offset) y = Inr chunk" using d(1) by auto
  have held: "holds_file (w source) source_path relative" and res: "resolves (xe_os (e source 8))" "xe_base64_encode (e source 8) = encode"
    using r by blast+
  have "fleet_ready e encode source source_path destination staging relative fs others w'"
    using r same d(6) [of destination] holds_file_cong [OF held same] unfolding fleet_ready_def by metis
  moreover have "contents_of (w' source) source_path relative = contents_of (w source) source_path relative"
    "contents_of (w' destination) staging relative = contents_of (w destination) staging relative"
    using same r d(6) [of destination] by (auto simp: contents_of_def)
  ultimately show "get_u64 chunk ''bytes'' = Some (of_nat (length (block_at (unat offset) (1024 * 1024) (contents_of (w source) source_path relative)))) \<and>
      jindex chunk ''data'' = JStr (encode (block_at (unat offset) (1024 * 1024) (contents_of (w source) source_path relative))) \<and>
      fleet_ready e encode source source_path destination staging relative fs others w' \<and>
      contents_of (w' source) source_path relative = contents_of (w source) source_path relative \<and>
      contents_of (w' destination) staging relative = contents_of (w destination) staging relative"
    using relay_read_block [OF held res(1) d(2,3) read] res(2) by simp
next
  fix w w' offset data v
  assume ready: "fleet_ready e encode source source_path destination staging relative fs others w"
    and call: "fleet_call e destination ''artifact.relay.write'' (write_request env destination_path staging lease relative offset (JStr (encode data))) w = (Inr v, w')"
  note r = ready [unfolded fleet_ready_def]
  let ?params = "write_request env destination_path staging lease relative offset (JStr (encode data))"
  let ?p = "file_path staging relative" and ?new = "splice (unat offset) data (contents_of (w destination) staging relative)"
  obtain y z where d: "executor_dispatch (e destination 8) ''artifact.relay.write'' ?params y = (Inr v, z)"
      "xr_files y = xr_files (w destination)" "xr_allowed_roots y = xr_allowed_roots (w destination)" "xr_files (w' destination) = xr_files z"
      "xr_allowed_roots (w' destination) = xr_allowed_roots z" "\<And>other. other \<noteq> destination \<Longrightarrow> w' other = w other"
    by (rule fleet_answers [OF call]) auto
  have held: "holds_file (w destination) staging relative" and res: "resolves (xe_os (e destination 8))" "xe_base64 (e destination 8) (encode data) = Inr data"
    using r by blast+
  have left: "xr_files (w' destination) = bt_insert ?p (File ?new) (xr_files (w destination))" "xr_allowed_roots (w' destination) = xr_allowed_roots (w destination)"
    using relay_write_block [where encode = encode and data = data, OF held res(1) d(2,3) res(2)] d(1,4,5) by simp_all
  have other: "w' source = w source" using d(6) r by metis
  have "holds_file (w' destination) staging relative"
    using held overwrite_tree [OF _ holds_file_node [OF held], of ?new] left
    by (auto simp: holds_file_def bt_get_insert_any is_file_def)
  moreover have "\<forall>q. q \<noteq> ?p \<longrightarrow> node_at (xr_files (w' destination)) q = others q" using r left(1) by (simp add: bt_get_insert_any)
  ultimately have "fleet_ready e encode source source_path destination staging relative fs others w'"
    using r other unfolding fleet_ready_def by metis
  moreover have "contents_of (w' destination) staging relative = ?new" using left(1) by (simp add: contents_of_def bt_get_insert_any)
  ultimately show "fleet_ready e encode source source_path destination staging relative fs others w' \<and>
      contents_of (w' source) source_path relative = contents_of (w source) source_path relative \<and>
      contents_of (w' destination) staging relative = ?new"
    using other by simp
qed

text \<open>
  C19. A relayed file is identical. When the Controller's loop over the blocks of a file returns without
  an error, against two Executors of the model, the staged file has exactly the contents of the source
  file; nothing else changed at the destination, and nothing at the source.
\<close>

theorem relayed_file_identical:
  assumes "source \<noteq> destination" "\<And>i n. resolves (xe_os (e i n))" "\<And>i n. xe_base64_encode (e i n) = encode"
      "\<And>i n data. xe_base64 (e i n) (encode data) = Inr data"
    and files: "holds_file (w source) source_path relative" "holds_file (w destination) staging relative"
      "contents_of (w destination) staging relative = []" "unat len = length (contents_of (w source) source_path relative)"
    and run: "file_chunks (fleet_call e) env source source_path destination destination_path staging lease relative len 0 w = (Inr (), w')"
  shows "node_at (xr_files (w' destination)) (file_path staging relative) =
      node_at (xr_files (w source)) (file_path source_path relative) \<and>
    (\<forall>q. q \<noteq> file_path staging relative \<longrightarrow> node_at (xr_files (w' destination)) q = node_at (xr_files (w destination)) q) \<and>
    xr_files (w' source) = xr_files (w source)"
proof -
  have "fleet_ready e encode source source_path destination staging relative (xr_files (w source)) (node_at (xr_files (w destination))) w"
    using assms(1-6) by (simp add: fleet_ready_def)
  from fleet.file_chunks_copy [OF run this] files(3,4)
  have "fleet_ready e encode source source_path destination staging relative (xr_files (w source)) (node_at (xr_files (w destination))) w'"
    "contents_of (w' destination) staging relative = contents_of (w source) source_path relative"
    by simp_all
  then show ?thesis using holds_file_node files(1) unfolding fleet_ready_def by metis
qed

subsection \<open>A concrete transfer\<close>

lemma fleet_succeeds:
  assumes room: "capacity_try_acquire (execution_class_of action params) (xr_execution (w executor)) = Inr t"
    and action: "\<not> starts_with ''desktop.'' action" "\<not> protected action" "\<not> starts_with ''resource.lease.'' action"
    and stages: "requested_resources (e executor 6) action params (w executor\<lparr>xr_execution := t\<rparr>) = Inr resources"
      "resources_begin (xe_sha (e executor 6)) (xe_clock (e executor 6)) (xe_io (e executor 6) 0) resources
         (unwrap_or [] (get_array params ''_resourceLeases'')) (xr_resources (w executor)) = (Inr permit, s)"
      "enforce_authority (e executor 7) action params (w executor\<lparr>xr_execution := t, xr_resources := s\<rparr>) = (Inr (), x)"
      "executor_dispatch (e executor 8) action params x = (Inr v, z)"
  shows "\<exists>x'. fleet_call e executor action params w = (Inr v, w(executor := x'))"
proof -
  have "\<exists>x1. resource_dispatch (\<lambda>n. e executor (6 + n)) action params (w executor\<lparr>xr_execution := t\<rparr>) = (Inr v, x1)"
    using action(3) stages by (simp add: resource_dispatch_def)
  then have "\<exists>x1. desktop_dispatch (\<lambda>n. e executor (n + 2)) action params (w executor\<lparr>xr_execution := t\<rparr>) = (Inr v, x1)"
    using action(1,2) by (simp add: desktop_dispatch_def)
  then show ?thesis
    using room by (auto simp: fleet_call_def executor_handle_def request_new_def Let_def response_value_def response_success_def)
qed

definition demo_target :: files where
  "demo_target = [([''/''], Dir), ([''/'', ''w''], Dir), ([''/'', ''w'', ''t''], Dir), ([''/'', ''w'', ''t'', ''a.txt''], File [])]"

definition relay_demo_lease :: lease where
  "relay_demo_lease = \<lparr>lease_id = ''l'', lease_kind = LeaseDriver, lease_resource = ''artifact-relay:/w/b'', lease_owner = ''controller:c'',
     lease_token = ''t'', lease_fence = 1, lease_acquired_at = 0, lease_updated_at = 0, lease_expires_at = 100, lease_handoff_to = None\<rparr>"

definition demo_fleet :: "string \<Rightarrow> executor_runtime" where
  "demo_fleet i = (if i = ''s'' then demo_exec demo_files
     else (demo_exec demo_target)\<lparr>xr_resources := \<lparr>rs_res = resources_default\<lparr>res_table :=
       \<lparr>lt_leases = [(''artifact-relay:/w/b'', relay_demo_lease)], lt_fences = []\<rparr>\<rparr>, rs_disk = None\<rparr>\<rparr>)"

definition demo_grant :: json where
  "demo_grant = JObj [(''fence'', jnat 1), (''token'', JStr ''t'')]"

lemma relay_contracts:
  "contract_of os ''artifact.relay.read'' = Some (contract os ''artifact.relay.read'' EffectReadOnly)"
  "contract_of os ''artifact.relay.write'' = Some (contract os ''artifact.relay.write'' EffectMutating)"
  by (rule find_contract_of; simp add: common_capabilities_def canonical_action_def)+

lemma relay_terms:
  "cap_authority (contract os ''artifact.relay.read'' EffectReadOnly) = AuthorityNone"
  "cap_locks (contract os ''artifact.relay.read'' EffectReadOnly) = []"
  "cap_authority (contract os ''artifact.relay.write'' EffectMutating) = AuthorityResourceLease ''artifact-relay:${destination}''"
  "map lock_key (cap_locks (contract os ''artifact.relay.write'' EffectMutating)) = [''artifact-relay:${destination}'']"
  by (simp_all add: contract_def case_prod_beta capability_authority_of_def terms_of_def families)

lemma demo_capacity:
  "\<exists>t. capacity_try_acquire (execution_class_of action params) (xr_execution (demo_fleet i)) = Inr t"
  by (simp add: demo_fleet_def demo_exec_def from_environment_def capacity_try_acquire_def pool_try_acquire_def Let_def pool_new_def
      split: execution_class.splits)

lemma render_destination:
  assumes "jget params ''destination'' = Some (JStr ''/w/b'')"
  shows "render_authority_resource jshow ''artifact-relay:${destination}'' params = Inr ''artifact-relay:/w/b''"
proof -
  have one: "split_open ''artifact-relay:${destination}'' = Some (''artifact-relay:'', ''destination}'')"
    "split_once (CHR ''}'') ''destination}'' = Some (''destination'', [])" "split_open ''artifact-relay:/w/b'' = None"
    by simp_all
  have "authority_loop jshow ''artifact-relay:${destination}'' params ''artifact-relay:/w/b'' = Some (Inr ''artifact-relay:/w/b'')"
    by (subst authority_loop.simps) (simp add: one)
  then have "authority_loop jshow ''artifact-relay:${destination}'' params ''artifact-relay:${destination}'' = Some (Inr ''artifact-relay:/w/b'')"
    by (subst authority_loop.simps) (simp add: one assms display_text_def)
  then show ?thesis by (simp add: render_authority_resource_def)
qed

lemma demo_env_more:
  "xe_platform demo_exec_env = Linux" "xe_base64_encode demo_exec_env = id" "xe_io demo_exec_env n = None" "xe_base64 demo_exec_env = Inr"
  by (simp_all add: demo_exec_env_def)

lemma demo_holds:
  "holds_file (demo_fleet ''s'') ''/w'' ''a.txt''" "holds_file (demo_fleet ''d'') ''/w/t'' ''a.txt''"
  "contents_of (demo_fleet ''d'') ''/w/t'' ''a.txt'' = []" "contents_of (demo_fleet ''s'') ''/w'' ''a.txt'' = ''2''"
proof -
  have "tree_ok demo_target"
  proof -
    have "bt_wf demo_target" by (simp add: demo_target_def bt_wf_def)
    moreover have "p = [''/''] \<or> (\<exists>q. path_parent p = Some q \<and> node_at demo_target q = Some Dir)" if "node_at demo_target p \<noteq> None" for p
      using that by (auto simp: demo_target_def bt_get_def path_parent_def split: if_splits)
    ultimately show ?thesis by (auto simp: tree_ok_def demo_target_def bt_get_def)
  qed
  then show "holds_file (demo_fleet ''s'') ''/w'' ''a.txt''" "holds_file (demo_fleet ''d'') ''/w/t'' ''a.txt''"
    "contents_of (demo_fleet ''d'') ''/w/t'' ''a.txt'' = []" "contents_of (demo_fleet ''s'') ''/w'' ''a.txt'' = ''2''"
    using demo_tree
    by (simp_all add: holds_file_def contents_of_def demo_fleet_def demo_exec_def file_path_def components_def safe_relative_def Let_def
        plain_def path_absolute_def proper_name_def is_normal_def under_roots_def path_within_def demo_files_def demo_target_def bt_get_def is_file_def)
qed

lemma demo_relay_read:
  "\<exists>v x'. fleet_call (\<lambda>_ _. demo_exec_env) ''s'' ''artifact.relay.read'' (read_request ''/w'' ''a.txt'' 0) demo_fleet = (Inr v, demo_fleet(''s'' := x'))"
proof -
  let ?params = "read_request ''/w'' ''a.txt'' 0" and ?env = demo_exec_env
  obtain t where t: "capacity_try_acquire (execution_class_of ''artifact.relay.read'' ?params) (xr_execution (demo_fleet ''s'')) = Inr t"
    using demo_capacity by blast
  have r: "requested_resources ?env ''artifact.relay.read'' ?params (demo_fleet ''s''\<lparr>xr_execution := t\<rparr>) = Inr []"
    by (simp add: requested_resources_def demo_env_more relay_contracts relay_terms canonical_action_def)
  obtain s where b: "resources_begin (xe_sha ?env) (xe_clock ?env) (xe_io ?env 0) [] (unwrap_or [] (get_array ?params ''_resourceLeases''))
      (xr_resources (demo_fleet ''s'')) = (Inr [], s)"
    by (simp add: resources_begin_def read_request_def get_array_def bt_get_def Let_def)
  let ?x = "demo_fleet ''s''\<lparr>xr_execution := t, xr_resources := s\<rparr>"
  have a: "enforce_authority ?env ''artifact.relay.read'' ?params ?x = (Inr (), ?x)"
    by (simp add: enforce_authority_def demo_env_more relay_contracts relay_terms split: option.splits)
  have g: "get_str ?params ''path'' = Some ''/w''" "required_str ?params ''relativePath'' = Inr ''a.txt''"
    by (simp_all add: read_request_def get_str_def bt_get_def required_str_def)
  note h = holds_file_path [OF demo_holds(1) demo_resolves [folded demo_env(1)] g(1), of ?x]
  obtain v where v: "relay_read ?env ?params ?x = Inr v"
    using h g holds_file_node [OF demo_holds(1)]
    by (simp add: relay_read_def read_block_def Let_def open_file_def read_file_def os_call_def ok_or_def demo_os_def file_path_def)
  show ?thesis
    using fleet_succeeds [where e = "\<lambda>_ _. ?env" and executor = "''s''" and w = demo_fleet, OF t _ _ _ r b a]
    by (auto simp: v protected_def)
qed

lemma demo_relay_write:
  assumes "w ''d'' = demo_fleet ''d''"
  shows "\<exists>v x'. fleet_call (\<lambda>_ _. demo_exec_env) ''d'' ''artifact.relay.write''
    (write_request demo_transfer_env ''/w/b'' ''/w/t'' demo_grant ''a.txt'' 0 (JStr ''2'')) w = (Inr v, w(''d'' := x'))"
proof -
  let ?params = "write_request demo_transfer_env ''/w/b'' ''/w/t'' demo_grant ''a.txt'' 0 (JStr ''2'')" and ?env = demo_exec_env
  obtain t where t: "capacity_try_acquire (execution_class_of ''artifact.relay.write'' ?params) (xr_execution (w ''d'')) = Inr t"
    using demo_capacity assms by metis
  have d: "jget ?params ''destination'' = Some (JStr ''/w/b'')" by (simp add: write_request_def staged_def bt_get_def)
  have own: "replace_all ''${executorId}'' (xr_id (w ''d''\<lparr>xr_execution := t\<rparr>)) ''artifact-relay:${destination}'' = ''artifact-relay:${destination}''"
    by (simp add: assms demo_fleet_def demo_exec_def)
  have locks: "map (\<lambda>l. replace_all ''${executorId}'' i (lock_key l)) (cap_locks (contract Linux ''artifact.relay.write'' EffectMutating)) =
      map (replace_all ''${executorId}'' i) [''artifact-relay:${destination}'']" for i
    using arg_cong [OF relay_terms(4) [of Linux], of "map (replace_all ''${executorId}'' i)"] by (simp add: comp_def)
  have r: "requested_resources ?env ''artifact.relay.write'' ?params (w ''d''\<lparr>xr_execution := t\<rparr>) =
      Inr [''artifact-relay:/w/b'', ''artifact-relay:/w/b'']"
    unfolding requested_resources_def Let_def
    by (simp add: demo_env_more relay_contracts relay_terms(3) locks own [simplified] render_destination [OF d] canonical_action_def)
  obtain s where b: "resources_begin (xe_sha ?env) (xe_clock ?env) (xe_io ?env 0) [''artifact-relay:/w/b'', ''artifact-relay:/w/b'']
      (unwrap_or [] (get_array ?params ''_resourceLeases'')) (xr_resources (w ''d'')) = (Inr [''artifact-relay:/w/b''], s)"
    by (simp add: resources_begin_def write_request_def staged_def get_array_def bt_get_def Let_def assms demo_fleet_def resources_default_def
        available_def relay_grant_def relay_owner_def relay_resource_def demo_transfer_env_def demo_grant_def jindex_def string_param_def
        get_str_def validate_def relay_demo_lease_def token_matches_def resources_persist_def demo_env_more)
  let ?x = "w ''d''\<lparr>xr_execution := t, xr_resources := s\<rparr>"
  have a: "enforce_authority ?env ''artifact.relay.write'' ?params ?x = (Inr (), ?x)"
    by (simp add: enforce_authority_def demo_env_more relay_contracts relay_terms(3) canonical_action_def split: option.splits)
  have g: "get_str ?params ''staging'' = Some ''/w/t''" "get_str ?params ''relativePath'' = Some ''a.txt''"
    "get_u64 ?params ''offset'' = Some 0" "get_str ?params ''data'' = Some ''2''"
    by (simp_all add: write_request_def staged_def get_str_def get_u64_def bt_get_def junum_def)
  note h = holds_file_path [OF demo_holds(2) demo_resolves [folded demo_env(1)] g(1), of ?x]
  obtain v z where v: "relay_write ?env ?params ?x = (Inr v, z)"
    using h g holds_file_node [OF demo_holds(2)] assms
    by (simp add: relay_write_def write_block_def required_str_def open_file_def write_at_def os_call_def ok_or_def demo_os_def file_path_def
        fs_step_def demo_env_more)
  show ?thesis
    using fleet_succeeds [where e = "\<lambda>_ _. ?env" and executor = "''d''" and w = w, OF t _ _ _ r b a]
    by (auto simp: v protected_def)
qed

theorem relayed_file_identical_witness:
  "\<exists>w'. file_chunks (fleet_call (\<lambda>_ _. demo_exec_env)) demo_transfer_env ''s'' ''/w'' ''d'' ''/w/b'' ''/w/t'' demo_grant ''a.txt'' 1 0 demo_fleet =
     (Inr (), w') \<and> node_at (xr_files (w' ''d'')) [''/'', ''w'', ''t'', ''a.txt''] = Some (File ''2'')"
proof -
  let ?call = "fleet_call (\<lambda>_ _. demo_exec_env)"
  obtain v x where r: "?call ''s'' ''artifact.relay.read'' (read_request ''/w'' ''a.txt'' 0) demo_fleet = (Inr v, demo_fleet(''s'' := x))"
    using demo_relay_read by blast
  have hyps: "''s'' \<noteq> ''d''" "resolves (xe_os demo_exec_env)" "xe_base64_encode demo_exec_env = id" "xe_base64 demo_exec_env (id data) = Inr data" for data
    using demo_resolves by (simp_all add: demo_env_more)
  have "fleet_ready (\<lambda>_ _. demo_exec_env) id ''s'' ''/w'' ''d'' ''/w/t'' ''a.txt'' (xr_files (demo_fleet ''s'')) (node_at (xr_files (demo_fleet ''d''))) demo_fleet"
    using hyps demo_holds by (simp add: fleet_ready_def)
  from fleet.reads [OF this r] have v: "get_u64 v ''bytes'' = Some 1" "jindex v ''data'' = JStr ''2''"
    by (simp_all add: demo_holds block_at_def)
  obtain u y where w: "?call ''d'' ''artifact.relay.write'' (write_request demo_transfer_env ''/w/b'' ''/w/t'' demo_grant ''a.txt'' 0 (JStr ''2''))
      (demo_fleet(''s'' := x)) = (Inr u, demo_fleet(''s'' := x, ''d'' := y))"
    using demo_relay_write [of "demo_fleet(''s'' := x)"] by auto
  have one: "sat_add 0 (1 :: u64) = 1" by (simp add: sat_add_def)
  have last: "file_chunks ?call demo_transfer_env ''s'' ''/w'' ''d'' ''/w/b'' ''/w/t'' demo_grant ''a.txt'' 1 1 w = (Inr (), w)" for w
    by (subst file_chunks.simps) simp
  have "file_chunks ?call demo_transfer_env ''s'' ''/w'' ''d'' ''/w/b'' ''/w/t'' demo_grant ''a.txt'' 1 0 demo_fleet =
      (Inr (), demo_fleet(''s'' := x, ''d'' := y))"
    by (subst file_chunks.simps) (use r v w in \<open>simp add: read_request_def write_request_def one last\<close>)
  moreover have "unat (1 :: u64) = length (contents_of (demo_fleet ''s'') ''/w'' ''a.txt'')" by (simp add: demo_holds(4))
  ultimately show ?thesis
    using relayed_file_identical [where e = "\<lambda>_ _. demo_exec_env" and encode = id, OF hyps demo_holds(1-3)]
    by (fastforce simp: demo_holds file_path_def components_def demo_fleet_def demo_exec_files demo_node)
qed

end
