(* ===== verification/Driver_Properties.thy ===== *)
theory Driver_Properties
  imports Record_History
begin

section \<open>Who may write: properties of drivers, leases and handoffs\<close>

text \<open>
  What \<^verbatim>\<open>Driver\<close> guarantees. The handlers are reduced to moves (steps of the lease table, writes of
  the file, other changes); the invariant \<open>ctl_wf\<close> says the file never runs ahead of the memory;
  with the other action groups this makes the Controller a store of fenced leases
  (\<^verbatim>\<open>Controller_Properties\<close>).
\<close>

subsection \<open>Steps of a handler\<close>

text \<open>
  A handler only ever takes a step of the lease table, writes the state file, or changes
  something that is neither the leases nor the file. Each handler is such a sequence of moves,
  and what matters about leases and their file is invariant under a move.
\<close>

inductive ctl_move :: "(string \<Rightarrow> string) \<Rightarrow> controller \<Rightarrow> controller \<Rightarrow> bool" for sha where
  move_lease: "lease_step sha (ctl_leases c) t \<Longrightarrow> ctl_move sha c (c\<lparr>ctl_leases := t\<rparr>)"
| move_persist: "env_sha env = sha \<Longrightarrow> ctl_move sha c (snd (persist env now io c))"
| move_other: "ctl_leases c' = ctl_leases c \<Longrightarrow> ctl_disk c' = ctl_disk c \<Longrightarrow> history c c' \<Longrightarrow> ctl_move sha c c'"

abbreviation ctl_moves :: "(string \<Rightarrow> string) \<Rightarrow> controller \<Rightarrow> controller \<Rightarrow> bool" where
  "ctl_moves sha \<equiv> (ctl_move sha)\<^sup>*\<^sup>*"

text \<open>The table a restart would load, and the invariant: the file never runs ahead of the memory.\<close>

definition disk_table :: "controller \<Rightarrow> lease_table" where
  "disk_table c = (case ctl_disk c of
       None \<Rightarrow> lease_table_default
     | Some st \<Rightarrow> from_snapshot (ws_leases st) (ws_lease_fences st))"

lemma disk_table_cong: "ctl_disk c' = ctl_disk c \<Longrightarrow> disk_table c' = disk_table c"
  by (simp add: disk_table_def)

definition ctl_wf :: "controller \<Rightarrow> bool" where
  "ctl_wf c = (lt_wf (ctl_leases c) \<and> lt_wf (disk_table c)
     \<and> (\<forall>st. ctl_disk c = Some st \<longrightarrow> bt_wf (ws_lease_fences st))
     \<and> (\<forall>r. fence_of (disk_table c) r \<le> fence_of (ctl_leases c) r))"

lemma persist_eq:
  "ctl_leases (snd (persist env now io c)) = ctl_leases c"
  "io = Some e \<Longrightarrow> ctl_disk (snd (persist env now io c)) = ctl_disk c"
  "io = None \<Longrightarrow> disk_table (snd (persist env now io c)) = restart_table (env_sha env) (ctl_leases c)"
  "is_ok (fst (persist env now io c)) \<longleftrightarrow> io = None"
  "io = None \<Longrightarrow> ctl_disk (snd (persist env now io c)) = Some st \<Longrightarrow> ws_lease_fences st = lt_fences (ctl_leases c)"
  by (auto simp: persist_def Let_def disk_table_def restart_table_def fence_snapshot_def split: option.splits)

lemma fence_of_load:
  "maps_wf t \<Longrightarrow> fence_of (load_lease l t) r = (if r = lease_resource l then max (fence_of t r) (lease_fence l) else fence_of t r)"
  by (auto simp: load_lease_def Let_def fence_of_def bt_simps maps_wf_def)

lemma fence_of_load_bound:
  "maps_wf t \<Longrightarrow> fence_of t r \<le> f \<Longrightarrow> (\<And>l. l \<in> set ls \<Longrightarrow> lease_resource l = r \<Longrightarrow> lease_fence l \<le> f)
     \<Longrightarrow> fence_of (fold load_lease ls t) r \<le> f"
proof (induction ls arbitrary: t)
  case (Cons l ls)
  have "fence_of (load_lease l t) r \<le> f"
    using Cons.prems by (auto simp: fence_of_load)
  with Cons show ?case by (simp add: maps_wf_load)
qed simp

lemma fence_of_restart_eq:
  assumes "lt_wf t"
  shows "fence_of (restart_table sha t) r = fence_of t r"
proof (rule antisym)
  have "lease_fence l \<le> fence_of t r" if "l \<in> set (lease_persistence_snapshot sha t)" "lease_resource l = r" for l
  proof -
    from that assms obtain l0 where "l = hide_token sha l0" "bt_get (lt_leases t) r = Some l0"
      by (force simp: lease_persistence_snapshot_def bt_values_def lt_wf_def bt_entry_iff list_all_iff lease_ok_def)
    with lt_wf_fence [OF assms, of r l0] show ?thesis by (simp add: lease_get_def)
  qed
  then show "fence_of (restart_table sha t) r \<le> fence_of t r"
    unfolding restart_table_def from_snapshot_def
    by (intro fence_of_load_bound) (use assms in \<open>auto simp: maps_wf_def lt_wf_def fence_snapshot_def fence_of_def\<close>)
qed (rule fence_of_restart [OF assms])

lemma ctl_move_wf: "ctl_move sha c c' \<Longrightarrow> ctl_wf c \<Longrightarrow> ctl_wf c'"
proof (induction rule: ctl_move.induct)
  case (move_lease c t)
  then show ?case
    using lease_step_wf lease_step_fence order_trans
    by (fastforce simp: ctl_wf_def disk_table_def)
next
  case (move_persist env c now io)
  then show ?case
  proof (cases io)
    case None
    with move_persist show ?thesis
      by (auto simp: ctl_wf_def persist_eq lt_wf_restart fence_of_restart_eq lt_wfD(2))
  next
    case (Some e)
    with move_persist show ?thesis by (simp add: ctl_wf_def persist_eq disk_table_def)
  qed
next
  case (move_other c' c)
  then show ?case by (simp add: ctl_wf_def disk_table_def)
qed

lemma ctl_move_disk: "ctl_move sha c c' \<Longrightarrow> ctl_wf c \<Longrightarrow> fence_of (disk_table c) r \<le> fence_of (disk_table c') r"
proof (induction rule: ctl_move.induct)
  case (move_persist env c now io)
  then show ?case
    by (cases io) (simp_all add: ctl_wf_def persist_eq fence_of_restart_eq disk_table_cong [OF persist_eq(2)])
qed (simp_all add: disk_table_def)

lemma moves_wf: "ctl_moves sha c c' \<Longrightarrow> ctl_wf c \<Longrightarrow> ctl_wf c'"
  by (induction rule: rtranclp_induct) (auto intro: ctl_move_wf)

lemma moves_disk: "ctl_moves sha c c' \<Longrightarrow> ctl_wf c \<Longrightarrow> fence_of (disk_table c) r \<le> fence_of (disk_table c') r"
  by (induction rule: rtranclp_induct) (auto intro: order_trans ctl_move_disk moves_wf)


lemma moves_fence: "ctl_moves sha c c' \<Longrightarrow> ctl_wf c \<Longrightarrow> fence_of (ctl_leases c) r \<le> fence_of (ctl_leases c') r"
proof (induction rule: rtranclp_induct)
  case (step c1 c2)
  from step(2) moves_wf [OF step(1,4)] have "fence_of (ctl_leases c1) r \<le> fence_of (ctl_leases c2) r"
    by (cases rule: ctl_move.cases) (auto simp: persist_eq ctl_wf_def intro: lease_step_fence)
  with step show ?case by (auto intro: order_trans)
qed simp

lemma moves_history: "ctl_moves sha c c' \<Longrightarrow> history c c'"
proof (induction rule: rtranclp_induct)
  case (step c1 c2)
  from step(2) have "history c1 c2"
    by (cases rule: ctl_move.cases) (auto simp: history_same history_persist)
  with step show ?case by (blast intro: history_trans)
qed simp

lemma sbind_moves:
  "ctl_moves sha c (snd r) \<Longrightarrow> (\<And>a s. r = (Inr a, s) \<Longrightarrow> ctl_moves sha s (snd (f a s))) \<Longrightarrow> ctl_moves sha c (snd (sbind r f))"
  by (cases r; cases "fst r") (auto intro: rtranclp_trans)

lemma leases_moves: "(lease_step sha)\<^sup>*\<^sup>* (ctl_leases c) t \<Longrightarrow> ctl_moves sha c (c\<lparr>ctl_leases := t\<rparr>)"
proof (induction rule: rtranclp_induct)
  case (step t1 t2)
  from move_lease [of sha "c\<lparr>ctl_leases := t1\<rparr>" t2] step show ?case
    by (simp add: rtranclp.rtrancl_into_rtrancl)
qed (simp add: rtranclp.rtrancl_refl move_other r_into_rtranclp)

lemma lease_op_moves:
  "lease_step sha (ctl_leases c) (snd (f (ctl_leases c))) \<Longrightarrow> ctl_moves sha c (snd (lease_op f c))"
  by (auto simp: lease_op_def case_prod_beta intro: leases_moves)

lemma persist_moves: "env_sha env = sha \<Longrightarrow> ctl_moves sha c (snd (persist env now io c))"
  by (blast intro: move_persist)

lemma persist_lease_moves: "env_sha env = sha \<Longrightarrow> ctl_moves sha c (snd (persist_lease env now l c))"
  unfolding persist_lease_def by (rule sbind_moves) (auto intro: persist_moves)

lemma other_moves: "ctl_leases c' = ctl_leases c \<Longrightarrow> ctl_disk c' = ctl_disk c \<Longrightarrow> history c c' \<Longrightarrow> ctl_moves sha c c'"
  by (blast intro: move_other)

lemma refresh_requests_steps: "(lease_step sha)\<^sup>*\<^sup>* t (snd (refresh_requests clk now busy w qs t))"
proof (induction qs arbitrary: clk t)
  case (Cons q qs)
  have "(lease_step sha)\<^sup>*\<^sup>* t (snd (refresh_request (clk 0) now busy w q t))"
    by (auto simp: refresh_request_def intro: step_cancel)
  with Cons [of "snd (refresh_request (clk 0) now busy w q t)" "\<lambda>n. clk (Suc n)"] show ?case
    by (auto simp: case_prod_beta Let_def intro: rtranclp_trans)
qed simp

lemma refreshed_moves: "ctl_moves sha c (snd (refreshed env w c))"
proof -
  let ?t = "snd (refresh_requests (\<lambda>n. env_clock env (n + 2)) (env_clock env 0)
            (workspace_busy c w) w (ws_driver_handoff_requests (ctl_state c)) (ctl_leases c))"
  have "ctl_moves sha c (c\<lparr>ctl_leases := ?t\<rparr>)"
    by (rule leases_moves [OF refresh_requests_steps])
  moreover have "ctl_moves sha (c\<lparr>ctl_leases := ?t\<rparr>) (snd (refreshed env w c))"
    by (rule other_moves) (simp_all add: refreshed_def case_prod_beta Let_def history_same)
  ultimately show ?thesis by (rule rtranclp_trans)
qed

lemma refresh_moves: "env_sha env = sha \<Longrightarrow> ctl_moves sha c (snd (refresh_driver_handoff env w c))"
  by (auto simp: refresh_driver_handoff_def case_prod_beta Let_def intro: refreshed_moves rtranclp_trans persist_moves)

text \<open>
  The bounds under which no counter wraps around during a request: fencing numbers in the lower
  half of their range, and no contract that declares more locks than memory could hold.
\<close>

definition unexhausted :: "controller \<Rightarrow> bool" where
  "unexhausted c = ((\<forall>r. fence_of (ctl_leases c) r < 2 ^ 63)
     \<and> (\<forall>e \<in> set (ws_executors (ctl_state c)). \<forall>cap \<in> set (executor_capabilities e). length (cap_locks cap) < 2 ^ 32))"

lemma unexhausted_fence: "unexhausted c \<Longrightarrow> fence_of (ctl_leases c) r \<noteq> - 1"
proof
  assume u: "unexhausted c" and f: "fence_of (ctl_leases c) r = - 1"
  from u have "fence_of (ctl_leases c) r < 2 ^ 63" by (simp add: unexhausted_def)
  with f show False by simp
qed

lemma unexhausted_cong:
  "fence_of (ctl_leases c') = fence_of (ctl_leases c) \<Longrightarrow> ws_executors (ctl_state c') = ws_executors (ctl_state c)
     \<Longrightarrow> unexhausted c' = unexhausted c"
  by (simp add: unexhausted_def)

lemma persist_executors: "ws_executors (ctl_state (snd (persist env now io c))) = ws_executors (ctl_state c)"
  by (simp add: persist_def Let_def split: option.split)

lemma fence_of_cancel: "fence_of (snd (cancel_handoff now r target t)) = fence_of t"
  by (simp add: cancel_handoff_def Let_def fence_of_same split: option.split)

lemma fence_of_refresh_requests: "fence_of (snd (refresh_requests clk now busy w qs t)) = fence_of t"
  by (induction qs arbitrary: clk t) (simp_all add: refresh_request_def case_prod_beta Let_def fence_of_cancel)

lemma fence_of_refresh: "fence_of (ctl_leases (snd (refresh_driver_handoff env w c))) = fence_of (ctl_leases c)"
  by (simp add: refresh_driver_handoff_def refreshed_def case_prod_beta Let_def persist_eq fence_of_refresh_requests)

lemma skip_fields [simp]:
  "env_sha (skip a b env) = env_sha env" "env_ids (skip a b env) = env_ids env"
  "env_sha (after_refresh c env) = env_sha env"
  by (simp_all add: skip_def after_refresh_def)

text \<open>A handler's updates of other fields are absorbed by the next operation.\<close>

lemma then_moves:
  assumes "ctl_leases c' = ctl_leases c" "ctl_disk c' = ctl_disk c" "history c c'" "env_sha env = sha"
  shows "ctl_moves sha c (snd (persist env now io c'))" "ctl_moves sha c (snd (persist_lease env now l c'))"
    "ctl_moves sha c (snd (refresh_driver_handoff env w c'))"
  using other_moves [OF assms(1-3)] persist_moves [OF assms(4)] persist_lease_moves [OF assms(4)]
    refresh_moves [OF assms(4)]
  by (blast intro: rtranclp_trans)+

lemmas handler_moves = then_moves lease_op_moves

lemma lease_acquire_moves: "unexhausted c \<Longrightarrow> ctl_moves (env_sha env) c (snd (lease_acquire env action params c))"
  unfolding lease_acquire_def
  by (intro sbind_moves)
    (auto simp: Let_def unexhausted_fence intro!: sbind_moves handler_moves lease_step.intros)

lemma lease_renew_moves: "ctl_moves (env_sha env) c (snd (lease_renew env params c))"
  unfolding lease_renew_def
  by (intro sbind_moves) (auto intro!: handler_moves lease_step.intros)

lemma driver_handoff_moves: "ctl_moves (env_sha env) c (snd (driver_handoff env params c))"
  unfolding driver_handoff_def
  by (intro sbind_moves) (auto intro!: handler_moves lease_step.intros)

lemma lease_release_moves: "ctl_moves (env_sha env) c (snd (lease_release env params c))"
  unfolding lease_release_def
  by (intro sbind_moves) (auto intro!: handler_moves lease_step.intros)

lemma driver_take_moves: "unexhausted c \<Longrightarrow> ctl_moves (env_sha env) c (snd (driver_take env params c))"
  unfolding driver_take_def
  by (intro sbind_moves)
    (auto simp: unexhausted_fence intro!: handler_moves lease_step.intros)


lemma lease_status_moves: "ctl_moves sha c (snd (lease_status params c))"
  unfolding lease_status_def by (intro sbind_moves) auto

lemma driver_handoff_status_moves: "ctl_moves (env_sha env) c (snd (driver_handoff_status env params c))"
  unfolding driver_handoff_status_def by (intro sbind_moves) (auto intro!: handler_moves)

lemma add_mutation_same [simp]: "ctl_leases (add_mutation m c) = ctl_leases c" "ctl_disk (add_mutation m c) = ctl_disk c"
  "history c (add_mutation m c)"
  by (simp_all add: add_mutation_def history_same)

lemma remove_mutation_same [simp]:
  "ctl_leases (remove_mutation i c) = ctl_leases c" "ctl_disk (remove_mutation i c) = ctl_disk c"
  "history c (remove_mutation i c)"
  by (simp_all add: remove_mutation_def history_same)

lemma push_handoff_request_same [simp]:
  "ctl_leases (push_handoff_request q c) = ctl_leases c" "ctl_disk (push_handoff_request q c) = ctl_disk c"
  "history c (push_handoff_request q c)"
  by (simp_all add: push_handoff_request_def history_same)

lemma update_handoff_request_same [simp]:
  "ctl_leases (update_handoff_request P f c) = ctl_leases c" "ctl_disk (update_handoff_request P f c) = ctl_disk c"
  "history c (update_handoff_request P f c)"
  by (simp_all add: update_handoff_request_def history_same)

lemma agent_mutation_start_moves: "ctl_moves (env_sha env) c (snd (agent_mutation_start env params c))"
  unfolding agent_mutation_start_def
  by (intro sbind_moves)
    (auto simp: Let_def intro!: sbind_moves handler_moves)

lemma agent_mutation_finish_moves: "ctl_moves (env_sha env) c (snd (agent_mutation_finish env params c))"
  unfolding agent_mutation_finish_def
  by (intro sbind_moves)
    (auto simp: Let_def intro!: sbind_moves handler_moves)

lemma request_driver_handoff_moves: "ctl_moves (env_sha env) c (snd (request_driver_handoff env params c))"
  unfolding request_driver_handoff_def
  by (intro sbind_moves)
    (auto simp: Let_def intro!: sbind_moves handler_moves
       lease_step.intros split: option.split)

lemma driver_handoff_cancel_moves: "ctl_moves (env_sha env) c (snd (driver_handoff_cancel env params c))"
  unfolding driver_handoff_cancel_def
  by (intro sbind_moves)
    (auto simp: Let_def intro!: sbind_moves handler_moves
       lease_step.intros split: option.split)

lemma refresh_unexhausted:
  "refresh_driver_handoff env w c = (r, c') \<Longrightarrow> unexhausted c \<Longrightarrow> fence_of (ctl_leases c') x \<noteq> - 1"
  by (metis fence_of_refresh snd_conv unexhausted_fence)

lemma handoff_grant_step:
  "fence_of t r \<noteq> - 1 \<Longrightarrow> lease_step sha t (snd (handoff_grant ids now r ow ttl q t))"
  by (auto simp: handoff_grant_def intro: lease_step.intros)

lemma driver_handoff_await_moves:
  "unexhausted c \<Longrightarrow> ctl_moves (env_sha env) c (snd (driver_handoff_await env params c))"
  unfolding driver_handoff_await_def
  by (intro sbind_moves, auto simp: Let_def intro!: sbind_moves handler_moves handoff_grant_step split: option.split)
    (blast dest: refresh_unexhausted)+

definition driver_group :: "string list" where
  "driver_group =
     [''driver.status'', ''lease.status'', ''driver.handoff.status'', ''agent.mutation.start'',
      ''agent.mutation.finish'', ''driver.handoff.request'', ''driver.handoff.await'', ''driver.handoff.cancel'',
      ''driver.acquire'', ''lease.acquire'', ''driver.renew'', ''lease.renew'', ''driver.handoff'',
      ''driver.take'', ''driver.release'', ''lease.release'']"

text \<open>The other action groups are a parameter; those whose handlers keep to moves are as good.\<close>

definition moving :: "handler \<Rightarrow> bool" where
  "moving rest = (\<forall>env action params c. unexhausted c \<longrightarrow> ctl_moves (env_sha env) c (snd (rest env action params c)))"

definition driven :: "handler \<Rightarrow> string \<Rightarrow> bool" where
  "driven rest action = (action \<in> set driver_group \<or> moving rest)"

lemma driver_actions_moves:
  assumes "driven rest action" "unexhausted c"
  shows "ctl_moves (env_sha env) c (snd (driver_actions rest env action params c))"
  using assms
  by (auto simp: driver_actions_def driven_def moving_def driver_group_def lease_status_moves driver_handoff_status_moves
      agent_mutation_start_moves agent_mutation_finish_moves request_driver_handoff_moves
      driver_handoff_await_moves driver_handoff_cancel_moves lease_acquire_moves lease_renew_moves
      driver_handoff_moves driver_take_moves lease_release_moves)

lemma dispatch_moves:
  assumes "driven rest action" "unexhausted c"
  shows "ctl_moves (env_sha env) c (snd (dispatch rest env action params c))"
  using driver_actions_moves [OF assms]
  by (simp add: dispatch_def Let_def split: option.split sum.split)

lemma reap_moves: "ctl_moves sha c (c\<lparr>ctl_leases := snd (reap_expired now (ctl_leases c))\<rparr>)"
  by (rule leases_moves) (auto intro: step_reap)

lemma fence_of_reap: "fence_of (snd (reap_expired now t)) = fence_of t"
  by (simp add: reap_expired_def Let_def case_prod_beta fence_of_same)

lemma observe_same [simp]: "ctl_leases (observe ob c) = ctl_leases c" "ctl_disk (observe ob c) = ctl_disk c"
  "history c (observe ob c)"
  by (simp_all add: observe_def history_same)

text \<open>What a request does before its observations are recorded.\<close>

definition handled :: "handler \<Rightarrow> environment \<Rightarrow> request \<Rightarrow> controller \<Rightarrow> (rpc_error + json) \<times> controller" where
  "handled rest env r c =
     (let env1 = env\<lparr>env_trace := Some (request_trace r)\<rparr>;
          (reaped, leases) = reap_expired (env_clock env 0) (ctl_leases c);
          c1 = c\<lparr>ctl_leases := leases\<rparr>
      in if reaped = [] then dispatch rest (skip 2 1 env1) (req_action r) (req_params r) c1
         else sbind (persist env1 (env_clock env 1) (env_io env 0) c1) (\<lambda>_ c.
                    dispatch rest (skip 2 1 env1) (req_action r) (req_params r) c))"

lemma handle_handled:
  assumes "handle rest env stamps elapsed r c = (resp, c')"
  obtains result c2 where "handled rest env r c = (result, c2)"
    "resp = (case result of Inr v \<Rightarrow> response_success (req_request_id r) v
                          | Inl e \<Rightarrow> response_failure (req_request_id r) e)"
    "ctl_leases c' = ctl_leases c2" "ctl_disk c' = ctl_disk c2" "history c2 c'"
proof -
  obtain result c2 where h: "handled rest env r c = (result, c2)" by fastforce
  have o: "history c2 (observe a c2)" "history c2 (observe b (observe a c2))" for a b
    by (simp, rule history_trans [of _ "observe a c2"]) simp_all
  show ?thesis
    by (rule that [OF h]; use assms h in \<open>simp add: handle_def handled_def Let_def case_prod_beta split: option.splits; metis o observe_same\<close>)
qed

lemma handled_moves:
  assumes "driven rest (req_action r)" "unexhausted c"
  shows "ctl_moves (env_sha env) c (snd (handled rest env r c))"
proof -
  let ?c1 = "c\<lparr>ctl_leases := snd (reap_expired (env_clock env 0) (ctl_leases c))\<rparr>"
  let ?env = "skip 2 1 (env\<lparr>env_trace := Some (request_trace r)\<rparr>)"
  have d: "ctl_moves (env_sha env) s (snd (dispatch rest ?env (req_action r) (req_params r) s))"
    if "ctl_leases s = ctl_leases ?c1" "ws_executors (ctl_state s) = ws_executors (ctl_state c)" for s
    using dispatch_moves [OF assms(1), of s ?env] assms(2) that unexhausted_cong [of s c] by (simp add: fence_of_reap)
  have "ctl_moves (env_sha env) ?c1 (snd (handled rest env r c))"
  proof (cases "fst (reap_expired (env_clock env 0) (ctl_leases c)) = []")
    case True
    then show ?thesis using d [of ?c1] by (simp add: handled_def Let_def case_prod_beta)
  next
    case False
    have "ctl_moves (env_sha env) ?c1 (snd (sbind (persist (env\<lparr>env_trace := Some (request_trace r)\<rparr>) (env_clock env 1) (env_io env 0) ?c1)
        (\<lambda>_ c. dispatch rest ?env (req_action r) (req_params r) c)))"
    proof (rule sbind_moves)
      fix a s assume p: "persist (env\<lparr>env_trace := Some (request_trace r)\<rparr>) (env_clock env 1) (env_io env 0) ?c1 = (Inr a, s)"
      show "ctl_moves (env_sha env) s (snd (dispatch rest ?env (req_action r) (req_params r) s))"
        by (rule d) (use p persist_eq(1) persist_executors in \<open>fastforce dest: arg_cong [of _ _ snd]\<close>)+
    qed (auto intro!: handler_moves)
    with False show ?thesis by (simp add: handled_def Let_def case_prod_beta)
  qed
  then show ?thesis by (rule rtranclp_trans [OF reap_moves])
qed


subsection \<open>Restarts\<close>

lemma compact_persisted_evidence_same:
  "ws_leases (snd (compact_persisted_evidence sha jshow st)) = ws_leases st"
  "ws_lease_fences (snd (compact_persisted_evidence sha jshow st)) = ws_lease_fences st"
  by (simp_all add: compact_persisted_evidence_def case_prod_beta Let_def)

lemma open_rest_leases:
  assumes "open_rest env file st0 obs i = Inr c'"
  shows "ctl_leases c' = snd (reap_expired (env_clock env 1) (from_snapshot (ws_leases st0) (ws_lease_fences st0)))"
    and "ctl_disk c' = file \<or> (\<exists>st. ctl_disk c' = Some st
           \<and> ws_leases st = lease_persistence_snapshot (env_sha env) (ctl_leases c')
           \<and> ws_lease_fences st = fence_snapshot (ctl_leases c'))"
  using assms
  by (auto simp: open_rest_def case_prod_beta Let_def compact_persisted_evidence_same
      split: if_splits option.splits)

lemma disk_table_unwrap:
  "disk_table c = from_snapshot (ws_leases (unwrap_or workbench_state_default (ctl_disk c)))
                     (ws_lease_fences (unwrap_or workbench_state_default (ctl_disk c)))"
  by (auto simp: disk_table_def workbench_state_default_def from_snapshot_def lease_table_default_def
      split: option.splits)

lemma open_leases:
  assumes "open_with_id env sz (Inr (ctl_disk c)) obs cfg = Inr c'"
  shows "ctl_leases c' = snd (reap_expired (env_clock env 1) (disk_table c))"
    and "ctl_disk c' = ctl_disk c \<or> (\<exists>st. ctl_disk c' = Some st
           \<and> ws_leases st = lease_persistence_snapshot (env_sha env) (ctl_leases c')
           \<and> ws_lease_fences st = fence_snapshot (ctl_leases c'))"
proof -
  from assms obtain o' i where
    "open_rest env (ctl_disk c) (unwrap_or workbench_state_default (ctl_disk c)) o' i = Inr c'"
    by (auto simp: open_with_id_def Let_def split: option.splits if_splits)
  from open_rest_leases [OF this] show "ctl_leases c' = snd (reap_expired (env_clock env 1) (disk_table c))"
    and "ctl_disk c' = ctl_disk c \<or> (\<exists>st. ctl_disk c' = Some st
           \<and> ws_leases st = lease_persistence_snapshot (env_sha env) (ctl_leases c')
           \<and> ws_lease_fences st = fence_snapshot (ctl_leases c'))"
    by (simp_all add: disk_table_unwrap)
qed

lemma open_disk:
  assumes "open_with_id env sz (Inr (ctl_disk c)) obs cfg = Inr c'"
  shows "disk_table c' = disk_table c \<or> disk_table c' = restart_table (env_sha env) (ctl_leases c')"
  using open_leases(2) [OF assms] by (auto simp: disk_table_def restart_table_def)

lemma restart_wf:
  assumes "ctl_wf c" "open_with_id env sz (Inr (ctl_disk c)) obs cfg = Inr c'"
  shows "ctl_wf c'" "fence_of (disk_table c') r = fence_of (disk_table c) r"
proof -
  have l: "ctl_leases c' = snd (reap_expired (env_clock env 1) (disk_table c))" by (rule open_leases(1) [OF assms(2)])
  have d: "lt_wf (disk_table c)" using assms(1) by (simp add: ctl_wf_def)
  have wf: "lt_wf (ctl_leases c')" using d by (simp add: l lt_wf_reap_expired)
  have f: "fence_of (ctl_leases c') = fence_of (disk_table c)" by (simp add: l fence_of_reap)
  from open_disk [OF assms(2)] show "fence_of (disk_table c') r = fence_of (disk_table c) r"
    by (auto simp: fence_of_restart_eq wf f)
  have "bt_wf (ws_lease_fences st)" if "ctl_disk c' = Some st" for st
    using open_leases(2) [OF assms(2)] that assms(1) wf by (auto simp: ctl_wf_def fence_snapshot_def lt_wfD(2))
  with open_disk [OF assms(2)] show "ctl_wf c'"
    using wf d by (auto simp: ctl_wf_def f fence_of_restart_eq lt_wf_restart)
qed

lemma handle_moves:
  assumes "driven rest (req_action r)" "unexhausted c" "handle rest env stamps elapsed r c = (resp, c')"
  shows "ctl_moves (env_sha env) c c'"
proof -
  from assms(3) obtain result c2 where h: "handled rest env r c = (result, c2)"
      "ctl_leases c' = ctl_leases c2" "ctl_disk c' = ctl_disk c2" "history c2 c'"
    by (rule handle_handled)
  have "ctl_moves (env_sha env) c c2"
    using handled_moves [OF assms(1,2), where env = env] h(1) by simp
  then show ?thesis by (rule rtranclp_trans) (rule other_moves [OF h(2-4)])
qed

subsection \<open>Grants\<close>

definition grant_actions :: "string list" where
  "grant_actions = [''driver.acquire'', ''lease.acquire'', ''driver.take'', ''driver.handoff.await'']"

definition local_request :: "request \<Rightarrow> bool" where
  "local_request r =
     (get_str (req_params r) ''sessionControllerId'' = None \<and>
      (starts_with ''lease.'' (req_action r) \<longrightarrow> get_str (req_params r) ''executorId'' = None
         \<and> (case get_str (req_params r) ''resource'' of None \<Rightarrow> True | Some x \<Rightarrow> starts_with ''workspace:'' x)))"

lemma persist_lease_Inr:
  assumes "persist_lease env now l c = (Inr v, c')"
  shows "v = lease_json l" "ctl_leases c' = ctl_leases c" "disk_table c' = restart_table (env_sha env) (ctl_leases c)"
  using assms
  by (auto simp: persist_lease_def sbind_Inr persist_def Let_def disk_table_def restart_table_def
      fence_snapshot_def split: option.splits)

definition granted :: "environment \<Rightarrow> controller \<Rightarrow> json \<Rightarrow> controller \<Rightarrow> bool" where
  "granted env c v c' = (\<exists>l. v = lease_json l \<and> lease_fence l = fence_of (ctl_leases c) (lease_resource l) + 1
     \<and> lease_get (ctl_leases c') (lease_resource l) = Some l
     \<and> disk_table c' = restart_table (env_sha env) (ctl_leases c'))"

lemma acquire_lease_get:
  "lt_wf t \<Longrightarrow> acquire now u1 u2 kind r ow ttl t = (Inr l, t') \<Longrightarrow> lease_get t' r = Some l"
  by (auto simp: acquire_def Let_def lease_get_def bt_simps lt_wfD(1) split: option.splits if_splits)

lemma grant_op:
  assumes "lt_wf (ctl_leases c)" "lease_op f c = (Inr l, c1)"
    and "f = acquire now u1 u2 kind r ow ttl \<or> f = take_handoff now u1 r ow ttl"
  shows "lease_fence l = fence_of (ctl_leases c) r + 1" "lease_resource l = r" "lease_owner l = ow"
    "lease_get (ctl_leases c1) r = Some l" "lt_wf (ctl_leases c1)"
proof -
  obtain t' where f: "f (ctl_leases c) = (Inr l, t')" and c1: "ctl_leases c1 = t'"
    using assms(2) by (auto simp: lease_op_def case_prod_beta Let_def) (metis prod.collapse)
  have wf: "lt_wf t'"
    using assms(3) f lt_wf_acquire [OF assms(1)] lt_wf_take_handoff [OF assms(1)] by (metis snd_conv)
  from assms(3) have "lease_fence l = fence_of (ctl_leases c) r + 1 \<and> lease_owner l = ow \<and> lease_get t' r = Some l"
  proof
    assume a: "f = acquire now u1 u2 kind r ow ttl"
    with f acquire_Inr [of now u1 u2 kind r ow ttl "ctl_leases c" l] acquire_lease_get [OF assms(1)] show ?thesis by simp
  next
    assume "f = take_handoff now u1 r ow ttl"
    with f have "take_handoff now u1 r ow ttl (ctl_leases c) = (Inr l, t')" by simp
    from take_handoff_Inr [OF assms(1) this] show ?thesis by simp
  qed
  with wf c1 show "lease_fence l = fence_of (ctl_leases c) r + 1" "lease_resource l = r" "lease_owner l = ow"
      "lease_get (ctl_leases c1) r = Some l" "lt_wf (ctl_leases c1)"
    by (auto simp: lease_get_def lt_wfD(3))
qed


lemma grant_lease:
  assumes "lt_wf (ctl_leases c)" "f = acquire now u1 u2 kind r ow ttl \<or> f = take_handoff now u1 r ow ttl"
    and "lease_op f c = (Inr l, c1)" "ctl_leases c2 = ctl_leases c1" "persist_lease env now' l c2 = (Inr v, c')"
  shows "granted env c v c'"
  using grant_op [OF assms(1,3,2)] persist_lease_Inr [OF assms(5)] assms(4)
  by (auto simp: granted_def)

lemma granted_acquire:
  assumes "lt_wf (ctl_leases c)" "lease_acquire env a p c = (Inr v, c')"
  shows "granted env c v c'"
  using assms(2) grant_lease [OF assms(1) disjI1 [OF refl]]
  by (auto simp: lease_acquire_def sbind_Inr Let_def split: if_splits)

lemma granted_take:
  assumes "lt_wf (ctl_leases c)" "driver_take env p c = (Inr v, c')"
  shows "granted env c v c'"
  using assms(2) grant_lease [OF assms(1) disjI1 [OF refl]] grant_lease [OF assms(1) disjI2 [OF refl]]
  by (auto simp: driver_take_def sbind_Inr Let_def split: if_splits)

lemma refresh_wf: "lt_wf (ctl_leases c) \<Longrightarrow> lt_wf (ctl_leases (snd (refresh_driver_handoff env w c)))"
  by (simp add: refresh_driver_handoff_def refreshed_def case_prod_beta Let_def persist_eq
      lt.inv_steps [OF refresh_requests_steps])

lemma await_Inr:
  assumes "driver_handoff_await env p c = (Inr v, c')"
  obtains w ow c1 q l c2 where "required_str p ''workspaceSessionId'' = Inr w" "required_str p ''owner'' = Inr ow"
    "refresh_driver_handoff env w c = (Inr (), c1)"
    "find_last (awaitable w ow) (ws_driver_handoff_requests (ctl_state c1)) = Some q" "dh_state q = DhReady"
    "lease_op (handoff_grant (env_ids env) (env_clock (after_refresh c1 env) 0) (''workspace:'' @ w) ow (ttl_param p) q) c1
       = (Inr l, c2)"
    "persist_lease (after_refresh c1 env) (env_clock (after_refresh c1 env) 2) l
       (update_handoff_request (awaitable w ow) (complete_request (env_clock (after_refresh c1 env) 1)) c2) = (Inr v, c')"
  using assms unfolding driver_handoff_await_def Let_def sbind_Inr
  by (force split: option.splits if_splits simp: sbind_Inr)

lemma grant_handoff:
  assumes "lt_wf (ctl_leases c)" "lease_op (handoff_grant ids now r ow ttl q) c = (Inr l, c1)"
    and "ctl_leases c2 = ctl_leases c1" "persist_lease env now' l c2 = (Inr v, c')"
  shows "granted env c v c'"
proof (rule grant_lease [OF assms(1) _ assms(2-4)])
  show "handoff_grant ids now r ow ttl q = acquire now (ids 0) (ids 1) LeaseDriver r ow ttl
        \<or> handoff_grant ids now r ow ttl q = take_handoff now (ids 0) r ow ttl"
    by (simp add: handoff_grant_def)
qed

lemma granted_await:
  assumes "lt_wf (ctl_leases c)" "driver_handoff_await env p c = (Inr v, c')"
  shows "granted env c v c'"
  using assms(2)
proof (rule await_Inr)
  fix w ow c1 q l c2
  assume c1: "refresh_driver_handoff env w c = (Inr (), c1)"
    and op: "lease_op (handoff_grant (env_ids env) (env_clock (after_refresh c1 env) 0) (''workspace:'' @ w) ow (ttl_param p) q) c1
       = (Inr l, c2)"
    and pl: "persist_lease (after_refresh c1 env) (env_clock (after_refresh c1 env) 2) l
       (update_handoff_request (awaitable w ow) (complete_request (env_clock (after_refresh c1 env) 1)) c2) = (Inr v, c')"
  have "fence_of (ctl_leases c1) = fence_of (ctl_leases c)" "lt_wf (ctl_leases c1)"
    using fence_of_refresh [of env w c] refresh_wf [OF assms(1), of env w] c1 by simp_all
  with grant_handoff [OF _ op _ pl] show ?thesis by (simp add: granted_def)
qed

lemma local_route:
  "get_str p ''sessionControllerId'' = None \<Longrightarrow> route_session_action env a p c = Inr x \<Longrightarrow> x = None"
  by (auto simp: route_session_action_def Let_def split: if_splits option.splits)

lemma workspace_not_executor:
  assumes "get_str p ''executorId'' = None" "get_str p ''resource'' = Some x" "starts_with ''workspace:'' x"
  shows "resource_executor c p = None"
proof -
  from assms(3) obtain w where "x = ''workspace:'' @ w" by (auto simp: starts_with_iff)
  with assms show ?thesis by (simp add: resource_executor_def executor_resource_kinds_def)
qed

lemma local_dispatch:
  assumes "local_request r" "req_action r \<in> set driver_group"
    and "dispatch rest env (req_action r) (req_params r) c = (Inr v, c')"
  shows "driver_actions rest env (req_action r) (req_params r) c = (Inr v, c')"
proof -
  have d: "\<not> starts_with ''desktop.'' (req_action r)"
    using assms(2) by (auto simp: driver_group_def)
  show ?thesis
  proof (cases "starts_with ''lease.'' (req_action r)")
    case True
    with assms(1) have e: "get_str (req_params r) ''executorId'' = None"
      by (simp add: local_request_def)
    show ?thesis
    proof (cases "get_str (req_params r) ''resource''")
      case None
      with e have "resource_executor c (req_params r) = None" by (simp add: resource_executor_def)
      with None True assms(3) show ?thesis by (simp add: dispatch_def)
    next
      case (Some x)
      with assms(1) True have "starts_with ''workspace:'' x" by (simp add: local_request_def)
      with assms True Some workspace_not_executor [OF e Some] d show ?thesis
        by (auto simp: dispatch_def local_request_def dest: local_route split: option.splits sum.splits)
    qed
  next
    case False
    with assms d show ?thesis
      by (auto simp: dispatch_def local_request_def dest: local_route split: option.splits sum.splits)
  qed
qed

lemma granted_dispatch:
  assumes "lt_wf (ctl_leases c)" "local_request r" "req_action r \<in> set grant_actions"
    and "dispatch rest env (req_action r) (req_params r) c = (Inr v, c')"
  shows "granted env c v c'"
proof -
  have "req_action r \<in> set driver_group" using assms(3) by (auto simp: grant_actions_def driver_group_def)
  with local_dispatch [OF assms(2) _ assms(4)]
  have "driver_actions rest env (req_action r) (req_params r) c = (Inr v, c')" by blast
  with assms(3) show ?thesis
    by (auto simp: grant_actions_def driver_actions_def intro: granted_acquire [OF assms(1)]
        granted_take [OF assms(1)] granted_await [OF assms(1)])
qed

lemma granted_handled:
  assumes "lt_wf (ctl_leases c)" "local_request r" "req_action r \<in> set grant_actions"
    and "handled rest env r c = (Inr v, c')"
  shows "granted env c v c'"
proof -
  let ?t = "snd (reap_expired (env_clock env 0) (ctl_leases c))"
  let ?env = "skip 2 1 (env\<lparr>env_trace := Some (request_trace r)\<rparr>)"
  obtain c1 where "dispatch rest ?env (req_action r) (req_params r) c1 = (Inr v, c')" "ctl_leases c1 = ?t"
  proof (cases "fst (reap_expired (env_clock env 0) (ctl_leases c)) = []")
    case True
    with assms(4) that [of "c\<lparr>ctl_leases := ?t\<rparr>"] show thesis
      by (simp add: handled_def Let_def case_prod_beta)
  next
    case False
    with assms(4) obtain a c1 where
      "persist (env\<lparr>env_trace := Some (request_trace r)\<rparr>) (env_clock env 1) (env_io env 0) (c\<lparr>ctl_leases := ?t\<rparr>) = (Inr a, c1)"
      "dispatch rest ?env (req_action r) (req_params r) c1 = (Inr v, c')"
      by (auto simp: handled_def Let_def case_prod_beta sbind_Inr)
    with that [of c1] persist_eq(1) [of "env\<lparr>env_trace := Some (request_trace r)\<rparr>" "env_clock env 1" "env_io env 0"
      "c\<lparr>ctl_leases := ?t\<rparr>"] show thesis by simp
  qed
  then have "granted ?env c1 v c'"
    using granted_dispatch [OF _ assms(2,3)] assms(1) by (metis lt_wf_reap_expired)
  with \<open>ctl_leases c1 = ?t\<close> show ?thesis by (simp add: granted_def fence_of_reap)
qed

lemma jopt_JStr_inject: "jopt JStr a = jopt JStr b \<longleftrightarrow> a = b"
  by (cases a; cases b) (simp_all add: jopt_def)

lemma lease_kind_name_inject: "lease_kind_name a = lease_kind_name b \<longleftrightarrow> a = b"
  by (cases a; cases b) simp_all

lemma lease_json_inject: "lease_json a = lease_json b \<Longrightarrow> a = b"
  by (cases a; cases b) (simp add: lease_json_def junum_def jopt_JStr_inject lease_kind_name_inject)

lemma granted_handle:
  assumes "lt_wf (ctl_leases c)" "local_request r" "req_action r \<in> set grant_actions"
    and "handle rest env stamps elapsed r c = (resp, c')" "resp_result resp = Some (lease_json l)"
  shows "lease_fence l = fence_of (ctl_leases c) (lease_resource l) + 1"
    "lease_get (ctl_leases c') (lease_resource l) = Some l"
    "disk_table c' = restart_table (env_sha env) (ctl_leases c')"
proof -
  from assms(4) obtain result c2 where h: "handled rest env r c = (result, c2)"
    "resp = (case result of Inr v \<Rightarrow> response_success (req_request_id r) v
                          | Inl e \<Rightarrow> response_failure (req_request_id r) e)"
    "ctl_leases c' = ctl_leases c2" "ctl_disk c' = ctl_disk c2"
    by (rule handle_handled)
  with assms(5) have "result = Inr (lease_json l)"
    by (auto simp: response_success_def response_failure_def split: sum.splits)
  with h(1) granted_handled [OF assms(1-3)] have "granted env c (lease_json l) c2" by blast
  then show "lease_fence l = fence_of (ctl_leases c) (lease_resource l) + 1"
    "lease_get (ctl_leases c') (lease_resource l) = Some l"
    "disk_table c' = restart_table (env_sha env) (ctl_leases c')"
    using h(3) disk_table_cong [OF h(4)] by (auto simp: granted_def dest!: lease_json_inject)
qed

subsection \<open>Facts about refreshes and errors\<close>

lemma validate_cong_get:
  "lease_get t r = lease_get t' r \<Longrightarrow> validate sha now t r ow tok = validate sha now t' r ow tok"
  by (simp add: validate_def lease_get_def)

lemma reap_validate:
  "lt_wf t \<Longrightarrow> now \<le> now' \<Longrightarrow> validate sha now' (snd (reap_expired now t)) r ow tok = validate sha now' t r ow tok"
  using reap_get [of t now r] by (auto simp: validate_def lease_get_def split: option.splits if_splits)


lemma refresh_requests_keeps:
  assumes "q \<in> set qs" "dh_active (dh_state q)" "now < dh_expires_at q"
  shows "\<exists>q' \<in> set (snd (fst (refresh_requests clk now busy w qs t))).
     dh_workspace_session_id q' = dh_workspace_session_id q \<and> dh_previous_owner q' = dh_previous_owner q
     \<and> dh_expires_at q' = dh_expires_at q \<and> dh_active (dh_state q')"
  using assms
proof (induction qs arbitrary: clk t)
  case (Cons x qs)
  show ?case
  proof (cases "x = q")
    case True
    with Cons.prems show ?thesis
      by (auto simp: case_prod_beta Let_def refresh_request_def)
  next
    case False
    with Cons show ?thesis by (auto simp: case_prod_beta Let_def)
  qed
qed simp

lemma persist_requests:
  "ws_driver_handoff_requests (ctl_state (snd (persist env now io c))) = ws_driver_handoff_requests (ctl_state c)"
  by (simp add: persist_def Let_def split: option.split)

lemma refresh_keeps:
  assumes "q \<in> set (ws_driver_handoff_requests (ctl_state c))" "dh_active (dh_state q)" "env_clock env 0 < dh_expires_at q"
  shows "\<exists>q' \<in> set (ws_driver_handoff_requests (ctl_state (snd (refresh_driver_handoff env w c)))).
     dh_workspace_session_id q' = dh_workspace_session_id q \<and> dh_previous_owner q' = dh_previous_owner q
     \<and> dh_expires_at q' = dh_expires_at q \<and> dh_active (dh_state q')"
  using refresh_requests_keeps [OF assms]
  by (simp add: refresh_driver_handoff_def refreshed_def case_prod_beta Let_def persist_requests)

lemma refresh_requests_active:
  "q' \<in> set (snd (fst (refresh_requests clk now busy w qs t))) \<Longrightarrow> dh_active (dh_state q') \<Longrightarrow>
     \<exists>q \<in> set qs. dh_active (dh_state q) \<and> dh_workspace_session_id q = dh_workspace_session_id q'
        \<and> dh_requested_by q = dh_requested_by q' \<and> dh_previous_owner q = dh_previous_owner q'"
proof (induction qs arbitrary: clk t)
  case (Cons x qs)
  then show ?case
    by (auto simp: case_prod_beta Let_def refresh_request_def split: if_splits)
qed simp

lemma refresh_requests_None:
  "lt_wf t \<Longrightarrow> lease_get t r = None \<Longrightarrow> lease_get (snd (refresh_requests clk now busy w qs t)) r = None"
proof (induction qs arbitrary: clk t)
  case (Cons x qs)
  have "lease_get (snd (refresh_request (clk 0) now busy w x t)) r = None"
    using Cons.prems
    by (auto simp: refresh_request_def cancel_handoff_def Let_def put_lease_def lease_get_def bt_simps lt_wfD(1)
        split: option.splits)
  moreover have "lt_wf (snd (refresh_request (clk 0) now busy w x t))"
    using Cons.prems by (auto simp: refresh_request_def intro: wf_intros)
  ultimately show ?case using Cons.IH by (simp add: case_prod_beta Let_def)
qed simp

lemma workspace_order: "starts_with ''workspace:'' x \<Longrightarrow> \<not> lease_order_violated c x ow"
  by (auto simp: lease_order_violated_def list_ex_iff lease_order_rank_def)

lemma lease_error_code_order: "lease_error_code e \<noteq> ''LEASE_ORDER_VIOLATION''"
  by (cases e) simp_all

lemma lease_acquire_workspace_code:
  assumes "get_str p ''resource'' = Some x" "starts_with ''workspace:'' x" "fst (lease_acquire env a p c) = Inl e"
  shows "err_code e \<noteq> ''LEASE_ORDER_VIOLATION''"
  using assms workspace_order [OF assms(2)]
  by (auto simp: lease_acquire_def required_str_def Let_def lease_op_def persist_lease_def persist_def map_lease_error_def
      lease_error_code_order sbind_def case_prod_beta map_err_def split: option.splits sum.splits if_splits)

lemma local_route_code:
  "get_str p ''sessionControllerId'' = None \<Longrightarrow> route_session_action env a p c = Inl e \<Longrightarrow>
     err_code e = ''SESSION_REMOTE_REFERENCE_REQUIRED''"
  by (auto simp: route_session_action_def Let_def split: if_splits option.splits)

subsection \<open>A concrete run\<close>

definition demo_codec :: codecs where
  "demo_codec =
     \<lparr>dec_session = (\<lambda>_. Inl []), enc_session = (\<lambda>_. JNull), dec_session_state = (\<lambda>_. Inl []), dec_artifact = (\<lambda>_. Inl []),
      enc_artifact = (\<lambda>_. JNull), dec_generation = (\<lambda>_. Inl []), enc_generation = (\<lambda>_. JNull), dec_agent = (\<lambda>_. Inl []),
      enc_agent = (\<lambda>_. JNull), dec_agent_state = (\<lambda>_. Inl []), dec_executor = (\<lambda>_. Inl []), enc_executor = (\<lambda>_. JNull),
      dec_endpoint = (\<lambda>_. Inl []), dec_capabilities = (\<lambda>_. Inl []), dec_strings = (\<lambda>_. Inl []), dec_lease = (\<lambda>_. Inl []),
      enc_peer = (\<lambda>_. JNull), enc_approval = (\<lambda>_. JNull), dec_grant = (\<lambda>_. Inl []), enc_grant = (\<lambda>_. JNull),
      enc_transaction = (\<lambda>_. JNull), dec_step_state = (\<lambda>_. Inl []), dec_handoff = (\<lambda>_. Inl []), enc_handoff = (\<lambda>_. JNull),
      enc_task = (\<lambda>_. JNull), dec_task_state = (\<lambda>_. Inl []), dec_run = (\<lambda>_. Inl []), enc_run = (\<lambda>_. JNull),
      dec_run_status = (\<lambda>_. Inl []), dec_observation = (\<lambda>_. Inl []), enc_observation = (\<lambda>_. JNull), enc_rpc_error = (\<lambda>_. JNull),
      enc_task_event = (\<lambda>_. JNull), sql_error_text = [], float_text = (\<lambda>_. [])\<rparr>"

definition demo_env :: "u64 \<Rightarrow> environment" where
  "demo_env now =
     \<lparr>env_sha = (\<lambda>s. s), env_jshow = (\<lambda>_. ''''), env_enc_len = (\<lambda>_. 0), env_retention_ms = 1000, env_max_count = 10,
      env_max_bytes = 1000, env_async_maximum = 4, env_clock = (\<lambda>_. now), env_ids = (\<lambda>n. if n = 0 then ''a'' else ''b''),
      env_io = (\<lambda>_. None), env_trace = None, env_call = (\<lambda>_ _. Inl ''offline''), env_codec = demo_codec\<rparr>"

definition demo_controller :: controller where
  "demo_controller =
     \<lparr>ctl_id = ''ctl'', ctl_state = workbench_state_default\<lparr>ws_controller_id := Some ''ctl''\<rparr>,
      ctl_leases = lease_table_default, ctl_tasks = task_table_default, ctl_observations = observability_open,
      ctl_operator_grants = [], ctl_operator_nonces = [], ctl_async_active = 0, ctl_resume_tokens = [],
      ctl_workers = [], ctl_disk = None\<rparr>"

definition demo_driver_acquire :: "string \<Rightarrow> request" where
  "demo_driver_acquire owner = request_new ''q'' ''driver.acquire''
     (JObj [(''owner'', JStr owner), (''resource'', JStr ''workspace:w'')])"

definition no_handler :: handler where
  "no_handler env action params c = (Inl (rpc_err ''UNKNOWN_ACTION'' action), c)"

definition demo_handle :: "u64 \<Rightarrow> request \<Rightarrow> controller \<Rightarrow> response \<times> controller" where
  "demo_handle now r c = handle no_handler (demo_env now) (\<lambda>_. now) (\<lambda>_. 0) r c"

definition demo_driven :: controller where
  "demo_driven = snd (demo_handle 5 (demo_driver_acquire ''ann'') demo_controller)"

definition demo_reopened :: controller where
  "demo_reopened = projr (open_with_id (demo_env 6) (\<lambda>_. 0) (Inr (ctl_disk demo_driven)) (Inr observability_open) None)"

lemmas driver_eval = demo_handle_def handle_def dispatch_def route_session_action_def
  session_id_for_action_def demo_driver_acquire_def request_new_def demo_env_def demo_controller_def reap_expired_def
  Let_def lease_table_default_def bt_values_def driver_actions_def lease_acquire_def required_str_def get_str_def
  bt_get_def or_else_def skip_def workbench_state_default_def lease_op_def acquire_def persist_lease_def persist_def
  request_trace_def sat_add_def ttl_param_def get_u64_def prune_task_retention_def prune_retention_def
  task_table_default_def compact_task_outputs_def task_persistence_snapshot_def lease_persistence_snapshot_def
  fence_snapshot_def hide_token_def token_digest_def observe_def lifecycle_observation_kind_def
  response_success_def response_failure_def

definition demo_lease :: lease where
  "demo_lease = \<lparr>lease_id = ''lease_a'', lease_kind = LeaseDriver, lease_resource = ''workspace:w'', lease_owner = ''ann'',
     lease_token = ''token_b'', lease_fence = 1, lease_acquired_at = 5, lease_updated_at = 5,
     lease_expires_at = 300005, lease_handoff_to = None\<rparr>"

definition demo_state :: workbench_state where
  "demo_state = workbench_state_default
     \<lparr>ws_controller_id := Some ''ctl'', ws_leases := [demo_lease\<lparr>lease_token := ''sha256:token_b''\<rparr>],
      ws_lease_fences := [(''workspace:w'', 1)]\<rparr>"

lemma demo_driven_eval:
  "resp_result (fst (demo_handle 5 (demo_driver_acquire ''ann'') demo_controller)) = Some (lease_json demo_lease)"
  "ctl_leases demo_driven = \<lparr>lt_leases = [(''workspace:w'', demo_lease)], lt_fences = [(''workspace:w'', 1)]\<rparr>"
  "ctl_disk demo_driven = Some demo_state" "ctl_id demo_driven = ''ctl''" "ctl_state demo_driven = demo_state"
  "ctl_tasks demo_driven = task_table_default"
  by (simp_all add: demo_driven_def driver_eval demo_lease_def demo_state_def)

lemma demo_reopened_eval:
  "open_with_id (demo_env 6) (\<lambda>_. 0) (Inr (ctl_disk demo_driven)) (Inr observability_open) None = Inr demo_reopened"
  "ctl_leases demo_reopened = \<lparr>lt_leases = [(''workspace:w'', demo_lease\<lparr>lease_token := ''sha256:token_b''\<rparr>)],
     lt_fences = [(''workspace:w'', 1)]\<rparr>"
  "ctl_id demo_reopened = ''ctl''" "ctl_state demo_reopened = demo_state" "ctl_tasks demo_reopened = task_table_default"
  by (simp_all add: demo_reopened_def demo_driven_eval open_with_id_def open_rest_def driver_eval demo_state_def demo_lease_def
      compact_persisted_evidence_def compact_list_def from_snapshot_def load_lease_def recover_orphans_def from_tasks_def)

lemma demo_wf: "ctl_wf demo_controller" "unexhausted demo_controller" "lt_wf (ctl_leases demo_driven)" "unexhausted demo_reopened"
  by (auto simp: ctl_wf_def unexhausted_def demo_controller_def disk_table_def fence_of_def wf_intros
      demo_reopened_eval demo_driven_eval lt_wf_def lease_ok_def demo_lease_def)
    (simp_all add: lease_table_default_def bt_get_def bt_wf_def demo_state_def workbench_state_default_def split: if_splits)

definition demo_params :: json where
  "demo_params = JObj [(''owner'', JStr ''bob''), (''workspaceSessionId'', JStr ''w'')]"

lemma demo_params_eval:
  "required_str demo_params ''workspaceSessionId'' = Inr ''w''" "required_str demo_params ''owner'' = Inr ''bob''"
  "ttl_param demo_params = 300000"
  by (simp_all add: demo_params_def required_str_def get_str_def bt_get_def ttl_param_def get_u64_def)

definition demo_requested :: controller where
  "demo_requested = snd (request_driver_handoff (demo_env 6) demo_params demo_driven)"

definition demo_handoff :: driver_handoff_request where
  "demo_handoff = \<lparr>dh_id = ''driver_handoff_a'', dh_workspace_session_id = ''w'', dh_resource = ''workspace:w'',
     dh_requested_by = ''bob'', dh_previous_owner = Some ''ann'', dh_state = DhReady, dh_created_at = 6,
     dh_expires_at = 300006, dh_completed_at = None\<rparr>"

lemmas handoff_eval = request_driver_handoff_def refresh_driver_handoff_def refreshed_def refresh_request_def
  push_handoff_request_def after_refresh_def request_handoff_def put_lease_def lease_get_def workspace_busy_def
  task_busy_def task_snapshot_def

lemma demo_requested_eval:
  "is_ok (fst (request_driver_handoff (demo_env 6) demo_params demo_driven))"
  "ctl_leases demo_requested = \<lparr>lt_leases = [(''workspace:w'', demo_lease\<lparr>lease_handoff_to := Some ''bob'', lease_updated_at := 6\<rparr>)],
     lt_fences = [(''workspace:w'', 1)]\<rparr>"
  "ws_driver_handoff_requests (ctl_state demo_requested) = [demo_handoff]"
  "ws_agent_mutations (ctl_state demo_requested) = []" "ctl_tasks demo_requested = task_table_default"
  by (simp_all add: demo_requested_def demo_params_def handoff_eval driver_eval demo_driven_eval demo_state_def
      demo_lease_def demo_handoff_def)

lemma demo_requested_wf: "lt_wf (ctl_leases demo_requested)"
  by (simp add: demo_requested_eval lt_wf_def lease_ok_def demo_lease_def bt_wf_def bt_get_def)

definition demo_abandoned :: controller where
  "demo_abandoned = snd (lease_release (demo_env 8)
     (JObj [(''owner'', JStr ''ann''), (''resource'', JStr ''workspace:w''), (''token'', JStr ''token_b'')]) demo_requested)"

lemma demo_abandoned_eval:
  "ctl_leases demo_abandoned = \<lparr>lt_leases = [], lt_fences = [(''workspace:w'', 1)]\<rparr>"
  "ws_driver_handoff_requests (ctl_state demo_abandoned) = [demo_handoff]"
  by (simp_all add: demo_abandoned_def lease_release_def release_def validate_def token_matches_def bt_remove_def
      driver_eval demo_requested_eval demo_lease_def)

subsection \<open>Properties\<close>

text \<open>
  C26. A restart is transparent to lease holders: when the state was written, a Controller
  reopened from the file accepts exactly the tokens the old one would accept at that time, with
  the same errors otherwise, although the file holds only digests; and the fencing counters are
  where they were. The presented token must not collide with the stored one under SHA-256.
\<close>

theorem controller_restart:
  assumes wf: "lt_wf (ctl_leases c)"
    and saved: "persist env now None c = (Inr (), c1)"
    and reopened: "open_with_id env' sz (Inr (ctl_disk c1)) obs cfg = Inr c2"
    and later: "env_clock env' 1 \<le> now'"
    and no_collision: "\<And>l. lease_get (ctl_leases c) r = Some l \<Longrightarrow> env_sha env tok = env_sha env (lease_token l) \<Longrightarrow>
        tok = lease_token l"
  shows "validate (env_sha env) now' (ctl_leases c2) r ow tok =
      map_sum id (hide_token (env_sha env)) (validate (env_sha env) now' (ctl_leases c) r ow tok)
    \<and> fence_of (ctl_leases c2) r = fence_of (ctl_leases c) r"
proof -
  have d: "disk_table c1 = restart_table (env_sha env) (ctl_leases c)"
    using persist_eq(3) [of None env now c] saved by simp
  have l: "ctl_leases c2 = snd (reap_expired (env_clock env' 1) (disk_table c1))"
    by (rule open_leases(1) [OF reopened])
  have "validate (env_sha env) now' (ctl_leases c2) r ow tok
      = validate (env_sha env) now' (restart_table (env_sha env) (ctl_leases c)) r ow tok"
    unfolding l d by (rule reap_validate [OF lt_wf_restart [OF wf] later])
  with restart_validate [OF wf no_collision] show ?thesis
    by (simp add: l d fence_of_reap fence_of_restart_eq [OF wf])
qed

theorem controller_restart_witness:
  "\<exists>c1 c2. persist (demo_env 5) 5 None demo_driven = (Inr (), c1) \<and>
     open_with_id (demo_env 6) (\<lambda>_. 0) (Inr (ctl_disk c1)) (Inr observability_open) None = Inr c2 \<and>
     is_ok (validate (\<lambda>s. s) 7 (ctl_leases c2) ''workspace:w'' ''ann'' ''token_b'')"
proof -
  let ?c1 = "snd (persist (demo_env 5) 5 None demo_driven)"
  have saved: "persist (demo_env 5) 5 None demo_driven = (Inr (), ?c1)"
    by (simp add: persist_def Let_def)
  have "ctl_disk ?c1 = ctl_disk demo_driven"
    by (simp add: driver_eval demo_driven_eval demo_state_def demo_lease_def)
  then have "open_with_id (demo_env 6) (\<lambda>_. 0) (Inr (ctl_disk ?c1)) (Inr observability_open) None = Inr demo_reopened"
    by (simp add: demo_reopened_eval)
  moreover from controller_restart [OF demo_wf(3) saved this, of 7 "''workspace:w''" "''token_b''" "''ann''"]
  have "validate (\<lambda>s. s) 7 (ctl_leases demo_reopened) ''workspace:w'' ''ann'' ''token_b'' =
     map_sum id (hide_token (\<lambda>s. s)) (validate (\<lambda>s. s) 7 (ctl_leases demo_driven) ''workspace:w'' ''ann'' ''token_b'')"
    by (simp add: demo_env_def demo_driven_eval demo_lease_def lease_get_def bt_get_def)
  moreover have "is_ok (validate (\<lambda>s. s) 7 (ctl_leases demo_driven) ''workspace:w'' ''ann'' ''token_b'')"
    by (simp add: validate_def demo_driven_eval demo_lease_def bt_get_def token_matches_def)
  ultimately show ?thesis using saved by (auto simp: is_ok_iff)
qed

text \<open>
  C22. Awaiting a driver handoff moves the authority: when the call succeeds, the requester owns
  the workspace's lease with the next fencing number, that lease is the answer, and credentials
  of any other owner are refused from then on, whatever token they present.
\<close>

theorem awaited_handoff_moves_authority:
  assumes wf: "lt_wf (ctl_leases c)"
    and params: "required_str p ''workspaceSessionId'' = Inr w" "required_str p ''owner'' = Inr ow"
    and got: "driver_handoff_await env p c = (Inr v, c')"
  shows "\<exists>l. v = lease_json l \<and> lease_get (ctl_leases c') (''workspace:'' @ w) = Some l \<and> lease_owner l = ow
     \<and> lease_fence l = fence_of (ctl_leases c) (''workspace:'' @ w) + 1
     \<and> (\<forall>sha now ow' tok. ow' \<noteq> ow \<longrightarrow> \<not> is_ok (validate sha now (ctl_leases c') (''workspace:'' @ w) ow' tok))"
  using got
proof (rule await_Inr)
  fix w' ow' c1 q l c2
  assume "required_str p ''workspaceSessionId'' = Inr w'" "required_str p ''owner'' = Inr ow'"
    and c1: "refresh_driver_handoff env w' c = (Inr (), c1)"
    and op: "lease_op (handoff_grant (env_ids env) (env_clock (after_refresh c1 env) 0) (''workspace:'' @ w') ow' (ttl_param p) q) c1
       = (Inr l, c2)"
    and pl: "persist_lease (after_refresh c1 env) (env_clock (after_refresh c1 env) 2) l
       (update_handoff_request (awaitable w' ow') (complete_request (env_clock (after_refresh c1 env) 1)) c2) = (Inr v, c')"
  with params have eq: "w' = w" "ow' = ow" by simp_all
  have "lt_wf (ctl_leases c1)" "fence_of (ctl_leases c1) = fence_of (ctl_leases c)"
    using refresh_wf [OF wf, of env w'] fence_of_refresh [of env w' c] c1 by simp_all
  with grant_op [OF _ op, of "env_clock (after_refresh c1 env) 0" "env_ids env 0" "env_ids env 1" LeaseDriver
      "''workspace:'' @ w'" ow' "ttl_param p"] persist_lease_Inr [OF pl] eq
  show ?thesis by (auto simp: handoff_grant_def validate_def lease_get_def is_ok_iff split: if_splits)
qed

theorem awaited_handoff_witness:
  "\<exists>v c'. driver_handoff_await (demo_env 7) demo_params demo_requested = (Inr v, c') \<and>
     (\<exists>l. v = lease_json l \<and> lease_owner l = ''bob'' \<and> lease_fence l = 2
          \<and> lease_get (ctl_leases c') ''workspace:w'' = Some l)
     \<and> \<not> is_ok (validate (\<lambda>s. s) 8 (ctl_leases c') ''workspace:w'' ''ann'' ''token_b'')"
proof -
  have "is_ok (fst (driver_handoff_await (demo_env 7) demo_params demo_requested))"
    by (simp add: driver_handoff_await_def demo_params_def handoff_eval driver_eval demo_requested_eval demo_handoff_def
        demo_lease_def find_last_def awaitable_def handoff_grant_def take_handoff_def)
  then obtain v c' where "driver_handoff_await (demo_env 7) demo_params demo_requested = (Inr v, c')"
    by (auto simp: is_ok_iff) (metis prod.collapse)
  moreover from awaited_handoff_moves_authority [OF demo_requested_wf demo_params_eval(1,2) this]
  obtain l where "v = lease_json l" "lease_get (ctl_leases c') ''workspace:w'' = Some l" "lease_owner l = ''bob''"
      "lease_fence l = 2" "\<forall>sha now ow' tok. ow' \<noteq> ''bob'' \<longrightarrow> \<not> is_ok (validate sha now (ctl_leases c') ''workspace:w'' ow' tok)"
    by (auto simp: demo_requested_eval fence_of_def bt_get_def)
  ultimately show ?thesis by auto
qed

text \<open>
  A draining driver starts nothing new: once a handoff of a driven workspace was requested
  successfully, every attempt of the current driver to start a mutation there before the request
  expires is refused with the draining error and changes nothing.
\<close>

theorem draining_driver_starts_nothing:
  assumes requested: "request_driver_handoff env p c = (Inr v, c')"
    and p: "required_str p ''workspaceSessionId'' = Inr w"
    and driver: "lease_get (ctl_leases c) (''workspace:'' @ w) = Some l"
    and open1: "env_clock env 3 < sat_add (env_clock env 0) (ttl_param p)"
    and p2: "required_str p2 ''workspaceSessionId'' = Inr w" "required_str p2 ''agentId'' = Inr (lease_owner l)"
    and open2: "env_clock env2 0 < sat_add (env_clock env 0) (ttl_param p)"
  shows "\<exists>e. agent_mutation_start env2 p2 c' = (Inl e, c') \<and> err_code e = ''DRIVER_DRAINING''"
proof -
  define q where "q = \<lparr>dh_id = ''driver_handoff_'' @ env_ids env 0, dh_workspace_session_id = w,
      dh_resource = ''workspace:'' @ w, dh_requested_by = projr (required_str p ''owner''),
      dh_previous_owner = Some (lease_owner l), dh_state = DhDraining, dh_created_at = env_clock env 0,
      dh_expires_at = sat_add (env_clock env 0) (ttl_param p), dh_completed_at = None\<rparr>"
  from requested p driver obtain c1 c2 where
    r: "refresh_driver_handoff (skip 3 0 env) w (push_handoff_request q c1) = (Inr (), c2)"
    and s: "persist (after_refresh c2 (skip 3 0 env)) (env_clock (after_refresh c2 (skip 3 0 env)) 0)
              (env_io (after_refresh c2 (skip 3 0 env)) 0) c2 = (Inr (), c')"
    by (auto simp: request_driver_handoff_def sbind_Inr Let_def q_def split: if_splits)
  have "q \<in> set (ws_driver_handoff_requests (ctl_state (push_handoff_request q c1)))"
    by (simp add: push_handoff_request_def)
  from refresh_keeps [OF this, of "skip 3 0 env" w] open1 r obtain q' where
    "q' \<in> set (ws_driver_handoff_requests (ctl_state c2))" "dh_workspace_session_id q' = w"
    "dh_previous_owner q' = Some (lease_owner l)" "dh_expires_at q' = sat_add (env_clock env 0) (ttl_param p)"
    "dh_active (dh_state q')"
    by (auto simp: q_def skip_def)
  moreover have "ws_driver_handoff_requests (ctl_state c') = ws_driver_handoff_requests (ctl_state c2)"
    using persist_requests s by (metis snd_conv)
  ultimately have "workspace_is_draining (env_clock env2 0) c' w (lease_owner l)"
    using open2 by (auto simp: workspace_is_draining_def list_ex_iff)
  with p2 show ?thesis by (simp add: agent_mutation_start_def)
qed

theorem draining_driver_witness:
  "\<exists>e. agent_mutation_start (demo_env 9) (JObj [(''agentId'', JStr ''ann''), (''operationId'', JStr ''o''),
         (''tool'', JStr ''edit''), (''workspaceSessionId'', JStr ''w'')]) demo_requested = (Inl e, demo_requested)
       \<and> err_code e = ''DRIVER_DRAINING''"
proof -
  let ?p = "JObj [(''agentId'', JStr ''ann''), (''operationId'', JStr ''o''), (''tool'', JStr ''edit''),
     (''workspaceSessionId'', JStr ''w'')]"
  obtain v where r: "request_driver_handoff (demo_env 6) demo_params demo_driven = (Inr v, demo_requested)"
    using demo_requested_eval(1) by (auto simp: is_ok_iff demo_requested_def) (metis prod.collapse)
  have l: "lease_get (ctl_leases demo_driven) (''workspace:'' @ ''w'') = Some demo_lease"
    by (simp add: demo_driven_eval lease_get_def bt_get_def)
  show ?thesis
    by (rule draining_driver_starts_nothing [OF r demo_params_eval(1) l])
      (simp_all add: demo_env_def demo_params_eval sat_add_def required_str_def get_str_def bt_get_def demo_lease_def)
qed

text \<open>
  A driver that releases its lease instead of waiting strands the handoff: when the workspace
  has no lease but the requester's open requests name a previous owner, neither awaiting nor
  cancelling the handoff can succeed, and cancelling leaves everything as it was.
\<close>

theorem released_driver_strands_handoff:
  assumes wf: "lt_wf (ctl_leases c)"
    and released: "lease_get (ctl_leases c) (''workspace:'' @ w) = None"
    and requests: "\<And>q. q \<in> set (ws_driver_handoff_requests (ctl_state c)) \<Longrightarrow> cancellable w ow q \<Longrightarrow> dh_previous_owner q \<noteq> None"
    and p: "required_str p ''workspaceSessionId'' = Inr w" "required_str p ''owner'' = Inr ow"
  shows "\<not> is_ok (fst (driver_handoff_await env p c)) \<and> \<not> is_ok (fst (driver_handoff_cancel env p c))
    \<and> snd (driver_handoff_cancel env p c) = c"
proof -
  have "\<not> is_ok (fst (driver_handoff_await env p c))"
  proof
    assume "is_ok (fst (driver_handoff_await env p c))"
    then obtain v c' where "driver_handoff_await env p c = (Inr v, c')"
      by (auto simp: is_ok_iff) (metis prod.collapse)
    then show False
    proof (rule await_Inr)
      fix w' ow' c1 q l c2
      assume "required_str p ''workspaceSessionId'' = Inr w'" "required_str p ''owner'' = Inr ow'"
        and c1: "refresh_driver_handoff env w' c = (Inr (), c1)"
        and q: "find_last (awaitable w' ow') (ws_driver_handoff_requests (ctl_state c1)) = Some q"
        and op: "lease_op (handoff_grant (env_ids env) (env_clock (after_refresh c1 env) 0) (''workspace:'' @ w') ow' (ttl_param p) q) c1
       = (Inr l, c2)"
      with p have eq: "w' = w" "ow' = ow" by simp_all
      have l1: "ctl_leases c1 = ctl_leases (snd (refreshed env w c))"
        and r1: "ws_driver_handoff_requests (ctl_state c1) = ws_driver_handoff_requests (ctl_state (snd (refreshed env w c)))"
        using c1 persist_eq(1) persist_requests eq
        by (auto simp: refresh_driver_handoff_def case_prod_beta Let_def split: if_splits) (metis snd_conv)+
      have "lease_get (ctl_leases c1) (''workspace:'' @ w) = None"
        using refresh_requests_None [OF wf released] by (simp add: l1 refreshed_def case_prod_beta Let_def)
      with op eq have "dh_previous_owner q = None"
        by (auto simp: lease_op_def handoff_grant_def take_handoff_def lease_get_def Let_def split: if_splits)
      moreover have "q \<in> set (ws_driver_handoff_requests (ctl_state c1))" "awaitable w ow q"
        using q eq by (auto simp: find_last_def dest!: find_SomeD)
      moreover from calculation obtain q0 where "q0 \<in> set (ws_driver_handoff_requests (ctl_state c))"
          "cancellable w ow q0" "dh_previous_owner q0 = dh_previous_owner q"
        using refresh_requests_active [of q] by (fastforce simp: r1 refreshed_def case_prod_beta Let_def awaitable_def cancellable_def)
      ultimately show False using requests by auto
    qed
  qed
  moreover have "\<not> is_ok (fst (driver_handoff_cancel env p c)) \<and> snd (driver_handoff_cancel env p c) = c"
  proof (cases "find_last (cancellable w ow) (ws_driver_handoff_requests (ctl_state c))")
    case None
    with p show ?thesis by (simp add: driver_handoff_cancel_def)
  next
    case (Some q)
    then have "dh_previous_owner q \<noteq> None"
      using requests [of q] by (auto simp: find_last_def dest!: find_SomeD)
    with Some p released show ?thesis
      by (auto simp: driver_handoff_cancel_def Let_def lease_op_def cancel_handoff_def lease_get_def)
  qed
  ultimately show ?thesis by blast
qed

theorem released_driver_witness:
  "cancellable ''w'' ''bob'' demo_handoff \<and> \<not> is_ok (fst (driver_handoff_await (demo_env 9) demo_params demo_abandoned))
   \<and> \<not> is_ok (fst (driver_handoff_cancel (demo_env 9) demo_params demo_abandoned))"
proof -
  have "lt_wf (ctl_leases demo_abandoned)" "lease_get (ctl_leases demo_abandoned) (''workspace:'' @ ''w'') = None"
    by (simp_all add: demo_abandoned_eval lt_wf_def bt_wf_def lease_get_def bt_get_def)
  then show ?thesis
    using released_driver_strands_handoff [of demo_abandoned "''w''" "''bob''" demo_params "demo_env 9"]
    by (simp add: demo_abandoned_eval demo_params_eval demo_handoff_def cancellable_def)
qed

text \<open>
  The lease order check cannot fire: a lease request the Controller answers itself is for a
  workspace, the lowest rank, so it is never refused with the order violation.
\<close>

theorem lease_order_unreachable:
  assumes "local_request r" "req_action r = ''lease.acquire''"
    and "fst (dispatch rest env (req_action r) (req_params r) c) = Inl e"
  shows "err_code e \<noteq> ''LEASE_ORDER_VIOLATION''"
proof (cases "get_str (req_params r) ''resource''")
  case None
  with assms have "resource_executor c (req_params r) = None" by (simp add: resource_executor_def local_request_def)
  with None assms(2,3) show ?thesis by (auto simp: dispatch_def)
next
  case (Some x)
  with assms(1,2) have x: "starts_with ''workspace:'' x" and e: "get_str (req_params r) ''executorId'' = None"
    and s: "get_str (req_params r) ''sessionControllerId'' = None"
    by (simp_all add: local_request_def)
  from assms(2,3) Some x workspace_not_executor [OF e Some x, of c] show ?thesis
    using local_route [OF s] local_route_code [OF s] lease_acquire_workspace_code [OF Some x]
    by (fastforce simp: dispatch_def driver_actions_def split: sum.splits option.splits)
qed

theorem lease_order_witness:
  "\<exists>e. fst (dispatch no_handler (demo_env 6) ''lease.acquire''
          (JObj [(''owner'', JStr ''bob''), (''resource'', JStr ''workspace:w'')]) demo_driven) = Inl e
      \<and> err_code e \<noteq> ''LEASE_ORDER_VIOLATION''"
proof -
  let ?r = "request_new ''q'' ''lease.acquire'' (JObj [(''owner'', JStr ''bob''), (''resource'', JStr ''workspace:w'')])"
  obtain e where "fst (dispatch no_handler (demo_env 6) (req_action ?r) (req_params ?r) demo_driven) = Inl e"
    by (simp add: driver_eval demo_driven_eval demo_state_def demo_lease_def lease_order_violated_def lease_snapshot_def
        resource_executor_def executor_resource_kinds_def map_err_def)
  with lease_order_unreachable [OF _ _ this]
  show ?thesis by (auto simp: request_new_def Let_def local_request_def get_str_def bt_get_def)
qed

end
