(* ===== verification/Registry_Properties.thy ===== *)
theory Registry_Properties
  imports Registry Driver_Properties
begin

section \<open>Properties of the registries\<close>

text \<open>
  Every handler of \<^verbatim>\<open>Registry\<close> is a sequence of moves, so fencing holds along runs that mix it with
  the driver actions, and every kept record changes only by the law of its kind.
\<close>

subsection \<open>Handlers are moves\<close>

lemma with_state_same [simp]:
  "ctl_leases (with_state f c) = ctl_leases c" "ctl_disk (with_state f c) = ctl_disk c"
  "ctl_id (with_state f c) = ctl_id c" "ctl_state (with_state f c) = f (ctl_state c)" "ctl_tasks (with_state f c) = ctl_tasks c"
  by (simp_all add: with_state_def)

lemma nth_call_sha [simp]: "env_sha (nth_call n env) = env_sha env"
  by (simp add: nth_call_def)

lemma persist_answer_moves:
  assumes "history c c'" "ctl_leases c' = ctl_leases c" "ctl_disk c' = ctl_disk c" "env_sha env = sha"
  shows "ctl_moves sha c (snd (persist_answer env now v c'))"
  unfolding persist_answer_def by (rule sbind_moves) (auto intro: then_moves assms)

lemma sbind_pure_moves: "(\<And>a. x = Inr a \<Longrightarrow> ctl_moves sha c (snd (f a c))) \<Longrightarrow> ctl_moves sha c (snd (sbind (x, c) f))"
  by (rule sbind_moves) auto

lemma answer_moves: "ctl_moves sha c (snd (x, c))"
  by simp

lemma registered_moves:
  assumes "history c c'" "ctl_leases c' = ctl_leases c" "ctl_disk c' = ctl_disk c" "env_sha env = sha"
  shows "ctl_moves sha c (snd (if b then persist_answer env now v c' else (x, c')))"
  using persist_answer_moves [OF assms] other_moves [OF assms(2,3,1)] by simp

lemma changed_moves: "history c (with_state f c) \<Longrightarrow> ctl_moves sha c (with_state f c)"
  by (rule other_moves) simp_all

lemmas registry_moves = sbind_pure_moves persist_answer_moves answer_moves registered_moves

text \<open>What a law asks of an update in place, of an addition and of a replacement.\<close>

lemma history_sessions:
  "evolves session_law (ws_sessions (ctl_state c)) xs \<Longrightarrow> history c (with_state (\<lambda>st. st\<lparr>ws_sessions := xs\<rparr>) c)"
  by (simp add: history_defs)

lemma session_law_admitted:
  assumes "admit_session c s = Inr s'" "find_session c (session_key s) = Some x"
  shows "session_law x s'"
  using assms
  by (auto simp: admit_session_def session_law_def find_session_def Let_def session_key_def dest!: find_SomeD
      split: option.splits if_splits)

lemma admit_session_key: "admit_session c s = Inr s' \<Longrightarrow> session_key s' = session_key s"
  by (auto simp: admit_session_def session_key_def Let_def split: option.splits if_splits)

lemma session_put_moves: "ctl_moves (env_sha env) c (snd (session_put env params c))"
proof -
  have "evolves session_law (ws_sessions (ctl_state c)) (upsert_by (\<lambda>x. session_key x = session_key s') s' (ws_sessions (ctl_state c)))"
    if "admit_session c s = Inr s'" for s s'
    by (rule sessions.evolves_upsert)
      (use session_law_admitted [OF that] admit_session_key [OF that] in \<open>simp add: find_session_def\<close>)
  then show ?thesis
    unfolding session_put_def Let_def by (intro registry_moves) (auto simp: history_defs)
qed

lemma session_transition_moves: "ctl_moves (env_sha env) c (snd (session_transition env params c))"
  unfolding session_transition_def Let_def
  by (intro registry_moves) (auto simp: history_defs session_law_def session_key_def intro!: sessions.evolves_update)

lemma artifact_put_moves: "ctl_moves (env_sha env) c (snd (artifact_put env params c))"
  unfolding artifact_put_def by (intro registry_moves) (auto simp: history_defs)

lemma check_generation_law: "check_generation (Some x) g = Inr u \<Longrightarrow> gen_id x = gen_id g \<Longrightarrow> generation_law x g"
  by (auto simp: check_generation_def generation_law_def split: if_splits)

lemma generation_put_moves: "ctl_moves (env_sha env) c (snd (generation_put env params c))"
  unfolding generation_put_def
  by (intro registry_moves)
    (auto simp: history_defs find_generation_def intro!: generations.evolves_upsert check_generation_law dest: find_SomeD)

lemma agent_put_moves: "ctl_moves (env_sha env) c (snd (agent_put env params c))"
  unfolding agent_put_def by (intro registry_moves) (auto simp: history_defs)

lemma agent_transition_moves: "ctl_moves (env_sha env) c (snd (agent_transition env params c))"
  unfolding agent_transition_def by (intro registry_moves) (auto simp: history_defs)

lemma executor_unregister_moves: "ctl_moves (env_sha env) c (snd (executor_unregister env params c))"
  unfolding executor_unregister_def Let_def by (intro registry_moves) (auto simp: history_defs)

lemma executor_remove_moves: "ctl_moves (env_sha env) c (snd (executor_remove env params c))"
  unfolding executor_remove_def Let_def
  by (intro registry_moves) (auto simp: history_same intro!: persist_answer_moves changed_moves)

lemma executor_put_moves: "ctl_moves (env_sha env) c (snd (executor_put env params c))"
  unfolding executor_put_def by (intro registry_moves) (auto simp: history_defs)

lemma executor_register_moves: "ctl_moves (env_sha env) c (snd (executor_register env params c))"
  unfolding executor_register_def Let_def by (intro registry_moves) (auto simp: history_defs intro!: registry_moves)

lemma controller_unregister_moves: "ctl_moves (env_sha env) c (snd (controller_unregister env params c))"
  unfolding controller_unregister_def Let_def
  by (intro registry_moves) (auto simp: history_same intro!: registry_moves changed_moves)

lemma controller_register_moves: "ctl_moves (env_sha env) c (snd (controller_register env params c))"
  unfolding controller_register_def Let_def by (intro registry_moves) (auto simp: history_defs intro!: registry_moves)

lemma executor_call_moves: "ctl_moves (env_sha env) c (snd (executor_call env params c))"
  unfolding executor_call_def Let_def
  by (intro registry_moves) (auto split: option.split intro!: sbind_moves registry_moves)

lemma controller_call_moves: "ctl_moves (env_sha env) c (snd (controller_call env params c))"
  unfolding controller_call_def by (intro registry_moves)

lemma approval_request_moves: "ctl_moves (env_sha env) c (snd (approval_request env params c))"
  unfolding approval_request_def Let_def
  by (intro registry_moves) (auto simp: history_defs approvals.evolves_append split: option.split intro!: registry_moves)

lemma approve_law: "approval_state a = ApprovalPending \<Longrightarrow> approval_law a (approve now ttl a)"
  by (simp add: approval_law_def approve_def)

lemma revoke_law: "approval_law a (revoke a)"
  by (cases "approval_state a") (simp_all add: approval_law_def revoke_def)

lemma history_approval:
  "(\<And>a. find_approval c i = Some a \<Longrightarrow> approval_law a (f a)) \<Longrightarrow> history c (update_approval i f c)"
  by (auto simp: history_defs update_approval_def find_approval_def intro: approvals.evolves_update)

lemma update_approval_same [simp]:
  "ctl_leases (update_approval i f c) = ctl_leases c" "ctl_disk (update_approval i f c) = ctl_disk c"
  by (simp_all add: update_approval_def)

lemma approval_decide_moves: "ctl_moves (env_sha env) c (snd (approval_decide env action params c))"
  unfolding approval_decide_def Let_def
  by (intro registry_moves)
    (auto simp: found_def ok_or_def approve_law revoke_law split: option.splits intro!: registry_moves history_approval)

lemma find_read_grant_moves: "ctl_moves (env_sha env) c (snd (find_read_grant env e w cap path c))"
  unfolding find_read_grant_def Let_def
  by (auto simp: history_same split: option.split intro!: registry_moves sbind_moves then_moves)

lemma read_grant_request_moves: "ctl_moves (env_sha env) c (snd (read_grant_request env params c))"
proof -
  have "ctl_moves (env_sha env) c (snd (find_read_grant (nth_call 1 env) e w cap path c))" for e w cap path c
    using find_read_grant_moves [of "nth_call 1 env"] by simp
  then show ?thesis
    unfolding read_grant_request_def Let_def
    by (intro registry_moves sbind_moves) (auto simp: history_same split: option.split intro!: registry_moves)
qed

lemma read_grant_approve_moves: "ctl_moves (env_sha env) c (snd (read_grant_approve env params c))"
  unfolding read_grant_approve_def Let_def
  by (intro registry_moves) (auto simp: history_same intro!: registry_moves)

lemma read_grant_revoke_moves: "ctl_moves (env_sha env) c (snd (read_grant_revoke env params c))"
  unfolding read_grant_revoke_def by (intro registry_moves) (auto simp: history_same)

lemma transaction_begin_moves: "ctl_moves (env_sha env) c (snd (transaction_begin env params c))"
  unfolding transaction_begin_def Let_def
  by (intro registry_moves) (auto simp: history_defs transactions.evolves_append split: option.split intro!: registry_moves)

lemma record_step_law:
  assumes "case (tx_lease_fence t, get_u64 params ''fence'') of (Some a, Some b) \<Rightarrow> a = b | _ \<Rightarrow> True"
  shows "transaction_law t (record_step now params step state t)"
proof -
  have "entry_ok (tx_lease_fence t) (length (tx_journal t)) (journal_entry now params step state t)"
    using assms by (auto simp: entry_ok_def journal_entry_def split: option.splits)
  moreover have j: "tx_journal (record_step now params step state t) = tx_journal t @ [journal_entry now params step state t]"
    by (simp add: record_step_def advance_transaction_def Let_def split: transaction_step_state.split option.split)
  ultimately have "\<forall>i < length (tx_journal (record_step now params step state t)). length (tx_journal t) \<le> i
      \<longrightarrow> entry_ok (tx_lease_fence t) i (tx_journal (record_step now params step state t) ! i)"
    by (auto simp: nth_append less_Suc_eq)
  moreover have "set (tx_completed_steps t) \<subseteq> set (tx_completed_steps (record_step now params step state t))"
    by (auto simp: record_step_def advance_transaction_def Let_def split: transaction_step_state.split option.split)
  ultimately show ?thesis
    unfolding transaction_law_def j
    by (simp add: nth_append record_step_def advance_transaction_def Let_def split: transaction_step_state.split option.split)
qed

lemma transaction_record_moves: "ctl_moves (env_sha env) c (snd (transaction_record env params c))"
  unfolding transaction_record_def
  by (intro registry_moves)
    (auto simp: history_defs find_transaction_def found_def ok_or_def intro!: registry_moves transactions.evolves_update record_step_law
      split: option.splits)

lemma handoff_create_moves: "ctl_moves (env_sha env) c (snd (handoff_create env params c))"
  unfolding handoff_create_def Let_def
  by (intro registry_moves) (auto simp: history_defs handoffs.evolves_append)

lemma update_handoff_same [simp]:
  "ctl_leases (update_handoff i f c) = ctl_leases c" "ctl_disk (update_handoff i f c) = ctl_disk c"
  by (simp_all add: update_handoff_def)

lemma history_handoff:
  "find_handoff c i = Inr h \<Longrightarrow> handoff_law h (f h) \<Longrightarrow> history c (update_handoff i f c)"
  by (auto simp: history_defs update_handoff_def find_handoff_def found_def ok_or_def split: option.splits
      intro: handoffs.evolves_update)

lemma handoff_report_moves: "ctl_moves (env_sha env) c (snd (handoff_report_action env params c))"
  unfolding handoff_report_action_def Let_def
  by (intro registry_moves) (auto simp: handoff_law_def intro!: registry_moves elim!: history_handoff)

lemma acknowledge_law: "handoff_acknowledged_at h = None \<Longrightarrow> handoff_law h (acknowledge now h)"
  by (simp add: handoff_law_def acknowledge_def)

lemma complete_law:
  "handoff_acknowledged_at h \<noteq> None \<Longrightarrow> (handoff_kind h = HandoffAcceptance \<Longrightarrow> handoff_report h \<noteq> None) \<Longrightarrow> handoff_law h (complete now h)"
  by (auto simp: handoff_law_def complete_def)

lemma handoff_progress_moves: "ctl_moves (env_sha env) c (snd (handoff_progress env action params c))"
proof -
  have "ctl_moves (env_sha env) c (snd (persist_answer env now v (update_handoff i (acknowledge t) c)))"
    if "find_handoff c i = Inr h" "handoff_acknowledged_at h = None" for now v i t h
    by (rule persist_answer_moves) (simp_all add: history_handoff [OF that(1)] acknowledge_law that)
  moreover have "ctl_moves (env_sha env) c (snd (persist_answer env now v (update_handoff i (complete t) c)))"
    if "find_handoff c i = Inr h" "handoff_acknowledged_at h \<noteq> None" "handoff_kind h = HandoffAcceptance \<longrightarrow> handoff_report h \<noteq> None"
    for now v i t h
    by (rule persist_answer_moves) (simp_all add: history_handoff [OF that(1)] complete_law that)
  ultimately show ?thesis
    unfolding handoff_progress_def Let_def
    by (intro registry_moves; cases "fst (acceptance_lease env ''acceptance resource is required'' params c, c)") auto
qed

lemma session_get_moves: "ctl_moves sha c (snd (session_get env params c))"
  "ctl_moves sha c (snd (artifact_get env params c))" "ctl_moves sha c (snd (generation_get env params c))"
  "ctl_moves sha c (snd (agent_get env params c))" "ctl_moves sha c (snd (transaction_get env params c))"
  "ctl_moves sha c (snd (handoff_get env params c))"
  unfolding session_get_def artifact_get_def generation_get_def agent_get_def transaction_get_def handoff_get_def
  by (intro registry_moves)+

lemma list_moves:
  "snd (executor_list env c) = c" "snd (controller_list env c) = c" "snd (session_list env c) = c"
  "snd (artifact_list env c) = c" "snd (generation_list env c) = c" "snd (agent_list env c) = c"
  "snd (approval_list env c) = c" "snd (read_grant_list env params c) = c" "snd (transaction_list env c) = c"
  "snd (handoff_list env params c) = c"
  by (simp_all add: executor_list_def controller_list_def session_list_def artifact_list_def generation_list_def
      agent_list_def approval_list_def read_grant_list_def transaction_list_def handoff_list_def)

lemmas registry_handlers = list_moves session_get_moves session_put_moves session_transition_moves artifact_put_moves
  generation_put_moves agent_put_moves agent_transition_moves executor_unregister_moves executor_remove_moves
  executor_put_moves executor_register_moves executor_call_moves controller_unregister_moves controller_register_moves
  controller_call_moves approval_request_moves approval_decide_moves read_grant_request_moves read_grant_approve_moves
  read_grant_revoke_moves transaction_begin_moves transaction_record_moves handoff_create_moves handoff_report_moves
  handoff_progress_moves

lemma moves_if:
  "(P \<Longrightarrow> ctl_moves sha c (snd a)) \<Longrightarrow> (\<not> P \<Longrightarrow> ctl_moves sha c (snd b)) \<Longrightarrow> ctl_moves sha c (snd (if P then a else b))"
  by simp

lemma moving_registry: "moving rest \<Longrightarrow> moving (registry_actions rest)"
  unfolding moving_def registry_actions_def
  by (intro allI impI moves_if) (simp_all add: registry_handlers)

end
