(* ===== verification/Action_Moves.thy ===== *)
theory Action_Moves
  imports Invoke Registry_Properties
begin

section \<open>Every action keeps to the moves\<close>

text \<open>
  The handlers of tasks, ports, runs, the operator and capability invocation are sequences of
  moves like the others, so the whole dispatcher is; the invocation, which acquires and releases
  leases itself, is the interesting one.
\<close>

subsection \<open>Tasks\<close>

lemma same_moves:
  assumes "ctl_leases c' = ctl_leases c" "ctl_disk c' = ctl_disk c" "ctl_id c' = ctl_id c" "ctl_state c' = ctl_state c"
  shows "ctl_moves sha c c'"
  using assms by (intro other_moves history_same) simp_all

lemma observe_task_state_same [simp]:
  "ctl_leases (observe_task_state env now t c) = ctl_leases c" "ctl_disk (observe_task_state env now t c) = ctl_disk c"
  "ctl_id (observe_task_state env now t c) = ctl_id c" "ctl_state (observe_task_state env now t c) = ctl_state c"
  "ctl_tasks (observe_task_state env now t c) = ctl_tasks c"
  by (simp_all add: observe_task_state_def observe_def)

lemma task_op_same [simp]:
  "ctl_leases (snd (task_op code f c)) = ctl_leases c" "ctl_disk (snd (task_op code f c)) = ctl_disk c"
  "ctl_id (snd (task_op code f c)) = ctl_id c" "ctl_state (snd (task_op code f c)) = ctl_state c"
  by (simp_all add: task_op_def case_prod_beta)

lemma task_op_moves: "ctl_moves sha c (snd (task_op code f c))"
  by (rule same_moves) simp_all

lemma task_answer_moves:
  assumes "ctl_leases c' = ctl_leases c" "ctl_disk c' = ctl_disk c" "history c c'" "env_sha env = sha"
  shows "ctl_moves sha c (snd (task_answer env t v c'))"
  unfolding task_answer_def
  by (rule sbind_moves) (auto intro: then_moves assms same_moves)

lemma task_answer_moves': "env_sha env = sha \<Longrightarrow> ctl_moves sha c (snd (task_answer env t v c))"
  by (rule task_answer_moves) simp_all

lemma task_submit_moves: "ctl_moves (env_sha env) c (snd (task_submit env params c))"
  unfolding task_submit_def Let_def case_prod_beta
  by (intro registry_moves) (auto split: option.split intro!: task_answer_moves history_same)

lemma task_get_action_moves: "ctl_moves sha c (snd (task_get_action env params c))"
  unfolding task_get_action_def by (intro registry_moves)

lemma task_events_action_moves: "ctl_moves sha c (snd (task_events_action env params c))"
  unfolding task_events_action_def by (intro registry_moves)

lemma task_wait_moves: "ctl_moves sha c (snd (task_wait env params c))"
  unfolding task_wait_def by (intro registry_moves moves_if)

lemma task_retry_moves: "ctl_moves (env_sha env) c (snd (task_retry env params c))"
  unfolding task_retry_def
  by (intro registry_moves sbind_moves [OF task_op_moves] task_answer_moves') simp

lemma observed_moves: "ctl_moves sha c c' \<Longrightarrow> ctl_moves sha c (observe_task_state env now t c')"
  by (erule rtranclp_trans) (simp add: same_moves)

lemma observe_then_moves:
  "ctl_moves sha (observe_task_state env now t c) c' \<Longrightarrow> ctl_moves sha c c'"
  by (rule rtranclp_trans [OF same_moves]) simp_all

lemma cancel_running_moves: "ctl_moves (env_sha env) c (snd (cancel_running env t c))"
  unfolding cancel_running_def Let_def case_prod_beta
  by (intro sbind_moves [OF task_op_moves] sbind_moves [OF observe_then_moves [OF task_op_moves]]
      sbind_moves [OF observe_then_moves [OF persist_moves]] task_answer_moves') simp_all

lemma task_cancel_moves: "ctl_moves (env_sha env) c (snd (task_cancel env params c))"
  unfolding task_cancel_def
  by (intro moves_if registry_moves sbind_moves [OF task_op_moves] task_answer_moves' cancel_running_moves) simp

lemma task_prune_moves: "ctl_moves (env_sha env) c (snd (task_prune env params c))"
  unfolding task_prune_def Let_def case_prod_beta by (intro persist_answer_moves) (simp_all add: history_same)

lemma task_transition_moves: "ctl_moves (env_sha env) c (snd (task_transition env params c))"
  unfolding task_transition_def
  by (intro registry_moves sbind_moves [OF task_op_moves] task_answer_moves') simp

lemma port_list_moves: "ctl_moves sha c (snd (port_list env params c))"
  unfolding port_list_def by (intro registry_moves)

lemma port_allocate_moves: "ctl_moves sha c (snd (port_allocate env params c))"
  unfolding port_allocate_def Let_def by (intro registry_moves moves_if) (simp split: option.split)

lemmas task_handlers = task_submit_moves task_get_action_moves task_events_action_moves task_wait_moves task_retry_moves
  task_cancel_moves task_prune_moves task_transition_moves port_list_moves port_allocate_moves

lemma moving_tasks: "moving rest \<Longrightarrow> moving (task_actions rest)"
  unfolding moving_def task_actions_def
  by (intro allI impI moves_if) (simp_all add: task_handlers task_list_def)

lemma moving_unknown: "moving unknown_action"
  by (simp add: moving_def unknown_action_def)

subsection \<open>Runs and the operator\<close>

lemma observe_moves: "ctl_moves sha c c' \<Longrightarrow> ctl_moves sha c (observe ob c')"
  by (erule rtranclp_trans) (rule same_moves, simp_all add: observe_def)

lemma observations_moves: "ctl_moves sha c (c\<lparr>ctl_observations := obs\<rparr>)"
  by (rule same_moves) simp_all

lemma run_start_moves: "ctl_moves sha c (snd (run_start env params c))"
  unfolding run_start_def Let_def case_prod_beta
  by (intro registry_moves sbind_moves) (auto intro: observations_moves observe_moves)

lemma run_finish_moves: "ctl_moves sha c (snd (run_finish env params c))"
  unfolding run_finish_def Let_def case_prod_beta
  by (intro registry_moves) (auto split: sum.split observability_error.split intro: observations_moves observe_moves)

lemma run_get_moves: "ctl_moves sha c (snd (run_get env params c))"
  unfolding run_get_def by (intro registry_moves) (simp split: option.split)

lemma run_list_moves: "ctl_moves sha c (snd (run_list env params c))"
  unfolding run_list_def Let_def by (intro registry_moves)

lemma observability_query_moves: "ctl_moves sha c (snd (observability_query env params c))"
  unfolding observability_query_def Let_def case_prod_beta by (intro registry_moves moves_if)

lemma observation_append_moves: "ctl_moves sha c (snd (observation_append env params c))"
  unfolding observation_append_def Let_def case_prod_beta
  by (intro registry_moves sbind_moves) (auto intro: observations_moves)

lemma operator_grant_action_moves: "ctl_moves sha c (snd (operator_grant_action env params c))"
  unfolding operator_grant_action_def Let_def by (intro registry_moves) (simp add: same_moves)

lemma operator_nonce_action_moves: "ctl_moves sha c (snd (operator_nonce_action env params c))"
  unfolding operator_nonce_action_def Let_def by (intro registry_moves moves_if) (simp add: same_moves)

text \<open>A nested dispatcher that keeps to moves, and states with the same leases and Executors.\<close>

lemma granted_operation_moves:
  assumes "moving h" "unexhausted c" "env_sha env = sha"
  shows "ctl_moves sha c (snd (granted_operation h env action target g params c))"
  using assms unfolding granted_operation_def moving_def
  by (intro moves_if registry_moves) auto

lemma granted_action_moves:
  assumes "moving h" "unexhausted c"
  shows "ctl_moves (env_sha env) c (snd (granted_action h env action target params c))"
  unfolding granted_action_def
  by (intro registry_moves sbind_moves [OF granted_operation_moves [OF assms]]) (auto intro: observe_moves)

lemma moving_dispatch: "moving rest \<Longrightarrow> moving (dispatch rest)"
  using dispatch_moves by (simp add: moving_def driven_def)

lemma moving_inner: "moving inner_dispatch"
  unfolding inner_dispatch_def by (intro moving_dispatch moving_registry moving_tasks moving_unknown)

lemma inner_get_same: "snd (inner_dispatch env ''task.get'' params c) = c"
  by (simp add: inner_dispatch_def dispatch_def Let_def driver_actions_def registry_actions_def task_actions_def
      task_get_action_def find_task_def found_def ok_or_def required_str_def split: sum.split option.split)

lemma forced_action_moves:
  assumes "unexhausted c"
  shows "ctl_moves (env_sha env) c (snd (forced_action inner_dispatch env action target params c))"
proof -
  have u: "unexhausted (c\<lparr>ctl_operator_nonces := ns\<rparr>)" for ns
    using assms unexhausted_cong [of "c\<lparr>ctl_operator_nonces := ns\<rparr>" c] by simp
  have m: "ctl_moves (env_sha env) s (snd (inner_dispatch (skip a b env) act p s))" if "unexhausted s" for s a b act p
    using moving_inner that by (simp add: moving_def) (metis skip_fields(1))
  have nonces: "ctl_moves (env_sha env) c (c\<lparr>ctl_operator_nonces := ns\<rparr>)" for ns
    by (rule same_moves) simp_all
  show ?thesis
    unfolding forced_action_def
    by (intro registry_moves sbind_moves moves_if)
      (auto simp: nonces inner_get_same intro!: m u sbind_moves registry_moves observe_moves dest!: arg_cong [of _ _ snd])
qed

lemma operator_action_moves:
  "unexhausted c \<Longrightarrow> ctl_moves (env_sha env) c (snd (operator_action inner_dispatch env params c))"
  unfolding operator_action_def
  by (intro registry_moves moves_if forced_action_moves granted_action_moves moving_inner)

lemmas operator_handlers = run_start_moves run_finish_moves run_get_moves run_list_moves observability_query_moves
  observation_append_moves operator_grant_action_moves operator_nonce_action_moves operator_action_moves

lemma moving_operator: "moving rest \<Longrightarrow> moving (operator_group rest)"
  unfolding moving_def operator_group_def
  by (intro allI impI moves_if) (simp_all add: operator_handlers ping_def doctor_def Let_def)

subsection \<open>Stages that leave the leases alone\<close>

definition quiet :: "(string \<Rightarrow> string) \<Rightarrow> controller \<Rightarrow> controller \<Rightarrow> bool" where
  "quiet sha c c' = (ctl_moves sha c c' \<and> ctl_leases c' = ctl_leases c)"

lemma quiet_refl [simp]: "quiet sha c c"
  by (simp add: quiet_def)

lemma quiet_trans: "quiet sha c c' \<Longrightarrow> quiet sha c' c'' \<Longrightarrow> quiet sha c c''"
  by (auto simp: quiet_def)

lemma sbind_quiet:
  "quiet sha c (snd r) \<Longrightarrow> (\<And>a s. r = (Inr a, s) \<Longrightarrow> quiet sha s (snd (f a s))) \<Longrightarrow> quiet sha c (snd (sbind r f))"
  by (cases r; cases "fst r") (auto intro: quiet_trans)

lemma sbind_pure_quiet: "(\<And>a. x = Inr a \<Longrightarrow> quiet sha c (snd (f a c))) \<Longrightarrow> quiet sha c (snd (sbind (x, c) f))"
  by (rule sbind_quiet) auto

lemma quiet_if: "(P \<Longrightarrow> quiet sha c (snd a)) \<Longrightarrow> (\<not> P \<Longrightarrow> quiet sha c (snd b)) \<Longrightarrow> quiet sha c (snd (if P then a else b))"
  by simp

lemma answer_quiet: "quiet sha c (snd (x, c))"
  by simp

lemma persist_quiet: "env_sha env = sha \<Longrightarrow> quiet sha c (snd (persist env now io c))"
  by (simp add: quiet_def persist_moves persist_eq)

lemma change_quiet: "ctl_leases c' = ctl_leases c \<Longrightarrow> ctl_disk c' = ctl_disk c \<Longrightarrow> history c c' \<Longrightarrow> quiet sha c c'"
  by (simp add: quiet_def other_moves)

lemma task_op_quiet: "quiet sha c (snd (task_op code f c))"
  by (simp add: quiet_def task_op_moves)

lemmas quiet_intros = sbind_pure_quiet quiet_if answer_quiet persist_quiet task_op_quiet

lemma stage_sha [simp]: "env_sha (stage a b n env) = env_sha env"
  by (simp add: stage_def)

lemma find_read_grant_quiet: "quiet (env_sha env) c (snd (find_read_grant env e w cap path c))"
  unfolding find_read_grant_def Let_def
  by (auto split: option.split intro!: quiet_intros sbind_quiet quiet_trans [OF change_quiet persist_quiet] history_same)

lemma add_read_grant_quiet: "quiet (env_sha env) c (snd (add_read_grant env e w cap key input c))"
  unfolding add_read_grant_def
  by (auto split: option.split intro!: quiet_intros sbind_quiet find_read_grant_quiet)

lemma prepare_quiet: "quiet (env_sha env) c (snd (prepare env params c))"
proof -
  have "quiet (env_sha env) c (snd (read_input env e w cap input c))" for e w cap input c
    by (simp add: read_input_def add_read_grant_quiet)
  then show ?thesis
    unfolding prepare_def case_prod_beta
    by (intro quiet_intros sbind_quiet)
qed

lemma prepare_contract:
  assumes "prepare env params c = (Inr iv, c')"
  shows "\<exists>e \<in> set (ws_executors (ctl_state c)). inv_contract iv \<in> set (executor_capabilities e)"
proof -
  from assms obtain i cap e where "find_executor c i = Some e" "find_contract e cap = Inr (inv_contract iv)"
    by (auto simp: prepare_def sbind_Inr found_def ok_or_def case_prod_beta split: option.splits if_splits)
  then show ?thesis
    by (auto simp: find_executor_def find_contract_def found_def ok_or_def and_then_def dest!: find_SomeD
        split: option.splits if_splits sum.splits)
qed

lemma resume_quiet: "quiet sha c (snd (resume params c))"
  by (auto simp: resume_def Let_def intro!: change_quiet history_same split: option.split)

lemma submit_invocation_quiet: "quiet sha c (snd (submit_invocation env iv c))"
  by (auto simp: submit_invocation_def Let_def case_prod_beta intro!: change_quiet history_same split: option.split)

lemma consume_law: "approval_authorizes now d ow a \<Longrightarrow> approval_law a (consume t a)"
  by (simp add: approval_authorizes_def approval_law_def consume_def)

lemma consume_approval_quiet: "quiet (env_sha env) c (snd (consume_approval env iv params c))"
proof -
  have "quiet (env_sha env) c (update_approval i (consume t) c)"
    if "found code m (find_approval c i) = Inr a" "approval_authorizes now d ow a" for code m i a now d ow t
    using that by (intro change_quiet history_approval) (auto simp: found_def ok_or_def consume_law split: option.splits)
  then show ?thesis
    unfolding consume_approval_def
    by (intro quiet_intros sbind_quiet) (auto simp del: update_approval_same)
qed

lemma consume_approval_contract:
  "consume_approval env iv params c = (Inr iv', c') \<Longrightarrow> inv_contract iv' = inv_contract iv"
  by (auto simp: consume_approval_def sbind_Inr split: if_splits)

lemma claim_task_quiet: "quiet sha c (snd (claim_task env resumed params iv x c))"
  unfolding claim_task_def Let_def case_prod_beta by (intro quiet_intros sbind_quiet)

lemma running_task_quiet: "quiet sha c (snd (running_task env resumed params iv c))"
  unfolding running_task_def
  by (intro sbind_quiet submit_invocation_quiet claim_task_quiet) (auto split: sum.split intro!: sbind_quiet task_op_quiet)

subsection \<open>The leases of an invocation\<close>

lemma fence_of_acquire_bound:
  "unat (fence_of (snd (acquire now u1 u2 kind r ow ttl t)) r') \<le> unat (fence_of t r') + 1"
proof -
  have "unat (x + 1) \<le> unat x + 1" for x :: u64
    using mod_less_eq_dividend [of "unat x + 1" "2 ^ 64"] by (simp add: unat_word_ariths(1))
  then show ?thesis
    by (auto simp: acquire_def Let_def fence_of_def bt_get_insert_any unwrap_or_def split: option.split)
qed

lemma acquire_all_steps:
  "(\<And>r. unat (fence_of t r) + length rs < 2 ^ 64) \<Longrightarrow> (lease_step sha)\<^sup>*\<^sup>* t (snd (acquire_all clk ids ow ttl rs acquired t))"
proof (induction rs arbitrary: clk ids acquired t)
  case (Cons r rs)
  let ?x = "acquire (clk 0) (ids 0) (ids 1) LeaseResource r ow ttl t"
  have "fence_of t r \<noteq> - 1"
  proof
    assume "fence_of t r = - 1"
    with Cons.prems [of r] show False by simp
  qed
  then have step: "lease_step sha t (snd ?x)" by (rule step_acquire)
  have "unat (fence_of (snd ?x) r') + length rs < 2 ^ 64" for r'
    using fence_of_acquire_bound [of "clk 0" "ids 0" "ids 1" LeaseResource r ow ttl t r'] Cons.prems [of r']
    unfolding length_Cons by linarith
  from Cons.IH [OF this] step show ?case
    by (auto split: prod.split sum.split intro: converse_rtranclp_into_rtranclp)
qed simp

lemma release_acquired_steps: "(lease_step sha)\<^sup>*\<^sup>* t (release_acquired sha clk ls t)"
proof -
  have "(lease_step sha)\<^sup>*\<^sup>* t (snd (fold (\<lambda>l (n, t). (Suc n, snd (release sha (clk n) (lease_resource l) (lease_owner l) (lease_token l) t)))
     xs (n, t)))" for xs n
  proof (induction xs arbitrary: n t)
    case (Cons l xs)
    show ?case
      by simp (rule converse_rtranclp_into_rtranclp [OF step_release Cons])
  qed simp
  then show ?thesis by (simp add: release_acquired_def)
qed

lemma release_leases_moves: "env_sha env = sha \<Longrightarrow> ctl_moves sha c (release_leases env ls c)"
  unfolding release_leases_def by (rule leases_moves) (simp add: release_acquired_steps)

lemma command_resource_list_length: "command_resource_list vs = Inr rs \<Longrightarrow> length rs = length vs"
  by (induction vs arbitrary: rs) (auto simp: and_then_def split: option.splits if_splits sum.splits)

lemma render_locks_length: "render_locks jshow ls input = Inr rs \<Longrightarrow> length rs = length ls"
  by (induction ls arbitrary: rs) (auto simp: and_then_def split: option.splits sum.splits)

lemma invocation_resources_length:
  assumes "invocation_resources jshow iv = Inr rs"
  shows "length rs \<le> length (cap_locks (inv_contract iv)) + 32"
proof -
  have "length more \<le> 32" if "command_resources v = Inr more" for v more
    using that by (auto simp: command_resources_def dest: command_resource_list_length split: option.splits if_splits)
  with assms render_locks_length show ?thesis
    by (fastforce simp: invocation_resources_def and_then_def split: if_splits sum.splits)
qed

subsection \<open>The invocation\<close>

lemma end_task_moves: "env_sha env = sha \<Longrightarrow> ctl_moves sha c (snd (end_task env i state error e c))"
  unfolding end_task_def by (rule sbind_moves) (auto intro!: then_moves history_same)

lemma record_artifact_moves: "ctl_moves sha c (record_artifact now iv input result i c)"
  by (auto simp: record_artifact_def intro!: changed_moves history_same split: option.split)

lemma record_agent_moves: "ctl_moves sha c (snd (record_agent iv input result c))"
  unfolding record_agent_def Let_def
  by (intro moves_if registry_moves) (auto intro!: changed_moves history_same)

lemma succeed_moves: "env_sha env = sha \<Longrightarrow> ctl_moves sha c (snd (succeed env iv input i result c))"
  unfolding succeed_def
  by (auto split: sum.split intro!: end_task_moves sbind_moves task_op_moves persist_answer_moves
      intro: rtranclp_trans [OF record_artifact_moves record_agent_moves])

lemma settle_moves: "env_sha env = sha \<Longrightarrow> ctl_moves sha c (snd (settle env iv input i response c))"
  by (auto simp: settle_def Let_def split: sum.split intro!: succeed_moves end_task_moves)

lemma execute_moves: "ctl_moves (env_sha env) c (snd (execute env iv i acquired c))"
  unfolding execute_def Let_def
  by (intro registry_moves) (auto intro!: settle_moves intro: rtranclp_trans [OF release_leases_moves settle_moves])

lemma run_task_moves:
  assumes "\<And>r. fence_of (ctl_leases c) r < 2 ^ 63" "length (cap_locks (inv_contract iv)) < 2 ^ 32"
  shows "ctl_moves (env_sha env) c (snd (run_task env iv t c))"
proof -
  have steps: "ctl_moves (env_sha env) c (c\<lparr>ctl_leases := snd (acquire_all clk ids ow ttl rs [] (ctl_leases c))\<rparr>)"
    if "invocation_resources (env_jshow env) iv = Inr rs" for rs clk ids ow ttl
  proof (intro leases_moves acquire_all_steps)
    fix r
    have "unat (fence_of (ctl_leases c) r) < 2 ^ 63" using assms(1) [of r] by (simp add: word_less_nat_alt)
    with invocation_resources_length [OF that] assms(2)
    show "unat (fence_of (ctl_leases c) r) + length rs < 2 ^ 64" by simp
  qed
  have ex: "ctl_moves (env_sha env) s (snd (execute (stage a b n env) iv i acquired s))" for a b n i acquired s
    using execute_moves [of "stage a b n env"] by simp
  have en: "ctl_moves (env_sha env) s (snd (end_task (skip a 0 env) i st x e (release_leases (skip b 0 env) acquired s)))"
    for a b i st x e acquired s
    by (rule rtranclp_trans [OF release_leases_moves end_task_moves]) simp_all
  show ?thesis
    unfolding run_task_def Let_def case_prod_beta
    by (intro registry_moves, auto split: sum.split intro!: rtranclp_trans [OF steps ex] rtranclp_trans [OF steps en])
qed

lemma approved_moves:
  assumes "\<And>r. fence_of (ctl_leases c) r < 2 ^ 63" "length (cap_locks (inv_contract iv)) < 2 ^ 32"
    "consume_approval env iv params c = (Inr iv', c1)"
  shows "ctl_moves (env_sha env) c1 (snd (invoke_sync env resumed iv params c))"
proof -
  have l1: "ctl_leases c1 = ctl_leases c"
    using consume_approval_quiet [of env c iv params] assms(3) by (simp add: quiet_def)
  let ?r = "running_task (stage 3 1 0 env) resumed params iv' c1"
  have q: "quiet (env_sha env) c1 (snd ?r)" by (rule running_task_quiet)
  have "ctl_moves (env_sha env) c1 (snd (sbind ?r (\<lambda>r c. case r of Inl v \<Rightarrow> (Inr v, c) | Inr t \<Rightarrow> run_task (stage 9 1 1 env) iv' t c)))"
  proof (rule sbind_moves)
    show "ctl_moves (env_sha env) c1 (snd ?r)" using q by (simp add: quiet_def)
    fix a s assume "?r = (Inr a, s)"
    with q l1 have "ctl_leases s = ctl_leases c" by (simp add: quiet_def)
    with run_task_moves [of s iv' "stage 9 1 1 env"] assms(1,2) consume_approval_contract [OF assms(3)]
    show "ctl_moves (env_sha env) s (snd (case a of Inl v \<Rightarrow> (Inr v, s) | Inr t \<Rightarrow> run_task (stage 9 1 1 env) iv' t s))"
      by (simp split: sum.split)
  qed
  then show ?thesis by (simp add: invoke_sync_def assms(3))
qed

lemma invoke_sync_moves:
  assumes "\<And>r. fence_of (ctl_leases c) r < 2 ^ 63" "length (cap_locks (inv_contract iv)) < 2 ^ 32"
  shows "ctl_moves (env_sha env) c (snd (invoke_sync env resumed iv params c))"
proof -
  obtain r c1 where c1: "consume_approval env iv params c = (r, c1)" by (rule prod.exhaust)
  have first: "ctl_moves (env_sha env) c c1"
    using consume_approval_quiet [of env c iv params] c1 by (simp add: quiet_def)
  show ?thesis
  proof (cases r)
    case (Inl e)
    with first c1 show ?thesis by (simp add: invoke_sync_def)
  next
    case (Inr iv')
    with first approved_moves [OF assms] c1 show ?thesis by (blast intro: rtranclp_trans)
  qed
qed

lemma accept_async_moves: "ctl_moves (env_sha env) c (snd (accept_async env iv params c))"
proof -
  have free: "ctl_moves sha s (free_slot s)" for sha s by (rule same_moves) (simp_all add: free_slot_def)
  have slot: "ctl_moves (env_sha env) c (snd (submit_invocation env iv (c\<lparr>ctl_async_active := n\<rparr>)))" for n
    using submit_invocation_quiet [of "env_sha env" "c\<lparr>ctl_async_active := n\<rparr>" env iv] same_moves [of "c\<lparr>ctl_async_active := n\<rparr>" c "env_sha env"]
    by (auto simp: quiet_def intro: rtranclp_trans)
  have start: "ctl_moves (env_sha env) s (snd (sbind (worker_request env params t tok, observe_task_state env n t s) (\<lambda>r c. (Inr v, start_worker t tok r c))))"
    for s t tok n v
    by (rule sbind_moves) (auto simp: start_worker_def intro: same_moves)
  have saved: "ctl_moves (env_sha env) s (snd (case persist env now io s of (Inl e, c) \<Rightarrow> (Inl e, free_slot c) | (Inr u, c) \<Rightarrow> f c))"
    if "\<And>x. ctl_moves (env_sha env) x (snd (f x))" for s now io and f :: "controller \<Rightarrow> (rpc_error + json) \<times> controller"
    using persist_moves [of env "env_sha env" s now io] free [of "env_sha env" "snd (persist env now io s)"] that
    by (cases "persist env now io s"; cases "fst (persist env now io s)") (auto intro: rtranclp_trans)
  show ?thesis
    unfolding accept_async_def Let_def
    by (intro moves_if answer_moves sbind_moves [OF slot]) (auto simp: free intro!: saved start)
qed

lemma capability_invoke_moves:
  assumes "unexhausted c"
  shows "ctl_moves (env_sha env) c (snd (capability_invoke env params c))"
  unfolding capability_invoke_def invoke_prepared_def
proof (rule sbind_moves)
  show "ctl_moves (env_sha env) c (snd (prepare env params c))"
    using prepare_quiet [of env c params] by (simp add: quiet_def)
next
  fix iv s assume p: "prepare env params c = (Inr iv, s)"
  have l: "ctl_leases s = ctl_leases c" using prepare_quiet [of env c params] p by (simp add: quiet_def)
  have b: "fence_of (ctl_leases c) r < 2 ^ 63" "length (cap_locks (inv_contract iv)) < 2 ^ 32" for r
    using assms prepare_contract [OF p] by (auto simp: unexhausted_def)
  have r: "ctl_moves (env_sha env) s (snd (resume params s))" "ctl_leases (snd (resume params s)) = ctl_leases s"
    using resume_quiet [of "env_sha env" s params] by (simp_all add: quiet_def)
  note parts = accept_async_moves [of "stage 3 1 2 env"] invoke_sync_moves [of "snd (resume params s)" iv "stage 3 1 2 env"]
  show "ctl_moves (env_sha env) s (snd (sbind (execution_mode params, s) (\<lambda>mode c.
       let (resumed, c) = resume params c in
       if wants_async params mode iv then accept_async (stage 3 1 2 env) iv params c
       else invoke_sync (stage 3 1 2 env) resumed iv params c)))"
    using parts b l r
    by (intro registry_moves) (auto simp: case_prod_beta intro: rtranclp_trans [OF r(1)])
qed

lemma moving_invoke: "moving rest \<Longrightarrow> moving (invoke_actions rest)"
  by (simp add: moving_def invoke_actions_def capability_invoke_moves)

lemma moving_controller: "moving views \<Longrightarrow> moving (controller_actions views)"
  unfolding controller_actions_def by (intro moving_registry moving_operator moving_tasks moving_invoke)

end
