(* ===== verification/Controller_Properties.thy ===== *)
theory Controller_Properties
  imports Action_Moves Util_Properties
begin

section \<open>Properties of the Controller as a whole\<close>

text \<open>
  The life of a Controller: requests of every group, workers of asynchronous tasks, and restarts
  from the state file, with any of the writes failing along the way. It is a store of fenced
  leases, and the records on file only ever change by their laws, so what was promised about
  leases, approvals, sessions, generations, transactions and handoffs outlives a crash.
\<close>

subsection \<open>The life of a Controller\<close>

text \<open>The two actions that are not modelled answer from the state and leave it as it is.\<close>

definition reading :: "handler \<Rightarrow> bool" where
  "reading views = (\<forall>env action params c. snd (views env action params c) = c)"

inductive ctl_step :: "controller \<Rightarrow> controller \<Rightarrow> bool" where
  step_request: "reading views \<Longrightarrow> unexhausted c
    \<Longrightarrow> ctl_step c (snd (handle (controller_actions views) env stamps elapsed r c))"
| step_worker: "reading views \<Longrightarrow> unexhausted c \<Longrightarrow> k < length (ctl_workers c)
    \<Longrightarrow> ctl_step c (finish_worker views env stamps elapsed k c)"
| step_crash: "open_with_id env sz (Inr (ctl_disk c)) obs cfg = Inr c' \<Longrightarrow> ctl_step c c'"

lemma reading_moving: "reading views \<Longrightarrow> moving views"
  by (simp add: reading_def moving_def)

lemma request_moves:
  assumes "reading views" "unexhausted c"
  shows "ctl_moves (env_sha env) c (snd (handle (controller_actions views) env stamps elapsed r c))"
proof (rule handle_moves [OF _ assms(2) prod.collapse [symmetric]])
  show "driven (controller_actions views) (req_action r)"
    using moving_controller [OF reading_moving [OF assms(1)]] by (simp add: driven_def)
qed

lemma worker_moves:
  assumes "reading views" "unexhausted c"
  shows "ctl_moves (env_sha env) c (finish_worker views env stamps elapsed k c)"
proof -
  let ?c = "c\<lparr>ctl_workers := take k (ctl_workers c) @ drop (Suc k) (ctl_workers c)\<rparr>"
  have "ctl_moves (env_sha env) c ?c" by (rule same_moves) simp_all
  also have "ctl_moves (env_sha env) ?c (snd (handle (controller_actions views) env stamps elapsed (snd (ctl_workers c ! k)) ?c))"
    using assms unexhausted_cong [of ?c c] by (intro request_moves) simp_all
  also have "ctl_moves (env_sha env) s (free_slot s)" for s by (rule same_moves) (simp_all add: free_slot_def)
  finally show ?thesis by (simp add: finish_worker_def)
qed

lemma ctl_step_cases:
  assumes "ctl_step c c'"
  obtains sha where "ctl_moves sha c c'" | env sz obs cfg where "open_with_id env sz (Inr (ctl_disk c)) obs cfg = Inr c'"
  using assms
proof (cases rule: ctl_step.cases)
  case (step_request views env stamps elapsed r)
  with that(1) [of "env_sha env"] request_moves [of views c env] show thesis by blast
next
  case (step_worker views k env stamps elapsed)
  with that(1) [of "env_sha env"] worker_moves [of views c env] show thesis by blast
qed (rule that(2))

lemma ctl_step_wf: "ctl_step c c' \<Longrightarrow> ctl_wf c \<Longrightarrow> ctl_wf c' \<and> fence_of (disk_table c) r \<le> fence_of (disk_table c') r"
  by (erule ctl_step_cases) (use moves_wf moves_disk in blast, use restart_wf in simp)

text \<open>
  The Controller is itself a store of fenced leases: its durable leases are those of the file,
  and the contract's consequences along runs hold for requests, workers and restarts alike.
\<close>

lemma disk_lease_fence: "ctl_wf c \<Longrightarrow> lease_get (disk_table c) r = Some l \<Longrightarrow> lease_fence l \<le> fence_of (disk_table c) r"
  by (simp add: ctl_wf_def lt_wf_fence)

interpretation ctl: fenced_store ctl_wf "\<lambda>c. lease_get (disk_table c)" "\<lambda>c. fence_of (disk_table c)" ctl_step
  by unfold_locales (auto dest: ctl_step_wf disk_lease_fence)

subsection \<open>Records on file\<close>

definition disk_state :: "controller \<Rightarrow> workbench_state" where
  "disk_state c = unwrap_or workbench_state_default (ctl_disk c)"

text \<open>The memory continues what the file says.\<close>

definition durable :: "controller \<Rightarrow> bool" where
  "durable c = state_history (disk_state c) (ctl_state c)"

lemma persist_history:
  "io = None \<Longrightarrow> disk_state (snd (persist env now io c)) = ctl_state (snd (persist env now io c))"
  "io = Some e \<Longrightarrow> disk_state (snd (persist env now io c)) = disk_state c"
  by (simp_all add: persist_def Let_def disk_state_def)

lemma ctl_move_durable:
  "ctl_move sha c c' \<Longrightarrow> durable c \<Longrightarrow> durable c' \<and> state_history (disk_state c) (disk_state c')"
proof (induction rule: ctl_move.induct)
  case (move_persist env c now io)
  have "state_history (disk_state c) (ctl_state (snd (persist env now io c)))"
    using move_persist(2) history_persist [of c env now io] by (auto simp: durable_def history_def intro: state_history_trans)
  then show ?case by (cases io) (simp_all add: durable_def persist_history)
next
  case (move_other c' c)
  then show ?case by (auto simp: durable_def disk_state_def history_def intro: state_history_trans)
qed (simp add: durable_def disk_state_def)

lemma moves_durable:
  "ctl_moves sha c c' \<Longrightarrow> durable c \<Longrightarrow> durable c' \<and> state_history (disk_state c) (disk_state c')"
  by (induction rule: rtranclp_induct) (auto dest: ctl_move_durable intro: state_history_trans)

lemma restart_durable:
  assumes "open_with_id env sz (Inr (ctl_disk c)) obs cfg = Inr c'"
  shows "durable c' \<and> state_history (disk_state c) (disk_state c')"
proof -
  from assms obtain o' i where o: "open_rest env (ctl_disk c) (disk_state c) o' i = Inr c'"
    by (auto simp: open_with_id_def Let_def disk_state_def split: option.splits if_splits)
  define st2 where "st2 = snd (compact_persisted_evidence (env_sha env) (env_jshow env)
     ((disk_state c)\<lparr>ws_controller_id := Some i, ws_sessions := map (adopt_session i) (ws_sessions (disk_state c))\<rparr>))"
  have l: "state_history (disk_state c) st2" unfolding st2_def by (rule loaded_history)
  from o consider "ctl_disk c' = ctl_disk c" "ctl_state c' = st2"
    | "ctl_disk c' = Some (ctl_state c')" "state_history st2 (ctl_state c')"
    by (auto simp: open_rest_def Let_def case_prod_beta st2_def [symmetric] state_history_same split: if_splits option.splits)
  then show ?thesis
  proof cases
    case 1
    with l show ?thesis by (simp add: durable_def disk_state_def)
  next
    case 2
    with l show ?thesis by (auto simp: durable_def disk_state_def intro: state_history_trans)
  qed
qed

lemma steps_durable:
  "ctl_step\<^sup>*\<^sup>* c c' \<Longrightarrow> durable c \<Longrightarrow> durable c' \<and> state_history (disk_state c) (disk_state c')"
proof (induction rule: rtranclp_induct)
  case (step y z)
  from step(2) have "durable y \<Longrightarrow> durable z \<and> state_history (disk_state y) (disk_state z)"
    by (rule ctl_step_cases) (auto dest: moves_durable restart_durable)
  with step show ?case by (blast intro: state_history_trans)
qed simp

text \<open>What is on file now, and what any later state makes of it.\<close>

lemma disk_to_memory:
  "ctl_step\<^sup>*\<^sup>* c c' \<Longrightarrow> durable c \<Longrightarrow> state_history (disk_state c) (ctl_state c')"
  using steps_durable by (auto simp: durable_def intro: state_history_trans)

lemmas history_find =
  sessions.evolves_find generations.evolves_find transactions.evolves_find handoffs.evolves_find approvals.evolves_find

lemma kept_session:
  assumes "ctl_step\<^sup>*\<^sup>* c c'" "durable c" "find (\<lambda>s. session_key s = i) (ws_sessions (disk_state c)) = Some s"
  shows "\<exists>t. find_session c' i = Some t \<and> session_law s t"
  using disk_to_memory [OF assms(1,2)] assms(3) unfolding find_session_def
  by (auto simp: state_history_def intro: history_find)

lemma kept_generation:
  assumes "ctl_step\<^sup>*\<^sup>* c c'" "durable c" "find (\<lambda>g. gen_id g = i) (ws_generations (disk_state c)) = Some g"
  shows "\<exists>h. find_generation c' i = Some h \<and> generation_law g h"
  using disk_to_memory [OF assms(1,2)] assms(3) unfolding find_generation_def
  by (auto simp: state_history_def intro: history_find)

lemma kept_transaction:
  assumes "ctl_step\<^sup>*\<^sup>* c c'" "durable c" "find (\<lambda>t. tx_id t = i) (ws_transactions (disk_state c)) = Some t"
  shows "\<exists>u. find_transaction c' i = Inr u \<and> transaction_law t u"
proof -
  from disk_to_memory [OF assms(1,2)] assms(3)
  obtain u where "find (\<lambda>t. tx_id t = i) (ws_transactions (ctl_state c')) = Some u" "transaction_law t u"
    unfolding state_history_def by (blast dest: history_find)
  then show ?thesis by (simp add: find_transaction_def found_def ok_or_def)
qed

lemma kept_handoff:
  assumes "ctl_step\<^sup>*\<^sup>* c c'" "durable c" "find (\<lambda>h. handoff_id h = i) (ws_handoffs (disk_state c)) = Some h"
  shows "\<exists>k. find_handoff c' i = Inr k \<and> handoff_law h k"
proof -
  from disk_to_memory [OF assms(1,2)] assms(3)
  obtain k where "find (\<lambda>h. handoff_id h = i) (ws_handoffs (ctl_state c')) = Some k" "handoff_law h k"
    unfolding state_history_def by (blast dest: history_find)
  then show ?thesis by (simp add: find_handoff_def found_def ok_or_def)
qed

lemma kept_approval:
  assumes "ctl_step\<^sup>*\<^sup>* c c'" "durable c" "find (\<lambda>a. approval_id a = i) (ws_approvals (disk_state c)) = Some a"
  shows "\<exists>b. find_approval c' i = Some b \<and> approval_law a b"
  using disk_to_memory [OF assms(1,2)] assms(3) unfolding find_approval_def
  by (auto simp: state_history_def intro: history_find)

lemma find_update_first:
  "find P xs = Some x \<Longrightarrow> P (f x) \<Longrightarrow> find P (update_first P f xs) = Some (f x)"
  by (induction xs) (auto split: if_splits)

text \<open>A consumed approval is on file before the command runs.\<close>

lemma consumed_on_file:
  assumes "durable c" "needs_approval iv" "required_str p ''approvalId'' = Inr i" "consume_approval env iv p c = (Inr iv', c1)"
  shows "durable c1 \<and> (\<exists>a. find (\<lambda>a. approval_id a = i) (ws_approvals (disk_state c1)) = Some a \<and> approval_state a = ApprovalConsumed \<and> approval_consumed_at a \<noteq> None)"
proof -
  from assms(2-4) obtain a d where a: "find_approval c i = Some a" and auth: "approval_authorizes (env_clock env 0) d (inv_owner iv) a"
    and p: "persist env (env_clock env 2) (env_io env 0) (update_approval i (consume (env_clock env 1)) c) = (Inr (), c1)"
    by (auto simp: consume_approval_def sbind_Inr found_def ok_or_def split: if_splits option.splits)
  have "ctl_moves (env_sha env) c c1"
    using consume_approval_quiet [of env c iv p] assms(4) by (simp add: quiet_def)
  then have "durable c1" using assms(1) moves_durable by blast
  moreover have "approval_id a = i" using a by (auto simp: find_approval_def dest: find_SomeD)
  then have "find (\<lambda>a. approval_id a = i) (ws_approvals (disk_state c1)) = Some (consume (env_clock env 1) a)"
    using p a find_update_first [of "\<lambda>a. approval_id a = i" "ws_approvals (ctl_state c)" a "consume (env_clock env 1)"]
    by (auto simp: persist_def Let_def disk_state_def update_approval_def with_state_def find_approval_def consume_def split: option.splits)
  ultimately show ?thesis by (auto simp: consume_def)
qed

subsection \<open>A Controller with records\<close>

definition demo_metadata :: "string \<Rightarrow> metadata" where
  "demo_metadata i = \<lparr>metadata_id = i, metadata_labels = [], metadata_created_at = 1, metadata_updated_at = 1\<rparr>"

definition demo_session :: workspace_session where
  "demo_session = \<lparr>session_api_version = ''v1'', session_metadata = demo_metadata ''w'', session_objective = ''ship'',
     session_state = SessionActive,
     session_authority = Some \<lparr>authority_controller_id = ''ctl'', authority_epoch = 1, authority_pending_controller_id = None\<rparr>,
     session_observability = None\<rparr>"

definition demo_generation :: generation where
  "demo_generation = \<lparr>gen_id = ''g'', gen_workspace_session_id = ''w'', gen_application_type = ''app'', gen_root = ''/g'',
     gen_state = GenActive, gen_baseline = \<lparr>baseline_digest = ''d'', baseline_source = ''s'', baseline_identifier = None,
       baseline_version = None, baseline_attributes = []\<rparr>,
     gen_applied_artifacts = [], gen_digest = ''d'', gen_created_at = 1, gen_activated_at = Some 2, gen_validation = None,
     gen_finalization = None, gen_smoke = None, gen_failure = None\<rparr>"

definition demo_transaction :: activation_transaction where
  "demo_transaction = \<lparr>tx_id = ''t'', tx_workspace_session_id = ''w'', tx_idempotency_key = ''k'', tx_target = ''x'',
     tx_generation_id = ''g'', tx_previous_generation_id = None, tx_state = TxRunning, tx_created_at = 1, tx_updated_at = 1,
     tx_completed_steps = [''stage''],
     tx_journal = [\<lparr>je_sequence = 1, je_step = ''stage'', je_state = StepSucceeded, je_attempt = 1, je_started_at = 1,
       je_finished_at = Some 1, je_input_digest = None, je_output_digest = None, je_executor_id = None, je_fence = Some 3,
       je_details = JNull\<rparr>],
     tx_lease_fence = Some 3, tx_evidence = [], tx_error = None\<rparr>"

definition demo_work :: handoff where
  "demo_work = \<lparr>handoff_id = ''h'', handoff_kind = HandoffAcceptance, handoff_workspace_session_id = ''w'',
     handoff_objective = ''check'', handoff_from = \<lparr>role_agent_id = Some ''ann'', role_role = ''author''\<rparr>,
     handoff_to = \<lparr>role_agent_id = Some ''bob'', role_role = ''tester''\<rparr>, handoff_artifacts = [], handoff_evidence = [],
     handoff_completed_actions = [], handoff_pending_actions = [], handoff_acceptance_criteria = [],
     handoff_constraints = [], handoff_blockers = [], handoff_created_at = 1, handoff_acknowledged_at = Some 2,
     handoff_completed_at = None, handoff_report = None\<rparr>"

text \<open>The digest is that of the demo environment, whose JSON text is empty.\<close>

definition demo_approval :: approval where
  "demo_approval = \<lparr>approval_id = ''a'', approval_digest = [], approval_owner = ''ann'', approval_reason = ''clean'',
     approval_state = ApprovalApproved, approval_created_at = 1, approval_approved_at = Some 2, approval_consumed_at = None,
     approval_expires_at = Some 1000\<rparr>"

definition demo_records :: workbench_state where
  "demo_records = workbench_state_default
     \<lparr>ws_controller_id := Some ''ctl'', ws_sessions := [demo_session], ws_generations := [demo_generation],
      ws_transactions := [demo_transaction], ws_handoffs := [demo_work], ws_approvals := [demo_approval]\<rparr>"

definition demo_kept :: controller where
  "demo_kept = demo_controller\<lparr>ctl_state := demo_records, ctl_disk := Some demo_records\<rparr>"

definition demo_next :: controller where
  "demo_next = snd (handle (controller_actions no_handler) (demo_env 9) (\<lambda>_. 9) (\<lambda>_. 0) (request_new ''q'' ''ping'' JNull) demo_kept)"

lemma reading_no_handler: "reading no_handler"
  by (simp add: reading_def no_handler_def)

lemma demo_kept_durable: "durable demo_kept" "disk_state demo_kept = demo_records"
  by (simp_all add: durable_def disk_state_def demo_kept_def)

lemma unexhausted_empty:
  "ctl_leases c = lease_table_default \<Longrightarrow> ws_executors (ctl_state c) = [] \<Longrightarrow> unexhausted c"
  by (auto simp: unexhausted_def fence_of_def lease_table_default_def bt_get_def)

lemma demo_next_step: "ctl_step\<^sup>*\<^sup>* demo_kept demo_next"
proof (rule r_into_rtranclp)
  have "unexhausted demo_kept"
    by (rule unexhausted_empty) (simp_all add: demo_kept_def demo_records_def demo_controller_def workbench_state_default_def)
  then show "ctl_step demo_kept demo_next" unfolding demo_next_def by (rule step_request [OF reading_no_handler])
qed

lemma demo_on_file:
  "find (\<lambda>s. session_key s = ''w'') (ws_sessions (disk_state demo_kept)) = Some demo_session"
  "find (\<lambda>g. gen_id g = ''g'') (ws_generations (disk_state demo_kept)) = Some demo_generation"
  "find (\<lambda>t. tx_id t = ''t'') (ws_transactions (disk_state demo_kept)) = Some demo_transaction"
  "find (\<lambda>h. handoff_id h = ''h'') (ws_handoffs (disk_state demo_kept)) = Some demo_work"
  by (simp_all add: demo_kept_durable demo_records_def demo_session_def session_key_def demo_metadata_def
      demo_generation_def demo_transaction_def demo_work_def)

subsection \<open>Properties\<close>

text \<open>
  C1. Fencing is durable end to end. Suppose a request to the Controller was answered with a lease.
  Then after any sequence of requests of every kind, workers of asynchronous tasks and restarts from
  the state file, with any of the writes failing along the way, every later lease the Controller
  answers for the same resource carries a strictly greater fencing number. (The two requests are
  answered by the Controller itself, and the 64-bit counters are not exhausted.)
\<close>

theorem controller_fencing:
  assumes "ctl_wf c0" "unexhausted c0" "local_request q" "req_action q \<in> set grant_actions"
    and "handle (controller_actions views) env stamps elapsed q c0 = (resp, c1)" "resp_result resp = Some (lease_json old)"
    and "ctl_step\<^sup>*\<^sup>* c1 c2" "unexhausted c2"
    and "local_request q'" "req_action q' \<in> set grant_actions"
    and "handle (controller_actions views') env' stamps' elapsed' q' c2 = (resp', c3)" "resp_result resp' = Some (lease_json new)"
    and "lease_resource new = lease_resource old"
  shows "lease_fence old < lease_fence new"
proof -
  let ?r = "lease_resource old"
  have g: "driven (controller_actions views) (req_action q)" using assms(4) by (auto simp: driven_def grant_actions_def driver_group_def)
  have wf0: "lt_wf (ctl_leases c0)" using assms(1) by (simp add: ctl_wf_def)
  have wf1: "ctl_wf c1" by (rule moves_wf [OF handle_moves [OF g assms(2,5)] assms(1)])
  have wf2: "ctl_wf c2" and d: "fence_of (disk_table c1) ?r \<le> fence_of (disk_table c2) ?r"
    using ctl.inv_steps [OF assms(7) wf1] ctl.fence_steps [OF assms(7) wf1] by simp_all
  note old = granted_handle [OF wf0 assms(3-6)]
  have "lease_fence old \<le> fence_of (ctl_leases c1) ?r"
    using wf1 old(2) lt_wf_fence by (auto simp: ctl_wf_def)
  also have "\<dots> = fence_of (disk_table c1) ?r"
    using wf1 by (simp add: old(3) ctl_wf_def fence_of_restart_eq)
  also note d
  also have "fence_of (disk_table c2) ?r \<le> fence_of (ctl_leases c2) ?r" using wf2 by (simp add: ctl_wf_def)
  also have "\<dots> < fence_of (ctl_leases c2) ?r + 1"
    using assms(8) u64_less_succ by (simp add: unexhausted_fence)
  also have "\<dots> = lease_fence new"
    using granted_handle(1) [OF _ assms(9-12)] wf2 assms(13) by (simp add: ctl_wf_def)
  finally show ?thesis .
qed

theorem controller_fencing_witness:
  "\<exists>new. resp_result (fst (demo_handle 400000 (demo_driver_acquire ''bob'') demo_reopened)) = Some (lease_json new)
     \<and> ctl_step demo_driven demo_reopened \<and> lease_fence demo_lease < lease_fence new"
proof -
  define new where "new = \<lparr>lease_id = ''lease_a'', lease_kind = LeaseDriver, lease_resource = ''workspace:w'', lease_owner = ''bob'',
     lease_token = ''token_b'', lease_fence = 2, lease_acquired_at = 400000, lease_updated_at = 400000,
     lease_expires_at = 700000, lease_handoff_to = None\<rparr>"
  have step: "ctl_step demo_driven demo_reopened" by (rule step_crash [OF demo_reopened_eval(1)])
  have new: "resp_result (fst (demo_handle 400000 (demo_driver_acquire ''bob'') demo_reopened)) = Some (lease_json new)"
    by (simp add: driver_eval demo_reopened_eval demo_state_def demo_lease_def new_def bt_take_all.simps bt_remove_def)
  have req: "local_request (demo_driver_acquire x)" "req_action (demo_driver_acquire x) \<in> set grant_actions" for x
    by (simp_all add: local_request_def demo_driver_acquire_def request_new_def Let_def grant_actions_def get_str_def bt_get_def)
  have same: "handle (controller_actions no_handler) env st el (demo_driver_acquire x) c
      = handle no_handler env st el (demo_driver_acquire x) c" for env st el x c
  proof -
    have "req_action (demo_driver_acquire x) = ''driver.acquire''"
      by (simp add: demo_driver_acquire_def request_new_def Let_def)
    moreover have "dispatch (controller_actions no_handler) e ''driver.acquire'' p = dispatch no_handler e ''driver.acquire'' p" for e p
      by (simp add: fun_eq_iff dispatch_def driver_actions_def split: sum.split option.split)
    ultimately show ?thesis unfolding handle_def by (simp only:)
  qed
  have "handle (controller_actions no_handler) (demo_env 5) (\<lambda>_. 5) (\<lambda>_. 0) (demo_driver_acquire ''ann'') demo_controller
      = (fst (demo_handle 5 (demo_driver_acquire ''ann'') demo_controller), demo_driven)"
    by (simp add: demo_driven_def demo_handle_def same)
  from controller_fencing [OF demo_wf(1,2) req this demo_driven_eval(1) r_into_rtranclp [of ctl_step, OF step]
      demo_wf(4) req prod.collapse [symmetric] new [unfolded demo_handle_def, folded same]]
  have "lease_fence demo_lease < lease_fence new" by (simp add: demo_lease_def new_def)
  with new step show ?thesis by blast
qed

definition demo_capability :: "string \<Rightarrow> capability_authority \<Rightarrow> capability_descriptor" where
  "demo_capability name authority =
     \<lparr>cap_name = name, cap_version = ''2.0'', cap_input_schema = JObj [], cap_output_schema = JObj [],
      cap_required_executor_features = [], cap_locks = [],
      cap_idempotency = \<lparr>idem_key_fields = [], idem_retention_ms = 0\<rparr>, cap_timeout_ms = 1000,
      cap_execution_kind = ExecInline, cap_retry = retry_policy_default, cap_rollback = RollbackNone,
      cap_health_check = CheckNone, cap_emitted_evidence = [], cap_effect = EffectMutating, cap_authority = authority,
      cap_priority = 3, cap_max_concurrency = None, cap_cancel_policy = CancelContinue\<rparr>"

definition demo_executor :: "capability_descriptor list \<Rightarrow> executor" where
  "demo_executor caps =
     \<lparr>executor_api_version = ''v1'', executor_metadata = demo_metadata ''e'', executor_endpoint = EndpointLocal ''sock'',
      executor_capabilities = caps, executor_allowed_roots = [], executor_health = HealthReady\<rparr>"

definition demo_removal :: invocation where
  "demo_removal =
     \<lparr>inv_executor = demo_executor [], inv_contract = demo_capability ''command.run'' AuthorityWorkspaceDriver,
      inv_workspace = ''w'', inv_owner = ''ann'', inv_key = ''k'',
      inv_input = JObj [(''argv'', JArr [JStr ''rm'']), (''cwd'', JStr ''/w'')], inv_authority = None\<rparr>"

definition demo_approved :: json where
  "demo_approved = JObj [(''approvalId'', JStr ''a'')]"



text \<open>
  C17. A generation moves forward for ever: of a generation on file every later state of the
  Controller has the same session, root and digest of the baseline; its state is the same or later in the order
  from reserved to superseded, a failed or superseded generation stays so, and an active one is
  only ever superseded.
\<close>

theorem generation_history:
  assumes "durable c" "find (\<lambda>g. gen_id g = i) (ws_generations (disk_state c)) = Some g" "ctl_step\<^sup>*\<^sup>* c c'"
  shows "\<exists>h. find_generation c' i = Some h \<and> gen_workspace_session_id h = gen_workspace_session_id g \<and>
    gen_root h = gen_root g \<and> baseline_digest (gen_baseline h) = baseline_digest (gen_baseline g) \<and>
    (gen_state h = gen_state g \<or> generation_rank (gen_state g) < generation_rank (gen_state h)) \<and>
    (gen_state g = GenSuperseded \<or> gen_state g = GenFailed \<longrightarrow> gen_state h = gen_state g) \<and>
    (gen_state g = GenActive \<longrightarrow> gen_state h = GenActive \<or> gen_state h = GenSuperseded)"
  using kept_generation [OF assms(3,1,2)] generation_forward unfolding generation_law_def by metis

theorem generation_history_witness:
  "\<exists>h. find_generation demo_next ''g'' = Some h \<and> (gen_state h = GenActive \<or> gen_state h = GenSuperseded)"
  using generation_history [OF demo_kept_durable(1) demo_on_file(2) demo_next_step] by (auto simp: demo_generation_def)

text \<open>
  C16. The journal of a transaction is append-only across restarts: of a transaction on file every
  later state of the Controller has the same target, generation and fence, the journal it had as
  a prefix (up to the compaction of details), further entries numbered consecutively and carrying
  no other fence than the transaction's, and no completed step undone.
\<close>

theorem transaction_journal:
  assumes "durable c" "find (\<lambda>t. tx_id t = i) (ws_transactions (disk_state c)) = Some t" "ctl_step\<^sup>*\<^sup>* c c'"
  shows "\<exists>u. find_transaction c' i = Inr u \<and> tx_target u = tx_target t \<and> tx_generation_id u = tx_generation_id t \<and>
    tx_lease_fence u = tx_lease_fence t \<and> set (tx_completed_steps t) \<subseteq> set (tx_completed_steps u) \<and>
    map entry_core (tx_journal t) = take (length (tx_journal t)) (map entry_core (tx_journal u)) \<and>
    (\<forall>n. length (tx_journal t) \<le> n \<and> n < length (tx_journal u) \<longrightarrow>
       je_sequence (tx_journal u ! n) = of_nat n + 1 \<and>
       (tx_lease_fence t \<noteq> None \<and> je_fence (tx_journal u ! n) \<noteq> None \<longrightarrow> je_fence (tx_journal u ! n) = tx_lease_fence t))"
proof -
  from kept_transaction [OF assms(3,1,2)] obtain u where u: "find_transaction c' i = Inr u" and law: "transaction_law t u"
    by blast
  have "map entry_core (tx_journal t) = take (length (tx_journal t)) (map entry_core (tx_journal u))"
    using law by (intro nth_equalityI) (simp_all add: transaction_law_def)
  with u law show ?thesis by (auto simp: transaction_law_def entry_ok_def)
qed

theorem transaction_journal_witness:
  "\<exists>u. find_transaction demo_next ''t'' = Inr u \<and> tx_lease_fence u = Some 3 \<and> ''stage'' \<in> set (tx_completed_steps u)"
  using transaction_journal [OF demo_kept_durable(1) demo_on_file(3) demo_next_step] by (auto simp: demo_transaction_def)

text \<open>
  A handoff goes through its stages in order and none is undone: in every later state of the
  Controller the handoff on file names the same agents and work, keeps the time it was
  acknowledged and that it was completed, and one completed since was acknowledged, and reported
  on when it asks for an acceptance.
\<close>

theorem handoff_stages:
  assumes "durable c" "find (\<lambda>h. handoff_id h = i) (ws_handoffs (disk_state c)) = Some h" "ctl_step\<^sup>*\<^sup>* c c'"
  shows "\<exists>k. find_handoff c' i = Inr k \<and> handoff_from k = handoff_from h \<and> handoff_to k = handoff_to h \<and>
    handoff_kind k = handoff_kind h \<and> handoff_artifacts k = handoff_artifacts h \<and>
    (handoff_acknowledged_at h \<noteq> None \<longrightarrow> handoff_acknowledged_at k = handoff_acknowledged_at h) \<and>
    (handoff_completed_at h \<noteq> None \<longrightarrow> handoff_completed_at k \<noteq> None) \<and>
    (handoff_completed_at h = None \<and> handoff_completed_at k \<noteq> None \<longrightarrow>
       handoff_acknowledged_at k \<noteq> None \<and> (handoff_kind h = HandoffAcceptance \<longrightarrow> handoff_report k \<noteq> None))"
proof -
  from kept_handoff [OF assms(3,1,2)] obtain k where k: "find_handoff c' i = Inr k" "handoff_law h k" by blast
  moreover from k(2) have "handoff_from k = handoff_from h \<and> handoff_to k = handoff_to h \<and>
      handoff_kind k = handoff_kind h \<and> handoff_artifacts k = handoff_artifacts h"
    by (cases h; cases k) (auto simp: handoff_law_def)
  ultimately show ?thesis by (auto simp: handoff_law_def)
qed

theorem handoff_stages_witness:
  "\<exists>k. find_handoff demo_next ''h'' = Inr k \<and> handoff_acknowledged_at k = Some 2 \<and> handoff_to k = handoff_to demo_work"
  using handoff_stages [OF demo_kept_durable(1) demo_on_file(4) demo_next_step] by (auto simp: demo_work_def)

end
