(* ===== verification/Invoke_Properties.thy ===== *)
theory Invoke_Properties
  imports Controller_Properties
begin

section \<open>Properties of invocations, tasks and the operator\<close>

text \<open>
  What the Controller promises about acting on an Executor: who may, at most once, with which
  leases held, and what an operator's nonce is good for; and the places where the code falls
  short of it. That the Executor is not called is stated as independence of \<open>env_call\<close>, the
  answers of other processes.
\<close>

subsection \<open>Authority\<close>

lemma stage_fields [simp]:
  "env_clock (stage a b n env) = (\<lambda>k. env_clock env (k + a))" "env_jshow (stage a b n env) = env_jshow env"
  "env_codec (stage a b n env) = env_codec env" "env_call (stage a b n env) = env_call env"
  by (simp_all add: stage_def skip_def nth_call_def)

lemma stage_call: "stage a b n (env\<lparr>env_call := f\<rparr>) = (stage a b n env)\<lparr>env_call := f\<rparr>"
  by (simp add: stage_def skip_def nth_call_def)

text \<open>The capabilities for which the Controller looks for a read grant before anything else.\<close>

definition asks_for_grants :: "string \<Rightarrow> bool" where
  "asks_for_grants capability =
     (capability \<in> set grant_capability_names \<or> capability = ''application.inspect'' \<or> capability = ''application.materialize'')"

lemma read_input_same: "\<not> asks_for_grants cap \<Longrightarrow> read_input env e w cap input c = (Inr input, c)"
  by (simp add: read_input_def asks_for_grants_def)

text \<open>What looking for a grant leaves alone.\<close>

definition aside :: "controller \<Rightarrow> controller \<Rightarrow> bool" where
  "aside c c' =
     (ctl_leases c' = ctl_leases c \<and> ctl_workers c' = ctl_workers c
      \<and> ws_driver_handoff_requests (ctl_state c') = ws_driver_handoff_requests (ctl_state c))"

lemma persist_aside: "aside c c' \<Longrightarrow> aside c (snd (persist env now io c'))"
  by (simp add: aside_def persist_def Let_def split: option.split)

lemma find_read_grant_aside: "aside c (snd (find_read_grant env e w cap path c))"
  unfolding find_read_grant_def Let_def
  by (auto split: option.split intro!: sbind_inv [where Q = "aside c"] persist_aside) (simp_all add: aside_def with_state_def)

lemma read_input_aside: "aside c (snd (read_input env e w cap input c))"
proof -
  have "aside c (snd (add_read_grant env e w cap' key input c))" for cap' key
    unfolding add_read_grant_def
    by (auto split: option.split intro!: sbind_inv [where Q = "aside c"] find_read_grant_aside) (simp_all add: aside_def)
  then show ?thesis by (simp add: read_input_def aside_def)
qed

definition driver_may ::
  "environment \<Rightarrow> json \<Rightarrow> string \<Rightarrow> string \<Rightarrow> controller \<Rightarrow> bool" where
  "driver_may env params workspace owner c =
     (\<not> workspace_is_draining (env_clock env 1) c workspace owner \<and>
      (case get_str params ''driverToken'' of
         None \<Rightarrow> False
       | Some token \<Rightarrow> is_ok (validate (env_sha env) (env_clock env 2) (ctl_leases c) (''workspace:'' @ workspace) owner token)))"

lemma driver_may_cong: "aside c c' \<Longrightarrow> driver_may env params w ow c' = driver_may env params w ow c"
  by (simp add: driver_may_def aside_def workspace_is_draining_def split: option.split)

lemma required_authority_refused:
  assumes "cap_authority k = AuthorityWorkspaceDriver" "\<not> driver_may env params w ow c"
    "\<not> workspace_is_draining (env_clock env 1) c w ow"
  shows "\<exists>e. \<forall>f. required_authority (stage 2 0 1 (env\<lparr>env_call := f\<rparr>)) k x cap w ow params input c = Inl e"
  using assms
  by (cases "get_str params ''driverToken''";
      cases "validate (env_sha env) (env_clock env 2) (ctl_leases c) (''workspace:'' @ w) ow (the (get_str params ''driverToken''))")
    (simp_all add: required_authority_def driver_may_def required_str_def stage_call and_then_def map_err_def numeral_2_eq_2)

text \<open>The request up to its input, whatever the authority says.\<close>

lemma prepare_refused:
  assumes "required_str params ''executorId'' = Inr x" "required_str params ''capability'' = Inr cap"
    "required_str params ''workspaceSessionId'' = Inr w" "required_str params ''owner'' = Inr ow"
    "find_executor c x = Some e" "find_contract e cap = Inr k" "cap_authority k = AuthorityWorkspaceDriver"
    "\<not> driver_may env params w ow c"
  shows "\<exists>m s. prepare env params c = (Inl m, s) \<and> aside c s \<and>
    (\<not> asks_for_grants cap \<longrightarrow> s = c \<and> (\<forall>f. prepare (env\<lparr>env_call := f\<rparr>) params c = (Inl m, c)))"
proof (cases "\<exists>m. check_session c w = Inl m \<or> required_str params ''idempotencyKey'' = Inl m")
  case True
  then show ?thesis
    using assms by (cases "check_session c w"; cases "required_str params ''idempotencyKey''") (auto simp: prepare_def aside_def)
next
  case False
  then obtain u key where ok: "check_session c w = Inr u" "required_str params ''idempotencyKey'' = Inr key"
    by (metis sum.exhaust)
  obtain r s where r: "read_input env x w cap (unwrap_or (JObj []) (jget params ''input'')) c = (r, s)" by fastforce
  then have s: "aside c s" using read_input_aside by (metis snd_conv)
  have refused: "\<exists>m. \<forall>f. required_authority (stage 2 0 1 (env\<lparr>env_call := f\<rparr>)) k x cap w ow params input s = Inl m"
    if "\<not> workspace_is_draining (env_clock env 1) s w ow" for input
    using required_authority_refused [of k env params w ow s x cap input] assms that s by (simp add: driver_may_cong)
  note pre = assms(1-6) ok found_def ok_or_def prepare_def
  show ?thesis
  proof (cases r)
    case (Inl m)
    with r s show ?thesis
      by (auto simp: pre dest!: read_input_same [of cap env x w "unwrap_or (JObj []) (jget params ''input'')" c])
  next
    case (Inr input)
    show ?thesis
    proof (cases "workspace_is_draining (env_clock env 1) s w ow")
      case True
      with r Inr s assms(7) show ?thesis
        by (auto simp: pre read_input_same)
    next
      case False
      show ?thesis
      proof (cases "agent_input x w ow cap input")
        case (Inl m)
        with r Inr s False assms(7) show ?thesis
          by (auto simp: pre read_input_same)
      next
        case (Inr input')
        from refused [OF False, of input'] obtain m where
          m: "\<And>f. required_authority (stage 2 0 1 (env\<lparr>env_call := f\<rparr>)) k x cap w ow params input' s = Inl m" by blast
        from m [of "env_call env"] r Inr \<open>r = Inr input\<close> s False assms(7) m show ?thesis
          by (auto simp: pre read_input_same)
      qed
    qed
  qed
qed

text \<open>
  C3. Only the driver of a workspace acts on it: a capability that asks for the workspace driver is
  refused unless the request carries the token of the unexpired driver lease, held by the
  requesting owner, and no handoff is draining it. The refusal leaves the leases and the workers
  alone; unless the capability first looks for a read grant, it changes nothing at all and calls
  no Executor.
\<close>

theorem only_the_driver_invokes:
  assumes "required_str params ''executorId'' = Inr x" "required_str params ''capability'' = Inr cap"
    "required_str params ''workspaceSessionId'' = Inr w" "required_str params ''owner'' = Inr ow"
    "find_executor c x = Some e" "find_contract e cap = Inr k" "cap_authority k = AuthorityWorkspaceDriver"
    and "workspace_is_draining (env_clock env 1) c w ow \<or>
      (\<forall>token l. get_str params ''driverToken'' = Some token \<longrightarrow>
         validate (env_sha env) (env_clock env 2) (ctl_leases c) (''workspace:'' @ w) ow token \<noteq> Inr l)"
  shows "\<exists>m c'. capability_invoke env params c = (Inl m, c') \<and> ctl_leases c' = ctl_leases c \<and> ctl_workers c' = ctl_workers c \<and>
    (\<not> asks_for_grants cap \<longrightarrow> c' = c \<and> (\<forall>f. capability_invoke (env\<lparr>env_call := f\<rparr>) params c = (Inl m, c)))"
proof -
  have "\<not> driver_may env params w ow c"
    using assms(8) by (auto simp: driver_may_def elim: is_ok.elims split: option.splits)
  from prepare_refused [OF assms(1-7) this] show ?thesis by (auto simp: capability_invoke_def aside_def)
qed

definition demo_shared :: controller where
  "demo_shared = demo_kept\<lparr>ctl_state := demo_records\<lparr>ws_executors :=
     [demo_executor [demo_capability ''process.start'' AuthorityWorkspaceDriver]]\<rparr>\<rparr>"

definition demo_intrusion :: json where
  "demo_intrusion = JObj [(''capability'', JStr ''process.start''), (''driverToken'', JStr ''token_b''), (''executorId'', JStr ''e''),
     (''idempotencyKey'', JStr ''k''), (''owner'', JStr ''eve''), (''workspaceSessionId'', JStr ''w'')]"

theorem only_the_driver_invokes_witness:
  "\<exists>m. capability_invoke (demo_env 9) demo_intrusion demo_shared = (Inl m, demo_shared)"
proof -
  have request: "required_str demo_intrusion ''executorId'' = Inr ''e''" "required_str demo_intrusion ''capability'' = Inr ''process.start''"
    "required_str demo_intrusion ''workspaceSessionId'' = Inr ''w''" "required_str demo_intrusion ''owner'' = Inr ''eve''"
    by (simp_all add: demo_intrusion_def required_str_def get_str_def bt_get_def)
  have registered: "find_executor demo_shared ''e'' = Some (demo_executor [demo_capability ''process.start'' AuthorityWorkspaceDriver])"
    by (simp add: find_executor_def demo_shared_def demo_executor_def executor_key_def demo_metadata_def)
  have contract: "find_contract (demo_executor [demo_capability ''process.start'' AuthorityWorkspaceDriver]) ''process.start'' =
      Inr (demo_capability ''process.start'' AuthorityWorkspaceDriver)"
    by (simp add: find_contract_def demo_executor_def demo_capability_def found_def ok_or_def)
  have free: "\<forall>token l. get_str demo_intrusion ''driverToken'' = Some token \<longrightarrow>
      validate (env_sha (demo_env 9)) (env_clock (demo_env 9) 2) (ctl_leases demo_shared) (''workspace:'' @ ''w'') ''eve'' token \<noteq> Inr l"
    by (simp add: validate_def demo_shared_def demo_kept_def demo_controller_def lease_table_default_def bt_get_def)
  have driver: "cap_authority (demo_capability ''process.start'' AuthorityWorkspaceDriver) = AuthorityWorkspaceDriver"
    "\<not> asks_for_grants ''process.start''"
    by (simp_all add: demo_capability_def asks_for_grants_def grant_capability_names_def)
  from only_the_driver_invokes [OF request registered contract driver(1) disjI2 [OF free]] driver(2) show ?thesis by blast
qed

subsection \<open>The operator's nonce\<close>

lemma nonces_same [simp]:
  "ctl_operator_nonces (snd (persist env now io c)) = ctl_operator_nonces c"
  "ctl_operator_nonces (snd (task_op code f c)) = ctl_operator_nonces c"
  "ctl_operator_nonces (observe_task_state env now t c) = ctl_operator_nonces c"
  "ctl_operator_nonces (observe ob c) = ctl_operator_nonces c"
  by (simp_all add: persist_def Let_def task_op_def observe_task_state_def observe_def case_prod_beta split: option.split)

lemma sbind_nonces:
  "ctl_operator_nonces (snd r) = ns \<Longrightarrow> (\<And>a s. ctl_operator_nonces s = ns \<Longrightarrow> ctl_operator_nonces (snd (f a s)) = ns) \<Longrightarrow>
   ctl_operator_nonces (snd (sbind r f)) = ns"
  by (rule sbind_inv [where Q = "\<lambda>s. ctl_operator_nonces s = ns"]) auto

lemma task_answer_nonces: "ctl_operator_nonces c = ns \<Longrightarrow> ctl_operator_nonces (snd (task_answer env t v c)) = ns"
  unfolding task_answer_def by (rule sbind_nonces) simp_all

lemma cancel_running_nonces: "ctl_operator_nonces c = ns \<Longrightarrow> ctl_operator_nonces (snd (cancel_running env t c)) = ns"
  unfolding cancel_running_def Let_def case_prod_beta by (intro sbind_nonces task_answer_nonces) simp_all

lemma task_cancel_nonces: "ctl_operator_nonces c = ns \<Longrightarrow> ctl_operator_nonces (snd (task_cancel env params c)) = ns"
  unfolding task_cancel_def
  by (auto intro!: sbind_nonces task_answer_nonces cancel_running_nonces)

lemma inner_cancel_nonces: "ctl_operator_nonces c = ns \<Longrightarrow> ctl_operator_nonces (snd (inner_dispatch env ''task.cancel'' params c)) = ns"
  by (simp add: inner_dispatch_def dispatch_def Let_def driver_actions_def registry_actions_def task_actions_def
      task_cancel_nonces split: sum.split option.split)

lemma bt_get_remove_same: "bt_get (bt_remove k m) k = None"
  by (auto simp: bt_remove_def bt_get_def map_of_eq_None_iff)

lemma forced_action_nonce:
  assumes "required_str params ''actionNonce'' = Inr i"
  shows "ctl_operator_nonces (snd (forced_action inner_dispatch env action target params c)) = bt_remove i (ctl_operator_nonces c)"
  using assms unfolding forced_action_def
  by (auto simp: inner_get_same intro!: sbind_nonces inner_cancel_nonces)

lemma forced_action_needs:
  assumes "required_str params ''actionNonce'' = Inr i" "is_ok (fst (forced_action inner_dispatch env action target params c))"
  shows "\<exists>n. bt_get (ctl_operator_nonces c) i = Some n \<and> on_action n = action \<and> on_target n = target \<and> env_clock env 0 < on_expires_at n"
  using assms
  by (cases "bt_get (ctl_operator_nonces c) i") (auto simp: forced_action_def found_def ok_or_def not_le split: if_splits)

lemma operator_action_forced:
  "required_force_action params = Inr action \<Longrightarrow> required_str params ''target'' = Inr target \<Longrightarrow>
   operator_action h env params c = forced_action h env action target params c"
  by (auto simp: required_force_action_def operator_action_def and_then_def split: sum.splits if_splits)

text \<open>
  C21. A nonce authorizes one destructive action: a forced action succeeds only with a nonce that was
  issued for exactly this action and target and has not expired; whether it succeeds or fails, the
  nonce is gone, and presenting it again is refused and changes nothing.
\<close>

theorem nonce_single_use:
  assumes "required_force_action params = Inr action" "required_str params ''target'' = Inr target"
    "required_str params ''actionNonce'' = Inr i" "operator_action inner_dispatch env params c = (r, c1)"
    and "required_force_action params2 = Inr action2" "required_str params2 ''target'' = Inr target2"
    "required_str params2 ''actionNonce'' = Inr i"
  shows "(is_ok r \<longrightarrow> (\<exists>n. bt_get (ctl_operator_nonces c) i = Some n \<and> on_action n = action \<and> on_target n = target
      \<and> env_clock env 0 < on_expires_at n)) \<and>
    operator_action inner_dispatch env2 params2 c1 =
      (Inl (rpc_err ''ACTION_NONCE_INVALID'' ''action nonce is missing or already consumed''), c1)"
proof -
  have first: "forced_action inner_dispatch env action target params c = (r, c1)"
    using assms(1,2,4) by (simp add: operator_action_forced)
  have gone: "bt_get (ctl_operator_nonces c1) i = None"
    using forced_action_nonce [OF assms(3), of env action target c] first by (simp add: bt_get_remove_same)
  then have "operator_action inner_dispatch env2 params2 c1 =
      (Inl (rpc_err ''ACTION_NONCE_INVALID'' ''action nonce is missing or already consumed''), c1)"
    using assms(5-7) by (simp add: operator_action_forced forced_action_def found_def ok_or_def bt_remove_absent)
  with forced_action_needs [OF assms(3), of env action target c] first show ?thesis by simp
qed

definition demo_stop :: json where
  "demo_stop = JObj [(''action'', JStr ''stop-process''), (''actionNonce'', JStr ''nonce_a''), (''executorId'', JStr ''e''),
     (''target'', JStr ''p'')]"

definition demo_nonced :: controller where
  "demo_nonced = demo_kept\<lparr>ctl_operator_nonces := [(''nonce_a'', \<lparr>on_operator_id = ''op'', on_action = ''stop-process'',
     on_target = ''p'', on_reason = ''stuck'', on_expires_at = 100\<rparr>)]\<rparr>"

theorem nonce_single_use_witness:
  "fst (operator_action inner_dispatch (demo_env 9) demo_stop (snd (operator_action inner_dispatch (demo_env 9) demo_stop demo_nonced))) =
     Inl (rpc_err ''ACTION_NONCE_INVALID'' ''action nonce is missing or already consumed'')"
proof -
  have stop: "required_force_action demo_stop = Inr ''stop-process''" "required_str demo_stop ''target'' = Inr ''p''"
    "required_str demo_stop ''actionNonce'' = Inr ''nonce_a''"
    by (simp_all add: demo_stop_def required_force_action_def required_operator_action_def operator_actions_def
        required_str_def get_str_def bt_get_def and_then_def)
  from nonce_single_use [OF stop prod.collapse [symmetric] stop, of "demo_env 9" demo_nonced "demo_env 9"] show ?thesis by simp
qed

subsection \<open>Once\<close>

abbreviation invocation_scope :: "invocation \<Rightarrow> string" where
  "invocation_scope iv \<equiv> scoped_idempotency_key (inv_workspace iv) (executor_key (inv_executor iv)) (cap_name (inv_contract iv)) (inv_key iv)"

lemma no_approval: "\<not> needs_approval iv \<Longrightarrow> consume_approval env iv params c = (Inr iv, c)"
  by (simp add: consume_approval_def)

lemma submit_known:
  assumes "bt_get (tt_idempotency (ctl_tasks c)) (invocation_scope iv) = Some i" "task_get (ctl_tasks c) i = Some t"
  shows "submit_invocation env iv c = (Inr (t, True), c)"
  using assms by (simp add: submit_invocation_def submit_traced_def task_get_def case_prod_beta)

lemma submit_fresh:
  assumes "bt_get (tt_idempotency (ctl_tasks c)) (invocation_scope iv) = None"
  obtains t c' where "submit_invocation env iv c = (Inr (t, False), c')" "task_state t = Queued"
    "bt_get (tt_idempotency (ctl_tasks c')) (invocation_scope iv) = Some (task_id t)" "task_get (ctl_tasks c') (task_id t) = Some t"
  using assms that
  by (auto simp: submit_invocation_def submit_traced_def Let_def case_prod_beta task_get_def queued_task_fields bt_get_insert_any)

lemma start_known:
  assumes "task_get (ctl_tasks c) i = Some t" "task_state t = Queued" "bt_get (tt_idempotency (ctl_tasks c)) k = Some i"
  obtains t' c' where "task_op code (transition clk i Running None None) c = (Inr t', c')" "task_state t' = Running"
    "bt_get (tt_idempotency (ctl_tasks c')) k = Some i" "task_get (ctl_tasks c') i = Some t'"
  using assms that
  by (auto simp: task_op_def transition_def task_get_def transition_allowed_def put_task_def map_err_def Let_def bt_get_insert_any)

text \<open>The answers of other processes are not asked for.\<close>

lemma call_free [simp]:
  "persist (env\<lparr>env_call := f\<rparr>) now io c = persist env now io c"
  "current_trace (env\<lparr>env_call := f\<rparr>) = current_trace env"
  "observe_task_state (env\<lparr>env_call := f\<rparr>) now t c = observe_task_state env now t c"
  "submit_invocation (env\<lparr>env_call := f\<rparr>) iv c = submit_invocation env iv c"
  "worker_request (env\<lparr>env_call := f\<rparr>) params t token = worker_request env params t token"
  by (simp_all add: persist_def current_trace_def observe_task_state_def current_run_id_def submit_invocation_def worker_request_def)

lemma accept_async_call: "accept_async (env\<lparr>env_call := f\<rparr>) iv params c = accept_async env iv params c"
  by (simp add: accept_async_def Let_def cong: if_cong sum.case_cong prod.case_cong)

lemma consume_approval_call: "consume_approval (env\<lparr>env_call := f\<rparr>) iv params c = consume_approval env iv params c"
  by (simp add: consume_approval_def cong: if_cong)

lemma running_task_call: "running_task (env\<lparr>env_call := f\<rparr>) resumed params iv c = running_task env resumed params iv c"
  by (simp add: running_task_def claim_task_def replayed_def cong: if_cong sum.case_cong)

lemma resume_keeps:
  "ctl_tasks (snd (resume params c)) = ctl_tasks c" "ctl_leases (snd (resume params c)) = ctl_leases c"
  "ctl_workers (snd (resume params c)) = ctl_workers c" "ctl_state (snd (resume params c)) = ctl_state c"
  "ctl_disk (snd (resume params c)) = ctl_disk c"
  by (simp_all add: resume_def Let_def split: option.split)

lemma prepared_async:
  assumes "execution_mode params = Inr mode" "wants_async params mode iv"
  shows "invoke_prepared env params iv c = accept_async (stage 3 1 2 env) iv params c"
  using assms by (simp add: invoke_prepared_def resume_def wants_async_def)

lemma prepared_sync:
  assumes "execution_mode params = Inr mode" "\<not> wants_async params mode iv"
  shows "invoke_prepared env params iv c = invoke_sync (stage 3 1 2 env) (fst (resume params c)) iv params (snd (resume params c))"
  using assms by (simp add: invoke_prepared_def case_prod_beta)

text \<open>An asynchronous invocation of a task that is known takes no slot.\<close>

lemma accept_known:
  assumes "bt_get (tt_idempotency (ctl_tasks c)) (invocation_scope iv) = Some i" "task_get (ctl_tasks c) i = Some t"
  shows "accept_async env iv params c =
    (if env_async_maximum env \<le> ctl_async_active c
     then Inl (retryable (rpc_err ''TASK_QUEUE_FULL'' (''controller async task limit '' @ dec (env_async_maximum env) @ '' reached'')))
     else Inr (JObj [(''accepted'', JBool (\<not> terminal (task_state t))), (''reused'', JBool True), (''task'', enc_task (env_codec env) t)]), c)"
  using assms submit_known [of "c\<lparr>ctl_async_active := ctl_async_active c + 1\<rparr>" iv i t env]
  by (simp add: accept_async_def free_slot_def)

lemma stage_maximum [simp]: "env_async_maximum (stage a b n env) = env_async_maximum env"
  by (simp add: stage_def skip_def nth_call_def)

text \<open>
  C12. A repeated invocation is answered from the record. Take a request that passes the checks of an invocation
  and needs no approval (an approval would be checked and used first), and suppose that the task of the same
  session, Executor, capability and key has succeeded. Then a synchronous request is
  answered with the task and its recorded output, an asynchronous one with the task, as reused and not accepted
  again (or told that the queue is full); the answer is the same whatever other processes would say, so
  after the checks no Executor is called, and tasks, leases, workers, records and the state file stay as they are.
\<close>

theorem succeeded_invocation_replayed:
  assumes "prepare env params c = (Inr iv, c0)" "\<not> needs_approval iv" "execution_mode params = Inr mode"
    and "bt_get (tt_idempotency (ctl_tasks c0)) (invocation_scope iv) = Some i" "task_get (ctl_tasks c0) i = Some t"
    "task_state t = Succeeded"
  shows "\<exists>r c1. capability_invoke env params c = (r, c1) \<and> (\<forall>f. invoke_prepared (env\<lparr>env_call := f\<rparr>) params iv c0 = (r, c1)) \<and>
    ctl_tasks c1 = ctl_tasks c0 \<and> ctl_leases c1 = ctl_leases c0 \<and> ctl_workers c1 = ctl_workers c0 \<and>
    ctl_state c1 = ctl_state c0 \<and> ctl_disk c1 = ctl_disk c0 \<and>
    r = (if \<not> wants_async params mode iv
         then Inr (JObj [(''result'', jopt id (task_output t)), (''reused'', JBool True), (''task'', enc_task (env_codec env) t)])
         else if env_async_maximum env \<le> ctl_async_active c0
         then Inl (retryable (rpc_err ''TASK_QUEUE_FULL'' (''controller async task limit '' @ dec (env_async_maximum env) @ '' reached'')))
         else Inr (JObj [(''accepted'', JBool False), (''reused'', JBool True), (''task'', enc_task (env_codec env) t)]))"
proof (cases "wants_async params mode iv")
  case True
  then show ?thesis
    using assms by (simp add: capability_invoke_def prepared_async accept_known)
next
  case False
  let ?s = "snd (resume params c0)"
  have "invoke_sync env' resumed iv params ?s = (Inr (replayed env' t), ?s)" for env' resumed
    using assms by (simp add: invoke_sync_def no_approval running_task_def submit_known claim_task_def resume_keeps replayed_def)
  then show ?thesis
    using False assms(1,3) by (simp add: capability_invoke_def prepared_sync resume_keeps replayed_def)
qed

definition demo_listing :: invocation where
  "demo_listing = demo_removal\<lparr>inv_contract := demo_capability ''process.list'' AuthorityNone, inv_input := JObj []\<rparr>"

definition demo_listed :: task where
  "demo_listed = (queued_task (\<lambda>_. 1) ''a'' ''w'' ''e'' ''process.list'' (JObj []) ''k'' None None)
     \<lparr>task_state := Succeeded, task_output := Some (JArr [])\<rparr>"

definition demo_finished :: controller where
  "demo_finished = demo_kept\<lparr>ctl_tasks := load_task demo_listed task_table_default\<rparr>"

lemma demo_listing_facts:
  "\<not> needs_approval demo_listing" "invocation_scope demo_listing = task_key demo_listed" "task_id demo_listed = ''task_a''"
  by (simp_all add: needs_approval_def demo_listing_def demo_removal_def demo_capability_def demo_executor_def demo_metadata_def
      executor_key_def task_key_def demo_listed_def queued_task_def push_event_def Let_def)

definition demo_request :: json where
  "demo_request = JObj [(''capability'', JStr ''process.list''), (''executorId'', JStr ''e''), (''idempotencyKey'', JStr ''k''),
     (''owner'', JStr ''ann''), (''workspaceSessionId'', JStr ''w'')]"

definition demo_serving :: "capability_descriptor \<Rightarrow> controller \<Rightarrow> controller" where
  "demo_serving cap c = c\<lparr>ctl_state := demo_records\<lparr>ws_executors := [demo_executor [cap]]\<rparr>\<rparr>"

lemma demo_request_get:
  "required_str demo_request ''executorId'' = Inr ''e''" "required_str demo_request ''capability'' = Inr ''process.list''"
  "required_str demo_request ''workspaceSessionId'' = Inr ''w''" "required_str demo_request ''owner'' = Inr ''ann''"
  "required_str demo_request ''idempotencyKey'' = Inr ''k''" "jget demo_request ''input'' = None"
  "execution_mode demo_request = Inr ''auto''"
  by (simp_all add: demo_request_def required_str_def get_str_def bt_get_def execution_mode_def Let_def)

definition demo_asks :: "json \<Rightarrow> string \<Rightarrow> json \<Rightarrow> bool" where
  "demo_asks p name input \<longleftrightarrow>
     required_str p ''executorId'' = Inr ''e'' \<and> required_str p ''capability'' = Inr name \<and> required_str p ''workspaceSessionId'' = Inr ''w'' \<and>
     required_str p ''owner'' = Inr ''ann'' \<and> required_str p ''idempotencyKey'' = Inr ''k'' \<and> unwrap_or (JObj []) (jget p ''input'') = input"

definition demo_invocation :: "capability_descriptor \<Rightarrow> json \<Rightarrow> invocation" where
  "demo_invocation cap input =
     \<lparr>inv_executor = demo_executor [cap], inv_contract = cap, inv_workspace = ''w'', inv_owner = ''ann'', inv_key = ''k'',
      inv_input = input, inv_authority = None\<rparr>"

lemma demo_prepared:
  assumes "demo_asks p (cap_name cap) input" "\<not> asks_for_grants (cap_name cap)" "cap_name cap \<noteq> ''agent.start''"
    "cap_authority cap = AuthorityNone" "cap_input_schema cap = JObj []" "cap_version cap = ''2.0''" "ctl_id c = ''ctl''"
  shows "prepare (demo_env 9) p (demo_serving cap c) = (Inr (demo_invocation cap input), demo_serving cap c)"
proof -
  have found: "find_executor (demo_serving cap c) ''e'' = Some (demo_executor [cap])"
    "find_contract (demo_executor [cap]) (cap_name cap) = Inr cap" "check_session (demo_serving cap c) ''w'' = Inr ()"
    using assms(6,7) by (simp_all add: find_executor_def demo_serving_def demo_executor_def executor_key_def demo_metadata_def
        find_contract_def found_def ok_or_def check_session_def find_session_def demo_records_def demo_session_def session_key_def)
  have "read_input (demo_env 9) ''e'' ''w'' (cap_name cap) v s = (Inr v, s)" for v s
    by (rule read_input_same [OF assms(2)])
  moreover have "agent_input ''e'' ''w'' ''ann'' (cap_name cap) v = Inr v" for v using assms(3) by (simp add: agent_input_def)
  moreover have "validate_schema jshow ft (JObj []) v ''input'' = Inr ()" for jshow ft v
    by (simp add: validate_schema.simps get_str_def get_array_def bt_get_def)
  ultimately show ?thesis
    using assms found by (simp add: prepare_def demo_asks_def found_def ok_or_def required_authority_def demo_invocation_def)
qed

lemma demo_listing_asks: "demo_asks demo_request ''process.list'' (JObj [])" "\<not> asks_for_grants ''process.list''"
  by (simp_all add: demo_asks_def demo_request_get asks_for_grants_def grant_capability_names_def)

theorem succeeded_invocation_replayed_witness:
  "fst (capability_invoke (demo_env 9) demo_request (demo_serving (demo_capability ''process.list'' AuthorityNone) demo_finished)) =
     Inr (JObj [(''result'', JArr []), (''reused'', JBool True), (''task'', enc_task demo_codec demo_listed)])"
proof -
  let ?cap = "demo_capability ''process.list'' AuthorityNone"
  let ?iv = "demo_invocation ?cap (JObj [])"
  have cap: "cap_name ?cap = ''process.list''" "cap_authority ?cap = AuthorityNone" "cap_input_schema ?cap = JObj []" "cap_version ?cap = ''2.0''"
    by (simp_all add: demo_capability_def)
  note ready = demo_prepared [of demo_request ?cap, unfolded cap(1), OF demo_listing_asks _ cap(2-4)]
  have id: "ctl_id demo_finished = ''ctl''" by (simp add: demo_finished_def demo_kept_def demo_controller_def)
  have scope: "invocation_scope ?iv = task_key demo_listed" "\<not> needs_approval ?iv" "\<not> wants_async demo_request ''auto'' ?iv"
    by (simp_all add: demo_invocation_def demo_capability_def demo_executor_def demo_metadata_def executor_key_def task_key_def demo_listed_def
        queued_task_def push_event_def Let_def needs_approval_def wants_async_def)
  have known: "bt_get (tt_idempotency (ctl_tasks (demo_serving ?cap demo_finished))) (invocation_scope ?iv) = Some ''task_a''"
    "task_get (ctl_tasks (demo_serving ?cap demo_finished)) ''task_a'' = Some demo_listed"
    using scope(1) demo_listing_facts(3)
    by (simp_all add: demo_serving_def demo_finished_def load_task_def task_get_def bt_get_def task_table_default_def)
  have ended: "task_state demo_listed = Succeeded" "task_output demo_listed = Some (JArr [])" by (simp_all add: demo_listed_def)
  from succeeded_invocation_replayed [OF ready [OF _ id] scope(2) demo_request_get(7) known ended(1)] ended(2) scope(3)
  show ?thesis by (auto simp: demo_env_def jopt_def)
qed

subsection \<open>Approvals\<close>

text \<open>Pruning and submitting start no task: what is there afterwards was there before, or is queued.\<close>

definition starts_none :: "controller \<Rightarrow> controller \<Rightarrow> bool" where
  "starts_none c c' \<longleftrightarrow>
     (\<forall>j t. task_get (ctl_tasks c') j = Some t \<longrightarrow> task_get (ctl_tasks c) j = Some t \<or> task_state t = Queued)"

lemma starts_none_self: "starts_none c c"
  by (simp add: starts_none_def)

lemma starts_none_refl: "ctl_tasks c' = ctl_tasks c \<Longrightarrow> starts_none c c'"
  by (simp add: starts_none_def)

lemma starts_none_trans: "starts_none a b \<Longrightarrow> starts_none b c \<Longrightarrow> starts_none a c"
  unfolding starts_none_def by blast

lemma map_of_filter_out: "j \<in> S \<Longrightarrow> map_of (filter (\<lambda>e. fst e \<notin> S) m) j = None"
  by (induction m) auto

lemma filter_get: "bt_get (filter (\<lambda>e. fst e \<notin> S) m) j = Some t \<Longrightarrow> bt_get m j = Some t"
proof (induction m)
  case (Cons e m)
  then show ?case by (cases "fst e \<in> S"; cases "fst e = j") (auto simp: bt_get_def map_of_filter_out)
qed (simp add: bt_get_def)

lemma persist_starts: "starts_none c (snd (persist env now io c))"
  by (auto simp: starts_none_def persist_def Let_def prune_task_retention_def prune_retention_def task_get_def remove_tasks_filter
      dest: filter_get split: option.splits)

lemma submit_starts: "starts_none c (snd (submit_invocation env iv c))"
  by (auto simp: starts_none_def submit_invocation_def submit_traced_def case_prod_beta Let_def task_get_def bt_get_insert_any
      queued_task_fields split: option.splits if_splits)

lemma consume_refused:
  assumes "consume_approval env iv params c = (Inl e, c')"
  shows "starts_none c c' \<and> ctl_leases c' = ctl_leases c"
proof -
  have upd: "starts_none c (update_approval i g c)" for i g by (rule starts_none_refl) (simp add: update_approval_def with_state_def)
  have saved: "starts_none c s" if "persist env now io (update_approval i g c) = (r, s)" for now io i g r s
    using starts_none_trans [OF upd persist_starts] that by (metis snd_conv)
  have "starts_none c (snd (consume_approval env iv params c))"
    unfolding consume_approval_def
    by (auto simp: sbind_def upd starts_none_refl dest: saved split: sum.split prod.split)
  moreover have "ctl_leases c' = ctl_leases c"
    using consume_approval_quiet [of env c iv params] assms by (simp add: quiet_def)
  ultimately show ?thesis using assms by simp
qed

lemma accept_starts:
  "starts_none c (snd (accept_async env iv params c)) \<and> ctl_leases (snd (accept_async env iv params c)) = ctl_leases c"
proof (cases "env_async_maximum env \<le> ctl_async_active c")
  case False
  let ?c = "c\<lparr>ctl_async_active := ctl_async_active c + 1\<rparr>"
  obtain r c1 where c1: "submit_invocation env iv ?c = (r, c1)" by (rule prod.exhaust)
  have one: "starts_none c c1" "ctl_leases c1 = ctl_leases c"
    using starts_none_trans [OF starts_none_refl submit_starts, of ?c c env iv] submit_invocation_quiet [of id ?c env iv] c1
    by (simp_all add: quiet_def)
  obtain b c2 where c2: "persist env (env_clock env 2) (env_io env 0) c1 = (b, c2)" by (rule prod.exhaust)
  have two: "starts_none c c2" "ctl_leases c2 = ctl_leases c"
    using starts_none_trans [OF one(1) persist_starts, of env "env_clock env 2" "env_io env 0"] one(2) c2
      persist_quiet [OF refl, of env c1 "env_clock env 2" "env_io env 0"] by (simp_all add: quiet_def)
  have same: "starts_none c (free_slot x)" "starts_none c (start_worker t tok q x)" "starts_none c (observe_task_state env now t x)"
    if "starts_none c x" for x t tok q now
    using that by (simp_all add: starts_none_def free_slot_def start_worker_def observe_task_state_def observe_def)
  have leases: "ctl_leases (free_slot x) = ctl_leases x" "ctl_leases (start_worker t tok q x) = ctl_leases x"
    "ctl_leases (observe_task_state env now t x) = ctl_leases x" for x t tok q now
    by (simp_all add: free_slot_def start_worker_def observe_task_state_def observe_def)
  from False c1 c2 one two show ?thesis
    by (auto simp: accept_async_def Let_def sbind_def same leases split: sum.split prod.split)
qed (simp add: accept_async_def starts_none_refl)

text \<open>
  A request runs nothing if, beyond the checks of an invocation, it takes no lease, starts no task and does not ask
  another process; it may still queue a task or fail.
\<close>

definition runs_nothing :: "environment \<Rightarrow> json \<Rightarrow> controller \<Rightarrow> bool" where
  "runs_nothing env params c \<longleftrightarrow>
     (\<forall>iv c0. prepare env params c = (Inr iv, c0) \<longrightarrow>
        (\<exists>r c1. capability_invoke env params c = (r, c1) \<and> (\<forall>f. invoke_prepared (env\<lparr>env_call := f\<rparr>) params iv c0 = (r, c1)) \<and>
           ctl_leases c1 = ctl_leases c0 \<and> starts_none c0 c1))"

lemma runs_nothingI:
  assumes "prepare env params c = (Inr iv, c0)" "\<And>f. invoke_prepared (env\<lparr>env_call := f\<rparr>) params iv c0 = (r, c')"
    "ctl_leases c' = ctl_leases c0" "starts_none c0 c'"
  shows "runs_nothing env params c"
  using assms assms(2) [of "env_call env"] by (simp add: runs_nothing_def capability_invoke_def)

lemma mode_refused:
  assumes "execution_mode params = Inl e" "prepare env params c = (Inr iv, c0)"
  shows "runs_nothing env params c"
proof (rule runs_nothingI [OF assms(2)])
  show "invoke_prepared (env\<lparr>env_call := f\<rparr>) params iv c0 = (Inl e, c0)" for f
    using assms(1) by (simp add: invoke_prepared_def)
qed (rule refl starts_none_self)+

lemma async_runs_nothing:
  assumes "prepare env params c = (Inr iv, c0)" "execution_mode params = Inr mode" "wants_async params mode iv"
  shows "runs_nothing env params c"
proof (rule runs_nothingI [OF assms(1)])
  show "invoke_prepared (env\<lparr>env_call := f\<rparr>) params iv c0 =
      (fst (accept_async (stage 3 1 2 env) iv params c0), snd (accept_async (stage 3 1 2 env) iv params c0))" for f
    using assms(2,3) by (simp add: prepared_async stage_call accept_async_call)
qed (simp_all add: accept_starts)

lemma refused_runs_nothing:
  assumes "prepare env params c = (Inr iv, c0)" "execution_mode params = Inr mode" "\<not> wants_async params mode iv"
    "consume_approval (stage 3 1 2 env) iv params (snd (resume params c0)) = (Inl e, c1)"
  shows "runs_nothing env params c"
proof (rule runs_nothingI [OF assms(1)])
  show "invoke_prepared (env\<lparr>env_call := f\<rparr>) params iv c0 = (Inl e, c1)" for f
    using assms(2-4) by (simp add: prepared_sync stage_call invoke_sync_def consume_approval_call)
  show "ctl_leases c1 = ctl_leases c0" "starts_none c0 c1"
    using consume_refused [OF assms(4)] by (simp_all add: resume_keeps starts_none_def)
qed

text \<open>
  A state in which a handler may find the Controller later: the handler that left the first state has recorded its
  observations, requests, workers and restarts have followed, and a further handler has begun.
\<close>

definition follows :: "controller \<Rightarrow> controller \<Rightarrow> bool" where
  "follows c c' \<longleftrightarrow> (\<exists>obs c1 sha. ctl_step\<^sup>*\<^sup>* (c\<lparr>ctl_observations := obs\<rparr>) c1 \<and> ctl_moves sha c1 c')"

abbreviation approval_on_file :: "controller \<Rightarrow> string \<Rightarrow> approval option" where
  "approval_on_file c i \<equiv> find (\<lambda>a. approval_id a = i) (ws_approvals (disk_state c))"

text \<open>A used approval records when it was, and may at most be revoked.\<close>

definition spent :: "approval \<Rightarrow> bool" where
  "spent a \<longleftrightarrow> (approval_state a = ApprovalConsumed \<or> approval_state a = ApprovalRevoked) \<and> approval_consumed_at a \<noteq> None"

lemma spent_stays: "approval_law a b \<Longrightarrow> spent a \<Longrightarrow> spent b"
  by (cases "approval_state b") (auto simp: approval_law_def spent_def)

lemma follows_approval:
  assumes "follows c c'" "durable c" "approval_on_file c i = Some a" "spent a"
  obtains b where "find_approval c' i = Some b" "spent b"
proof -
  from assms(1) obtain obs c1 sha where run: "ctl_step\<^sup>*\<^sup>* (c\<lparr>ctl_observations := obs\<rparr>) c1" "ctl_moves sha c1 c'" by (auto simp: follows_def)
  have same: "durable (c\<lparr>ctl_observations := obs\<rparr>)" "disk_state (c\<lparr>ctl_observations := obs\<rparr>) = disk_state c"
    using assms(2) by (simp_all add: durable_def disk_state_def)
  from steps_durable [OF run(1) same(1)] moves_durable [OF run(2)] have "durable c'" "state_history (disk_state c) (disk_state c')"
    using same(2) by (auto intro: state_history_trans)
  then have "state_history (disk_state c) (ctl_state c')" by (auto simp: durable_def intro: state_history_trans)
  then obtain b where "find (\<lambda>a. approval_id a = i) (ws_approvals (ctl_state c')) = Some b" "approval_law a b"
    using assms(3) unfolding state_history_def by (blast dest: history_find)
  with assms(4) that show thesis by (simp add: find_approval_def spent_stays)
qed

lemma consumed_refuses:
  assumes "needs_approval iv" "required_str params ''approvalId'' = Inr i" "find_approval c i = Some b" "spent b"
  shows "\<exists>e. consume_approval env iv params c = (Inl e, c)"
  using assms by (cases "command_digest (env_sha env) (env_jshow env) (inv_input iv)")
    (auto simp: consume_approval_def found_def ok_or_def approval_authorizes_def spent_def)

lemma prepare_approvals:
  assumes "prepare env params c = (r, c0)"
  shows "find_approval c0 i = find_approval c i"
proof -
  let ?Q = "\<lambda>s. ws_approvals (ctl_state s) = ws_approvals (ctl_state c)"
  have saved: "?Q s \<Longrightarrow> ?Q (snd (persist env now io s))" for s now io
    by (simp add: persist_def Let_def split: option.split)
  have grant: "?Q s \<Longrightarrow> ?Q (snd (find_read_grant env e w cap path s))" for s e w cap path
    unfolding find_read_grant_def Let_def
    by (auto split: option.split intro!: sbind_inv [where Q = ?Q] saved simp: with_state_def)
  have add: "?Q s \<Longrightarrow> ?Q (snd (add_read_grant env e w cap key input s))" for s e w cap key input
    unfolding add_read_grant_def by (auto split: option.split intro!: sbind_inv [where Q = ?Q] grant)
  have keep: "(P \<Longrightarrow> ?Q (snd a)) \<Longrightarrow> (\<not> P \<Longrightarrow> ?Q (snd b)) \<Longrightarrow> ?Q (snd (if P then a else b))"
    for P and a b :: "(rpc_error + invocation) \<times> controller" by simp
  have "?Q s \<Longrightarrow> ?Q (snd (read_input env e w cap input s))" for s e w cap input
    by (simp add: read_input_def add)
  then have "?Q (snd (prepare env params c))"
    unfolding prepare_def case_prod_beta by (intro sbind_inv [where Q = ?Q] keep) auto
  then show ?thesis using assms by (simp add: find_approval_def)
qed

text \<open>
  C2. An approval is good for one command. Take a request for a command that needs an approval. Either it
  runs nothing: it is refused, or it is only queued, and its worker will come with a request of its own. Or
  the approval is on file as used when it ends, and from then on no request that presents this
  approval for any command that needs one runs anything, after any sequence of requests, workers, failed writes and
  restarts; not even a decision of the operator revives it.
\<close>

theorem approval_single_use:
  assumes "durable c" "unexhausted c" "prepare env p c = (Inr iv, c0)" "needs_approval iv" "required_str p ''approvalId'' = Inr i"
    and "capability_invoke env p c = (r, c1)"
  shows "runs_nothing env p c \<or>
    ((\<exists>a. approval_on_file c1 i = Some a \<and> spent a) \<and>
     (\<forall>c2 env2 p2 iv2 c3. follows c1 c2 \<longrightarrow> prepare env2 p2 c2 = (Inr iv2, c3) \<longrightarrow> needs_approval iv2 \<longrightarrow>
        required_str p2 ''approvalId'' = Inr i \<longrightarrow> runs_nothing env2 p2 c2))"
proof (cases "runs_nothing env p c")
  case False
  then obtain mode where mode: "execution_mode p = Inr mode" "\<not> wants_async p mode iv"
    using mode_refused async_runs_nothing assms(3) by (metis sum.exhaust)
  let ?env = "stage 3 1 2 env" and ?s = "snd (resume p c0)"
  obtain iv' s1 where used: "consume_approval ?env iv p ?s = (Inr iv', s1)"
    using False refused_runs_nothing [OF assms(3) mode] by (metis prod.exhaust sum.exhaust)
  have "ctl_moves (env_sha env) c ?s"
    using prepare_quiet [of env c p] resume_quiet [of "env_sha env" c0 p] assms(3) by (auto simp: quiet_def intro: rtranclp_trans)
  then have "durable ?s" using moves_durable assms(1) by blast
  from consumed_on_file [OF this assms(4,5) used] obtain a where a: "durable s1" "approval_on_file s1 i = Some a"
    "spent a" by (auto simp: spent_def)
  have leases: "ctl_leases ?s = ctl_leases c"
    using prepare_quiet [of env c p] assms(3) by (simp add: quiet_def resume_keeps)
  have "ctl_moves (env_sha ?env) s1 (snd (invoke_sync ?env (fst (resume p c0)) iv p ?s))"
    using assms(2) prepare_contract [OF assms(3)] leases by (intro approved_moves [OF _ _ used]) (auto simp: unexhausted_def)
  moreover have "snd (invoke_sync ?env (fst (resume p c0)) iv p ?s) = c1"
    using assms(3,6) mode by (simp add: capability_invoke_def prepared_sync)
  ultimately have c1: "durable c1" "state_history (disk_state s1) (disk_state c1)" using moves_durable a(1) by auto
  then obtain b where b: "approval_on_file c1 i = Some b" "approval_law a b"
    using a(2) unfolding state_history_def by (blast dest: history_find)
  have consumed: "spent b" using spent_stays [OF b(2) a(3)] .
  have "runs_nothing env2 p2 c2"
    if "follows c1 c2" and p2: "prepare env2 p2 c2 = (Inr iv2, c3)" and need: "needs_approval iv2" "required_str p2 ''approvalId'' = Inr i"
    for c2 env2 p2 iv2 c3
  proof (cases "execution_mode p2")
    case (Inl e)
    then show ?thesis using mode_refused p2 by blast
  next
    case (Inr mode2)
    from follows_approval [OF that(1) c1(1) b(1) consumed] obtain d where d: "find_approval c2 i = Some d" "spent d" .
    have "find_approval (snd (resume p2 c3)) i = Some d"
      using d(1) prepare_approvals [OF p2, of i] by (simp add: find_approval_def resume_keeps)
    from consumed_refuses [OF need this d(2)] refused_runs_nothing [OF p2 Inr] async_runs_nothing [OF p2 Inr] show ?thesis by blast
  qed
  with b(1) consumed show ?thesis by blast
qed simp

definition demo_run_request :: json where
  "demo_run_request = JObj [(''approvalId'', JStr ''a''), (''capability'', JStr ''command.run''), (''executorId'', JStr ''e''), (''idempotencyKey'', JStr ''k''),
     (''input'', JObj [(''argv'', JArr [JStr ''rm'']), (''cwd'', JStr ''/w'')]), (''owner'', JStr ''ann''), (''workspaceSessionId'', JStr ''w'')]"

abbreviation demo_runner :: controller where
  "demo_runner \<equiv> demo_serving (demo_capability ''command.run'' AuthorityNone) demo_kept"

abbreviation demo_removing :: invocation where
  "demo_removing \<equiv> demo_invocation (demo_capability ''command.run'' AuthorityNone) (JObj [(''argv'', JArr [JStr ''rm'']), (''cwd'', JStr ''/w'')])"

lemma demo_run_prepared: "prepare (demo_env 9) demo_run_request demo_runner = (Inr demo_removing, demo_runner)"
proof (rule demo_prepared)
  show "demo_asks demo_run_request (cap_name (demo_capability ''command.run'' AuthorityNone)) (JObj [(''argv'', JArr [JStr ''rm'']), (''cwd'', JStr ''/w'')])"
    by (simp add: demo_asks_def demo_run_request_def demo_capability_def required_str_def get_str_def bt_get_def)
qed (simp_all add: demo_capability_def asks_for_grants_def grant_capability_names_def demo_kept_def demo_controller_def)

lemma demo_run_sync: "execution_mode demo_run_request = Inr ''auto''" "\<not> wants_async demo_run_request ''auto'' demo_removing" "resume demo_run_request c = (False, c)"
  "needs_approval demo_removing" "required_str demo_run_request ''approvalId'' = Inr ''a''"
  by (simp_all add: demo_run_request_def execution_mode_def get_str_def bt_get_def wants_async_def demo_invocation_def demo_capability_def resume_def
      needs_approval_def command_requires_approval_def get_array_def file_name_def required_str_def)

text \<open>Without locks the answer of the Executor reaches the client.\<close>

lemma run_task_fails:
  assumes "cap_locks (inv_contract iv) = []" "readonly iv" "inv_input iv = JObj m" "\<And>n. env_io env n = None" "env_call env = (\<lambda>_ _. Inl text)"
  shows "\<exists>e. fst (run_task env iv t c) = Inl e \<and>
    err_code e = (if contains ''deadline'' text then ''EXECUTOR_TIMEOUT'' else ''EXECUTOR_UNAVAILABLE'')"
  using assms
  by (simp add: run_task_def invocation_resources_def execute_def executor_input_def assign_def ok_or_def settle_def timed_out_def end_task_def
      persist_def Let_def sbind_def stage_def skip_def nth_call_def retryable_def rpc_err_def)

lemma fresh_runs:
  assumes "bt_get (tt_idempotency (ctl_tasks c)) (invocation_scope iv) = None"
  shows "\<exists>t c'. running_task env resumed params iv c = (Inr (Inr t), c')"
proof -
  obtain t x where x: "submit_invocation env iv c = (Inr (t, False), x)" "task_state t = Queued"
    "bt_get (tt_idempotency (ctl_tasks x)) (invocation_scope iv) = Some (task_id t)" "task_get (ctl_tasks x) (task_id t) = Some t"
    using submit_fresh [OF assms] by blast
  obtain t' c' where "task_op ''INVALID_TASK_STATE'' (transition (\<lambda>n. env_clock env (n + 4)) (task_id t) Running None None) x = (Inr t', c')"
    using start_known [OF x(4,2,3)] by blast
  with x(1) show ?thesis by (simp add: running_task_def claim_task_def)
qed

lemma demo_run_used:
  obtains iv' s1 where "consume_approval (stage 3 1 2 (demo_env 9)) demo_removing demo_run_request demo_runner = (Inr iv', s1)"
    "cap_locks (inv_contract iv') = []" "readonly iv'" "\<exists>m. inv_input iv' = JObj m" "ctl_tasks s1 = task_table_default"
proof -
  have "\<exists>iv' s1. consume_approval (stage 3 1 2 (demo_env 9)) demo_removing demo_run_request demo_runner = (Inr iv', s1) \<and>
    cap_locks (inv_contract iv') = [] \<and> readonly iv' \<and> (\<exists>m. inv_input iv' = JObj m) \<and> ctl_tasks s1 = task_table_default"
    using demo_run_sync(4,5)
    by (simp add: consume_approval_def command_digest_def demo_invocation_def demo_capability_def bt_get_def found_def ok_or_def readonly_def
        find_approval_def demo_serving_def demo_kept_def demo_controller_def demo_records_def demo_approval_def approval_authorizes_def demo_env_def
        stage_def skip_def nth_call_def assign_def persist_def Let_def prune_task_retention_def prune_retention_def task_table_default_def
        bt_values_def update_approval_def with_state_def)
  with that show thesis by blast
qed

theorem approval_single_use_witness:
  "\<exists>c1. capability_invoke (demo_env 9) demo_run_request demo_runner = (fst (capability_invoke (demo_env 9) demo_run_request demo_runner), c1) \<and>
     (\<exists>a. approval_on_file c1 ''a'' = Some a \<and> spent a)"
proof -
  have durable: "durable demo_runner" "unexhausted demo_runner"
    by (simp_all add: durable_def disk_state_def demo_serving_def demo_kept_def state_history_same unexhausted_def demo_controller_def
        fence_of_def lease_table_default_def bt_get_def demo_executor_def demo_capability_def demo_records_def workbench_state_default_def)
  let ?env = "stage 3 1 2 (demo_env 9)"
  obtain iv' s1 where used: "consume_approval ?env demo_removing demo_run_request demo_runner = (Inr iv', s1)"
    and free: "cap_locks (inv_contract iv') = []" "readonly iv'" "\<exists>m. inv_input iv' = JObj m" "ctl_tasks s1 = task_table_default"
    by (rule demo_run_used)
  obtain t s2 where t: "running_task (stage 3 1 0 ?env) False demo_run_request iv' s1 = (Inr (Inr t), s2)"
    using fresh_runs [of s1 iv' "stage 3 1 0 ?env" False demo_run_request] by (auto simp: free(4) task_table_default_def bt_get_def)
  have answer: "\<exists>e. fst (invoke_prepared ((demo_env 9)\<lparr>env_call := (\<lambda>_ _. Inl m)\<rparr>) demo_run_request demo_removing demo_runner) = Inl e \<and>
      err_code e = (if contains ''deadline'' m then ''EXECUTOR_TIMEOUT'' else ''EXECUTOR_UNAVAILABLE'')" for m
  proof -
    let ?f = "\<lambda>_ _. Inl m"
    have "invoke_prepared ((demo_env 9)\<lparr>env_call := ?f\<rparr>) demo_run_request demo_removing demo_runner =
        run_task (stage 9 1 1 (?env\<lparr>env_call := ?f\<rparr>)) iv' t s2"
      using demo_run_sync(1-3) used t by (simp add: prepared_sync stage_call invoke_sync_def consume_approval_call running_task_call)
    moreover have "\<exists>e. fst (run_task (stage 9 1 1 (?env\<lparr>env_call := ?f\<rparr>)) iv' t s2) = Inl e \<and>
        err_code e = (if contains ''deadline'' m then ''EXECUTOR_TIMEOUT'' else ''EXECUTOR_UNAVAILABLE'')"
    proof -
      obtain k where "inv_input iv' = JObj k" using free(3) by blast
      from run_task_fails [OF free(1,2) this] show ?thesis by (simp add: stage_def skip_def nth_call_def demo_env_def)
    qed
    ultimately show ?thesis by simp
  qed
  have "\<not> runs_nothing (demo_env 9) demo_run_request demo_runner"
  proof
    assume "runs_nothing (demo_env 9) demo_run_request demo_runner"
    then obtain r c1 where "\<And>f. invoke_prepared ((demo_env 9)\<lparr>env_call := f\<rparr>) demo_run_request demo_removing demo_runner = (r, c1)"
      using demo_run_prepared by (auto simp: runs_nothing_def)
    with answer [of "''deadline''"] answer [of "[]"] show False by auto
  qed
  with approval_single_use [OF durable demo_run_prepared demo_run_sync(4,5) prod.collapse [symmetric]]
  show ?thesis by (metis prod.collapse)
qed

subsection \<open>Stranded tasks\<close>

lemma running_in_progress:
  assumes "\<not> needs_approval iv" "bt_get (tt_idempotency (ctl_tasks c)) (invocation_scope iv) = Some i"
    "task_get (ctl_tasks c) i = Some t" "task_state t = Running"
  shows "invoke_sync env resumed iv params c = (Inl (rpc_err ''TASK_IN_PROGRESS'' (''task '' @ task_id t @ '' is already in progress'')), c)"
  using assms by (simp add: invoke_sync_def no_approval running_task_def submit_known claim_task_def)

lemma unrendered_stranded:
  assumes "\<not> needs_approval iv" "bt_get (tt_idempotency (ctl_tasks c)) (invocation_scope iv) = None"
    "invocation_resources (env_jshow env) iv = Inl e"
  shows "\<exists>t c1. invoke_sync env resumed iv params c = (Inl e, c1) \<and> task_get (ctl_tasks c1) (task_id t) = Some t \<and>
    task_state t = Running \<and> bt_get (tt_idempotency (ctl_tasks c1)) (invocation_scope iv) = Some (task_id t) \<and>
    ctl_workers c1 = ctl_workers c \<and> ctl_leases c1 = ctl_leases c"
proof -
  obtain t c1 where t: "submit_invocation (stage 3 1 0 env) iv c = (Inr (t, False), c1)" "task_state t = Queued"
    "bt_get (tt_idempotency (ctl_tasks c1)) (invocation_scope iv) = Some (task_id t)" "task_get (ctl_tasks c1) (task_id t) = Some t"
    using submit_fresh [OF assms(2)] by blast
  obtain t' c2 where t': "task_op ''INVALID_TASK_STATE'' (transition (\<lambda>n. env_clock (stage 3 1 0 env) (n + 4)) (task_id t) Running None None) c1 = (Inr t', c2)"
    "task_state t' = Running" "bt_get (tt_idempotency (ctl_tasks c2)) (invocation_scope iv) = Some (task_id t)"
    "task_get (ctl_tasks c2) (task_id t) = Some t'"
    using start_known [OF t(4,2,3)] by blast
  have same: "task_id t' = task_id t"
    using t' t(4) by (auto simp: task_op_def transition_def task_get_def map_err_def Let_def split: option.splits if_splits)
  have kept: "ctl_workers c2 = ctl_workers c \<and> ctl_leases c2 = ctl_leases c"
    using t(1) t'(1) by (auto simp: submit_invocation_def task_op_def case_prod_beta split: option.splits)
  have "invoke_sync env resumed iv params c = (Inl e, c2)"
    using assms t t' by (simp add: invoke_sync_def no_approval running_task_def claim_task_def run_task_def)
  with t'(2-4) same kept show ?thesis by metis
qed

text \<open>
  C37. An invocation whose locks cannot be rendered strands its task. Take a request that passes the checks, runs
  synchronously, needs no approval and is the first of its key, and whose locks cannot be rendered, as when its
  input lacks a field that a lock of the contract names. It fails (or never answers, when the rendering does
  not end), but its task is already running, with no worker and no lease. In the state it leaves, a further invocation with the same key (its check leaving the state as it is) never
  runs: a synchronous one is refused as already in progress, and an asynchronous one is answered with the
  task as accepted, although nobody works on it.
\<close>

theorem unrendered_lock_strands_task:
  assumes "prepare env params c = (Inr iv, c0)" "execution_mode params = Inr mode" "\<not> wants_async params mode iv" "\<not> needs_approval iv"
    and "bt_get (tt_idempotency (ctl_tasks c0)) (invocation_scope iv) = None" "invocation_resources (env_jshow env) iv = Inl e"
  shows "\<exists>t c1. capability_invoke env params c = (Inl e, c1) \<and> task_get (ctl_tasks c1) (task_id t) = Some t \<and>
    task_state t = Running \<and> ctl_workers c1 = ctl_workers c0 \<and> ctl_leases c1 = ctl_leases c0 \<and>
    (\<forall>env2 params2 iv2 mode2. prepare env2 params2 c1 = (Inr iv2, c1) \<longrightarrow> \<not> needs_approval iv2 \<longrightarrow>
       invocation_scope iv2 = invocation_scope iv \<longrightarrow> execution_mode params2 = Inr mode2 \<longrightarrow>
       (if wants_async params2 mode2 iv2
        then capability_invoke env2 params2 c1 =
          (if env_async_maximum env2 \<le> ctl_async_active c1
           then Inl (retryable (rpc_err ''TASK_QUEUE_FULL'' (''controller async task limit '' @ dec (env_async_maximum env2) @ '' reached'')))
           else Inr (JObj [(''accepted'', JBool True), (''reused'', JBool True), (''task'', enc_task (env_codec env2) t)]), c1)
        else capability_invoke env2 params2 c1 =
          (Inl (rpc_err ''TASK_IN_PROGRESS'' (''task '' @ task_id t @ '' is already in progress'')), snd (resume params2 c1))))"
proof -
  let ?s = "snd (resume params c0)"
  have "bt_get (tt_idempotency (ctl_tasks ?s)) (invocation_scope iv) = None" using assms(5) by (simp add: resume_keeps)
  moreover have "invocation_resources (env_jshow (stage 3 1 2 env)) iv = Inl e" using assms(6) by simp
  ultimately obtain t c1 where run: "invoke_sync (stage 3 1 2 env) (fst (resume params c0)) iv params ?s = (Inl e, c1)"
    and t: "task_get (ctl_tasks c1) (task_id t) = Some t" "task_state t = Running"
      "bt_get (tt_idempotency (ctl_tasks c1)) (invocation_scope iv) = Some (task_id t)"
    and kept: "ctl_workers c1 = ctl_workers ?s" "ctl_leases c1 = ctl_leases ?s"
    using unrendered_stranded [OF assms(4)] by blast
  have first: "capability_invoke env params c = (Inl e, c1)"
    using assms(1-3) run by (simp add: capability_invoke_def prepared_sync)
  have later: "if wants_async params2 mode2 iv2
        then capability_invoke env2 params2 c1 =
          (if env_async_maximum env2 \<le> ctl_async_active c1
           then Inl (retryable (rpc_err ''TASK_QUEUE_FULL'' (''controller async task limit '' @ dec (env_async_maximum env2) @ '' reached'')))
           else Inr (JObj [(''accepted'', JBool True), (''reused'', JBool True), (''task'', enc_task (env_codec env2) t)]), c1)
        else capability_invoke env2 params2 c1 =
          (Inl (rpc_err ''TASK_IN_PROGRESS'' (''task '' @ task_id t @ '' is already in progress'')), snd (resume params2 c1))"
    if iv2: "prepare env2 params2 c1 = (Inr iv2, c1)" "\<not> needs_approval iv2" "invocation_scope iv2 = invocation_scope iv"
      "execution_mode params2 = Inr mode2" for env2 params2 iv2 mode2
    using iv2 t running_in_progress [OF iv2(2), of "snd (resume params2 c1)" "task_id t" t]
    by (simp add: capability_invoke_def prepared_async prepared_sync accept_known resume_keeps)
  from first t(1,2) kept later show ?thesis by (auto simp: resume_keeps)
qed

definition demo_locking :: capability_descriptor where
  "demo_locking = (demo_capability ''process.list'' AuthorityNone)\<lparr>cap_locks := [\<lparr>lock_key = ''process:${processId}'', lock_mode = LockExclusive\<rparr>]\<rparr>"

theorem unrendered_lock_strands_task_witness:
  "\<exists>t c1. task_state t = Running \<and> task_get (ctl_tasks c1) (task_id t) = Some t \<and>
     capability_invoke (demo_env 9) demo_request (demo_serving demo_locking demo_kept) =
       (Inl (rpc_err ''INVALID_LOCK_INPUT'' ''lock requires input field processId''), c1)"
proof -
  let ?iv = "demo_invocation demo_locking (JObj [])"
  have cap: "cap_name demo_locking = ''process.list''" "cap_authority demo_locking = AuthorityNone" "cap_input_schema demo_locking = JObj []"
    "cap_version demo_locking = ''2.0''"
    by (simp_all add: demo_locking_def demo_capability_def)
  note ready = demo_prepared [of demo_request demo_locking, unfolded cap(1), OF demo_listing_asks _ cap(2-4)]
  have id: "ctl_id demo_kept = ''ctl''" by (simp add: demo_kept_def demo_controller_def)
  have "invocation_resources (env_jshow (demo_env 9)) ?iv = Inl (rpc_err ''INVALID_LOCK_INPUT'' ''lock requires input field processId'')"
    by (simp add: demo_invocation_def demo_locking_def invocation_resources_def render_lock_def render_loop.simps bt_get_def and_then_def)
  moreover have "\<not> needs_approval ?iv" "\<not> wants_async demo_request ''auto'' ?iv"
    by (simp_all add: demo_invocation_def needs_approval_def wants_async_def demo_locking_def demo_capability_def)
  moreover have "bt_get (tt_idempotency (ctl_tasks (demo_serving demo_locking demo_kept))) (invocation_scope ?iv) = None"
    by (simp add: demo_serving_def demo_kept_def demo_controller_def task_table_default_def bt_get_def)
  ultimately show ?thesis
    using unrendered_lock_strands_task [OF ready [OF _ id] demo_request_get(7)] by blast
qed

text \<open>
  C38. The operator's permission to cancel is a field of the request: without any operator grant or
  nonce, a client that sets the authorization field itself cancels a queued task.
\<close>

theorem client_cancels_without_operator:
  assumes "task_get (ctl_tasks c) i = Some t" "task_state t = Queued" "i \<noteq> []" "env_io env 0 = None"
    "ctl_operator_grants c = []" "ctl_operator_nonces c = []"
  shows "\<exists>t' c'. controller_actions views env ''task.cancel'' (JObj [(''_operatorAuthorized'', JBool True), (''taskId'', JStr i)]) c =
     (Inr (enc_task (env_codec env) t'), c') \<and> task_id t' = task_id t \<and> task_state t' = Cancelled"
proof -
  let ?p = "JObj [(''_operatorAuthorized'', JBool True), (''taskId'', JStr i)]"
  have p: "get_bool ?p ''_operatorAuthorized'' = Some True" "required_str ?p ''taskId'' = Inr i"
    using assms(3) by (simp_all add: get_bool_def bt_get_def required_str_def get_str_def)
  obtain t' c' where t': "task_op ''INVALID_TASK_STATE'' (transition (env_clock env) i Cancelled None None) c = (Inr t', c')"
    "task_id t' = task_id t" "task_state t' = Cancelled"
    using assms(1,2) by (auto simp: task_op_def transition_def task_get_def transition_allowed_def map_err_def Let_def)
  have "task_cancel env ?p c = task_answer (skip 2 0 env) t' (enc_task (env_codec env) t') c'"
    using assms(1,2) p t' by (simp add: task_cancel_def find_task_def found_def ok_or_def)
  also have "\<exists>c''. \<dots> = (Inr (enc_task (env_codec env) t'), c'')"
    using assms(4) by (simp add: task_answer_def persist_def Let_def skip_def)
  finally obtain c'' where "task_cancel env ?p c = (Inr (enc_task (env_codec env) t'), c'')" by blast
  then show ?thesis
    using t' by (auto simp: controller_actions_def registry_actions_def operator_group_def task_actions_def)
qed

definition demo_queue :: controller where
  "demo_queue = demo_kept\<lparr>ctl_tasks := load_task (demo_listed\<lparr>task_state := Queued\<rparr>) task_table_default\<rparr>"

theorem client_cancels_without_operator_witness:
  "\<exists>t' c'. controller_actions no_handler (demo_env 9) ''task.cancel''
      (JObj [(''_operatorAuthorized'', JBool True), (''taskId'', JStr ''task_a'')]) demo_queue =
      (Inr (enc_task demo_codec t'), c') \<and> task_state t' = Cancelled"
proof -
  have "task_get (ctl_tasks demo_queue) ''task_a'' = Some (demo_listed\<lparr>task_state := Queued\<rparr>)"
    using demo_listing_facts(3) by (simp add: demo_queue_def load_task_def task_get_def bt_get_def task_table_default_def)
  from client_cancels_without_operator [OF this, of "demo_env 9" no_handler] show ?thesis
    by (auto simp: demo_env_def demo_queue_def demo_kept_def demo_controller_def)
qed

subsection \<open>Waiting\<close>

lemma task_wait_loop_ends:
  "late m \<Longrightarrow> n \<le> m \<Longrightarrow> \<exists>r. task_wait_loop tables late i n = Some r \<and>
     (\<forall>t. r = Inr t \<longrightarrow> (\<exists>k. n \<le> k \<and> k \<le> m \<and> task_get (tables k) i = Some t \<and> terminal (task_state t)))"
proof (induction "m - n" arbitrary: n)
  case 0
  then have "n = m" by simp
  with 0 show ?case by (subst task_wait_loop.simps) (auto simp: wait_timeout_def split: option.split)
next
  case (Suc d)
  then have "\<exists>r. task_wait_loop tables late i (Suc n) = Some r \<and>
     (\<forall>t. r = Inr t \<longrightarrow> (\<exists>k. Suc n \<le> k \<and> k \<le> m \<and> task_get (tables k) i = Some t \<and> terminal (task_state t)))" by simp
  then show ?case using Suc(2,4)
    by (subst task_wait_loop.simps) (auto split: option.split intro: Suc_leD)
qed

lemma task_wait_loop_still:
  assumes "late m" "n \<le> m"
  shows "task_wait_loop (\<lambda>_. tbl) late i n = Some
    (case task_get tbl i of
       None \<Rightarrow> Inl (rpc_err ''TASK_NOT_FOUND'' (''unknown task: '' @ i))
     | Some t \<Rightarrow> if terminal (task_state t) then Inr t else Inl (wait_timeout i))"
  using assms
proof (induction "m - n" arbitrary: n)
  case 0
  then have "n = m" by simp
  with 0 show ?case by (subst task_wait_loop.simps) (simp split: option.split)
next
  case (Suc d)
  from Suc(1) [of "Suc n"] Suc(2-4) show ?case by (subst task_wait_loop.simps) (simp split: option.split)
qed

text \<open>
  C34. Waiting for a task ends: once the deadline passes in some round, the polling loop has returned,
  whatever other requests did to the table meanwhile, and a task it answers with was in the table
  of some round and finished; and when nothing else changes the table, the loop answers exactly
  what the handler without a loop does.
\<close>

theorem task_wait_ends:
  assumes "late m"
  shows "(\<exists>r. task_wait_loop tables late i 0 = Some r \<and>
      (\<forall>t. r = Inr t \<longrightarrow> (\<exists>k \<le> m. task_get (tables k) i = Some t \<and> terminal (task_state t)))) \<and>
    (required_str params ''taskId'' = Inr i \<longrightarrow>
      fst (task_wait env params c) = map_sum id (enc_task (env_codec env)) (the (task_wait_loop (\<lambda>_. ctl_tasks c) late i 0)))"
proof -
  have "fst (task_wait env params c) = map_sum id (enc_task (env_codec env)) (the (task_wait_loop (\<lambda>_. ctl_tasks c) late i 0))"
    if "required_str params ''taskId'' = Inr i"
    using that task_wait_loop_still [of late m 0] assms
    by (simp add: task_wait_def find_task_def found_def ok_or_def split: option.split)
  with task_wait_loop_ends [of late m 0 tables i] assms show ?thesis by auto
qed

theorem task_wait_ends_witness:
  "\<exists>r. task_wait_loop (\<lambda>n. if n < 2 then ctl_tasks demo_queue else ctl_tasks demo_finished) (\<lambda>n. n = 7) ''task_a'' 0 = Some r"
  using task_wait_ends [of "\<lambda>n. n = 7" 7] by blast

end
