(* ===== verification/Lock_Properties.thy ===== *)
theory Lock_Properties
  imports Invoke_Properties
begin

section \<open>The leases and the workers of invocations\<close>

text \<open>
  An invocation takes a lease for each of its locks, in order, calls the Executor and gives them
  back. Shown: they are taken all or none, released whatever the Executor answers, and kept when
  the answer is a timeout, since the operation may still be running. Then the bound on
  asynchronous tasks and their workers, and the observations a query over several Controllers
  answers with.
\<close>

subsection \<open>Taking and releasing\<close>

text \<open>\<open>T\<close> are the clock readings of the invocation; none of them reaches the expiry of a lease taken at another.\<close>

definition leased :: "u64 set \<Rightarrow> string \<Rightarrow> lease list \<Rightarrow> lease_table \<Rightarrow> lease_table \<Rightarrow> bool" where
  "leased T owner new t t' =
     (distinct (map lease_resource new)
      \<and> (\<forall>l \<in> set new. lease_get t' (lease_resource l) = Some l \<and> lease_owner l = owner
           \<and> \<not> starts_with ''sha256:'' (lease_token l) \<and> (\<forall>a \<in> T. a < lease_expires_at l))
      \<and> (\<forall>r. r \<notin> lease_resource ` set new \<longrightarrow> lease_get t' r = lease_get t r)
      \<and> (\<forall>r \<in> lease_resource ` set new. \<forall>k. lease_get t r = Some k \<longrightarrow> (\<exists>a \<in> T. lease_expires_at k \<le> a)))"

lemma leased_Nil [simp]: "leased T owner [] t t"
  by (simp add: leased_def)

lemma acquired_get:
  assumes "acquire now u1 u2 kind r owner ttl t = (Inr l, t')"
  shows "lease_get t' r' = (if r' = r then Some l else lease_get t r')" "lease_resource l = r" "lease_owner l = owner"
    "lease_token l = ''token_'' @ u2" "lease_expires_at l = sat_add now ttl"
    "lease_get t r = Some k \<Longrightarrow> lease_expires_at k \<le> now"
  using assms by (auto simp: acquire_def Let_def lease_get_def bt_get_insert_any split: option.splits if_splits)

lemma leased_Cons:
  assumes "acquire now u1 u2 kind r owner ttl t = (Inr l, t1)" "leased T owner new t1 t2" "now \<in> T"
    "\<And>a b. a \<in> T \<Longrightarrow> b \<in> T \<Longrightarrow> a < sat_add b ttl"
  shows "leased T owner (l # new) t t2"
proof -
  note got = acquired_get [OF assms(1)]
  have fresh: "r \<notin> lease_resource ` set new"
  proof
    assume "r \<in> lease_resource ` set new"
    moreover have "lease_get t1 r = Some l" by (simp add: got(1))
    ultimately obtain a where "a \<in> T" "lease_expires_at l \<le> a" using assms(2) unfolding leased_def by blast
    with assms(3,4) got(5) show False by (metis leD)
  qed
  then have "lease_get t2 r = Some l" using assms(2) got(1) [of r] by (simp add: leased_def)
  moreover have "lease_get t k = lease_get t1 k" if "k \<noteq> r" for k using that by (simp add: got(1))
  ultimately show ?thesis
    using assms(2-4) got(2-6) fresh unfolding leased_def by (auto simp: image_iff)
qed

definition taken :: "(lease_error \<times> lease list) + lease list \<Rightarrow> lease list" where
  "taken r = (case r of Inl (e, ls) \<Rightarrow> ls | Inr ls \<Rightarrow> ls)"

lemma acquire_all_leased:
  assumes "\<And>a b. a \<in> T \<Longrightarrow> b \<in> T \<Longrightarrow> a < sat_add b ttl"
  shows "(\<And>n. clk n \<in> T) \<Longrightarrow> acquire_all clk ids owner ttl rs acquired t = (r, t') \<Longrightarrow>
    \<exists>new. taken r = acquired @ new \<and> leased T owner new t t' \<and> (\<forall>ls. r = Inr ls \<longrightarrow> map lease_resource new = rs)"
proof (induction rs arbitrary: clk ids acquired t)
  case Nil
  then show ?case by (auto simp: taken_def)
next
  case (Cons x rs)
  obtain a t1 where a: "acquire (clk 0) (ids 0) (ids 1) LeaseResource x owner ttl t = (a, t1)" by fastforce
  show ?case
  proof (cases a)
    case (Inl e)
    with a have "t1 = t" by (auto simp: acquire_def Let_def split: option.splits if_splits)
    with Cons.prems(2) a Inl show ?thesis by (auto simp: taken_def)
  next
    case (Inr l)
    with Cons.prems(2) a have "acquire_all (\<lambda>n. clk (Suc n)) (\<lambda>n. ids (n + 2)) owner ttl rs (acquired @ [l]) t1 = (r, t')" by simp
    from Cons.IH [OF Cons.prems(1) this] obtain new where new: "taken r = (acquired @ [l]) @ new" "leased T owner new t1 t'"
      "\<forall>ls. r = Inr ls \<longrightarrow> map lease_resource new = rs" by blast
    from leased_Cons [OF _ new(2) Cons.prems(1) assms] a Inr have "leased T owner (l # new) t t'" by blast
    with new a Inr acquired_get(2) show ?thesis by (intro exI [of _ "l # new"]) auto
  qed
qed

lemma release_held:
  assumes "lease_get t (lease_resource l) = Some l" "\<not> starts_with ''sha256:'' (lease_token l)" "now < lease_expires_at l"
  shows "lease_get (snd (release sha now (lease_resource l) (lease_owner l) (lease_token l) t)) r =
    (if r = lease_resource l then None else lease_get t r)"
  using assms by (simp add: release_def validate_def lease_get_def token_matches_def bt_get_remove_any not_le [symmetric])

lemma release_fold:
  assumes "\<And>n. clk n \<in> T"
  shows "distinct (map lease_resource xs) \<Longrightarrow>
    (\<forall>l \<in> set xs. lease_get t (lease_resource l) = Some l \<and> \<not> starts_with ''sha256:'' (lease_token l) \<and> (\<forall>a \<in> T. a < lease_expires_at l)) \<Longrightarrow>
    lease_get (snd (fold (\<lambda>l (n, t). (Suc n, snd (release sha (clk n) (lease_resource l) (lease_owner l) (lease_token l) t))) xs (n, t))) r =
      (if r \<in> lease_resource ` set xs then None else lease_get t r)"
proof (induction xs arbitrary: n t)
  case (Cons l xs)
  let ?t = "snd (release sha (clk n) (lease_resource l) (lease_owner l) (lease_token l) t)"
  have get: "lease_get ?t k = (if k = lease_resource l then None else lease_get t k)" for k
    using Cons.prems(2) assms by (intro release_held) auto
  have "\<forall>x \<in> set xs. lease_get ?t (lease_resource x) = Some x \<and> \<not> starts_with ''sha256:'' (lease_token x) \<and> (\<forall>a \<in> T. a < lease_expires_at x)"
    using Cons.prems by (auto simp: get image_iff)
  with Cons.IH [of ?t "Suc n"] Cons.prems(1) show ?case by (auto simp: get)
qed simp

lemma release_leased:
  assumes "leased T owner new t t'" "\<And>n. clk n \<in> T"
  shows "lease_get (release_acquired sha clk new t') r = (if r \<in> lease_resource ` set new then None else lease_get t' r)"
  using release_fold [of clk T "rev new" t' sha 0 r] assms
  by (simp add: release_acquired_def leased_def rev_map [symmetric])

lemma released_unchanged:
  assumes "leased T owner new t t'" "\<And>n. clk n \<in> T"
  shows "lease_get (release_acquired sha clk new t') r = None \<or> lease_get (release_acquired sha clk new t') r = lease_get t r"
  using release_leased [OF assms] assms(1) by (simp add: leased_def)

subsection \<open>The leases of a call\<close>

lemma end_task_leases: "ctl_leases (snd (end_task env i st x e c)) = ctl_leases c"
  unfolding end_task_def by (rule sbind_inv) (simp_all add: persist_eq)

lemma record_leases:
  "ctl_leases (record_artifact now iv input result i c) = ctl_leases c"
  "ctl_leases (snd (record_agent iv input result c)) = ctl_leases c"
  by (auto simp: record_artifact_def record_agent_def Let_def with_state_def sbind_def split: option.split sum.split)

lemma persist_answer_leases: "ctl_leases (snd (persist_answer env now v c)) = ctl_leases c"
  unfolding persist_answer_def by (rule sbind_inv) (simp_all add: persist_eq)

lemma succeed_leases: "ctl_leases (snd (succeed env iv input i result c)) = ctl_leases c"
  unfolding succeed_def
  by (auto simp: end_task_leases record_leases persist_answer_leases split: sum.split
      intro!: sbind_inv [where Q = "\<lambda>s. ctl_leases s = ctl_leases c"])

lemma settle_leases: "ctl_leases (snd (settle env iv input i response c)) = ctl_leases c"
  by (simp add: settle_def Let_def succeed_leases end_task_leases split: sum.split)

lemma executor_input_object:
  assumes "inv_input iv = JObj m"
  shows "\<exists>v. executor_input env iv acquired c = Inr v"
  using assms by (simp add: executor_input_def Let_def assign_def ok_or_def)

lemma execute_leases:
  assumes "inv_input iv = JObj m"
  shows "\<exists>x q. ctl_leases (snd (execute env iv i acquired c)) =
    (if timed_out (env_call env x q) then ctl_leases c
     else release_acquired (env_sha env) (\<lambda>n. env_clock env (n + (length acquired + 1))) acquired (ctl_leases c))"
  using executor_input_object [OF assms, of env acquired c]
  by (auto simp: execute_def Let_def settle_leases release_leases_def skip_def)

text \<open>
  C13. The leases of an invocation follow its call. When none of its readings reaches the expiry of a
  lease it takes, then unless the call times out every resource is afterwards free or leased as it was
  before, also when a lock was busy and the call was never made; and when the call times out, every
  resource of the invocation stays leased to its owner, as the operation may still be running.
\<close>

theorem locks_follow_the_call:
  assumes "run_task env iv t c = (r, c')" "inv_input iv = JObj m" "invocation_resources (env_jshow env) iv = Inr rs"
    and "\<And>a b. env_clock env a < sat_add (env_clock env b) (sat_add (cap_timeout_ms (inv_contract iv)) 30000)"
  shows "((\<forall>x q. \<not> timed_out (env_call env x q)) \<longrightarrow>
      (\<forall>res. lease_get (ctl_leases c') res = None \<or> lease_get (ctl_leases c') res = lease_get (ctl_leases c) res)) \<and>
    ((\<forall>x q. timed_out (env_call env x q)) \<and>
       is_ok (fst (acquire_all (env_clock env) (env_ids env) (inv_owner iv)
         (sat_add (cap_timeout_ms (inv_contract iv)) 30000) rs [] (ctl_leases c))) \<longrightarrow>
      (\<forall>res \<in> set rs. \<exists>l. lease_get (ctl_leases c') res = Some l \<and> lease_owner l = inv_owner iv))"
proof -
  let ?T = "range (env_clock env)" and ?ttl = "sat_add (cap_timeout_ms (inv_contract iv)) 30000"
  obtain a t1 where a: "acquire_all (env_clock env) (env_ids env) (inv_owner iv) ?ttl rs [] (ctl_leases c) = (a, t1)" by fastforce
  from acquire_all_leased [OF _ _ a, of ?T] assms(4) have new: "leased ?T (inv_owner iv) (taken a) (ctl_leases c) t1"
    and all: "\<And>ls. a = Inr ls \<Longrightarrow> map lease_resource (taken a) = rs" by auto
  show ?thesis
  proof (cases a)
    case (Inl x)
    then obtain e ls where x: "a = Inl (e, ls)" by (cases x) simp
    with assms(1,3) a have "ctl_leases c' = release_acquired (env_sha env) (\<lambda>k. env_clock env (k + length rs)) ls t1"
      by (auto simp: run_task_def Let_def end_task_leases release_leases_def skip_def dest!: arg_cong [of _ _ "\<lambda>p. ctl_leases (snd p)"])
    with released_unchanged [OF new, of "\<lambda>k. env_clock env (k + length rs)"] x a show ?thesis by (simp add: taken_def)
  next
    case (Inr ls)
    let ?env = "stage (length rs) 0 (2 * length rs) env"
    from assms(1,3) a Inr have "c' = snd (execute ?env iv (task_id t) ls (c\<lparr>ctl_leases := t1\<rparr>))"
      by (simp add: run_task_def Let_def)
    with execute_leases [OF assms(2), of ?env "task_id t" ls "c\<lparr>ctl_leases := t1\<rparr>"] obtain x q where
      "ctl_leases c' = (if timed_out (env_call ?env x q) then t1
        else release_acquired (env_sha ?env) (\<lambda>k. env_clock ?env (k + (length ls + 1))) ls t1)"
      by (auto cong: if_cong)
    then have l: "ctl_leases c' = (if timed_out (env_call env x q) then t1
        else release_acquired (env_sha env) (\<lambda>k. env_clock env (k + (length ls + 1) + length rs)) ls t1)"
      by (simp cong: if_cong)
    have "\<exists>l. lease_get t1 res = Some l \<and> lease_owner l = inv_owner iv" if "res \<in> set rs" for res
      using that new all [OF Inr] by (auto simp: leased_def)
    with l released_unchanged [OF new, of "\<lambda>k. env_clock env (k + (length ls + 1) + length rs)" "env_sha env"] Inr show ?thesis by (simp add: taken_def)
  qed
qed

definition demo_command :: invocation where
  "demo_command = demo_removal\<lparr>inv_input := JObj [(''resources'', JArr [JStr ''db''])]\<rparr>"

theorem locks_follow_the_call_witness:
  "lease_get (ctl_leases (snd (run_task (demo_env 9) demo_command demo_listed demo_kept))) ''command:db'' = None"
proof -
  have rs: "invocation_resources (env_jshow (demo_env 9)) demo_command = Inr [''command:db'']"
    by (simp add: invocation_resources_def demo_command_def demo_removal_def demo_capability_def readonly_def command_resources_def
        bt_get_def and_then_def)
  have early: "env_clock (demo_env 9) a < sat_add (env_clock (demo_env 9) b) (sat_add (cap_timeout_ms (inv_contract demo_command)) 30000)" for a b
    by (simp add: demo_env_def demo_command_def demo_removal_def demo_capability_def sat_add_def)
  have "inv_input demo_command = JObj [(''resources'', JArr [JStr ''db''])]" by (simp add: demo_command_def)
  from locks_follow_the_call [OF prod.collapse [symmetric] this rs early, of demo_listed demo_kept]
  show ?thesis by (auto simp: demo_env_def timed_out_def demo_kept_def demo_controller_def lease_table_default_def lease_get_def bt_get_def)
qed

subsection \<open>Asynchronous tasks\<close>

lemma slots_same [simp]:
  "ctl_async_active (snd (persist env now io c)) = ctl_async_active c" "ctl_workers (snd (persist env now io c)) = ctl_workers c"
  "ctl_resume_tokens (snd (persist env now io c)) = ctl_resume_tokens c"
  "ctl_async_active (observe_task_state env now t c) = ctl_async_active c" "ctl_workers (observe_task_state env now t c) = ctl_workers c"
  "ctl_resume_tokens (observe_task_state env now t c) = ctl_resume_tokens c"
  by (simp_all add: persist_def Let_def observe_task_state_def observe_def split: option.split)

lemma submit_invocation_slots:
  assumes "tt_wf (ctl_tasks c)"
  obtains t reused c' where "submit_invocation env iv c = (Inr (t, reused), c')" "ctl_async_active c' = ctl_async_active c"
    "ctl_workers c' = ctl_workers c"
proof (cases "bt_get (tt_idempotency (ctl_tasks c)) (invocation_scope iv)")
  case (Some i)
  with tt_wfD(6) [OF assms] obtain t where "task_get (ctl_tasks c) i = Some t" by (auto simp: task_get_def)
  from submit_known [OF Some this] that show thesis by blast
next
  case None
  with that show thesis by (auto simp: submit_invocation_def submit_traced_def Let_def case_prod_beta)
qed

lemma worker_request_object:
  "\<exists>q. worker_request env (JObj m) t token = Inr q \<and> get_str (req_params q) ''_resumeTaskId'' = Some (task_id t) \<and>
     get_str (req_params q) ''_resumeToken'' = Some token"
  by (simp add: worker_request_def assign_def ok_or_def and_then_def case_prod_beta request_new_def Let_def get_str_def
      bt_get_insert_any)

lemma resume_once:
  assumes "get_str p ''_resumeTaskId'' = Some i" "get_str p ''_resumeToken'' = Some token" "bt_get (ctl_resume_tokens c) i = Some token"
  shows "fst (resume p c) \<and> \<not> fst (resume p (snd (resume p c)))"
  using assms by (simp add: resume_def bt_get_remove_same)

text \<open>
  C32. Asynchronous tasks are bounded and their slots are accounted for: accepting one never exceeds the
  configured maximum, whether it succeeds, is refused, or fails to write the state; a slot is taken
  exactly when a worker is started; and the worker's own request is recognized by its token once, and
  a second request with the same token is not.
\<close>

theorem async_slots:
  assumes "accept_async env iv (JObj m) c = (r, c')" "tt_wf (ctl_tasks c)"
  shows "ctl_async_active c' \<le> max (ctl_async_active c) (env_async_maximum env) \<and>
    ctl_async_active c' + length (ctl_workers c) = ctl_async_active c + length (ctl_workers c') \<and>
    (ctl_workers c' \<noteq> ctl_workers c \<longrightarrow> (\<exists>i q. ctl_workers c' = ctl_workers c @ [(i, q)] \<and>
       fst (resume (req_params q) c') \<and> \<not> fst (resume (req_params q) (snd (resume (req_params q) c')))))"
proof (cases "env_async_maximum env \<le> ctl_async_active c")
  case True
  with assms(1) show ?thesis by (simp add: accept_async_def)
next
  case False
  obtain t reused c1 where s: "submit_invocation env iv (c\<lparr>ctl_async_active := ctl_async_active c + 1\<rparr>) = (Inr (t, reused), c1)"
    "ctl_async_active c1 = ctl_async_active c + 1" "ctl_workers c1 = ctl_workers c"
    by (rule submit_invocation_slots [of "c\<lparr>ctl_async_active := ctl_async_active c + 1\<rparr>" env iv]) (use assms(2) in auto)
  let ?c2 = "snd (persist env (env_clock env 2) (env_io env 0) c1)"
  consider "c' = free_slot c1" | "c' = free_slot ?c2"
    | "\<not> reused" "is_ok (fst (persist env (env_clock env 2) (env_io env 0) c1))"
    using assms(1) False s(1)
    by (cases reused; cases "persist env (env_clock env 2) (env_io env 0) c1"; cases "fst (persist env (env_clock env 2) (env_io env 0) c1)")
      (auto simp: accept_async_def)
  then show ?thesis
  proof cases
    case 3
    then obtain u c2 where p: "persist env (env_clock env 2) (env_io env 0) c1 = (Inr u, c2)"
      by (metis is_ok_iff prod.collapse)
    have c2: "ctl_async_active c2 = ctl_async_active c1" "ctl_workers c2 = ctl_workers c1"
      using slots_same(1,2) [of env "env_clock env 2" "env_io env 0" c1] p by simp_all
    let ?token = "''resume_'' @ env_ids env 1"
    from worker_request_object obtain q where q: "worker_request env (JObj m) t ?token = Inr q"
      "get_str (req_params q) ''_resumeTaskId'' = Some (task_id t)" "get_str (req_params q) ''_resumeToken'' = Some ?token" by blast
    have c': "c' = start_worker t ?token q (observe_task_state env (env_clock env 3) t c2)"
      using assms(1) False s(1) 3(1) p q(1) by (simp add: accept_async_def Let_def)
    then have "bt_get (ctl_resume_tokens c') (task_id t) = Some ?token" by (simp add: start_worker_def bt_get_insert_any)
    from resume_once [OF q(2,3) this] c' c2 s False show ?thesis by (auto simp: start_worker_def)
  qed (use s False in \<open>simp_all add: free_slot_def\<close>)
qed

theorem async_slots_witness:
  "ctl_async_active (snd (accept_async (demo_env 9) demo_listing (JObj []) demo_kept)) = length (ctl_workers (snd (accept_async (demo_env 9) demo_listing (JObj []) demo_kept)))"
proof -
  have "tt_wf (ctl_tasks demo_kept)" by (simp add: demo_kept_def demo_controller_def wf_intros)
  from async_slots [OF prod.collapse [symmetric] this, of "demo_env 9" demo_listing "[]"]
  show ?thesis by (simp add: demo_kept_def demo_controller_def)
qed

subsection \<open>Queries over several Controllers\<close>

lemma retain_first_set: "set (retain_first key seen xs) \<subseteq> set xs"
  by (induction key seen xs rule: retain_first.induct) auto

lemma retain_first_keys: "key ` set (retain_first key seen xs) = key ` set xs - set seen"
  by (induction xs arbitrary: seen) auto

lemma retain_first_sorted: "sorted (map f xs) \<Longrightarrow> sorted (map f (retain_first key seen xs))"
  by (induction key seen xs rule: retain_first.induct) (auto dest: subsetD [OF retain_first_set])

lemma sorted_suffix:
  assumes "sorted (map f xs)" "n \<le> card {x \<in> set xs. P x}" "\<And>x y. x \<in> set xs \<Longrightarrow> y \<in> set xs \<Longrightarrow> \<not> P x \<Longrightarrow> P y \<Longrightarrow> f x < (f y :: 'b :: linorder)"
    "x \<in> set (drop (length xs - n) xs)"
  shows "P x"
proof (rule ccontr)
  assume np: "\<not> P x"
  from assms(4) obtain i where i: "i < length xs" "length xs - n \<le> i" "x = xs ! i"
    by (auto simp: in_set_conv_nth) (metis le_add1 less_diff_conv add.commute nth_drop)
  have "{y \<in> set xs. P y} \<subseteq> (!) xs ` {Suc i..<length xs}"
  proof
    fix y assume "y \<in> {y \<in> set xs. P y}"
    then obtain j where j: "j < length xs" "y = xs ! j" "P y" by (auto simp: in_set_conv_nth)
    have "i < j"
    proof (rule ccontr)
      assume "\<not> i < j"
      with assms(1) i j have "f y \<le> f x" by (auto simp: sorted_iff_nth_mono)
      moreover have "f x < f y" using assms(3) [of x y] np j i by simp
      ultimately show False by simp
    qed
    with j show "y \<in> (!) xs ` {Suc i..<length xs}" by auto
  qed
  then have "card {y \<in> set xs. P y} \<le> card {Suc i..<length xs}"
    by (meson card_image_le card_mono finite_atLeastLessThan finite_imageI order_trans)
  with assms(2) i show False by simp
qed

abbreviation event_key :: "observation \<Rightarrow> string \<times> u64" where
  "event_key e \<equiv> (ob_node_id e, ob_event_id e)"

text \<open>The newest events win: local events older than enough others are cut.\<close>

lemma merge_events_cuts:
  assumes "\<And>e r. e \<in> set events \<Longrightarrow> r \<in> set remote \<Longrightarrow> ob_timestamp e < ob_timestamp r \<and> ob_node_id e \<noteq> ob_node_id r"
    and "limit \<le> card (event_key ` set remote)" "e \<in> set (merge_events limit (events @ remote))"
  shows "e \<in> set remote"
proof -
  define sorted_events where "sorted_events = sort_key ob_timestamp (sort_key ob_node_id (sort_key ob_event_id (events @ remote)))"
  define kept where "kept = retain_first event_key [] sorted_events"
  have all: "set sorted_events = set events \<union> set remote" by (simp add: sorted_events_def)
  have kept: "set kept \<subseteq> set events \<union> set remote" using retain_first_set [of event_key "[]" sorted_events] by (simp add: kept_def all)
  have keys: "event_key ` set kept = event_key ` (set events \<union> set remote)" by (simp add: kept_def retain_first_keys all)
  have "event_key ` set remote \<subseteq> event_key ` {x \<in> set kept. x \<in> set remote}"
  proof
    fix k assume k: "k \<in> event_key ` set remote"
    then obtain x where x: "x \<in> set kept" "event_key x = k" using keys by (metis (no_types, lifting) imageE image_Un UnI2)
    from k obtain r where "r \<in> set remote" "event_key r = k" by blast
    with x assms(1) [of x r] kept have "x \<in> set remote" by auto
    with x show "k \<in> event_key ` {x \<in> set kept. x \<in> set remote}" by blast
  qed
  then have "limit \<le> card {x \<in> set kept. x \<in> set remote}"
    using assms(2) surj_card_le [of "{x \<in> set kept. x \<in> set remote}"] by fastforce
  moreover have "sorted (map ob_timestamp kept)" by (simp add: kept_def sorted_events_def retain_first_sorted)
  ultimately show ?thesis
    using sorted_suffix [of ob_timestamp kept limit "\<lambda>x. x \<in> set remote" e] assms(1,3) kept
    by (auto simp: merge_events_def kept_def sorted_events_def Let_def)
qed

text \<open>
  A query over several Controllers can lose events: when the peers answer with as many newer events as
  the limit allows, none of the local events of the page is in the answer, although the cursor it
  returns is already past them, so no query that continues from that cursor returns them either.
\<close>

theorem query_loses_events:
  assumes "query_local env params c = Inr (events, cursor)" "events \<noteq> []" "\<not> local_only params"
    and "optional_str params ''runId'' = Inr run" "limit = clamp 1 1000 (unat (unwrap_or 200 (get_u64 params ''limit'')))"
    and "remote = concat (map (answered_events env) (peer_answers env ''observability.query''
       (\<lambda>p. JObj [(''cursor'', junum (peer_cursor params p)), (''limit'', jnat limit), (''localOnly'', JBool True),
                  (''runId'', jopt JStr run)]) (ws_controllers (ctl_state c))))"
    and "\<And>e r. e \<in> set events \<Longrightarrow> r \<in> set remote \<Longrightarrow> ob_timestamp e < ob_timestamp r \<and> ob_node_id e \<noteq> ob_node_id r"
    and "limit \<le> card (event_key ` set remote)"
  shows "\<exists>v answered. observability_query env params c = (Inr v, c) \<and>
    jget v ''cursor'' = Some (junum (ob_event_id (last events))) \<and>
    jget v ''events'' = Some (JArr (map (enc_observation (env_codec env)) answered)) \<and> set answered \<inter> set events = {}"
proof -
  have "cursor = ob_event_id (last events)"
    using assms(1,2) by (auto simp: query_local_def Let_def and_then_def split: sum.splits)
  moreover have "set (merge_events limit (events @ remote)) \<inter> set events = {}"
    using merge_events_cuts [OF assms(7,8)] assms(7) by fastforce
  moreover have "\<exists>v. observability_query env params c = (Inr v, c) \<and> jget v ''cursor'' = Some (junum cursor) \<and>
      jget v ''events'' = Some (JArr (map (enc_observation (env_codec env)) (merge_events limit (events @ remote))))"
    using assms(1,3-6) by (simp add: observability_query_def Let_def bt_get_def)
  ultimately show ?thesis by blast
qed

definition demo_remote :: observation where
  "demo_remote = (demo_observation 50)\<lparr>ob_event_id := 1, ob_node_id := ''peer''\<rparr>"

definition demo_peered :: controller where
  "demo_peered = demo_kept\<lparr>ctl_observations := demo_observations, ctl_state := demo_records\<lparr>ws_controllers :=
     [\<lparr>peer_api_version = ''v1'', peer_metadata = demo_metadata ''peer'', peer_endpoint = EndpointLocal ''p'', peer_health = HealthReady\<rparr>]\<rparr>\<rparr>"

definition demo_answering :: environment where
  "demo_answering = (demo_env 60)\<lparr>env_call := \<lambda>_ _. Inr (response_success ''q'' (JObj [(''events'', JArr [JNull])])),
     env_codec := demo_codec\<lparr>dec_observation := \<lambda>_. Inr demo_remote\<rparr>\<rparr>"

definition demo_query :: json where
  "demo_query = JObj [(''limit'', JNum (PosInt 1))]"

theorem query_loses_events_witness:
  "\<exists>v answered. observability_query demo_answering demo_query demo_peered = (Inr v, demo_peered) \<and>
    jget v ''cursor'' = Some (junum 1) \<and> jget v ''events'' = Some (JArr (map (enc_observation (env_codec demo_answering)) answered)) \<and>
    (demo_observation 8)\<lparr>ob_event_id := 1\<rparr> \<notin> set answered"
proof -
  let ?local = "[(demo_observation 8)\<lparr>ob_event_id := 1\<rparr>]"
  have q: "get_u64 demo_query ''limit'' = Some 1" "optional_str demo_query ''runId'' = Inr None" "\<not> local_only demo_query"
    "jget demo_query ''cursors'' = None" "get_u64 demo_query ''cursor'' = None"
    by (simp_all add: demo_query_def get_u64_def bt_get_def optional_str_def local_only_def get_bool_def)
  have page: "query_local demo_answering demo_query demo_peered = Inr (?local, 1)"
    using q by (simp add: query_local_def Let_def or_else_def query_observations_def sql_integer_def demo_peered_def demo_observations_eval
        row_matches_def clamp_def and_then_def map_err_def)
  have peers: "concat (map (answered_events demo_answering) (peer_answers demo_answering action f (ws_controllers (ctl_state demo_peered)))) =
      [demo_remote]" for action f
    by (simp add: demo_peered_def demo_answering_def answered_events_def response_success_def get_array_def bt_get_def decodable_def)
  from query_loses_events [OF page _ q(3,2) refl refl] show ?thesis
    by (auto simp: peers q clamp_def demo_remote_def demo_observation_def)
qed

end
