(* ===== verification/Authority_Properties.thy ===== *)
theory Authority_Properties
  imports Transfer_Properties Lock_Properties
begin

section \<open>The Controller's authority at an Executor\<close>

text \<open>
  A mutating call is authorised twice: the Controller renders the locks of the capability, takes a lease
  for each and sends them along with the driver's lease; the Executor renders the locks again with a routine of
  its own and compares. Here both renderings are shown to be one function, and what the Controller
  sends is shown to be what the Executor accepts.
\<close>

subsection \<open>One rendering of lock templates\<close>

text \<open>The error an Executor reports where the Controller reports a missing field.\<close>

definition at_executor :: "rpc_error \<Rightarrow> rpc_error" where
  "at_executor e =
     (if err_code e = ''INVALID_LOCK_INPUT''
      then rpc_err ''EXECUTOR_AUTHORITY_MISMATCH'' (''capability lock requires '' @ drop 26 (err_message e)) else e)"

lemma at_executor_simps [simp]:
  "at_executor (rpc_err ''INVALID_LOCK_TEMPLATE'' t) = rpc_err ''INVALID_LOCK_TEMPLATE'' t"
  "at_executor (rpc_err ''INVALID_LOCK_INPUT'' (''lock requires input field '' @ key)) =
     rpc_err ''EXECUTOR_AUTHORITY_MISMATCH'' (''capability lock requires '' @ key)"
  by (simp_all add: at_executor_def rpc_err_def)

lemma render_loop_to_authority:
  assumes "render_loop jshow template input s = Some r"
  shows "authority_loop jshow template input s = Some (map_err at_executor r)"
proof (rule render_loop.raw_induct [where P = "\<lambda>j t i s r. authority_loop j t i s = Some (map_err at_executor r)", OF _ assms])
  fix f j t i s r
  assume IH: "\<And>j t i s y. f j t i s = Some y \<Longrightarrow> authority_loop j t i s = Some (map_err at_executor y)"
    and body: "(case split_open s of None \<Rightarrow> Some (Inr s)
      | Some (before, rest) \<Rightarrow>
          (case split_once CHR ''}'' rest of
             None \<Rightarrow> Some (Inl (rpc_err ''INVALID_LOCK_TEMPLATE'' t))
           | Some (key, after) \<Rightarrow>
               (case jget i key of
                  None \<Rightarrow> Some (Inl (rpc_err ''INVALID_LOCK_INPUT'' (''lock requires input field '' @ key)))
                | Some v \<Rightarrow> f j t i (before @ display_text j v @ after)))) = Some r"
  show "authority_loop j t i s = Some (map_err at_executor r)"
    using body IH by (subst authority_loop.simps) (auto split: option.splits prod.splits simp del: append.simps)
qed

lemma authority_loop_to_render:
  assumes "authority_loop jshow template input s = Some r"
  shows "render_loop jshow template input s \<noteq> None"
proof (rule authority_loop.raw_induct [where P = "\<lambda>j t i s r. render_loop j t i s \<noteq> None", OF _ assms])
  fix f j t i s r
  assume IH: "\<And>j t i s y. f j t i s = Some y \<Longrightarrow> render_loop j t i s \<noteq> None"
    and body: "(case split_open s of None \<Rightarrow> Some (Inr s)
      | Some (before, rest) \<Rightarrow>
          (case split_once CHR ''}'' rest of
             None \<Rightarrow> Some (Inl (rpc_err ''INVALID_LOCK_TEMPLATE'' t))
           | Some (key, after) \<Rightarrow>
               (case jget i key of
                  None \<Rightarrow> Some (Inl (rpc_err ''EXECUTOR_AUTHORITY_MISMATCH'' (''capability lock requires '' @ key)))
                | Some v \<Rightarrow> f j t i (before @ display_text j v @ after)))) = Some r"
  show "render_loop j t i s \<noteq> None"
    using body IH by (subst render_loop.simps) (fastforce split: option.splits prod.splits)
qed

text \<open>
  C14. The Controller and the Executor render a lock template by separate routines, and the two agree on every
  template and input: they give the same resource, fail on the same inputs with errors that name the same
  template or field, and run for ever on the same inputs.
\<close>

theorem lock_renderings_agree:
  "render_authority_resource jshow template input =
     (case render_lock jshow template input of
        None \<Rightarrow> Inl never_answers
      | Some (Inr resource) \<Rightarrow> Inr resource
      | Some (Inl e) \<Rightarrow>
          Inl (if err_code e = ''INVALID_LOCK_INPUT''
               then rpc_err ''EXECUTOR_AUTHORITY_MISMATCH'' (''capability lock requires '' @ drop 26 (err_message e)) else e))"
proof (cases "render_loop jshow template input template")
  case None
  then have "authority_loop jshow template input template = None"
    using authority_loop_to_render by (cases "authority_loop jshow template input template") blast+
  with None show ?thesis by (simp add: render_authority_resource_def render_lock_def)
next
  case (Some r)
  from render_loop_to_authority [OF this] Some show ?thesis
    by (cases r) (simp_all add: render_authority_resource_def render_lock_def at_executor_def)
qed

text \<open>A rendering that succeeds is not changed by further fields.\<close>

lemma render_loop_extends:
  assumes "render_loop jshow template input s = Some r" "r = Inr name"
    and "\<And>k v. jget input k = Some v \<Longrightarrow> jget params k = Some v"
  shows "render_loop jshow template params s = Some (Inr name)"
proof -
  have "i = input \<longrightarrow> r = Inr name \<longrightarrow> render_loop j t params s = Some (Inr name)"
    if "render_loop j t i s = Some r" for j t i s r
  proof (rule render_loop.raw_induct [where P = "\<lambda>j t i s r. i = input \<longrightarrow> r = Inr name \<longrightarrow> render_loop j t params s = Some (Inr name)", OF _ that])
    fix f j t i s r
    assume IH: "\<And>j t i s y. f j t i s = Some y \<Longrightarrow> i = input \<longrightarrow> y = Inr name \<longrightarrow> render_loop j t params s = Some (Inr name)"
      and body: "(case split_open s of None \<Rightarrow> Some (Inr s)
        | Some (before, rest) \<Rightarrow>
            (case split_once CHR ''}'' rest of
               None \<Rightarrow> Some (Inl (rpc_err ''INVALID_LOCK_TEMPLATE'' t))
             | Some (key, after) \<Rightarrow>
                 (case jget i key of
                    None \<Rightarrow> Some (Inl (rpc_err ''INVALID_LOCK_INPUT'' (''lock requires input field '' @ key)))
                  | Some v \<Rightarrow> f j t i (before @ display_text j v @ after)))) = Some r"
    show "i = input \<longrightarrow> r = Inr name \<longrightarrow> render_loop j t params s = Some (Inr name)"
      using body IH assms(3) by (subst render_loop.simps) (fastforce split: option.splits prod.splits)
  qed
  with assms(1,2) show ?thesis by blast
qed

lemma render_locks_to_all:
  assumes "render_locks jshow locks input = Inr keys" "\<And>k v. jget input k = Some v \<Longrightarrow> jget params k = Some v"
  shows "render_all jshow (map lock_key locks) params = Inr keys"
  using assms(1)
proof (induction locks arbitrary: keys)
  case (Cons l ls)
  from Cons.prems obtain key keys' where k: "render_loop jshow (lock_key l) input (lock_key l) = Some (Inr key)"
      "render_locks jshow ls input = Inr keys'" "keys = key # keys'"
    by (auto simp: render_lock_def and_then_def split: option.splits sum.splits)
  from render_loop_to_authority [OF render_loop_extends [OF k(1) refl assms(2)]] Cons.IH [OF k(2)] k(3) show ?case
    by (simp add: render_authority_resource_def)
qed simp

subsection \<open>What the Controller sends is what the Executor accepts\<close>

text \<open>The parameters of the call: the input with four fields added.\<close>

lemma executor_input_fields:
  assumes "inv_input iv = JObj m" "\<not> readonly iv" "executor_input env iv acquired c = Inr v"
  shows "jget v k =
     (if k = ''_agentSessionId'' then Some (JStr (inv_owner iv))
      else if k = ''_sessionRef'' then Some (JObj [(''controllerId'', JStr (ctl_id c)), (''sessionId'', JStr (inv_workspace iv))])
      else if k = ''_authority'' then Some (JArr (authority_entries (env_clock env) c
        ((case inv_authority iv of None \<Rightarrow> [] | Some l \<Rightarrow> [l]) @ take (length (cap_locks (inv_contract iv))) acquired)))
      else if k = ''_workspaceSessionId'' then Some (JStr (inv_workspace iv)) else jget (inv_input iv) k)"
proof -
  have "v = JObj (bt_insert ''_agentSessionId'' (JStr (inv_owner iv))
      (bt_insert ''_sessionRef'' (JObj [(''controllerId'', JStr (ctl_id c)), (''sessionId'', JStr (inv_workspace iv))])
      (bt_insert ''_authority'' (JArr (authority_entries (env_clock env) c
        ((case inv_authority iv of None \<Rightarrow> [] | Some l \<Rightarrow> [l]) @ take (length (cap_locks (inv_contract iv))) acquired)))
      (bt_insert ''_workspaceSessionId'' (JStr (inv_workspace iv)) m))))"
    using assms by (simp add: executor_input_def Let_def assign_def ok_or_def)
  then show ?thesis unfolding assms(1) by (simp only: jget.simps bt_get_insert_any)
qed

lemma executor_input_keeps:
  assumes "inv_input iv = JObj m" "\<not> readonly iv" "executor_input env iv acquired c = Inr v"
    and "list_all (\<lambda>k. bt_get m k = None) [''_workspaceSessionId'', ''_authority'', ''_sessionRef'', ''_agentSessionId'']"
    and "jget (inv_input iv) k = Some u"
  shows "jget v k = Some u"
proof -
  have "k \<notin> {''_workspaceSessionId'', ''_authority'', ''_sessionRef'', ''_agentSessionId''}"
    using assms(4,5) unfolding assms(1) jget.simps list_all_iff list.set by (metis option.distinct(1))
  then show ?thesis using assms(5) unfolding executor_input_fields [OF assms(1-3)] by (simp only: insert_iff de_Morgan_disj simp_thms if_False)
qed

lemma acquire_all_resources:
  "acquire_all clk ids owner ttl rs acquired t = (Inr out, t') \<Longrightarrow> map lease_resource out = map lease_resource acquired @ rs"
  by (induction rs arbitrary: clk ids acquired t)
    (auto simp: acquire_def Let_def split: option.splits if_splits prod.splits sum.splits)

lemma acquire_all_take:
  assumes "acquire_all clk ids owner ttl (keys @ extra) [] t = (Inr acquired, t')"
  shows "map lease_resource (take (length keys) acquired) = keys"
  using acquire_all_resources [OF assms] by (simp add: take_map [symmetric])

lemma rendered_length: "render_locks jshow locks input = Inr keys \<Longrightarrow> length keys = length locks"
  by (induction locks arbitrary: keys) (auto simp: and_then_def split: option.splits sum.splits)

lemma entry_fields:
  "ctl_id c \<noteq> [] \<Longrightarrow> required_str (authority_entry now c l) ''controllerId'' = Inr (ctl_id c)"
  "lease_resource l \<noteq> [] \<Longrightarrow> required_str (authority_entry now c l) ''resource'' = Inr (lease_resource l)"
  "get_u64 (authority_entry now c l) ''expiresAt'' = Some (lease_expires_at l)"
  "get_u64 (authority_entry now c l) ''fence'' = Some (executor_execution_fence now (lease_fence l))"
  by (simp_all add: authority_entry_def required_str_def get_str_def get_u64_def bt_get_def junum_def)

lemma entries_resources:
  "list_all (\<lambda>l. lease_resource l \<noteq> []) ls \<Longrightarrow> required_strs ''resource'' (authority_entries clk c ls) = Inr (map lease_resource ls)"
  by (induction ls arbitrary: clk) (simp_all add: entry_fields)

lemma entries_other_locks:
  assumes "ctl_id c \<noteq> []" "list_all (\<lambda>l. lease_resource l \<noteq> [] \<and> \<not> starts_with ''workspace:'' (lease_resource l)) ls"
  shows "check_authorities clk' table (authority_entries clk c ls) = Inr ()"
    "record_authorities table (authority_entries clk c ls) = Inr table"
  using assms(2) by (induction ls arbitrary: clk clk')
    (simp_all add: assms(1) check_authority_def entry_fields)

lemma execution_fence_pos: "0 < fence \<Longrightarrow> executor_execution_fence now fence \<noteq> 0"
proof -
  assume "0 < fence"
  then have "0 < unat (min fence 0xFFFF)" by (simp add: min_def word_less_nat_alt)
  then have "0 < unat (executor_execution_fence now fence)" by (simp add: executor_execution_fence_def unat_sat_add)
  then show ?thesis by auto
qed

text \<open>The entry of the driver's lease.\<close>

lemma driver_entry:
  assumes "ctl_id c \<noteq> []" "lease_resource l = ''workspace:'' @ w" "0 < lease_fence l" "now' < lease_expires_at l"
    and "\<forall>f. bt_get table (fence_key (ctl_id c) (lease_resource l)) = Some f \<longrightarrow>
       fr_fence f \<le> executor_execution_fence now (lease_fence l) \<and> fr_controller_id f = ctl_id c"
  shows "check_authority now' table (authority_entry now c l) = Inr ()"
proof -
  let ?name = "lease_resource l"
  have name: "?name \<noteq> []" "starts_with ''workspace:'' ?name" using assms(2) by (simp_all add: starts_with_append)
  have fence: "executor_execution_fence now (lease_fence l) \<noteq> 0" by (rule execution_fence_pos) (rule assms(3))
  show ?thesis
  proof (cases "bt_get table (fence_key (ctl_id c) ?name)")
    case None
    with name fence assms(1,4) show ?thesis by (simp add: check_authority_def entry_fields ok_or_def Let_def)
  next
    case (Some current)
    with assms(5) have "\<not> executor_execution_fence now (lease_fence l) < fr_fence current" "fr_controller_id current = ctl_id c"
      by (simp_all add: not_less)
    with Some name fence assms(1,4) show ?thesis by (simp add: check_authority_def entry_fields ok_or_def Let_def)
  qed
qed

lemma driver_entry_recorded:
  assumes "ctl_id c \<noteq> []" "lease_resource l = ''workspace:'' @ w"
  shows "record_authorities table (authority_entry now c l # as) =
    record_authorities (bt_insert (fence_key (ctl_id c) (lease_resource l))
      \<lparr>fr_controller_id = ctl_id c, fr_fence = executor_execution_fence now (lease_fence l)\<rparr> table) as"
proof -
  have "lease_resource l \<noteq> []" "starts_with ''workspace:'' (lease_resource l)" using assms(2) by (simp_all add: starts_with_append)
  with assms(1) show ?thesis by (simp add: entry_fields as_u64_jindex ok_or_def)
qed

text \<open>What an Executor answers to the call depends on the driver's entry only.\<close>

lemma sent_call:
  assumes terms: "contract_of (xe_platform xenv) (cap_name (inv_contract iv)) = Some (inv_contract iv)"
    and driver: "cap_authority (inv_contract iv) = AuthorityWorkspaceDriver"
    and lease: "inv_authority iv = Some l" "lease_resource l = ''workspace:'' @ inv_workspace iv"
    and input: "inv_input iv = JObj m"
      "list_all (\<lambda>k. bt_get m k = None) [''_workspaceSessionId'', ''_authority'', ''_sessionRef'', ''_agentSessionId'']"
    and locks: "render_locks (env_jshow env) (cap_locks (inv_contract iv)) (inv_input iv) = Inr keys"
    and keys: "distinct keys" "list_all (\<lambda>k. k \<noteq> [] \<and> \<not> starts_with ''workspace:'' k) keys"
    and acquired: "acquire_all clk ids owner ttl (keys @ extra) [] t = (Inr acquired, t')"
    and names: "ctl_id c \<noteq> []" "inv_workspace iv \<noteq> []"
    and sent: "executor_input env iv acquired c = Inr v"
    and executor: "xr_fences x = Some fences" "xe_jshow xenv = env_jshow env" "xe_io xenv 0 = None"
  shows "enforce_authority xenv (cap_name (inv_contract iv)) v x =
    (case check_authority (xe_clock xenv 0) (ef_resources (fst_table fences)) (authority_entry (env_clock env 0) c l) of
       Inl e \<Rightarrow> (Inl e, x)
     | Inr _ \<Rightarrow>
         let table = (fst_table fences)\<lparr>ef_resources := bt_insert (fence_key (ctl_id c) (lease_resource l))
           \<lparr>fr_controller_id = ctl_id c, fr_fence = executor_execution_fence (env_clock env 0) (lease_fence l)\<rparr>
           (ef_resources (fst_table fences))\<rparr>
         in (Inr (), x\<lparr>xr_fences := Some (fences\<lparr>fst_table := table, fst_disk := Some table\<rparr>)\<rparr>))"
proof -
  let ?terms = "inv_contract iv" and ?table = "ef_resources (fst_table fences)"
  let ?own = "take (length (cap_locks ?terms)) acquired"
  let ?rest = "authority_entries (\<lambda>n. env_clock env (Suc n)) c ?own"
  let ?entries = "authority_entry (env_clock env 0) c l # ?rest"
  have mutating: "\<not> readonly iv" using driver by (simp add: readonly_def)
  note fields = executor_input_fields [OF input(1) mutating sent, unfolded lease(1) option.case append.simps authority_entries.simps]
  have own: "map lease_resource ?own = keys" using acquire_all_take [OF acquired] rendered_length [OF locks] by simp
  then have others: "list_all (\<lambda>l. lease_resource l \<noteq> [] \<and> \<not> starts_with ''workspace:'' (lease_resource l)) ?own"
    using keys(2) by (auto simp: list_all_iff)
  from render_locks_to_all [OF locks executor_input_keeps [OF input(1) mutating sent input(2)]]
  have rendered: "render_all (env_jshow env) (map lock_key (cap_locks ?terms)) v = Inr keys" .
  have "''workspace:'' @ inv_workspace iv \<notin> set keys" using keys(2) by (auto simp: list_all_iff starts_with_append)
  with keys(1) have d: "distinct ((''workspace:'' @ inv_workspace iv) # keys)" by simp
  define expected where "expected = remdups_adj (sort ((''workspace:'' @ inv_workspace iv) # keys))"
  have e: "length expected = Suc (length keys)" "set expected = insert (''workspace:'' @ inv_workspace iv) (set keys)"
    using d unfolding expected_def by (simp_all only: remdups_adj_distinct distinct_sort length_sort set_sort length_Cons list.set)
  have expects: "expected_resources (env_jshow env) (xr_id x) ?terms v = Inr expected"
    using names(2) by (simp add: expected_resources_def driver rendered required_str_def get_str_def fields expected_def)
  have supplied: "required_strs ''resource'' ?entries = Inr ((''workspace:'' @ inv_workspace iv) # keys)"
    using entries_resources [of ?own "\<lambda>n. env_clock env (Suc n)"] others lease(2) own by (simp add: list_all_iff entry_fields)
  have sent_entries: "get_array v ''_authority'' = Some ?entries" by (simp add: get_array_def fields)
  have checked: "check_authorities (xe_clock xenv) ?table ?entries = check_authority (xe_clock xenv 0) ?table (authority_entry (env_clock env 0) c l)"
    by (simp add: entries_other_locks(1) [OF names(1) others] and_then_def split: sum.splits)
  note recorded = driver_entry_recorded [OF names(1) lease(2), of ?table "env_clock env 0" ?rest,
    unfolded entries_other_locks(2) [OF names(1) others]]
  show ?thesis
    by (cases "check_authority (xe_clock xenv 0) ?table (authority_entry (env_clock env 0) c l)")
      (simp_all add: enforce_authority_def executor terms driver enforce_fences_def sent_entries expects supplied e checked recorded
        persist_fences_def ok_or_def Let_def del: record_authorities.simps(2) check_authorities.simps(2) required_strs.simps(2))
qed

text \<open>
  C5. The two halves of the system fit together: when the Controller has validated the driver's lease, rendered the
  locks of a capability of the catalogue and acquired a lease for each, the call it sends is accepted
  by an Executor on which the lease has not expired and no newer fence is recorded, and the
  Executor records the fence of this call, in memory and in its file.
\<close>

theorem controller_authority_accepted:
  assumes terms: "contract_of (xe_platform xenv) (cap_name (inv_contract iv)) = Some (inv_contract iv)"
    and driver: "cap_authority (inv_contract iv) = AuthorityWorkspaceDriver"
    and lease: "inv_authority iv = Some l" "lease_resource l = ''workspace:'' @ inv_workspace iv" "0 < lease_fence l"
    and input: "inv_input iv = JObj m"
      "list_all (\<lambda>k. bt_get m k = None) [''_workspaceSessionId'', ''_authority'', ''_sessionRef'', ''_agentSessionId'']"
    and locks: "render_locks (env_jshow env) (cap_locks (inv_contract iv)) (inv_input iv) = Inr keys"
    and keys: "distinct keys" "list_all (\<lambda>k. k \<noteq> [] \<and> \<not> starts_with ''workspace:'' k) keys"
    and acquired: "acquire_all clk ids owner ttl (keys @ extra) [] t = (Inr acquired, t')"
    and names: "ctl_id c \<noteq> []" "inv_workspace iv \<noteq> []"
    and sent: "executor_input env iv acquired c = Inr v"
    and executor: "xr_fences x = Some fences" "xe_jshow xenv = env_jshow env" "xe_io xenv 0 = None"
    and current: "xe_clock xenv 0 < lease_expires_at l"
      "\<forall>f. bt_get (ef_resources (fst_table fences)) (fence_key (ctl_id c) (lease_resource l)) = Some f \<longrightarrow>
         fr_fence f \<le> executor_execution_fence (env_clock env 0) (lease_fence l) \<and> fr_controller_id f = ctl_id c"
  shows "\<exists>fences'. enforce_authority xenv (cap_name (inv_contract iv)) v x = (Inr (), x\<lparr>xr_fences := Some fences'\<rparr>) \<and>
     fst_disk fences' = Some (fst_table fences') \<and>
     bt_get (ef_resources (fst_table fences')) (fence_key (ctl_id c) (''workspace:'' @ inv_workspace iv)) =
       Some \<lparr>fr_controller_id = ctl_id c, fr_fence = executor_execution_fence (env_clock env 0) (lease_fence l)\<rparr>"
  unfolding sent_call [OF terms driver lease(1,2) input locks keys acquired names sent executor]
    driver_entry [OF names(1) lease(2,3) current] sum.case Let_def
  by (rule exI, rule conjI, rule refl) (simp add: lease(2) bt_get_insert_any)

text \<open>
  The fence of a call is taken from the clock when the call is sent, not from the lease alone. So of two calls
  under one lease that reach the Executor in the opposite order, the one that was sent first is refused as stale
  although its driver has never lost the lease.
\<close>

theorem overtaken_call_refused:
  assumes terms: "contract_of (xe_platform xenv) (cap_name (inv_contract iv)) = Some (inv_contract iv)"
    and driver: "cap_authority (inv_contract iv) = AuthorityWorkspaceDriver"
    and lease: "inv_authority iv = Some l" "lease_resource l = ''workspace:'' @ inv_workspace iv" "0 < lease_fence l"
    and input: "inv_input iv = JObj m"
      "list_all (\<lambda>k. bt_get m k = None) [''_workspaceSessionId'', ''_authority'', ''_sessionRef'', ''_agentSessionId'']"
    and locks: "render_locks (env_jshow env) (cap_locks (inv_contract iv)) (inv_input iv) = Inr keys"
    and keys: "distinct keys" "list_all (\<lambda>k. k \<noteq> [] \<and> \<not> starts_with ''workspace:'' k) keys"
    and acquired: "acquire_all clk ids owner ttl (keys @ extra) [] t = (Inr acquired, t')"
    and names: "ctl_id c \<noteq> []" "inv_workspace iv \<noteq> []"
    and sent: "executor_input env iv acquired c = Inr v"
    and executor: "xr_fences x = Some fences" "xe_jshow xenv = env_jshow env" "xe_io xenv 0 = None"
    and current: "xe_clock xenv 0 < lease_expires_at l"
    and overtaken: "unat (env_clock env 0) < 2 ^ 48" "unat later < 2 ^ 48" "env_clock env 0 < later"
      "bt_get (ef_resources (fst_table fences)) (fence_key (ctl_id c) (lease_resource l)) =
         Some \<lparr>fr_controller_id = ctl_id c, fr_fence = executor_execution_fence later (lease_fence l)\<rparr>"
  shows "\<exists>e. enforce_authority xenv (cap_name (inv_contract iv)) v x = (Inl e, x) \<and> err_code e = ''STALE_EXECUTOR_FENCE''"
proof -
  have name: "lease_resource l \<noteq> []" "starts_with ''workspace:'' (lease_resource l)" using lease(2) by (simp_all add: starts_with_append)
  have "executor_execution_fence (env_clock env 0) (lease_fence l) < executor_execution_fence later (lease_fence l)"
    by (rule execution_fence_monotone [OF overtaken(1,2)]) (simp add: overtaken(3))
  with overtaken(4) name names(1) current [unfolded not_le [symmetric]] execution_fence_pos [OF lease(3)]
  have "\<exists>e. check_authority (xe_clock xenv 0) (ef_resources (fst_table fences)) (authority_entry (env_clock env 0) c l) = Inl e \<and>
      err_code e = ''STALE_EXECUTOR_FENCE''"
    by (simp add: check_authority_def entry_fields ok_or_def Let_def rpc_err_def)
  then show ?thesis
    unfolding sent_call [OF terms driver lease(1,2) input locks keys acquired names sent executor] by force
qed

subsection \<open>A concrete call\<close>

definition demo_mkdir :: invocation where
  "demo_mkdir = demo_removal\<lparr>inv_contract := contract Linux ''filesystem.mkdir'' EffectMutating,
     inv_input := JObj [(''path'', JStr ''/w/n'')], inv_authority := Some demo_lease\<rparr>"

lemma mkdir_contract:
  "cap_name (contract Linux ''filesystem.mkdir'' EffectMutating) = ''filesystem.mkdir''"
  "cap_authority (contract Linux ''filesystem.mkdir'' EffectMutating) = AuthorityWorkspaceDriver"
  "cap_locks (contract Linux ''filesystem.mkdir'' EffectMutating) = [\<lparr>lock_key = ''filesystem:${path}'', lock_mode = LockExclusive\<rparr>]"
  by (simp_all add: contract_def case_prod_beta capability_authority_of_def terms_of_def families)

lemma mkdir_contract_of: "contract_of Linux ''filesystem.mkdir'' = Some (contract Linux ''filesystem.mkdir'' EffectMutating)"
  by (rule find_contract_of) (simp_all add: common_capabilities_def canonical_action_def)

lemma mkdir_lock: "render_locks jshow [\<lparr>lock_key = ''filesystem:${path}'', lock_mode = LockExclusive\<rparr>] (JObj [(''path'', JStr ''/w/n'')]) =
    Inr [''filesystem:/w/n'']"
  by (simp add: render_lock_def render_loop.simps bt_get_def display_text_def)

lemma mkdir_acquired: "\<exists>acquired t'. acquire_all (\<lambda>_. 4) (\<lambda>_. ''i'') ''ann'' 9 ([''filesystem:/w/n''] @ []) [] lease_table_default = (Inr acquired, t')"
  by (simp add: acquire_def lease_table_default_def bt_get_def Let_def)

lemma mkdir_sent: "\<exists>v. executor_input (demo_env now) demo_mkdir acquired demo_controller = Inr v"
  by (rule executor_input_object) (simp add: demo_mkdir_def)

theorem controller_authority_accepted_witness:
  "\<exists>acquired v fences'. executor_input (demo_env 4) demo_mkdir acquired demo_controller = Inr v \<and>
     enforce_authority demo_exec_env ''filesystem.mkdir'' v (demo_exec []) = (Inr (), (demo_exec [])\<lparr>xr_fences := Some fences'\<rparr>) \<and>
     bt_get (ef_resources (fst_table fences')) (fence_key ''ctl'' ''workspace:w'') =
       Some \<lparr>fr_controller_id = ''ctl'', fr_fence = executor_execution_fence 4 1\<rparr>"
proof -
  obtain acquired t' where a: "acquire_all (\<lambda>_. 4) (\<lambda>_. ''i'') ''ann'' 9 ([''filesystem:/w/n''] @ []) [] lease_table_default = (Inr acquired, t')"
    using mkdir_acquired by blast
  obtain v where v: "executor_input (demo_env 4) demo_mkdir acquired demo_controller = Inr v" using mkdir_sent by blast
  have "\<exists>fences'. enforce_authority demo_exec_env (cap_name (inv_contract demo_mkdir)) v (demo_exec []) =
       (Inr (), (demo_exec [])\<lparr>xr_fences := Some fences'\<rparr>) \<and> fst_disk fences' = Some (fst_table fences') \<and>
     bt_get (ef_resources (fst_table fences')) (fence_key (ctl_id demo_controller) (''workspace:'' @ inv_workspace demo_mkdir)) =
       Some \<lparr>fr_controller_id = ctl_id demo_controller, fr_fence = executor_execution_fence (env_clock (demo_env 4) 0) (lease_fence demo_lease)\<rparr>"
    by (rule controller_authority_accepted [where keys = "[''filesystem:/w/n'']" and m = "[(''path'', JStr ''/w/n'')]"
          and fences = "\<lparr>fst_table = executor_fences_default, fst_disk = None\<rparr>", OF _ _ _ _ _ _ _ _ _ _ a _ _ v])
      (simp_all add: demo_mkdir_def demo_removal_def mkdir_contract mkdir_lock demo_exec_env_def demo_exec_def demo_env_def demo_lease_def
        demo_controller_def executor_fences_default_def bt_get_def mkdir_contract_of del: render_locks.simps(2))
  with v show ?thesis
    by (auto simp: demo_mkdir_def demo_removal_def mkdir_contract demo_env_def demo_lease_def demo_controller_def)
qed

theorem overtaken_call_refused_witness:
  "\<exists>acquired v x e. executor_input (demo_env 4) demo_mkdir acquired demo_controller = Inr v \<and>
     enforce_authority demo_exec_env ''filesystem.mkdir'' v x = (Inl e, x) \<and> err_code e = ''STALE_EXECUTOR_FENCE''"
proof -
  let ?fences = "\<lparr>fst_table = executor_fences_default\<lparr>ef_resources :=
      [(fence_key ''ctl'' ''workspace:w'', \<lparr>fr_controller_id = ''ctl'', fr_fence = executor_execution_fence 5 1\<rparr>)]\<rparr>, fst_disk = None\<rparr>"
  let ?x = "(demo_exec [])\<lparr>xr_fences := Some ?fences\<rparr>"
  obtain acquired t' where a: "acquire_all (\<lambda>_. 4) (\<lambda>_. ''i'') ''ann'' 9 ([''filesystem:/w/n''] @ []) [] lease_table_default = (Inr acquired, t')"
    using mkdir_acquired by blast
  obtain v where v: "executor_input (demo_env 4) demo_mkdir acquired demo_controller = Inr v" using mkdir_sent by blast
  have "\<exists>e. enforce_authority demo_exec_env (cap_name (inv_contract demo_mkdir)) v ?x = (Inl e, ?x) \<and> err_code e = ''STALE_EXECUTOR_FENCE''"
    by (rule overtaken_call_refused [where keys = "[''filesystem:/w/n'']" and m = "[(''path'', JStr ''/w/n'')]"
          and fences = ?fences and later = 5 and l = demo_lease, OF _ _ _ _ _ _ _ _ _ _ a _ _ v])
      (simp_all add: demo_mkdir_def demo_removal_def mkdir_contract mkdir_lock demo_exec_env_def demo_exec_def demo_env_def demo_lease_def
        demo_controller_def executor_fences_default_def bt_get_def mkdir_contract_of del: render_locks.simps(2))
  with v show ?thesis by (auto simp: demo_mkdir_def demo_removal_def mkdir_contract)
qed

end
