(* ===== verification/Process_Table.thy ===== *)
theory Process_Table
  imports Executor
begin

section \<open>Processes of an Executor\<close>

text \<open>
  \<^verbatim>\<open>workbench-runtime/src/process.rs\<close>: the table of started processes with its file, how a record is
  brought up to date with what the operating system says, readiness probes, starting, stopping, restarting
  and waiting. What the system answers is a snapshot per refreshed record; starting and signalling are
  arguments.
\<close>

datatype process_state = ProcessRunning | ProcessStopped | ProcessFailed

datatype readiness_state = ReadinessPending | ReadinessReady | ReadinessFailed | ReadinessNotConfigured

record readiness_status =
  rd_state :: readiness_state
  rd_attempts :: u64

record process_record =
  pr_id :: string
  pr_pid :: nat
  pr_birth_identity :: "string option"
  pr_identity_verified :: bool
  pr_observed_at :: "u64 option"
  pr_cwd :: path
  pr_argv :: "string list"
  pr_env :: "(string \<times> string) list"
  pr_restartable :: bool
  pr_metadata :: json
  pr_log_path :: path
  pr_log_start_offset :: u64
  pr_state :: process_state
  pr_readiness :: readiness_status
  pr_phase :: string
  pr_last_successful_probe_at :: "u64 option"
  pr_last_log_progress :: "u64 option"
  pr_readiness_spec :: "json option"
  pr_readiness_deadline_at :: "u64 option"
  pr_started_at :: u64
  pr_updated_at :: u64

definition starting_phase :: string where
  "starting_phase = ''STARTING''"

definition OBSERVATION_TTL_MS :: u64 where
  "OBSERVATION_TTL_MS = 5000"

subsection \<open>Text\<close>

definition rsplit_once :: "char \<Rightarrow> string \<Rightarrow> (string \<times> string) option" where
  "rsplit_once d s = map_option (\<lambda>(a, b). (rev b, rev a)) (split_once d (rev s))"

fun word_of :: "string \<Rightarrow> string \<times> string" where
  "word_of [] = ([], [])"
| "word_of (c # s) =
     (if list_ex (\<lambda>w. w \<noteq> [] \<and> starts_with w (c # s)) whitespace then ([], c # s)
      else let (a, b) = word_of s in (c # a, b))"

lemma word_of_length: "length (snd (word_of s)) \<le> length s"
  by (induction s) (auto simp: case_prod_beta Let_def)

lemma trim_start_length: "length (trim_start ws s) \<le> length s"
  by (induction ws s rule: trim_start.induct) (subst trim_start.simps, force split: option.splits)

lemma trim_start_fixed: "find (\<lambda>w. w \<noteq> [] \<and> starts_with w (trim_start ws s)) ws = None"
  by (induction ws s rule: trim_start.induct) (subst (1) trim_start.simps, simp split: option.splits)

lemma word_of_trimmed:
  assumes "trim_start whitespace s = c # t"
  shows "length (snd (word_of (c # t))) < length s"
proof -
  have "\<not> list_ex (\<lambda>w. w \<noteq> [] \<and> starts_with w (c # t)) whitespace"
    using trim_start_fixed [of whitespace s] unfolding assms by (auto simp: find_None_iff list_ex_iff)
  then have "length (snd (word_of (c # t))) \<le> length t" using word_of_length [of t] by (simp add: case_prod_beta Let_def)
  also have "length t < length s" using trim_start_length [of whitespace s] unfolding assms by simp
  finally show ?thesis .
qed

text \<open>\<^verbatim>\<open>split_whitespace\<close>.\<close>

function split_whitespace :: "string \<Rightarrow> string list" where
  "split_whitespace s =
     (case trim_start whitespace s of
        [] \<Rightarrow> []
      | _ # _ \<Rightarrow> let p = word_of (trim_start whitespace s) in fst p # split_whitespace (snd p))"
  by pat_completeness auto
termination by (relation "measure length") (auto dest: word_of_trimmed simp del: word_of.simps)

declare split_whitespace.simps [simp del]

fun joined :: "string \<Rightarrow> string list \<Rightarrow> string" where
  "joined d [] = []"
| "joined d [s] = s"
| "joined d (s # ss) = s @ d @ joined d ss"

subsection \<open>What the system says\<close>

text \<open>
  The text of \<^verbatim>\<open>/proc/pid/stat\<close> at the two places where it is read, the boot identifier, the two outputs of
  \<^verbatim>\<open>ps\<close> with their status, the creation time and the task list on Windows, whether signal zero finds a process,
  connections, files and logs, and the clock.
\<close>

record process_world =
  pw_stat :: "nat \<Rightarrow> nat \<Rightarrow> string option"
  pw_boot :: "string option"
  pw_ps :: "nat \<Rightarrow> nat \<Rightarrow> (bool \<times> string) option"
  pw_times :: "nat \<Rightarrow> (nat \<times> nat) option"
  pw_tasklist :: "nat \<Rightarrow> (bool \<times> string) option"
  pw_signal_zero :: "nat \<Rightarrow> bool"
  pw_connect :: "string \<Rightarrow> string + bool"
  pw_exists :: "string \<Rightarrow> bool"
  pw_log_length :: "path \<Rightarrow> u64 option"
  pw_log :: "path \<Rightarrow> string option"
  pw_text :: "string \<Rightarrow> bool"
  pw_lossy :: "string \<Rightarrow> string"
  pw_now :: clock

definition process_birth_identity :: "platform \<Rightarrow> process_world \<Rightarrow> nat \<Rightarrow> string option" where
  "process_birth_identity os w pid =
     (case os of
        Linux \<Rightarrow>
          Option.bind (pw_stat w 0 pid) (\<lambda>stat.
          Option.bind (rsplit_once (CHR '')'') stat) (\<lambda>(_, rest).
            let parts = split_whitespace rest in
            if parts = [] \<or> hd parts \<in> set [''Z'', ''X''] then None
            else Option.bind (pw_boot w) (\<lambda>boot.
                 if 19 < length parts then Some (trim boot @ '':'' @ parts ! 19) else None)))
      | Macos \<Rightarrow>
          Option.bind (pw_ps w 0 pid) (\<lambda>(success, out).
            if \<not> pw_text w out then None
            else
              let parts = split_whitespace out in
              if parts = [] \<or> \<not> success \<or> starts_with ''Z'' (last parts) \<or> butlast parts = [] then None
              else Some (joined '' '' (butlast parts)))
      | Windows \<Rightarrow> map_option (\<lambda>(high, low). dec high @ '':'' @ dec low) (pw_times w pid))"

definition process_is_alive :: "platform \<Rightarrow> process_world \<Rightarrow> nat \<Rightarrow> bool" where
  "process_is_alive os w pid =
     (case os of
        Linux \<Rightarrow>
          (case Option.bind (pw_stat w 1 pid) (rsplit_once (CHR '')'')) of
             Some (_, parts) \<Rightarrow>
               (case split_whitespace parts of
                  state # _ \<Rightarrow> state \<notin> set [''Z'', ''X''] \<and> pw_signal_zero w pid
                | [] \<Rightarrow> pw_signal_zero w pid)
           | None \<Rightarrow> pw_signal_zero w pid)
      | Macos \<Rightarrow>
          (case pw_ps w 1 pid of
             Some (True, out) \<Rightarrow>
               (let state = trim_start whitespace (pw_lossy w out)
                in \<not> starts_with ''Z'' state \<and> \<not> starts_with ''X'' state \<and> pw_signal_zero w pid)
           | _ \<Rightarrow> pw_signal_zero w pid)
      | Windows \<Rightarrow>
          (case pw_tasklist w pid of
             None \<Rightarrow> True
           | Some (success, out) \<Rightarrow> success \<and> contains ([CHR 34] @ dec pid @ [CHR 34]) (pw_lossy w out)))"

subsection \<open>Readiness probes\<close>

fun all_ready :: "(json \<Rightarrow> rpc_error + bool) \<Rightarrow> json list \<Rightarrow> rpc_error + bool" where
  "all_ready f [] = Inr True"
| "all_ready f (p # ps) = and_then (f p) (\<lambda>ready. if ready then all_ready f ps else Inr False)"

lemma all_ready_cong [fundef_cong]:
  "ps = qs \<Longrightarrow> (\<And>p. p \<in> set qs \<Longrightarrow> f p = g p) \<Longrightarrow> all_ready f ps = all_ready g qs"
  by (induction ps arbitrary: qs) (auto simp: and_then_def split: sum.splits)

definition log_ready :: "process_world \<Rightarrow> path \<Rightarrow> u64 \<Rightarrow> string \<Rightarrow> bool" where
  "log_ready w log_path start pattern =
     (case pw_log w log_path of
        None \<Rightarrow> False
      | Some content \<Rightarrow>
          (let text = pw_lossy w (drop (unat start) content) in
           if starts_with ''^'' pattern \<and> tl pattern \<noteq> [] \<and> last pattern = CHR ''$''
           then butlast (tl pattern) \<in> set (split_lines [] text)
           else contains pattern text))"

function readiness_once :: "process_world \<Rightarrow> path \<Rightarrow> u64 \<Rightarrow> json \<Rightarrow> rpc_error + bool" where
  "readiness_once w log_path start spec =
     (let kind = unwrap_or [] (get_str spec ''type'') in
      if kind = ''all'' then
        (case get_array spec ''probes'' of
           None \<Rightarrow> Inl (rpc_err ''INVALID_READINESS'' ''all probes are required'')
         | Some probes \<Rightarrow>
             if probes = [] then Inl (rpc_err ''INVALID_READINESS'' ''all requires at least one probe'')
             else all_ready (readiness_once w log_path start) probes)
      else if kind = ''tcp'' then
        and_then (ok_or (rpc_err ''INVALID_READINESS'' ''tcp port is required'') (get_u64 spec ''port'')) (\<lambda>port.
        map_err (rpc_err ''INVALID_READINESS'')
          (pw_connect w (unwrap_or ''127.0.0.1'' (get_str spec ''host'') @ '':'' @ dec (unat port))))
      else if kind = ''file'' then
        Inr (case get_str spec ''path'' of None \<Rightarrow> False | Some p \<Rightarrow> pw_exists w p)
      else if kind = ''log'' then
        and_then (ok_or (rpc_err ''INVALID_READINESS'' ''log pattern is required'') (get_str spec ''pattern'')) (\<lambda>pattern.
        Inr (log_ready w log_path start pattern))
      else Inl (rpc_err ''INVALID_READINESS'' (''unsupported readiness type: '' @ kind)))"
  by pat_completeness auto
termination
proof (relation "measure (\<lambda>(w, log_path, start, spec). size spec)", simp)
  fix w log_path start spec kind probes p
  assume "get_array spec ''probes'' = Some probes" "p \<in> set probes"
  then have "size p < size spec" using children_size [of spec "''probes''" probes] json_arr_size [of p probes] by linarith
  then show "((w, log_path, start, p), w, log_path, start, spec) \<in> measure (\<lambda>(w, log_path, start, spec). size spec)" by simp
qed

declare readiness_once.simps [simp del]

subsection \<open>Bringing a record up to date\<close>

definition identities_agree :: "string option \<Rightarrow> string option \<Rightarrow> bool" where
  "identities_agree expected actual = (case (expected, actual) of (Some a, Some b) \<Rightarrow> a = b | _ \<Rightarrow> False)"

definition identity_mismatch :: "string option \<Rightarrow> string option \<Rightarrow> bool" where
  "identity_mismatch expected actual = (case (expected, actual) of (Some a, Some b) \<Rightarrow> a \<noteq> b | _ \<Rightarrow> False)"

text \<open>The readiness of a tunnel is probed every time, that of other processes until it is decided.\<close>

definition probe_again :: "process_record \<Rightarrow> process_record" where
  "probe_again r =
     (if get_str (pr_metadata r) ''kind'' = Some ''tunnel'' \<and> pr_readiness_spec r \<noteq> None \<and> rd_state (pr_readiness r) \<noteq> ReadinessPending
      then r\<lparr>pr_readiness := (pr_readiness r)\<lparr>rd_state := ReadinessPending\<rparr>\<rparr> else r)"

definition note_progress :: "process_world \<Rightarrow> process_record \<Rightarrow> process_record" where
  "note_progress w r =
     (case pw_log_length w (pr_log_path r) of
        Some len \<Rightarrow>
          if unwrap_or (pr_log_start_offset r) (pr_last_log_progress r) < len
          then r\<lparr>pr_last_log_progress := Some len, pr_phase := ''BUILDING'', pr_updated_at := pw_now w 2\<rparr> else r
      | None \<Rightarrow> r)"

definition probe :: "process_world \<Rightarrow> process_record \<Rightarrow> process_record" where
  "probe w r =
     (if rd_state (pr_readiness r) \<noteq> ReadinessPending then r
      else
        let tried = (pr_readiness r)\<lparr>rd_attempts := sat_add (rd_attempts (pr_readiness r)) 1\<rparr>;
            r1 = r\<lparr>pr_readiness := tried\<rparr>;
            r2 = (case pr_readiness_spec r of
                    None \<Rightarrow> r1
                  | Some spec \<Rightarrow>
                      (case readiness_once w (pr_log_path r) (pr_log_start_offset r) spec of
                         Inr True \<Rightarrow>
                           r1\<lparr>pr_readiness := tried\<lparr>rd_state := ReadinessReady\<rparr>, pr_phase := ''READY'',
                              pr_last_successful_probe_at := Some (pw_now w 3)\<rparr>
                       | Inr False \<Rightarrow>
                           if (case pr_readiness_deadline_at r of Some deadline \<Rightarrow> deadline \<le> pw_now w 3 | None \<Rightarrow> False)
                           then r1\<lparr>pr_readiness := tried\<lparr>rd_state := ReadinessFailed\<rparr>\<rparr> else r1
                       | Inl _ \<Rightarrow> r1\<lparr>pr_readiness := tried\<lparr>rd_state := ReadinessFailed\<rparr>\<rparr>))
        in r2\<lparr>pr_updated_at := pw_now w 4\<rparr>)"

definition refresh :: "platform \<Rightarrow> process_world \<Rightarrow> process_record \<Rightarrow> process_record" where
  "refresh os w record =
     (let r = record\<lparr>pr_observed_at := Some (pw_now w 0), pr_identity_verified := False\<rparr> in
      if pr_state r \<noteq> ProcessRunning then r
      else
        let current = process_birth_identity os w (pr_pid r) in
        if \<not> process_is_alive os w (pr_pid r) \<or> identity_mismatch (pr_birth_identity r) current
        then r\<lparr>pr_state := ProcessFailed, pr_phase := ''FAILED'', pr_updated_at := pw_now w 1\<rparr>
        else if \<not> identities_agree (pr_birth_identity r) current then r
        else probe w (note_progress w (probe_again (r\<lparr>pr_identity_verified := True\<rparr>))))"

subsection \<open>The table and its file\<close>

text \<open>
  The records, the contents of the file (none when the table has no file or nothing was written), and the
  system calls that started or signalled a process, in their order.
\<close>

datatype process_call = Spawned nat | Signalled nat

record process_table =
  pt_records :: "(string, process_record) btree_map"
  pt_stored :: bool
  pt_disk :: "(string, process_record) btree_map option"
  pt_calls :: "process_call list"

datatype kill_outcome = Killed | NoSuchProcess | KillError string

text \<open>
  Refresh \<open>n\<close> of an operation sees world \<open>n\<close>, its write \<open>n\<close> has outcome \<open>n\<close>. Opening a log gives its length, starting a
  process its number.
\<close>

record process_env =
  pe_platform :: platform
  pe_world :: "nat \<Rightarrow> process_world"
  pe_io :: writes
  pe_now :: clock
  pe_open_log :: "path \<Rightarrow> string + u64"
  pe_spawn :: "string list \<Rightarrow> path \<Rightarrow> (string \<times> string) list \<Rightarrow> path \<Rightarrow> string + nat"
  pe_kill :: "nat \<Rightarrow> kill_outcome"
  pe_taskkill :: "nat \<Rightarrow> string + bool \<times> string"
  pe_read_log :: "path \<Rightarrow> string + string"

definition after :: "nat \<Rightarrow> nat \<Rightarrow> process_env \<Rightarrow> process_env" where
  "after refreshes saved env =
     env\<lparr>pe_world := (\<lambda>n. pe_world env (n + refreshes)), pe_io := (\<lambda>n. pe_io env (n + saved)), pe_now := (\<lambda>n. pe_now env (n + saved))\<rparr>"

definition process_persist :: "string option \<Rightarrow> process_table \<Rightarrow> (rpc_error + unit) \<times> process_table" where
  "process_persist io t =
     (if \<not> pt_stored t then (Inr (), t)
      else case io of
             Some e \<Rightarrow> (Inl (rpc_err ''PROCESS_STATE_FAILED'' e), t)
           | None \<Rightarrow> (Inr (), t\<lparr>pt_disk := Some (pt_records t)\<rparr>))"

definition put_record :: "process_record \<Rightarrow> string \<Rightarrow> process_table \<Rightarrow> process_table" where
  "put_record r i t = t\<lparr>pt_records := bt_insert i r (pt_records t)\<rparr>"

definition process_not_found :: "string \<Rightarrow> rpc_error" where
  "process_not_found i = rpc_err ''PROCESS_NOT_FOUND'' (''unknown process: '' @ i)"

fun refresh_records :: "platform \<Rightarrow> (nat \<Rightarrow> process_world) \<Rightarrow> (string \<times> process_record) list \<Rightarrow> (string \<times> process_record) list" where
  "refresh_records os worlds [] = []"
| "refresh_records os worlds ((i, r) # rest) = (i, refresh os (worlds 0) r) # refresh_records os (\<lambda>n. worlds (Suc n)) rest"

definition refresh_all :: "process_env \<Rightarrow> process_table \<Rightarrow> (rpc_error + unit) \<times> process_table" where
  "refresh_all env t =
     process_persist (pe_io env 0) (t\<lparr>pt_records := refresh_records (pe_platform env) (pe_world env) (pt_records t)\<rparr>)"

definition process_open :: "process_env \<Rightarrow> string + (string, process_record) btree_map option \<Rightarrow> rpc_error + process_table" where
  "process_open env file =
     and_then (map_err (rpc_err ''PROCESS_STATE_FAILED'') file) (\<lambda>found.
       case refresh_all env \<lparr>pt_records = unwrap_or [] found, pt_stored = True, pt_disk = found, pt_calls = []\<rparr> of
         (Inl e, _) \<Rightarrow> Inl e
       | (Inr _, t) \<Rightarrow> Inr t)"

definition process_get :: "process_env \<Rightarrow> string \<Rightarrow> process_table \<Rightarrow> (rpc_error + process_record) \<times> process_table" where
  "process_get env i t =
     (case bt_get (pt_records t) i of
        None \<Rightarrow> (Inl (process_not_found i), t)
      | Some record \<Rightarrow>
          let r = refresh (pe_platform env) (pe_world env 0) record in
          sbind (process_persist (pe_io env 0) (put_record r i t)) (\<lambda>_ t. (Inr r, t)))"

definition process_list :: "process_env \<Rightarrow> process_table \<Rightarrow> process_record list \<times> process_table" where
  "process_list env t = (let t' = snd (refresh_all env t) in (map snd (pt_records t'), t'))"

definition new_record ::
  "process_env \<Rightarrow> string \<Rightarrow> path \<Rightarrow> string list \<Rightarrow> (string \<times> string) list \<Rightarrow> path \<Rightarrow> json option \<Rightarrow> bool \<Rightarrow> json \<Rightarrow> u64 \<Rightarrow> nat \<Rightarrow> process_record" where
  "new_record env i cwd argv vars log_path readiness restartable metadata start pid =
     (let now = pe_now env 0 in
      \<lparr>pr_id = i, pr_pid = pid, pr_birth_identity = process_birth_identity (pe_platform env) (pe_world env 1) pid,
       pr_identity_verified = False, pr_observed_at = None, pr_cwd = cwd, pr_argv = argv, pr_env = vars, pr_restartable = restartable,
       pr_metadata = metadata, pr_log_path = log_path, pr_log_start_offset = start, pr_state = ProcessRunning,
       pr_readiness = \<lparr>rd_state = (if readiness = None then ReadinessNotConfigured else ReadinessPending), rd_attempts = 0\<rparr>,
       pr_phase = starting_phase, pr_last_successful_probe_at = None, pr_last_log_progress = Some start, pr_readiness_spec = readiness,
       pr_readiness_deadline_at = map_option (\<lambda>spec. sat_add now (unwrap_or 180000 (get_u64 spec ''timeoutMs''))) readiness,
       pr_started_at = now, pr_updated_at = now\<rparr>)"

definition process_start ::
  "process_env \<Rightarrow> string \<Rightarrow> path \<Rightarrow> string list \<Rightarrow> (string \<times> string) list \<Rightarrow> path \<Rightarrow> json option \<Rightarrow> bool \<Rightarrow> json \<Rightarrow> process_table
    \<Rightarrow> (rpc_error + process_record) \<times> process_table" where
  "process_start env i cwd argv vars log_path readiness restartable metadata t =
     (if argv = [] then (Inl (rpc_err ''INVALID_PARAMS'' ''argv must not be empty''), t)
      else
        let (found, t) = process_get env i t;
            running = (case found of Inr r \<Rightarrow> if pr_state r = ProcessRunning then Some r else None | Inl _ \<Rightarrow> None)
        in case running of
             Some r \<Rightarrow>
               (Inl (rpc_err (if pr_identity_verified r then ''PROCESS_ALREADY_RUNNING'' else ''PROCESS_IDENTITY_UNKNOWN'')
                       (''process '' @ i @ '' requires reconciliation before replacement'')), t)
           | None \<Rightarrow>
               sbind (map_err (rpc_err ''LOG_CREATE_FAILED'') (pe_open_log env log_path), t) (\<lambda>start t.
               sbind (map_err (rpc_err ''PROCESS_START_FAILED'') (pe_spawn env argv cwd vars log_path), t) (\<lambda>pid t.
                 let r = new_record env i cwd argv vars log_path readiness restartable metadata start pid;
                     t = (put_record r i t)\<lparr>pt_calls := pt_calls t @ [Spawned pid]\<rparr>
                 in sbind (process_persist (pe_io env 1) t) (\<lambda>_ t. (Inr r, t)))))"

subsection \<open>Waiting, stopping, restarting\<close>

definition process_error :: "string \<Rightarrow> process_record \<Rightarrow> bool \<Rightarrow> rpc_error" where
  "process_error code r retryable =
     (rpc_err code (code @ '' for process '' @ pr_id r))
       \<lparr>err_retryable := retryable,
        err_details := JObj [(''lastLogProgress'', jopt junum (pr_last_log_progress r)),
          (''lastSuccessfulProbeAt'', jopt junum (pr_last_successful_probe_at r)), (''phase'', JStr (pr_phase r)),
          (''processId'', JStr (pr_id r))]\<rparr>"

definition wait_verdict :: "bool \<Rightarrow> process_record \<Rightarrow> (rpc_error + process_record) option" where
  "wait_verdict late r =
     (if rd_state (pr_readiness r) = ReadinessReady then Some (Inr r)
      else if pr_state r \<noteq> ProcessRunning then Some (Inl (process_error ''PROCESS_EXITED'' r False))
      else if rd_state (pr_readiness r) = ReadinessFailed then Some (Inl (process_error ''READINESS_MARKER_MISSING'' r True))
      else if late then
        Some (Inl (process_error
          (if unwrap_or (pr_log_start_offset r) (pr_last_log_progress r) \<le> pr_log_start_offset r then ''BUILD_STALLED''
           else ''READINESS_MARKER_MISSING'') r True))
      else None)"

partial_function (option) wait_ready ::
  "(nat \<Rightarrow> process_env) \<Rightarrow> (nat \<Rightarrow> bool) \<Rightarrow> string \<Rightarrow> nat \<Rightarrow> process_table \<Rightarrow> ((rpc_error + process_record) \<times> process_table) option" where
  "wait_ready envs late i n t =
     (case process_get (envs n) i t of
        (Inl e, t) \<Rightarrow> Some (Inl e, t)
      | (Inr r, t) \<Rightarrow>
          (case wait_verdict (late n) r of
             Some v \<Rightarrow> Some (v, t)
           | None \<Rightarrow> wait_ready envs late i (Suc n) t))"

definition os_stop_process :: "process_env \<Rightarrow> process_world \<Rightarrow> nat \<Rightarrow> rpc_error + unit" where
  "os_stop_process env w pid =
     (if pe_platform env = Windows then
        (case pe_taskkill env pid of
           Inl e \<Rightarrow> Inl (rpc_err ''PROCESS_STOP_FAILED'' e)
         | Inr (success, status) \<Rightarrow>
             if success \<or> \<not> process_is_alive Windows w pid then Inr ()
             else Inl (rpc_err ''PROCESS_STOP_FAILED'' (''taskkill exited with '' @ status)))
      else case pe_kill env pid of
             KillError e \<Rightarrow> Inl (rpc_err ''PROCESS_STOP_FAILED'' e)
           | _ \<Rightarrow> Inr ())"

definition process_stop :: "process_env \<Rightarrow> string \<Rightarrow> process_table \<Rightarrow> (rpc_error + process_record) \<times> process_table" where
  "process_stop env i t =
     (case bt_get (pt_records t) i of
        None \<Rightarrow> (Inl (process_not_found i), t)
      | Some record \<Rightarrow>
          let r = refresh (pe_platform env) (pe_world env 0) record; t = put_record r i t in
          if pr_state r \<noteq> ProcessRunning then sbind (process_persist (pe_io env 0) t) (\<lambda>_ t. (Inr r, t))
          else if \<not> pr_identity_verified r
          then (Inl (rpc_err ''PROCESS_IDENTITY_UNKNOWN'' ''cannot signal an unverified recorded PID''), t)
          else
            let t = t\<lparr>pt_calls := pt_calls t @ [Signalled (pr_pid r)]\<rparr> in
            sbind (os_stop_process env (pe_world env 1) (pr_pid r), t) (\<lambda>_ t.
              let r = r\<lparr>pr_state := ProcessStopped, pr_updated_at := pe_now env 0\<rparr>
              in sbind (process_persist (pe_io env 0) (put_record r i t)) (\<lambda>_ t. (Inr r, t))))"

definition update_metadata :: "process_env \<Rightarrow> string \<Rightarrow> json \<Rightarrow> process_table \<Rightarrow> (rpc_error + process_record) \<times> process_table" where
  "update_metadata env i metadata t =
     (case bt_get (pt_records t) i of
        None \<Rightarrow> (Inl (process_not_found i), t)
      | Some record \<Rightarrow>
          let r = record\<lparr>pr_metadata := metadata, pr_updated_at := pe_now env 0\<rparr>
          in sbind (process_persist (pe_io env 0) (put_record r i t)) (\<lambda>_ t. (Inr r, t)))"

definition process_restart :: "process_env \<Rightarrow> string \<Rightarrow> process_table \<Rightarrow> (rpc_error + process_record) \<times> process_table" where
  "process_restart env i t =
     sbind (process_get env i t) (\<lambda>r t.
     if \<not> pr_restartable r
     then (Inl (rpc_err ''PROCESS_NOT_RESTARTABLE'' ''process was not started from a declared restart template''), t)
     else
     sbind (process_stop (after 1 1 env) i t) (\<lambda>_ t.
     process_start (after 3 2 env) (pr_id r) (pr_cwd r) (pr_argv r) (pr_env r) (pr_log_path r) (pr_readiness_spec r) True (pr_metadata r) t))"

definition process_logs :: "process_env \<Rightarrow> string \<Rightarrow> u64 \<Rightarrow> process_table \<Rightarrow> (rpc_error + json) \<times> process_table" where
  "process_logs env i tail t =
     sbind (process_get env i t) (\<lambda>r t.
     sbind (map_err (rpc_err ''LOG_READ_FAILED'') (pe_read_log env (pr_log_path r)), t) (\<lambda>content t.
       let found = split_lines [] content
       in (Inr (JObj [(''lines'', jstrs (drop (length found - unat tail) found)), (''path'', jpath (pr_log_path r)),
                      (''processId'', JStr i)]), t)))"

end
