(* ===== verification/Tunnels.thy ===== *)
theory Tunnels
  imports Process_Table
begin

section \<open>Process and tunnel actions of an Executor\<close>

text \<open>
  The arms of \<^verbatim>\<open>executor.rs\<close> that work on the process table: \<^verbatim>\<open>process.*\<close>, \<^verbatim>\<open>agent.start\<close>, \<^verbatim>\<open>agent.stop\<close>, \<^verbatim>\<open>readiness.wait\<close>,
  \<^verbatim>\<open>logs.read\<close>, \<^verbatim>\<open>port.check\<close> and \<^verbatim>\<open>tunnel.*\<close>, with the reconciliation of tunnels. The state is the runtime with
  the table beside it; sockets and the \<^verbatim>\<open>ssh\<close> program are arguments.
\<close>

type_synonym managed = "executor_runtime \<times> process_table"

datatype bind_outcome = BindFree | BindInUse | BindError string

text \<open>
  Whether a connection to a host and port succeeds, whether a process listens there (none when this cannot be
  told), what binding says, and the output of \<^verbatim>\<open>ssh -G\<close>: an error, or its status, output and errors.
\<close>

record tunnel_net =
  tn_reachable :: "string \<Rightarrow> nat \<Rightarrow> bool"
  tn_listening :: "nat \<Rightarrow> string \<Rightarrow> nat \<Rightarrow> bool option"
  tn_bind :: "string \<Rightarrow> nat \<Rightarrow> bind_outcome"
  tn_ssh_config :: "string \<Rightarrow> string + bool \<times> string \<times> string"
  tn_text :: "string \<Rightarrow> string option"
  tn_text_error :: "string \<Rightarrow> string"
  tn_now :: u64

subsection \<open>Views\<close>

fun process_state_name :: "process_state \<Rightarrow> string" where
  "process_state_name ProcessRunning = ''running''"
| "process_state_name ProcessStopped = ''stopped''"
| "process_state_name ProcessFailed = ''failed''"

fun readiness_state_name :: "readiness_state \<Rightarrow> string" where
  "readiness_state_name ReadinessPending = ''pending''"
| "readiness_state_name ReadinessReady = ''ready''"
| "readiness_state_name ReadinessFailed = ''failed''"
| "readiness_state_name ReadinessNotConfigured = ''not-configured''"

definition readiness_json :: "readiness_status \<Rightarrow> json" where
  "readiness_json s = JObj [(''attempts'', junum (rd_attempts s)), (''state'', JStr (readiness_state_name (rd_state s)))]"

definition process_json :: "process_record \<Rightarrow> json" where
  "process_json r =
     JObj [(''argv'', jstrs (pr_argv r)), (''birthIdentity'', jopt JStr (pr_birth_identity r)), (''cwd'', jpath (pr_cwd r)),
       (''env'', JObj (map (\<lambda>(k, v). (k, JStr v)) (pr_env r))), (''id'', JStr (pr_id r)), (''identityVerified'', JBool (pr_identity_verified r)),
       (''lastLogProgress'', jopt junum (pr_last_log_progress r)), (''lastSuccessfulProbeAt'', jopt junum (pr_last_successful_probe_at r)),
       (''logPath'', jpath (pr_log_path r)), (''logStartOffset'', junum (pr_log_start_offset r)), (''metadata'', pr_metadata r),
       (''observedAt'', jopt junum (pr_observed_at r)), (''phase'', JStr (pr_phase r)), (''pid'', jnat (pr_pid r)),
       (''readiness'', readiness_json (pr_readiness r)), (''readinessDeadlineAt'', jopt junum (pr_readiness_deadline_at r)),
       (''readinessSpec'', jopt id (pr_readiness_spec r)), (''restartable'', JBool (pr_restartable r)), (''startedAt'', junum (pr_started_at r)),
       (''state'', JStr (process_state_name (pr_state r))), (''updatedAt'', junum (pr_updated_at r))]"

definition port_number :: "json \<Rightarrow> nat option" where
  "port_number v = Option.bind (as_u64 v) (\<lambda>p. if p \<le> 65535 then Some (unat p) else None)"

definition source_endpoint :: "json \<Rightarrow> (string \<times> nat) option" where
  "source_endpoint metadata =
     Option.bind (as_str (jindex (jindex metadata ''source'') ''host'')) (\<lambda>host.
     map_option (\<lambda>port. (host, port)) (port_number (jindex (jindex metadata ''source'') ''port'')))"

definition tunnel_listener_owned :: "tunnel_net \<Rightarrow> process_record \<Rightarrow> bool option" where
  "tunnel_listener_owned net r =
     (if jindex (pr_metadata r) ''direction'' \<noteq> JStr ''local-forward'' then None
      else Option.bind (source_endpoint (pr_metadata r)) (\<lambda>(host, port). tn_listening net (pr_pid r) host port))"

definition tunnel_bind_observation :: "tunnel_net \<Rightarrow> json \<Rightarrow> json" where
  "tunnel_bind_observation net metadata =
     (if jindex metadata ''direction'' \<noteq> JStr ''local-forward''
      then JObj [(''reason'', JStr ''bind endpoint is remote''), (''state'', JStr ''unknown'')]
      else case source_endpoint metadata of
             None \<Rightarrow> JObj [(''state'', JStr ''unknown'')]
           | Some (host, port) \<Rightarrow>
               (case tn_bind net host port of
                  BindFree \<Rightarrow> JObj [(''state'', JStr ''available'')]
                | BindInUse \<Rightarrow> JObj [(''state'', JStr ''in-use'')]
                | BindError e \<Rightarrow> JObj [(''reason'', JStr e), (''state'', JStr ''unknown'')]))"

definition tunnel_source_is_reachable :: "tunnel_net \<Rightarrow> json \<Rightarrow> bool" where
  "tunnel_source_is_reachable net metadata =
     (get_str metadata ''direction'' = Some ''local-forward'' \<and>
      (case source_endpoint metadata of None \<Rightarrow> False | Some (host, port) \<Rightarrow> tn_reachable net host port))"

definition fresh_identity :: "u64 \<Rightarrow> process_record \<Rightarrow> bool" where
  "fresh_identity now r =
     (pr_identity_verified r \<and> (case pr_observed_at r of Some at \<Rightarrow> at \<le> now \<and> now - at < OBSERVATION_TTL_MS | None \<Rightarrow> False))"

definition tunnel_observed_state :: "tunnel_net \<Rightarrow> process_record \<Rightarrow> string" where
  "tunnel_observed_state net r =
     (let fresh = fresh_identity (tn_now net) r; reachable = tunnel_source_is_reachable net (pr_metadata r);
          owned = (if fresh then tunnel_listener_owned net r else None) in
      if pr_state r = ProcessStopped then ''stopped''
      else if pr_state r = ProcessFailed then ''failed''
      else if \<not> fresh then ''unknown''
      else if jindex (pr_metadata r) ''direction'' = JStr ''remote-forward'' then ''running''
      else if reachable \<and> owned = Some True then ''ready''
      else if reachable \<and> owned = None then ''unknown''
      else if rd_state (pr_readiness r) = ReadinessPending then ''starting''
      else ''degraded'')"

definition tunnel_view :: "tunnel_net \<Rightarrow> process_record \<Rightarrow> bool \<Rightarrow> json" where
  "tunnel_view net r reused =
     (let now = tn_now net; fresh = fresh_identity now r; field = (\<lambda>k. jopt id (jget (pr_metadata r) k)) in
      JObj [(''desiredState'', field ''desiredState''), (''destination'', field ''destination''), (''direction'', field ''direction''),
        (''id'', field ''tunnelId''), (''lastProbeAt'', jopt junum (pr_last_successful_probe_at r)),
        (''observation'', JObj
           [(''binding'', tunnel_bind_observation net (pr_metadata r)), (''checkedAt'', junum now),
            (''expiresAt'', junum (sat_add now OBSERVATION_TTL_MS)), (''identityVerified'', JBool fresh),
            (''listenerOwned'', jopt JBool (if fresh then tunnel_listener_owned net r else None)),
            (''sourceReachable'', JBool (tunnel_source_is_reachable net (pr_metadata r))), (''ttlMs'', junum OBSERVATION_TTL_MS)]),
        (''observedState'', JStr (tunnel_observed_state net r)), (''processId'', JStr (pr_id r)), (''profile'', field ''profile''),
        (''readiness'', readiness_json (pr_readiness r)), (''reused'', JBool reused), (''sessionRef'', field ''sessionRef''),
        (''source'', field ''source''), (''sshHost'', field ''sshHost''), (''startedAt'', junum (pr_started_at r)),
        (''state'', JStr (process_state_name (pr_state r))), (''updatedAt'', junum (pr_updated_at r)),
        (''warning'', if \<not> fresh \<and> pr_state r = ProcessRunning
           then JStr ''recorded process identity is unverified or expired; historical readiness is not current evidence'' else JNull),
        (''workspaceSessionId'', field ''workspaceSessionId'')])"

definition require_tunnel_record :: "process_record \<Rightarrow> rpc_error + unit" where
  "require_tunnel_record r =
     (if get_str (pr_metadata r) ''kind'' \<noteq> Some ''tunnel'' then Inl (rpc_err ''TUNNEL_NOT_FOUND'' ''process is not a managed tunnel'')
      else Inr ())"

definition tunnel_definition_matches :: "json \<Rightarrow> json \<Rightarrow> bool" where
  "tunnel_definition_matches left right =
     list_all (\<lambda>k. jget left k = jget right k) [''kind'', ''tunnelId'', ''sshHost'', ''direction'', ''source'', ''destination'']"

subsection \<open>The ssh command\<close>

definition tunnel_ssh_argv :: "string \<Rightarrow> path \<Rightarrow> string \<Rightarrow> string \<Rightarrow> nat \<Rightarrow> string \<Rightarrow> nat \<Rightarrow> string list" where
  "tunnel_ssh_argv ssh_host config direction bind_host bind_port target_host target_port =
     [''ssh'', ''-F'', path_display config, ''-N'', ''-C'', ''-o'', ''BatchMode=yes'', ''-o'', ''PreferredAuthentications=publickey'',
      ''-o'', ''GSSAPIAuthentication=no'', ''-o'', ''ConnectTimeout=8'', ''-o'', ''ConnectionAttempts=1'',
      (if direction = ''local-forward'' then ''-L'' else ''-R''),
      bind_host @ '':'' @ dec bind_port @ '':'' @ target_host @ '':'' @ dec target_port,
      ''-o'', ''ExitOnForwardFailure=yes'', ''-o'', ''ServerAliveInterval=10'', ''-o'', ''ServerAliveCountMax=3'',
      ''-o'', ''StrictHostKeyChecking=accept-new'', ssh_host]"

definition sanitize_tunnel_ssh_config :: "string \<Rightarrow> string" where
  "sanitize_tunnel_ssh_config resolved =
     joined [CHR 10] (filter (\<lambda>line. case split_whitespace line of
         key # _ \<Rightarrow> key \<notin> set [''localforward'', ''remoteforward'', ''dynamicforward'', ''clearallforwardings'']
       | [] \<Rightarrow> True) (split_lines [] resolved)) @ [CHR 10]"

definition write_tunnel_ssh_config :: "tunnel_net \<Rightarrow> exec_env \<Rightarrow> string \<Rightarrow> path \<Rightarrow> executor_runtime \<Rightarrow> (rpc_error + unit) \<times> executor_runtime" where
  "write_tunnel_ssh_config net env ssh_host p x =
     (case tn_ssh_config net ssh_host of
        Inl e \<Rightarrow> (Inl (rpc_err ''SSH_CONFIG_RESOLVE_FAILED'' e), x)
      | Inr (success, out, errors) \<Rightarrow>
          if \<not> success then (Inl (rpc_err ''SSH_CONFIG_RESOLVE_FAILED'' (trim (os_utf8 (xe_os env) errors))), x)
          else case tn_text net out of
                 None \<Rightarrow> (Inl (rpc_err ''SSH_CONFIG_RESOLVE_FAILED'' (tn_text_error net out)), x)
               | Some resolved \<Rightarrow>
                   sbind (fs_step (rpc_err ''SSH_CONFIG_WRITE_FAILED'')
                            (write_file (xe_os env) (xr_files x) p (sanitize_tunnel_ssh_config resolved)) x) (\<lambda>_ x.
                   if xe_platform env = Windows then (Inr (), x)
                   else (map_err (rpc_err ''SSH_CONFIG_WRITE_FAILED'') (os_call (xe_os env) ''chmod'' p (Some ())), x)))"

subsection \<open>Process actions\<close>

text \<open>An operation of the table inside the pair.\<close>

definition on_table :: "(process_table \<Rightarrow> (rpc_error + 'a) \<times> process_table) \<Rightarrow> managed \<Rightarrow> (rpc_error + 'a) \<times> managed" where
  "on_table f s = (let (r, t) = f (snd s) in (r, (fst s, t)))"

definition log_file :: "path \<Rightarrow> string \<Rightarrow> path" where
  "log_file cwd i = cwd @ components (''.workbench-'' @ i @ ''.log'')"

definition process_start_action :: "exec_env \<Rightarrow> process_env \<Rightarrow> string \<Rightarrow> json \<Rightarrow> managed \<Rightarrow> (rpc_error + json) \<times> managed" where
  "process_start_action env penv action params s =
     sbind (required_str params ''cwd'', s) (\<lambda>cwd_input s.
     sbind (write_path env (fst s) params ''cwd'' True, s) (\<lambda>cwd s.
     sbind (string_array (xe_conversion env) params ''argv'', s) (\<lambda>argv s.
     sbind (validate_command (xe_sha env) (xe_jshow env) argv cwd_input (get_str params ''approvalDigest''), s) (\<lambda>_ s.
     sbind (required_str params (if action = ''agent.start'' then ''agentId'' else ''processId''), s) (\<lambda>i s.
     sbind (case get_str params ''logPath'' of
              Some text \<Rightarrow> write_path env (fst s) (JObj [(''path'', JStr text)]) ''path'' False
            | None \<Rightarrow> Inr (log_file cwd i), s) (\<lambda>log_path s.
     sbind (case jget params ''env'' of
              None \<Rightarrow> Inr []
            | Some v \<Rightarrow> ok_or (rpc_err ''INVALID_PARAMS'' (xe_conversion env v)) (string_map v), s) (\<lambda>vars s.
     sbind (on_table (process_start penv i cwd argv vars log_path (jget params ''readiness'')
              (unwrap_or False (get_bool params ''restartable'')) JNull) s) (\<lambda>r s.
     (Inr (process_json r), s)))))))))"

definition process_events :: "process_env \<Rightarrow> json \<Rightarrow> managed \<Rightarrow> (rpc_error + json) \<times> managed" where
  "process_events penv params s =
     sbind (required_str params ''processId'', s) (\<lambda>i s.
     sbind (on_table (process_get penv i) s) (\<lambda>r s.
     (Inr (JObj [(''events'', JArr [JObj [(''readiness'', readiness_json (pr_readiness r)), (''state'', JStr (process_state_name (pr_state r))),
                    (''timestamp'', junum (pr_updated_at r)), (''type'', JStr ''process.snapshot'')]]),
                 (''processId'', JStr (pr_id r))]), s)))"

definition reserved_port :: "nat \<Rightarrow> process_record \<Rightarrow> bool" where
  "reserved_port port r =
     (jindex (pr_metadata r) ''kind'' = JStr ''tunnel'' \<and> jindex (pr_metadata r) ''desiredState'' = JStr ''running'' \<and>
      jindex (pr_metadata r) ''direction'' = JStr ''local-forward'' \<and>
      map_option unat (as_u64 (jindex (jindex (pr_metadata r) ''source'') ''port'')) = Some port)"

definition port_check :: "tunnel_net \<Rightarrow> process_env \<Rightarrow> json \<Rightarrow> managed \<Rightarrow> (rpc_error + json) \<times> managed" where
  "port_check net penv params s =
     sbind (ok_or (rpc_err ''INVALID_PARAMS'' ''port is required'') (get_u64 params ''port''), s) (\<lambda>port s.
     if \<not> (1 \<le> port \<and> port \<le> 65535) then (Inl (rpc_err ''INVALID_PARAMS'' ''invalid port''), s)
     else
       let (records, t) = process_list penv (snd s);
           available = (\<not> list_ex (reserved_port (unat port)) records \<and> tn_bind net ''127.0.0.1'' (unat port) = BindFree)
       in (Inr (JObj [(''available'', JBool available), (''port'', junum port)]), (fst s, t)))"

subsection \<open>Tunnel actions\<close>

definition tunnel_metadata :: "json \<Rightarrow> string \<Rightarrow> string \<Rightarrow> string \<Rightarrow> string \<Rightarrow> nat \<Rightarrow> string \<Rightarrow> nat \<Rightarrow> json" where
  "tunnel_metadata params tunnel_id ssh_host direction bind_host bind_port target_host target_port =
     JObj [(''desiredState'', JStr ''running''),
       (''destination'', JObj [(''host'', JStr target_host), (''port'', jnat target_port)]), (''direction'', JStr direction),
       (''kind'', JStr ''tunnel''), (''profile'', jopt id (Option.bind (jget params ''_sessionLabels'') (\<lambda>v. jget v ''profile''))),
       (''sessionRef'', jopt id (jget params ''_sessionRef'')),
       (''source'', JObj [(''host'', JStr bind_host), (''port'', jnat bind_port)]), (''sshHost'', JStr ssh_host),
       (''tunnelId'', JStr tunnel_id),
       (''workspaceSessionId'', jopt id (case jget params ''_workspaceSessionId'' of
          Some v \<Rightarrow> Some v | None \<Rightarrow> jget params ''workspaceSessionId''))]"

definition takes_port :: "string \<Rightarrow> string \<Rightarrow> nat \<Rightarrow> string \<Rightarrow> process_record \<Rightarrow> bool" where
  "takes_port tunnel_id direction bind_port ssh_host r =
     (let meta = pr_metadata r in
      get_str meta ''kind'' = Some ''tunnel'' \<and> get_str meta ''tunnelId'' \<noteq> Some tunnel_id \<and> get_str meta ''desiredState'' = Some ''running'' \<and>
      map_option unat (as_u64 (jindex (jindex meta ''source'') ''port'')) = Some bind_port \<and>
      as_str (jindex meta ''direction'') = Some direction \<and>
      (direction = ''local-forward'' \<or> as_str (jindex meta ''sshHost'') = Some ssh_host))"

definition with_details :: "json \<Rightarrow> rpc_error \<Rightarrow> rpc_error" where
  "with_details v e = e\<lparr>err_details := v\<rparr>"

definition tunnel_conflict :: "tunnel_net \<Rightarrow> process_record \<Rightarrow> json \<Rightarrow> string \<Rightarrow> rpc_error + json" where
  "tunnel_conflict net existing metadata tunnel_id =
     (if \<not> pr_identity_verified existing
      then Inl (with_details (tunnel_view net existing False)
             (rpc_err ''PROCESS_IDENTITY_UNKNOWN'' ''recorded tunnel PID cannot be verified; port occupancy is not established''))
      else if \<not> tunnel_definition_matches (pr_metadata existing) metadata
      then Inl (with_details (unwrap_or JNull (jset (tunnel_view net existing False) ''requestedBinding'' (tunnel_bind_observation net metadata)))
             (rpc_err ''TUNNEL_CONFLICT'' (''tunnel '' @ tunnel_id
                @ '' has a verified live process with a different definition; this is not a port occupancy error'')))
      else Inr (tunnel_view net existing True))"

definition tunnel_readiness :: "string \<Rightarrow> string \<Rightarrow> nat \<Rightarrow> json option" where
  "tunnel_readiness direction bind_host bind_port =
     (if direction = ''local-forward''
      then Some (JObj [(''host'', JStr bind_host), (''intervalMs'', jnat 250), (''port'', jnat bind_port), (''timeoutMs'', jnat 8000),
                       (''type'', JStr ''tcp'')])
      else None)"

definition tunnel_start ::
  "tunnel_net \<Rightarrow> exec_env \<Rightarrow> process_env \<Rightarrow> json \<Rightarrow> string \<Rightarrow> string \<Rightarrow> string \<Rightarrow> nat \<Rightarrow> string \<Rightarrow> nat \<Rightarrow> string \<Rightarrow> json \<Rightarrow> managed
    \<Rightarrow> (rpc_error + json) \<times> managed" where
  "tunnel_start net env penv params process_id direction bind_host bind_port target_host target_port ssh_host metadata s =
     sbind (write_path env (fst s) params ''cwd'' True, s) (\<lambda>cwd s.
     sbind (if get_str params ''logPath'' \<noteq> None then write_path env (fst s) params ''logPath'' False
            else Inr (cwd @ [''.workbench-'' @ process_id @ ''.log'']), s) (\<lambda>log_path s.
       let config = cwd @ [''.workbench-'' @ process_id @ ''.ssh-config''] in
     sbind (let (r, x) = write_tunnel_ssh_config net env ssh_host config (fst s) in (r, (x, snd s))) (\<lambda>_ s.
       let argv = tunnel_ssh_argv ssh_host config direction bind_host bind_port target_host target_port in
     sbind (if get_str params ''knownHostsFile'' \<noteq> None
            then and_then (write_path env (fst s) params ''knownHostsFile'' False) (\<lambda>p.
                 Inr (butlast argv @ [''-o'', ''UserKnownHostsFile='' @ path_display p] @ [last argv]))
            else Inr argv, s) (\<lambda>argv s.
     sbind (on_table (process_start penv process_id cwd argv [] log_path (tunnel_readiness direction bind_host bind_port) True metadata) s) (\<lambda>r s.
     sbind (on_table (process_get (after 2 2 penv) (pr_id r)) s) (\<lambda>r s.
     (Inr (tunnel_view net r False), s)))))))"

definition tunnel_ensure :: "tunnel_net \<Rightarrow> exec_env \<Rightarrow> process_env \<Rightarrow> json \<Rightarrow> managed \<Rightarrow> (rpc_error + json) \<times> managed" where
  "tunnel_ensure net env penv params s =
     sbind (required_str params ''tunnelId'', s) (\<lambda>tunnel_id s.
     sbind (validate_resource_id tunnel_id, s) (\<lambda>_ s.
       let process_id = ''tunnel-'' @ tunnel_id in
     sbind (required_str params ''direction'', s) (\<lambda>direction s.
     if direction \<noteq> ''local-forward'' \<and> direction \<noteq> ''remote-forward''
     then (Inl (rpc_err ''INVALID_PARAMS'' ''unsupported tunnel direction''), s)
     else
     sbind (required_str params ''bindHost'', s) (\<lambda>bind_host s.
     sbind (required_port params ''bindPort'', s) (\<lambda>bind_port s.
     sbind (required_str params ''targetHost'', s) (\<lambda>target_host s.
     sbind (required_port params ''targetPort'', s) (\<lambda>target_port s.
     sbind (required_str params ''sshHost'', s) (\<lambda>ssh_host s.
       let (records, t) = process_list penv (snd s); s = (fst s, t); n = length records in
     case find (takes_port tunnel_id direction bind_port ssh_host) records of
       Some r \<Rightarrow> (Inl (rpc_err ''TUNNEL_PORT_RESERVED'' (''port '' @ dec bind_port @ '' is reserved by '' @ pr_id r)), s)
     | None \<Rightarrow>
         let metadata = tunnel_metadata params tunnel_id ssh_host direction bind_host bind_port target_host target_port;
             (found, s) = on_table (process_get (after n 1 penv) process_id) s
         in case found of
              Inr existing \<Rightarrow>
                if pr_state existing = ProcessRunning then (tunnel_conflict net existing metadata tunnel_id, s)
                else tunnel_start net env (after (n + 1) 2 penv) params process_id direction bind_host bind_port target_host target_port
                       ssh_host metadata s
            | Inl _ \<Rightarrow>
                tunnel_start net env (after (n + 1) 2 penv) params process_id direction bind_host bind_port target_host target_port
                  ssh_host metadata s))))))))"

definition tunnel_get :: "tunnel_net \<Rightarrow> process_env \<Rightarrow> json \<Rightarrow> managed \<Rightarrow> (rpc_error + json) \<times> managed" where
  "tunnel_get net penv params s =
     sbind (required_str params ''tunnelId'', s) (\<lambda>tunnel_id s.
     sbind (validate_resource_id tunnel_id, s) (\<lambda>_ s.
     sbind (on_table (process_get penv (''tunnel-'' @ tunnel_id)) s) (\<lambda>r s.
     sbind (require_tunnel_record r, s) (\<lambda>_ s.
     (Inr (tunnel_view net r False), s)))))"

definition tunnel_list :: "tunnel_net \<Rightarrow> process_env \<Rightarrow> managed \<Rightarrow> (rpc_error + json) \<times> managed" where
  "tunnel_list net penv s =
     (let (records, t) = process_list penv (snd s)
      in (Inr (JObj [(''tunnels'', JArr (map (\<lambda>r. tunnel_view net r False)
            (filter (\<lambda>r. get_str (pr_metadata r) ''kind'' = Some ''tunnel'') records)))]), (fst s, t)))"

definition tunnel_stop :: "tunnel_net \<Rightarrow> exec_env \<Rightarrow> process_env \<Rightarrow> json \<Rightarrow> managed \<Rightarrow> (rpc_error + json) \<times> managed" where
  "tunnel_stop net env penv params s =
     sbind (required_str params ''tunnelId'', s) (\<lambda>tunnel_id s.
     sbind (validate_resource_id tunnel_id, s) (\<lambda>_ s.
       let process_id = ''tunnel-'' @ tunnel_id in
     sbind (on_table (process_get penv process_id) s) (\<lambda>existing s.
     sbind (require_tunnel_record existing, s) (\<lambda>_ s.
     sbind (ok_or panicked (jset (pr_metadata existing) ''desiredState'' (JStr ''stopped'')), s) (\<lambda>metadata s.
     sbind (on_table (update_metadata (after 1 1 penv) process_id metadata) s) (\<lambda>_ s.
     sbind (on_table (process_stop (after 1 2 penv) process_id) s) (\<lambda>r s.
       let config = pr_cwd r @ [''.workbench-'' @ process_id @ ''.ssh-config''] in
     case remove_file (xe_os env) (xr_files (fst s)) config of
       Inr fs \<Rightarrow> (Inr (tunnel_view net r False), (put_files fs (fst s), snd s))
     | Inl e \<Rightarrow>
         if node_at (xr_files (fst s)) config = None \<and> os_fault (xe_os env) ''unlink'' config = None
         then (Inr (tunnel_view net r False), s)
         else (Inl (rpc_err ''SSH_CONFIG_REMOVE_FAILED'' e), s))))))))"

subsection \<open>Reconciliation\<close>

definition reconcile_due :: "u64 \<Rightarrow> process_record \<Rightarrow> bool" where
  "reconcile_due now r =
     (get_str (pr_metadata r) ''kind'' = Some ''tunnel'' \<and> get_str (pr_metadata r) ''desiredState'' = Some ''running'' \<and>
      (pr_state r = ProcessFailed \<or> pr_state r = ProcessStopped) \<and>
      5000 \<le> sat_sub now (unwrap_or 0 (get_u64 (pr_metadata r) ''lastReconcileAttemptAt'')))"

definition reconcile_keys :: "exec_env \<Rightarrow> executor_runtime \<Rightarrow> json \<Rightarrow> string list" where
  "reconcile_keys env x metadata =
     (let tunnel_id = unwrap_or [] (as_str (jindex metadata ''tunnelId''));
          source = jindex metadata ''source'' in
      [''tunnel:'' @ xr_id x @ '':'' @ tunnel_id, ''tunnel:'' @ tunnel_id,
       ''bind:'' @ unwrap_or [] (as_str (jindex source ''host'')) @ '':'' @ xe_jshow env (jindex source ''port'')])"

fun reconcile_each :: "(nat \<Rightarrow> exec_env) \<Rightarrow> (nat \<Rightarrow> process_env) \<Rightarrow> u64 \<Rightarrow> process_record list \<Rightarrow> managed \<Rightarrow> managed" where
  "reconcile_each e pe now [] s = s"
| "reconcile_each e pe now (r # rs) s =
     (let env = e 0;
          (begun, resources) = resources_begin (xe_sha env) (xe_clock env) (xe_io env 0) (reconcile_keys env (fst s) (pr_metadata r)) []
            (xr_resources (fst s));
          s1 = ((fst s)\<lparr>xr_resources := resources\<rparr>, snd s)
      in reconcile_each (\<lambda>n. e (Suc n)) (\<lambda>n. pe (Suc n)) now rs
           (case begun of
              Inl _ \<Rightarrow> s1
            | Inr permit \<Rightarrow>
                let t = (case jset (pr_metadata r) ''lastReconcileAttemptAt'' (junum now) of
                           None \<Rightarrow> snd s1
                         | Some metadata \<Rightarrow>
                             let t1 = snd (update_metadata (pe 0) (pr_id r) metadata (snd s1))
                             in snd (process_restart (after 0 1 (pe 0)) (pr_id r) t1))
                in ((fst s1)\<lparr>xr_resources := permit_drop (xe_sha env) (xe_io env 1) permit (xr_resources (fst s1))\<rparr>, t)))"

definition reconcile_tunnels :: "(nat \<Rightarrow> exec_env) \<Rightarrow> (nat \<Rightarrow> process_env) \<Rightarrow> u64 \<Rightarrow> managed \<Rightarrow> managed" where
  "reconcile_tunnels e pe now s =
     (let (records, t) = process_list (pe 0) (snd s)
      in reconcile_each e (\<lambda>n. pe (Suc n)) now (filter (reconcile_due now) records) (fst s, t))"

subsection \<open>Dispatch\<close>

definition process_dispatch ::
  "tunnel_net \<Rightarrow> exec_env \<Rightarrow> (nat \<Rightarrow> process_env) \<Rightarrow> (nat \<Rightarrow> bool) \<Rightarrow> string \<Rightarrow> json \<Rightarrow> managed \<Rightarrow> ((rpc_error + json) \<times> managed) option" where
  "process_dispatch net env pe late action params s =
     (let penv = pe 0;
          reply = (\<lambda>f. sbind (required_str params ''processId'', s) (\<lambda>i s. sbind (on_table (f i) s) (\<lambda>r s. (Inr (process_json r), s)))) in
      if action = ''tunnel.ensure'' then Some (tunnel_ensure net env penv params s)
      else if action = ''tunnel.get'' then Some (tunnel_get net penv params s)
      else if action = ''tunnel.list'' then Some (tunnel_list net penv s)
      else if action = ''tunnel.stop'' then Some (tunnel_stop net env penv params s)
      else if action = ''process.start'' \<or> action = ''agent.start'' then Some (process_start_action env penv action params s)
      else if action = ''process.get'' then Some (reply (process_get penv))
      else if action = ''readiness.wait'' then
        (case required_str params ''processId'' of
           Inl e \<Rightarrow> Some (Inl e, s)
         | Inr i \<Rightarrow> map_option (\<lambda>(r, t). (map_sum id process_json r, (fst s, t))) (wait_ready pe late i 0 (snd s)))
      else if action = ''process.list'' then
        Some (let (records, t) = process_list penv (snd s) in (Inr (JObj [(''processes'', JArr (map process_json records))]), (fst s, t)))
      else if action = ''agent.stop'' then
        Some (sbind (required_str params ''agentId'', s) (\<lambda>i s. sbind (on_table (process_stop penv i) s) (\<lambda>r s. (Inr (process_json r), s))))
      else if action = ''process.stop'' then Some (reply (process_stop penv))
      else if action = ''process.restart'' then Some (reply (process_restart penv))
      else if action = ''process.events'' then Some (process_events penv params s)
      else if action = ''logs.read'' then
        Some (sbind (required_str params ''processId'', s) (\<lambda>i s.
              on_table (process_logs penv i (unwrap_or 200 (get_u64 params ''tail''))) s))
      else Some (port_check net penv params s))"

end
