(* ===== verification/Process_Properties.thy ===== *)
theory Process_Properties
  imports Process_Table
begin

section \<open>Properties of the process table\<close>

text \<open>
  Which processes the table signals, how a record changes, and what waiting promises. The operations are
  collected in one step function; each is shown to be a sequence of a few moves, and the properties are
  proved of the moves.
\<close>

subsection \<open>Refreshing\<close>

text \<open>What identifies the process of a record.\<close>

definition same_process :: "process_record \<Rightarrow> process_record \<Rightarrow> bool" where
  "same_process r r' \<longleftrightarrow> pr_id r' = pr_id r \<and> pr_pid r' = pr_pid r \<and> pr_birth_identity r' = pr_birth_identity r \<and> pr_cwd r' = pr_cwd r \<and>
     pr_argv r' = pr_argv r \<and> pr_env r' = pr_env r \<and> pr_log_path r' = pr_log_path r \<and> pr_log_start_offset r' = pr_log_start_offset r \<and>
     pr_started_at r' = pr_started_at r \<and> pr_restartable r' = pr_restartable r \<and> pr_readiness_spec r' = pr_readiness_spec r"

text \<open>One step in the life of a process: it may end, but what ended does not run again.\<close>

definition lives_on :: "process_record \<Rightarrow> process_record \<Rightarrow> bool" where
  "lives_on r r' \<longleftrightarrow> same_process r r' \<and> (pr_state r \<noteq> ProcessRunning \<longrightarrow> pr_state r' = pr_state r)"

lemma lives_on_refl [simp]: "lives_on r r"
  by (simp add: lives_on_def same_process_def)

lemma lives_on_trans: "lives_on r r' \<Longrightarrow> lives_on r' r'' \<Longrightarrow> lives_on r r''"
  by (auto simp: lives_on_def same_process_def)

lemma probe_same: "same_process r (probe w r)" "pr_state (probe w r) = pr_state r" "pr_metadata (probe w r) = pr_metadata r"
    "pr_identity_verified (probe w r) = pr_identity_verified r"
  by (simp_all add: same_process_def probe_def Let_def split: option.splits sum.splits bool.splits)

lemma note_progress_same: "same_process r (note_progress w r)" "pr_state (note_progress w r) = pr_state r"
    "pr_metadata (note_progress w r) = pr_metadata r" "pr_identity_verified (note_progress w r) = pr_identity_verified r"
  by (simp_all add: same_process_def note_progress_def split: option.splits)

lemma probe_again_same: "same_process r (probe_again r)" "pr_state (probe_again r) = pr_state r" "pr_metadata (probe_again r) = pr_metadata r"
    "pr_identity_verified (probe_again r) = pr_identity_verified r"
  by (simp_all add: same_process_def probe_again_def)

lemmas stages_same = probe_same note_progress_same probe_again_same

lemma refresh_lives_on: "lives_on r (refresh os w r)"
  by (simp add: lives_on_def refresh_def Let_def stages_same same_process_def stages_same [unfolded same_process_def])

lemma refresh_metadata [simp]: "pr_metadata (refresh os w r) = pr_metadata r"
  by (simp add: refresh_def Let_def stages_same)

lemma refresh_verified:
  assumes "pr_identity_verified (refresh os w r)"
  shows "\<exists>b. pr_birth_identity r = Some b \<and> process_birth_identity os w (pr_pid r) = Some b \<and> process_is_alive os w (pr_pid r) \<and>
    pr_state (refresh os w r) = ProcessRunning"
  using assms by (auto simp: refresh_def Let_def stages_same identities_agree_def split: if_splits option.splits)

subsection \<open>The operations\<close>

datatype process_op =
    StartProcess string path "string list" "(string \<times> string) list" path "json option" bool json
  | GetProcess string | ListProcesses | StopProcess string | UpdateMetadata string json | RestartProcess string | ReadLogs string u64

fun process_step :: "process_env \<Rightarrow> process_op \<Rightarrow> process_table \<Rightarrow> process_table" where
  "process_step env (StartProcess i cwd argv vars log_path readiness restartable metadata) t =
     snd (process_start env i cwd argv vars log_path readiness restartable metadata t)"
| "process_step env (GetProcess i) t = snd (process_get env i t)"
| "process_step env ListProcesses t = snd (process_list env t)"
| "process_step env (StopProcess i) t = snd (process_stop env i t)"
| "process_step env (UpdateMetadata i metadata) t = snd (update_metadata env i metadata t)"
| "process_step env (RestartProcess i) t = snd (process_restart env i t)"
| "process_step env (ReadLogs i tail) t = snd (process_logs env i tail t)"

lemma persist_keeps [simp]:
  "pt_records (snd (process_persist io t)) = pt_records t" "pt_calls (snd (process_persist io t)) = pt_calls t"
  "pt_stored (snd (process_persist io t)) = pt_stored t"
  by (simp_all add: process_persist_def split: option.splits)

lemma put_record_fields [simp]:
  "pt_records (put_record r i t) = bt_insert i r (pt_records t)" "pt_calls (put_record r i t) = pt_calls t"
  "pt_stored (put_record r i t) = pt_stored t"
  by (simp_all add: put_record_def)

lemma bt_get_refresh_records:
  "bt_get (refresh_records os worlds m) i = None \<and> bt_get m i = None \<or>
   (\<exists>r n. bt_get m i = Some r \<and> bt_get (refresh_records os worlds m) i = Some (refresh os (worlds n) r))"
  by (induction os worlds m rule: refresh_records.induct) (auto simp: bt_get_def)

text \<open>Every record goes on as before: what the reading operations do.\<close>

definition continues :: "(string, process_record) btree_map \<Rightarrow> (string, process_record) btree_map \<Rightarrow> bool" where
  "continues m m' \<longleftrightarrow>
     (\<forall>i. bt_get m i = None \<and> bt_get m' i = None \<or> (\<exists>r r'. bt_get m i = Some r \<and> bt_get m' i = Some r' \<and> lives_on r r'))"

definition goes_on :: "process_table \<Rightarrow> process_table \<Rightarrow> bool" where
  "goes_on t t' \<longleftrightarrow> pt_calls t' = pt_calls t \<and> continues (pt_records t) (pt_records t')"

lemma continues_refl [simp]: "continues m m"
  unfolding continues_def by (metis not_None_eq lives_on_refl)

lemma continues_insert:
  "bt_get m i = Some r \<Longrightarrow> lives_on r r' \<Longrightarrow> continues m (bt_insert i r' m)"
  "bt_get m i = Some r \<Longrightarrow> lives_on r r' \<Longrightarrow> continues m (bt_insert i r' (bt_insert i r'' m))"
  by (simp_all add: continues_def bt_get_insert_any) (metis not_None_eq lives_on_refl)+

lemma goes_on_refl [simp]: "goes_on t t"
  by (simp add: goes_on_def)

lemma goes_on_put: "bt_get (pt_records t) i = Some r \<Longrightarrow> lives_on r r' \<Longrightarrow> goes_on t (put_record r' i t)"
  by (simp add: goes_on_def continues_insert)

lemma goes_on_persist: "goes_on t t' \<Longrightarrow> goes_on t (snd (process_persist io t'))"
  by (simp add: goes_on_def)

lemma goes_on_persisted: "goes_on t t1 \<Longrightarrow> process_persist io t1 = (x, t') \<Longrightarrow> goes_on t t'"
  using goes_on_persist [of t t1 io] by simp

lemma get_goes_on: "goes_on t (snd (process_get env i t))"
  by (auto simp: process_get_def Let_def sbind_def case_prod_beta split: option.splits sum.splits
      intro!: goes_on_persist goes_on_put refresh_lives_on)

lemma list_goes_on: "goes_on t (snd (process_list env t))"
  unfolding process_list_def Let_def refresh_all_def snd_conv
  by (rule goes_on_persist) (use bt_get_refresh_records refresh_lives_on in \<open>fastforce simp: goes_on_def continues_def\<close>)

lemma update_goes_on: "goes_on t (snd (update_metadata env i metadata t))"
  by (auto simp: update_metadata_def Let_def sbind_def case_prod_beta lives_on_def same_process_def split: option.splits sum.splits
      intro!: goes_on_persist goes_on_put)

lemma logs_goes_on: "goes_on t (snd (process_logs env i tail t))"
  using get_goes_on [of t env i] by (simp add: process_logs_def sbind_def case_prod_beta Let_def split: sum.splits)

lemma get_result:
  assumes "process_get env i t = (Inr r', t')"
  shows "\<exists>r. bt_get (pt_records t) i = Some r \<and> r' = refresh (pe_platform env) (pe_world env 0) r \<and> bt_get (pt_records t') i = Some r'"
proof (cases "bt_get (pt_records t) i")
  case (Some r)
  let ?r = "refresh (pe_platform env) (pe_world env 0) r"
  from assms Some have "r' = ?r" "t' = snd (process_persist (pe_io env 0) (put_record ?r i t))"
    by (auto simp: process_get_def Let_def sbind_def split: sum.splits prod.splits)
  then show ?thesis using Some by (simp add: bt_get_insert_any)
qed (use assms in \<open>simp add: process_get_def\<close>)

lemma get_kept: "process_get env i t = (x, t') \<Longrightarrow> goes_on t t'"
  using get_goes_on [of t env i] by simp

lemma get_writes:
  assumes "pe_io env 0 = None \<or> \<not> pt_stored t" "process_get env i t = (Inl e, t')"
  shows "bt_get (pt_records t) i = None"
  using assms by (auto simp: process_get_def Let_def sbind_def process_persist_def split: option.splits if_splits)

lemma stop_outcome:
  assumes "process_stop env i t = (res, t')"
  shows "goes_on t t' \<and>
      (\<forall>r'. res = Inr r' \<longrightarrow> (\<exists>r. bt_get (pt_records t) i = Some r \<and> r' = refresh (pe_platform env) (pe_world env 0) r \<and>
         pr_state r' \<noteq> ProcessRunning)) \<or>
    (\<exists>r b. bt_get (pt_records t) i = Some r \<and> pr_birth_identity r = Some b \<and>
       process_birth_identity (pe_platform env) (pe_world env 0) (pr_pid r) = Some b \<and>
       goes_on t (t'\<lparr>pt_calls := pt_calls t\<rparr>) \<and> pt_calls t' = pt_calls t @ [Signalled (pr_pid r)])"
proof (cases "bt_get (pt_records t) i")
  case None
  with assms have "goes_on t t' \<and> is_ok res = False" by (auto simp: process_stop_def)
  then show ?thesis by auto
next
  case (Some r)
  let ?r = "refresh (pe_platform env) (pe_world env 0) r" and ?t = "put_record (refresh (pe_platform env) (pe_world env 0) r) i t"
  have on: "goes_on t ?t" by (rule goes_on_put [OF Some refresh_lives_on])
  show ?thesis
  proof (cases "pr_state ?r = ProcessRunning \<and> pr_identity_verified ?r")
    case False
    with assms Some on have "goes_on t t' \<and> (\<forall>r'. res = Inr r' \<longrightarrow> r' = ?r \<and> pr_state r' \<noteq> ProcessRunning)"
      by (auto simp: process_stop_def Let_def sbind_def split: if_splits sum.splits prod.splits intro: goes_on_persisted)
    with Some show ?thesis by blast
  next
    case True
    let ?called = "?t\<lparr>pt_calls := pt_calls t @ [Signalled (pr_pid ?r)]\<rparr>"
    have pid: "pr_pid ?r = pr_pid r" using refresh_lives_on [of r] by (simp add: lives_on_def same_process_def)
    let ?stopped = "?r\<lparr>pr_state := ProcessStopped, pr_updated_at := pe_now env 0\<rparr>"
    have "lives_on r ?stopped" using refresh_lives_on [of r] True by (auto simp: lives_on_def same_process_def)
    note stopped = continues_insert(2) [OF Some this]
    have "t' = ?called \<or> t' = snd (process_persist (pe_io env 0) (put_record ?stopped i ?called))"
      using assms Some True by (auto simp: process_stop_def Let_def sbind_def split: sum.splits prod.splits)
    then have "goes_on t (t'\<lparr>pt_calls := pt_calls t\<rparr>) \<and> pt_calls t' = pt_calls t @ [Signalled (pr_pid r)]"
      using on stopped by (auto simp: goes_on_def pid)
    with refresh_verified [of "pe_platform env" "pe_world env 0" r] True Some show ?thesis by blast
  qed
qed

lemma start_outcome:
  assumes "process_start env i cwd argv vars log_path readiness restartable metadata t = (res, t')"
  shows "goes_on t t' \<or>
    (\<exists>found t1 start pid. process_get env i t = (found, t1) \<and> (\<forall>r. found = Inr r \<longrightarrow> pr_state r \<noteq> ProcessRunning) \<and>
       pt_records t' = bt_insert i (new_record env i cwd argv vars log_path readiness restartable metadata start pid) (pt_records t1) \<and>
       pt_calls t' = pt_calls t @ [Spawned pid])"
proof -
  obtain found t1 where g: "process_get env i t = (found, t1)" by (rule prod.exhaust)
  have on: "goes_on t t1" by (rule get_kept [OF g])
  then have calls: "pt_calls t1 = pt_calls t" by (simp add: goes_on_def)
  show ?thesis
  proof (cases "argv = [] \<or> (\<exists>r. found = Inr r \<and> pr_state r = ProcessRunning)")
    case True
    with assms g on have "goes_on t t'" by (cases "argv = []") (auto simp: process_start_def Let_def)
    then show ?thesis ..
  next
    case False
    then have idle: "(case found of Inr r \<Rightarrow> if pr_state r = ProcessRunning then Some r else None | Inl _ \<Rightarrow> None) = None"
      by (auto split: sum.splits)
    have "t' = t1 \<or> (\<exists>start pid. let r = new_record env i cwd argv vars log_path readiness restartable metadata start pid
        in t' = snd (process_persist (pe_io env 1) ((put_record r i t1)\<lparr>pt_calls := pt_calls t1 @ [Spawned pid]\<rparr>)))"
      using assms False unfolding process_start_def g
      by (simp add: idle Let_def sbind_def map_err_def split: sum.splits prod.splits) (metis snd_conv)+
    with on g False calls show ?thesis by (auto simp: Let_def)
  qed
qed

subsection \<open>Signals\<close>

text \<open>At some reading of the operation the system gave the identity that was recorded when the process was started.\<close>

definition verified_in :: "platform \<Rightarrow> (nat \<Rightarrow> process_world) \<Rightarrow> process_table \<Rightarrow> nat \<Rightarrow> bool" where
  "verified_in os worlds t pid \<longleftrightarrow> (\<exists>i r n b. bt_get (pt_records t) i = Some r \<and> pr_pid r = pid \<and> pr_birth_identity r = Some b \<and>
     process_birth_identity os (worlds n) pid = Some b)"

lemma verified_back: "goes_on t t1 \<Longrightarrow> verified_in os worlds t1 pid \<Longrightarrow> verified_in os worlds t pid"
  unfolding verified_in_def goes_on_def continues_def lives_on_def same_process_def by (metis option.distinct(1) option.inject)

lemma verified_later: "verified_in os (\<lambda>n. worlds (n + k)) t pid \<Longrightarrow> verified_in os worlds t pid"
  unfolding verified_in_def by blast

definition signals_verified :: "platform \<Rightarrow> (nat \<Rightarrow> process_world) \<Rightarrow> process_table \<Rightarrow> process_table \<Rightarrow> bool" where
  "signals_verified os worlds t t' \<longleftrightarrow>
     (\<exists>new. pt_calls t' = pt_calls t @ new \<and> (\<forall>pid. Signalled pid \<in> set new \<longrightarrow> verified_in os worlds t pid))"

lemma goes_on_signals: "goes_on t t' \<Longrightarrow> signals_verified os worlds t t'"
  by (simp add: signals_verified_def goes_on_def)

lemma stop_signals:
  assumes "process_stop env i t = (res, t')"
  shows "signals_verified (pe_platform env) (pe_world env) t t'"
  using stop_outcome [OF assms]
proof (elim disjE exE conjE)
  fix r b assume *: "bt_get (pt_records t) i = Some r" "pr_birth_identity r = Some b"
      "process_birth_identity (pe_platform env) (pe_world env 0) (pr_pid r) = Some b" "pt_calls t' = pt_calls t @ [Signalled (pr_pid r)]"
  then have "verified_in (pe_platform env) (pe_world env) t (pr_pid r)" unfolding verified_in_def by blast
  with *(4) show ?thesis by (simp add: signals_verified_def)
qed (rule goes_on_signals)

lemma start_signals:
  assumes "process_start env i cwd argv vars log_path readiness restartable metadata t = (res, t')"
  shows "\<exists>new. pt_calls t' = pt_calls t @ new \<and> (\<forall>pid. Signalled pid \<notin> set new)"
  using start_outcome [OF assms] by (auto simp: goes_on_def)

lemma after_fields [simp]:
  "pe_platform (after k l env) = pe_platform env" "pe_world (after k l env) n = pe_world env (n + k)" "pe_io (after k l env) n = pe_io env (n + l)"
  by (simp_all add: after_def)

lemma after_worlds: "pe_world (after k l env) = (\<lambda>n. pe_world env (n + k))"
  by (simp add: after_def)

lemma restart_signals: "signals_verified (pe_platform env) (pe_world env) t (snd (process_restart env i t))"
proof -
  obtain found t1 where g: "process_get env i t = (found, t1)" by (rule prod.exhaust)
  have on: "goes_on t t1" by (rule get_kept [OF g])
  show ?thesis
  proof (cases "\<exists>r. found = Inr r \<and> pr_restartable r")
    case False
    then show ?thesis using goes_on_signals [OF on] g by (auto simp: process_restart_def sbind_def split: sum.splits)
  next
    case True
    then obtain r where r: "found = Inr r" "pr_restartable r" by blast
    obtain res t2 where s: "process_stop (after 1 1 env) i t1 = (res, t2)" by (rule prod.exhaust)
    obtain res3 t3 where st: "process_start (after 3 2 env) (pr_id r) (pr_cwd r) (pr_argv r) (pr_env r) (pr_log_path r)
        (pr_readiness_spec r) True (pr_metadata r) t2 = (res3, t3)" by (rule prod.exhaust)
    have "signals_verified (pe_platform env) (pe_world env) t t2"
      using stop_signals [OF s] on verified_back [OF on] verified_later
      unfolding signals_verified_def goes_on_def after_worlds after_fields by metis
    moreover have "signals_verified (pe_platform env) (pe_world env) t t3"
      using start_signals [OF st] calculation unfolding signals_verified_def by (metis append.assoc set_append Un_iff)
    ultimately show ?thesis using g r s st by (auto simp: process_restart_def sbind_def split: sum.splits)
  qed
qed

text \<open>
  C11. A number that was recorded for a process may belong to another one by now, so no operation of the table signals
  a process unless the operating system, asked during this very operation, gives the identity that was recorded
  for that number when the process was started.
\<close>

theorem signals_only_verified:
  "\<exists>new. pt_calls (process_step env op t) = pt_calls t @ new \<and>
     (\<forall>pid. Signalled pid \<in> set new \<longrightarrow>
        (\<exists>i r n b. bt_get (pt_records t) i = Some r \<and> pr_pid r = pid \<and> pr_birth_identity r = Some b \<and>
           process_birth_identity (pe_platform env) (pe_world env n) pid = Some b))"
proof -
  have "signals_verified (pe_platform env) (pe_world env) t (process_step env op t)"
  proof (cases op)
    case (StartProcess i cwd argv vars log_path readiness restartable metadata)
    then show ?thesis
      using start_signals [of env i cwd argv vars log_path readiness restartable metadata t]
      by (cases "process_start env i cwd argv vars log_path readiness restartable metadata t") (auto simp: signals_verified_def)
  next
    case (StopProcess i)
    then show ?thesis using stop_signals [of env i t] by (cases "process_stop env i t") auto
  qed (simp_all add: goes_on_signals get_goes_on list_goes_on update_goes_on logs_goes_on restart_signals)
  then show ?thesis unfolding signals_verified_def verified_in_def .
qed

subsection \<open>Lifecycle\<close>

text \<open>A process has ended when its record says so, when it was signalled, or when a reading of the system shows it gone.\<close>

definition ended :: "platform \<Rightarrow> (nat \<Rightarrow> process_world) \<Rightarrow> process_call list \<Rightarrow> process_record \<Rightarrow> bool" where
  "ended os worlds new r \<longleftrightarrow> pr_state r \<noteq> ProcessRunning \<or> Signalled (pr_pid r) \<in> set new \<or>
     (\<exists>n. \<not> process_is_alive os (worlds n) (pr_pid r) \<or>
        identity_mismatch (pr_birth_identity r) (process_birth_identity os (worlds n) (pr_pid r)))"

lemma refresh_ended: "pr_state (refresh os (worlds n) r) \<noteq> ProcessRunning \<Longrightarrow> ended os worlds new r"
  by (auto simp: refresh_def Let_def ended_def stages_same split: if_splits)

definition carried :: "platform \<Rightarrow> (nat \<Rightarrow> process_world) \<Rightarrow> process_call list \<Rightarrow> process_record \<Rightarrow> process_record \<Rightarrow> bool" where
  "carried os worlds new r r' \<longleftrightarrow> lives_on r r' \<and> (pr_state r' \<noteq> ProcessRunning \<longrightarrow> ended os worlds new r)"

lemma carried_refl [simp]: "carried os worlds new r r"
  by (simp add: carried_def ended_def)

lemma carried_ended:
  assumes "carried os worlds new r r1" "ended os (\<lambda>n. worlds (n + k)) new' r1" "set new \<union> set new' \<subseteq> set all"
  shows "ended os worlds all r"
  using assms by (auto simp: carried_def ended_def lives_on_def same_process_def)

lemma carried_trans:
  assumes "carried os worlds new r r1" "carried os (\<lambda>n. worlds (n + k)) new' r1 r2" "set new \<union> set new' \<subseteq> set all"
  shows "carried os worlds all r r2"
  using assms carried_ended [OF assms(1) _ assms(3)] by (auto simp: carried_def intro: lives_on_trans)

lemma get_carried:
  assumes "process_get env i t = (x, t')" "bt_get (pt_records t) k = Some r"
  shows "\<exists>r'. bt_get (pt_records t') k = Some r' \<and> carried (pe_platform env) (pe_world env) [] r r'"
proof (cases "bt_get (pt_records t) i")
  case (Some r0)
  let ?r = "refresh (pe_platform env) (pe_world env 0) r0"
  from assms Some have "t' = snd (process_persist (pe_io env 0) (put_record ?r i t))"
    by (auto simp: process_get_def Let_def sbind_def split: sum.splits prod.splits)
  moreover have "carried (pe_platform env) (pe_world env) [] r0 ?r"
    by (simp add: carried_def refresh_lives_on refresh_ended [where n = 0])
  ultimately show ?thesis using assms(2) Some by (auto simp: bt_get_insert_any)
qed (use assms in \<open>auto simp: process_get_def\<close>)

lemma stop_carried:
  assumes "process_stop env i t = (x, t')" "pt_calls t' = pt_calls t @ new" "bt_get (pt_records t) k = Some r"
  shows "\<exists>r'. bt_get (pt_records t') k = Some r' \<and> carried (pe_platform env) (pe_world env) new r r'"
proof (cases "bt_get (pt_records t) i")
  case (Some r0)
  let ?r = "refresh (pe_platform env) (pe_world env 0) r0"
  have c: "carried (pe_platform env) (pe_world env) l r0 ?r" for l
    by (simp add: carried_def refresh_lives_on refresh_ended [where n = 0])
  show ?thesis
  proof (cases "pr_state ?r = ProcessRunning \<and> pr_identity_verified ?r")
    case False
    with assms(1) Some have "pt_records t' = bt_insert i ?r (pt_records t)"
      by (auto simp: process_stop_def Let_def sbind_def split: if_splits sum.splits prod.splits
          dest: arg_cong [where f = "\<lambda>x. pt_records (snd x)"])
    with c assms(3) Some show ?thesis by (auto simp: bt_get_insert_any)
  next
    case True
    let ?called = "(put_record ?r i t)\<lparr>pt_calls := pt_calls t @ [Signalled (pr_pid ?r)]\<rparr>"
    let ?stopped = "?r\<lparr>pr_state := ProcessStopped, pr_updated_at := pe_now env 0\<rparr>"
    have "t' = ?called \<or> t' = snd (process_persist (pe_io env 0) (put_record ?stopped i ?called))"
      using assms(1) Some True by (auto simp: process_stop_def Let_def sbind_def split: sum.splits prod.splits)
    moreover have new: "new = [Signalled (pr_pid r0)]"
      using calculation assms(2) refresh_lives_on [of r0] by (auto simp: lives_on_def same_process_def)
    moreover have "carried (pe_platform env) (pe_world env) new r0 ?stopped"
      using c [of new] True new by (auto simp: carried_def lives_on_def same_process_def ended_def)
    ultimately show ?thesis using c [of new] assms(3) Some by (auto simp: bt_get_insert_any)
  qed
qed (use assms in \<open>auto simp: process_stop_def\<close>)

lemma start_carried:
  assumes "process_start env i cwd argv vars log_path readiness restartable metadata t = (x, t')" "pt_calls t' = pt_calls t @ new"
    and "bt_get (pt_records t) k = Some r" "pe_io env 0 = None"
  shows "\<exists>r'. bt_get (pt_records t') k = Some r' \<and>
     (lives_on r r' \<or> Spawned (pr_pid r') \<in> set new \<and> ended (pe_platform env) (pe_world env) [] r)"
  using start_outcome [OF assms(1)]
proof (elim disjE exE conjE)
  assume "goes_on t t'"
  with assms(3) show ?thesis unfolding goes_on_def continues_def by (metis option.distinct(1) option.inject)
next
  fix found t1 start pid
  assume g: "process_get env i t = (found, t1)" and idle: "\<forall>r. found = Inr r \<longrightarrow> pr_state r \<noteq> ProcessRunning"
    and records: "pt_records t' = bt_insert i (new_record env i cwd argv vars log_path readiness restartable metadata start pid) (pt_records t1)"
    and calls: "pt_calls t' = pt_calls t @ [Spawned pid]"
  show ?thesis
  proof (cases "k = i")
    case False
    with get_carried [OF g assms(3)] records show ?thesis by (auto simp: bt_get_insert_any carried_def)
  next
    case True
    then obtain r1 where "found = Inr r1" using get_writes [of env t i] g assms(3,4) by (cases found) auto
    with get_result [of env i t r1 t1] g idle assms(3) True
    have "pr_state (refresh (pe_platform env) (pe_world env 0) r) \<noteq> ProcessRunning" by auto
    from refresh_ended [of _ "pe_world env" 0, OF this] records calls True assms(2) show ?thesis by (auto simp: bt_get_insert_any new_record_def Let_def)
  qed
qed

lemma start_calls:
  "process_start env i cwd argv vars log_path readiness restartable metadata t = (x, t') \<Longrightarrow> \<exists>new. pt_calls t' = pt_calls t @ new"
  using start_signals by blast

lemma stop_calls: "process_stop env i t = (x, t') \<Longrightarrow> \<exists>new. pt_calls t' = pt_calls t @ new"
  using stop_signals [of env i t x t'] by (auto simp: signals_verified_def)

lemma goes_on_lives:
  assumes "goes_on t t'" "pt_calls t' = pt_calls t @ new" "bt_get (pt_records t) k = Some r"
  shows "\<exists>r'. bt_get (pt_records t') k = Some r' \<and> (lives_on r r' \<or> Spawned (pr_pid r') \<in> set new \<and> ended os worlds new r)"
  using assms unfolding goes_on_def continues_def by (metis option.distinct(1) option.inject)

lemma restart_lives:
  assumes "pt_calls (snd (process_restart env i t)) = pt_calls t @ new" "bt_get (pt_records t) k = Some r" "\<And>n. pe_io env n = None"
  shows "\<exists>r'. bt_get (pt_records (snd (process_restart env i t))) k = Some r' \<and>
     (lives_on r r' \<or> Spawned (pr_pid r') \<in> set new \<and> ended (pe_platform env) (pe_world env) new r)"
proof -
  let ?os = "pe_platform env" and ?ws = "pe_world env"
  obtain found t1 where g: "process_get env i t = (found, t1)" by (rule prod.exhaust)
  from get_carried [OF g assms(2)] obtain r1 where r1: "bt_get (pt_records t1) k = Some r1" "carried ?os ?ws [] r r1" by blast
  have c1: "pt_calls t1 = pt_calls t" using get_kept [OF g] by (simp add: goes_on_def)
  show ?thesis
  proof (cases "\<exists>q. found = Inr q \<and> pr_restartable q")
    case False
    then have "snd (process_restart env i t) = t1" using g by (auto simp: process_restart_def sbind_def split: sum.splits)
    with r1 show ?thesis by (auto simp: carried_def)
  next
    case True
    then obtain q where q: "found = Inr q" "pr_restartable q" by blast
    obtain res t2 where s: "process_stop (after 1 1 env) i t1 = (res, t2)" by (rule prod.exhaust)
    from stop_calls [OF s] obtain new1 where c2: "pt_calls t2 = pt_calls t1 @ new1" by blast
    from stop_carried [OF s c2 r1(1)] obtain r2 where r2: "bt_get (pt_records t2) k = Some r2"
        "carried ?os (\<lambda>n. ?ws (n + 1)) new1 r1 r2" by (auto simp: after_worlds)
    from carried_trans [OF r1(2) r2(2)] have to2: "carried ?os ?ws new1 r r2" by simp
    obtain res3 t3 where st: "process_start (after 3 2 env) (pr_id q) (pr_cwd q) (pr_argv q) (pr_env q) (pr_log_path q)
        (pr_readiness_spec q) True (pr_metadata q) t2 = (res3, t3)" by (rule prod.exhaust)
    from start_calls [OF st] obtain new2 where c3: "pt_calls t3 = pt_calls t2 @ new2" by blast
    from start_carried [OF st c3 r2(1)] assms(3) obtain r3 where r3: "bt_get (pt_records t3) k = Some r3"
        "lives_on r2 r3 \<or> Spawned (pr_pid r3) \<in> set new2 \<and> ended ?os (\<lambda>n. ?ws (n + 3)) [] r2" by (auto simp: after_worlds)
    show ?thesis
    proof (cases res)
      case (Inl e)
      then have "snd (process_restart env i t) = t2" using g q s by (simp add: process_restart_def)
      with r2(1) to2 show ?thesis by (auto simp: carried_def)
    next
      case (Inr a)
      then have t3: "snd (process_restart env i t) = t3" using g q s st by (simp add: process_restart_def)
      with assms(1) c1 c2 c3 have new: "new = new1 @ new2" by simp
      from r3(2) show ?thesis
      proof (elim disjE conjE)
        assume "lives_on r2 r3"
        with to2 r3(1) t3 show ?thesis by (auto simp: carried_def intro: lives_on_trans)
      next
        assume "Spawned (pr_pid r3) \<in> set new2" "ended ?os (\<lambda>n. ?ws (n + 3)) [] r2"
        with carried_ended [OF to2, of 3 "[]" new] r3(1) t3 new show ?thesis by auto
      qed
    qed
  qed
qed

text \<open>
  C25. While the table's file can be written, a record is never lost and never changes hands silently: after any
  operation it describes the same process, which does not run again once it ended, or it describes a process that
  was started by this operation, and then the previous one had ended: by its record, by a signal sent in this
  operation, or by what the system said.
\<close>

theorem process_lifecycle:
  assumes "bt_get (pt_records t) i = Some r" "\<And>n. pe_io env n = None"
    and "pt_calls (process_step env op t) = pt_calls t @ new"
  shows "\<exists>r'. bt_get (pt_records (process_step env op t)) i = Some r' \<and>
     (lives_on r r' \<or> Spawned (pr_pid r') \<in> set new \<and> ended (pe_platform env) (pe_world env) new r)"
proof (cases op)
  case (StartProcess k cwd argv vars log_path readiness restartable metadata)
  obtain x t' where s: "process_start env k cwd argv vars log_path readiness restartable metadata t = (x, t')" by (rule prod.exhaust)
  from start_carried [OF s _ assms(1) assms(2)] assms(3) StartProcess s show ?thesis by (auto simp: ended_def)
next
  case (StopProcess k)
  obtain x t' where s: "process_stop env k t = (x, t')" by (rule prod.exhaust)
  from stop_carried [OF s _ assms(1)] assms(3) StopProcess s show ?thesis by (auto simp: carried_def)
next
  case (RestartProcess k)
  with restart_lives [OF _ assms(1,2)] assms(3) show ?thesis by simp
next
  case (GetProcess k)
  with goes_on_lives [OF get_goes_on _ assms(1)] assms(3) show ?thesis by simp
next
  case ListProcesses
  with goes_on_lives [OF list_goes_on _ assms(1)] assms(3) show ?thesis by simp
next
  case (UpdateMetadata k metadata)
  with goes_on_lives [OF update_goes_on _ assms(1)] assms(3) show ?thesis by simp
next
  case (ReadLogs k tail)
  with goes_on_lives [OF logs_goes_on _ assms(1)] assms(3) show ?thesis by simp
qed

subsection \<open>A write that fails\<close>

text \<open>
  Starting looks the identifier up first, and takes every error of the lookup for its absence. When the lookup
  only failed to write the file, a process that runs and is verified is not seen: a second process is started
  under the identifier, and the record of the first, which still runs, is gone from the table.
\<close>

theorem failed_write_replaces_running:
  assumes "bt_get (pt_records t) i = Some r" "pr_state r = ProcessRunning" "pr_birth_identity r = Some b"
    and "process_birth_identity (pe_platform env) (pe_world env 0) (pr_pid r) = Some b" "process_is_alive (pe_platform env) (pe_world env 0) (pr_pid r)"
    and "argv \<noteq> []" "pt_stored t" "pe_io env 0 = Some e" "pe_open_log env log_path = Inr start" "pe_spawn env argv cwd vars log_path = Inr pid"
  shows "\<exists>t'. snd (process_start env i cwd argv vars log_path readiness restartable metadata t) = t' \<and>
     pt_calls t' = pt_calls t @ [Spawned pid] \<and> map_option pr_pid (bt_get (pt_records t') i) = Some pid"
proof -
  have "fst (process_get env i t) = Inl (rpc_err ''PROCESS_STATE_FAILED'' e)"
    using assms by (simp add: process_get_def Let_def process_persist_def)
  then obtain t1 where g: "process_get env i t = (Inl (rpc_err ''PROCESS_STATE_FAILED'' e), t1)" by (metis prod.collapse)
  have "pt_calls t1 = pt_calls t" using get_kept [OF g] by (simp add: goes_on_def)
  with assms g show ?thesis
    by (simp add: process_start_def Let_def sbind_def case_prod_beta new_record_def bt_get_insert_any split: sum.splits)
qed

subsection \<open>Waiting\<close>

text \<open>
  Waiting for readiness comes to an end: if the deadline has passed at some round, the wait returns at that
  round or before, and it returns a record only when a probe has found the process ready.
\<close>

theorem wait_ready_ends:
  assumes "late n" "m \<le> n"
  shows "\<exists>v t'. wait_ready envs late i m t = Some (v, t') \<and> (\<forall>r. v = Inr r \<longrightarrow> rd_state (pr_readiness r) = ReadinessReady)"
  using assms(2)
proof (induction "n - m" arbitrary: m t)
  case 0
  then have m: "m = n" by simp
  obtain x t1 where g: "process_get (envs m) i t = (x, t1)" by (rule prod.exhaust)
  show ?case using assms(1) unfolding m
    by (subst wait_ready.simps) (use g m in \<open>auto simp: wait_verdict_def split: sum.splits\<close>)
next
  case (Suc k)
  obtain x t1 where g: "process_get (envs m) i t = (x, t1)" by (rule prod.exhaust)
  from Suc have "k = n - Suc m" "Suc m \<le> n" by simp_all
  from Suc(1) [OF this, of t1] obtain v t' where next_round: "wait_ready envs late i (Suc m) t1 = Some (v, t')"
      "\<forall>r. v = Inr r \<longrightarrow> rd_state (pr_readiness r) = ReadinessReady" by blast
  show ?case
    by (subst wait_ready.simps) (use g next_round in \<open>auto simp: wait_verdict_def split: sum.splits option.splits if_splits\<close>)
qed

subsection \<open>A concrete table\<close>

definition demo_world :: process_world where
  "demo_world =
     \<lparr>pw_stat = (\<lambda>_ _. None), pw_boot = None, pw_ps = (\<lambda>_ _. None), pw_times = (\<lambda>_. Some (1, 2)), pw_tasklist = (\<lambda>_. None),
      pw_signal_zero = (\<lambda>_. True), pw_connect = (\<lambda>_. Inr False), pw_exists = (\<lambda>_. False), pw_log_length = (\<lambda>_. None),
      pw_log = (\<lambda>_. None), pw_text = (\<lambda>_. True), pw_lossy = id, pw_now = (\<lambda>_. 9)\<rparr>"

definition demo_process_env :: "string option \<Rightarrow> process_env" where
  "demo_process_env io =
     \<lparr>pe_platform = Windows, pe_world = (\<lambda>_. demo_world), pe_io = (\<lambda>_. io), pe_now = (\<lambda>_. 9), pe_open_log = (\<lambda>_. Inr 0),
      pe_spawn = (\<lambda>_ _ _ _. Inr 8), pe_kill = (\<lambda>_. Killed), pe_taskkill = (\<lambda>_. Inr (True, [])), pe_read_log = (\<lambda>_. Inr [])\<rparr>"

definition demo_process :: process_record where
  "demo_process =
     \<lparr>pr_id = ''p'', pr_pid = 7, pr_birth_identity = Some (dec 1 @ '':'' @ dec 2), pr_identity_verified = False, pr_observed_at = None,
      pr_cwd = [''/''], pr_argv = [''serve''], pr_env = [], pr_restartable = True, pr_metadata = JNull, pr_log_path = [''/'', ''log''],
      pr_log_start_offset = 0, pr_state = ProcessRunning, pr_readiness = \<lparr>rd_state = ReadinessNotConfigured, rd_attempts = 0\<rparr>,
      pr_phase = ''STARTING'', pr_last_successful_probe_at = None, pr_last_log_progress = Some 0, pr_readiness_spec = None,
      pr_readiness_deadline_at = None, pr_started_at = 5, pr_updated_at = 5\<rparr>"

definition demo_processes :: process_table where
  "demo_processes = \<lparr>pt_records = [(''p'', demo_process)], pt_stored = True, pt_disk = None, pt_calls = []\<rparr>"

lemma demo_identity: "process_birth_identity Windows demo_world pid = Some (dec 1 @ '':'' @ dec 2)" "process_is_alive Windows demo_world pid"
  by (simp_all add: process_birth_identity_def process_is_alive_def demo_world_def)

lemma demo_record: "bt_get (pt_records demo_processes) ''p'' = Some demo_process"
  by (simp add: demo_processes_def bt_get_def)

lemma demo_refresh:
  "refresh Windows demo_world demo_process = demo_process\<lparr>pr_observed_at := Some 9, pr_identity_verified := True\<rparr>"
proof -
  have "pr_pid demo_process = 7" "pr_state demo_process = ProcessRunning" "pr_birth_identity demo_process = Some (dec 1 @ '':'' @ dec 2)"
      "pr_metadata demo_process = JNull" "rd_state (pr_readiness demo_process) = ReadinessNotConfigured"
    by (simp_all add: demo_process_def)
  moreover have "pw_now demo_world n = 9" "pw_log_length demo_world q = None" for n q by (simp_all add: demo_world_def)
  ultimately show ?thesis
    by (simp add: refresh_def Let_def demo_identity identity_mismatch_def identities_agree_def probe_def note_progress_def probe_again_def get_str_def
        del: dec.simps)
qed

lemma demo_stop_calls: "pt_calls (process_step (demo_process_env None) (StopProcess ''p'') demo_processes) = pt_calls demo_processes @ [Signalled 7]"
proof -
  have "pr_state demo_process = ProcessRunning" "pr_pid demo_process = 7" by (simp_all add: demo_process_def)
  then show ?thesis
    by (simp add: process_stop_def demo_record demo_process_env_def demo_refresh Let_def os_stop_process_def process_persist_def)
qed

theorem signals_only_verified_witness:
  "\<exists>new. pt_calls (process_step (demo_process_env None) (StopProcess ''p'') demo_processes) = new \<and> Signalled 7 \<in> set new \<and>
     (\<exists>b. process_birth_identity Windows demo_world 7 = Some b)"
proof -
  from signals_only_verified [of "demo_process_env None" "StopProcess ''p''" demo_processes]
  have "\<exists>n b. process_birth_identity Windows (pe_world (demo_process_env None) n) 7 = Some b"
    unfolding demo_stop_calls by (auto simp: demo_process_env_def)
  then show ?thesis unfolding demo_stop_calls by (simp add: demo_process_env_def)
qed

theorem process_lifecycle_witness:
  "\<exists>r'. bt_get (pt_records (process_step (demo_process_env None) (StopProcess ''p'') demo_processes)) ''p'' = Some r' \<and> lives_on demo_process r'"
proof -
  have io: "pe_io (demo_process_env None) n = None" for n by (simp add: demo_process_env_def)
  from process_lifecycle [OF demo_record, of "demo_process_env None" "StopProcess ''p''", OF io demo_stop_calls] show ?thesis by auto
qed

theorem failed_write_replaces_running_witness:
  "\<exists>t'. snd (process_start (demo_process_env (Some ''full'')) ''p'' [''/''] [''serve''] [] [''/'', ''log''] None True JNull demo_processes) = t' \<and>
     pt_calls t' = [Spawned 8] \<and> map_option pr_pid (bt_get (pt_records t') ''p'') = Some 8"
proof -
  have "\<exists>t'. snd (process_start (demo_process_env (Some ''full'')) ''p'' [''/''] [''serve''] [] [''/'', ''log''] None True JNull demo_processes) = t' \<and>
     pt_calls t' = pt_calls demo_processes @ [Spawned 8] \<and> map_option pr_pid (bt_get (pt_records t') ''p'') = Some 8"
    by (rule failed_write_replaces_running [OF demo_record, of "dec 1 @ '':'' @ dec 2" _ _ "''full''" _ 0])
      (simp_all add: demo_process_env_def demo_identity demo_processes_def, simp_all add: demo_process_def)
  then show ?thesis by (simp add: demo_processes_def)
qed

theorem wait_ready_ends_witness:
  "\<exists>v t'. wait_ready (\<lambda>_. demo_process_env None) (\<lambda>n. n = 3) ''p'' 0 demo_processes = Some (v, t') \<and>
     (\<forall>r. v = Inr r \<longrightarrow> rd_state (pr_readiness r) = ReadinessReady)"
  by (rule wait_ready_ends [of "\<lambda>n. n = 3" 3]) simp_all

end
