(* ===== verification/Tunnel_Properties.thy ===== *)
theory Tunnel_Properties
  imports Tunnels Process_Properties Filesystem_Properties
begin

section \<open>Properties of tunnels\<close>

text \<open>
  The process table is the only place where the ports of tunnels are reserved: no two tunnels that are meant to
  run forward the same local port, through all actions, reconciliations and restarts.
\<close>

subsection \<open>Ports in the table\<close>

definition meta_port :: "json \<Rightarrow> nat option" where
  "meta_port meta =
     (if get_str meta ''kind'' = Some ''tunnel'' \<and> get_str meta ''desiredState'' = Some ''running'' \<and> get_str meta ''direction'' = Some ''local-forward''
      then map_option unat (as_u64 (jindex (jindex meta ''source'') ''port'')) else None)"

definition meta_tunnel :: "json \<Rightarrow> string option" where
  "meta_tunnel meta = get_str meta ''tunnelId''"

definition ports_ok :: "(string, process_record) btree_map \<Rightarrow> bool" where
  "ports_ok m \<longleftrightarrow> bt_wf m \<and> (\<forall>i r. bt_get m i = Some r \<longrightarrow> pr_id r = i) \<and>
     (\<forall>i r j q p. bt_get m i = Some r \<longrightarrow> bt_get m j = Some q \<longrightarrow> meta_port (pr_metadata r) = Some p \<longrightarrow> meta_port (pr_metadata q) = Some p \<longrightarrow>
        meta_tunnel (pr_metadata r) = meta_tunnel (pr_metadata q))"

definition table_ok :: "process_table \<Rightarrow> bool" where
  "table_ok t \<longleftrightarrow> ports_ok (pt_records t) \<and> (\<forall>m. pt_disk t = Some m \<longrightarrow> ports_ok m)"

text \<open>The other records leave the port of these metadata to the tunnel they name.\<close>

definition port_free :: "process_table \<Rightarrow> string \<Rightarrow> json \<Rightarrow> bool" where
  "port_free t i meta \<longleftrightarrow>
     (\<forall>j q p. bt_get (pt_records t) j = Some q \<longrightarrow> j \<noteq> i \<longrightarrow> meta_port meta = Some p \<longrightarrow> meta_port (pr_metadata q) = Some p \<longrightarrow>
        meta_tunnel (pr_metadata q) = meta_tunnel meta)"

lemma persisted_disk: "pt_disk (snd (process_persist io t)) = pt_disk t \<or> pt_disk (snd (process_persist io t)) = Some (pt_records t)"
  by (simp add: process_persist_def split: option.splits)

lemma table_ok_persist: "table_ok t \<Longrightarrow> table_ok (snd (process_persist io t))"
  using persisted_disk [of io t] by (auto simp: table_ok_def)

lemma put_record_disk [simp]: "pt_disk (put_record r i t) = pt_disk t"
  by (simp add: put_record_def)

lemma ports_okD:
  assumes "ports_ok m" "bt_get m i = Some r"
  shows "pr_id r = i"
    and "bt_get m j = Some q \<Longrightarrow> meta_port (pr_metadata r) = Some p \<Longrightarrow> meta_port (pr_metadata q) = Some p \<Longrightarrow>
      meta_tunnel (pr_metadata r) = meta_tunnel (pr_metadata q)"
  using assms unfolding ports_ok_def by blast+

lemma ports_ok_insert:
  assumes "ports_ok m" "pr_id r = i"
    and free: "\<And>j q p. bt_get m j = Some q \<Longrightarrow> j \<noteq> i \<Longrightarrow> meta_port (pr_metadata r) = Some p \<Longrightarrow> meta_port (pr_metadata q) = Some p \<Longrightarrow>
      meta_tunnel (pr_metadata q) = meta_tunnel (pr_metadata r)"
  shows "ports_ok (bt_insert i r m)"
  unfolding ports_ok_def bt_get_insert_any
proof (intro conjI allI impI)
  show "bt_wf (bt_insert i r m)" using assms(1) by (simp add: ports_ok_def bt_wf_insert)
next
  fix k q assume "(if k = i then Some r else bt_get m k) = Some q"
  with assms(1,2) show "pr_id q = k" by (auto simp: ports_ok_def split: if_splits)
next
  fix k q l u p
  assume q: "(if k = i then Some r else bt_get m k) = Some q" and u: "(if l = i then Some r else bt_get m l) = Some u"
    and p: "meta_port (pr_metadata q) = Some p" "meta_port (pr_metadata u) = Some p"
  show "meta_tunnel (pr_metadata q) = meta_tunnel (pr_metadata u)"
  proof (cases "k = i")
    case True
    with q have [simp]: "q = r" by simp
    show ?thesis using u p free [of l u p] by (cases "l = i") auto
  next
    case k: False
    show ?thesis
    proof (cases "l = i")
      case True
      with u have "u = r" by simp
      with q k p free [of k q p] show ?thesis by simp
    next
      case False
      with k q u have "bt_get m k = Some q" "bt_get m l = Some u" by simp_all
      from ports_okD(2) [OF assms(1) this p] show ?thesis .
    qed
  qed
qed

lemma table_ok_put: "table_ok t \<Longrightarrow> pr_id r = i \<Longrightarrow> port_free t i (pr_metadata r) \<Longrightarrow> table_ok (put_record r i t)"
  unfolding table_ok_def put_record_fields put_record_disk port_free_def by (intro conjI ports_ok_insert) auto

lemma port_free_own: "table_ok t \<Longrightarrow> bt_get (pt_records t) i = Some r \<Longrightarrow> port_free t i (pr_metadata r)"
  unfolding table_ok_def ports_ok_def port_free_def by blast

lemma port_free_none: "meta_port meta = None \<Longrightarrow> port_free t i meta"
  by (simp add: port_free_def)

text \<open>What is known of the metadata of all records.\<close>

definition metas :: "process_table \<Rightarrow> string \<Rightarrow> json option" where
  "metas t i = map_option pr_metadata (bt_get (pt_records t) i)"

lemma port_free_iff:
  "port_free t i meta \<longleftrightarrow> (\<forall>j v p. metas t j = Some v \<longrightarrow> j \<noteq> i \<longrightarrow> meta_port meta = Some p \<longrightarrow> meta_port v = Some p \<longrightarrow> meta_tunnel v = meta_tunnel meta)"
  unfolding port_free_def metas_def by fastforce

lemma port_free_metas: "metas t' = metas t \<Longrightarrow> port_free t' i meta = port_free t i meta"
  by (simp add: port_free_iff)

lemma metas_put: "metas (put_record r i t) = (metas t)(i \<mapsto> pr_metadata r)"
  by (simp add: metas_def fun_eq_iff bt_get_insert_any)

lemma metas_persist [simp]: "metas (snd (process_persist io t)) = metas t"
  by (simp add: metas_def fun_eq_iff)

lemma metas_own: "bt_get (pt_records t) i = Some r \<Longrightarrow> (metas t)(i \<mapsto> pr_metadata r) = metas t"
  by (auto simp: metas_def fun_eq_iff)

subsection \<open>Operations of the table\<close>

lemma refresh_id [simp]: "pr_id (refresh os w r) = pr_id r"
  using refresh_lives_on [of r os w] by (simp add: lives_on_def same_process_def)

lemma table_ok_id: "table_ok t \<Longrightarrow> bt_get (pt_records t) i = Some r \<Longrightarrow> pr_id r = i"
  by (simp add: table_ok_def ports_ok_def)

lemma table_ok_refreshed:
  "table_ok t \<Longrightarrow> bt_get (pt_records t) i = Some r \<Longrightarrow> table_ok (put_record (refresh os w r) i t)"
  by (rule table_ok_put) (simp_all add: table_ok_id port_free_own)

lemma get_table:
  assumes "process_get env i t = (x, t')"
  shows "table_ok t \<Longrightarrow> table_ok t'" "metas t' = metas t"
proof (atomize (full), cases "bt_get (pt_records t) i")
  case (Some r)
  let ?r = "refresh (pe_platform env) (pe_world env 0) r"
  from assms Some have "t' = snd (process_persist (pe_io env 0) (put_record ?r i t))"
    by (auto simp: process_get_def Let_def sbind_def split: sum.splits prod.splits)
  with Some show "(table_ok t \<longrightarrow> table_ok t') \<and> metas t' = metas t"
    by (simp add: table_ok_persist table_ok_refreshed metas_put metas_own)
qed (use assms in \<open>simp add: process_get_def\<close>)

lemma refresh_records_metas: "map_option pr_metadata (bt_get (refresh_records os ws m) i) = map_option pr_metadata (bt_get m i)"
  using bt_get_refresh_records [of os ws m i] by auto

lemma refresh_records_keys: "map fst (refresh_records os ws m) = map fst m"
  by (induction os ws m rule: refresh_records.induct) simp_all

lemma refresh_records_ok:
  assumes "ports_ok m"
  shows "ports_ok (refresh_records os ws m)"
proof -
  have earlier: "\<exists>q. bt_get m i = Some q \<and> pr_id r = pr_id q \<and> pr_metadata r = pr_metadata q" if "bt_get (refresh_records os ws m) i = Some r" for i r
    using bt_get_refresh_records [of os ws m i] that by auto
  show ?thesis unfolding ports_ok_def
  proof (intro conjI allI impI)
    show "bt_wf (refresh_records os ws m)" using assms refresh_records_keys [of os ws m] by (simp add: ports_ok_def bt_wf_def)
  next
    fix i r assume "bt_get (refresh_records os ws m) i = Some r"
    with earlier assms show "pr_id r = i" unfolding ports_ok_def by fastforce
  next
    fix i r j q p
    assume "bt_get (refresh_records os ws m) i = Some r" "bt_get (refresh_records os ws m) j = Some q"
      and p: "meta_port (pr_metadata r) = Some p" "meta_port (pr_metadata q) = Some p"
    with earlier obtain r' q' where "bt_get m i = Some r'" "pr_metadata r = pr_metadata r'" "bt_get m j = Some q'" "pr_metadata q = pr_metadata q'" by meson
    with p ports_okD(2) [OF assms, of i r' j q' p] show "meta_tunnel (pr_metadata r) = meta_tunnel (pr_metadata q)" by simp
  qed
qed

lemma list_table:
  assumes "process_list env t = (records, t')"
  shows "table_ok t \<Longrightarrow> table_ok t'" "metas t' = metas t" "records = map snd (pt_records t')"
proof -
  let ?t = "t\<lparr>pt_records := refresh_records (pe_platform env) (pe_world env) (pt_records t)\<rparr>"
  have t': "t' = snd (process_persist (pe_io env 0) ?t)" and r: "records = map snd (pt_records t')"
    using assms by (auto simp: process_list_def refresh_all_def Let_def)
  show "table_ok t'" if "table_ok t" unfolding t'
    by (rule table_ok_persist) (use that in \<open>simp add: table_ok_def refresh_records_ok\<close>)
  show "metas t' = metas t" unfolding t' by (simp add: metas_def refresh_records_metas fun_eq_iff)
  show "records = map snd (pt_records t')" by (rule r)
qed

lemma update_table:
  assumes "update_metadata env i metadata t = (x, t')" "table_ok t" "port_free t i metadata"
  shows "table_ok t'"
proof (cases "bt_get (pt_records t) i")
  case (Some r)
  let ?r = "r\<lparr>pr_metadata := metadata, pr_updated_at := pe_now env 0\<rparr>"
  from assms(1) Some have "t' = snd (process_persist (pe_io env 0) (put_record ?r i t))"
    by (auto simp: update_metadata_def Let_def sbind_def split: sum.splits prod.splits)
  with Some assms(2,3) show ?thesis by (auto intro!: table_ok_persist table_ok_put simp: table_ok_id)
qed (use assms in \<open>simp add: update_metadata_def\<close>)

lemma stop_table:
  assumes "process_stop env i t = (x, t')"
  shows "table_ok t \<Longrightarrow> table_ok t'" "metas t' = metas t"
proof (atomize (full), cases "bt_get (pt_records t) i")
  case (Some r)
  let ?r = "refresh (pe_platform env) (pe_world env 0) r"
  let ?called = "(put_record ?r i t)\<lparr>pt_calls := pt_calls t @ [Signalled (pr_pid ?r)]\<rparr>"
  let ?stopped = "?r\<lparr>pr_state := ProcessStopped, pr_updated_at := pe_now env 0\<rparr>"
  have cases: "t' = put_record ?r i t \<or> t' = snd (process_persist (pe_io env 0) (put_record ?r i t)) \<or> t' = ?called \<or>
      t' = snd (process_persist (pe_io env 0) (put_record ?stopped i ?called))"
    using assms Some by (auto simp: process_stop_def Let_def sbind_def split: if_splits sum.splits prod.splits)
  have called: "metas ?called = metas t" using Some by (simp add: metas_def fun_eq_iff bt_get_insert_any)
  have "table_ok ?called" if "table_ok t" using table_ok_refreshed [OF that Some] by (simp add: table_ok_def)
  moreover have "table_ok (put_record ?stopped i ?called)" if "table_ok t"
    by (rule table_ok_put [OF calculation [OF that]])
      (use that Some in \<open>simp_all add: table_ok_id port_free_metas [OF called] port_free_own\<close>)
  moreover have "metas (put_record ?stopped i ?called) = metas t" using Some by (simp only: metas_put called) (simp add: metas_own)
  ultimately show "(table_ok t \<longrightarrow> table_ok t') \<and> metas t' = metas t"
    using cases Some called by (elim disjE) (simp_all add: table_ok_persist table_ok_refreshed metas_put metas_own)
qed (use assms in \<open>simp add: process_stop_def\<close>)

lemma start_table:
  assumes "process_start env i cwd argv vars log_path readiness restartable metadata t = (x, t')" "table_ok t" "port_free t i metadata"
  shows "table_ok t'"
proof -
  obtain found t1 where g: "process_get env i t = (found, t1)" by (rule prod.exhaust)
  note t1 = get_table(1) [OF g assms(2)] get_table(2) [OF g]
  let ?new = "\<lambda>start pid. new_record env i cwd argv vars log_path readiness restartable metadata start pid"
  have "t' = t \<or> t' = t1 \<or>
      (\<exists>start pid. t' = snd (process_persist (pe_io env 1) ((put_record (?new start pid) i t1)\<lparr>pt_calls := pt_calls t1 @ [Spawned pid]\<rparr>)))"
    using assms(1) by (auto simp: process_start_def g Let_def sbind_def split: if_splits sum.splits prod.splits option.splits) (metis snd_conv)+
  moreover have "table_ok ((put_record (?new start pid) i t1)\<lparr>pt_calls := l\<rparr>)" for start pid l
    using table_ok_put [OF t1(1), of "?new start pid" i] assms(3)
    by (simp add: port_free_metas [OF t1(2)] new_record_def Let_def table_ok_def)
  ultimately show ?thesis using assms(2) t1(1) by (auto intro: table_ok_persist)
qed

lemma restart_table:
  assumes "process_restart env i t = (x, t')" "table_ok t"
  shows "table_ok t'"
proof -
  obtain found t1 where g: "process_get env i t = (found, t1)" by (rule prod.exhaust)
  note t1 = get_table(1) [OF g assms(2)]
  show ?thesis
  proof (cases "\<exists>q. found = Inr q \<and> pr_restartable q")
    case False
    then have "t' = t1" using assms(1) g by (auto simp: process_restart_def sbind_def split: sum.splits)
    with t1 show ?thesis by simp
  next
    case True
    then obtain q where q: "found = Inr q" "pr_restartable q" by blast
    from get_result [of env i t q t1] g q(1) have at: "bt_get (pt_records t1) i = Some q" by auto
    then have id: "pr_id q = i" by (rule table_ok_id [OF t1])
    obtain res t2 where s: "process_stop (after 1 1 env) i t1 = (res, t2)" by (rule prod.exhaust)
    note t2 = stop_table(1) [OF s t1]
    have free: "port_free t2 i (pr_metadata q)" using port_free_own [OF t1 at] by (simp add: port_free_metas [OF stop_table(2) [OF s]])
    obtain res3 t3 where st: "process_start (after 3 2 env) (pr_id q) (pr_cwd q) (pr_argv q) (pr_env q) (pr_log_path q)
        (pr_readiness_spec q) True (pr_metadata q) t2 = (res3, t3)" by (rule prod.exhaust)
    from start_table [OF st t2] free id have "table_ok t3" by simp
    moreover have "t' = t2 \<or> t' = t3" using assms(1) g q s st by (auto simp: process_restart_def sbind_def split: sum.splits)
    ultimately show ?thesis using t2 by blast
  qed
qed

lemma logs_table: "process_logs env i tail t = (x, t') \<Longrightarrow> table_ok t \<Longrightarrow> table_ok t'"
  by (cases "process_get env i t")
    (auto simp: process_logs_def sbind_def Let_def dest: get_table(1) split: sum.splits prod.splits)

lemma wait_table:
  assumes "wait_ready envs late i n t = Some (v, t')" "table_ok t"
  shows "table_ok t'"
proof -
  have "table_ok t \<longrightarrow> table_ok (snd vt)" if "wait_ready envs late i n t = Some vt" for envs late i n t vt
  proof (rule wait_ready.raw_induct [where P = "\<lambda>envs late i n t vt. table_ok t \<longrightarrow> table_ok (snd vt)", OF _ that])
    fix f envs late i n t vt
    assume IH: "\<And>envs late i n t vt. f envs late i n t = Some vt \<Longrightarrow> table_ok t \<longrightarrow> table_ok (snd vt)"
      and body: "(case process_get (envs n) i t of
        (Inl e, t) \<Rightarrow> Some (Inl e, t)
      | (Inr r, t) \<Rightarrow> (case wait_verdict (late n) r of Some v \<Rightarrow> Some (v, t) | None \<Rightarrow> f envs late i (Suc n) t)) = Some vt"
    obtain x t1 where g: "process_get (envs n) i t = (x, t1)" by (rule prod.exhaust)
    from body IH get_table(1) [OF g] show "table_ok t \<longrightarrow> table_ok (snd vt)"
      by (auto simp: g split: sum.splits option.splits)
  qed
  from this [OF assms(1)] assms(2) show ?thesis by simp
qed

subsection \<open>Actions\<close>

text \<open>An action keeps the table in order.\<close>

definition keeps_table :: "(managed \<Rightarrow> (rpc_error + 'a) \<times> managed) \<Rightarrow> bool" where
  "keeps_table f \<longleftrightarrow> (\<forall>s r s'. f s = (r, s') \<longrightarrow> table_ok (snd s) \<longrightarrow> table_ok (snd s'))"

lemma keeps_tableI: "(\<And>s r s'. f s = (r, s') \<Longrightarrow> table_ok (snd s) \<Longrightarrow> table_ok (snd s')) \<Longrightarrow> keeps_table f"
  unfolding keeps_table_def by blast

lemma keeps_pure [simp]: "keeps_table (\<lambda>s. (r, s))"
  by (simp add: keeps_table_def)

lemma keeps_sbind:
  assumes "keeps_table f" "\<And>a. keeps_table (g a)"
  shows "keeps_table (\<lambda>s. sbind (f s) g)"
proof (rule keeps_tableI)
  fix s r s' assume b: "sbind (f s) g = (r, s')" and ok: "table_ok (snd s)"
  obtain v s1 where f: "f s = (v, s1)" by (rule prod.exhaust)
  with assms(1) ok have s1: "table_ok (snd s1)" unfolding keeps_table_def by blast
  show "table_ok (snd s')"
  proof (cases v)
    case (Inr a)
    with b f have "g a s1 = (r, s')" by simp
    with s1 assms(2) [of a] show ?thesis unfolding keeps_table_def by blast
  qed (use b f s1 in simp)
qed

lemma keeps_read: "(\<And>a. keeps_table (g a)) \<Longrightarrow> keeps_table (\<lambda>s. sbind (h (fst s), s) g)"
  by (rule keeps_sbind) (simp_all add: keeps_table_def)

lemma keeps_on_table: "(\<And>t x t'. f t = (x, t') \<Longrightarrow> table_ok t \<Longrightarrow> table_ok t') \<Longrightarrow> keeps_table (on_table f)"
  by (rule keeps_tableI) (auto simp: on_table_def split: prod.splits)

lemma keeps_get: "keeps_table (on_table (process_get env i))"
  by (rule keeps_on_table) (rule get_table(1))

lemma start_action_keeps: "keeps_table (process_start_action env penv action params)"
  unfolding process_start_action_def
  by (intro keeps_read keeps_sbind keeps_pure keeps_on_table)
    (erule (1) start_table, simp add: port_free_none meta_port_def get_str_def)

lemma config_table: "(let (r, x) = f (fst s) in (r, (x, snd s))) = (v, s1) \<Longrightarrow> snd s1 = snd s"
  by (auto split: prod.splits)

lemma tunnel_start_table:
  assumes "tunnel_start net env penv params process_id direction bind_host bind_port target_host target_port ssh_host metadata s = (r, s')"
    and "table_ok (snd s)" "port_free (snd s) process_id metadata"
  shows "table_ok (snd s')"
proof -
  have run: "table_ok (snd u')"
    if "snd u = snd s" and "(sbind (on_table (process_start penv process_id cwd argv [] log_path readiness True metadata) u) (\<lambda>r s.
          sbind (on_table (process_get (after 2 2 penv) (pr_id r)) s) (\<lambda>r s. (Inr (tunnel_view net r False), s)))) = (v, u')"
    for u cwd argv log_path readiness v u'
  proof -
    obtain x t1 where st: "process_start penv process_id cwd argv [] log_path readiness True metadata (snd s) = (x, t1)" by (rule prod.exhaust)
    from start_table [OF st assms(2,3)] have t1: "table_ok t1" .
    have k: "keeps_table (\<lambda>s. sbind (on_table (process_get (after 2 2 penv) (pr_id r)) s) (\<lambda>r s. (Inr (tunnel_view net r False), s)))" for r
      by (intro keeps_sbind keeps_get keeps_pure)
    show ?thesis
    proof (cases x)
      case (Inl e)
      with that st t1 show ?thesis by (auto simp: on_table_def)
    next
      case (Inr a)
      with that st have "sbind (on_table (process_get (after 2 2 penv) (pr_id a)) (fst u, t1)) (\<lambda>r s. (Inr (tunnel_view net r False), s)) = (v, u')"
        by (simp add: on_table_def)
      with k [of a] t1 show ?thesis unfolding keeps_table_def by fastforce
    qed
  qed
  show ?thesis
    using assms(1,2) unfolding tunnel_start_def Let_def
    by (auto simp: sbind_def [of "(_, _)"] split: sum.splits prod.splits if_splits dest!: run [rotated] dest: config_table)
qed

lemma keeps_const: "(\<And>a. v = Inr a \<Longrightarrow> keeps_table (g a)) \<Longrightarrow> keeps_table (\<lambda>s. sbind (v, s) g)"
  by (cases v) (simp_all add: keeps_table_def)

lemma keeps_if: "keeps_table f \<Longrightarrow> keeps_table g \<Longrightarrow> keeps_table (\<lambda>s. if b then f s else g s)"
  by (cases b) simp_all

lemma metadata_fields:
  "get_str (tunnel_metadata params i h d bh bp th tp) ''kind'' = Some ''tunnel''"
  "get_str (tunnel_metadata params i h d bh bp th tp) ''desiredState'' = Some ''running''"
  "get_str (tunnel_metadata params i h d bh bp th tp) ''direction'' = Some d"
  "get_str (tunnel_metadata params i h d bh bp th tp) ''tunnelId'' = Some i"
  "bp \<le> 65535 \<Longrightarrow> map_option unat (as_u64 (jindex (jindex (tunnel_metadata params i h d bh bp th tp) ''source'') ''port'')) = Some bp"
  by (simp_all add: tunnel_metadata_def get_str_def bt_get_def jindex_def jnat_def unat_of_nat)

text \<open>When no other tunnel takes the port, it is free for the new one.\<close>

lemma find_port_free:
  assumes "find (takes_port i d bp h) (map snd (pt_records t)) = None" "bp \<le> 65535"
  shows "port_free t k (tunnel_metadata params i h d bh bp th tp)"
  unfolding port_free_def
proof (intro allI impI)
  fix j q p
  assume j: "bt_get (pt_records t) j = Some q" and new: "meta_port (tunnel_metadata params i h d bh bp th tp) = Some p"
    and port: "meta_port (pr_metadata q) = Some p"
  from new have d: "d = ''local-forward''" and p: "p = bp"
    using assms(2) by (auto simp: meta_port_def metadata_fields split: if_splits)
  from j have "q \<in> set (map snd (pt_records t))" unfolding bt_get_def by (force dest: map_of_SomeD)
  with assms(1) have "\<not> takes_port i d bp h q" by (auto simp: find_None_iff)
  with port d p have "get_str (pr_metadata q) ''tunnelId'' = Some i"
    by (auto simp: takes_port_def meta_port_def Let_def get_str_def jindex_def split: if_splits option.splits)
  then show "meta_tunnel (pr_metadata q) = meta_tunnel (tunnel_metadata params i h d bh bp th tp)"
    by (simp add: meta_tunnel_def metadata_fields)
qed

lemma required_port_bound: "required_port params key = Inr p \<Longrightarrow> p \<le> 65535"
  by (auto simp: required_port_def word_le_nat_alt split: option.splits if_splits)

lemma ensure_checked:
  assumes "bp \<le> 65535"
  shows "keeps_table (\<lambda>s. let (records, t) = process_list penv (snd s); s = (fst s, t); n = length records in
     case find (takes_port i d bp h) records of
       Some r \<Rightarrow> (Inl (refusal r), s)
     | None \<Rightarrow>
         let metadata = tunnel_metadata params i h d bh bp th tp; (found, s) = on_table (process_get (after n 1 penv) k) s
         in case found of
              Inr existing \<Rightarrow>
                if pr_state existing = ProcessRunning then (tunnel_conflict net existing metadata i, s)
                else tunnel_start net env (after (n + 1) 2 penv) params k d bh bp th tp h metadata s
            | Inl _ \<Rightarrow> tunnel_start net env (after (n + 1) 2 penv) params k d bh bp th tp h metadata s)"
  (is "keeps_table ?f")
proof (rule keeps_tableI)
  fix s r s' assume f: "?f s = (r, s')" and ok: "table_ok (snd s)"
  obtain records t where l: "process_list penv (snd s) = (records, t)" by (rule prod.exhaust)
  note t = list_table(1) [OF l ok]
  show "table_ok (snd s')"
  proof (cases "find (takes_port i d bp h) records")
    case (Some q)
    with f l t show ?thesis by auto
  next
    case None
    let ?metadata = "tunnel_metadata params i h d bh bp th tp"
    from None have free: "port_free t k ?metadata"
      unfolding list_table(3) [OF l] by (rule find_port_free [OF _ assms])
    obtain found t1 where g: "process_get (after (length records) 1 penv) k t = (found, t1)" by (rule prod.exhaust)
    have "table_ok t1" "port_free t1 k ?metadata"
      using get_table(1) [OF g t] free port_free_metas [OF get_table(2) [OF g]] by blast+
    with f l None g show ?thesis
      by (auto simp: on_table_def Let_def split: sum.splits if_splits dest!: tunnel_start_table)
  qed
qed

lemma ensure_keeps: "keeps_table (tunnel_ensure net env penv params)"
  unfolding tunnel_ensure_def Let_def [of "''tunnel-'' @ _"]
  by (intro keeps_const keeps_if keeps_pure ensure_checked) (rule required_port_bound)

lemma tunnel_get_keeps: "keeps_table (tunnel_get net penv params)"
  unfolding tunnel_get_def by (intro keeps_const keeps_sbind keeps_get keeps_pure)

lemma events_keeps: "keeps_table (process_events penv params)"
  unfolding process_events_def by (intro keeps_const keeps_sbind keeps_get keeps_pure)

lemma list_keeps: "keeps_table (\<lambda>s. let (records, t) = process_list penv (snd s) in (f records, (fst s, t)))"
  by (rule keeps_tableI) (auto split: prod.splits dest: list_table(1))

lemma port_check_keeps: "keeps_table (port_check net penv params)"
  unfolding port_check_def Let_def [of "_ \<and> _"]
  by (intro keeps_const keeps_if keeps_pure list_keeps)

lemma stopped_free:
  assumes "jset meta ''desiredState'' (JStr ''stopped'') = Some v"
  shows "port_free t i v"
proof -
  have "get_str v ''desiredState'' = Some ''stopped''"
    using assms by (cases meta) (auto simp: get_str_def bt_get_insert_any, simp add: bt_get_def)
  then show ?thesis by (intro port_free_none) (simp add: meta_port_def)
qed

lemma keeps_update: "(\<And>t. port_free t i v) \<Longrightarrow> keeps_table (on_table (update_metadata env i v))"
  by (rule keeps_on_table) (erule (1) update_table)

lemma keeps_unlink:
  "keeps_table (\<lambda>s. case remove_file sys (xr_files (fst s)) c of
     Inr fs \<Rightarrow> (a, (put_files fs (fst s), snd s)) | Inl e \<Rightarrow> if P s then (b, s) else (d e, s))"
  by (rule keeps_tableI) (auto split: sum.splits if_splits)

lemma keeps_stop: "keeps_table (on_table (process_stop env i))"
  by (rule keeps_on_table) (rule stop_table(1))

lemma tunnel_stop_keeps: "keeps_table (tunnel_stop net env penv params)"
  unfolding tunnel_stop_def Let_def
  by (intro keeps_const keeps_sbind keeps_get keeps_stop keeps_update keeps_unlink)
    (auto simp: ok_or_def intro: stopped_free split: option.splits)

definition answers_keep :: "(managed \<Rightarrow> ((rpc_error + json) \<times> managed) option) \<Rightarrow> bool" where
  "answers_keep f \<longleftrightarrow> (\<forall>s r s'. f s = Some (r, s') \<longrightarrow> table_ok (snd s) \<longrightarrow> table_ok (snd s'))"

lemma answers_some: "keeps_table f \<Longrightarrow> answers_keep (\<lambda>s. Some (f s))"
  by (simp add: answers_keep_def keeps_table_def)

lemma answers_if: "answers_keep f \<Longrightarrow> answers_keep g \<Longrightarrow> answers_keep (\<lambda>s. if b then f s else g s)"
  by (cases b) simp_all

lemma answers_wait:
  "answers_keep (\<lambda>s. case v of Inl e \<Rightarrow> Some (Inl e, s)
     | Inr i \<Rightarrow> map_option (\<lambda>(r, t). (map_sum id process_json r, (fst s, t))) (wait_ready pe late i 0 (snd s)))"
  by (auto simp: answers_keep_def split: sum.splits dest: wait_table)

lemma keeps_reply:
  assumes "\<And>i. keeps_table (on_table (f i))"
  shows "keeps_table (\<lambda>s. sbind (v, s) (\<lambda>i s. sbind (on_table (f i) s) (\<lambda>r s. (Inr (process_json r), s))))"
  by (intro keeps_const keeps_sbind keeps_pure assms)

lemma keeps_logs: "keeps_table (\<lambda>s. sbind (v, s) (\<lambda>i s. on_table (process_logs penv i n) s))"
  by (intro keeps_const keeps_on_table) (rule logs_table)

lemma keeps_restart: "keeps_table (on_table (process_restart penv i))"
  by (rule keeps_on_table) (rule restart_table)

lemma dispatch_keeps: "answers_keep (\<lambda>s. process_dispatch net env pe late action params s)"
  unfolding process_dispatch_def tunnel_list_def Let_def
  by (intro answers_if answers_some answers_wait ensure_keeps tunnel_get_keeps list_keeps [unfolded Let_def] tunnel_stop_keeps start_action_keeps
      keeps_reply keeps_get keeps_stop keeps_restart events_keeps keeps_logs port_check_keeps)

subsection \<open>Reconciliation and restarts\<close>

lemma stamped_free:
  assumes "table_ok t" "bt_get (pt_records t) i = Some r" "jset (pr_metadata r) ''lastReconcileAttemptAt'' v = Some meta"
  shows "port_free t i meta"
proof -
  have "jget meta k = jget (pr_metadata r) k" if "k \<noteq> ''lastReconcileAttemptAt''" for k
    using assms(3) that by (cases "pr_metadata r") (auto simp: bt_get_insert_any, simp add: bt_get_def)
  then have "meta_port meta = meta_port (pr_metadata r)" "meta_tunnel meta = meta_tunnel (pr_metadata r)"
    by (simp_all add: meta_port_def meta_tunnel_def get_str_def jindex_def)
  with port_free_own [OF assms(1,2)] show ?thesis by (simp add: port_free_def)
qed

lemma metas_calls: "metas (t\<lparr>pt_calls := l\<rparr>) = metas t"
  by (simp add: metas_def fun_eq_iff)

lemma new_record_metadata: "pr_metadata (new_record env i cwd argv vars log_path readiness restartable metadata start pid) = metadata"
  by (simp add: new_record_def Let_def)

lemma start_metas:
  assumes "process_start env i cwd argv vars log_path readiness restartable metadata t = (x, t')"
  shows "metas t' = metas t \<or> metas t' = (metas t)(i \<mapsto> metadata)"
proof -
  obtain found t1 where g: "process_get env i t = (found, t1)" by (rule prod.exhaust)
  let ?new = "\<lambda>start pid. new_record env i cwd argv vars log_path readiness restartable metadata start pid"
  have "t' = t \<or> t' = t1 \<or>
      (\<exists>start pid. t' = snd (process_persist (pe_io env 1) ((put_record (?new start pid) i t1)\<lparr>pt_calls := pt_calls t1 @ [Spawned pid]\<rparr>)))"
    using assms(1) by (auto simp: process_start_def g Let_def sbind_def split: if_splits sum.splits prod.splits option.splits) (metis snd_conv)+
  moreover have "metas ((put_record (?new start pid) i t1)\<lparr>pt_calls := l\<rparr>) = (metas t)(i \<mapsto> metadata)" for start pid l
    by (simp add: metas_calls metas_put new_record_metadata get_table(2) [OF g])
  ultimately show ?thesis using get_table(2) [OF g] by auto
qed

lemma restart_metas:
  assumes "process_restart env i t = (x, t')" "table_ok t"
  shows "metas t' = metas t"
proof -
  obtain found t1 where g: "process_get env i t = (found, t1)" by (rule prod.exhaust)
  note t1 = get_table(1) [OF g assms(2)] get_table(2) [OF g]
  show ?thesis
  proof (cases "\<exists>q. found = Inr q \<and> pr_restartable q")
    case False
    then have "t' = t1" using assms(1) g by (auto simp: process_restart_def sbind_def split: sum.splits)
    with t1 show ?thesis by simp
  next
    case True
    then obtain q where q: "found = Inr q" "pr_restartable q" by blast
    from get_result [of env i t q t1] g q(1) have at: "bt_get (pt_records t1) i = Some q" by auto
    then have id: "pr_id q = i" by (rule table_ok_id [OF t1(1)])
    obtain res t2 where s: "process_stop (after 1 1 env) i t1 = (res, t2)" by (rule prod.exhaust)
    obtain res3 t3 where st: "process_start (after 3 2 env) (pr_id q) (pr_cwd q) (pr_argv q) (pr_env q) (pr_log_path q)
        (pr_readiness_spec q) True (pr_metadata q) t2 = (res3, t3)" by (rule prod.exhaust)
    have "metas t3 = metas t1"
      using start_metas [OF st] metas_own [OF at] unfolding stop_table(2) [OF s] id by auto
    moreover have "t' = t2 \<or> t' = t3" using assms(1) g q s st by (auto simp: process_restart_def sbind_def split: sum.splits)
    ultimately show ?thesis using stop_table(2) [OF s] t1(2) by auto
  qed
qed

lemma update_metas:
  assumes "update_metadata env i metadata t = (x, t')"
  shows "metas t' = metas t \<or> metas t' = (metas t)(i \<mapsto> metadata)"
proof (cases "bt_get (pt_records t) i")
  case (Some r)
  let ?r = "r\<lparr>pr_metadata := metadata, pr_updated_at := pe_now env 0\<rparr>"
  from assms(1) Some have "t' = snd (process_persist (pe_io env 0) (put_record ?r i t))"
    by (auto simp: update_metadata_def Let_def sbind_def split: sum.splits prod.splits)
  then show ?thesis using metas_put [of ?r i t] by simp
qed (use assms in \<open>simp add: update_metadata_def\<close>)

text \<open>The metadata that are waiting to be written agree with those in the table and with each other.\<close>

definition agree :: "json \<Rightarrow> json \<Rightarrow> bool" where
  "agree v w \<longleftrightarrow> (\<forall>p. meta_port v = Some p \<longrightarrow> meta_port w = Some p \<longrightarrow> meta_tunnel v = meta_tunnel w)"

definition all_agree :: "process_table \<Rightarrow> json set \<Rightarrow> bool" where
  "all_agree t vs \<longleftrightarrow> (\<forall>v \<in> vs \<union> ran (metas t). \<forall>w \<in> vs \<union> ran (metas t). agree v w)"

lemma agree_free: "all_agree t vs \<Longrightarrow> v \<in> vs \<Longrightarrow> port_free t i v"
  unfolding all_agree_def agree_def port_free_iff ran_def by fastforce

lemma all_agree_mono: "all_agree t vs \<Longrightarrow> ws \<union> ran (metas t') \<subseteq> vs \<union> ran (metas t) \<Longrightarrow> all_agree t' ws"
  unfolding all_agree_def by blast

lemma stamped_agrees:
  assumes "jset v ''lastReconcileAttemptAt'' x = Some w"
  shows "agree w u \<longleftrightarrow> agree v u" "agree u w \<longleftrightarrow> agree u v"
proof -
  have "jget w k = jget v k" if "k \<noteq> ''lastReconcileAttemptAt''" for k
    using assms that by (cases v) (auto simp: bt_get_insert_any, simp add: bt_get_def)
  then have "meta_port w = meta_port v" "meta_tunnel w = meta_tunnel v"
    by (simp_all add: meta_port_def meta_tunnel_def get_str_def jindex_def)
  then show "agree w u \<longleftrightarrow> agree v u" "agree u w \<longleftrightarrow> agree u v" by (simp_all add: agree_def)
qed

lemma all_agree_stamped:
  assumes "all_agree t vs" "v \<in> vs" "jset v ''lastReconcileAttemptAt'' x = Some w"
  shows "all_agree t (insert w vs)"
proof -
  have "agree v v" "\<forall>u \<in> vs \<union> ran (metas t). agree v u \<and> agree u v" using assms(1,2) unfolding all_agree_def by blast+
  with assms(1) show ?thesis unfolding all_agree_def by (auto simp: stamped_agrees [OF assms(3)])
qed

lemma reconcile_each_ok:
  assumes "table_ok (snd s)" "all_agree (snd s) (pr_metadata ` set rs)"
  shows "table_ok (snd (reconcile_each e pe now rs s))"
  using assms
proof (induction rs arbitrary: e pe s)
  case (Cons r rs)
  let ?env = "e 0"
  obtain begun resources where b: "resources_begin (xe_sha ?env) (xe_clock ?env) (xe_io ?env 0) (reconcile_keys ?env (fst s) (pr_metadata r)) []
      (xr_resources (fst s)) = (begun, resources)" by (rule prod.exhaust)
  have weaker: "all_agree (snd s) (pr_metadata ` set rs)" by (rule all_agree_mono [OF Cons.prems(2)]) auto
  show ?case
  proof (cases begun)
    case (Inl er)
    with b Cons.prems(1) weaker Cons.IH show ?thesis by (simp add: Let_def)
  next
    case (Inr permit)
    show ?thesis
    proof (cases "jset (pr_metadata r) ''lastReconcileAttemptAt'' (junum now)")
      case None
      with b Inr Cons.prems(1) weaker Cons.IH show ?thesis by (simp add: Let_def)
    next
      case (Some w)
      note with_w = all_agree_stamped [OF Cons.prems(2) _ Some, simplified]
      obtain x1 t1 where u: "update_metadata (pe 0) (pr_id r) w (snd s) = (x1, t1)" by (rule prod.exhaust)
      obtain x2 t2 where rs: "process_restart (after 0 1 (pe 0)) (pr_id r) t1 = (x2, t2)" by (rule prod.exhaust)
      have t1: "table_ok t1" using update_table [OF u Cons.prems(1)] agree_free [OF with_w] by simp
      note t2 = restart_table [OF rs t1] restart_metas [OF rs t1]
      have "ran (metas t2) \<subseteq> insert w (ran (metas (snd s)))"
        using update_metas [OF u] unfolding t2(2) by (auto simp: ran_def split: if_splits)
      then have "all_agree t2 (pr_metadata ` set rs)" by (intro all_agree_mono [OF with_w]) auto
      with b Inr Some u rs t2(1) Cons.IH show ?thesis by (simp add: Let_def)
    qed
  qed
qed simp

lemma table_agrees:
  assumes "table_ok t"
  shows "all_agree t (pr_metadata ` snd ` set (pt_records t))"
proof -
  have wf: "bt_wf (pt_records t)" using assms by (simp add: table_ok_def ports_ok_def)
  have source: "\<exists>i r. bt_get (pt_records t) i = Some r \<and> v = pr_metadata r"
    if "v \<in> pr_metadata ` snd ` set (pt_records t) \<union> ran (metas t)" for v
  proof (cases "v \<in> ran (metas t)")
    case False
    with that obtain k r where "(k, r) \<in> set (pt_records t)" "v = pr_metadata r" by auto
    with bt_entry_iff [OF wf] show ?thesis by blast
  qed (auto simp: metas_def ran_def)
  show ?thesis unfolding all_agree_def
  proof (intro ballI)
    fix v w assume vw: "v \<in> pr_metadata ` snd ` set (pt_records t) \<union> ran (metas t)" "w \<in> pr_metadata ` snd ` set (pt_records t) \<union> ran (metas t)"
    from source [OF vw(1)] source [OF vw(2)] obtain i r j q where
      at: "bt_get (pt_records t) i = Some r" "v = pr_metadata r" "bt_get (pt_records t) j = Some q" "w = pr_metadata q" by blast
    from assms have "ports_ok (pt_records t)" by (simp add: table_ok_def)
    from ports_okD(2) [OF this at(1,3)] show "agree v w" unfolding agree_def at(2,4) by blast
  qed
qed

lemma reconcile_keeps: "table_ok (snd s) \<Longrightarrow> table_ok (snd (reconcile_tunnels e pe now s))"
proof -
  assume ok: "table_ok (snd s)"
  obtain records t where l: "process_list (pe 0) (snd s) = (records, t)" by (rule prod.exhaust)
  note t = list_table(1) [OF l ok] list_table(3) [OF l]
  have "all_agree t (pr_metadata ` set (filter (reconcile_due now) records))"
    by (rule all_agree_mono [OF table_agrees [OF t(1)]]) (auto simp: t(2))
  with t(1) l show ?thesis by (simp add: reconcile_tunnels_def reconcile_each_ok)
qed

subsection \<open>Ports are exclusive\<close>

text \<open>
  The runs of an Executor with its processes: actions, reconciliations, and a crash that reopens the table from
  its file.
\<close>

inductive managed_step :: "managed \<Rightarrow> managed \<Rightarrow> bool" where
  acted: "process_dispatch net env pe late action params s = Some (r, s') \<Longrightarrow> managed_step s s'"
| reconciled: "managed_step s (reconcile_tunnels e pe now s)"
| reopened: "process_open penv (Inr (pt_disk (snd s))) = Inr t \<Longrightarrow> managed_step s (x, t)"

lemma open_ok:
  assumes "process_open penv (Inr (pt_disk t)) = Inr t'" "table_ok t"
  shows "table_ok t'"
proof -
  let ?m = "refresh_records (pe_platform penv) (pe_world penv) (unwrap_or [] (pt_disk t))"
  let ?t = "\<lparr>pt_records = ?m, pt_stored = True, pt_disk = pt_disk t, pt_calls = []\<rparr>"
  have "ports_ok []" by (simp add: ports_ok_def bt_wf_def bt_get_def)
  then have "ports_ok (unwrap_or [] (pt_disk t))"
    using assms(2) by (cases "pt_disk t") (simp_all add: unwrap_or_def table_ok_def)
  then have "table_ok ?t" using assms(2) by (simp add: table_ok_def refresh_records_ok)
  moreover have "t' = snd (process_persist (pe_io penv 0) ?t)"
    using assms(1) by (simp add: process_open_def refresh_all_def split: sum.splits prod.splits)
  ultimately show ?thesis by (simp add: table_ok_persist)
qed

lemma managed_ok: "managed_step\<^sup>*\<^sup>* s s' \<Longrightarrow> table_ok (snd s) \<Longrightarrow> table_ok (snd s')"
proof (induction rule: rtranclp_induct)
  case (step s1 s2)
  from step(2) step.IH [OF step.prems] show ?case
  proof cases
    case (acted net env pe late action params r)
    with dispatch_keeps [of net env pe late action params] step.IH [OF step.prems] show ?thesis unfolding answers_keep_def by blast
  qed (auto simp: reconcile_keeps open_ok)
qed

text \<open>
  C24. Starting from an empty table, no two tunnels that are meant to run forward the same local port, whatever
  actions, reconciliations, failed writes, crashes and restarts from the file have happened.
\<close>

theorem tunnel_ports_exclusive:
  assumes "managed_step\<^sup>*\<^sup>* (x, \<lparr>pt_records = [], pt_stored = True, pt_disk = None, pt_calls = []\<rparr>) (x', t)"
    and "bt_get (pt_records t) i = Some r" "bt_get (pt_records t) j = Some q"
    and "\<forall>meta \<in> {pr_metadata r, pr_metadata q}. get_str meta ''kind'' = Some ''tunnel'' \<and> get_str meta ''desiredState'' = Some ''running'' \<and>
       get_str meta ''direction'' = Some ''local-forward'' \<and> as_u64 (jindex (jindex meta ''source'') ''port'') = Some port"
  shows "get_str (pr_metadata r) ''tunnelId'' = get_str (pr_metadata q) ''tunnelId''"
proof -
  have "table_ok \<lparr>pt_records = [], pt_stored = True, pt_disk = None, pt_calls = []\<rparr>"
    by (simp add: table_ok_def ports_ok_def bt_wf_def bt_get_def)
  with managed_ok [OF assms(1)] have "ports_ok (pt_records t)" by (simp add: table_ok_def)
  from ports_okD(2) [OF this assms(2,3), of "unat port"] assms(4) show ?thesis
    by (simp add: meta_port_def meta_tunnel_def)
qed

subsection \<open>The log of a process\<close>

text \<open>The path a list of components leads to when no component is a link.\<close>

definition plainly :: "path \<Rightarrow> path" where
  "plainly p = fold (\<lambda>c q. if c = ''..'' then butlast q else q @ [c]) p []"

text \<open>
  C40. The name of the default log file is made from the identifier of the process, which is not checked. Take
  an Executor that works below a directory of the file system's root and whose allowed roots do not contain
  the path /out.log. A request to start a process in that directory, with an
  identifier made of parent components, makes it open and create the log at that very path, outside every allowed
  root, although each path of the request was checked.
\<close>

theorem log_leaves_roots:
  assumes params: "params = JObj [(''argv'', JArr [JStr ''serve'']), (''cwd'', JStr cwd_text), (''processId'', JStr ''x/../../out'')]" "cwd_text \<noteq> []"
    and cwd: "write_path env x params ''cwd'' True = Inr root" "root = [''/'', name]" "name \<noteq> ''..''" "\<not> under_roots (xr_allowed_roots x) [''/'', ''out.log'']"
    and log: "pe_open_log penv (root @ [''.workbench-x'', ''..'', ''..'', ''out.log'']) = Inr start"
    and spawn: "pe_spawn penv [''serve''] root [] (root @ [''.workbench-x'', ''..'', ''..'', ''out.log'']) = Inr pid"
    and fresh: "bt_get (pt_records t) ''x/../../out'' = None" "pe_io penv 1 = None"
  shows "\<exists>v t' r. process_start_action env penv ''process.start'' params (x, t) = (Inr v, (x, t')) \<and>
     bt_get (pt_records t') ''x/../../out'' = Some r \<and> plainly (pr_log_path r) = [''/'', ''out.log''] \<and>
     \<not> under_roots (xr_allowed_roots x) (plainly (pr_log_path r))"
proof -
  have log_path: "log_file root ''x/../../out'' = root @ [''.workbench-x'', ''..'', ''..'', ''out.log'']"
    by (simp add: log_file_def components_def Let_def)
  let ?r = "new_record penv ''x/../../out'' root [''serve''] [] (root @ [''.workbench-x'', ''..'', ''..'', ''out.log'']) None False JNull start pid"
  let ?t = "snd (process_persist None ((put_record ?r ''x/../../out'' t)\<lparr>pt_calls := pt_calls t @ [Spawned pid]\<rparr>))"
  have "process_start penv ''x/../../out'' root [''serve''] [] (root @ [''.workbench-x'', ''..'', ''..'', ''out.log'']) None False JNull t = (Inr ?r, ?t)"
    using log spawn fresh by (simp add: process_start_def process_get_def Let_def process_persist_def)
  then have "process_start_action env penv ''process.start'' params (x, t) = (Inr (process_json ?r), (x, ?t))"
    using params cwd(1) log_path
    by (simp add: process_start_action_def required_str_def get_str_def bt_get_def string_array_def validate_command_def Let_def
        path_file_name_def components_def is_normal_def on_table_def get_bool_def unwrap_or_def)
  moreover have "bt_get (pt_records ?t) ''x/../../out'' = Some ?r" by (simp add: bt_get_insert_any)
  moreover have "plainly (pr_log_path ?r) = [''/'', ''out.log'']" "\<not> under_roots (xr_allowed_roots x) [''/'', ''out.log'']"
    using cwd(2-4) by (simp_all add: new_record_def Let_def plainly_def)
  ultimately show ?thesis by metis
qed

subsection \<open>A concrete tunnel\<close>

definition demo_net :: tunnel_net where
  "demo_net = \<lparr>tn_reachable = (\<lambda>_ _. False), tn_listening = (\<lambda>_ _ _. None), tn_bind = (\<lambda>_ _. BindFree),
     tn_ssh_config = (\<lambda>_. Inr (True, [], [])), tn_text = Some, tn_text_error = id, tn_now = 9\<rparr>"

definition demo_tunnel :: json where
  "demo_tunnel = JObj [(''bindHost'', JStr ''h''), (''bindPort'', jnat 9), (''cwd'', JStr ''/w''), (''direction'', JStr ''local-forward''),
     (''sshHost'', JStr ''s''), (''targetHost'', JStr ''t''), (''targetPort'', jnat 8), (''tunnelId'', JStr ''a'')]"

definition demo_empty :: process_table where
  "demo_empty = \<lparr>pt_records = [], pt_stored = True, pt_disk = None, pt_calls = []\<rparr>"

abbreviation demo_meta :: json where
  "demo_meta \<equiv> tunnel_metadata demo_tunnel ''a'' ''s'' ''local-forward'' ''h'' 9 ''t'' 8"

lemma demo_cwd:
  "get_str params ''cwd'' = Some ''/w'' \<Longrightarrow> write_path demo_exec_env (demo_exec demo_files) params ''cwd'' must = Inr [''/'', ''w'']"
  by (simp add: checked_path_def resolve_path_def components_def demo_exec_env_def demo_os_def demo_exec_def demo_files_def plain_def
      path_absolute_def proper_name_def is_normal_def bt_get_def under_roots_def path_within_def)

lemma demo_roots: "xr_allowed_roots (demo_exec fs) = [[''/'', ''w'']]"
  by (simp add: demo_exec_def)

lemma demo_config: "\<exists>x. write_tunnel_ssh_config demo_net demo_exec_env ''s'' [''/'', ''w'', c] (demo_exec demo_files) = (Inr (), x)"
proof -
  have "\<exists>fs. write_file demo_os demo_files [''/'', ''w'', c] b = Inr fs" for b
    by (simp add: write_file_def os_call_def demo_os_def demo_files_def ok_or_def bt_get_def path_parent_def is_file_def)
  then obtain fs where "write_file demo_os demo_files [''/'', ''w'', c] (sanitize_tunnel_ssh_config []) = Inr fs" by blast
  moreover have "os_call demo_os ''chmod'' p (Some ()) = Inr ()" for p by (simp add: os_call_def demo_os_def ok_or_def)
  ultimately show ?thesis by (simp add: write_tunnel_ssh_config_def demo_net_def fs_step_def demo_exec_files)
qed

lemma demo_tunnel_fields:
  "required_str demo_tunnel ''tunnelId'' = Inr ''a''" "required_str demo_tunnel ''direction'' = Inr ''local-forward''"
  "required_str demo_tunnel ''bindHost'' = Inr ''h''" "required_port demo_tunnel ''bindPort'' = Inr 9" "required_str demo_tunnel ''targetHost'' = Inr ''t''"
  "required_port demo_tunnel ''targetPort'' = Inr 8" "required_str demo_tunnel ''sshHost'' = Inr ''s''" "get_str demo_tunnel ''cwd'' = Some ''/w''"
  "get_str demo_tunnel ''logPath'' = None" "get_str demo_tunnel ''knownHostsFile'' = None" "validate_resource_id ''a'' = Inr ()"
  by (simp_all add: demo_tunnel_def required_str_def required_port_def get_str_def get_u64_def bt_get_def jnat_def validate_resource_id_def
      ascii_alphanumeric_def)

lemma demo_tunnel_started:
  "\<exists>v x t. process_dispatch demo_net demo_exec_env (\<lambda>_. demo_process_env None) (\<lambda>_. True) ''tunnel.ensure'' demo_tunnel
      (demo_exec demo_files, demo_empty) = Some (v, (x, t)) \<and> metas t ''tunnel-a'' = Some demo_meta"
proof -
  let ?penv = "demo_process_env None" and ?t0 = "demo_empty\<lparr>pt_disk := Some []\<rparr>" and ?x = "demo_exec demo_files"
  let ?config = "[''/'', ''w'', ''.workbench-tunnel-a.ssh-config'']" and ?log = "[''/'', ''w'', ''.workbench-tunnel-a.log'']"
  let ?argv = "tunnel_ssh_argv ''s'' ?config ''local-forward'' ''h'' 9 ''t'' 8"
  have listed: "process_list ?penv demo_empty = ([], ?t0)"
    by (simp add: process_list_def refresh_all_def demo_process_env_def demo_empty_def process_persist_def Let_def)
  have absent: "process_get env ''tunnel-a'' ?t0 = (Inl (process_not_found ''tunnel-a''), ?t0)" for env
    by (simp add: process_get_def demo_empty_def bt_get_def)
  obtain x where config: "write_tunnel_ssh_config demo_net demo_exec_env ''s'' ?config ?x = (Inr (), x)" using demo_config by blast
  obtain r t1 where started: "process_start (after 1 2 ?penv) ''tunnel-a'' [''/'', ''w''] ?argv [] ?log (tunnel_readiness ''local-forward'' ''h'' 9)
      True demo_meta ?t0 = (Inr r, t1)" and m1: "metas t1 ''tunnel-a'' = Some demo_meta" and id: "pr_id r = ''tunnel-a''"
  proof -
    have "\<exists>r t1. process_start (after 1 2 ?penv) ''tunnel-a'' [''/'', ''w''] ?argv [] ?log (tunnel_readiness ''local-forward'' ''h'' 9) True demo_meta ?t0
        = (Inr r, t1) \<and> metas t1 ''tunnel-a'' = Some demo_meta \<and> pr_id r = ''tunnel-a''"
      unfolding process_start_def absent
      by (simp add: Let_def demo_process_env_def after_def process_persist_def tunnel_ssh_argv_def metas_def bt_get_insert_any new_record_def)
    then show thesis using that by blast
  qed
  obtain y t2 where got: "process_get (after 2 2 (after 1 2 ?penv)) ''tunnel-a'' t1 = (y, t2)" by (rule prod.exhaust)
  have "metas t2 ''tunnel-a'' = Some demo_meta" using get_table(2) [OF got] m1 by simp
  moreover have "tunnel_start demo_net demo_exec_env (after 1 2 ?penv) demo_tunnel ''tunnel-a'' ''local-forward'' ''h'' 9 ''t'' 8 ''s'' demo_meta (?x, ?t0) =
      (map_sum id (\<lambda>r. tunnel_view demo_net r False) y, (x, t2))"
    using config started got id
    by (cases y) (simp_all add: tunnel_start_def demo_cwd demo_tunnel_fields on_table_def)
  ultimately show ?thesis
    by (simp add: process_dispatch_def tunnel_ensure_def demo_tunnel_fields listed absent on_table_def)
qed

theorem tunnel_ports_exclusive_witness:
  "\<exists>x t r. managed_step\<^sup>*\<^sup>* (demo_exec demo_files, demo_empty) (x, t) \<and> bt_get (pt_records t) ''tunnel-a'' = Some r \<and>
     get_str (pr_metadata r) ''tunnelId'' = get_str (pr_metadata r) ''tunnelId''"
proof -
  obtain v x t where d: "process_dispatch demo_net demo_exec_env (\<lambda>_. demo_process_env None) (\<lambda>_. True) ''tunnel.ensure'' demo_tunnel
      (demo_exec demo_files, demo_empty) = Some (v, (x, t))" and m: "metas t ''tunnel-a'' = Some demo_meta"
    using demo_tunnel_started by blast
  from m obtain r where r: "bt_get (pt_records t) ''tunnel-a'' = Some r" "pr_metadata r = demo_meta" by (auto simp: metas_def)
  have run: "managed_step\<^sup>*\<^sup>* (demo_exec demo_files, demo_empty) (x, t)" by (rule r_into_rtranclp) (rule acted [OF d])
  have port: "as_u64 (jindex (jindex demo_meta ''source'') ''port'') = Some 9"
    by (simp add: tunnel_metadata_def jindex_def bt_get_def jnat_def)
  have "get_str (pr_metadata r) ''tunnelId'' = get_str (pr_metadata r) ''tunnelId''"
    by (rule tunnel_ports_exclusive [OF run [unfolded demo_empty_def] r(1) r(1), of 9]) (simp add: r(2) metadata_fields port)
  with run r(1) show ?thesis by blast
qed

theorem log_leaves_roots_witness:
  "\<exists>v t' r. process_start_action demo_exec_env (demo_process_env None) ''process.start''
       (JObj [(''argv'', JArr [JStr ''serve'']), (''cwd'', JStr ''/w''), (''processId'', JStr ''x/../../out'')]) (demo_exec demo_files, demo_empty) =
       (Inr v, (demo_exec demo_files, t')) \<and>
     bt_get (pt_records t') ''x/../../out'' = Some r \<and> plainly (pr_log_path r) = [''/'', ''out.log''] \<and>
     \<not> under_roots (xr_allowed_roots (demo_exec demo_files)) (plainly (pr_log_path r))"
  by (rule log_leaves_roots [OF refl, where root = "[''/'', ''w'']" and name = "''w''" and cwd_text = "''/w''" and start = 0 and pid = 8])
    (simp_all add: demo_cwd get_str_def bt_get_def demo_process_env_def demo_empty_def demo_roots under_roots_def path_within_def)

end
