(* ===== verification/Spec2Isabelle.thy ===== *)
theory Spec2Isabelle
  imports Task_Properties Desktop_Properties Resources Util_Properties Authority_Properties Tunnel_Properties
begin

text \<open>
  \<^bold>\<open>A verification of the distributed workbench.\<close> The program is a Controller that coordinates
  agents working on shared workspaces and Executors that act on machines. This library models
  the parts that decide who may do what: leases, tasks, resources, the desktop queue, the whole
  request handling of the Controller and of an Executor with its files and its catalogue of
  capabilities, and the record of what happened.

  \<^bold>\<open>Foundations.\<close>
  \<^item> \<^verbatim>\<open>Prelude\<close>: saturating 64-bit arithmetic, results, strings, and the ordered map interface
    (a locale with an instance on sorted association lists). \<^verbatim>\<open>Json\<close>: the JSON values.
  \<^item> \<^verbatim>\<open>Schema\<close> (\<^verbatim>\<open>crates/workbench-schema\<close>): every record and enumeration. \<^verbatim>\<open>Protocol\<close>
    (\<^verbatim>\<open>crates/workbench-protocol\<close>): requests, responses, errors.

  \<^bold>\<open>Tables and stores.\<close>
  \<^item> \<^verbatim>\<open>Lease_Table\<close> (\<^verbatim>\<open>workbench-core/src/lease.rs\<close>): leases with fencing numbers, handoffs, restart.
    The locale \<open>fenced_store\<close> states what a store of fenced leases promises; the table, the
    Executor's resources and the Controller with its state file are three instances. The table
    refines an abstract specification, a counted lock per resource.
  \<^item> \<^verbatim>\<open>Task_Table\<close>, \<^verbatim>\<open>Task_Properties\<close> (\<^verbatim>\<open>task.rs\<close>): submission, transitions, retry, redaction,
    retention, recovery after a restart.
  \<^item> \<^verbatim>\<open>Observability\<close> (\<^verbatim>\<open>observability.rs\<close>): runs, observations, paging and pruning.
  \<^item> \<^verbatim>\<open>Resources\<close> (\<^verbatim>\<open>workbench-runtime/src/resource.rs\<close>): an Executor's leases, permits and quarantine.
  \<^item> \<^verbatim>\<open>Desktop_Queue\<close>, \<^verbatim>\<open>Desktop_Properties\<close> (\<^verbatim>\<open>desktop.rs\<close>, part of \<^verbatim>\<open>executor.rs\<close>): the queue for the
    interactive desktop. The locale \<open>entity_store\<close> is shared with tasks and runs.

  \<^bold>\<open>The Controller\<close> (\<^verbatim>\<open>workbench-runtime/src/controller.rs\<close>, \<^verbatim>\<open>workbench-core/src/store.rs\<close>), in the order
  in which its parts call each other:
  \<^item> \<^verbatim>\<open>Controller_Util\<close>, \<^verbatim>\<open>Util_Properties\<close>: its free functions.
  \<^item> \<^verbatim>\<open>Controller\<close>: its state, persistence and opening. \<^verbatim>\<open>Driver\<close>: routing, one request with its
    observations, leases, driver handoffs and agent mutations.
  \<^item> \<^verbatim>\<open>Record_History\<close>: the laws by which sessions, generations, transactions, handoffs and approvals
    change; the locale \<open>record_law\<close> has an instance for each. \<^verbatim>\<open>Registry\<close>: the handlers of these
    records and of executors, peers, agents, artifacts and read grants.
  \<^item> \<^verbatim>\<open>Operations\<close>: tasks and ports. \<^verbatim>\<open>Operator\<close>: runs, observations over several Controllers, health,
    and the operator's grants, nonces and actions. \<^verbatim>\<open>Invoke\<close>: the invocation of a capability in its
    stages, asynchronous tasks and their workers; \<open>controller_actions\<close> is the whole dispatcher.
  \<^item> \<^verbatim>\<open>Driver_Properties\<close>, \<^verbatim>\<open>Registry_Properties\<close>, \<^verbatim>\<open>Action_Moves\<close>: every handler is a sequence of moves, each
    of which is a step of the lease table, a write of the file, or a change by the laws.
  \<^item> \<^verbatim>\<open>Controller_Properties\<close>: runs of the Controller through requests, workers, failed writes and
    crashes, and what holds along them. \<^verbatim>\<open>Invoke_Properties\<close>, \<^verbatim>\<open>Lock_Properties\<close>: what an invocation
    promises, and the operator, waiting, asynchronous tasks and merged queries.

  \<^bold>\<open>The Executor\<close> (\<^verbatim>\<open>workbench-runtime/src/executor.rs\<close>):
  \<^item> \<^verbatim>\<open>Catalog\<close>: the contracts of all capabilities on each platform. \<^verbatim>\<open>Catalog_Properties\<close>: that every
    contract is well formed, and that an input its schema accepts renders its locks.
  \<^item> \<^verbatim>\<open>Paths\<close>: paths, a file tree and the calls of the operating system on it. \<^verbatim>\<open>Executor_State\<close>: the
    runtime, its opening, fences and read grants with their file, the resolution of paths and the
    authority of a request. \<^verbatim>\<open>Filesystem\<close>: the actions on files and artifacts. \<^verbatim>\<open>Relay\<close>: the actions by
    which an artifact leaves one Executor and is staged and committed on another. \<^verbatim>\<open>Executor\<close>: commands,
    builds, grants, and a request from its admission to its observation.
  \<^item> \<^verbatim>\<open>Filesystem_Properties\<close>: what each action does to the tree. \<^verbatim>\<open>Executor_Properties\<close>: fences
    along requests, failed writes and restarts. \<^verbatim>\<open>Relay_Properties\<close>: staging and committing.
  \<^item> \<^verbatim>\<open>Process_Table\<close> (\<^verbatim>\<open>workbench-runtime/src/process.rs\<close>): the table of processes with its file, how a record
    follows what the operating system says on the three platforms, readiness, starting, stopping and
    waiting. \<^verbatim>\<open>Process_Properties\<close>: which processes are signalled, how a record may change, that waiting ends.
  \<^item> \<^verbatim>\<open>Tunnels\<close>: the actions of \<^verbatim>\<open>executor.rs\<close> on processes, agents, logs, ports and tunnels and the reconciliation of
    tunnels, as a dispatcher \<open>process_dispatch\<close> of its own: in \<open>executor_dispatch\<close> these arms belong to the argument
    \<open>xe_native\<close>, and the call of \<^verbatim>\<open>reconcile_tunnels\<close> at the start of \<^verbatim>\<open>handle\<close> is not part of \<open>executor_handle\<close> but a step
    beside it. \<^verbatim>\<open>Tunnel_Properties\<close>: the ports of tunnels along runs of all these steps.

  \<^bold>\<open>Both together.\<close>
  \<^item> \<^verbatim>\<open>Artifact_Transfer\<close> (\<^verbatim>\<open>relay_artifact\<close> and its helpers in \<^verbatim>\<open>controller.rs\<close>): the transfer of an artifact
    on one Executor, as an archive, or file by file, over any caller of Executors.
  \<^item> \<^verbatim>\<open>Transfer_Properties\<close>: the lease that brackets a transfer; the locale \<open>block_channel\<close> states what the loop
    over the blocks of a file needs of the two ends, and its instance is a fleet of modelled Executors.
  \<^item> \<^verbatim>\<open>Authority_Properties\<close>: the two renderings of a lock template agree, and the authority a Controller sends
    with a call is the one its Executor asks for.

  \<^bold>\<open>Conventions.\<close> A stateful operation takes the state and returns its result (a sum, the error
  on the left) and the state it leaves. Clock readings and random identifiers are sequences
  indexed by their position in the operation; the outcome of each write of a file is an
  argument (an error text, or none), and a failed write leaves the file unchanged, as the
  atomic replacement does. SHA-256, the JSON text of a value, the decoders and encoders of records,
  the encoded size of a task, the size of the database file, the answers of other processes, the
  resolution of paths by the operating system (\<open>os\<close>; \<open>resolves\<close> is what is relied on), the effect of a
  command, the archive format, Base64 and the native services are parameters. A panic is the error \<open>panicked\<close>, a request that is never answered the error
  \<open>never_answers\<close>. Counters are 64-bit words; where an increment could wrap, the theorem says that
  the counter is not exhausted (\<open>unexhausted\<close>: counters below \<open>2 ^ 63\<close> and contracts with fewer than
  \<open>2 ^ 32\<close> locks). A crash loses the memory and reopens from the file.

  \<^bold>\<open>Fuel.\<close> No model uses fuel. Four loops of the code may not end: the rendering of a lock template,
  the polling of \<^verbatim>\<open>task.wait\<close>, the wait for the readiness of a process and the wait for a stable manifest. They are
  partial functions whose value is none then; that the first ends on inputs without a dollar sign, and the
  second and third once the deadline passes, is
  proved, and so is that the first does not on a self-referential input. The copy of a tree on one Executor
  ends because the operating system refuses paths beyond a length.

  \<^bold>\<open>What is shown.\<close> Fencing numbers grow along every run, for the table, for an Executor with
  crashes and failed writes, and for the Controller end to end; leases, permits and the desktop
  are exclusive; approvals and nonces are good for one use, only the driver acts on a workspace,
  and the locks of an invocation are taken together and released; handoffs move authority and revoke
  the old holder; sessions, generations, transactions and handoffs keep their laws across
  restarts; tasks, invocations and desktop sessions happen once and their histories only grow;
  restarts keep what was promised and quarantine what is uncertain; persisted secrets are redacted
  or digested; retention, pruning and asynchronous tasks keep their bounds; an Executor refuses a
  superseded driver across restarts, changes no file outside its roots, writes by compare and swap
  and restores what it removed; a commit of an artifact leaves the old or the new tree, a transfer releases its
  lease and copies each file byte for byte; an Executor accepts the authority of its Controller, signals only
  processes it has identified and keeps the ports of tunnels apart; and the error paths where the code strands work, loses events,
  mixes up files or trusts the client are stated as theorems of their own.

  \<^bold>\<open>Not modelled.\<close> \<^verbatim>\<open>status\<close> and \<^verbatim>\<open>dashboard.snapshot\<close>, which only format the state (the argument
  \<open>views\<close> of the dispatcher), the generations of applications on disk, the transfer between peers, the native
  services of an Executor (with the two above the argument \<open>xe_native\<close>), transport, platform services and the command line: they are
  mostly input and output around the modelled stores.
\<close>

end
